(* ===== verification/Prelude.thy ===== *)
theory Prelude
  imports Main "HOL-Library.List_Lexorder" "HOL-Library.Char_ord" "HOL-Library.Multiset"
begin

text \<open>
  What the component theories share: the names of the model's basic types, the
  collections of rewrite rules, Go's 64-bit arithmetic, and generic facts on lists
  (descending sorts and their uniqueness, prefixes of filtered lists).

  A Go \<open>string\<close> and a Go \<open>[]byte\<close> are both sequences of bytes; the model uses
  \<^typ>\<open>string\<close> (a list of 8-bit \<^typ>\<open>char\<close>s) for both, so that \<open>len\<close> is
  \<^const>\<open>length\<close>, \<open>==\<close> is equality and \<open><\<close> is the bytewise lexicographic order.
  A \<open>time.Time\<close> is the number of nanoseconds since Go's zero time, so that
  \<open>IsZero\<close>, \<open>Before\<close>, \<open>After\<close> and \<open>Equal\<close> are comparisons of integers, and
  \<open>UTC()\<close>, which changes the location and not the instant, is the identity.
\<close>

type_synonym bytes = string
type_synonym rune = nat
type_synonym gotime = int

text \<open>Results of fallible Go functions: \<open>Inl\<close> the error, \<open>Inr\<close> the value.\<close>

type_synonym ('e, 'a) result = "'e + 'a"

text \<open>
  \<open>encoding/json\<close> for a type of records: encoding a record and decoding a text, \<open>None\<close>
  being the error. The codec is a parameter of the operations that use it.
\<close>

record 'r json_codec =
  marshal :: "'r \<Rightarrow> string option"
  unmarshal :: "string \<Rightarrow> 'r option"

named_theorems go_defs \<open>definitions of operations that proofs unfold\<close>
named_theorems inv_intros \<open>preservation lemmas of component invariants\<close>
named_theorems list_specs \<open>characterisations of list-valued operations\<close>

section \<open>Go's int64 arithmetic\<close>

definition wrap64 :: "int \<Rightarrow> int" where
  "wrap64 x = (x + 2 ^ 63) mod 2 ^ 64 - 2 ^ 63"

definition int64 :: "int \<Rightarrow> bool" where
  "int64 x \<longleftrightarrow> - (2 ^ 63) \<le> x \<and> x < 2 ^ 63"

lemma wrap64_id [simp]: "int64 x \<Longrightarrow> wrap64 x = x"
  by (simp add: wrap64_def int64_def)

lemma wrap64_int64 [simp]: "int64 (wrap64 x)"
proof -
  have "0 \<le> (x + 2 ^ 63) mod 2 ^ 64" and "(x + 2 ^ 63) mod 2 ^ 64 < (2 :: int) ^ 64"
    by simp_all
  then show ?thesis
    by (simp add: wrap64_def int64_def)
qed

section \<open>Lists\<close>

text \<open>
  Go's \<open>sort.Slice\<close> is not stable: it promises a permutation of the slice with no
  inversion. When the keys are distinct there is only one such permutation, so the
  stable \<^const>\<open>sort_key\<close> of the model is the result of any conforming sort.
\<close>

definition desc_by :: "('a \<Rightarrow> 'k::linorder) \<Rightarrow> 'a list \<Rightarrow> bool" where
  "desc_by f xs \<longleftrightarrow> sorted_wrt (\<lambda>x y. f y \<le> f x) xs"

definition sort_desc :: "('a \<Rightarrow> 'k::linorder) \<Rightarrow> 'a list \<Rightarrow> 'a list" where
  "sort_desc f xs = rev (sort_key f (rev xs))"

lemma set_sort_desc [simp]: "set (sort_desc f xs) = set xs"
  by (simp add: sort_desc_def)

lemma mset_sort_desc [simp]: "mset (sort_desc f xs) = mset xs"
  by (simp add: sort_desc_def)

lemma length_sort_desc [simp]: "length (sort_desc f xs) = length xs"
  by (simp add: sort_desc_def)

lemma distinct_sort_desc [simp]: "distinct (map f (sort_desc f xs)) = distinct (map f xs)"
  by (metis mset_map mset_sort_desc mset_eq_imp_distinct_iff)

lemma desc_by_sort_desc [simp]: "desc_by f (sort_desc f xs)"
proof -
  have "sorted (map f (sort_key f (rev xs)))"
    by (rule sorted_sort_key)
  then show ?thesis
    by (simp add: desc_by_def sort_desc_def sorted_map sorted_wrt_rev)
qed

lemma desc_by_Cons [simp]:
  "desc_by f (x # xs) \<longleftrightarrow> (\<forall>y \<in> set xs. f y \<le> f x) \<and> desc_by f xs"
  by (simp add: desc_by_def)

lemma desc_by_Nil [simp]: "desc_by f []"
  by (simp add: desc_by_def)

lemma desc_by_strict:
  assumes "desc_by f (x # xs)" and "distinct (map f (x # xs))" and "y \<in> set xs"
  shows "f y < f x"
proof -
  have "f y \<le> f x" and "f x \<notin> f ` set xs"
    using assms by simp_all
  moreover from this(2) assms(3) have "f y \<noteq> f x"
    by (metis image_eqI)
  ultimately show ?thesis by simp
qed

lemma desc_by_filter: "desc_by f xs \<Longrightarrow> desc_by f (filter P xs)"
  by (simp add: desc_by_def sorted_wrt_filter)

lemma desc_by_take: "desc_by f xs \<Longrightarrow> desc_by f (take n xs)"
  by (simp add: desc_by_def sorted_wrt_take)

lemma desc_by_unique:
  assumes "mset xs = mset ys" and "desc_by f xs" and "desc_by f ys" and "distinct (map f xs)"
  shows "xs = ys"
proof -
  have inj: "inj_on f (set xs)" and "distinct xs"
    using assms(4) by (simp_all add: distinct_map)
  have "set xs = set ys"
    using assms(1) by (rule mset_eq_setD)
  have "sorted (map f (rev xs))" and "sorted (map f (rev ys))"
    using assms(2,3) by (simp_all add: desc_by_def sorted_map sorted_wrt_rev)
  moreover have "mset (map f (rev xs)) = mset (map f (rev ys))"
    using assms(1) by (simp add: rev_map [symmetric])
  ultimately have "map f (rev xs) = map f (rev ys)"
    by (metis properties_for_sort)
  then have "map f xs = map f ys"
    by (simp add: rev_map [symmetric])
  with inj \<open>set xs = set ys\<close> show ?thesis
    by (metis inj_on_map_eq_map sup.idem)
qed

text \<open>Any conforming descending sort of a slice with distinct keys is \<open>sort_desc\<close>.\<close>

lemma any_sort_is_sort_desc:
  assumes "mset ys = mset xs" and "desc_by f ys" and "distinct (map f xs)"
  shows "ys = sort_desc f xs"
proof (rule desc_by_unique [of _ _ f])
  show "mset ys = mset (sort_desc f xs)"
    using assms(1) by simp
  show "distinct (map f ys)"
    using assms(1,3) by (metis mset_map mset_eq_imp_distinct_iff)
qed (simp_all add: assms(2))

lemma sort_desc_id: "desc_by f xs \<Longrightarrow> distinct (map f xs) \<Longrightarrow> sort_desc f xs = xs"
  by (metis any_sort_is_sort_desc)

lemma sort_desc_filter:
  assumes "distinct (map f xs)"
  shows "sort_desc f (filter P xs) = filter P (sort_desc f xs)"
proof (rule any_sort_is_sort_desc [symmetric])
  show "mset (filter P (sort_desc f xs)) = mset (filter P xs)"
    by simp
  show "desc_by f (filter P (sort_desc f xs))"
    by (rule desc_by_filter) simp
  show "distinct (map f (filter P xs))"
    using assms by (simp add: distinct_map_filter)
qed

text \<open>
  Cutting a strictly descending list after its \<open>n\<close>-th element and keeping what lies
  below that element is dropping \<open>n\<close>: the step that makes a key-based cursor resume
  exactly where a page ended.
\<close>

lemma desc_filter_below_last:
  assumes "desc_by f xs" and "distinct (map f xs)" and "0 < n" and "n \<le> length xs"
  shows "filter (\<lambda>x. f x < f (last (take n xs))) xs = drop n xs"
  using assms
proof (induction xs arbitrary: n)
  case Nil
  then show ?case by simp
next
  case (Cons x xs)
  have below: "f y < f x" if "y \<in> set xs" for y
    using Cons.prems(1,2) that by (rule desc_by_strict)
  show ?case
  proof (cases "n = 1")
    case True
    have "filter (\<lambda>y. f y < f x) xs = xs"
      by (rule filter_True) (simp add: below)
    with True show ?thesis by simp
  next
    case False
    then obtain m where n: "n = Suc m" and m: "0 < m"
      using Cons.prems(3) by (cases n) auto
    with Cons.prems(4) have ml: "m \<le> length xs" by simp
    then have ne: "take m xs \<noteq> []" using m by auto
    then have "last (take m xs) \<in> set xs"
      by (meson in_set_takeD last_in_set)
    then have "\<not> f x < f (last (take m xs))"
      using below by (meson order.asym)
    with Cons.IH [of m] Cons.prems n m ml ne show ?thesis by simp
  qed
qed

text \<open>The guarded slice expression \<open>if len(xs) > n { xs = xs[:n] }\<close> is a prefix.\<close>

lemma take_if_longer: "(if n < int (length xs) then take (nat n) xs else xs) = take (nat n) xs"
  by (simp add: not_less)

text \<open>
  The first \<open>n\<close> elements of a descending list dominate the others; an element with fewer
  than \<open>n\<close> larger companions is among them.
\<close>

lemma desc_top_in_take:
  assumes "desc_by f xs" and "x \<in> set xs" and "\<forall>y \<in> set xs. f y \<le> f x"
    and "distinct (map f xs)" and "0 < n"
  shows "x \<in> set (take n xs)"
proof (cases xs)
  case Nil
  with assms(2) show ?thesis by simp
next
  case (Cons y ys)
  have "y = x"
  proof (rule ccontr)
    assume "y \<noteq> x"
    then have "x \<in> set ys" using assms(2) Cons by simp
    with assms(1,4) Cons have "f x < f y"
      by (metis desc_by_strict)
    moreover have "f y \<le> f x" using assms(3) Cons by simp
    ultimately show False by simp
  qed
  with Cons assms(5) show ?thesis by (cases n) simp_all
qed

end
