(* ===== verification/Go_Strings.thy ===== *)
theory Go_Strings
  imports Prelude "HOL-Library.Sublist"
begin

text \<open>
  The parts of Go's \<open>unicode/utf8\<close>, \<open>unicode\<close>, \<open>strings\<close> and \<open>strconv\<close>
  packages that the program calls, on byte strings.

  UTF-8 decoding and encoding, \<open>unicode.IsSpace\<close> and \<open>unicode.IsControl\<close> are given in
  full. The case mappings and general categories of the runes beyond ASCII are the
  tables of the Unicode character database that a Go release embeds; they are a
  parameter of type \<open>ucd\<close>. For ASCII runes the functions below compute what the Go
  functions compute without the tables.
\<close>

section \<open>UTF-8\<close>

definition byte :: "char \<Rightarrow> nat" where
  "byte c = of_char c"

definition RuneError :: rune where
  "RuneError = 65533"

definition cont :: "nat \<Rightarrow> nat \<Rightarrow> char list \<Rightarrow> nat \<Rightarrow> bool" where
  \<comment> \<open>the byte at an index exists and lies between two bounds\<close>
  "cont lo hi s i \<longleftrightarrow> i < length s \<and> lo \<le> byte (s ! i) \<and> byte (s ! i) \<le> hi"

text \<open>\<open>utf8.DecodeRuneInString\<close>: the first rune of a string and its width in bytes.\<close>

definition decodeRune :: "string \<Rightarrow> rune \<times> nat" where
  "decodeRune s =
    (case s of
       [] \<Rightarrow> (RuneError, 0)
     | c # _ \<Rightarrow>
         let b0 = byte c; low = (\<lambda>i. byte (s ! i) mod 64) in
         if b0 < 0x80 then (b0, 1)
         else if b0 < 0xC2 \<or> 0xF4 < b0 then (RuneError, 1)
         else if b0 < 0xE0 then
           (if cont 0x80 0xBF s 1 then (b0 mod 32 * 64 + low 1, 2) else (RuneError, 1))
         else if b0 < 0xF0 then
           (if cont (if b0 = 0xE0 then 0xA0 else 0x80) (if b0 = 0xED then 0x9F else 0xBF) s 1 \<and>
               cont 0x80 0xBF s 2
            then (b0 mod 16 * 4096 + low 1 * 64 + low 2, 3) else (RuneError, 1))
         else
           (if cont (if b0 = 0xF0 then 0x90 else 0x80) (if b0 = 0xF4 then 0x8F else 0xBF) s 1 \<and>
               cont 0x80 0xBF s 2 \<and> cont 0x80 0xBF s 3
            then (b0 mod 8 * 262144 + low 1 * 4096 + low 2 * 64 + low 3, 4)
            else (RuneError, 1)))"

text \<open>\<open>[]rune(s)\<close>, the runes a \<open>range\<close> loop over a string visits.\<close>

fun runes :: "string \<Rightarrow> rune list" where
  "runes [] = []"
| "runes (c # cs) =
     fst (decodeRune (c # cs)) # runes (drop (snd (decodeRune (c # cs)) - 1) cs)"

text \<open>\<open>utf8.ValidString\<close>.\<close>

fun utf8Valid :: "string \<Rightarrow> bool" where
  "utf8Valid [] = True"
| "utf8Valid (c # cs) =
     (decodeRune (c # cs) \<noteq> (RuneError, 1) \<and>
      utf8Valid (drop (snd (decodeRune (c # cs)) - 1) cs))"

text \<open>\<open>string(r)\<close>, \<open>utf8.AppendRune\<close>.\<close>

definition encodeRune :: "rune \<Rightarrow> string" where
  "encodeRune r0 =
    (let r = (if 0x10FFFF < r0 \<or> 0xD800 \<le> r0 \<and> r0 \<le> 0xDFFF then RuneError else r0) in
     if r < 0x80 then [char_of r]
     else if r < 0x800 then [char_of (0xC0 + r div 64), char_of (0x80 + r mod 64)]
     else if r < 0x10000 then
       [char_of (0xE0 + r div 4096), char_of (0x80 + r div 64 mod 64), char_of (0x80 + r mod 64)]
     else
       [char_of (0xF0 + r div 262144), char_of (0x80 + r div 4096 mod 64),
        char_of (0x80 + r div 64 mod 64), char_of (0x80 + r mod 64)])"

definition string_of_runes :: "rune list \<Rightarrow> string" where
  "string_of_runes rs = concat (map encodeRune rs)"

definition ascii :: "string \<Rightarrow> bool" where
  "ascii s \<longleftrightarrow> (\<forall>c \<in> set s. byte c < 0x80)"

lemma decodeRune_ascii [simp]: "byte c < 0x80 \<Longrightarrow> decodeRune (c # cs) = (byte c, 1)"
  by (simp add: decodeRune_def Let_def)

lemma decodeRune_width: "s \<noteq> [] \<Longrightarrow> 1 \<le> snd (decodeRune s) \<and> snd (decodeRune s) \<le> length s"
  by (cases s) (auto simp: decodeRune_def Let_def cont_def Suc_le_eq)

lemma runes_ascii: "ascii s \<Longrightarrow> runes s = map byte s"
  by (induction s) (simp_all add: ascii_def)

lemma utf8Valid_ascii: "ascii s \<Longrightarrow> utf8Valid s"
  by (induction s) (simp_all add: ascii_def RuneError_def)

lemma length_runes_le: "length (runes s) \<le> length s"
proof (induction s rule: runes.induct)
  case (2 c cs)
  have "1 \<le> snd (decodeRune (c # cs))" and "snd (decodeRune (c # cs)) \<le> length (c # cs)"
    using decodeRune_width [of "c # cs"] by simp_all
  with 2 show ?case by simp
qed simp

lemma runes_eq_Nil [simp]: "runes s = [] \<longleftrightarrow> s = []"
  by (cases s) simp_all

section \<open>Character classes\<close>

text \<open>The Unicode general categories that the program distinguishes.\<close>

datatype category = Lu | Ll | Nd | Punct | Symbol | OtherCategory

record ucd =
  ucd_lower :: "rune \<Rightarrow> rune"         \<comment> \<open>\<open>unicode.ToLower\<close>\<close>
  ucd_fold :: "rune \<Rightarrow> rune"          \<comment> \<open>the least rune of the \<open>unicode.SimpleFold\<close> orbit, in lower case if ASCII\<close>
  ucd_category :: "rune \<Rightarrow> category"

definition isControl :: "rune \<Rightarrow> bool" where
  "isControl r \<longleftrightarrow> r < 0x20 \<or> 0x7F \<le> r \<and> r < 0xA0"

definition isSpace :: "rune \<Rightarrow> bool" where
  "isSpace r \<longleftrightarrow> 0x09 \<le> r \<and> r \<le> 0x0D \<or> r = 0x20 \<or> r = 0x85 \<or> r = 0xA0 \<or> r = 0x1680 \<or>
     0x2000 \<le> r \<and> r \<le> 0x200A \<or> r = 0x2028 \<or> r = 0x2029 \<or> r = 0x202F \<or> r = 0x205F \<or> r = 0x3000"

definition ascii_category :: "rune \<Rightarrow> category" where
  "ascii_category r =
    (if 0x41 \<le> r \<and> r \<le> 0x5A then Lu
     else if 0x61 \<le> r \<and> r \<le> 0x7A then Ll
     else if 0x30 \<le> r \<and> r \<le> 0x39 then Nd
     else if r \<in> {0x24, 0x2B, 0x3C, 0x3D, 0x3E, 0x5E, 0x60, 0x7C, 0x7E} then Symbol
     else if 0x20 < r \<and> r < 0x7F then Punct
     else OtherCategory)"

definition category_of :: "ucd \<Rightarrow> rune \<Rightarrow> category" where
  "category_of U r = (if r < 0x80 then ascii_category r else ucd_category U r)"

definition lowerRune :: "ucd \<Rightarrow> rune \<Rightarrow> rune" where
  "lowerRune U r =
    (if r < 0x80 then (if 0x41 \<le> r \<and> r \<le> 0x5A then r + 32 else r) else ucd_lower U r)"

definition foldRune :: "ucd \<Rightarrow> rune \<Rightarrow> rune" where
  "foldRune U r =
    (if r < 0x80 then (if 0x41 \<le> r \<and> r \<le> 0x5A then r + 32 else r) else ucd_fold U r)"

text \<open>
  An instance of the tables for evaluation: the runes beyond ASCII keep their case,
  except those whose simple folding meets ASCII, the long s and the Kelvin sign.
\<close>

definition basic_ucd :: ucd where
  "basic_ucd =
    \<lparr>ucd_lower = (\<lambda>r. if r = 0x212A then 0x6B else r),
     ucd_fold = (\<lambda>r. if r = 0x212A then 0x6B else if r = 0x17F then 0x73 else r),
     ucd_category = (\<lambda>r. if r = 0x212A then Lu else if r = 0x17F then Ll else OtherCategory)\<rparr>"

section \<open>The strings package\<close>

text \<open>
  \<open>strings.TrimSpace\<close> removes white-space runes at both ends. The runes of
  \<^const>\<open>isSpace\<close> have encodings of one to three bytes; the next two functions give the
  width of a white-space rune at the start of a string, and at its end (on the reversed
  string), and 0 if there is none.
\<close>

definition space3 :: "nat \<Rightarrow> nat \<Rightarrow> nat \<Rightarrow> bool" where
  "space3 a b c \<longleftrightarrow>
     a = 0xE1 \<and> b = 0x9A \<and> c = 0x80 \<or>
     a = 0xE2 \<and> b = 0x80 \<and> (0x80 \<le> c \<and> c \<le> 0x8A \<or> c = 0xA8 \<or> c = 0xA9 \<or> c = 0xAF) \<or>
     a = 0xE2 \<and> b = 0x81 \<and> c = 0x9F \<or>
     a = 0xE3 \<and> b = 0x80 \<and> c = 0x80"

definition space1 :: "nat \<Rightarrow> bool" where
  "space1 a \<longleftrightarrow> 0x09 \<le> a \<and> a \<le> 0x0D \<or> a = 0x20"

definition space2 :: "nat \<Rightarrow> nat \<Rightarrow> bool" where
  "space2 a b \<longleftrightarrow> a = 0xC2 \<and> (b = 0x85 \<or> b = 0xA0)"

fun trimLeft :: "string \<Rightarrow> string" where
  "trimLeft (a # b # c # s) =
     (if space1 (byte a) then trimLeft (b # c # s)
      else if space2 (byte a) (byte b) then trimLeft (c # s)
      else if space3 (byte a) (byte b) (byte c) then trimLeft s
      else a # b # c # s)"
| "trimLeft [a, b] =
     (if space1 (byte a) then trimLeft [b] else if space2 (byte a) (byte b) then [] else [a, b])"
| "trimLeft [a] = (if space1 (byte a) then [] else [a])"
| "trimLeft [] = []"

fun trimRightRev :: "string \<Rightarrow> string" where
  "trimRightRev (a # b # c # s) =
     (if space1 (byte a) then trimRightRev (b # c # s)
      else if space2 (byte b) (byte a) then trimRightRev (c # s)
      else if space3 (byte c) (byte b) (byte a) then trimRightRev s
      else a # b # c # s)"
| "trimRightRev [a, b] =
     (if space1 (byte a) then trimRightRev [b] else if space2 (byte b) (byte a) then [] else [a, b])"
| "trimRightRev [a] = (if space1 (byte a) then [] else [a])"
| "trimRightRev [] = []"

definition TrimSpace :: "string \<Rightarrow> string" where
  "TrimSpace s = rev (trimRightRev (rev (trimLeft s)))"

definition ToLower :: "ucd \<Rightarrow> string \<Rightarrow> string" where
  "ToLower U s = string_of_runes (map (lowerRune U) (runes s))"

definition EqualFold :: "ucd \<Rightarrow> string \<Rightarrow> string \<Rightarrow> bool" where
  "EqualFold U s t \<longleftrightarrow> map (foldRune U) (runes s) = map (foldRune U) (runes t)"

fun HasPrefix :: "string \<Rightarrow> string \<Rightarrow> bool" where
  "HasPrefix s [] = True"
| "HasPrefix [] (p # ps) = False"
| "HasPrefix (c # s) (p # ps) = (c = p \<and> HasPrefix s ps)"

fun Contains :: "string \<Rightarrow> string \<Rightarrow> bool" where
  "Contains [] t = (t = [])"
| "Contains (c # s) t = (HasPrefix (c # s) t \<or> Contains s t)"

fun Join :: "string list \<Rightarrow> string \<Rightarrow> string" where
  "Join [] sep = []"
| "Join [s] sep = s"
| "Join (s # ss) sep = s @ sep @ Join ss sep"

text \<open>\<open>net.JoinHostPort\<close>: a host with a colon is an IPv6 address and is put into brackets.\<close>

definition JoinHostPort :: "string \<Rightarrow> string \<Rightarrow> string" where
  "JoinHostPort host port =
    (if CHR '':'' \<in> set host then ''['' @ host @ '']:'' @ port else host @ '':'' @ port)"

text \<open>\<open>strings.ReplaceAll\<close> for a non-empty pattern.\<close>

function ReplaceAll :: "string \<Rightarrow> string \<Rightarrow> string \<Rightarrow> string" where
  "ReplaceAll [] old new = []"
| "ReplaceAll (c # s) old new =
     (if old \<noteq> [] \<and> HasPrefix (c # s) old then new @ ReplaceAll (drop (length old) (c # s)) old new
      else c # ReplaceAll s old new)"
  by pat_completeness auto
termination
  by (relation "measure (\<lambda>(s, _). length s)") auto

text \<open>\<open>strings.Fields\<close> on the runes of a string: maximal runs of non-space runes.\<close>

fun fieldsRunes :: "rune list \<Rightarrow> rune list \<Rightarrow> rune list list" where
  "fieldsRunes [] cur = (if cur = [] then [] else [rev cur])"
| "fieldsRunes (r # rs) cur =
     (if isSpace r then (if cur = [] then fieldsRunes rs [] else rev cur # fieldsRunes rs [])
      else fieldsRunes rs (r # cur))"

text \<open>\<open>hex.EncodeToString\<close>\<close>

definition hexDigit :: "nat \<Rightarrow> char" where
  "hexDigit n = ''0123456789abcdef'' ! n"

definition hexEncode :: "bytes \<Rightarrow> string" where
  "hexEncode s = concat (map (\<lambda>c. [hexDigit (byte c div 16), hexDigit (byte c mod 16)]) s)"

section \<open>Integers as decimal strings\<close>

text \<open>\<open>strconv.FormatInt(n, 10)\<close>.\<close>

fun natDigits :: "nat \<Rightarrow> string" where
  "natDigits n = (if n < 10 then [char_of (48 + n)] else natDigits (n div 10) @ [char_of (48 + n mod 10)])"

declare natDigits.simps [simp del]

definition FormatInt :: "int \<Rightarrow> string" where
  "FormatInt n = (if n < 0 then CHR ''-'' # natDigits (nat (- n)) else natDigits (nat n))"

text \<open>\<open>strconv.ParseInt(s, 10, 64)\<close>; \<open>strconv.Atoi\<close> on a 64-bit platform.\<close>

fun digitsValue :: "nat \<Rightarrow> string \<Rightarrow> nat option" where
  "digitsValue acc [] = Some acc"
| "digitsValue acc (c # cs) =
     (if 48 \<le> byte c \<and> byte c \<le> 57 then digitsValue (acc * 10 + (byte c - 48)) cs else None)"

definition ParseInt :: "string \<Rightarrow> int option" where
  "ParseInt s =
    (case s of
       [] \<Rightarrow> None
     | c # cs \<Rightarrow>
         let neg = c = CHR ''-''; ds = (if c = CHR ''-'' \<or> c = CHR ''+'' then cs else s) in
         if ds = [] then None
         else (case digitsValue 0 ds of
                 None \<Rightarrow> None
               | Some n \<Rightarrow> let v = (if neg then - int n else int n) in
                            if int64 v then Some v else None))"

section \<open>Laws\<close>

text \<open>A white-space rune at the start of a prefix is at the start of the whole.\<close>

lemma trimLeft_suffix: "suffix (trimLeft s) s"
  by (induction s rule: trimLeft.induct) (auto intro: suffix_ConsI)

lemma trimRightRev_suffix: "suffix (trimRightRev s) s"
  by (induction s rule: trimRightRev.induct) (auto intro: suffix_ConsI)

lemma trimLeft_idem [simp]: "trimLeft (trimLeft s) = trimLeft s"
  by (induction s rule: trimLeft.induct) auto

lemma trimRightRev_idem [simp]: "trimRightRev (trimRightRev s) = trimRightRev s"
  by (induction s rule: trimRightRev.induct) auto

lemma trimLeft_fixed_prefix:
  assumes "trimLeft (s @ t) = s @ t"
  shows "trimLeft s = s"
proof -
  have shorter: "length (trimLeft u) \<le> length u" for u
    using trimLeft_suffix by (rule suffix_length_le)
  have drop: "trimLeft u \<noteq> c # v" if "length u \<le> length v" for u v c
    using shorter [of u] that by auto
  show ?thesis
    using assms drop by (cases s rule: trimLeft.cases; cases t; cases "tl t") (auto split: if_splits)
qed

lemma TrimSpace_idem [simp]: "TrimSpace (TrimSpace s) = TrimSpace s"
proof -
  obtain u where "rev (trimLeft s) = u @ trimRightRev (rev (trimLeft s))"
    using trimRightRev_suffix by (auto simp: suffix_def)
  then have split: "trimLeft s = TrimSpace s @ rev u"
    by (metis TrimSpace_def rev_append rev_rev_ident)
  have "trimLeft (TrimSpace s @ rev u) = TrimSpace s @ rev u"
    by (metis split trimLeft_idem)
  then have "trimLeft (TrimSpace s) = TrimSpace s"
    by (rule trimLeft_fixed_prefix)
  then show ?thesis
    by (simp add: TrimSpace_def)
qed

lemma TrimSpace_Nil [simp]: "TrimSpace [] = []"
  by (simp add: TrimSpace_def)

text \<open>Strings of visible ASCII characters are left alone.\<close>

definition visible :: "string \<Rightarrow> bool" where
  "visible s \<longleftrightarrow> (\<forall>c \<in> set s. 0x20 < byte c \<and> byte c < 0x80)"

lemma trimLeft_visible: "visible s \<Longrightarrow> trimLeft s = s"
  by (cases s rule: trimLeft.cases) (auto simp: visible_def space1_def space2_def space3_def)

lemma trimRightRev_visible: "visible s \<Longrightarrow> trimRightRev s = s"
  by (cases s rule: trimRightRev.cases) (auto simp: visible_def space1_def space2_def space3_def)

lemma TrimSpace_visible [simp]: "visible s \<Longrightarrow> TrimSpace s = s"
proof -
  assume "visible s"
  moreover from this have "visible (rev s)" by (simp add: visible_def)
  ultimately show ?thesis
    by (simp add: TrimSpace_def trimLeft_visible trimRightRev_visible)
qed

lemma visible_ascii: "visible s \<Longrightarrow> ascii s"
  by (auto simp: visible_def ascii_def)

lemma EqualFold_refl [simp]: "EqualFold U s s"
  by (simp add: EqualFold_def)

lemma EqualFold_sym: "EqualFold U s t \<Longrightarrow> EqualFold U t s"
  by (simp add: EqualFold_def)

lemma EqualFold_trans: "EqualFold U s t \<Longrightarrow> EqualFold U t u \<Longrightarrow> EqualFold U s u"
  by (simp add: EqualFold_def)

lemma HasPrefix_iff: "HasPrefix s p \<longleftrightarrow> (\<exists>t. s = p @ t)"
  by (induction s p rule: HasPrefix.induct) auto

lemma Contains_iff: "Contains s t \<longleftrightarrow> (\<exists>u v. s = u @ t @ v)"
proof (induction s)
  case Nil
  then show ?case by auto
next
  case step: (Cons c s)
  show ?case
  proof
    assume "Contains (c # s) t"
    then consider (here) v where "c # s = t @ v" | (later) u v where "s = u @ t @ v"
      using step.IH by (auto simp: HasPrefix_iff)
    then show "\<exists>u v. c # s = u @ t @ v"
      by cases (metis append_Nil, metis append_Cons)
  next
    assume "\<exists>u v. c # s = u @ t @ v"
    then obtain u v where uv: "c # s = u @ t @ v" by blast
    show "Contains (c # s) t"
    proof (cases u)
      case Nil
      with uv have "HasPrefix (c # s) t" by (auto simp: HasPrefix_iff)
      then show ?thesis by simp
    next
      case (Cons d u')
      with uv have "s = u' @ t @ v" by simp
      then have "Contains s t" using step.IH by blast
      then show ?thesis by simp
    qed
  qed
qed

lemma byte_char_of [simp]: "n < 256 \<Longrightarrow> byte (char_of n) = n"
  by (simp add: byte_def)

lemma byte_inj: "byte c = byte d \<longleftrightarrow> c = d"
  by (simp add: byte_def)

lemma byte_less [simp]: "byte c < 256"
  using of_char_mod_256 [of c] by (metis byte_def mod_less_divisor zero_less_numeral)

lemma digitsValue_append:
  "digitsValue a (s @ t) = (case digitsValue a s of None \<Rightarrow> None | Some b \<Rightarrow> digitsValue b t)"
  by (induction s arbitrary: a) auto

lemma digitsValue_natDigits: "digitsValue 0 (natDigits n) = Some n"
proof (induction n rule: natDigits.induct)
  case (1 n)
  show ?case
  proof (cases "n < 10")
    case True
    then show ?thesis by (subst natDigits.simps) simp
  next
    case False
    with "1.IH" have "digitsValue 0 (natDigits (n div 10)) = Some (n div 10)" by simp
    with False show ?thesis
      by (subst natDigits.simps) (simp add: digitsValue_append)
  qed
qed

lemma natDigits_digits: "c \<in> set (natDigits n) \<Longrightarrow> 48 \<le> byte c \<and> byte c \<le> 57"
proof (induction n rule: natDigits.induct)
  case (1 n)
  then show ?case
    by (subst (asm) (2) natDigits.simps) (auto split: if_splits)
qed

lemma natDigits_nonempty [simp]: "natDigits n \<noteq> []"
  by (subst natDigits.simps) simp

lemma natDigits_inj: "natDigits m = natDigits n \<longleftrightarrow> m = n"
  by (metis digitsValue_natDigits option.inject)

lemma natDigits_no_sign: "natDigits m \<noteq> CHR ''-'' # s" "natDigits m \<noteq> CHR ''+'' # s"
proof -
  show "natDigits m \<noteq> CHR ''-'' # s"
  proof
    assume eq: "natDigits m = CHR ''-'' # s"
    have "CHR ''-'' \<in> set (natDigits m)" unfolding eq by simp
    then show False by (auto dest: natDigits_digits simp: byte_def)
  qed
  show "natDigits m \<noteq> CHR ''+'' # s"
  proof
    assume eq: "natDigits m = CHR ''+'' # s"
    have "CHR ''+'' \<in> set (natDigits m)" unfolding eq by simp
    then show False by (auto dest: natDigits_digits simp: byte_def)
  qed
qed

lemma FormatInt_inj: "FormatInt m = FormatInt n \<longleftrightarrow> m = n"
  by (auto simp: FormatInt_def natDigits_inj natDigits_no_sign natDigits_no_sign [symmetric]
      split: if_splits)

lemma FormatInt_no_nul: "CHR 0x00 \<notin> set (FormatInt n)"
  by (auto simp: FormatInt_def byte_def dest: natDigits_digits split: if_splits)

lemma ParseInt_FormatInt: "int64 n \<Longrightarrow> ParseInt (FormatInt n) = Some n"
proof (cases "n < 0")
  case True
  assume "int64 n"
  with True show ?thesis
    by (simp add: ParseInt_def FormatInt_def digitsValue_natDigits Let_def)
next
  case False
  assume n: "int64 n"
  obtain c cs where c: "natDigits (nat n) = c # cs"
    by (metis natDigits_nonempty neq_Nil_conv)
  then have "c \<noteq> CHR ''-''" and "c \<noteq> CHR ''+''"
    using natDigits_no_sign by metis+
  with False n c digitsValue_natDigits [of "nat n"] show ?thesis
    by (simp add: ParseInt_def FormatInt_def Let_def)
qed

section \<open>Joined strings\<close>

text \<open>An ASCII character ends every incomplete encoding before it.\<close>

lemma decodeRune_append:
  assumes "s \<noteq> []" and "byte d < 0x80"
  shows "decodeRune (s @ d # b) = decodeRune s"
proof -
  obtain c cs where s: "s = c # cs" using assms(1) by (cases s) auto
  consider "cs = []" | x where "cs = [x]" | x y where "cs = [x, y]" | x y z r where "cs = x # y # z # r"
    by (metis list.exhaust)
  then show ?thesis
    using assms(2) by cases (simp_all add: s decodeRune_def Let_def cont_def)
qed

lemma runes_append:
  assumes "byte d < 0x80"
  shows "runes (a @ d # b) = runes a @ byte d # runes b"
proof (induction a rule: runes.induct)
  case 1
  then show ?case using assms by simp
next
  case (2 c cs)
  have "snd (decodeRune (c # cs)) - 1 \<le> length cs" using decodeRune_width [of "c # cs"] by auto
  moreover have "decodeRune (c # cs @ d # b) = decodeRune (c # cs)"
    using decodeRune_append [OF _ assms, of "c # cs" b] by simp
  ultimately show ?case using 2 by simp
qed

lemma ToLower_append:
  assumes "byte d < 0x80" and "lowerRune U (byte d) = byte d"
  shows "ToLower U (a @ d # b) = ToLower U a @ d # ToLower U b"
proof -
  have "encodeRune (byte d) = [d]"
    using assms(1) by (simp add: encodeRune_def byte_def)
  then show ?thesis
    using assms(2) by (simp add: ToLower_def runes_append [OF assms(1)] string_of_runes_def)
qed

text \<open>A search that does not have the separator finds nothing across it.\<close>

lemma Contains_append:
  assumes "d \<notin> set t"
  shows "Contains (a @ d # b) t \<longleftrightarrow> Contains a t \<or> Contains b t"
proof
  assume "Contains (a @ d # b) t"
  then obtain u v where uv: "a @ d # b = u @ t @ v" by (auto simp: Contains_iff)
  then consider p where "a = u @ p" "p @ d # b = t @ v" | p where "u = a @ p" "d # b = p @ t @ v"
    by (auto simp: append_eq_append_conv2)
  then show "Contains a t \<or> Contains b t"
  proof cases
    case (1 p)
    then consider q where "p = t @ q" | q where "t = p @ q" "d # b = q @ v"
      by (auto simp: append_eq_append_conv2)
    then show ?thesis
    proof cases
      case 1
      with \<open>a = u @ p\<close> show ?thesis by (auto simp: Contains_iff)
    next
      case (2 q)
      with assms have "q = []" by (cases q) auto
      with 2(1) \<open>a = u @ p\<close> have "a = u @ t @ []" by simp
      then show ?thesis by (metis Contains_iff)
    qed
  next
    case (2 p)
    then show ?thesis
    proof (cases p)
      case Nil
      with 2(2) assms have "t = []" by (cases t) auto
      then show ?thesis by (metis Contains_iff append_Nil)
    next
      case (Cons x xs)
      with 2(2) have "b = xs @ t @ v" by simp
      then show ?thesis by (metis Contains_iff)
    qed
  qed
next
  assume "Contains a t \<or> Contains b t"
  then show "Contains (a @ d # b) t"
    by (metis Contains_iff append.assoc append_Cons)
qed

end
