(* ===== verification/Safe_File.thy ===== *)
theory Safe_File
  imports Go_Strings
begin

text \<open>
  \<open>internal/safefile/safefile.go\<close>: resolution of a path against a managed root, with the
  lexical path functions of \<open>path/filepath\<close> (on Unix) that it uses. A path is a string;
  its elements are the pieces between slashes. The last section shows that a path is
  authorised exactly if it denotes a proper descendant of the root.

  \<open>os.OpenRoot\<close> and the operations of the root handle are the operating system's; they
  are given to \<open>OpenFile\<close> and \<open>ReadFile\<close> as functions.
\<close>

section \<open>path/filepath\<close>

fun splitSlash :: "string \<Rightarrow> string \<Rightarrow> string list" where
  "splitSlash cur [] = [rev cur]"
| "splitSlash cur (c # s) = (if c = CHR ''/'' then rev cur # splitSlash [] s else splitSlash (c # cur) s)"

definition IsAbs :: "string \<Rightarrow> bool" where
  "IsAbs p \<longleftrightarrow> HasPrefix p ''/''"

text \<open>
  The elements of a path after lexical simplification, last first: empty elements and dots
  vanish, and dot-dot removes the element before it; at the root it vanishes, and at
  the start of a relative path it stays.
\<close>

fun cleanElements :: "bool \<Rightarrow> string list \<Rightarrow> string list \<Rightarrow> string list" where
  "cleanElements rooted [] out = out"
| "cleanElements rooted (e # es) out =
     (if e = [] \<or> e = ''.'' then cleanElements rooted es out
      else if e = ''..'' then
        (case out of
           [] \<Rightarrow> cleanElements rooted es (if rooted then [] else [''..''])
         | d # ds \<Rightarrow> if d = ''..'' then cleanElements rooted es (''..'' # out) else cleanElements rooted es ds)
      else cleanElements rooted es (e # out))"

definition elements :: "string \<Rightarrow> string list" where
  "elements p = rev (cleanElements (IsAbs p) (splitSlash [] p) [])"

definition Clean :: "string \<Rightarrow> string" where
  "Clean p =
    (let body = Join (elements p) ''/'' in
     if IsAbs p then CHR ''/'' # body else if body = [] then ''.'' else body)"

definition Abs :: "string option \<Rightarrow> string \<Rightarrow> string option" where
  "Abs cwd p =
    (if IsAbs p then Some (Clean p)
     else case cwd of None \<Rightarrow> None | Some wd \<Rightarrow> Some (Clean (wd @ ''/'' @ p)))"

definition Dir :: "string \<Rightarrow> string" where
  "Dir p = Clean (rev (dropWhile (\<lambda>c. c \<noteq> CHR ''/'') (rev p)))"

fun stripCommon :: "string list \<Rightarrow> string list \<Rightarrow> string list \<times> string list" where
  "stripCommon (x # xs) (y # ys) = (if x = y then stripCommon xs ys else (x # xs, y # ys))"
| "stripCommon xs ys = (xs, ys)"

text \<open>\<open>filepath.Rel\<close>; \<open>None\<close> is its error.\<close>

definition Rel :: "string \<Rightarrow> string \<Rightarrow> string option" where
  "Rel base targ =
    (if Clean base = Clean targ then Some ''.''
     else if IsAbs base \<noteq> IsAbs targ then None
     else case stripCommon (elements base) (elements targ) of
       (b, t) \<Rightarrow>
         if ''..'' \<in> set b then None
         else Some (Join (replicate (length b) ''..'' @ t) ''/''))"

section \<open>safefile.go\<close>

datatype path_error = EmptyRoot | EmptyPath | NoWorkingDir | NotComparable | OutsideRoot | OsError string

definition resolve ::
    "string option \<Rightarrow> string \<Rightarrow> string \<Rightarrow> (path_error, string \<times> string \<times> string) result" where
  "resolve cwd rootDirectory candidate =
    (let rootDirectory = TrimSpace rootDirectory; candidate = TrimSpace candidate in
     if rootDirectory = [] then Inl EmptyRoot
     else if candidate = [] then Inl EmptyPath
     else case Abs cwd (Clean rootDirectory) of
         None \<Rightarrow> Inl NoWorkingDir
       | Some rootPath \<Rightarrow>
           (case Abs cwd (Clean candidate) of
              None \<Rightarrow> Inl NoWorkingDir
            | Some absolutePath \<Rightarrow>
                (case Rel rootPath absolutePath of
                   None \<Rightarrow> Inl NotComparable
                 | Some relativePath \<Rightarrow>
                     if relativePath = ''.'' \<or> relativePath = ''..'' \<or> IsAbs relativePath \<or>
                        HasPrefix relativePath ''../''
                     then Inl OutsideRoot
                     else Inr (rootPath, relativePath, absolutePath))))"

text \<open>The root handle: opening a root, creating directories, opening and reading files in it.\<close>

record ('w, 'f) root_ops =
  ro_OpenRoot :: "string \<Rightarrow> 'w \<Rightarrow> bool"
  ro_MkdirAll :: "string \<Rightarrow> string \<Rightarrow> 'w \<Rightarrow> bool \<times> 'w"
  ro_OpenFile :: "string \<Rightarrow> string \<Rightarrow> 'w \<Rightarrow> 'f option \<times> 'w"
  ro_ReadFile :: "string \<Rightarrow> string \<Rightarrow> 'w \<Rightarrow> bytes option"

definition OpenFile ::
    "('w, 'f) root_ops \<Rightarrow> string option \<Rightarrow> string \<Rightarrow> string \<Rightarrow> 'w \<Rightarrow>
      (path_error, 'f \<times> string) result \<times> 'w" where
  "OpenFile ops cwd rootDirectory candidate w =
    (case resolve cwd rootDirectory candidate of
       Inl err \<Rightarrow> (Inl err, w)
     | Inr (rootPath, relativePath, absolutePath) \<Rightarrow>
         if \<not> ro_OpenRoot ops rootPath w then (Inl (OsError ''open managed file root''), w)
         else
           let (made, w1) = (if Dir relativePath \<noteq> ''.'' then ro_MkdirAll ops rootPath (Dir relativePath) w else (True, w)) in
           if \<not> made then (Inl (OsError ''create managed file directory''), w1)
           else case ro_OpenFile ops rootPath relativePath w1 of
               (None, w2) \<Rightarrow> (Inl (OsError ''open''), w2)
             | (Some f, w2) \<Rightarrow> (Inr (f, absolutePath), w2))"

definition ReadFile ::
    "('w, 'f) root_ops \<Rightarrow> string option \<Rightarrow> string \<Rightarrow> string \<Rightarrow> 'w \<Rightarrow> (path_error, bytes) result" where
  "ReadFile ops cwd rootDirectory candidate w =
    (case resolve cwd rootDirectory candidate of
       Inl err \<Rightarrow> Inl err
     | Inr (rootPath, relativePath, absolutePath) \<Rightarrow>
         if \<not> ro_OpenRoot ops rootPath w then Inl (OsError ''open managed file root'')
         else case ro_ReadFile ops rootPath relativePath w of None \<Rightarrow> Inl (OsError ''read'') | Some d \<Rightarrow> Inr d)"

section \<open>Simplified paths\<close>

text \<open>An element of a simplified absolute path: not empty, no dots, no slash.\<close>

definition plain_element :: "string \<Rightarrow> bool" where
  "plain_element e \<longleftrightarrow> e \<noteq> [] \<and> e \<noteq> ''.'' \<and> e \<noteq> ''..'' \<and> CHR ''/'' \<notin> set e"

lemma splitSlash_no_slash:
  "e \<in> set (splitSlash cur s) \<Longrightarrow> CHR ''/'' \<notin> set cur \<Longrightarrow> CHR ''/'' \<notin> set e"
  by (induction cur s rule: splitSlash.induct) (auto split: if_splits)

lemma cleanElements_rooted:
  "\<forall>e \<in> set es. CHR ''/'' \<notin> set e \<Longrightarrow> list_all plain_element out \<Longrightarrow>
     list_all plain_element (cleanElements True es out)"
proof (induction es arbitrary: out)
  case (Cons e es)
  have IH: "list_all plain_element out' \<Longrightarrow> list_all plain_element (cleanElements True es out')" for out'
    using Cons.IH Cons.prems(1) by simp
  have dot: "\<not> plain_element ''..''" by (simp add: plain_element_def)
  consider "e = [] \<or> e = ''.''" | "e = ''..''" | "plain_element e"
    using Cons.prems(1) by (auto simp: plain_element_def)
  then show ?case
  proof cases
    case 1
    then show ?thesis using IH Cons.prems(2) by simp
  next
    case 2
    then show ?thesis using IH Cons.prems(2) dot by (cases out) auto
  next
    case 3
    then have "cleanElements True (e # es) out = cleanElements True es (e # out)"
      by (simp add: plain_element_def)
    then show ?thesis using IH Cons.prems(2) 3 by simp
  qed
qed simp

lemma elements_rooted: "IsAbs p \<Longrightarrow> e \<in> set (elements p) \<Longrightarrow> plain_element e"
  using cleanElements_rooted [of "splitSlash [] p" "[]"] splitSlash_no_slash [of _ "[]" p]
  by (auto simp: elements_def list_all_iff)

lemma splitSlash_plain: "CHR ''/'' \<notin> set e \<Longrightarrow> splitSlash cur e = [rev cur @ e]"
  by (induction e arbitrary: cur) auto

lemma splitSlash_slash: "CHR ''/'' \<notin> set e \<Longrightarrow> splitSlash cur (e @ CHR ''/'' # s) = (rev cur @ e) # splitSlash [] s"
  by (induction e arbitrary: cur) auto

lemma splitSlash_Join:
  "es \<noteq> [] \<Longrightarrow> \<forall>e \<in> set es. CHR ''/'' \<notin> set e \<Longrightarrow> splitSlash [] (Join es ''/'') = es"
  by (induction es rule: induct_list012) (auto simp: splitSlash_plain splitSlash_slash)

lemma cleanElements_plain:
  "\<forall>e \<in> set es. plain_element e \<Longrightarrow> cleanElements r es out = rev es @ out"
  by (induction es arbitrary: out) (auto simp: plain_element_def)

lemma elements_path [simp]:
  assumes "\<forall>e \<in> set es. plain_element e"
  shows "elements (CHR ''/'' # Join es ''/'') = es"
proof (cases "es = []")
  case True
  then show ?thesis by (simp add: elements_def IsAbs_def)
next
  case False
  have "\<forall>e \<in> set es. CHR ''/'' \<notin> set e"
    using assms by (simp add: plain_element_def)
  from splitSlash_Join [OF False this] assms show ?thesis
    by (simp add: elements_def IsAbs_def cleanElements_plain)
qed

lemma IsAbs_Clean [simp]: "IsAbs (Clean p) = IsAbs p"
proof (cases "IsAbs p")
  case True
  then show ?thesis by (simp add: Clean_def Let_def) (simp add: IsAbs_def)
next
  case False
  have *: "e \<in> set (cleanElements False es out) \<Longrightarrow> \<forall>e \<in> set es \<union> set out. CHR ''/'' \<notin> set e \<Longrightarrow>
      \<forall>e \<in> set out. e \<noteq> [] \<Longrightarrow> CHR ''/'' \<notin> set e \<and> e \<noteq> []" for e es out
    by (induction False es out rule: cleanElements.induct) (auto split: if_splits list.splits)
  have "\<forall>e \<in> set (elements p). CHR ''/'' \<notin> set e \<and> e \<noteq> []"
    using * [of _ "splitSlash [] p" "[]"] splitSlash_no_slash [of _ "[]" p] False by (auto simp: elements_def)
  then have "\<not> HasPrefix (Join (elements p) ''/'') ''/''"
    by (cases "elements p" rule: remdups_adj.cases) (auto simp: HasPrefix_iff append_eq_Cons_conv)
  then show ?thesis
    using False by (simp add: Clean_def Let_def) (simp add: IsAbs_def)
qed

lemma elements_Clean_abs: "IsAbs p \<Longrightarrow> elements (Clean p) = elements p"
  using elements_rooted [of p] by (simp add: Clean_def Let_def)

lemma Clean_eq_iff:
  assumes "IsAbs p" and "IsAbs q"
  shows "Clean p = Clean q \<longleftrightarrow> elements p = elements q"
proof
  assume "Clean p = Clean q"
  then show "elements p = elements q"
    using elements_Clean_abs assms by metis
next
  assume "elements p = elements q"
  then show "Clean p = Clean q"
    using assms by (simp add: Clean_def Let_def)
qed

lemma Clean_Clean_abs: "IsAbs p \<Longrightarrow> Clean (Clean p) = Clean p"
  by (simp add: Clean_eq_iff elements_Clean_abs)

lemma stripCommon_prefix: "stripCommon xs (xs @ ys) = ([], ys)"
  by (induction xs) (cases ys; simp)+

lemma stripCommon_Nil: "stripCommon xs zs = ([], ys) \<Longrightarrow> zs = xs @ ys"
  by (induction xs zs rule: stripCommon.induct) (auto split: if_splits)

lemma stripCommon_sets:
  "stripCommon xs ys = (a, b) \<Longrightarrow> set a \<subseteq> set xs \<and> set b \<subseteq> set ys"
  by (induction xs ys rule: stripCommon.induct) (auto split: if_splits)

section \<open>Containment\<close>

definition abs_cwd :: "string option \<Rightarrow> bool" where
  "abs_cwd cwd \<longleftrightarrow> (case cwd of None \<Rightarrow> True | Some wd \<Rightarrow> IsAbs wd)"

lemma Abs_IsAbs: "abs_cwd cwd \<Longrightarrow> Abs cwd p = Some q \<Longrightarrow> IsAbs q"
  by (auto simp: Abs_def abs_cwd_def IsAbs_def HasPrefix_iff simp flip: IsAbs_def split: if_splits option.splits)
    (auto simp: IsAbs_def HasPrefix_iff)

text \<open>The outcome of comparing two absolute paths.\<close>

lemma Rel_inside:
  assumes "IsAbs base" and "IsAbs targ" and "elements targ = elements base @ es" and "es \<noteq> []"
  shows "Rel base targ = Some (Join es ''/'')"
  using assms by (simp add: Rel_def Clean_eq_iff stripCommon_prefix)

lemma Rel_outside:
  assumes "IsAbs base" and "IsAbs targ" and "Rel base targ = Some rel"
    and "\<nexists>es. es \<noteq> [] \<and> elements targ = elements base @ es"
  shows "rel = ''.'' \<or> rel = ''..'' \<or> HasPrefix rel ''../''"
proof (cases "Clean base = Clean targ")
  case True
  then show ?thesis using assms(3) by (simp add: Rel_def)
next
  case False
  obtain b t where bt: "stripCommon (elements base) (elements targ) = (b, t)"
    by fastforce
  have "b \<noteq> []"
  proof
    assume "b = []"
    then have "elements targ = elements base @ t"
      using stripCommon_Nil bt by blast
    moreover from this have "t \<noteq> []"
      using False assms(1,2) by (auto simp: Clean_eq_iff)
    ultimately show False using assms(4) by blast
  qed
  then obtain x b' where "b = x # b'"
    by (cases b) auto
  moreover have "rel = Join (replicate (length b) ''..'' @ t) ''/''"
    using assms(1-3) False bt by (simp add: Rel_def split: if_splits)
  ultimately show ?thesis
    by (cases "replicate (length b') ''..'' @ t") simp_all
qed

lemma Join_plain:
  assumes "es \<noteq> []" and "\<forall>e \<in> set es. plain_element e" and "rel = Join es ''/''"
  shows "rel \<noteq> ''.''" and "rel \<noteq> ''..''" and "\<not> IsAbs rel" and "\<not> HasPrefix rel ''../''"
proof -
  have split: "splitSlash [] rel = es" and hd: "plain_element (hd es)"
    using assms splitSlash_Join [of es] by (auto simp: plain_element_def)
  show "rel \<noteq> ''.''" and "rel \<noteq> ''..''"
    using split hd by (auto simp: plain_element_def)
  show "\<not> IsAbs rel"
    using split hd by (auto simp: IsAbs_def HasPrefix_iff plain_element_def)
  show "\<not> HasPrefix rel ''../''"
    using split hd by (auto simp: HasPrefix_iff plain_element_def)
qed

lemma resolve_iff:
  assumes "abs_cwd cwd"
  shows "(\<exists>rel. resolve cwd root cand = Inr (rootPath, rel, path)) \<longleftrightarrow>
    TrimSpace root \<noteq> [] \<and> TrimSpace cand \<noteq> [] \<and>
    Abs cwd (Clean (TrimSpace root)) = Some rootPath \<and> Abs cwd (Clean (TrimSpace cand)) = Some path \<and>
    (\<exists>es. es \<noteq> [] \<and> elements path = elements rootPath @ es)" (is "?l \<longleftrightarrow> ?r")
proof
  assume ?l
  then obtain rel where *: "TrimSpace root \<noteq> []" "TrimSpace cand \<noteq> []"
    "Abs cwd (Clean (TrimSpace root)) = Some rootPath" "Abs cwd (Clean (TrimSpace cand)) = Some path"
    "Rel rootPath path = Some rel" "\<not> (rel = ''.'' \<or> rel = ''..'' \<or> IsAbs rel \<or> HasPrefix rel ''../'')"
    by (auto simp: resolve_def Let_def split: if_splits option.splits)
  then show ?r
    using Rel_outside Abs_IsAbs [OF assms] by blast
next
  assume r: ?r
  then obtain es where es: "es \<noteq> []" "elements path = elements rootPath @ es"
    by blast
  have abs: "IsAbs rootPath" "IsAbs path"
    using r Abs_IsAbs [OF assms] by blast+
  have "\<forall>e \<in> set es. plain_element e"
    using es(2) elements_rooted [OF abs(2)] by simp
  from Join_plain [OF es(1) this refl] Rel_inside [OF abs es(2,1)] r
  show ?l by (simp add: resolve_def Let_def)
qed

text \<open>
  C27. A path is authorised exactly if, after resolution against the working directory and lexical
  simplification, it denotes a proper descendant of the root: its elements extend the root's by at
  least one. So dot-dot, siblings that share a prefix of the root's name, and the root itself are
  refused, and every proper descendant is accepted.
\<close>

theorem resolve_authorises_descendants:
  assumes "abs_cwd cwd"
  shows "(\<exists>rel. resolve cwd root cand = Inr (rootPath, rel, path)) \<longleftrightarrow>
    TrimSpace root \<noteq> [] \<and> TrimSpace cand \<noteq> [] \<and>
    Abs cwd (Clean (TrimSpace root)) = Some rootPath \<and> Abs cwd (Clean (TrimSpace cand)) = Some path \<and>
    (\<exists>es. es \<noteq> [] \<and> elements path = elements rootPath @ es)"
  by (rule resolve_iff [OF assms])

lemma sample_paths:
  "TrimSpace ''/d'' = ''/d''" "TrimSpace ''/d/a'' = ''/d/a''" "TrimSpace ''/d/../e'' = ''/d/../e''"
  by (simp_all add: visible_def byte_def)

theorem resolve_authorises_descendants_witness:
  "(\<exists>rel. resolve None ''/d'' ''/d/a'' = Inr (''/d'', rel, ''/d/a'')) \<and>
   \<not> (\<exists>rel. resolve None ''/d'' ''/d/../e'' = Inr (''/d'', rel, ''/e''))"
  using resolve_authorises_descendants [of None "''/d''" "''/d/a''" "''/d''" "''/d/a''"]
    resolve_authorises_descendants [of None "''/d''" "''/d/../e''" "''/d''" "''/e''"]
  by (simp add: abs_cwd_def sample_paths Abs_def IsAbs_def Clean_def elements_def)

end
