(* ===== verification/Atomic_File.thy ===== *)
theory Atomic_File
  imports Prelude
begin

text \<open>
  The protocol by which the program replaces a configuration file: create a temporary
  file beside the target, restrict its permissions, write, sync, close, rename it over
  the target and restrict the target's permissions. The functions \<open>saveLocked\<close> of
  \<open>internal/auth/manager.go\<close> and \<open>internal/store/registry.go\<close> and \<open>saveConfig\<close>
  of \<open>internal/store/history_manager.go\<close> share it line by line.

  A directory is a map from paths to contents. Every step can fail; the failing step is
  part of the environment, as are the name that \<open>os.CreateTemp\<close> picks and the number of
  bytes a failing write has written. Renaming is atomic, as POSIX promises.
\<close>

type_synonym dir = "string \<rightharpoonup> bytes"

datatype io_step =
    MkdirAll | CreateTemp | ChmodTemp | WriteTemp | SyncTemp | CloseTemp | RenameTemp | ChmodTarget

record save_io =
  io_fail :: "io_step option"
  io_written :: nat
  io_temp :: string

definition save_steps :: "io_step list" where
  "save_steps = [MkdirAll, CreateTemp, ChmodTemp, WriteTemp, SyncTemp, CloseTemp, RenameTemp, ChmodTarget]"

fun apply_step :: "string \<Rightarrow> string \<Rightarrow> bytes \<Rightarrow> io_step \<Rightarrow> dir \<Rightarrow> dir" where
  "apply_step tmp target data CreateTemp d = d(tmp \<mapsto> [])"
| "apply_step tmp target data WriteTemp d = d(tmp \<mapsto> data)"
| "apply_step tmp target data RenameTemp d = (d(target := d tmp))(tmp := None)"
| "apply_step tmp target data _ d = d"

text \<open>What a failing step leaves behind after the deferred clean-up of the code.\<close>

fun fail_step :: "save_io \<Rightarrow> bytes \<Rightarrow> io_step \<Rightarrow> dir \<Rightarrow> dir" where
  "fail_step io data MkdirAll d = d"
| "fail_step io data CreateTemp d = d"
| "fail_step io data WriteTemp d = (d(io_temp io \<mapsto> take (io_written io) data))(io_temp io := None)"
| "fail_step io data ChmodTarget d = d"
| "fail_step io data _ d = d(io_temp io := None)"

fun run_save :: "save_io \<Rightarrow> string \<Rightarrow> bytes \<Rightarrow> io_step list \<Rightarrow> dir \<Rightarrow> io_step option \<times> dir" where
  "run_save io target data [] d = (None, d)"
| "run_save io target data (st # sts) d =
     (if io_fail io = Some st then (Some st, fail_step io data st d)
      else run_save io target data sts (apply_step (io_temp io) target data st d))"

definition replace_file :: "save_io \<Rightarrow> string \<Rightarrow> bytes \<Rightarrow> dir \<Rightarrow> io_step option \<times> dir" where
  "replace_file io target data d = run_save io target data save_steps d"

text \<open>
  The directory that a crash finds after \<open>k\<close> completed steps; a crash during the write
  finds a prefix of the data in the temporary file.
\<close>

definition crash_dir :: "save_io \<Rightarrow> string \<Rightarrow> bytes \<Rightarrow> nat \<Rightarrow> dir \<Rightarrow> dir" where
  "crash_dir io target data k d =
    (let d' = fold (apply_step (io_temp io) target data) (take k save_steps) d in
     if k < length save_steps \<and> save_steps ! k = WriteTemp
     then d'(io_temp io \<mapsto> take (io_written io) data) else d')"

text \<open>\<open>os.CreateTemp\<close> creates its file exclusively: the name it picks was free.\<close>

definition fresh_temp :: "save_io \<Rightarrow> string \<Rightarrow> dir \<Rightarrow> bool" where
  "fresh_temp io target d \<longleftrightarrow> io_temp io \<noteq> target \<and> d (io_temp io) = None"

lemma replace_file_cases:
  assumes "fresh_temp io target d"
  shows "replace_file io target data d =
    (io_fail io,
     if io_fail io = None \<or> io_fail io = Some ChmodTarget then d(target \<mapsto> data) else d)"
proof (cases "io_fail io")
  case None
  with assms show ?thesis
    by (auto simp: replace_file_def save_steps_def fresh_temp_def fun_eq_iff)
next
  case (Some st)
  with assms show ?thesis
    by (cases st) (auto simp: replace_file_def save_steps_def fresh_temp_def fun_eq_iff)
qed

lemma replace_file_ok:
  assumes "fresh_temp io target d" and "replace_file io target data d = (None, d')"
  shows "d' = d(target \<mapsto> data)"
  using assms by (auto simp: replace_file_cases split: if_splits)

lemma replace_file_target:
  assumes "fresh_temp io target d" and "replace_file io target data d = (e, d')"
  shows "d' target = d target \<or> d' target = Some data"
  using assms by (auto simp: replace_file_cases split: if_splits)

lemma crash_dir_target:
  assumes "io_temp io \<noteq> target"
  shows "crash_dir io target data k d target \<in> {d target, Some data}"
proof -
  have "k < 8 \<or> take k save_steps = save_steps"
    by (auto simp: save_steps_def)
  then consider "k = 0" | "k = 1" | "k = 2" | "k = 3" | "k = 4" | "k = 5" | "k = 6" | "k = 7"
    | "8 \<le> k" by linarith
  then show ?thesis
    using assms by cases (auto simp: crash_dir_def save_steps_def Let_def)
qed

end
