(* ===== verification/Store_Types.thy ===== *)
theory Store_Types
  imports Prelude
begin

text \<open>
  The data of \<open>internal/store/store.go\<close>: the sentinel errors and what \<open>errors.Is\<close> sees
  of a wrapped error, entries and pages of keys, value snapshots, audit events and
  queries, the storage configuration and the cluster connections.
\<close>

section \<open>Errors\<close>

datatype sentinel =
    ErrConflict | ErrClusterNotFound | ErrClusterNameExists | ErrInvalidCluster
  | ErrHistoryCompacted | ErrNoPreviousVersion | ErrLocalHistory | ErrHistoryNotSetup
  | ErrHistorySetup | ErrHistoryConfigured | ErrHistoryConfigSave | ErrHistoryRetention
  | ErrAuditLog

text \<open>
  An error is a sentinel (possibly with a message), the deadline error of a context, an
  error that wraps two others (\<open>fmt.Errorf("%w: %w", \<dots>)\<close>), or an error that
  \<open>errors.Is\<close> matches with no sentinel, named by its message.
  \<open>Panic\<close> stands for a run-time panic.
\<close>

datatype error =
    Sentinel sentinel
  | DeadlineExceeded
  | Wrap error error
  | Opaque string
  | Panic

fun errorsIs :: "error \<Rightarrow> sentinel \<Rightarrow> bool" where
  "errorsIs (Sentinel e) s = (e = s)"
| "errorsIs (Wrap e f) s = (errorsIs e s \<or> errorsIs f s)"
| "errorsIs _ s = False"

fun errorsIsDeadline :: "error \<Rightarrow> bool" where
  "errorsIsDeadline DeadlineExceeded = True"
| "errorsIsDeadline (Wrap e f) = (errorsIsDeadline e \<or> errorsIsDeadline f)"
| "errorsIsDeadline _ = False"

section \<open>Entries, snapshots\<close>

record Entry =
  e_Key :: bytes
  e_Value :: bytes
  e_CreateRevision :: int
  e_ModRevision :: int
  e_Version :: int
  e_Lease :: int

record Page =
  pg_Entries :: "Entry list"
  pg_NextCursor :: bytes

record ValueSnapshot =
  vs_ClusterID :: string
  vs_Entry :: Entry
  vs_CapturedAt :: gotime

abbreviation vs_rev :: "ValueSnapshot \<Rightarrow> int" where
  "vs_rev s \<equiv> e_ModRevision (vs_Entry s)"

abbreviation vs_key :: "ValueSnapshot \<Rightarrow> bytes" where
  "vs_key s \<equiv> e_Key (vs_Entry s)"

section \<open>Audit\<close>

definition DefaultAuditRetentionDays :: int where
  "DefaultAuditRetentionDays = 90"

record AuditEvent =
  ev_ID :: string
  ev_OccurredAt :: gotime
  ev_Actor :: string
  ev_ActorType :: string
  ev_ClientIP :: string
  ev_Action :: string
  ev_ResourceType :: string
  ev_ClusterID :: string
  ev_ClusterName :: string
  ev_Target :: string
  ev_Detail :: string
  ev_Result :: string

record AuditQuery =
  q_Since :: gotime
  q_Until :: gotime
  q_Before :: gotime
  q_BeforeID :: string
  q_Limit :: int
  q_ClusterID :: string
  q_Actor :: string
  q_ActorType :: string
  q_Action :: string
  q_Search :: string

record AuditPage =
  ap_Events :: "AuditEvent list"
  ap_HasMore :: bool

section \<open>Storage configuration\<close>

definition HistoryStorageLocal :: string where "HistoryStorageLocal = ''local''"
definition HistoryStoragePostgres :: string where "HistoryStoragePostgres = ''postgres''"
definition HistoryStorageMySQL :: string where "HistoryStorageMySQL = ''mysql''"

record HistoryStorageInput =
  hs_Type :: string
  hs_LocalFile :: string
  hs_Host :: string
  hs_Port :: int
  hs_Database :: string
  hs_Username :: string
  hs_Password :: string
  hs_TLSMode :: string
  hs_RetentionVersions :: "int option"

record HistoryStorageStatus =
  st_Configured :: bool
  st_ConfiguredAt :: gotime
  st_Type :: string
  st_LocalFile :: string
  st_DefaultLocalFile :: string
  st_Host :: string
  st_Port :: int
  st_Database :: string
  st_Username :: string
  st_PasswordConfigured :: bool
  st_TLSMode :: string
  st_RetentionVersions :: int
  st_AuditFile :: string
  st_AuditRetentionDays :: int

section \<open>Clusters\<close>

record MemberStatus =
  ms_Endpoint :: string
  ms_MemberID :: nat
  ms_LeaderID :: nat
  ms_Reachable :: bool
  ms_Healthy :: bool
  ms_Version :: string
  ms_Error :: string

record Cluster =
  c_ID :: string
  c_Name :: string
  c_Endpoints :: "string list"
  c_Username :: string
  c_Password :: string
  c_TLSCAFile :: string
  c_TLSCertFile :: string
  c_TLSKeyFile :: string
  c_CreatedAt :: gotime
  c_UpdatedAt :: gotime

record ClusterInput =
  ci_Name :: string
  ci_Endpoints :: "string list"
  ci_Username :: string
  ci_Password :: "string option"
  ci_TLSCAFile :: string
  ci_TLSCertFile :: string
  ci_TLSKeyFile :: string

end
