(* ===== verification/History_Spec.thy ===== *)
theory History_Spec
  imports Store_Types
begin

text \<open>
  The contract of \<open>store.ValueHistory\<close> as its clients use it. A backend keeps, for every
  cluster and key, a list of snapshots in strictly descending order of modification
  revision; saving inserts unless the revision is already there, pruning keeps a prefix,
  listing is a bounded prefix of the part below a revision. The clients' facts (saving
  with retention, paging through versions) are proved here once, from the laws.
\<close>

definition ins_snapshot :: "ValueSnapshot \<Rightarrow> ValueSnapshot list \<Rightarrow> ValueSnapshot list" where
  "ins_snapshot s xs = (if vs_rev s \<in> vs_rev ` set xs then xs else sort_desc vs_rev (xs @ [s]))"

text \<open>A snapshot with no capture time gets the current time.\<close>

definition stamp :: "gotime \<Rightarrow> ValueSnapshot \<Rightarrow> ValueSnapshot" where
  "stamp now s = (if vs_CapturedAt s = 0 then s\<lparr>vs_CapturedAt := now\<rparr> else s)"

lemma stamp_simps [simp]:
  "vs_ClusterID (stamp now s) = vs_ClusterID s" "vs_Entry (stamp now s) = vs_Entry s"
  by (simp_all add: stamp_def)

text \<open>The body of \<open>HistoryManager.Save\<close> over the operations of a backend.\<close>

definition save_and_prune ::
  "('s \<Rightarrow> (error, unit) result \<times> 's) \<Rightarrow> ('s \<Rightarrow> (error, unit) result \<times> 's) \<Rightarrow> 's \<Rightarrow>
     (error, unit) result \<times> 's" where
  "save_and_prune save prune s =
    (case save s of (Inl e, s') \<Rightarrow> (Inl e, s') | (Inr _, s') \<Rightarrow> prune s')"

lemma ins_snapshot_set: "set (ins_snapshot s xs) \<subseteq> insert s (set xs)"
  by (auto simp: ins_snapshot_def)

lemma ins_snapshot_superset: "set xs \<subseteq> set (ins_snapshot s xs)"
  by (auto simp: ins_snapshot_def)

lemma ins_snapshot_rev: "\<exists>y \<in> set (ins_snapshot s xs). vs_rev y = vs_rev s \<and> (y = s \<or> y \<in> set xs)"
  by (auto simp: ins_snapshot_def image_iff)

lemma ins_snapshot_desc:
  assumes "desc_by vs_rev xs" and "distinct (map vs_rev xs)"
  shows "desc_by vs_rev (ins_snapshot s xs)" and "distinct (map vs_rev (ins_snapshot s xs))"
  using assms by (auto simp: ins_snapshot_def)

locale value_history =
  fixes invar :: "'s \<Rightarrow> bool"
    and snaps :: "'s \<Rightarrow> string \<Rightarrow> bytes \<Rightarrow> ValueSnapshot list"
    and save :: "'io \<Rightarrow> gotime \<Rightarrow> ValueSnapshot \<Rightarrow> 's \<Rightarrow> (error, unit) result \<times> 's"
    and list_before :: "string \<Rightarrow> bytes \<Rightarrow> int \<Rightarrow> int \<Rightarrow> 's \<Rightarrow> (error, ValueSnapshot list) result"
    and prune_key :: "'jo \<Rightarrow> string \<Rightarrow> bytes \<Rightarrow> int \<Rightarrow> 's \<Rightarrow> (error, unit) result \<times> 's"
  assumes snaps_desc: "invar s \<Longrightarrow> desc_by vs_rev (snaps s c k)"
    and snaps_distinct: "invar s \<Longrightarrow> distinct (map vs_rev (snaps s c k))"
    and save_invar: "invar s \<Longrightarrow> invar (snd (save io now x s))"
    and save_ok: "invar s \<Longrightarrow> save io now x s = (Inr (), s') \<Longrightarrow>
      snaps s' c k = (if c = vs_ClusterID x \<and> k = vs_key x
                      then ins_snapshot (stamp now x) (snaps s c k) else snaps s c k)"
    and save_err: "invar s \<Longrightarrow> save io now x s = (Inl e, s') \<Longrightarrow> snaps s' c k = snaps s c k"
    and prune_invar: "invar s \<Longrightarrow> invar (snd (prune_key jo c k keep s))"
    and prune_ok: "invar s \<Longrightarrow> 0 \<le> keep \<Longrightarrow> prune_key jo c k keep s = (Inr (), s') \<Longrightarrow>
      snaps s' c' k' = (if keep \<noteq> 0 \<and> c' = c \<and> k' = k then take (nat keep) (snaps s c' k') else snaps s c' k')"
    and list_ok: "invar s \<Longrightarrow> list_before c k r n s = Inr xs \<Longrightarrow>
      xs = take (nat n) (filter (\<lambda>x. vs_rev x < r) (snaps s c k))"
begin

abbreviation save_retained where
  "save_retained io jo now keep x \<equiv>
     save_and_prune (save io now x) (prune_key jo (vs_ClusterID x) (vs_key x) keep)"

lemma save_retained_ok:
  assumes "invar s" and "0 \<le> keep" and "save_retained io jo now keep x s = (Inr (), s')"
  shows "snaps s' c k =
    (if c = vs_ClusterID x \<and> k = vs_key x
     then (if keep = 0 then ins_snapshot (stamp now x) (snaps s c k)
           else take (nat keep) (ins_snapshot (stamp now x) (snaps s c k)))
     else snaps s c k)"
proof -
  obtain t where t: "save io now x s = (Inr (), t)"
    and p: "prune_key jo (vs_ClusterID x) (vs_key x) keep t = (Inr (), s')"
    using assms(3) by (auto simp: save_and_prune_def split: prod.splits sum.splits)
  have "invar t"
    using save_invar [OF assms(1), of io now x] t by simp
  then show ?thesis
    using save_ok [OF assms(1) t] prune_ok [OF _ assms(2) p] by simp
qed

text \<open>
  The snapshot just saved survives its own pruning when no stored revision of the key is
  newer, and a limited key never holds more than the limit.
\<close>

lemma save_retained_keeps:
  assumes "invar s" and "0 \<le> keep" and "save_retained io jo now keep x s = (Inr (), s')"
    and "\<forall>y \<in> set (snaps s (vs_ClusterID x) (vs_key x)). vs_rev y \<le> vs_rev x"
  shows "\<exists>y \<in> set (snaps s' (vs_ClusterID x) (vs_key x)).
    vs_rev y = vs_rev x \<and> (y = stamp now x \<or> y \<in> set (snaps s (vs_ClusterID x) (vs_key x)))"
proof -
  let ?xs = "snaps s (vs_ClusterID x) (vs_key x)"
  let ?ys = "ins_snapshot (stamp now x) ?xs"
  obtain y where y: "y \<in> set ?ys" "vs_rev y = vs_rev x" "y = stamp now x \<or> y \<in> set ?xs"
    using ins_snapshot_rev [of "stamp now x" ?xs] by auto
  have top: "\<forall>z \<in> set ?ys. vs_rev z \<le> vs_rev y"
    using ins_snapshot_set [of "stamp now x" ?xs] assms(4) y(2) by auto
  have "y \<in> set (take (nat keep) ?ys)" if "keep \<noteq> 0"
    using that assms(2) y(1) top
      ins_snapshot_desc [OF snaps_desc [OF assms(1)] snaps_distinct [OF assms(1)]]
    by (intro desc_top_in_take [of vs_rev]) auto
  with y show ?thesis
    using save_retained_ok [OF assms(1-3), of "vs_ClusterID x" "vs_key x"] by (cases "keep = 0") auto
qed

lemma save_retained_bound:
  assumes "invar s" and "0 < keep" and "save_retained io jo now keep x s = (Inr (), s')"
  shows "int (length (snaps s' (vs_ClusterID x) (vs_key x))) \<le> keep"
  using save_retained_ok [OF assms(1) _ assms(3), of "vs_ClusterID x" "vs_key x"] assms(2) by simp

text \<open>Listing, resumed below the last revision of a full page, is the rest of the list.\<close>

lemma list_resume:
  assumes "invar s" and "list_before c k r n s = Inr xs" and "0 < n" and "int (length xs) = n"
    and "list_before c k (vs_rev (last xs)) m s = Inr ys"
  shows "xs @ ys = take (nat n + nat m) (filter (\<lambda>x. vs_rev x < r) (snaps s c k))"
proof -
  let ?all = "filter (\<lambda>x. vs_rev x < r) (snaps s c k)"
  have all: "desc_by vs_rev ?all" "distinct (map vs_rev ?all)"
    using snaps_desc [OF assms(1)] snaps_distinct [OF assms(1)]
    by (simp_all add: desc_by_filter distinct_map_filter)
  have xs: "xs = take (nat n) ?all"
    using list_ok [OF assms(1,2)] .
  then have n: "0 < nat n" "nat n \<le> length ?all"
    using assms(3,4) by auto
  then have "xs \<noteq> []" using assms(3,4) by auto
  then have "last xs \<in> set ?all"
    using xs by (metis in_set_takeD last_in_set)
  then have "vs_rev (last xs) < r" by simp
  then have "filter (\<lambda>x. vs_rev x < vs_rev (last xs)) (snaps s c k) =
      filter (\<lambda>x. vs_rev x < vs_rev (last xs)) ?all"
    by (auto intro: filter_cong)
  also have "\<dots> = drop (nat n) ?all"
    using desc_filter_below_last [OF all n] xs by simp
  finally have "ys = take (nat m) (drop (nat n) ?all)"
    using list_ok [OF assms(1,5)] by simp
  with xs show ?thesis by (simp add: take_add)
qed

end

end
