(* ===== verification/Base64.thy ===== *)
theory Base64
  imports Go_Strings
begin

text \<open>
  Go's \<open>encoding/base64\<close>: the encodings \<open>StdEncoding\<close> (padded), \<open>RawStdEncoding\<close> and
  \<open>RawURLEncoding\<close> that the history file, the history index and the page cursors use.
  The decoder is the lenient one of Go: it skips carriage returns and line feeds
  anywhere and does not look at the trailing bits of the last character.
\<close>

definition stdAlphabet :: string where
  "stdAlphabet = ''ABCDEFGHIJKLMNOPQRSTUVWXYZabcdefghijklmnopqrstuvwxyz0123456789+/''"

definition urlAlphabet :: string where
  "urlAlphabet = ''ABCDEFGHIJKLMNOPQRSTUVWXYZabcdefghijklmnopqrstuvwxyz0123456789-_''"

definition padChar :: char where
  "padChar = CHR ''=''"

definition newline :: char where
  "newline = CHR 0x0A"

definition sextets :: "string \<Rightarrow> nat \<Rightarrow> string" where
  "sextets al v =
     [al ! (v div 64 div 64 div 64 mod 64), al ! (v div 64 div 64 mod 64), al ! (v div 64 mod 64), al ! (v mod 64)]"

definition joinSextets :: "nat \<Rightarrow> nat \<Rightarrow> nat \<Rightarrow> nat \<Rightarrow> nat" where
  "joinSextets i j k l = ((i * 64 + j) * 64 + k) * 64 + l"

definition octets :: "nat \<Rightarrow> string" where
  "octets v = [char_of (v div 256 div 256 mod 256), char_of (v div 256 mod 256), char_of (v mod 256)]"

definition joinOctets :: "char \<Rightarrow> char \<Rightarrow> char \<Rightarrow> nat" where
  "joinOctets a b c = (byte a * 256 + byte b) * 256 + byte c"

fun encode64 :: "string \<Rightarrow> bool \<Rightarrow> bytes \<Rightarrow> string" where
  "encode64 al pad (a # b # c # s) =
     sextets al (joinOctets a b c) @ encode64 al pad s"
| "encode64 al pad [a, b] =
     take 3 (sextets al (joinOctets a b (CHR 0x00))) @ (if pad then [padChar] else [])"
| "encode64 al pad [a] =
     take 2 (sextets al (joinOctets a (CHR 0x00) (CHR 0x00))) @ (if pad then [padChar, padChar] else [])"
| "encode64 al pad [] = []"

fun alphaIndex :: "string \<Rightarrow> char \<Rightarrow> nat option" where
  "alphaIndex [] c = None"
| "alphaIndex (a # al) c = (if a = c then Some 0 else map_option Suc (alphaIndex al c))"

fun decodeQuanta :: "string \<Rightarrow> bool \<Rightarrow> string \<Rightarrow> bytes option" where
  "decodeQuanta al pad (a # b # c # d # s) =
     (case (alphaIndex al a, alphaIndex al b) of
        (Some i, Some j) \<Rightarrow>
          (case (alphaIndex al c, alphaIndex al d) of
             (Some k, Some l) \<Rightarrow>
               map_option (\<lambda>t. octets (joinSextets i j k l) @ t) (decodeQuanta al pad s)
           | (Some k, None) \<Rightarrow>
               if pad \<and> d = padChar \<and> s = [] then Some (take 2 (octets (joinSextets i j k 0)))
               else None
           | (None, _) \<Rightarrow>
               if pad \<and> c = padChar \<and> d = padChar \<and> s = [] then Some (take 1 (octets (joinSextets i j 0 0)))
               else None)
      | _ \<Rightarrow> None)"
| "decodeQuanta al pad [a, b, c] =
     (case (alphaIndex al a, alphaIndex al b, alphaIndex al c) of
        (Some i, Some j, Some k) \<Rightarrow>
          if pad then None else Some (take 2 (octets (joinSextets i j k 0)))
      | _ \<Rightarrow> None)"
| "decodeQuanta al pad [a, b] =
     (case (alphaIndex al a, alphaIndex al b) of
        (Some i, Some j) \<Rightarrow> if pad then None else Some (take 1 (octets (joinSextets i j 0 0)))
      | _ \<Rightarrow> None)"
| "decodeQuanta al pad [a] = None"
| "decodeQuanta al pad [] = Some []"

definition decode64 :: "string \<Rightarrow> bool \<Rightarrow> string \<Rightarrow> bytes option" where
  "decode64 al pad s =
     decodeQuanta al pad (filter (\<lambda>c. c \<noteq> CHR 0x0A \<and> c \<noteq> CHR 0x0D) s)"

abbreviation "StdEncode \<equiv> encode64 stdAlphabet True"
abbreviation "StdDecode \<equiv> decode64 stdAlphabet True"
abbreviation "RawStdEncode \<equiv> encode64 stdAlphabet False"
abbreviation "RawURLEncode \<equiv> encode64 urlAlphabet False"
abbreviation "RawURLDecode \<equiv> decode64 urlAlphabet False"

section \<open>What any alphabet promises\<close>

locale base64_alphabet =
  fixes al :: string
  assumes length_al: "length al = 64"
    and distinct_al: "distinct al"
    and pad_fresh: "padChar \<notin> set al"
    and plain: "CHR 0x0A \<notin> set al" "CHR 0x0D \<notin> set al" "CHR 0x00 \<notin> set al"
begin

lemma alphaIndex_nth:
  assumes "distinct xs" and "i < length xs"
  shows "alphaIndex xs (xs ! i) = Some i"
  using assms
proof (induction xs arbitrary: i)
  case (Cons x xs)
  then show ?case
    by (cases i) (auto simp: nth_eq_iff_index_eq)
qed simp

lemma index_nth [simp]: "i < 64 \<Longrightarrow> alphaIndex al (al ! i) = Some i"
  using alphaIndex_nth distinct_al length_al by simp

lemma index_none: "c \<notin> set al \<Longrightarrow> alphaIndex al c = None"
proof -
  have "c \<notin> set xs \<Longrightarrow> alphaIndex xs c = None" for xs
    by (induction xs) auto
  then show "c \<notin> set al \<Longrightarrow> alphaIndex al c = None" by blast
qed

lemma index_pad [simp]: "alphaIndex al padChar = None"
  using pad_fresh by (rule index_none)

lemma join_sextets:
  assumes "v < 16777216"
  shows "joinSextets (v div 64 div 64 div 64 mod 64) (v div 64 div 64 mod 64) (v div 64 mod 64) (v mod 64) = v"
proof -
  define p q r where "p = v div 64" and "q = p div 64" and "r = q div 64"
  have "p < 262144" using assms by (simp add: p_def less_mult_imp_div_less)
  then have "q < 4096" by (simp add: q_def less_mult_imp_div_less)
  then have "r < 64" by (simp add: r_def less_mult_imp_div_less)
  then have "joinSextets (r mod 64) (q mod 64) (p mod 64) (v mod 64) = v"
    by (simp add: joinSextets_def r_def q_def p_def div_mult_mod_eq)
  then show ?thesis by (simp only: p_def q_def r_def)
qed

lemma digit256: "y < 256 \<Longrightarrow> (x * 256 + y) div 256 = x" "y < 256 \<Longrightarrow> (x * 256 + y) mod 256 = (y :: nat)"
  by simp_all

lemma octets_join: "octets (joinOctets a b c) = [a, b, c]"
  unfolding octets_def joinOctets_def digit256 [OF byte_less] by (simp add: byte_def)

lemma joinOctets_bound: "joinOctets a b c < 16777216"
proof -
  have "byte a \<le> 255" "byte b \<le> 255" "byte c \<le> 255"
    using byte_less [of a] byte_less [of b] byte_less [of c] by linarith+
  moreover have "joinOctets a b c = byte a * 65536 + byte b * 256 + byte c"
    by (simp add: joinOctets_def algebra_simps)
  ultimately show ?thesis by linarith
qed

lemma joinOctets_low:
  "joinOctets a b (CHR 0x00) mod 64 = 0" "joinOctets a (CHR 0x00) (CHR 0x00) div 64 mod 64 = 0"
proof -
  have zero: "byte (CHR 0x00) = 0" by (simp add: byte_def)
  have "joinOctets a b (CHR 0x00) = (byte a * 1024 + byte b * 4) * 64"
    by (simp add: joinOctets_def zero algebra_simps)
  then show "joinOctets a b (CHR 0x00) mod 64 = 0"
    by (metis mod_mult_self2_is_0)
  have "joinOctets a (CHR 0x00) (CHR 0x00) = (byte a * 16 * 64) * 64"
    by (simp add: joinOctets_def zero algebra_simps)
  then show "joinOctets a (CHR 0x00) (CHR 0x00) div 64 mod 64 = 0"
    by (metis mod_mult_self2_is_0 nonzero_mult_div_cancel_right zero_neq_numeral)
qed

lemma decode_three:
  "decodeQuanta al pad (sextets al (joinOctets a b c) @ s) =
     map_option (\<lambda>t. a # b # c # t) (decodeQuanta al pad s)"
  by (cases "decodeQuanta al pad s") (simp_all add: sextets_def join_sextets joinOctets_bound octets_join)

lemma decode_two:
  "decodeQuanta al pad (take 3 (sextets al (joinOctets a b (CHR 0x00))) @ (if pad then [padChar] else [])) =
     Some [a, b]"
  using join_sextets [OF joinOctets_bound, of a b "CHR 0x00"] octets_join [of a b "CHR 0x00"]
  by (simp add: sextets_def joinOctets_low)

lemma decode_one:
  "decodeQuanta al pad (take 2 (sextets al (joinOctets a (CHR 0x00) (CHR 0x00))) @ (if pad then [padChar, padChar] else [])) =
     Some [a]"
  using join_sextets [OF joinOctets_bound, of a "CHR 0x00" "CHR 0x00"] octets_join [of a "CHR 0x00" "CHR 0x00"]
  by (simp add: sextets_def joinOctets_low)

lemma quanta_roundtrip: "decodeQuanta al pad (encode64 al pad s) = Some s"
  by (induction s rule: encode64.induct [of "\<lambda>_ _ s. decodeQuanta al pad (encode64 al pad s) = Some s" al pad])
    (simp_all only: encode64.simps decode_three decode_two decode_one option.map decodeQuanta.simps)

lemma set_sextets: "set (sextets al v) \<subseteq> set al"
  using length_al by (simp add: sextets_def)

lemma set_encode64: "set (encode64 al pad s) \<subseteq> set al \<union> (if pad then {padChar} else {})"
proof (induction s rule: encode64.induct [of "\<lambda>_ _ s. set (encode64 al pad s) \<subseteq> set al \<union> (if pad then {padChar} else {})" al pad])
  case (1 al' pad' a b c s)
  then show ?case using set_sextets [of "joinOctets a b c"] by auto
next
  case (2 al' pad' a b)
  then show ?case using set_sextets [of "joinOctets a b (CHR 0x00)"] by (auto dest: in_set_takeD)
next
  case (3 al' pad' a)
  then show ?case using set_sextets [of "joinOctets a (CHR 0x00) (CHR 0x00)"] by (auto dest: in_set_takeD)
qed simp

lemma no_newlines: "CHR 0x0A \<notin> set (encode64 al pad s)" "CHR 0x0D \<notin> set (encode64 al pad s)"
  using set_encode64 [of pad s] plain by (auto simp: padChar_def split: if_splits)

lemma no_nul: "CHR 0x00 \<notin> set (encode64 al pad s)"
  using set_encode64 [of pad s] plain by (auto simp: padChar_def split: if_splits)

lemma roundtrip: "decode64 al pad (encode64 al pad s) = Some s"
proof -
  have "filter (\<lambda>c. c \<noteq> CHR 0x0A \<and> c \<noteq> CHR 0x0D) (encode64 al pad s) = encode64 al pad s"
    using no_newlines [of pad s] by (intro filter_True) auto
  then show ?thesis by (simp only: decode64_def quanta_roundtrip)
qed

lemma encode_inj: "encode64 al pad s = encode64 al pad t \<longleftrightarrow> s = t"
  by (metis roundtrip option.inject)

end

interpretation std64: base64_alphabet stdAlphabet
  by unfold_locales (simp_all add: stdAlphabet_def padChar_def)

interpretation url64: base64_alphabet urlAlphabet
  by unfold_locales (simp_all add: urlAlphabet_def padChar_def)

end
