(* ===== verification/File_History.thy ===== *)
theory File_History
  imports History_Spec Base64 "HOL-Library.AList"
begin

text \<open>
  \<open>FileHistory\<close> of \<open>internal/store/history.go\<close>: the append-only JSONL file of value
  snapshots with its in-memory index, its loading, its pruning by rewriting the file, and
  the failure paths of each. The \<open>map[string][]ValueSnapshot\<close> of the code is an
  association list with distinct keys; where the code's result depends on an iteration
  order it sorts first, and so does the model.

  The file system is a table of inodes and a directory that names them: renaming a new
  file over the history file leaves the old inode reachable through an open descriptor
  only, which matters when reopening the renamed file fails.

  \<open>encoding/json\<close> appears through a codec for one record per line.
\<close>

section \<open>The file system\<close>

record fsys =
  fs_inode :: "string \<rightharpoonup> nat"
  fs_data :: "nat \<Rightarrow> bytes"
  fs_next :: nat

definition path_data :: "fsys \<Rightarrow> string \<Rightarrow> bytes" where
  "path_data fs path = (case fs_inode fs path of None \<Rightarrow> [] | Some i \<Rightarrow> fs_data fs i)"

definition set_data :: "nat \<Rightarrow> bytes \<Rightarrow> fsys \<Rightarrow> fsys" where
  "set_data i d fs = fs\<lparr>fs_data := (fs_data fs)(i := d)\<rparr>"

section \<open>Records and keys\<close>

definition historyRecordVersion :: int where
  "historyRecordVersion = 1"

definition maxHistoryRecordSize :: nat where
  "maxHistoryRecordSize = 8388608"

record historyRecord =
  hr_FormatVersion :: int
  hr_ClusterID :: string
  hr_KeyBase64 :: string
  hr_ValueBase64 :: string
  hr_CreateRevision :: int
  hr_ModRevision :: int
  hr_KeyVersion :: int
  hr_Lease :: int
  hr_CapturedAt :: gotime

definition recordFromSnapshot :: "ValueSnapshot \<Rightarrow> historyRecord" where
  "recordFromSnapshot s =
    \<lparr>hr_FormatVersion = historyRecordVersion,
     hr_ClusterID = vs_ClusterID s,
     hr_KeyBase64 = StdEncode (e_Key (vs_Entry s)),
     hr_ValueBase64 = StdEncode (e_Value (vs_Entry s)),
     hr_CreateRevision = e_CreateRevision (vs_Entry s),
     hr_ModRevision = e_ModRevision (vs_Entry s),
     hr_KeyVersion = e_Version (vs_Entry s),
     hr_Lease = e_Lease (vs_Entry s),
     hr_CapturedAt = vs_CapturedAt s\<rparr>"

definition validateSnapshot :: "ValueSnapshot \<Rightarrow> error option" where
  "validateSnapshot s =
    (if TrimSpace (vs_ClusterID s) = [] then Some (Opaque ''snapshot cluster id cannot be empty'')
     else if length (e_Key (vs_Entry s)) = 0 then Some (Opaque ''snapshot key cannot be empty'')
     else if e_ModRevision (vs_Entry s) < 1
       then Some (Opaque ''snapshot modification revision must be positive'')
     else None)"

definition toSnapshot :: "historyRecord \<Rightarrow> (error, ValueSnapshot) result" where
  "toSnapshot r =
    (if hr_FormatVersion r \<noteq> historyRecordVersion then Inl (Opaque ''unsupported format version'')
     else case StdDecode (hr_KeyBase64 r) of
       None \<Rightarrow> Inl (Opaque ''decode key'')
     | Some key \<Rightarrow>
       (case StdDecode (hr_ValueBase64 r) of
         None \<Rightarrow> Inl (Opaque ''decode value'')
       | Some value \<Rightarrow>
         (let s = \<lparr>vs_ClusterID = hr_ClusterID r,
                   vs_Entry = \<lparr>e_Key = key, e_Value = value,
                     e_CreateRevision = hr_CreateRevision r, e_ModRevision = hr_ModRevision r,
                     e_Version = hr_KeyVersion r, e_Lease = hr_Lease r\<rparr>,
                   vs_CapturedAt = hr_CapturedAt r\<rparr> in
          case validateSnapshot s of Some e \<Rightarrow> Inl e | None \<Rightarrow> Inr s)))"

definition historyEntryKey :: "string \<Rightarrow> bytes \<Rightarrow> string" where
  "historyEntryKey clusterID key = clusterID @ [CHR 0x00] @ RawStdEncode key"

definition historySeenKey :: "ValueSnapshot \<Rightarrow> string" where
  "historySeenKey s =
     historyEntryKey (vs_ClusterID s) (e_Key (vs_Entry s)) @ [CHR 0x00] @
     FormatInt (e_ModRevision (vs_Entry s))"

section \<open>The index\<close>

type_synonym hist_entries = "(string \<times> ValueSnapshot list) list"

record FileHistory =
  fh_file :: "nat option"        \<comment> \<open>the inode of the open descriptor; \<open>None\<close> when closed\<close>
  fh_filePath :: string
  fh_entries :: hist_entries
  fh_seen :: "string set"

definition entries_at :: "hist_entries \<Rightarrow> string \<Rightarrow> ValueSnapshot list" where
  "entries_at es k = (case map_of es k of None \<Rightarrow> [] | Some xs \<Rightarrow> xs)"

definition addLocked :: "FileHistory \<Rightarrow> ValueSnapshot \<Rightarrow> FileHistory" where
  "addLocked h s =
    (let seenKey = historySeenKey s in
     if seenKey \<in> fh_seen h then h
     else
       let entryKey = historyEntryKey (vs_ClusterID s) (e_Key (vs_Entry s)) in
       h\<lparr>fh_entries := AList.update entryKey (entries_at (fh_entries h) entryKey @ [s]) (fh_entries h),
         fh_seen := insert seenKey (fh_seen h)\<rparr>)"

section \<open>Loading\<close>

text \<open>The complete lines of a file, each with its line feed, and what follows the last one.\<close>

fun split_lines :: "bytes \<Rightarrow> bytes \<Rightarrow> bytes list \<times> bytes" where
  "split_lines acc [] = ([], rev acc)"
| "split_lines acc (c # cs) =
     (if c = newline
      then (let (ls, rest) = split_lines [] cs in (rev (c # acc) # ls, rest))
      else split_lines (c # acc) cs)"

definition loadLine :: "historyRecord json_codec \<Rightarrow> FileHistory \<Rightarrow> bytes \<Rightarrow> (error, FileHistory) result" where
  "loadLine C h line =
    (if maxHistoryRecordSize < length line then Inl (Opaque ''history record exceeds limit'')
     else if TrimSpace line = [] then Inr h
     else case unmarshal C line of
       None \<Rightarrow> Inl (Opaque ''decode history record'')
     | Some record \<Rightarrow>
       (case toSnapshot record of
         Inl e \<Rightarrow> Inl (Opaque ''validate history record'')
       | Inr s \<Rightarrow> Inr (addLocked h s)))"

fun loadLines :: "historyRecord json_codec \<Rightarrow> FileHistory \<Rightarrow> bytes list \<Rightarrow> (error, FileHistory) result" where
  "loadLines C h [] = Inr h"
| "loadLines C h (l # ls) =
     (case loadLine C h l of Inl e \<Rightarrow> Inl e | Inr h' \<Rightarrow> loadLines C h' ls)"

text \<open>
  \<open>NewFileHistory\<close> with its \<open>load\<close>: the managed file is opened or created, its complete
  lines are read, a torn last line is cut off. \<open>trunc_ok\<close> says whether \<open>Truncate\<close>
  succeeds.
\<close>

definition open_inode :: "string \<Rightarrow> fsys \<Rightarrow> nat \<times> fsys" where
  "open_inode path fs =
    (case fs_inode fs path of
       Some i \<Rightarrow> (i, fs)
     | None \<Rightarrow> (fs_next fs, fs\<lparr>fs_inode := (fs_inode fs)(path \<mapsto> fs_next fs),
                              fs_data := (fs_data fs)(fs_next fs := []),
                              fs_next := Suc (fs_next fs)\<rparr>))"

definition FileHistory_load ::
  "historyRecord json_codec \<Rightarrow> bool \<Rightarrow> FileHistory \<Rightarrow> nat \<Rightarrow> fsys \<Rightarrow> (error, FileHistory) result \<times> fsys" where
  "FileHistory_load C trunc_ok h i fs =
    (let (ls, rest) = split_lines [] (fs_data fs i) in
     case loadLines C h ls of
       Inl e \<Rightarrow> (Inl e, fs)
     | Inr h' \<Rightarrow>
         if rest = [] then (Inr h', fs)
         else if trunc_ok then (Inr h', set_data i (concat ls) fs)
         else (Inl (Opaque ''discard partial history record''), fs))"

definition NewFileHistory ::
  "historyRecord json_codec \<Rightarrow> bool \<Rightarrow> string \<Rightarrow> fsys \<Rightarrow> (error, FileHistory) result \<times> fsys" where
  "NewFileHistory C trunc_ok path fs =
    (if TrimSpace path = [] then (Inl (Opaque ''history file path cannot be empty''), fs)
     else let (i, fs') = open_inode path fs in
       FileHistory_load C trunc_ok
         \<lparr>fh_file = Some i, fh_filePath = path, fh_entries = [], fh_seen = {}\<rparr> i fs')"

section \<open>Saving\<close>

text \<open>
  The outcome of the system calls of one append: all succeed, \<open>Seek\<close> fails, \<open>Write\<close>
  fails or is short after some bytes, \<open>Sync\<close> fails; and whether the \<open>Truncate\<close> of
  \<open>rollbackAppend\<close>, whose error is ignored, succeeds.
\<close>

datatype append_fault = AppendOk | SeekFails | WriteFails nat | SyncFails

record append_io =
  ai_fault :: append_fault
  ai_truncate_ok :: bool

definition rollbackAppend :: "append_io \<Rightarrow> nat \<Rightarrow> bytes \<Rightarrow> bytes" where
  "rollbackAppend io originalSize d = (if ai_truncate_ok io then take originalSize d else d)"

definition appendRecord :: "append_io \<Rightarrow> nat \<Rightarrow> bytes \<Rightarrow> fsys \<Rightarrow> error option \<times> fsys" where
  "appendRecord io i data fs =
    (let old = fs_data fs i in
     case ai_fault io of
       SeekFails \<Rightarrow> (Some (Opaque ''seek history file''), fs)
     | WriteFails n \<Rightarrow>
         (Some (Opaque ''append history record''),
          set_data i (rollbackAppend io (length old) (old @ take n data)) fs)
     | SyncFails \<Rightarrow>
         (Some (Opaque ''sync history record''),
          set_data i (rollbackAppend io (length old) (old @ data)) fs)
     | AppendOk \<Rightarrow> (None, set_data i (old @ data) fs))"

definition FileHistory_Save ::
  "historyRecord json_codec \<Rightarrow> gotime \<Rightarrow> append_io \<Rightarrow> ValueSnapshot \<Rightarrow> FileHistory \<times> fsys \<Rightarrow>
     (error, unit) result \<times> (FileHistory \<times> fsys)" where
  "FileHistory_Save C now io snapshot = (\<lambda>(h, fs).
    (case validateSnapshot snapshot of
       Some e \<Rightarrow> (Inl e, (h, fs))
     | None \<Rightarrow>
       (let s = (if vs_CapturedAt snapshot = 0 then snapshot\<lparr>vs_CapturedAt := now\<rparr> else snapshot) in
        case fh_file h of
          None \<Rightarrow> (Inl (Opaque ''history file is closed''), (h, fs))
        | Some i \<Rightarrow>
          if historySeenKey s \<in> fh_seen h then (Inr (), (h, fs))
          else
            (case marshal C (recordFromSnapshot s) of
               None \<Rightarrow> (Inl (Opaque ''encode history record''), (h, fs))
             | Some j \<Rightarrow>
               (let data = j @ [newline] in
                if maxHistoryRecordSize < length data
                then (Inl (Opaque ''history record exceeds limit''), (h, fs))
                else
                  (case appendRecord io i data fs of
                     (Some e, fs') \<Rightarrow> (Inl e, (h, fs'))
                   | (None, fs') \<Rightarrow> (Inr (), (addLocked h s, fs'))))))))"

section \<open>Reading\<close>

definition FileHistory_ListBefore ::
  "string \<Rightarrow> bytes \<Rightarrow> int \<Rightarrow> int \<Rightarrow> FileHistory \<Rightarrow> (error, ValueSnapshot list) result" where
  "FileHistory_ListBefore clusterID key modRevision limit h =
    (if TrimSpace clusterID = [] \<or> length key = 0 \<or> modRevision < 1 then Inr []
     else if limit < 1 then Inr []
     else if fh_file h = None then Inl (Opaque ''history file is closed'')
     else
       let snapshots = filter (\<lambda>s. \<not> vs_rev s \<ge> modRevision)
                         (entries_at (fh_entries h) (historyEntryKey clusterID key));
           sorted = sort_desc vs_rev snapshots in
       Inr (if int (length sorted) > limit then take (nat limit) sorted else sorted))"

definition FileHistory_LatestBefore ::
  "string \<Rightarrow> bytes \<Rightarrow> int \<Rightarrow> FileHistory \<Rightarrow> (error, ValueSnapshot option) result" where
  "FileHistory_LatestBefore clusterID key modRevision h =
    (case FileHistory_ListBefore clusterID key modRevision 1 h of
       Inl e \<Rightarrow> Inl e
     | Inr [] \<Rightarrow> Inr None
     | Inr (s # _) \<Rightarrow> Inr (Some s))"

section \<open>Pruning\<close>

text \<open>
  \<open>newest[:keep]\<close> panics for a negative \<open>keep\<close>; both callers have checked that
  \<open>keep\<close> is smaller than the length.
\<close>

definition newestSnapshots :: "ValueSnapshot list \<Rightarrow> int \<Rightarrow> ValueSnapshot list option" where
  "newestSnapshots snapshots keep =
    (if keep < 0 \<or> int (length snapshots) < keep then None
     else Some (take (nat keep) (sort_desc vs_rev snapshots)))"

text \<open>
  The outcome of the rewrite of the file: the steps up to and including the rename can
  fail with no effect (the temporary file is removed); \<open>ReopenFails\<close> comes after the
  rename, and \<open>CloseOldFails\<close> after the new state is in place.
\<close>

datatype replace_fault = ReplaceOk | BeforeRenameFails | ReopenFails | CloseOldFails

fun encodeSnapshots :: "historyRecord json_codec \<Rightarrow> ValueSnapshot list \<Rightarrow> (error, bytes) result" where
  "encodeSnapshots C [] = Inr []"
| "encodeSnapshots C (s # ss) =
     (case marshal C (recordFromSnapshot s) of
        None \<Rightarrow> Inl (Opaque ''encode pruned history record'')
      | Some j \<Rightarrow>
        (let data = j @ [newline] in
         if maxHistoryRecordSize < length data then Inl (Opaque ''pruned history record exceeds limit'')
         else case encodeSnapshots C ss of Inl e \<Rightarrow> Inl e | Inr rest \<Rightarrow> Inr (data @ rest)))"

definition sorted_snapshots :: "hist_entries \<Rightarrow> ValueSnapshot list" where
  "sorted_snapshots es = concat (map (entries_at es) (sort (map fst es)))"

definition replaceEntriesLocked ::
  "historyRecord json_codec \<Rightarrow> replace_fault \<Rightarrow> hist_entries \<Rightarrow> FileHistory \<times> fsys \<Rightarrow>
     (error, unit) result \<times> (FileHistory \<times> fsys)" where
  "replaceEntriesLocked C rf updated = (\<lambda>(h, fs).
    (case encodeSnapshots C (sorted_snapshots updated) of
       Inl e \<Rightarrow> (Inl e, (h, fs))
     | Inr data \<Rightarrow>
       if rf = BeforeRenameFails then (Inl (Opaque ''replace pruned history file''), (h, fs))
       else
         let fs' = fs\<lparr>fs_inode := (fs_inode fs)(fh_filePath h \<mapsto> fs_next fs),
                      fs_data := (fs_data fs)(fs_next fs := data),
                      fs_next := Suc (fs_next fs)\<rparr> in
         if rf = ReopenFails then (Inl (Opaque ''reopen pruned history file''), (h, fs'))
         else
           let h' = h\<lparr>fh_file := Some (fs_next fs), fh_entries := updated,
                      fh_seen := set (map historySeenKey (concat (map snd updated)))\<rparr> in
           (if rf = CloseOldFails then Inl (Opaque ''close replaced history file'') else Inr (),
            (h', fs'))))"

definition FileHistory_PruneKey ::
  "historyRecord json_codec \<Rightarrow> replace_fault \<Rightarrow> string \<Rightarrow> bytes \<Rightarrow> int \<Rightarrow> FileHistory \<times> fsys \<Rightarrow>
     (error, unit) result \<times> (FileHistory \<times> fsys)" where
  "FileHistory_PruneKey C rf clusterID key keep = (\<lambda>(h, fs).
    (if keep = 0 \<or> TrimSpace clusterID = [] \<or> length key = 0 then (Inr (), (h, fs))
     else if fh_file h = None then (Inl (Opaque ''history file is closed''), (h, fs))
     else
       let entryKey = historyEntryKey clusterID key; es = fh_entries h in
       if int (length (entries_at es entryKey)) \<le> keep then (Inr (), (h, fs))
       else
         (case newestSnapshots (entries_at es entryKey) keep of
            None \<Rightarrow> (Inl Panic, (h, fs))
          | Some kept \<Rightarrow> replaceEntriesLocked C rf (AList.update entryKey kept es) (h, fs))))"

definition FileHistory_Prune ::
  "historyRecord json_codec \<Rightarrow> replace_fault \<Rightarrow> int \<Rightarrow> FileHistory \<times> fsys \<Rightarrow>
     (error, unit) result \<times> (FileHistory \<times> fsys)" where
  "FileHistory_Prune C rf keep = (\<lambda>(h, fs).
    (if keep = 0 then (Inr (), (h, fs))
     else if fh_file h = None then (Inl (Opaque ''history file is closed''), (h, fs))
     else
       let es = fh_entries h; over = (\<lambda>(k, ss). \<not> int (length ss) \<le> keep) in
       if \<not> list_ex over es then (Inr (), (h, fs))
       else if keep < 0 then (Inl Panic, (h, fs))
       else
         replaceEntriesLocked C rf
           (map (\<lambda>(k, ss). (k, if over (k, ss) then take (nat keep) (sort_desc vs_rev ss) else ss)) es)
           (h, fs)))"

definition FileHistory_Close :: "FileHistory \<Rightarrow> FileHistory" where
  "FileHistory_Close h = h\<lparr>fh_file := None\<rparr>"

section \<open>Keys separate clusters, keys and revisions\<close>

lemma split_at_first:
  assumes "y @ c # x = y' @ c # x'" and "c \<notin> set y" and "c \<notin> set y'"
  shows "y = y' \<and> x = x'"
  using assms
proof (induction y arbitrary: y')
  case Nil
  then show ?case by (cases y') auto
next
  case (Cons a y)
  then show ?case by (cases y') auto
qed

lemma split_at_last:
  assumes "x @ [c] @ y = x' @ [c] @ y'" and "c \<notin> set y" and "c \<notin> set y'"
  shows "x = x' \<and> y = y'"
proof -
  have "rev y @ c # rev x = rev y' @ c # rev x'"
    using arg_cong [OF assms(1), of rev] by simp
  then have "rev y = rev y' \<and> rev x = rev x'"
    using assms(2,3) by (intro split_at_first) simp_all
  then show ?thesis by simp
qed

lemma historyEntryKey_inj:
  "historyEntryKey c k = historyEntryKey c' k' \<longleftrightarrow> c = c' \<and> k = k'"
  using split_at_last [of c "CHR 0x00" "RawStdEncode k" c' "RawStdEncode k'"] std64.no_nul
  by (auto simp: historyEntryKey_def std64.encode_inj)

lemma historySeenKey_inj:
  "historySeenKey s = historySeenKey t \<longleftrightarrow>
     vs_ClusterID s = vs_ClusterID t \<and> vs_key s = vs_key t \<and> vs_rev s = vs_rev t"
  using split_at_last [of "historyEntryKey (vs_ClusterID s) (vs_key s)" "CHR 0x00" "FormatInt (vs_rev s)"
      "historyEntryKey (vs_ClusterID t) (vs_key t)" "FormatInt (vs_rev t)"] FormatInt_no_nul
  by (auto simp: historySeenKey_def historyEntryKey_inj FormatInt_inj)

lemma toSnapshot_recordFromSnapshot:
  "validateSnapshot s = None \<Longrightarrow> toSnapshot (recordFromSnapshot s) = Inr s"
  by (cases s; cases "vs_Entry s") (simp add: toSnapshot_def recordFromSnapshot_def std64.roundtrip Let_def)

section \<open>The invariant of the index and its abstraction\<close>

abbreviation key_of :: "ValueSnapshot \<Rightarrow> string" where
  "key_of s \<equiv> historyEntryKey (vs_ClusterID s) (vs_key s)"

definition entries_inv :: "hist_entries \<Rightarrow> bool" where
  "entries_inv es \<longleftrightarrow> distinct (map fst es) \<and>
     (\<forall>k ss. (k, ss) \<in> set es \<longrightarrow> distinct (map vs_rev ss) \<and>
        (\<forall>s \<in> set ss. key_of s = k \<and> validateSnapshot s = None))"

definition all_snapshots :: "hist_entries \<Rightarrow> ValueSnapshot set" where
  "all_snapshots es = (\<Union>e \<in> set es. set (snd e))"

definition fh_inv :: "FileHistory \<Rightarrow> bool" where
  "fh_inv h \<longleftrightarrow> entries_inv (fh_entries h) \<and> fh_seen h = historySeenKey ` all_snapshots (fh_entries h)"

text \<open>
  What the index means: for a cluster and a key, the snapshots in descending order of
  their modification revisions.
\<close>

definition fh_abs :: "FileHistory \<Rightarrow> string \<Rightarrow> bytes \<Rightarrow> ValueSnapshot list" where
  "fh_abs h c k = sort_desc vs_rev (entries_at (fh_entries h) (historyEntryKey c k))"

lemma all_snapshots_seen: "set (map historySeenKey (concat (map snd es))) = historySeenKey ` all_snapshots es"
  by (simp add: all_snapshots_def)

lemma entries_atD:
  assumes "entries_inv es" and "s \<in> set (entries_at es k)"
  shows "key_of s = k" and "validateSnapshot s = None" and "s \<in> all_snapshots es"
proof -
  obtain ss where ss: "(k, ss) \<in> set es" "s \<in> set ss"
    using assms(2) by (cases "map_of es k") (auto simp: entries_at_def dest: map_of_SomeD)
  then show "key_of s = k" "validateSnapshot s = None" "s \<in> all_snapshots es"
    using assms(1) by (force simp: entries_inv_def all_snapshots_def)+
qed

lemma entries_at_distinct: "entries_inv es \<Longrightarrow> distinct (map vs_rev (entries_at es k))"
  by (auto simp: entries_at_def entries_inv_def dest: map_of_SomeD split: option.splits)

lemma all_snapshots_iff:
  assumes "entries_inv es"
  shows "s \<in> all_snapshots es \<longleftrightarrow> s \<in> set (entries_at es (key_of s))"
proof
  assume "s \<in> all_snapshots es"
  then obtain k ss where "(k, ss) \<in> set es" "s \<in> set ss"
    by (auto simp: all_snapshots_def)
  moreover from this assms have "key_of s = k" and "map_of es k = Some ss"
    by (auto simp: entries_inv_def intro: map_of_is_SomeI)
  ultimately show "s \<in> set (entries_at es (key_of s))"
    by (simp add: entries_at_def)
qed (rule entries_atD(3) [OF assms])

lemma seen_iff:
  assumes "fh_inv h"
  shows "historySeenKey s \<in> fh_seen h \<longleftrightarrow> vs_rev s \<in> vs_rev ` set (entries_at (fh_entries h) (key_of s))"
proof -
  have inv: "entries_inv (fh_entries h)" using assms by (simp add: fh_inv_def)
  have "historySeenKey s \<in> fh_seen h \<longleftrightarrow>
      (\<exists>t \<in> all_snapshots (fh_entries h). key_of t = key_of s \<and> vs_rev t = vs_rev s)"
    using assms by (auto simp: fh_inv_def historySeenKey_inj historyEntryKey_inj image_iff eq_commute)
  also have "\<dots> \<longleftrightarrow> (\<exists>t \<in> set (entries_at (fh_entries h) (key_of s)). vs_rev t = vs_rev s)"
    using all_snapshots_iff [OF inv] entries_atD [OF inv] by metis
  finally show ?thesis by (metis (no_types, lifting) image_iff)
qed

lemma entries_at_update [simp]:
  "entries_at (AList.update k v es) k' = (if k' = k then v else entries_at es k')"
  by (simp add: entries_at_def update_conv')

lemma entries_inv_update:
  assumes "entries_inv es" and "distinct (map vs_rev v)"
    and "\<And>s. s \<in> set v \<Longrightarrow> key_of s = k \<and> validateSnapshot s = None"
  shows "entries_inv (AList.update k v es)"
proof -
  have "distinct (map fst (AList.update k v es))"
    using assms(1) by (simp add: entries_inv_def distinct_update)
  moreover have "k' = k \<and> ss = v \<or> (k', ss) \<in> set es" if "(k', ss) \<in> set (AList.update k v es)" for k' ss
    using that by (induction es) (auto split: if_splits)
  ultimately show ?thesis
    using assms unfolding entries_inv_def by blast
qed

text \<open>Snapshots of one key are told apart by their revisions.\<close>

lemma desc_of_abs: "desc_by vs_rev (fh_abs h c k)"
  by (simp add: fh_abs_def)

lemma distinct_abs: "fh_inv h \<Longrightarrow> distinct (map vs_rev (fh_abs h c k))"
  by (simp add: fh_abs_def fh_inv_def entries_at_distinct)

lemma set_abs: "set (fh_abs h c k) = set (entries_at (fh_entries h) (historyEntryKey c k))"
  by (simp add: fh_abs_def)

lemma fh_inv_empty: "fh_inv \<lparr>fh_file = f, fh_filePath = p, fh_entries = [], fh_seen = {}\<rparr>"
  by (simp add: fh_inv_def entries_inv_def all_snapshots_def)

subsection \<open>Adding one snapshot\<close>

lemma addLocked_unseen_entries:
  assumes "historySeenKey s \<notin> fh_seen h"
  shows "entries_at (fh_entries (addLocked h s)) k =
    (if k = key_of s then entries_at (fh_entries h) k @ [s] else entries_at (fh_entries h) k)"
  using assms by (simp add: addLocked_def Let_def)

lemma addLocked_inv:
  assumes "fh_inv h" and "validateSnapshot s = None"
  shows "fh_inv (addLocked h s)"
proof (cases "historySeenKey s \<in> fh_seen h")
  case True
  with assms(1) show ?thesis by (simp add: addLocked_def)
next
  case False
  let ?es = "fh_entries h" and ?es' = "fh_entries (addLocked h s)"
  have inv: "entries_inv ?es" using assms(1) by (simp add: fh_inv_def)
  have "vs_rev s \<notin> vs_rev ` set (entries_at ?es (key_of s))"
    using False seen_iff [OF assms(1)] by blast
  then have inv': "entries_inv ?es'"
    using False inv assms(2) entries_atD [OF inv]
    by (auto simp: addLocked_def Let_def entries_at_distinct intro!: entries_inv_update)
  have "all_snapshots ?es' = insert s (all_snapshots ?es)"
    using all_snapshots_iff [OF inv'] all_snapshots_iff [OF inv]
    by (auto simp: addLocked_unseen_entries [OF False] split: if_splits)
  then have "historySeenKey ` all_snapshots ?es' = fh_seen (addLocked h s)"
    using assms(1) False by (simp add: fh_inv_def addLocked_def Let_def)
  with inv' show ?thesis by (simp add: fh_inv_def)
qed

lemma addLocked_abs:
  assumes "fh_inv h"
  shows "fh_abs (addLocked h s) c k =
    (if c = vs_ClusterID s \<and> k = vs_key s then ins_snapshot s (fh_abs h c k) else fh_abs h c k)"
proof (cases "historySeenKey s \<in> fh_seen h")
  case True
  then have "vs_rev s \<in> vs_rev ` set (fh_abs h (vs_ClusterID s) (vs_key s))"
    using seen_iff [OF assms] by (simp add: set_abs)
  with True show ?thesis by (auto simp: addLocked_def ins_snapshot_def)
next
  case False
  let ?xs = "entries_at (fh_entries h) (key_of s)"
  have new: "vs_rev s \<notin> vs_rev ` set ?xs"
    using False seen_iff [OF assms] by blast
  have "distinct (map vs_rev (?xs @ [s]))"
    using new assms by (simp add: fh_inv_def entries_at_distinct)
  then have "sort_desc vs_rev (?xs @ [s]) = sort_desc vs_rev (sort_desc vs_rev ?xs @ [s])"
    by (intro any_sort_is_sort_desc) (auto simp: mset_eq_imp_distinct_iff)
  then show ?thesis
    using False new addLocked_unseen_entries [OF False]
    by (auto simp: fh_abs_def ins_snapshot_def historyEntryKey_inj)
qed

subsection \<open>The operations on the index\<close>

lemma validate_stamp [simp]: "validateSnapshot (stamp now s) = validateSnapshot s"
  by (simp add: validateSnapshot_def)

lemma FileHistory_Save_ok:
  assumes "FileHistory_Save C now io x (h, fs) = (Inr (), (h', fs'))"
  shows "h' = addLocked h (stamp now x)" and "validateSnapshot x = None"
  using assms
  by (auto simp: FileHistory_Save_def Let_def stamp_def addLocked_def split: option.splits if_splits prod.splits)

lemma FileHistory_Save_err:
  assumes "FileHistory_Save C now io x (h, fs) = (Inl e, (h', fs'))"
  shows "h' = h"
  using assms
  by (auto simp: FileHistory_Save_def Let_def split: option.splits if_splits prod.splits)

lemma FileHistory_Save_inv:
  assumes "fh_inv h" and "FileHistory_Save C now io x (h, fs) = (r, (h', fs'))"
  shows "fh_inv h'"
proof (cases r)
  case (Inl e)
  with assms show ?thesis using FileHistory_Save_err by blast
next
  case (Inr u)
  with assms(2) have "h' = addLocked h (stamp now x)" and "validateSnapshot x = None"
    using FileHistory_Save_ok by (metis (full_types) old.unit.exhaust)+
  with assms(1) show ?thesis by (simp add: addLocked_inv)
qed

lemma FileHistory_ListBefore_ok:
  assumes "fh_inv h" and "FileHistory_ListBefore c k r n h = Inr xs"
  shows "xs = take (nat n) (filter (\<lambda>x. vs_rev x < r) (fh_abs h c k))"
proof -
  let ?es = "entries_at (fh_entries h) (historyEntryKey c k)"
  have inv: "entries_inv (fh_entries h)" using assms(1) by (simp add: fh_inv_def)
  have valid: "TrimSpace c \<noteq> [] \<and> k \<noteq> [] \<and> 1 \<le> vs_rev x" if "x \<in> set ?es" for x
    using entries_atD [OF inv that]
    by (auto simp: historyEntryKey_inj validateSnapshot_def split: if_splits)
  have "sort_desc vs_rev (filter (\<lambda>x. vs_rev x < r) ?es) = filter (\<lambda>x. vs_rev x < r) (fh_abs h c k)"
    using sort_desc_filter [OF entries_at_distinct [OF inv]] by (simp add: fh_abs_def)
  moreover have "filter (\<lambda>x. vs_rev x < r) (fh_abs h c k) = []"
    if "TrimSpace c = [] \<or> k = [] \<or> r < 1"
  proof -
    have "\<not> vs_rev x < r" if "x \<in> set (fh_abs h c k)" for x
      using valid [of x] that \<open>TrimSpace c = [] \<or> k = [] \<or> r < 1\<close> by (auto simp: set_abs)
    then show ?thesis by simp
  qed
  ultimately show ?thesis
    using assms(2)
    by (auto simp: FileHistory_ListBefore_def Let_def not_le take_if_longer
        simp del: if_split split: if_split_asm)
qed

text \<open>Replacing the index by one with the same or fewer snapshots of each key.\<close>

lemma replaceEntriesLocked_cases:
  assumes "replaceEntriesLocked C rf updated (h, fs) = (r, (h', fs'))"
  shows "h' = h \<and> r \<noteq> Inr () \<or>
    fh_entries h' = updated \<and> fh_seen h' = historySeenKey ` all_snapshots updated \<and> fh_filePath h' = fh_filePath h"
  using assms
  by (auto simp: replaceEntriesLocked_def Let_def all_snapshots_seen [symmetric]
      simp del: set_map set_concat split: sum.splits if_splits)

lemma replaceEntriesLocked_inv:
  assumes "fh_inv h" and "entries_inv updated"
    and "replaceEntriesLocked C rf updated (h, fs) = (r, (h', fs'))"
  shows "fh_inv h'"
  using replaceEntriesLocked_cases [OF assms(3)] assms(1,2) by (auto simp: fh_inv_def)

lemma kept_entries_inv:
  assumes "entries_inv es"
  shows "entries_inv (AList.update k (take n (sort_desc vs_rev (entries_at es k))) es)"
  using entries_atD [OF assms] entries_at_distinct [OF assms]
  by (intro entries_inv_update [OF assms]) (auto simp: take_map [symmetric] dest: in_set_takeD)

lemma FileHistory_PruneKey_inv:
  assumes "fh_inv h" and "FileHistory_PruneKey C rf c k keep (h, fs) = (r, (h', fs'))"
  shows "fh_inv h'"
proof -
  have inv: "entries_inv (fh_entries h)" using assms(1) by (simp add: fh_inv_def)
  show ?thesis
    using assms replaceEntriesLocked_inv [OF assms(1) kept_entries_inv [OF inv]]
    by (auto simp: FileHistory_PruneKey_def Let_def newestSnapshots_def split: if_splits)
qed

lemma FileHistory_PruneKey_ok:
  assumes "fh_inv h" and "0 \<le> keep" and "FileHistory_PruneKey C rf c k keep (h, fs) = (Inr (), (h', fs'))"
  shows "fh_abs h' c' k' =
    (if keep \<noteq> 0 \<and> c' = c \<and> k' = k then take (nat keep) (fh_abs h c' k') else fh_abs h c' k')"
proof -
  let ?es = "fh_entries h" and ?ek = "historyEntryKey c k"
  have inv: "entries_inv ?es" using assms(1) by (simp add: fh_inv_def)
  have none: "fh_abs h c k = []" if "TrimSpace c = [] \<or> k = []"
  proof -
    have "entries_at ?es ?ek = []"
    proof (rule ccontr)
      assume "entries_at ?es ?ek \<noteq> []"
      then obtain x where "x \<in> set (entries_at ?es ?ek)" by (metis last_in_set)
      from entries_atD [OF inv this] that show False
        by (auto simp: historyEntryKey_inj validateSnapshot_def split: if_splits)
    qed
    then show ?thesis by (simp add: fh_abs_def sort_desc_def)
  qed
  consider (same) "h' = h" "keep = 0 \<or> TrimSpace c = [] \<or> k = [] \<or> int (length (entries_at ?es ?ek)) \<le> keep"
    | (pruned) "fh_entries h' = AList.update ?ek (take (nat keep) (sort_desc vs_rev (entries_at ?es ?ek))) ?es"
        "keep \<noteq> 0"
    using assms(2,3)
    by (auto simp: FileHistory_PruneKey_def Let_def newestSnapshots_def split: if_splits
        dest!: replaceEntriesLocked_cases)
  then show ?thesis
  proof cases
    case same
    then have "keep = 0 \<or> fh_abs h c k = [] \<or> length (fh_abs h c k) \<le> nat keep"
      using none assms(2) by (auto simp: fh_abs_def)
    with same(1) show ?thesis by auto
  next
    case pruned
    have "sort_desc vs_rev (take (nat keep) (fh_abs h c k)) = take (nat keep) (fh_abs h c k)"
      using distinct_abs [OF assms(1), of c k] desc_of_abs [of h c k]
      by (intro sort_desc_id) (simp_all add: desc_by_take take_map [symmetric])
    with pruned show ?thesis
      by (auto simp: fh_abs_def historyEntryKey_inj)
  qed
qed

text \<open>The file-backed history meets the contract.\<close>

interpretation fh: value_history
  "\<lambda>(h, fs). fh_inv h" "\<lambda>(h, fs). fh_abs h"
  "\<lambda>io now. FileHistory_Save C now io"
  "\<lambda>c k r n (h, fs). FileHistory_ListBefore c k r n h"
  "FileHistory_PruneKey C" for C
proof unfold_locales
  fix s :: "FileHistory \<times> fsys" and c k
  assume "case s of (h, fs) \<Rightarrow> fh_inv h"
  then show "desc_by vs_rev ((case s of (h, fs) \<Rightarrow> fh_abs h) c k)"
    and "distinct (map vs_rev ((case s of (h, fs) \<Rightarrow> fh_abs h) c k))"
    by (auto simp: desc_of_abs distinct_abs split: prod.splits)
next
  fix s :: "FileHistory \<times> fsys" and io now x
  assume "case s of (h, fs) \<Rightarrow> fh_inv h"
  then show "case snd (FileHistory_Save C now io x s) of (h, fs) \<Rightarrow> fh_inv h"
    by (cases s; cases "FileHistory_Save C now io x s") (auto intro: FileHistory_Save_inv)
next
  fix s s' :: "FileHistory \<times> fsys" and io now x c k
  assume "case s of (h, fs) \<Rightarrow> fh_inv h" and "FileHistory_Save C now io x s = (Inr (), s')"
  then show "(case s' of (h, fs) \<Rightarrow> fh_abs h) c k =
      (if c = vs_ClusterID x \<and> k = vs_key x
       then ins_snapshot (stamp now x) ((case s of (h, fs) \<Rightarrow> fh_abs h) c k)
       else (case s of (h, fs) \<Rightarrow> fh_abs h) c k)"
    by (cases s; cases s') (auto dest!: FileHistory_Save_ok(1) simp: addLocked_abs)
next
  fix s s' :: "FileHistory \<times> fsys" and io now x e c k
  assume "FileHistory_Save C now io x s = (Inl e, s')"
  then show "(case s' of (h, fs) \<Rightarrow> fh_abs h) c k = (case s of (h, fs) \<Rightarrow> fh_abs h) c k"
    by (cases s; cases s') (auto dest!: FileHistory_Save_err)
next
  fix s :: "FileHistory \<times> fsys" and jo c k keep
  assume "case s of (h, fs) \<Rightarrow> fh_inv h"
  then show "case snd (FileHistory_PruneKey C jo c k keep s) of (h, fs) \<Rightarrow> fh_inv h"
    by (cases s; cases "FileHistory_PruneKey C jo c k keep s") (auto intro: FileHistory_PruneKey_inv)
next
  fix s s' :: "FileHistory \<times> fsys" and jo c k keep c' k'
  assume "case s of (h, fs) \<Rightarrow> fh_inv h" and "0 \<le> keep"
    and "FileHistory_PruneKey C jo c k keep s = (Inr (), s')"
  then show "(case s' of (h, fs) \<Rightarrow> fh_abs h) c' k' =
      (if keep \<noteq> 0 \<and> c' = c \<and> k' = k then take (nat keep) ((case s of (h, fs) \<Rightarrow> fh_abs h) c' k')
       else (case s of (h, fs) \<Rightarrow> fh_abs h) c' k')"
    by (cases s; cases s') (auto simp: FileHistory_PruneKey_ok)
next
  fix s :: "FileHistory \<times> fsys" and c k r n xs
  assume "case s of (h, fs) \<Rightarrow> fh_inv h" and "(case s of (h, fs) \<Rightarrow> FileHistory_ListBefore c k r n h) = Inr xs"
  then show "xs = take (nat n) (filter (\<lambda>x. vs_rev x < r) ((case s of (h, fs) \<Rightarrow> fh_abs h) c k))"
    by (cases s) (simp add: FileHistory_ListBefore_ok)
qed

end
