(* ===== verification/File_History_Persistence.thy ===== *)
theory File_History_Persistence
  imports File_History
begin

text \<open>
  The history file against the index: replaying the file gives the index back. The
  relation holds after every acknowledged save and every completed prune, it survives a
  crash in the middle of an append, and a reopened history answers every query as the
  index that wrote the file did.
\<close>

section \<open>What encoding/json promises\<close>

text \<open>
  \<open>json.Marshal\<close> writes no raw line feed, and \<open>Decode\<close> reads back a record whose
  strings are valid UTF-8 and whose integers are 64-bit.
\<close>

definition snapshot_wf :: "ValueSnapshot \<Rightarrow> bool" where
  "snapshot_wf s \<longleftrightarrow> utf8Valid (vs_ClusterID s) \<and> int64 (e_CreateRevision (vs_Entry s)) \<and>
     int64 (e_ModRevision (vs_Entry s)) \<and> int64 (e_Version (vs_Entry s)) \<and> int64 (e_Lease (vs_Entry s))"

definition json_lines_law :: "historyRecord json_codec \<Rightarrow> bool" where
  "json_lines_law C \<longleftrightarrow>
    (\<forall>s j. snapshot_wf s \<longrightarrow> marshal C (recordFromSnapshot s) = Some j \<longrightarrow>
       newline \<notin> set j \<and> TrimSpace (j @ [newline]) \<noteq> [] \<and>
       unmarshal C (j @ [newline]) = Some (recordFromSnapshot s))"

lemma snapshot_wf_stamp [simp]: "snapshot_wf (stamp now s) = snapshot_wf s"
  by (simp add: snapshot_wf_def)

section \<open>Lines\<close>

lemma split_lines_noline:
  "newline \<notin> set s \<Longrightarrow> split_lines acc s = ([], rev acc @ s)"
  by (induction s arbitrary: acc) auto

lemma split_lines_line:
  "newline \<notin> set j \<Longrightarrow>
     split_lines acc (j @ newline # s) = ((rev acc @ j @ [newline]) # fst (split_lines [] s), snd (split_lines [] s))"
  by (induction j arbitrary: acc) (auto split: prod.splits)

lemma split_lines_append:
  "snd (split_lines acc s) = [] \<Longrightarrow>
     split_lines acc (s @ t) = (fst (split_lines acc s) @ fst (split_lines [] t), snd (split_lines [] t))"
  by (induction acc s rule: split_lines.induct) (auto split: prod.splits)

lemma split_lines_concat: "concat (fst (split_lines acc s)) @ snd (split_lines acc s) = rev acc @ s"
  by (induction acc s rule: split_lines.induct) (auto split: prod.splits)

lemma loadLines_append:
  "loadLines C h (xs @ ys) = (case loadLines C h xs of Inl e \<Rightarrow> Inl e | Inr h' \<Rightarrow> loadLines C h' ys)"
  by (induction xs arbitrary: h) (auto split: sum.splits)

section \<open>Indexes that answer alike\<close>

definition same_index :: "FileHistory \<Rightarrow> FileHistory \<Rightarrow> bool" where
  "same_index h h' \<longleftrightarrow>
     (\<forall>k. entries_at (fh_entries h) k = entries_at (fh_entries h') k) \<and> fh_seen h = fh_seen h'"

lemma same_index_refl [simp]: "same_index h h"
  by (simp add: same_index_def)

lemma same_index_abs: "same_index h h' \<Longrightarrow> fh_abs h c k = fh_abs h' c k"
  by (simp add: same_index_def fh_abs_def)

lemma same_index_addLocked: "same_index h h' \<Longrightarrow> same_index (addLocked h s) (addLocked h' s)"
  by (simp add: same_index_def addLocked_def Let_def)

definition blank :: "FileHistory \<Rightarrow> FileHistory" where
  "blank h = h\<lparr>fh_entries := [], fh_seen := {}\<rparr>"

lemma addLocked_frame [simp]:
  "fh_file (addLocked h s) = fh_file h" "fh_filePath (addLocked h s) = fh_filePath h"
  by (simp_all add: addLocked_def Let_def)

section \<open>The file holds the index\<close>

definition fh_synced :: "historyRecord json_codec \<Rightarrow> FileHistory \<Rightarrow> fsys \<Rightarrow> bool" where
  "fh_synced C h fs \<longleftrightarrow>
    (\<exists>i h0. fh_file h = Some i \<and> fs_inode fs (fh_filePath h) = Some i \<and>
       snd (split_lines [] (fs_data fs i)) = [] \<and>
       loadLines C (blank h) (fst (split_lines [] (fs_data fs i))) = Inr h0 \<and> same_index h0 h)"

lemma loadLine_saved:
  assumes "json_lines_law C" and "snapshot_wf s" and "validateSnapshot s = None"
    and "marshal C (recordFromSnapshot s) = Some j" and "length (j @ [newline]) \<le> maxHistoryRecordSize"
  shows "loadLine C h (j @ [newline]) = Inr (addLocked h s)"
  using assms by (auto simp: loadLine_def json_lines_law_def toSnapshot_recordFromSnapshot)

lemma appended_synced:
  assumes law: "json_lines_law C" and wf: "snapshot_wf s" "validateSnapshot s = None"
    and j: "marshal C (recordFromSnapshot s) = Some j" "length (j @ [newline]) \<le> maxHistoryRecordSize"
    and sync: "fh_synced C h fs" and i: "fh_file h = Some i"
  shows "fh_synced C (addLocked h s) (set_data i (fs_data fs i @ j @ [newline]) fs)"
proof -
  obtain h0 where p: "fs_inode fs (fh_filePath h) = Some i"
    and rest: "snd (split_lines [] (fs_data fs i)) = []"
    and load: "loadLines C (blank h) (fst (split_lines [] (fs_data fs i))) = Inr h0"
    and same: "same_index h0 h"
    using sync i by (auto simp: fh_synced_def)
  have nl: "newline \<notin> set j"
    using law wf(1) j(1) by (auto simp: json_lines_law_def)
  have lines: "split_lines [] (fs_data fs i @ j @ [newline]) =
      (fst (split_lines [] (fs_data fs i)) @ [j @ [newline]], [])"
    using split_lines_append [OF rest, of "j @ [newline]"] split_lines_line [OF nl, of "[]" "[]"] by simp
  have "loadLines C (blank h) (fst (split_lines [] (fs_data fs i @ j @ [newline]))) = Inr (addLocked h0 s)"
    using loadLine_saved [OF law wf j] by (simp add: lines loadLines_append load)
  moreover have "blank (addLocked h s) = blank h"
    by (simp add: blank_def addLocked_def Let_def)
  ultimately show ?thesis
    using p i lines same_index_addLocked [OF same]
    by (auto simp: fh_synced_def set_data_def)
qed

text \<open>An acknowledged save is in the file; a failed save whose rollback works leaves no trace.\<close>

lemma FileHistory_Save_synced:
  assumes "json_lines_law C" and "snapshot_wf x" and "fh_synced C h fs"
    and save: "FileHistory_Save C now io x (h, fs) = (r, (h', fs'))"
    and "r = Inr () \<or> ai_truncate_ok io"
  shows "fh_synced C h' fs'"
proof (cases "h' = h \<and> fs' = fs")
  case True
  with assms(3) show ?thesis by simp
next
  case changed: False
  let ?s = "stamp now x"
  obtain i j where i: "fh_file h = Some i" and j: "marshal C (recordFromSnapshot ?s) = Some j"
      "length (j @ [newline]) \<le> maxHistoryRecordSize" and valid: "validateSnapshot ?s = None"
    and app: "\<exists>e. appendRecord io i (j @ [newline]) fs = (e, fs') \<and>
      (case e of None \<Rightarrow> r = Inr () \<and> h' = addLocked h ?s | Some e \<Rightarrow> r = Inl e \<and> h' = h)"
    using save changed
    by (auto simp: FileHistory_Save_def Let_def stamp_def [symmetric] not_less
        split: option.splits if_splits prod.splits)
  have undone: "set_data i (fs_data fs i) fs = fs" by (simp add: set_data_def)
  show ?thesis
  proof (cases "ai_fault io")
    case AppendOk
    then have "h' = addLocked h ?s" and "fs' = set_data i (fs_data fs i @ j @ [newline]) fs"
      using app by (auto simp: appendRecord_def Let_def split: option.splits)
    then show ?thesis
      using appended_synced [OF assms(1) _ valid j assms(3) i] assms(2) by simp
  qed (use app changed assms(5) undone in \<open>auto simp: appendRecord_def rollbackAppend_def Let_def
      split: option.splits\<close>)
qed

section \<open>Restart\<close>

lemma NewFileHistory_synced:
  assumes "fh_synced C h fs" and "TrimSpace (fh_filePath h) \<noteq> []"
  obtains h2 where "NewFileHistory C t (fh_filePath h) fs = (Inr h2, fs)" and "same_index h2 h"
proof -
  obtain i h0 where i: "fh_file h = Some i" "fs_inode fs (fh_filePath h) = Some i"
    and rest: "snd (split_lines [] (fs_data fs i)) = []"
    and load: "loadLines C (blank h) (fst (split_lines [] (fs_data fs i))) = Inr h0"
    and same: "same_index h0 h"
    using assms(1) by (auto simp: fh_synced_def)
  have "blank h = \<lparr>fh_file = Some i, fh_filePath = fh_filePath h, fh_entries = [], fh_seen = {}\<rparr>"
    using i(1) by (simp add: blank_def)
  then have "NewFileHistory C t (fh_filePath h) fs = (Inr h0, fs)"
    using assms(2) i load rest
    by (auto simp: NewFileHistory_def open_inode_def FileHistory_load_def split: prod.splits)
  with same that show thesis by blast
qed

text \<open>A crash after any proper prefix of the appended bytes loses the torn line only.\<close>

lemma NewFileHistory_torn:
  assumes "fh_synced C h fs" and "fh_file h = Some i" and "TrimSpace (fh_filePath h) \<noteq> []"
    and "newline \<notin> set torn"
  obtains h2 where
    "NewFileHistory C True (fh_filePath h) (set_data i (fs_data fs i @ torn) fs) = (Inr h2, fs)"
    and "same_index h2 h"
proof -
  obtain h0 where i: "fs_inode fs (fh_filePath h) = Some i"
    and rest: "snd (split_lines [] (fs_data fs i)) = []"
    and load: "loadLines C (blank h) (fst (split_lines [] (fs_data fs i))) = Inr h0"
    and same: "same_index h0 h"
    using assms(1,2) by (auto simp: fh_synced_def)
  have blank: "blank h = \<lparr>fh_file = Some i, fh_filePath = fh_filePath h, fh_entries = [], fh_seen = {}\<rparr>"
    using assms(2) by (simp add: blank_def)
  have lines: "split_lines [] (fs_data fs i @ torn) = (fst (split_lines [] (fs_data fs i)), torn)"
    using split_lines_append [OF rest, of torn] split_lines_noline [OF assms(4), of "[]"] by simp
  have whole: "concat (fst (split_lines [] (fs_data fs i))) = fs_data fs i"
    using split_lines_concat [of "[]" "fs_data fs i"] rest by simp
  have "NewFileHistory C True (fh_filePath h) (set_data i (fs_data fs i @ torn) fs) = (Inr h0, fs)"
    using assms(3) i load lines whole blank
    by (auto simp: NewFileHistory_def open_inode_def FileHistory_load_def set_data_def)
  with same that show thesis by blast
qed

section \<open>A pruned file holds the pruned index\<close>

lemma fold_addLocked_frame [simp]:
  "fh_file (fold (\<lambda>s h. addLocked h s) ss h) = fh_file h"
  "fh_filePath (fold (\<lambda>s h. addLocked h s) ss h) = fh_filePath h"
  by (induction ss arbitrary: h) simp_all

text \<open>Replaying snapshots with distinct identities appends each to the list of its key.\<close>

lemma fold_addLocked:
  assumes "distinct (map historySeenKey ss)" and "fh_seen h \<inter> historySeenKey ` set ss = {}"
  shows "entries_at (fh_entries (fold (\<lambda>s h. addLocked h s) ss h)) k =
      entries_at (fh_entries h) k @ filter (\<lambda>s. key_of s = k) ss \<and>
    fh_seen (fold (\<lambda>s h. addLocked h s) ss h) = fh_seen h \<union> historySeenKey ` set ss"
  using assms
proof (induction ss arbitrary: h)
  case (Cons s ss)
  have new: "historySeenKey s \<notin> fh_seen h" using Cons.prems(2) by auto
  then have seen: "fh_seen (addLocked h s) = insert (historySeenKey s) (fh_seen h)"
    by (simp add: addLocked_def Let_def)
  have "fh_seen (addLocked h s) \<inter> historySeenKey ` set ss = {}"
    using Cons.prems seen by auto
  with Cons.IH [of "addLocked h s"] Cons.prems(1) seen addLocked_unseen_entries [OF new]
  show ?case by auto
qed simp

lemma encodeSnapshots_load:
  assumes "json_lines_law C" and "\<forall>s \<in> set ss. snapshot_wf s \<and> validateSnapshot s = None"
    and "encodeSnapshots C ss = Inr data"
  shows "snd (split_lines [] data) = [] \<and>
    loadLines C h (fst (split_lines [] data)) = Inr (fold (\<lambda>s h. addLocked h s) ss h)"
  using assms(2,3)
proof (induction ss arbitrary: data h)
  case (Cons s ss)
  obtain j rest where j: "marshal C (recordFromSnapshot s) = Some j"
      "length (j @ [newline]) \<le> maxHistoryRecordSize"
    and rest: "encodeSnapshots C ss = Inr rest" and data: "data = j @ [newline] @ rest"
    using Cons.prems(2) by (auto simp: Let_def split: option.splits if_splits sum.splits)
  have nl: "newline \<notin> set j"
    using assms(1) Cons.prems(1) j(1) by (auto simp: json_lines_law_def)
  have "loadLine C h (j @ [newline]) = Inr (addLocked h s)"
    using loadLine_saved [OF assms(1) _ _ j] Cons.prems(1) by simp
  with Cons.IH [OF _ rest, of "addLocked h s"] Cons.prems(1) show ?case
    by (simp add: data split_lines_line [OF nl, of "[]", simplified])
qed simp

lemma filter_key_concat:
  assumes "\<And>k. k \<in> set ks \<Longrightarrow> \<forall>s \<in> set (f k). key_of s = k" and "distinct ks"
  shows "filter (\<lambda>s. key_of s = k) (concat (map f ks)) = (if k \<in> set ks then f k else [])"
  using assms
proof (induction ks)
  case (Cons k' ks)
  have same: "\<forall>s \<in> set (f k'). key_of s = k'" using Cons.prems(1) [of k'] by simp
  have IH: "filter (\<lambda>s. key_of s = k) (concat (map f ks)) = (if k \<in> set ks then f k else [])"
    using Cons by simp
  show ?case
  proof (cases "k = k'")
    case True
    with same have "filter (\<lambda>s. key_of s = k) (f k') = f k'"
      by (intro filter_True) auto
    with IH True Cons.prems(2) show ?thesis by simp
  next
    case False
    with same have "filter (\<lambda>s. key_of s = k) (f k') = []"
      by (intro filter_False) auto
    with IH False show ?thesis by simp
  qed
qed simp

lemma sorted_snapshots_props:
  assumes "entries_inv es"
  shows "filter (\<lambda>s. key_of s = k) (sorted_snapshots es) = entries_at es k"
    and "set (sorted_snapshots es) = all_snapshots es"
    and "distinct (map historySeenKey (sorted_snapshots es))"
proof -
  let ?ks = "sort (map fst es)"
  have ks: "distinct ?ks" and own: "\<And>k. \<forall>s \<in> set (entries_at es k). key_of s = k"
    using assms entries_atD(1) [OF assms] by (auto simp: entries_inv_def)
  show key: "filter (\<lambda>s. key_of s = k) (sorted_snapshots es) = entries_at es k" for k
  proof -
    have "k \<notin> fst ` set es \<Longrightarrow> entries_at es k = []"
      by (simp add: entries_at_def map_of_eq_None_iff [THEN iffD2])
    then show ?thesis
      unfolding sorted_snapshots_def using filter_key_concat [of ?ks "entries_at es" k] ks own by auto
  qed
  show set: "set (sorted_snapshots es) = all_snapshots es"
  proof (rule set_eqI)
    fix s
    have "s \<in> set (sorted_snapshots es) \<longleftrightarrow> s \<in> set (filter (\<lambda>t. key_of t = key_of s) (sorted_snapshots es))"
      by simp
    then show "s \<in> set (sorted_snapshots es) \<longleftrightarrow> s \<in> all_snapshots es"
      by (simp only: key all_snapshots_iff [OF assms])
  qed
  have part: "distinct (map historySeenKey (entries_at es k))" for k
  proof -
    have "inj_on vs_rev (set (entries_at es k))" and "distinct (entries_at es k)"
      using entries_at_distinct [OF assms, of k] by (simp_all add: distinct_map)
    then show ?thesis
      by (auto simp: distinct_map inj_on_def historySeenKey_inj)
  qed
  have "distinct (map historySeenKey (concat (map (entries_at es) ks')))" if "distinct ks'" for ks'
    using that
  proof (induction ks')
    case (Cons k ks')
    have "historySeenKey s \<noteq> historySeenKey t"
      if st: "s \<in> set (entries_at es k)" "t \<in> set (entries_at es k')" "k' \<in> set ks'" for s t k'
    proof -
      have "key_of s = k" and "key_of t = k'" using own st(1,2) by blast+
      moreover have "k \<noteq> k'" using Cons.prems st(3) by auto
      ultimately show ?thesis by (auto simp: historySeenKey_inj)
    qed
    with Cons part [of k] show ?case by auto
  qed simp
  then show "distinct (map historySeenKey (sorted_snapshots es))"
    using ks by (simp add: sorted_snapshots_def)
qed

lemma replaceEntriesLocked_synced:
  assumes law: "json_lines_law C" and inv: "entries_inv updated"
    and wf: "\<forall>s \<in> all_snapshots updated. snapshot_wf s"
    and run: "replaceEntriesLocked C rf updated (h, fs) = (r, (h', fs'))"
    and rf: "rf = ReplaceOk \<or> rf = CloseOldFails" and ok: "encodeSnapshots C (sorted_snapshots updated) = Inr data"
  shows "fh_synced C h' fs'"
proof -
  let ?h0 = "fold (\<lambda>s h. addLocked h s) (sorted_snapshots updated) (blank h')"
  note sorted = sorted_snapshots_props [OF inv]
  have valid: "\<forall>s \<in> set (sorted_snapshots updated). snapshot_wf s \<and> validateSnapshot s = None"
    using wf entries_atD(2) [OF inv] by (auto simp: sorted(2) all_snapshots_iff [OF inv])
  have eqs: "h' = h\<lparr>fh_file := Some (fs_next fs), fh_entries := updated,
        fh_seen := set (map historySeenKey (concat (map snd updated)))\<rparr>"
      "fs' = fs\<lparr>fs_inode := (fs_inode fs)(fh_filePath h \<mapsto> fs_next fs),
        fs_data := (fs_data fs)(fs_next fs := data), fs_next := Suc (fs_next fs)\<rparr>"
    using run rf ok by (auto simp: replaceEntriesLocked_def Let_def)
  have disk: "fh_file h' = Some (fs_next fs)" "fs_inode fs' (fh_filePath h') = Some (fs_next fs)"
    "fs_data fs' (fs_next fs) = data" "fh_entries h' = updated"
    "fh_seen h' = historySeenKey ` all_snapshots updated"
    by (simp_all add: eqs all_snapshots_def)
  have load: "snd (split_lines [] data) = []"
    "loadLines C (blank h') (fst (split_lines [] data)) = Inr ?h0"
    using encodeSnapshots_load [OF law valid ok] by simp_all
  have "same_index ?h0 h'"
    using fold_addLocked [OF sorted(3), of "blank h'"] sorted(1,2) disk(4,5)
    by (simp add: same_index_def blank_def entries_at_def)
  with disk load show ?thesis by (auto simp: fh_synced_def)
qed

lemma FileHistory_PruneKey_synced:
  assumes law: "json_lines_law C" and inv: "fh_inv h" and wf: "\<forall>s \<in> all_snapshots (fh_entries h). snapshot_wf s"
    and sync: "fh_synced C h fs" and run: "FileHistory_PruneKey C rf c k keep (h, fs) = (r, (h', fs'))"
    and rf: "rf \<noteq> ReopenFails"
  shows "fh_synced C h' fs'"
proof (cases "h' = h \<and> fs' = fs")
  case True
  with sync show ?thesis by simp
next
  case changed: False
  let ?es = "fh_entries h" and ?ek = "historyEntryKey c k"
  let ?up = "AList.update ?ek (take (nat keep) (sort_desc vs_rev (entries_at ?es ?ek))) ?es"
  have es: "entries_inv ?es" using inv by (simp add: fh_inv_def)
  have up: "entries_inv ?up" by (rule kept_entries_inv [OF es])
  have rep: "replaceEntriesLocked C rf ?up (h, fs) = (r, (h', fs'))"
    using run changed by (auto simp: FileHistory_PruneKey_def Let_def newestSnapshots_def split: if_splits)
  have "s \<in> all_snapshots ?es" if "s \<in> all_snapshots ?up" for s
    using that by (auto simp: all_snapshots_iff [OF up] all_snapshots_iff [OF es] dest: in_set_takeD split: if_splits)
  then have "\<forall>s \<in> all_snapshots ?up. snapshot_wf s" using wf by blast
  moreover obtain data where "encodeSnapshots C (sorted_snapshots ?up) = Inr data"
    using rep changed by (cases "encodeSnapshots C (sorted_snapshots ?up)") (auto simp: replaceEntriesLocked_def)
  moreover have "rf = ReplaceOk \<or> rf = CloseOldFails"
    using rep changed rf by (cases rf) (auto simp: replaceEntriesLocked_def split: sum.splits)
  ultimately show ?thesis
    using replaceEntriesLocked_synced [OF law up _ rep] by blast
qed

end
