(* ===== verification/Field_Codec.thy ===== *)
theory Field_Codec
  imports Base64
begin

text \<open>
  A concrete text format for lists of strings: the fields in Base64, each closed by a comma,
  between braces. The concrete codecs that stand for \<open>encoding/json\<close> where a fact is evaluated
  at concrete inputs are built from it.
\<close>

definition writeFields :: "string list \<Rightarrow> string" where
  "writeFields fs = ''{'' @ concat (map (\<lambda>f. StdEncode f @ '','') fs) @ ''}''"

fun splitCommas :: "string \<Rightarrow> string \<Rightarrow> string list \<times> string" where
  "splitCommas acc [] = ([], rev acc)"
| "splitCommas acc (c # cs) =
     (if c = CHR '','' then (let (fs, rest) = splitCommas [] cs in (rev acc # fs, rest))
      else splitCommas (c # acc) cs)"

fun decodeFields :: "string list \<Rightarrow> string list option" where
  "decodeFields [] = Some []"
| "decodeFields (f # fs) =
     (case StdDecode f of None \<Rightarrow> None | Some x \<Rightarrow> map_option ((#) x) (decodeFields fs))"

definition readFields :: "string \<Rightarrow> string list option" where
  "readFields s =
    (case s of [] \<Rightarrow> None
     | c # cs \<Rightarrow> if c = CHR ''{'' then decodeFields (fst (splitCommas [] cs)) else None)"

lemma std_plain: "CHR '','' \<notin> set (StdEncode s)" "newline \<notin> set (StdEncode s)"
  using std64.set_encode64 [of True s] by (auto simp: stdAlphabet_def padChar_def newline_def)

lemma splitCommas_field:
  "CHR '','' \<notin> set f \<Longrightarrow>
     splitCommas acc (f @ CHR '','' # s) = ((rev acc @ f) # fst (splitCommas [] s), snd (splitCommas [] s))"
  by (induction f arbitrary: acc) (auto split: prod.splits)

lemma splitCommas_rest: "CHR '','' \<notin> set w \<Longrightarrow> splitCommas acc w = ([], rev acc @ w)"
  by (induction w arbitrary: acc) auto

lemma splitCommas_fields:
  assumes "CHR '','' \<notin> set w"
  shows "fst (splitCommas [] (concat (map (\<lambda>f. StdEncode f @ '','') fs) @ w)) = map StdEncode fs"
proof (induction fs)
  case Nil
  then show ?case using assms by (simp add: splitCommas_rest)
next
  case (Cons f fs)
  then show ?case by (simp add: splitCommas_field [OF std_plain(1), of "[]", simplified])
qed

lemma decodeFields_encode: "decodeFields (map StdEncode fs) = Some fs"
  by (induction fs) (simp_all add: std64.roundtrip)

lemma readFields_write_suffix: "CHR '','' \<notin> set w \<Longrightarrow> readFields (writeFields fs @ w) = Some fs"
  using splitCommas_fields [of "''}'' @ w" fs] by (simp add: readFields_def writeFields_def decodeFields_encode)

lemmas readFields_write = readFields_write_suffix [of "[newline]", simplified newline_def, simplified, folded newline_def]
lemmas readFields_writeFields [simp] = readFields_write_suffix [of "[]", simplified]

text \<open>A text cut before its closing brace has no brace.\<close>

lemma writeFields_brace: "CHR ''}'' \<notin> set (butlast (writeFields fs))" "writeFields fs = butlast (writeFields fs) @ ''}''"
proof -
  have "CHR ''}'' \<notin> set (StdEncode f)" for f
    using std64.set_encode64 [of True f] by (auto simp: stdAlphabet_def padChar_def)
  then show "CHR ''}'' \<notin> set (butlast (writeFields fs))"
    by (auto simp: writeFields_def butlast_append)
  show "writeFields fs = butlast (writeFields fs) @ ''}''"
    by (simp add: writeFields_def butlast_append)
qed

lemma writeFields_cut:
  assumes "n < length (writeFields fs)"
  shows "CHR ''}'' \<notin> set (take n (writeFields fs @ w))"
proof -
  have "take n (writeFields fs @ w) = take n (butlast (writeFields fs))"
    using assms writeFields_brace(2) [of fs] by (simp add: take_butlast)
  then show ?thesis
    using writeFields_brace(1) by (metis in_set_takeD)
qed

text \<open>How long a line is.\<close>

lemma length_StdEncode: "length (StdEncode s) = (length s + 2) div 3 * 4"
proof (induction s rule: encode64.induct [of "\<lambda>_ _ s. length (StdEncode s) = (length s + 2) div 3 * 4" stdAlphabet True])
  case (1 al pad a b c s)
  have "(length (a # b # c # s) + 2) div 3 = Suc ((length s + 2) div 3)" by simp
  then show ?case using 1 by (simp add: sextets_def)
qed (simp_all add: sextets_def)

lemma length_writeFields:
  "length (writeFields fs) = 2 + sum_list (map (\<lambda>f. (length f + 2) div 3 * 4 + 1) fs)"
  by (simp add: writeFields_def length_concat comp_def length_StdEncode)


section \<open>Codecs made of fields\<close>

text \<open>
  A codec that writes the fields of a record. It loses what \<open>img\<close> forgets, recognises its own
  text with the line feed after it, and rejects every proper prefix of the text.
\<close>

definition field_codec :: "('r \<Rightarrow> bool) \<Rightarrow> ('r \<Rightarrow> string list) \<Rightarrow> (string list \<Rightarrow> 'r option) \<Rightarrow> 'r json_codec" where
  "field_codec ok pack unpack =
    \<lparr>marshal = (\<lambda>x. if ok x then Some (writeFields (pack x)) else None),
     unmarshal = (\<lambda>s. if CHR ''}'' \<in> set s
       then (case readFields s of None \<Rightarrow> None | Some fs \<Rightarrow> unpack fs) else None)\<rparr>"

lemma field_codec_law:
  assumes "marshal (field_codec ok pack unpack) x = Some t" and "\<And>x. ok x \<Longrightarrow> unpack (pack x) = Some (img x)"
  shows "unmarshal (field_codec ok pack unpack) (take n (t @ [newline])) = (if length t \<le> n then Some (img x) else None)"
proof -
  have ok: "ok x" and t: "t = writeFields (pack x)"
    using assms(1) by (auto simp: field_codec_def split: if_splits)
  show ?thesis
  proof (cases "length t \<le> n")
    case True
    then have "take n (t @ [newline]) = t @ take (n - length t) [newline]"
      by simp
    moreover have "readFields (t @ take (n - length t) [newline]) = Some (pack x)"
      unfolding t by (rule readFields_write_suffix) (auto simp: newline_def dest: in_set_takeD)
    moreover have "CHR ''}'' \<in> set t"
      by (simp add: t writeFields_def)
    ultimately show ?thesis
      using True ok by (simp add: field_codec_def assms(2))
  next
    case False
    then show ?thesis
      using writeFields_cut [of n "pack x" "[newline]"] by (simp add: field_codec_def t)
  qed
qed

end
