(* ===== verification/Line_Codec.thy ===== *)
theory Line_Codec
  imports File_History_Persistence Field_Codec
begin

text \<open>
  A concrete line codec for history records. It stands for \<open>encoding/json\<close> where a fact
  is evaluated at concrete inputs: one record per line, its nine fields in the order of the
  struct, each in Base64 and closed by a comma, between braces. It meets
  \<^const>\<open>json_lines_law\<close>, so the law is satisfiable.
\<close>

definition recordFields :: "historyRecord \<Rightarrow> string list" where
  "recordFields r =
    [FormatInt (hr_FormatVersion r), hr_ClusterID r, hr_KeyBase64 r, hr_ValueBase64 r,
     FormatInt (hr_CreateRevision r), FormatInt (hr_ModRevision r), FormatInt (hr_KeyVersion r),
     FormatInt (hr_Lease r), FormatInt (hr_CapturedAt r)]"

fun fieldsRecord :: "string list \<Rightarrow> historyRecord option" where
  "fieldsRecord [a, b, c, d, e, f, g, h, i] =
     (case (ParseInt a, ParseInt e, ParseInt f, ParseInt g, ParseInt h, ParseInt i) of
        (Some a', Some e', Some f', Some g', Some h', Some i') \<Rightarrow>
          Some \<lparr>hr_FormatVersion = a', hr_ClusterID = b, hr_KeyBase64 = c, hr_ValueBase64 = d,
            hr_CreateRevision = e', hr_ModRevision = f', hr_KeyVersion = g', hr_Lease = h', hr_CapturedAt = i'\<rparr>
      | _ \<Rightarrow> None)"
| "fieldsRecord _ = None"

definition sample_codec :: "historyRecord json_codec" where
  "sample_codec =
    \<lparr>marshal = (\<lambda>r. if int64 (hr_CapturedAt r) then Some (writeFields (recordFields r)) else None),
     unmarshal = (\<lambda>s. case readFields s of None \<Rightarrow> None | Some fs \<Rightarrow> fieldsRecord fs)\<rparr>"

lemma fieldsRecord_recordFields:
  assumes "int64 (hr_FormatVersion r)" "int64 (hr_CreateRevision r)" "int64 (hr_ModRevision r)"
    "int64 (hr_KeyVersion r)" "int64 (hr_Lease r)" "int64 (hr_CapturedAt r)"
  shows "fieldsRecord (recordFields r) = Some r"
  using assms by (simp add: recordFields_def ParseInt_FormatInt)

lemma space_bytes:
  "space1 a \<Longrightarrow> a \<le> 0x20" "space2 a b \<Longrightarrow> 0x80 \<le> a \<and> 0x80 \<le> b"
  "space3 a b c \<Longrightarrow> 0x80 \<le> a \<and> 0x80 \<le> b \<and> 0x80 \<le> c"
  by (auto simp: space1_def space2_def space3_def)

lemma trimLeft_keeps: "c \<in> set s \<Longrightarrow> 0x20 < byte c \<Longrightarrow> byte c < 0x80 \<Longrightarrow> c \<in> set (trimLeft s)"
  by (induction s rule: trimLeft.induct) (auto dest: space_bytes)

lemma trimRightRev_keeps: "c \<in> set s \<Longrightarrow> 0x20 < byte c \<Longrightarrow> byte c < 0x80 \<Longrightarrow> c \<in> set (trimRightRev s)"
  by (induction s rule: trimRightRev.induct) (auto dest: space_bytes)

lemma TrimSpace_keeps: "c \<in> set s \<Longrightarrow> 0x20 < byte c \<Longrightarrow> byte c < 0x80 \<Longrightarrow> TrimSpace s \<noteq> []"
  using trimLeft_keeps [of c s] trimRightRev_keeps [of c "rev (trimLeft s)"]
  by (auto simp: TrimSpace_def)

lemma sample_codec_law: "json_lines_law sample_codec"
  unfolding json_lines_law_def
proof (intro allI impI conjI)
  fix s j
  let ?r = "recordFromSnapshot s"
  assume wf: "snapshot_wf s" and "marshal sample_codec ?r = Some j"
  then have j: "j = writeFields (recordFields ?r)" and t: "int64 (hr_CapturedAt ?r)"
    by (auto simp: sample_codec_def split: if_splits)
  show "newline \<notin> set j"
    using std_plain(2) by (auto simp: j writeFields_def newline_def)
  show "TrimSpace (j @ [newline]) \<noteq> []"
    by (rule TrimSpace_keeps [of "CHR ''{''"]) (simp_all add: j writeFields_def byte_def)
  have "fieldsRecord (recordFields ?r) = Some ?r"
    using wf t by (intro fieldsRecord_recordFields)
      (simp_all add: recordFromSnapshot_def snapshot_wf_def historyRecordVersion_def int64_def)
  then show "unmarshal sample_codec (j @ [newline]) = Some ?r"
    by (simp add: sample_codec_def j readFields_write)
qed

end
