(* ===== verification/History_Theorems.thy ===== *)
theory History_Theorems
  imports Line_Codec
begin

text \<open>The properties of the file-backed value history, with their instances.\<close>

section \<open>A small history\<close>

definition sample_entry :: "int \<Rightarrow> bytes \<Rightarrow> Entry" where
  "sample_entry r v = \<lparr>e_Key = ''k'', e_Value = v, e_CreateRevision = 1, e_ModRevision = r, e_Version = 1, e_Lease = 0\<rparr>"

definition sample_snapshot :: "int \<Rightarrow> bytes \<Rightarrow> ValueSnapshot" where
  "sample_snapshot r v = \<lparr>vs_ClusterID = ''c'', vs_Entry = sample_entry r v, vs_CapturedAt = 7\<rparr>"

definition sample_fs :: fsys where
  "sample_fs = \<lparr>fs_inode = [''h'' \<mapsto> 0], fs_data = (\<lambda>_. []), fs_next = 1\<rparr>"

definition sample_history :: FileHistory where
  "sample_history = \<lparr>fh_file = Some 0, fh_filePath = ''h'', fh_entries = [], fh_seen = {}\<rparr>"

definition sample_io :: append_io where
  "sample_io = \<lparr>ai_fault = AppendOk, ai_truncate_ok = True\<rparr>"

lemma sample_synced: "fh_synced sample_codec sample_history sample_fs"
  by (simp add: fh_synced_def sample_history_def sample_fs_def blank_def)

lemma sample_inv: "fh_inv sample_history"
  by (simp add: sample_history_def fh_inv_empty)

lemma sample_wf: "int64 r \<Longrightarrow> snapshot_wf (sample_snapshot r v)"
  by (simp add: snapshot_wf_def sample_snapshot_def sample_entry_def int64_def byte_def RuneError_def
      decodeRune_def)

lemma sample_save_any:
  assumes "fs_data fs 0 = []"
  shows "FileHistory_Save sample_codec 9 sample_io (sample_snapshot 3 ''v'') (sample_history, fs) =
     (Inr (), (addLocked sample_history (sample_snapshot 3 ''v''),
       set_data 0 (the (marshal sample_codec (recordFromSnapshot (sample_snapshot 3 ''v''))) @ [newline]) fs))"
proof -
  let ?s = "sample_snapshot 3 ''v''"
  let ?j = "writeFields (recordFields (recordFromSnapshot ?s))"
  have "TrimSpace ''c'' = ''c''" by (rule TrimSpace_visible) (simp add: visible_def byte_def)
  then have valid: "validateSnapshot ?s = None"
    by (simp add: validateSnapshot_def sample_snapshot_def sample_entry_def)
  have marshal: "marshal sample_codec (recordFromSnapshot ?s) = Some ?j"
    by (simp add: sample_codec_def recordFromSnapshot_def sample_snapshot_def int64_def)
  have "natDigits (Suc 0) = ''1''" "natDigits 3 = ''3''" "natDigits 0 = ''0''" "natDigits 7 = ''7''"
    by (simp_all add: natDigits.simps char_of_def bit_Suc_0_iff)
  then have "length ?j + 1 \<le> maxHistoryRecordSize"
    by (simp add: length_writeFields recordFields_def recordFromSnapshot_def sample_snapshot_def sample_entry_def
        length_StdEncode FormatInt_def historyRecordVersion_def maxHistoryRecordSize_def)
  then show ?thesis
    using valid marshal assms
    by (simp add: FileHistory_Save_def sample_history_def sample_io_def appendRecord_def)
      (simp add: sample_snapshot_def Let_def)
qed

lemmas sample_save_ok = sample_save_any [of sample_fs, simplified sample_fs_def fsys.select_convs, OF refl,
    folded sample_fs_def]

section \<open>Durability\<close>

text \<open>
  C33. A save that \<open>FileHistory.Save\<close> acknowledged survives a restart: opening the history
  file again gives an index that holds the snapshot under its cluster and key (unless that
  revision was there already) and everything the old index held, with no line rejected.
\<close>

theorem history_save_survives_restart:
  assumes "json_lines_law C" and "fh_inv h" and "fh_synced C h fs"
    and "snapshot_wf x" and "TrimSpace (fh_filePath h) \<noteq> []"
    and "FileHistory_Save C now io x (h, fs) = (Inr (), (h', fs'))"
  shows "\<exists>h2. NewFileHistory C t (fh_filePath h) fs' = (Inr h2, fs') \<and>
    (\<forall>c k. fh_abs h2 c k =
       (if c = vs_ClusterID x \<and> k = vs_key x then ins_snapshot (stamp now x) (fh_abs h c k)
        else fh_abs h c k))"
proof -
  have h': "h' = addLocked h (stamp now x)"
    using assms(6) by (rule FileHistory_Save_ok(1))
  have "fh_synced C h' fs'"
    using FileHistory_Save_synced [OF assms(1,4,3,6)] by simp
  then obtain h2 where "NewFileHistory C t (fh_filePath h') fs' = (Inr h2, fs')" and "same_index h2 h'"
    using NewFileHistory_synced assms(5) by (metis addLocked_frame(2) h')
  then show ?thesis
    using addLocked_abs [OF assms(2), of "stamp now x"] same_index_abs [of h2 h'] by (auto simp: h')
qed

theorem history_save_survives_restart_witness:
  "\<exists>h2. NewFileHistory sample_codec True ''h''
      (snd (snd (FileHistory_Save sample_codec 9 sample_io (sample_snapshot 3 ''v'') (sample_history, sample_fs)))) =
    (Inr h2, snd (snd (FileHistory_Save sample_codec 9 sample_io (sample_snapshot 3 ''v'') (sample_history, sample_fs)))) \<and>
    fh_abs h2 ''c'' ''k'' = [sample_snapshot 3 ''v'']"
proof -
  have path: "TrimSpace (fh_filePath sample_history) \<noteq> []"
    using TrimSpace_visible [of "''h''"] by (simp add: sample_history_def visible_def byte_def)
  have wf: "snapshot_wf (sample_snapshot 3 ''v'')" by (rule sample_wf) (simp add: int64_def)
  from history_save_survives_restart [OF sample_codec_law sample_inv sample_synced wf path sample_save_ok, of True]
  obtain h2 where h2: "NewFileHistory sample_codec True (fh_filePath sample_history)
      (set_data 0 (the (marshal sample_codec (recordFromSnapshot (sample_snapshot 3 ''v''))) @ [newline]) sample_fs) =
    (Inr h2, set_data 0 (the (marshal sample_codec (recordFromSnapshot (sample_snapshot 3 ''v''))) @ [newline]) sample_fs)"
    and abs: "fh_abs h2 ''c'' ''k'' = ins_snapshot (stamp 9 (sample_snapshot 3 ''v'')) (fh_abs sample_history ''c'' ''k'')"
    by (auto simp: sample_snapshot_def sample_entry_def)
  have "fh_abs h2 ''c'' ''k'' = [sample_snapshot 3 ''v'']"
    unfolding abs
    by (simp add: fh_abs_def entries_at_def sample_history_def ins_snapshot_def sort_desc_def stamp_def
        sample_snapshot_def)
  with h2 show ?thesis unfolding sample_save_ok by (auto simp: sample_history_def)
qed

text \<open>
  C34. A crash in the middle of an append loses nothing but the torn line: whatever proper
  prefix of the record's bytes reached the file, opening it again cuts the fragment off,
  restores the file to what it was and answers every query as before the append.
\<close>

theorem history_torn_append_recovers:
  assumes "json_lines_law C" and "fh_synced C h fs" and "fh_file h = Some i"
    and "TrimSpace (fh_filePath h) \<noteq> []" and "snapshot_wf x"
    and "marshal C (recordFromSnapshot x) = Some j" and "n \<le> length j"
  shows "\<exists>h2. NewFileHistory C True (fh_filePath h)
      (set_data i (fs_data fs i @ take n (j @ [newline])) fs) = (Inr h2, fs) \<and>
    (\<forall>c k. fh_abs h2 c k = fh_abs h c k)"
proof -
  have "newline \<notin> set j"
    using assms(1,5,6) by (auto simp: json_lines_law_def)
  then have "newline \<notin> set (take n (j @ [newline]))"
    using assms(7) by (auto dest: in_set_takeD)
  from NewFileHistory_torn [OF assms(2-4) this] show ?thesis
    using same_index_abs by metis
qed

theorem history_torn_append_recovers_witness:
  "\<exists>h2. NewFileHistory sample_codec True ''h''
      (set_data 0 (take 5 (the (marshal sample_codec (recordFromSnapshot (sample_snapshot 3 ''v''))) @ [newline])) sample_fs) =
    (Inr h2, sample_fs) \<and> fh_abs h2 ''c'' ''k'' = []"
proof -
  let ?r = "recordFromSnapshot (sample_snapshot 3 ''v'')"
  have path: "TrimSpace (fh_filePath sample_history) \<noteq> []"
    using TrimSpace_visible [of "''h''"] by (simp add: sample_history_def visible_def byte_def)
  have wf: "snapshot_wf (sample_snapshot 3 ''v'')" by (rule sample_wf) (simp add: int64_def)
  have open0: "fh_file sample_history = Some 0" by (simp add: sample_history_def)
  have j: "marshal sample_codec ?r = Some (writeFields (recordFields ?r))"
    by (simp add: sample_codec_def recordFromSnapshot_def sample_snapshot_def int64_def)
  have long: "5 \<le> length (writeFields (recordFields ?r))"
    by (simp add: writeFields_def recordFields_def)
  from history_torn_append_recovers [OF sample_codec_law sample_synced open0 path wf j long]
  show ?thesis by (auto simp: j sample_history_def sample_fs_def fh_abs_def entries_at_def sort_desc_def)
qed

section \<open>Index keys\<close>

text \<open>
  The strings that index the history in memory never confuse two snapshots: two
  snapshots share a \<open>historySeenKey\<close> exactly when they have the same cluster, key and
  modification revision, whatever bytes the cluster id and the key contain.
\<close>

theorem history_keys_never_collide:
  "historySeenKey s = historySeenKey t \<longleftrightarrow>
     vs_ClusterID s = vs_ClusterID t \<and> e_Key (vs_Entry s) = e_Key (vs_Entry t) \<and>
     e_ModRevision (vs_Entry s) = e_ModRevision (vs_Entry t)"
  by (rule historySeenKey_inj)

section \<open>Paging\<close>

text \<open>
  Paging through the versions of a key is exact: when a page of \<open>ListBefore\<close> is full,
  asking again below its last revision continues with the next older snapshots, so that
  the two pages together are the page of the summed limits.
\<close>

theorem history_paging_exact:
  assumes "fh_inv h" and "FileHistory_ListBefore c k r n h = Inr xs" and "0 < n"
    and "int (length xs) = n" and "0 < m" and "FileHistory_ListBefore c k (vs_rev (last xs)) m h = Inr ys"
  shows "FileHistory_ListBefore c k r (n + m) h = Inr (xs @ ys)"
proof -
  have "xs @ ys = take (nat n + nat m) (filter (\<lambda>x. vs_rev x < r) (fh_abs h c k))"
    using fh.list_resume [of "(h, undefined)" c k r n xs m ys] assms by simp
  then have all: "xs @ ys = take (nat (n + m)) (filter (\<lambda>x. vs_rev x < r) (fh_abs h c k))"
    using assms(3,5) by (simp add: nat_add_distrib)
  have "xs \<noteq> []" using assms(3,4) by auto
  then obtain zs where zs: "FileHistory_ListBefore c k r (n + m) h = Inr zs"
    using assms(2,3,5) by (auto simp: FileHistory_ListBefore_def Let_def split: if_splits)
  from FileHistory_ListBefore_ok [OF assms(1) zs] all show ?thesis
    using zs by simp
qed

definition sample_two :: FileHistory where
  "sample_two = addLocked (addLocked sample_history (sample_snapshot 3 ''v'')) (sample_snapshot 5 ''w'')"

lemma sample_valid: "1 \<le> r \<Longrightarrow> validateSnapshot (sample_snapshot r v) = None"
  using TrimSpace_visible [of "''c''"]
  by (simp add: validateSnapshot_def sample_snapshot_def sample_entry_def visible_def byte_def)

lemma sample_two_inv: "fh_inv sample_two"
  unfolding sample_two_def by (intro addLocked_inv sample_inv sample_valid) simp_all

lemma sample_two_list:
  "FileHistory_ListBefore ''c'' ''k'' r n sample_two =
     (if r < 1 \<or> n < 1 then Inr []
      else Inr (take (nat n) (sort_desc vs_rev (filter (\<lambda>s. vs_rev s < r)
        [sample_snapshot 3 ''v'', sample_snapshot 5 ''w'']))))"
proof -
  have "entries_at (fh_entries sample_two) (historyEntryKey ''c'' ''k'') =
      [sample_snapshot 3 ''v'', sample_snapshot 5 ''w'']"
    by (simp add: sample_two_def sample_history_def addLocked_def Let_def historySeenKey_inj entries_at_def
        sample_snapshot_def sample_entry_def)
  moreover have "fh_file sample_two = Some 0"
    by (simp add: sample_two_def addLocked_def Let_def sample_history_def)
  moreover have "TrimSpace ''c'' \<noteq> []"
    using TrimSpace_visible [of "''c''"] by (simp add: visible_def byte_def)
  ultimately show ?thesis
    by (simp add: FileHistory_ListBefore_def Let_def not_le)
qed

theorem history_paging_exact_witness:
  "FileHistory_ListBefore ''c'' ''k'' 9 (1 + 1) sample_two =
     Inr ([sample_snapshot 5 ''w''] @ [sample_snapshot 3 ''v''])"
proof (rule history_paging_exact [OF sample_two_inv])
  show "FileHistory_ListBefore ''c'' ''k'' 9 1 sample_two = Inr [sample_snapshot 5 ''w'']"
    by (simp add: sample_two_list sample_snapshot_def sample_entry_def sort_desc_def)
  show "FileHistory_ListBefore ''c'' ''k'' (vs_rev (last [sample_snapshot 5 ''w''])) 1 sample_two =
      Inr [sample_snapshot 3 ''v'']"
    by (simp add: sample_two_list sample_snapshot_def sample_entry_def sort_desc_def)
qed simp_all

section \<open>A lost descriptor\<close>



end
