(* ===== verification/Auth_Types.thy ===== *)
theory Auth_Types
  imports Go_Strings Atomic_File
begin

text \<open>
  The data of \<open>internal/auth/manager.go\<close>: modes, providers and roles, the sentinel errors,
  principals, local users and their persisted form, the LDAP settings, sessions and the
  manager. A slice that the code only ever copies is a list; a nil slice and an empty one are
  both the empty list.
\<close>

section \<open>Constants and errors\<close>

definition ModeLocal :: string where "ModeLocal = ''local''"
definition ModeLDAP :: string where "ModeLDAP = ''ldap''"
definition ModeBoth :: string where "ModeBoth = ''both''"
definition ProviderLocal :: string where "ProviderLocal = ''local''"
definition ProviderLDAP :: string where "ProviderLDAP = ''ldap''"
definition RoleAdmin :: string where "RoleAdmin = ''admin''"
definition RoleOperator :: string where "RoleOperator = ''operator''"

definition SessionDuration :: int where
  "SessionDuration = 12 * 3600 * 1000000000"

definition MinimumPasswordLength :: nat where "MinimumPasswordLength = 10"
definition authConfigVersion :: int where "authConfigVersion = 1"

lemmas auth_consts =
  ModeLocal_def ModeLDAP_def ModeBoth_def ProviderLocal_def ProviderLDAP_def RoleAdmin_def RoleOperator_def

datatype auth_sentinel =
    ErrNotConfigured | ErrAlreadyConfigured | ErrInvalidInput | ErrInvalidCredentials
  | ErrProviderDisabled | ErrUserExists | ErrUserNotFound | ErrLastAdmin
  | ErrPasswordUnchanged | ErrPasswordChangeNotRequired

text \<open>
  An error of the package: a sentinel, with or without a message; a failed step of replacing
  the configuration file; or another error, by its message.
\<close>

datatype auth_error =
    AuthErr auth_sentinel
  | AuthSaveFailed io_step
  | AuthOther string

section \<open>Principals and users\<close>

record Principal =
  p_Username :: string
  p_DisplayName :: string
  p_Provider :: string
  p_Role :: string
  p_ClusterIDs :: "string list"
  p_MustChangePassword :: bool

definition IsAdmin :: "Principal \<Rightarrow> bool" where
  "IsAdmin p \<longleftrightarrow> p_Role p = RoleAdmin"

definition CanAccessCluster :: "Principal \<Rightarrow> string \<Rightarrow> bool" where
  "CanAccessCluster p clusterID \<longleftrightarrow>
     (if IsAdmin p then True else TrimSpace clusterID \<in> set (p_ClusterIDs p))"

record User =
  u_Username :: string
  u_DisplayName :: string
  u_Role :: string
  u_Active :: bool
  u_ClusterIDs :: "string list"
  u_MustChangePassword :: bool
  u_CreatedAt :: gotime
  u_UpdatedAt :: gotime

record persistedUser = User +
  u_PasswordHash :: string

record LocalUserInput =
  in_Username :: string
  in_DisplayName :: string
  in_Password :: string
  in_Role :: string
  in_Active :: "bool option"
  in_ClusterIDs :: "string list"

section \<open>LDAP settings\<close>

record LDAPSettingsInput =
  li_Host :: string
  li_Port :: int
  li_TLSMode :: string
  li_CAFile :: string
  li_ServerName :: string
  li_BaseDN :: string
  li_BindDN :: string
  li_BindPassword :: "string option"
  li_UserFilter :: string
  li_UserDNTemplate :: string
  li_UsernameAttribute :: string
  li_DisplayNameAttribute :: string
  li_AdminUsernames :: "string list"

record LDAPSettingsStatus =
  ls_Host :: string
  ls_Port :: int
  ls_TLSMode :: string
  ls_CAFile :: string
  ls_ServerName :: string
  ls_BaseDN :: string
  ls_BindDN :: string
  ls_BindPasswordConfigured :: bool
  ls_UserFilter :: string
  ls_UserDNTemplate :: string
  ls_UsernameAttribute :: string
  ls_DisplayNameAttribute :: string
  ls_AdminUsernames :: "string list"

record ldapSettings =
  l_Host :: string
  l_Port :: int
  l_TLSMode :: string
  l_CAFile :: string
  l_ServerName :: string
  l_BaseDN :: string
  l_BindDN :: string
  l_BindPassword :: string
  l_UserFilter :: string
  l_UserDNTemplate :: string
  l_UsernameAttribute :: string
  l_DisplayNameAttribute :: string
  l_AdminUsernames :: "string list"

definition empty_ldap :: ldapSettings where
  "empty_ldap =
    \<lparr>l_Host = [], l_Port = 0, l_TLSMode = [], l_CAFile = [], l_ServerName = [], l_BaseDN = [], l_BindDN = [],
     l_BindPassword = [], l_UserFilter = [], l_UserDNTemplate = [], l_UsernameAttribute = [],
     l_DisplayNameAttribute = [], l_AdminUsernames = []\<rparr>"

record SettingsInput =
  si_Mode :: string
  si_LDAP :: LDAPSettingsInput

record SettingsStatus =
  ss_ConfiguredAt :: gotime
  ss_Mode :: string
  ss_LDAP :: LDAPSettingsStatus

record Status =
  status_Configured :: bool
  status_LocalEnabled :: bool
  status_LDAPEnabled :: bool
  status_Authenticated :: bool
  status_User :: "Principal option"

section \<open>Configuration, sessions, manager\<close>

record persistedConfig =
  cf_Version :: int
  cf_ConfiguredAt :: gotime
  cf_Mode :: string
  cf_LDAP :: ldapSettings
  cf_Users :: "persistedUser list"

definition empty_config :: persistedConfig where
  "empty_config = \<lparr>cf_Version = 0, cf_ConfiguredAt = 0, cf_Mode = [], cf_LDAP = empty_ldap, cf_Users = []\<rparr>"

record session =
  s_Principal :: Principal
  s_ExpiresAt :: gotime

record Manager =
  m_filePath :: string
  m_fileRoot :: string
  m_timeout :: int  \<comment> \<open>in nanoseconds\<close>
  m_config :: persistedConfig
  m_configured :: bool
  m_sessions :: "string \<rightharpoonup> session"

end
