(* ===== verification/Auth_Policy.thy ===== *)
theory Auth_Policy
  imports Auth_Types
begin

text \<open>
  The stateless rules of \<open>internal/auth/manager.go\<close>: normalisation of user fields, the
  password policy, the generator of temporary passwords, look-up of users by name, cluster
  grants by role. The last section shows that a generated password meets the policy.
\<close>

section \<open>User fields\<close>

definition isAlnum :: "char \<Rightarrow> bool" where
  "isAlnum c \<longleftrightarrow> 0x30 \<le> byte c \<and> byte c \<le> 0x39 \<or> 0x41 \<le> byte c \<and> byte c \<le> 0x5A \<or>
     0x61 \<le> byte c \<and> byte c \<le> 0x7A"

definition isUserChar :: "char \<Rightarrow> bool" where
  "isUserChar c \<longleftrightarrow> isAlnum c \<or> c \<in> set ''._@-''"

definition usernamePattern :: "string \<Rightarrow> bool" where
  "usernamePattern s =
    (case s of
       [] \<Rightarrow> False
     | c # cs \<Rightarrow> isAlnum c \<and> 1 \<le> length cs \<and> length cs \<le> 63 \<and> list_all isUserChar cs)"

definition normalizeUserFields ::
    "ucd \<Rightarrow> string \<Rightarrow> string \<Rightarrow> string \<Rightarrow> (auth_error, string \<times> string \<times> string) result" where
  "normalizeUserFields U username displayName role =
    (let username = TrimSpace username; displayName = TrimSpace displayName; role = ToLower U (TrimSpace role) in
     if \<not> usernamePattern username then Inl (AuthErr ErrInvalidInput)
     else
       let displayName = (if displayName = [] then username else displayName) in
       if 100 < length (runes displayName) then Inl (AuthErr ErrInvalidInput)
       else
         let role = (if role = [] then RoleOperator else role) in
         if role \<noteq> RoleAdmin \<and> role \<noteq> RoleOperator then Inl (AuthErr ErrInvalidInput)
         else Inr (username, displayName, role))"

section \<open>Passwords\<close>

fun scanPassword :: "ucd \<Rightarrow> rune list \<Rightarrow> bool \<times> bool \<times> bool \<times> bool \<Rightarrow> (bool \<times> bool \<times> bool \<times> bool) option" where
  "scanPassword U [] flags = Some flags"
| "scanPassword U (r # rs) (upper, lower, digit, special) =
     (if isSpace r \<or> isControl r then None
      else case category_of U r of
          Lu \<Rightarrow> scanPassword U rs (True, lower, digit, special)
        | Ll \<Rightarrow> scanPassword U rs (upper, True, digit, special)
        | Nd \<Rightarrow> scanPassword U rs (upper, lower, True, special)
        | Punct \<Rightarrow> scanPassword U rs (upper, lower, digit, True)
        | Symbol \<Rightarrow> scanPassword U rs (upper, lower, digit, True)
        | OtherCategory \<Rightarrow> scanPassword U rs (upper, lower, digit, special))"

definition validateStrongPassword :: "ucd \<Rightarrow> string \<Rightarrow> auth_error option" where
  "validateStrongPassword U password =
    (if length (runes password) < MinimumPasswordLength then Some (AuthErr ErrInvalidInput)
     else if 72 < length password then Some (AuthErr ErrInvalidInput)
     else case scanPassword U (runes password) (False, False, False, False) of
         None \<Rightarrow> Some (AuthErr ErrInvalidInput)
       | Some (upper, lower, digit, special) \<Rightarrow>
           if \<not> upper \<or> \<not> lower \<or> \<not> digit \<or> \<not> special then Some (AuthErr ErrInvalidInput) else None)"

text \<open>
  \<open>bcrypt\<close> is a library: \<open>generate\<close> is \<open>GenerateFromPassword\<close> at the default cost with the
  salt as an argument, and \<open>None\<close> its error.
\<close>

definition hashPassword ::
    "ucd \<Rightarrow> (string \<Rightarrow> string option) \<Rightarrow> string \<Rightarrow> (auth_error, string) result" where
  "hashPassword U generate password =
    (case validateStrongPassword U password of
       Some err \<Rightarrow> Inl err
     | None \<Rightarrow> (case generate password of None \<Rightarrow> Inl (AuthOther ''hash password'') | Some hash \<Rightarrow> Inr hash))"

section \<open>Temporary passwords\<close>

text \<open>
  Randomness is a tape: each draw \<open>rand.Int(rand.Reader, n)\<close> consumes one element and
  gives a number below \<open>n\<close>; an element \<open>None\<close>, or the end of the tape, is a failing draw.
\<close>

type_synonym tape = "nat option list"

fun randInt :: "nat \<Rightarrow> tape \<Rightarrow> (nat \<times> tape) option" where
  "randInt n (Some k # t) = Some (k mod n, t)"
| "randInt n _ = None"

definition tempUpper :: string where "tempUpper = ''ABCDEFGHJKLMNPQRSTUVWXYZ''"
definition tempLower :: string where "tempLower = ''abcdefghijkmnopqrstuvwxyz''"
definition tempDigits :: string where "tempDigits = ''23456789''"
definition tempSymbols :: string where "tempSymbols = ''!@#$%&*+-_=.?''"
definition tempAll :: string where "tempAll = tempUpper @ tempLower @ tempDigits @ tempSymbols"

definition randomCharacter :: "string \<Rightarrow> tape \<Rightarrow> (char \<times> tape) option" where
  "randomCharacter alphabet t =
    (case randInt (length alphabet) t of None \<Rightarrow> None | Some (k, t') \<Rightarrow> Some (alphabet ! k, t'))"

fun drawEach :: "string list \<Rightarrow> tape \<Rightarrow> string \<Rightarrow> (string \<times> tape) option" where
  "drawEach [] t password = Some (password, t)"
| "drawEach (alphabet # rest) t password =
     (case randomCharacter alphabet t of
        None \<Rightarrow> None
      | Some (c, t') \<Rightarrow> drawEach rest t' (password @ [c]))"

definition swapAt :: "nat \<Rightarrow> nat \<Rightarrow> 'a list \<Rightarrow> 'a list" where
  "swapAt i j xs = xs[i := xs ! j, j := xs ! i]"

fun shufflePassword :: "nat \<Rightarrow> tape \<Rightarrow> string \<Rightarrow> (string \<times> tape) option" where
  "shufflePassword 0 t password = Some (password, t)"
| "shufflePassword (Suc index) t password =
     (case randInt (Suc index + 1) t of
        None \<Rightarrow> None
      | Some (position, t') \<Rightarrow> shufflePassword index t' (swapAt (Suc index) position password))"

definition generateTemporaryPassword :: "nat \<Rightarrow> tape \<Rightarrow> (auth_error, string) result" where
  "generateTemporaryPassword len t =
    (if len < 4 then Inl (AuthOther ''temporary password length must be at least 4'')
     else case drawEach ([tempUpper, tempLower, tempDigits, tempSymbols] @ replicate (len - 4) tempAll) t [] of
         None \<Rightarrow> Inl (AuthOther ''generate temporary password'')
       | Some (password, t') \<Rightarrow>
           (case shufflePassword (length password - 1) t' password of
              None \<Rightarrow> Inl (AuthOther ''shuffle temporary password'')
            | Some (password', _) \<Rightarrow> Inr password'))"

section \<open>Look-up and roles\<close>

fun findUserIndex :: "ucd \<Rightarrow> persistedUser list \<Rightarrow> string \<Rightarrow> nat option" where
  "findUserIndex U [] username = None"
| "findUserIndex U (u # us) username =
     (if EqualFold U (u_Username u) (TrimSpace username) then Some 0
      else map_option Suc (findUserIndex U us username))"

definition clusterIDsForRole :: "string \<Rightarrow> string list \<Rightarrow> string list" where
  "clusterIDsForRole role clusterIDs =
    (if role = RoleAdmin then []
     else sort (remdups (filter (\<lambda>c. c \<noteq> []) (map TrimSpace clusterIDs))))"

definition activeAdminCount :: "persistedUser list \<Rightarrow> nat" where
  "activeAdminCount users = length (filter (\<lambda>u. u_Active u \<and> u_Role u = RoleAdmin) users)"

definition modeIncludes :: "string \<Rightarrow> string \<Rightarrow> bool" where
  "modeIncludes mode provider \<longleftrightarrow> mode = ModeBoth \<or> mode = provider"

definition containsFold :: "ucd \<Rightarrow> string list \<Rightarrow> string \<Rightarrow> bool" where
  "containsFold U values value \<longleftrightarrow> (\<exists>candidate \<in> set values. EqualFold U candidate value)"

definition settingsStatus :: "persistedConfig \<Rightarrow> SettingsStatus" where
  "settingsStatus config =
    (let l = cf_LDAP config in
     \<lparr>ss_ConfiguredAt = cf_ConfiguredAt config, ss_Mode = cf_Mode config,
      ss_LDAP =
       \<lparr>ls_Host = l_Host l, ls_Port = l_Port l, ls_TLSMode = l_TLSMode l, ls_CAFile = l_CAFile l,
        ls_ServerName = l_ServerName l, ls_BaseDN = l_BaseDN l, ls_BindDN = l_BindDN l,
        ls_BindPasswordConfigured = (l_BindPassword l \<noteq> []), ls_UserFilter = l_UserFilter l,
        ls_UserDNTemplate = l_UserDNTemplate l, ls_UsernameAttribute = l_UsernameAttribute l,
        ls_DisplayNameAttribute = l_DisplayNameAttribute l, ls_AdminUsernames = l_AdminUsernames l\<rparr>\<rparr>)"

section \<open>Facts about look-up and roles\<close>

lemma findUserIndex_None:
  "findUserIndex U users name = None \<longleftrightarrow> (\<forall>u \<in> set users. \<not> EqualFold U (u_Username u) (TrimSpace name))"
  by (induction users) auto

lemma findUserIndex_Some:
  "findUserIndex U users name = Some i \<Longrightarrow>
     i < length users \<and> EqualFold U (u_Username (users ! i)) (TrimSpace name) \<and>
     (\<forall>j < i. \<not> EqualFold U (u_Username (users ! j)) (TrimSpace name))"
  by (induction users arbitrary: i) (auto split: if_splits simp: less_Suc_eq_0_disj)

lemma findUserIndex_less: "findUserIndex U users name = Some i \<Longrightarrow> i < length users"
  using findUserIndex_Some by blast

text \<open>Whether a name finds an entry depends only on the user names of the list.\<close>

lemma findUserIndex_cong:
  "map u_Username users = map u_Username users' \<Longrightarrow> findUserIndex U users name = findUserIndex U users' name"
  by (induction users users' rule: list_induct2') auto

lemma usernamePattern_visible: "usernamePattern s \<Longrightarrow> visible s"
  by (auto simp: usernamePattern_def visible_def list_all_iff isUserChar_def isAlnum_def byte_def split: list.splits)

lemma normalizeUserFields_ok:
  assumes "normalizeUserFields U n dn r = Inr (username, displayName, role)"
  shows "usernamePattern username" and "username = TrimSpace n" and "role = RoleAdmin \<or> role = RoleOperator"
    and "displayName \<noteq> []" and "length (runes displayName) \<le> 100" and "TrimSpace displayName = displayName"
  using assms by (auto simp: normalizeUserFields_def Let_def usernamePattern_def split: if_splits)

lemma clusterIDsForRole_normal:
  assumes "cids = clusterIDsForRole role ids"
  shows "sorted cids" and "distinct cids" and "\<forall>c \<in> set cids. c \<noteq> [] \<and> TrimSpace c = c"
    and "role = RoleAdmin \<Longrightarrow> cids = []"
  using assms by (auto simp: clusterIDsForRole_def)

lemma clusterIDsForRole_fixed:
  assumes "sorted cids" and "distinct cids" and "\<forall>c \<in> set cids. c \<noteq> [] \<and> TrimSpace c = c"
    and "role = RoleAdmin \<Longrightarrow> cids = []"
  shows "clusterIDsForRole role cids = cids"
proof (cases "role = RoleAdmin")
  case True
  then show ?thesis using assms(4) by (simp add: clusterIDsForRole_def)
next
  case False
  have "map TrimSpace cids = cids"
    using assms(3) by (simp add: map_idI)
  moreover have "filter (\<lambda>c. c \<noteq> []) cids = cids"
    using assms(3) by simp
  ultimately show ?thesis
    using False assms(1,2) by (simp add: clusterIDsForRole_def sorted_sort_id distinct_remdups_id)
qed

lemma clusterIDsForRole_member:
  "c \<in> set (clusterIDsForRole role ids) \<longleftrightarrow> role \<noteq> RoleAdmin \<and> c \<noteq> [] \<and> c \<in> TrimSpace ` set ids"
  by (auto simp: clusterIDsForRole_def)

lemma modeIncludes_cases [simp]:
  "modeIncludes ModeBoth p" "modeIncludes ModeLocal ProviderLocal" "modeIncludes ModeLDAP ProviderLDAP"
  "\<not> modeIncludes ModeLocal ProviderLDAP" "\<not> modeIncludes ModeLDAP ProviderLocal"
  by (simp_all add: modeIncludes_def auth_consts)

section \<open>Generated passwords\<close>

lemma randInt_less: "0 < n \<Longrightarrow> randInt n t = Some (k, t') \<Longrightarrow> k < n"
  by (cases "(n, t)" rule: randInt.cases) auto

lemma randomCharacter_set: "alphabet \<noteq> [] \<Longrightarrow> randomCharacter alphabet t = Some (c, t') \<Longrightarrow> c \<in> set alphabet"
  by (auto simp: randomCharacter_def split: option.splits dest!: randInt_less [rotated])

lemma drawEach_chars:
  assumes "drawEach als t pw = Some (pw', t')" and "\<forall>a \<in> set als. a \<noteq> []"
  shows "\<exists>cs. pw' = pw @ cs \<and> list_all2 (\<lambda>a c. c \<in> set a) als cs"
  using assms
proof (induction als arbitrary: t pw)
  case (Cons a als)
  then obtain c t1 where "randomCharacter a t = Some (c, t1)" and "drawEach als t1 (pw @ [c]) = Some (pw', t')"
    by (auto split: option.splits)
  with Cons show ?case
    by (fastforce dest: randomCharacter_set)
qed simp

lemma shufflePassword_mset:
  assumes "shufflePassword i t pw = Some (pw', t')" and "i < length pw"
  shows "mset pw' = mset pw"
  using assms
proof (induction i arbitrary: t pw)
  case (Suc i)
  then obtain k t1 where k: "randInt (Suc i + 1) t = Some (k, t1)"
    and rest: "shufflePassword i t1 (swapAt (Suc i) k pw) = Some (pw', t')"
    by (auto split: option.splits)
  have "k < length pw"
    using randInt_less [OF _ k] Suc.prems(2) by simp
  then have "mset (swapAt (Suc i) k pw) = mset pw" and "i < length (swapAt (Suc i) k pw)"
    using Suc.prems(2) by (simp_all add: swapAt_def mset_swap)
  with Suc.IH [OF rest] show ?case by simp
qed simp

lemma drawEach_total:
  assumes "length als \<le> length t" and "None \<notin> set t"
  shows "\<exists>pw'. drawEach als t pw = Some (pw', drop (length als) t) \<and> length pw' = length pw + length als"
  using assms
proof (induction als arbitrary: t pw)
  case (Cons a als)
  then obtain k t1 where "t = Some k # t1"
    by (cases t) (auto simp: neq_commute [of None])
  with Cons show ?case
    using Cons.IH [of t1 "pw @ [a ! (k mod length a)]"] by (auto simp: randomCharacter_def)
qed simp

lemma shufflePassword_total:
  "i \<le> length t \<Longrightarrow> None \<notin> set t \<Longrightarrow> \<exists>r. shufflePassword i t pw = Some r"
proof (induction i arbitrary: t pw)
  case (Suc i)
  then obtain k t1 where "t = Some k # t1"
    by (cases t) (auto simp: neq_commute [of None])
  with Suc show ?case by auto
qed simp

lemma scanPassword_flags:
  assumes "\<forall>r \<in> set rs. \<not> isSpace r \<and> \<not> isControl r"
  shows "scanPassword U rs (u, l, d, s) =
    Some (u \<or> Lu \<in> category_of U ` set rs, l \<or> Ll \<in> category_of U ` set rs,
      d \<or> Nd \<in> category_of U ` set rs, s \<or> Punct \<in> category_of U ` set rs \<or> Symbol \<in> category_of U ` set rs)"
  using assms
proof (induction rs arbitrary: u l d s)
  case (Cons r rs)
  then show ?case by (cases "category_of U r") auto
qed simp

lemma temp_alphabets:
  "\<forall>c \<in> set tempUpper. byte c < 0x80 \<and> \<not> isSpace (byte c) \<and> \<not> isControl (byte c) \<and> ascii_category (byte c) = Lu"
  "\<forall>c \<in> set tempLower. byte c < 0x80 \<and> \<not> isSpace (byte c) \<and> \<not> isControl (byte c) \<and> ascii_category (byte c) = Ll"
  "\<forall>c \<in> set tempDigits. byte c < 0x80 \<and> \<not> isSpace (byte c) \<and> \<not> isControl (byte c) \<and> ascii_category (byte c) = Nd"
  "\<forall>c \<in> set tempSymbols. byte c < 0x80 \<and> \<not> isSpace (byte c) \<and> \<not> isControl (byte c) \<and>
     ascii_category (byte c) \<in> {Punct, Symbol}"
  by (simp_all add: tempUpper_def tempLower_def tempDigits_def tempSymbols_def byte_def isSpace_def isControl_def
      ascii_category_def)

lemma strong_password:
  assumes "10 \<le> length pw" and "length pw \<le> 72"
    and "\<forall>c \<in> set pw. byte c < 0x80 \<and> \<not> isSpace (byte c) \<and> \<not> isControl (byte c)"
    and "{Lu, Ll, Nd} \<subseteq> ascii_category ` byte ` set pw"
    and "Punct \<in> ascii_category ` byte ` set pw \<or> Symbol \<in> ascii_category ` byte ` set pw"
  shows "validateStrongPassword U pw = None"
proof -
  have runes: "runes pw = map byte pw"
    using assms(3) by (intro runes_ascii) (simp add: ascii_def)
  have "category_of U ` set (map byte pw) = ascii_category ` byte ` set pw"
    using assms(3) by (auto simp: category_of_def image_iff)
  then show ?thesis
    using assms
    by (simp add: validateStrongPassword_def runes scanPassword_flags MinimumPasswordLength_def)
qed

lemma generateTemporaryPassword_strong:
  assumes "generateTemporaryPassword len t = Inr pw" and "10 \<le> len" and "len \<le> 72"
  shows "validateStrongPassword U pw = None"
proof -
  let ?als = "[tempUpper, tempLower, tempDigits, tempSymbols] @ replicate (len - 4) tempAll"
  obtain pw0 t1 t2 where draw: "drawEach ?als t [] = Some (pw0, t1)"
    and shuffle: "shufflePassword (length pw0 - 1) t1 pw0 = Some (pw, t2)"
    using assms(1) by (auto simp: generateTemporaryPassword_def split: if_splits option.splits)
  have "\<forall>a \<in> set ?als. a \<noteq> []"
    by (auto simp: tempUpper_def tempLower_def tempDigits_def tempSymbols_def tempAll_def)
  from drawEach_chars [OF draw this] have chars: "list_all2 (\<lambda>a c. c \<in> set a) ?als pw0"
    by simp
  then obtain a b c d cs where pw0: "pw0 = a # b # c # d # cs"
    and abcd: "a \<in> set tempUpper" "b \<in> set tempLower" "c \<in> set tempDigits" "d \<in> set tempSymbols"
    and cs: "list_all2 (\<lambda>a c. c \<in> set a) (replicate (len - 4) tempAll) cs"
    by (auto simp: list_all2_Cons1)
  have "length pw0 = len"
    using list_all2_lengthD [OF chars] assms(2) by simp
  have "mset pw = mset pw0"
    using shufflePassword_mset [OF shuffle] pw0 by simp
  then have pw: "set pw = set pw0" and "length pw = len"
    using \<open>length pw0 = len\<close> by (metis mset_eq_setD, metis size_mset)
  have "set cs \<subseteq> set tempAll"
    using cs by (auto simp: list_all2_conv_all_nth in_set_conv_nth)
  then have safe: "\<forall>x \<in> set pw. byte x < 0x80 \<and> \<not> isSpace (byte x) \<and> \<not> isControl (byte x)"
    using temp_alphabets abcd by (auto simp: pw pw0 tempAll_def)
  have "ascii_category (byte a) = Lu" "ascii_category (byte b) = Ll" "ascii_category (byte c) = Nd"
    "ascii_category (byte d) \<in> {Punct, Symbol}"
    using temp_alphabets abcd by blast+
  then have "{Lu, Ll, Nd} \<subseteq> ascii_category ` byte ` set pw"
    and "Punct \<in> ascii_category ` byte ` set pw \<or> Symbol \<in> ascii_category ` byte ` set pw"
    unfolding pw pw0 by (force, force)
  with safe \<open>length pw = len\<close> assms(2,3) show ?thesis
    by (intro strong_password) simp_all
qed

lemma generateTemporaryPassword_total:
  assumes "4 \<le> len" and "2 * len - 1 \<le> length t" and "None \<notin> set t"
  shows "\<exists>pw. generateTemporaryPassword len t = Inr pw"
proof -
  let ?als = "[tempUpper, tempLower, tempDigits, tempSymbols] @ replicate (len - 4) tempAll"
  have "length ?als = len" using assms(1) by simp
  then obtain pw0 where "drawEach ?als t [] = Some (pw0, drop len t)" and "length pw0 = len"
    using drawEach_total [of ?als t "[]"] assms by force
  moreover have "None \<notin> set (drop len t)"
    using assms(3) set_drop_subset by fast
  then obtain r where "shufflePassword (len - 1) (drop len t) pw0 = Some r"
    using shufflePassword_total [of "len - 1" "drop len t" pw0] assms by force
  ultimately show ?thesis
    using assms(1) by (cases r) (simp add: generateTemporaryPassword_def)
qed

end
