(* ===== verification/Auth_LDAP.thy ===== *)
theory Auth_LDAP
  imports Auth_Policy Safe_File
begin

text \<open>
  \<open>internal/auth/ldap.go\<close>: normalisation of the LDAP settings and the authentication
  dialogue. The directory server and the client library are parameters: a server answers each
  operation, in view of the operations before it on the connection. The model of a dialogue
  returns its result together with the operations it performed, in order, so that
  statements about what is sent when (credentials before encryption, say) are statements
  about that list.
\<close>

definition LDAPTLSStartTLS :: string where "LDAPTLSStartTLS = ''starttls''"
definition LDAPTLSLDAPS :: string where "LDAPTLSLDAPS = ''ldaps''"
definition LDAPTLSPlain :: string where "LDAPTLSPlain = ''plain''"

definition usernamePlaceholder :: string where "usernamePlaceholder = ''{{username}}''"

section \<open>Settings\<close>

fun dedupAdmins :: "ucd \<Rightarrow> string list \<Rightarrow> string list \<Rightarrow> string list" where
  "dedupAdmins U seen [] = []"
| "dedupAdmins U seen (username # rest) =
     (let username = TrimSpace username; key = ToLower U username in
      if username = [] \<or> key \<in> set seen then dedupAdmins U seen rest
      else username # dedupAdmins U (key # seen) rest)"

definition trimLDAPInput :: "ucd \<Rightarrow> LDAPSettingsInput \<Rightarrow> ldapSettings \<Rightarrow> ldapSettings" where
  "trimLDAPInput U input current =
    \<lparr>l_Host = TrimSpace (li_Host input), l_Port = li_Port input,
     l_TLSMode = ToLower U (TrimSpace (li_TLSMode input)), l_CAFile = TrimSpace (li_CAFile input),
     l_ServerName = TrimSpace (li_ServerName input), l_BaseDN = TrimSpace (li_BaseDN input),
     l_BindDN = TrimSpace (li_BindDN input),
     l_BindPassword = (case li_BindPassword input of None \<Rightarrow> l_BindPassword current | Some p \<Rightarrow> p),
     l_UserFilter = TrimSpace (li_UserFilter input), l_UserDNTemplate = TrimSpace (li_UserDNTemplate input),
     l_UsernameAttribute = TrimSpace (li_UsernameAttribute input),
     l_DisplayNameAttribute = TrimSpace (li_DisplayNameAttribute input),
     l_AdminUsernames = dedupAdmins U [] (li_AdminUsernames input)\<rparr>"

definition defaultLDAP :: "ldapSettings \<Rightarrow> ldapSettings" where
  "defaultLDAP config =
    (let config = (if l_TLSMode config = [] then config\<lparr>l_TLSMode := LDAPTLSStartTLS\<rparr> else config);
         config = (if l_Port config = 0
                   then config\<lparr>l_Port := if l_TLSMode config = LDAPTLSLDAPS then 636 else 389\<rparr> else config);
         config = (if l_UserFilter config = []
                   then config\<lparr>l_UserFilter := ''(uid='' @ usernamePlaceholder @ '')''\<rparr> else config);
         config = (if l_UsernameAttribute config = [] then config\<lparr>l_UsernameAttribute := ''uid''\<rparr> else config) in
     if l_DisplayNameAttribute config = [] then config\<lparr>l_DisplayNameAttribute := ''cn''\<rparr> else config)"

definition checkLDAP :: "ldapSettings \<Rightarrow> (auth_error, ldapSettings) result" where
  "checkLDAP config =
    (if l_Host config = [] \<or> l_Port config < 1 \<or> 65535 < l_Port config then Inl (AuthErr ErrInvalidInput)
     else if l_TLSMode config \<noteq> LDAPTLSStartTLS \<and> l_TLSMode config \<noteq> LDAPTLSLDAPS \<and>
             l_TLSMode config \<noteq> LDAPTLSPlain then Inl (AuthErr ErrInvalidInput)
     else if l_UserDNTemplate config = [] \<and>
             (l_BaseDN config = [] \<or> \<not> Contains (l_UserFilter config) usernamePlaceholder)
          then Inl (AuthErr ErrInvalidInput)
     else if l_UserDNTemplate config \<noteq> [] \<and> \<not> Contains (l_UserDNTemplate config) usernamePlaceholder
          then Inl (AuthErr ErrInvalidInput)
     else if l_BindDN config \<noteq> [] \<and> l_BindPassword config = [] then Inl (AuthErr ErrInvalidInput)
     else Inr config)"

definition normalizeLDAPSettings ::
    "ucd \<Rightarrow> LDAPSettingsInput \<Rightarrow> ldapSettings \<Rightarrow> bool \<Rightarrow> (auth_error, ldapSettings) result" where
  "normalizeLDAPSettings U input current required =
    (let config = trimLDAPInput U input current in
     if \<not> required \<and> l_Host config = [] then Inr current else checkLDAP (defaultLDAP config))"

section \<open>The connection\<close>

record tls_config =
  tls_ServerName :: string
  tls_RootCAs :: "bytes option"  \<comment> \<open>the certificates added to the system pool\<close>

record search_request =
  sr_BaseDN :: string
  sr_SizeLimit :: nat
  sr_TimeLimit :: int
  sr_Filter :: string
  sr_Attributes :: "string list"

record ldap_entry =
  de_DN :: string
  de_GetAttributeValue :: "string \<Rightarrow> string"

datatype ldap_op =
    DialURL string "tls_config option"
  | StartTLS tls_config
  | Bind string string
  | Search search_request

datatype ldap_reply = Failed | Done | Found "ldap_entry list"

text \<open>
  The parameters: the server, the escaping functions of the client library, reading a file
  under the managed root and the test for a PEM certificate.
\<close>

record ldap_lib =
  lb_server :: "ldap_op list \<Rightarrow> ldap_op \<Rightarrow> ldap_reply"
  lb_EscapeDN :: "string \<Rightarrow> string"
  lb_EscapeFilter :: "string \<Rightarrow> string"
  lb_ReadFile :: "string \<Rightarrow> string \<Rightarrow> bytes option"
  lb_ValidPEM :: "bytes \<Rightarrow> bool"

definition ldapTLSConfig :: "ldap_lib \<Rightarrow> ldapSettings \<Rightarrow> string \<Rightarrow> (auth_error, tls_config) result" where
  "ldapTLSConfig lib config managedRoot =
    (let serverName = (if l_ServerName config = [] then l_Host config else l_ServerName config) in
     if l_CAFile config = [] then Inr \<lparr>tls_ServerName = serverName, tls_RootCAs = None\<rparr>
     else case lb_ReadFile lib managedRoot (l_CAFile config) of
         None \<Rightarrow> Inl (AuthOther ''read LDAP CA file'')
       | Some pem \<Rightarrow>
           if lb_ValidPEM lib pem then Inr \<lparr>tls_ServerName = serverName, tls_RootCAs = Some pem\<rparr>
           else Inl (AuthOther ''LDAP CA file does not contain a valid PEM certificate''))"

definition dialLDAP ::
    "ldap_lib \<Rightarrow> ldapSettings \<Rightarrow> string \<Rightarrow> (auth_error, unit) result \<times> ldap_op list" where
  "dialLDAP lib config managedRoot =
    (case ldapTLSConfig lib config managedRoot of
       Inl err \<Rightarrow> (Inl err, [])
     | Inr tls \<Rightarrow>
         let ldaps = l_TLSMode config = LDAPTLSLDAPS;
             address = (if ldaps then ''ldaps'' else ''ldap'') @ ''://'' @
               JoinHostPort (l_Host config) (FormatInt (l_Port config));
             dial = DialURL address (if ldaps then Some tls else None) in
         if lb_server lib [] dial = Failed then (Inl (AuthOther ''dial LDAP''), [dial])
         else if l_TLSMode config = LDAPTLSStartTLS then
           (if lb_server lib [dial] (StartTLS tls) = Failed then (Inl (AuthOther ''StartTLS''), [dial, StartTLS tls])
            else (Inr (), [dial, StartTLS tls]))
         else (Inr (), [dial]))"

section \<open>Authentication\<close>

text \<open>Resolution of the user's DN: by template, or by a search after the service bind.\<close>

definition findUserDN ::
    "ldap_lib \<Rightarrow> ldapSettings \<Rightarrow> int \<Rightarrow> string \<Rightarrow> ldap_op list \<Rightarrow>
      (auth_error, string \<times> string) result \<times> ldap_op list" where
  "findUserDN lib config timeout username ops =
    (if l_UserDNTemplate config \<noteq> [] then
       (Inr (ReplaceAll (l_UserDNTemplate config) usernamePlaceholder (lb_EscapeDN lib username), username), ops)
     else
       let service = Bind (l_BindDN config) (l_BindPassword config);
           bound = (l_BindDN config = [] \<or> lb_server lib ops service \<noteq> Failed);
           ops = (if l_BindDN config = [] then ops else ops @ [service]) in
       if \<not> bound then (Inl (AuthOther ''LDAP service bind''), ops)
       else
         let request =
               \<lparr>sr_BaseDN = l_BaseDN config, sr_SizeLimit = 2, sr_TimeLimit = max 1 (timeout div 1000000000),
                sr_Filter = ReplaceAll (l_UserFilter config) usernamePlaceholder (lb_EscapeFilter lib username),
                sr_Attributes = [l_UsernameAttribute config, l_DisplayNameAttribute config]\<rparr>;
             ops' = ops @ [Search request] in
         case lb_server lib ops (Search request) of
           Found [entry] \<Rightarrow>
             let value = TrimSpace (de_GetAttributeValue entry (l_DisplayNameAttribute config)) in
             (Inr (de_DN entry, if value \<noteq> [] then value else username), ops')
         | Found _ \<Rightarrow> (Inl (AuthErr ErrInvalidCredentials), ops')
         | _ \<Rightarrow> (Inl (AuthOther ''LDAP user search''), ops'))"

definition AuthenticateLDAP ::
    "ucd \<Rightarrow> ldap_lib \<Rightarrow> Manager \<Rightarrow> string \<Rightarrow> string \<Rightarrow> (auth_error, Principal) result \<times> ldap_op list" where
  "AuthenticateLDAP U lib m username password =
    (let username = TrimSpace username in
     if username = [] \<or> password = [] then (Inl (AuthErr ErrInvalidCredentials), [])
     else if \<not> m_configured m then (Inl (AuthErr ErrNotConfigured), [])
     else if \<not> modeIncludes (cf_Mode (m_config m)) ProviderLDAP then (Inl (AuthErr ErrProviderDisabled), [])
     else
       let config = cf_LDAP (m_config m) in
       case dialLDAP lib config (m_fileRoot m) of
         (Inl err, ops) \<Rightarrow> (Inl (AuthOther ''connect LDAP''), ops)
       | (Inr _, ops) \<Rightarrow>
           (case findUserDN lib config (m_timeout m) username ops of
              (Inl err, ops) \<Rightarrow> (Inl err, ops)
            | (Inr (userDN, displayName), ops) \<Rightarrow>
                let ops' = ops @ [Bind userDN password] in
                if lb_server lib ops (Bind userDN password) = Failed
                then (Inl (AuthErr ErrInvalidCredentials), ops')
                else
                  (Inr \<lparr>p_Username = username, p_DisplayName = displayName, p_Provider = ProviderLDAP,
                        p_Role = (if containsFold U (l_AdminUsernames config) username then RoleAdmin else RoleOperator),
                        p_ClusterIDs = [], p_MustChangePassword = False\<rparr>, ops')))"

definition TestLDAP ::
    "ucd \<Rightarrow> ldap_lib \<Rightarrow> Manager \<Rightarrow> LDAPSettingsInput \<Rightarrow> (auth_error, unit) result \<times> ldap_op list" where
  "TestLDAP U lib m input =
    (case normalizeLDAPSettings U input (cf_LDAP (m_config m)) True of
       Inl err \<Rightarrow> (Inl err, [])
     | Inr config \<Rightarrow>
         (case dialLDAP lib config (m_fileRoot m) of
            (Inl err, ops) \<Rightarrow> (Inl err, ops)
          | (Inr _, ops) \<Rightarrow>
              if l_BindDN config \<noteq> [] then
                (let service = Bind (l_BindDN config) (l_BindPassword config) in
                 if lb_server lib ops service = Failed
                 then (Inl (AuthOther ''LDAP bind failed''), ops @ [service])
                 else (Inr (), ops @ [service]))
              else (Inr (), ops)))"

section \<open>Facts\<close>

lemma normalizeLDAPSettings_ok:
  assumes "normalizeLDAPSettings U input current True = Inr config"
  shows "l_TLSMode config \<in> {LDAPTLSStartTLS, LDAPTLSLDAPS, LDAPTLSPlain}"
    and "l_Host config \<noteq> []" and "1 \<le> l_Port config \<and> l_Port config \<le> 65535"
    and "l_UserDNTemplate config \<noteq> [] \<Longrightarrow> Contains (l_UserDNTemplate config) usernamePlaceholder"
    and "l_UserDNTemplate config = [] \<Longrightarrow> Contains (l_UserFilter config) usernamePlaceholder"
    and "l_BindDN config \<noteq> [] \<Longrightarrow> l_BindPassword config \<noteq> []"
  using assms by (auto simp: normalizeLDAPSettings_def Let_def checkLDAP_def split: if_splits)

lemma dedupAdmins_nonempty:
  "dedupAdmins U seen names \<noteq> [] \<Longrightarrow> \<exists>n \<in> set names. TrimSpace n \<noteq> []"
  by (induction names arbitrary: seen) (auto simp: Let_def split: if_splits)

text \<open>The operations a successful dial has performed.\<close>

lemma dialLDAP_ops:
  assumes "dialLDAP lib config root = (Inr (), ops)"
  shows "(l_TLSMode config = LDAPTLSStartTLS \<and> (\<exists>url tls. ops = [DialURL url None, StartTLS tls] \<and>
            lb_server lib [DialURL url None] (StartTLS tls) \<noteq> Failed)) \<or>
         (l_TLSMode config = LDAPTLSLDAPS \<and> (\<exists>url tls. ops = [DialURL url (Some tls)])) \<or>
         (l_TLSMode config \<noteq> LDAPTLSStartTLS \<and> l_TLSMode config \<noteq> LDAPTLSLDAPS \<and> (\<exists>url. ops = [DialURL url None]))"
  using assms
  by (auto simp: dialLDAP_def Let_def LDAPTLSStartTLS_def LDAPTLSLDAPS_def split: sum.splits if_splits)

lemma dialLDAP_no_credentials:
  assumes "dialLDAP lib config root = (r, ops)"
  shows "Bind dn pw \<notin> set ops" and "Search req \<notin> set ops"
  using assms by (auto simp: dialLDAP_def Let_def split: sum.splits if_splits)

lemma findUserDN_extends:
  assumes "findUserDN lib config t u ops = (r, ops')"
  shows "\<exists>more. ops' = ops @ more"
  using assms by (auto simp: findUserDN_def Let_def split: if_splits ldap_reply.splits list.splits)

lemma AuthenticateLDAP_extends:
  assumes "AuthenticateLDAP U lib m u pw = (r, ops)" and "Bind dn p \<in> set ops"
  shows "\<exists>dial more. dialLDAP lib (cf_LDAP (m_config m)) (m_fileRoot m) = (Inr (), dial) \<and> ops = dial @ more"
  using assms
  by (auto simp: AuthenticateLDAP_def Let_def dest: findUserDN_extends dialLDAP_no_credentials
      split: if_splits sum.splits prod.splits)

end
