(* ===== verification/Auth_Manager.thy ===== *)
theory Auth_Manager
  imports Auth_LDAP Base64
begin

text \<open>
  The authentication manager of \<open>internal/auth/manager.go\<close>: the whole of its operations
  as functions from the manager and the directory of its configuration file to a result and
  the new manager and directory. Each operation runs under the manager's lock, except the two
  password changes, which release it between checking and committing: they are two
  functions each, so that other operations can come between.
\<close>

section \<open>Parameters\<close>

text \<open>
  The libraries: the Unicode tables, \<open>bcrypt\<close> (generation with a salt, comparison),
  the hexadecimal SHA-256 digest and the JSON codec of the configuration.
\<close>

record auth_lib =
  al_ucd :: ucd
  al_generate :: "nat \<Rightarrow> string \<Rightarrow> string option"
  al_compare :: "string \<Rightarrow> string \<Rightarrow> bool"
  al_sha256hex :: "string \<Rightarrow> string"
  al_codec :: "persistedConfig json_codec"

text \<open>The environment of one call: the clock, the salt, and the fate of the file operations.\<close>

record call_env =
  ce_now :: gotime
  ce_salt :: nat
  ce_io :: save_io

type_synonym auth_state = "Manager \<times> dir"

section \<open>Loading and saving\<close>

definition saveLocked :: "auth_lib \<Rightarrow> save_io \<Rightarrow> auth_state \<Rightarrow> auth_error option \<times> auth_state" where
  "saveLocked L io st =
    (let (m, d) = st; m = m\<lparr>m_config := (m_config m)\<lparr>cf_Version := authConfigVersion\<rparr>\<rparr> in
     case marshal (al_codec L) (m_config m) of
       None \<Rightarrow> (Some (AuthOther ''encode auth config''), (m, d))
     | Some text \<Rightarrow>
         (case replace_file io (m_filePath m) (text @ [newline]) d of
            (None, d') \<Rightarrow> (None, (m, d'))
          | (Some step, d') \<Rightarrow> (Some (AuthSaveFailed step), (m, d'))))"

definition authConfigLimit :: nat where "authConfigLimit = 2097152"

fun loadUsers :: "ucd \<Rightarrow> persistedUser list \<Rightarrow> (auth_error, persistedUser list) result" where
  "loadUsers U [] = Inr []"
| "loadUsers U (u # us) =
     (if (case normalizeUserFields U (u_Username u) (u_DisplayName u) (u_Role u) of Inl _ \<Rightarrow> True | Inr _ \<Rightarrow> False)
         \<or> u_PasswordHash u = []
      then Inl (AuthOther ''invalid stored local user'')
      else case loadUsers U us of
          Inl err \<Rightarrow> Inl err
        | Inr us' \<Rightarrow> Inr (u\<lparr>u_ClusterIDs := clusterIDsForRole (u_Role u) (u_ClusterIDs u)\<rparr> # us'))"

definition load :: "auth_lib \<Rightarrow> bool \<Rightarrow> auth_state \<Rightarrow> (auth_error, Manager) result" where
  "load L openFails st =
    (let (m, d) = st in
     if openFails then Inl (AuthOther ''open auth config'')
     else case d (m_filePath m) of
         None \<Rightarrow> Inr m
       | Some text \<Rightarrow>
           (case unmarshal (al_codec L) (take authConfigLimit text) of
              None \<Rightarrow> Inl (AuthOther ''decode auth config'')
            | Some config \<Rightarrow>
                if cf_Version config \<noteq> authConfigVersion \<or> cf_ConfiguredAt config = 0
                then Inl (AuthOther ''unsupported or incomplete auth config'')
                else if cf_Mode config \<noteq> ModeLocal \<and> cf_Mode config \<noteq> ModeLDAP \<and> cf_Mode config \<noteq> ModeBoth
                then Inl (AuthOther ''invalid stored authentication mode'')
                else case loadUsers (al_ucd L) (cf_Users config) of
                    Inl err \<Rightarrow> Inl err
                  | Inr users \<Rightarrow> Inr (m\<lparr>m_config := config\<lparr>cf_Users := users\<rparr>, m_configured := True\<rparr>)))"

definition NewManager :: "auth_lib \<Rightarrow> bool \<Rightarrow> string \<Rightarrow> int \<Rightarrow> dir \<Rightarrow> (auth_error, Manager) result" where
  "NewManager L openFails filePath timeout d =
    (if TrimSpace filePath = [] then Inl (AuthOther ''auth config file cannot be empty'')
     else if timeout \<le> 0 then Inl (AuthOther ''auth connection timeout must be positive'')
     else load L openFails
       (\<lparr>m_filePath = filePath, m_fileRoot = Dir filePath, m_timeout = timeout, m_config = empty_config,
         m_configured = False, m_sessions = Map.empty\<rparr>, d))"

section \<open>Status, first start\<close>

definition Manager_Status :: "Manager \<Rightarrow> Principal option \<Rightarrow> Status" where
  "Manager_Status m prin =
    \<lparr>status_Configured = m_configured m,
     status_LocalEnabled = (m_configured m \<and> modeIncludes (cf_Mode (m_config m)) ProviderLocal),
     status_LDAPEnabled = (m_configured m \<and> modeIncludes (cf_Mode (m_config m)) ProviderLDAP),
     status_Authenticated = (prin \<noteq> None), status_User = prin\<rparr>"

definition bootstrap ::
    "auth_lib \<Rightarrow> call_env \<Rightarrow> LocalUserInput \<Rightarrow> bool \<Rightarrow> auth_state \<Rightarrow> (auth_error, User) result \<times> auth_state" where
  "bootstrap L ce input mustChangePassword st =
    (case normalizeUserFields (al_ucd L) (in_Username input) (in_DisplayName input) RoleAdmin of
       Inl err \<Rightarrow> (Inl err, st)
     | Inr (username, displayName, role) \<Rightarrow>
         if role \<noteq> RoleAdmin then (Inl (AuthErr ErrInvalidInput), st)
         else case hashPassword (al_ucd L) (al_generate L (ce_salt ce)) (in_Password input) of
             Inl err \<Rightarrow> (Inl err, st)
           | Inr hash \<Rightarrow>
               let user = \<lparr>u_Username = username, u_DisplayName = displayName, u_Role = RoleAdmin, u_Active = True,
                     u_ClusterIDs = [], u_MustChangePassword = mustChangePassword, u_CreatedAt = ce_now ce,
                     u_UpdatedAt = ce_now ce\<rparr>;
                   (m, d) = st in
               if m_configured m then (Inl (AuthErr ErrAlreadyConfigured), st)
               else
                 let config = \<lparr>cf_Version = authConfigVersion, cf_ConfiguredAt = ce_now ce, cf_Mode = ModeLocal,
                       cf_LDAP = empty_ldap, cf_Users = [User.extend user (persistedUser.fields hash)]\<rparr> in
                 case saveLocked L (ce_io ce) (m\<lparr>m_config := config\<rparr>, d) of
                   (Some err, (m', d')) \<Rightarrow> (Inl err, (m'\<lparr>m_config := empty_config\<rparr>, d'))
                 | (None, (m', d')) \<Rightarrow> (Inr user, (m'\<lparr>m_configured := True\<rparr>, d')))"

definition Manager_Bootstrap ::
    "auth_lib \<Rightarrow> call_env \<Rightarrow> LocalUserInput \<Rightarrow> auth_state \<Rightarrow> (auth_error, User) result \<times> auth_state" where
  "Manager_Bootstrap L ce input st = bootstrap L ce input False st"

text \<open>The display name of the first administrator, in UTF-8.\<close>

definition systemAdministrator :: string where
  "systemAdministrator = map char_of
    [0xE7, 0xB3, 0xBB, 0xE7, 0xBB, 0x9F, 0xE7, 0xAE, 0xA1, 0xE7, 0x90, 0x86, 0xE5, 0x91, 0x98 :: nat]"

definition EnsureTemporaryAdmin ::
    "auth_lib \<Rightarrow> call_env \<Rightarrow> tape \<Rightarrow> auth_state \<Rightarrow> (auth_error, string \<times> bool) result \<times> auth_state" where
  "EnsureTemporaryAdmin L ce t st =
    (if m_configured (fst st) then (Inr ([], False), st)
     else case generateTemporaryPassword 24 t of
         Inl err \<Rightarrow> (Inl err, st)
       | Inr password \<Rightarrow>
           let input = \<lparr>in_Username = ''admin'', in_DisplayName = systemAdministrator, in_Password = password,
                 in_Role = RoleAdmin, in_Active = None, in_ClusterIDs = []\<rparr> in
           case bootstrap L ce input True st of
             (Inl err, st') \<Rightarrow>
               (if err = AuthErr ErrAlreadyConfigured then (Inr ([], False), st') else (Inl err, st'))
           | (Inr _, st') \<Rightarrow> (Inr (password, True), st'))"

section \<open>Sessions\<close>

definition sessionKey :: "auth_lib \<Rightarrow> string \<Rightarrow> string" where
  "sessionKey L token = al_sha256hex L token"

definition retain_sessions :: "(session \<Rightarrow> bool) \<Rightarrow> (string \<rightharpoonup> session) \<Rightarrow> string \<rightharpoonup> session" where
  "retain_sessions P ss = (\<lambda>k. case ss k of None \<Rightarrow> None | Some s \<Rightarrow> if P s then Some s else None)"

definition pruneSessionsLocked :: "gotime \<Rightarrow> Manager \<Rightarrow> Manager" where
  "pruneSessionsLocked now m = m\<lparr>m_sessions := retain_sessions (\<lambda>s. now < s_ExpiresAt s) (m_sessions m)\<rparr>"

definition revokeSessions :: "ucd \<Rightarrow> string \<Rightarrow> string \<Rightarrow> Manager \<Rightarrow> Manager" where
  "revokeSessions U provider username m =
    m\<lparr>m_sessions := retain_sessions
       (\<lambda>s. \<not> (p_Provider (s_Principal s) = provider \<and> EqualFold U (p_Username (s_Principal s)) username))
       (m_sessions m)\<rparr>"

definition revokeProviderSessionsLocked :: "string \<Rightarrow> Manager \<Rightarrow> Manager" where
  "revokeProviderSessionsLocked mode m =
    m\<lparr>m_sessions := retain_sessions (\<lambda>s. modeIncludes mode (p_Provider (s_Principal s))) (m_sessions m)\<rparr>"

text \<open>
  The 32 random bytes are an argument, \<open>None\<close> being a failing source. The clock is read
  once for the expiry and once for pruning.
\<close>

definition CreateSession ::
    "auth_lib \<Rightarrow> gotime \<Rightarrow> gotime \<Rightarrow> bytes option \<Rightarrow> Principal \<Rightarrow> Manager \<Rightarrow>
      (auth_error, string \<times> gotime) result \<times> Manager" where
  "CreateSession L now now' raw prin m =
    (case raw of
       None \<Rightarrow> (Inl (AuthOther ''generate session token''), m)
     | Some bs \<Rightarrow>
         let token = hexEncode bs; expiresAt = now + SessionDuration; m' = pruneSessionsLocked now' m in
         (Inr (token, expiresAt),
          m'\<lparr>m_sessions := (m_sessions m')(sessionKey L token \<mapsto> \<lparr>s_Principal = prin, s_ExpiresAt = expiresAt\<rparr>)\<rparr>))"

definition DeleteSession :: "auth_lib \<Rightarrow> string \<Rightarrow> Manager \<Rightarrow> Manager" where
  "DeleteSession L token m = m\<lparr>m_sessions := (m_sessions m)(sessionKey L token := None)\<rparr>"

definition Session :: "auth_lib \<Rightarrow> gotime \<Rightarrow> string \<Rightarrow> Manager \<Rightarrow> Principal option \<times> Manager" where
  "Session L now token m =
    (case m_sessions m (sessionKey L token) of
       None \<Rightarrow> (None, DeleteSession L token m)
     | Some s \<Rightarrow>
         if \<not> now < s_ExpiresAt s then (None, DeleteSession L token m)
         else
           let prin = s_Principal s; config = m_config m in
           if \<not> m_configured m \<or> \<not> modeIncludes (cf_Mode config) (p_Provider prin)
           then (None, DeleteSession L token m)
           else if p_Provider prin = ProviderLocal then
             (case findUserIndex (al_ucd L) (cf_Users config) (p_Username prin) of
                None \<Rightarrow> (None, DeleteSession L token m)
              | Some index \<Rightarrow>
                  let u = cf_Users config ! index in
                  if \<not> u_Active u then (None, DeleteSession L token m)
                  else (Some (prin\<lparr>p_DisplayName := u_DisplayName u, p_Role := u_Role u,
                          p_ClusterIDs := u_ClusterIDs u, p_MustChangePassword := u_MustChangePassword u\<rparr>), m))
           else
             (Some (prin\<lparr>p_Role := if containsFold (al_ucd L) (l_AdminUsernames (cf_LDAP config)) (p_Username prin)
                                 then RoleAdmin else RoleOperator,
                     p_ClusterIDs := []\<rparr>), m))"

section \<open>Settings\<close>

definition Settings :: "Manager \<Rightarrow> (auth_error, SettingsStatus) result" where
  "Settings m = (if \<not> m_configured m then Inl (AuthErr ErrNotConfigured) else Inr (settingsStatus (m_config m)))"

definition UpdateSettings ::
    "auth_lib \<Rightarrow> call_env \<Rightarrow> SettingsInput \<Rightarrow> auth_state \<Rightarrow> (auth_error, SettingsStatus) result \<times> auth_state" where
  "UpdateSettings L ce input st =
    (let mode = ToLower (al_ucd L) (TrimSpace (si_Mode input)); (m, d) = st; config = m_config m in
     if mode \<noteq> ModeLocal \<and> mode \<noteq> ModeLDAP \<and> mode \<noteq> ModeBoth then (Inl (AuthErr ErrInvalidInput), st)
     else if \<not> m_configured m then (Inl (AuthErr ErrNotConfigured), st)
     else case normalizeLDAPSettings (al_ucd L) (si_LDAP input) (cf_LDAP config) (modeIncludes mode ProviderLDAP) of
         Inl err \<Rightarrow> (Inl err, st)
       | Inr ldapConfig \<Rightarrow>
           if modeIncludes mode ProviderLocal \<and> activeAdminCount (cf_Users config) = 0
           then (Inl (AuthErr ErrLastAdmin), st)
           else if mode = ModeLDAP \<and> l_AdminUsernames ldapConfig = [] then (Inl (AuthErr ErrInvalidInput), st)
           else case saveLocked L (ce_io ce) (m\<lparr>m_config := config\<lparr>cf_Mode := mode, cf_LDAP := ldapConfig\<rparr>\<rparr>, d) of
               (Some err, (m', d')) \<Rightarrow>
                 (Inl err,
                  (m'\<lparr>m_config := (m_config m')\<lparr>cf_Mode := cf_Mode config, cf_LDAP := cf_LDAP config\<rparr>\<rparr>, d'))
             | (None, (m', d')) \<Rightarrow>
                 (Inr (settingsStatus (m_config m')), (revokeProviderSessionsLocked mode m', d')))"

section \<open>Users\<close>

definition ListUsers :: "ucd \<Rightarrow> Manager \<Rightarrow> (auth_error, User list) result" where
  "ListUsers U m =
    (if \<not> m_configured m then Inl (AuthErr ErrNotConfigured)
     else Inr (sort_key (\<lambda>u. ToLower U (u_Username u)) (map User.truncate (cf_Users (m_config m)))))"

definition set_users :: "persistedUser list \<Rightarrow> Manager \<Rightarrow> Manager" where
  "set_users users m = m\<lparr>m_config := (m_config m)\<lparr>cf_Users := users\<rparr>\<rparr>"

definition CreateUser ::
    "auth_lib \<Rightarrow> call_env \<Rightarrow> LocalUserInput \<Rightarrow> auth_state \<Rightarrow> (auth_error, User) result \<times> auth_state" where
  "CreateUser L ce input st =
    (case normalizeUserFields (al_ucd L) (in_Username input) (in_DisplayName input) (in_Role input) of
       Inl err \<Rightarrow> (Inl err, st)
     | Inr (username, displayName, role) \<Rightarrow>
         (case hashPassword (al_ucd L) (al_generate L (ce_salt ce)) (in_Password input) of
            Inl err \<Rightarrow> (Inl err, st)
          | Inr hash \<Rightarrow>
              let active = (case in_Active input of None \<Rightarrow> True | Some a \<Rightarrow> a);
                  user = \<lparr>u_Username = username, u_DisplayName = displayName, u_Role = role, u_Active = active,
                    u_ClusterIDs = clusterIDsForRole role (in_ClusterIDs input), u_MustChangePassword = False,
                    u_CreatedAt = ce_now ce, u_UpdatedAt = ce_now ce\<rparr>;
                  (m, d) = st; users = cf_Users (m_config m) in
              if \<not> m_configured m then (Inl (AuthErr ErrNotConfigured), st)
              else if findUserIndex (al_ucd L) users username \<noteq> None then (Inl (AuthErr ErrUserExists), st)
              else case saveLocked L (ce_io ce) (set_users (users @ [User.extend user (persistedUser.fields hash)]) m, d) of
                  (Some err, (m', d')) \<Rightarrow> (Inl err, (set_users (butlast (cf_Users (m_config m'))) m', d'))
                | (None, st') \<Rightarrow> (Inr user, st')))"

definition updatedUser ::
    "call_env \<Rightarrow> string \<Rightarrow> string \<Rightarrow> string \<Rightarrow> LocalUserInput \<Rightarrow> persistedUser \<Rightarrow> persistedUser" where
  "updatedUser ce displayName role hash input previous =
    previous\<lparr>u_DisplayName := displayName, u_Role := role,
      u_ClusterIDs := clusterIDsForRole role (in_ClusterIDs input),
      u_Active := (case in_Active input of None \<Rightarrow> u_Active previous | Some a \<Rightarrow> a),
      u_PasswordHash := (if hash \<noteq> [] then hash else u_PasswordHash previous),
      u_UpdatedAt := ce_now ce\<rparr>"

definition UpdateUser ::
    "auth_lib \<Rightarrow> call_env \<Rightarrow> string \<Rightarrow> LocalUserInput \<Rightarrow> auth_state \<Rightarrow> (auth_error, User) result \<times> auth_state" where
  "UpdateUser L ce username input st =
    (let displayName = TrimSpace (in_DisplayName input); role = ToLower (al_ucd L) (TrimSpace (in_Role input)) in
     if displayName = [] \<or> 100 < length (runes displayName) \<or> role \<noteq> RoleAdmin \<and> role \<noteq> RoleOperator
     then (Inl (AuthErr ErrInvalidInput), st)
     else case (if in_Password input \<noteq> []
                then hashPassword (al_ucd L) (al_generate L (ce_salt ce)) (in_Password input) else Inr []) of
         Inl err \<Rightarrow> (Inl err, st)
       | Inr hash \<Rightarrow>
           let (m, d) = st; users = cf_Users (m_config m) in
           if \<not> m_configured m then (Inl (AuthErr ErrNotConfigured), st)
           else case findUserIndex (al_ucd L) users username of
               None \<Rightarrow> (Inl (AuthErr ErrUserNotFound), st)
             | Some index \<Rightarrow>
                 let previous = users ! index;
                     updated = updatedUser ce displayName role hash input previous;
                     users' = users[index := updated] in
                 if modeIncludes (cf_Mode (m_config m)) ProviderLocal \<and> activeAdminCount users' = 0
                 then (Inl (AuthErr ErrLastAdmin), st)
                 else case saveLocked L (ce_io ce) (set_users users' m, d) of
                     (Some err, (m', d')) \<Rightarrow>
                       (Inl err, (set_users ((cf_Users (m_config m'))[index := previous]) m', d'))
                   | (None, (m', d')) \<Rightarrow>
                       (Inr (User.truncate updated),
                        (revokeSessions (al_ucd L) ProviderLocal (u_Username previous) m', d')))"

definition DeleteUser ::
    "auth_lib \<Rightarrow> call_env \<Rightarrow> string \<Rightarrow> auth_state \<Rightarrow> (auth_error, unit) result \<times> auth_state" where
  "DeleteUser L ce username st =
    (let (m, d) = st; users = cf_Users (m_config m) in
     if \<not> m_configured m then (Inl (AuthErr ErrNotConfigured), st)
     else case findUserIndex (al_ucd L) users username of
         None \<Rightarrow> (Inl (AuthErr ErrUserNotFound), st)
       | Some index \<Rightarrow>
           let users' = take index users @ drop (index + 1) users in
           if modeIncludes (cf_Mode (m_config m)) ProviderLocal \<and> activeAdminCount users' = 0
           then (Inl (AuthErr ErrLastAdmin), st)
           else case saveLocked L (ce_io ce) (set_users users' m, d) of
               (Some err, (m', d')) \<Rightarrow> (Inl err, (set_users users m', d'))
             | (None, (m', d')) \<Rightarrow> (Inr (), (revokeSessions (al_ucd L) ProviderLocal username m', d')))"

text \<open>The clock is read once per user that changes; \<open>clock i\<close> is what user \<open>i\<close> gets.\<close>

definition dropGrant :: "string \<Rightarrow> gotime \<Rightarrow> persistedUser \<Rightarrow> persistedUser" where
  "dropGrant clusterID now u =
     (let filtered = filter (\<lambda>c. c \<noteq> clusterID) (u_ClusterIDs u) in
      if clusterID \<in> set (u_ClusterIDs u) then u\<lparr>u_ClusterIDs := filtered, u_UpdatedAt := now\<rparr>
      else u\<lparr>u_ClusterIDs := filtered\<rparr>)"

definition RemoveClusterPermissions ::
    "auth_lib \<Rightarrow> (nat \<Rightarrow> gotime) \<Rightarrow> save_io \<Rightarrow> string \<Rightarrow> auth_state \<Rightarrow> (auth_error, unit) result \<times> auth_state" where
  "RemoveClusterPermissions L clock io clusterID st =
    (let clusterID = TrimSpace clusterID; (m, d) = st; users = cf_Users (m_config m) in
     if clusterID = [] then (Inl (AuthErr ErrInvalidInput), st)
     else if \<not> m_configured m then (Inl (AuthErr ErrNotConfigured), st)
     else
       let users' = map (\<lambda>(i, u). dropGrant clusterID (clock i) u) (enumerate 0 users);
           changed = (\<exists>u \<in> set users. clusterID \<in> set (u_ClusterIDs u)) in
       if \<not> changed then (Inr (), (set_users users' m, d))
       else case saveLocked L io (set_users users' m, d) of
           (Some err, (m', d')) \<Rightarrow>
             (Inl err,
              (set_users (map2 (\<lambda>u p. u\<lparr>u_ClusterIDs := u_ClusterIDs p, u_UpdatedAt := u_UpdatedAt p\<rparr>)
                 (cf_Users (m_config m')) users) m', d'))
         | (None, st') \<Rightarrow> (Inr (), st'))"

section \<open>Authentication and password changes\<close>

definition AuthenticateLocal :: "auth_lib \<Rightarrow> Manager \<Rightarrow> string \<Rightarrow> string \<Rightarrow> (auth_error, Principal) result" where
  "AuthenticateLocal L m username password =
    (let users = cf_Users (m_config m) in
     if \<not> m_configured m then Inl (AuthErr ErrNotConfigured)
     else if \<not> modeIncludes (cf_Mode (m_config m)) ProviderLocal then Inl (AuthErr ErrProviderDisabled)
     else case findUserIndex (al_ucd L) users (TrimSpace username) of
         None \<Rightarrow> Inl (AuthErr ErrInvalidCredentials)
       | Some index \<Rightarrow>
           let user = users ! index in
           if \<not> u_Active user \<or> \<not> al_compare L (u_PasswordHash user) password
           then Inl (AuthErr ErrInvalidCredentials)
           else Inr \<lparr>p_Username = u_Username user, p_DisplayName = u_DisplayName user, p_Provider = ProviderLocal,
                  p_Role = u_Role user, p_ClusterIDs = u_ClusterIDs user,
                  p_MustChangePassword = u_MustChangePassword user\<rparr>)"

text \<open>
  \<open>ChangePassword\<close> up to the point where it takes the write lock: the hash it has compared
  with, and the new hash.
\<close>

definition ChangePassword_check ::
    "auth_lib \<Rightarrow> call_env \<Rightarrow> Manager \<Rightarrow> string \<Rightarrow> string \<Rightarrow> string \<Rightarrow> (auth_error, string \<times> string) result" where
  "ChangePassword_check L ce m username currentPassword newPassword =
    (let users = cf_Users (m_config m) in
     case validateStrongPassword (al_ucd L) newPassword of
       Some err \<Rightarrow> Inl err
     | None \<Rightarrow>
         if \<not> m_configured m then Inl (AuthErr ErrNotConfigured)
         else case findUserIndex (al_ucd L) users username of
             None \<Rightarrow> Inl (AuthErr ErrInvalidCredentials)
           | Some index \<Rightarrow>
               let current = users ! index in
               if \<not> u_Active current \<or> \<not> al_compare L (u_PasswordHash current) currentPassword
               then Inl (AuthErr ErrInvalidCredentials)
               else if al_compare L (u_PasswordHash current) newPassword then Inl (AuthErr ErrPasswordUnchanged)
               else case al_generate L (ce_salt ce) newPassword of
                   None \<Rightarrow> Inl (AuthOther ''hash password'')
                 | Some newHash \<Rightarrow> Inr (u_PasswordHash current, newHash))"

definition changedUser :: "call_env \<Rightarrow> string \<Rightarrow> persistedUser \<Rightarrow> persistedUser" where
  "changedUser ce newHash u =
    u\<lparr>u_PasswordHash := newHash, u_MustChangePassword := False, u_UpdatedAt := ce_now ce\<rparr>"

definition localPrincipal :: "persistedUser \<Rightarrow> Principal" where
  "localPrincipal u =
    \<lparr>p_Username = u_Username u, p_DisplayName = u_DisplayName u, p_Provider = ProviderLocal,
     p_Role = u_Role u, p_ClusterIDs = u_ClusterIDs u, p_MustChangePassword = False\<rparr>"

definition ChangePassword_commit ::
    "auth_lib \<Rightarrow> call_env \<Rightarrow> string \<Rightarrow> string \<times> string \<Rightarrow> auth_state \<Rightarrow> (auth_error, Principal) result \<times> auth_state" where
  "ChangePassword_commit L ce username hashes st =
    (let (currentHash, newHash) = hashes; (m, d) = st; users = cf_Users (m_config m) in
     case findUserIndex (al_ucd L) users username of
       None \<Rightarrow> (Inl (AuthErr ErrInvalidCredentials), st)
     | Some index \<Rightarrow>
         if u_PasswordHash (users ! index) \<noteq> currentHash then (Inl (AuthErr ErrInvalidCredentials), st)
         else
           let previous = users ! index; users' = users[index := changedUser ce newHash previous] in
           case saveLocked L (ce_io ce) (set_users users' m, d) of
             (Some err, (m', d')) \<Rightarrow> (Inl err, (set_users ((cf_Users (m_config m'))[index := previous]) m', d'))
           | (None, (m', d')) \<Rightarrow> (Inr (localPrincipal (cf_Users (m_config m') ! index)), (m', d')))"

definition ChangePassword ::
    "auth_lib \<Rightarrow> call_env \<Rightarrow> string \<Rightarrow> string \<Rightarrow> string \<Rightarrow> auth_state \<Rightarrow> (auth_error, Principal) result \<times> auth_state" where
  "ChangePassword L ce username currentPassword newPassword st =
    (case ChangePassword_check L ce (fst st) username currentPassword newPassword of
       Inl err \<Rightarrow> (Inl err, st)
     | Inr hashes \<Rightarrow> ChangePassword_commit L ce username hashes st)"

definition CompleteTemporaryPasswordChange_check ::
    "auth_lib \<Rightarrow> call_env \<Rightarrow> Manager \<Rightarrow> string \<Rightarrow> string \<Rightarrow> (auth_error, string \<times> string) result" where
  "CompleteTemporaryPasswordChange_check L ce m username newPassword =
    (let users = cf_Users (m_config m) in
     case validateStrongPassword (al_ucd L) newPassword of
       Some err \<Rightarrow> Inl err
     | None \<Rightarrow>
         if \<not> m_configured m then Inl (AuthErr ErrNotConfigured)
         else case findUserIndex (al_ucd L) users username of
             None \<Rightarrow> Inl (AuthErr ErrInvalidCredentials)
           | Some index \<Rightarrow>
               let current = users ! index in
               if \<not> u_Active current \<or> \<not> u_MustChangePassword current then Inl (AuthErr ErrPasswordChangeNotRequired)
               else if al_compare L (u_PasswordHash current) newPassword then Inl (AuthErr ErrPasswordUnchanged)
               else case al_generate L (ce_salt ce) newPassword of
                   None \<Rightarrow> Inl (AuthOther ''hash password'')
                 | Some newHash \<Rightarrow> Inr (u_PasswordHash current, newHash))"

definition CompleteTemporaryPasswordChange_commit ::
    "auth_lib \<Rightarrow> call_env \<Rightarrow> string \<Rightarrow> string \<times> string \<Rightarrow> auth_state \<Rightarrow> (auth_error, Principal) result \<times> auth_state" where
  "CompleteTemporaryPasswordChange_commit L ce username hashes st =
    (let (currentHash, newHash) = hashes; (m, d) = st; users = cf_Users (m_config m) in
     case findUserIndex (al_ucd L) users username of
       None \<Rightarrow> (Inl (AuthErr ErrInvalidCredentials), st)
     | Some index \<Rightarrow>
         if u_PasswordHash (users ! index) \<noteq> currentHash then (Inl (AuthErr ErrInvalidCredentials), st)
         else if \<not> u_Active (users ! index) \<or> \<not> u_MustChangePassword (users ! index)
         then (Inl (AuthErr ErrPasswordChangeNotRequired), st)
         else
           let previous = users ! index; users' = users[index := changedUser ce newHash previous] in
           case saveLocked L (ce_io ce) (set_users users' m, d) of
             (Some err, (m', d')) \<Rightarrow> (Inl err, (set_users ((cf_Users (m_config m'))[index := previous]) m', d'))
           | (None, (m', d')) \<Rightarrow> (Inr (localPrincipal (cf_Users (m_config m') ! index)), (m', d')))"

definition CompleteTemporaryPasswordChange ::
    "auth_lib \<Rightarrow> call_env \<Rightarrow> string \<Rightarrow> string \<Rightarrow> auth_state \<Rightarrow> (auth_error, Principal) result \<times> auth_state" where
  "CompleteTemporaryPasswordChange L ce username newPassword st =
    (case CompleteTemporaryPasswordChange_check L ce (fst st) username newPassword of
       Inl err \<Rightarrow> (Inl err, st)
     | Inr hashes \<Rightarrow> CompleteTemporaryPasswordChange_commit L ce username hashes st)"

end
