(* ===== verification/Auth_Invariant.thy ===== *)
theory Auth_Invariant
  imports Auth_Manager
begin

text \<open>
  The invariant of the authentication manager and its file, its preservation by every
  operation (whatever step of saving fails), by crashes and by restarts, and the relation of
  reachable states. What survives is that user names are distinct up to case, that users
  are well formed, and that in every mode someone can administer the system: an active local
  administrator when local log-in is enabled, and an LDAP administrator when it is not.
\<close>

section \<open>What a restart reads back\<close>

text \<open>
  \<open>encoding/json\<close> replaces what is not UTF-8 in a string by the replacement character;
  a text cut off before its closing brace does not decode.
\<close>

definition toValidUTF8 :: "string \<Rightarrow> string" where
  "toValidUTF8 s = (if utf8Valid s then s else string_of_runes (runes s))"

definition ldap_image :: "ldapSettings \<Rightarrow> ldapSettings" where
  "ldap_image l =
    \<lparr>l_Host = toValidUTF8 (l_Host l), l_Port = l_Port l, l_TLSMode = toValidUTF8 (l_TLSMode l),
     l_CAFile = toValidUTF8 (l_CAFile l), l_ServerName = toValidUTF8 (l_ServerName l),
     l_BaseDN = toValidUTF8 (l_BaseDN l), l_BindDN = toValidUTF8 (l_BindDN l),
     l_BindPassword = toValidUTF8 (l_BindPassword l), l_UserFilter = toValidUTF8 (l_UserFilter l),
     l_UserDNTemplate = toValidUTF8 (l_UserDNTemplate l), l_UsernameAttribute = toValidUTF8 (l_UsernameAttribute l),
     l_DisplayNameAttribute = toValidUTF8 (l_DisplayNameAttribute l),
     l_AdminUsernames = map toValidUTF8 (l_AdminUsernames l)\<rparr>"

definition user_image :: "persistedUser \<Rightarrow> persistedUser" where
  "user_image u =
    u\<lparr>u_Username := toValidUTF8 (u_Username u), u_DisplayName := toValidUTF8 (u_DisplayName u),
      u_Role := toValidUTF8 (u_Role u), u_ClusterIDs := map toValidUTF8 (u_ClusterIDs u),
      u_PasswordHash := toValidUTF8 (u_PasswordHash u)\<rparr>"

definition config_image :: "persistedConfig \<Rightarrow> persistedConfig" where
  "config_image c =
    c\<lparr>cf_Mode := toValidUTF8 (cf_Mode c), cf_LDAP := ldap_image (cf_LDAP c), cf_Users := map user_image (cf_Users c)\<rparr>"

definition json_config_law :: "persistedConfig json_codec \<Rightarrow> bool" where
  "json_config_law C \<longleftrightarrow>
    (\<forall>c t n. marshal C c = Some t \<longrightarrow>
       unmarshal C (take n (t @ [newline])) = (if length t \<le> n then Some (config_image c) else None))"

lemma toValidUTF8_ascii [simp]: "ascii s \<Longrightarrow> toValidUTF8 s = s"
  by (simp add: toValidUTF8_def utf8Valid_ascii)

section \<open>The invariant\<close>

definition user_inv :: "persistedUser \<Rightarrow> bool" where
  "user_inv u \<longleftrightarrow> usernamePattern (u_Username u) \<and> length (runes (TrimSpace (u_DisplayName u))) \<le> 100 \<and>
     u_Role u \<in> {RoleAdmin, RoleOperator} \<and> u_PasswordHash u \<noteq> [] \<and>
     clusterIDsForRole (u_Role u) (u_ClusterIDs u) = u_ClusterIDs u"

definition names_distinct :: "ucd \<Rightarrow> persistedUser list \<Rightarrow> bool" where
  "names_distinct U users \<longleftrightarrow> sorted_wrt (\<lambda>u v. \<not> EqualFold U (u_Username u) (u_Username v)) users"

definition config_inv :: "ucd \<Rightarrow> persistedConfig \<Rightarrow> bool" where
  "config_inv U c \<longleftrightarrow>
     cf_Version c = authConfigVersion \<and> cf_Mode c \<in> {ModeLocal, ModeLDAP, ModeBoth} \<and>
     list_all user_inv (cf_Users c) \<and> names_distinct U (cf_Users c) \<and>
     (modeIncludes (cf_Mode c) ProviderLocal \<longrightarrow> 0 < activeAdminCount (cf_Users c)) \<and>
     (cf_Mode c = ModeLDAP \<longrightarrow> l_AdminUsernames (cf_LDAP c) \<noteq> [])"

definition manager_inv :: "ucd \<Rightarrow> Manager \<Rightarrow> bool" where
  "manager_inv U m \<longleftrightarrow> (if m_configured m then config_inv U (m_config m) else m_config m = empty_config)"

text \<open>Whatever is under the path of the configuration file was written by a save.\<close>

definition disk_inv :: "auth_lib \<Rightarrow> string \<Rightarrow> dir \<Rightarrow> bool" where
  "disk_inv L path d \<longleftrightarrow>
     (\<forall>data. d path = Some data \<longrightarrow>
        (\<exists>c t. config_inv (al_ucd L) c \<and> marshal (al_codec L) c = Some t \<and> data = t @ [newline]))"

definition auth_inv :: "auth_lib \<Rightarrow> auth_state \<Rightarrow> bool" where
  "auth_inv L st \<longleftrightarrow> manager_inv (al_ucd L) (fst st) \<and> disk_inv L (m_filePath (fst st)) (snd st)"

lemma names_distinct_cong:
  "map u_Username users = map u_Username users' \<Longrightarrow> names_distinct U users = names_distinct U users'"
proof -
  assume "map u_Username users = map u_Username users'"
  then have "sorted_wrt (\<lambda>a b. \<not> EqualFold U a b) (map u_Username users) =
      sorted_wrt (\<lambda>a b. \<not> EqualFold U a b) (map u_Username users')"
    by simp
  then show ?thesis
    by (simp add: names_distinct_def sorted_wrt_map)
qed

lemma names_distinct_update:
  "i < length users \<Longrightarrow> u_Username u = u_Username (users ! i) \<Longrightarrow>
     names_distinct U (users[i := u]) = names_distinct U users"
  by (rule names_distinct_cong) (simp add: map_update list_update_same_conv)

lemma names_distinct_remove:
  assumes "names_distinct U users"
  shows "names_distinct U (take i users @ drop (i + 1) users)"
proof -
  have "sorted_wrt (\<lambda>u v. \<not> EqualFold U (u_Username u) (u_Username v)) (take i users @ drop i users)"
    using assms by (simp add: names_distinct_def)
  moreover have "drop (i + 1) users = drop 1 (drop i users)"
    by simp
  ultimately show ?thesis
    unfolding names_distinct_def sorted_wrt_append
    by (auto intro: sorted_wrt_drop dest: in_set_dropD simp del: drop_drop)
qed

lemma names_distinct_append:
  assumes "names_distinct U users" and "findUserIndex U users name = None" and "u_Username u = TrimSpace name"
  shows "names_distinct U (users @ [u])"
  using assms by (simp add: names_distinct_def sorted_wrt_append findUserIndex_None)

lemma list_all_remove: "list_all P users \<Longrightarrow> list_all P (take i users @ drop (i + 1) users)"
  by (auto simp: list_all_iff dest: in_set_takeD in_set_dropD)

lemma list_all_update: "list_all P users \<Longrightarrow> P u \<Longrightarrow> list_all P (users[i := u])"
  by (auto simp: list_all_iff dest: set_update_subset_insert [THEN subsetD])

section \<open>Saving\<close>

lemma saveLocked_memory:
  assumes "saveLocked L io (m, d) = (e, (m', d'))"
  shows "m' = m\<lparr>m_config := (m_config m)\<lparr>cf_Version := authConfigVersion\<rparr>\<rparr>"
  using assms by (auto simp: saveLocked_def Let_def split: option.splits prod.splits)

lemma saveLocked_disk:
  assumes "saveLocked L io (m, d) = (e, (m', d'))" and "fresh_temp io (m_filePath m) d"
  shows "d' = d \<and> e \<noteq> None \<or>
    (\<exists>t. marshal (al_codec L) (m_config m') = Some t \<and> d' = d(m_filePath m \<mapsto> t @ [newline]) \<and>
       (e = None \<or> e = Some (AuthSaveFailed ChmodTarget)))"
  using assms
  by (auto simp: saveLocked_def Let_def replace_file_cases split: option.splits prod.splits if_splits)

lemma saveLocked_disk_inv:
  assumes "saveLocked L io (m, d) = (e, (m', d'))" and "fresh_temp io (m_filePath m) d"
    and "disk_inv L (m_filePath m) d" and "config_inv (al_ucd L) (m_config m)"
  shows "disk_inv L (m_filePath m) d'"
proof -
  have "m_config m' = m_config m"
    using saveLocked_memory [OF assms(1)] assms(4) by (simp add: config_inv_def)
  then show ?thesis
    using saveLocked_disk [OF assms(1,2)] assms(3,4) by (auto simp: disk_inv_def)
qed

text \<open>
  The pattern of every operation that changes the configuration: put a new configuration in
  place, save, and put the old one back if saving fails.
\<close>

lemma auth_inv_commit:
  assumes "auth_inv L (m, d)" and "config_inv (al_ucd L) c" and "fresh_temp io (m_filePath m) d"
    and "saveLocked L io (m\<lparr>m_config := c\<rparr>, d) = (e, (m', d'))"
  shows "m' = m\<lparr>m_config := c\<rparr>" and "disk_inv L (m_filePath m) d'"
proof -
  show "m' = m\<lparr>m_config := c\<rparr>"
    using saveLocked_memory [OF assms(4)] assms(2) by (simp add: config_inv_def)
  show "disk_inv L (m_filePath m) d'"
    using saveLocked_disk_inv [OF assms(4)] assms(1-3) by (simp add: auth_inv_def)
qed

section \<open>Preservation\<close>

lemma manager_inv_sessions [simp]: "manager_inv U (m\<lparr>m_sessions := ss\<rparr>) = manager_inv U m"
  by (simp add: manager_inv_def)

lemma auth_inv_sessions [simp]: "auth_inv L (m\<lparr>m_sessions := ss\<rparr>, d) = auth_inv L (m, d)"
  by (simp add: auth_inv_def)

lemma set_users_set_users [simp]: "set_users us (set_users us' m) = set_users us m"
  by (simp add: set_users_def)

lemma set_users_self [simp]: "set_users (cf_Users (m_config m)) m = m"
  by (simp add: set_users_def)

lemma set_users_fields [simp]:
  "cf_Users (m_config (set_users us m)) = us" "m_filePath (set_users us m) = m_filePath m"
  by (simp_all add: set_users_def)

lemma revoke_sessions_only:
  "\<exists>ss. revokeSessions U p n m = m\<lparr>m_sessions := ss\<rparr>" "\<exists>ss. revokeProviderSessionsLocked mode m = m\<lparr>m_sessions := ss\<rparr>"
  by (auto simp: revokeSessions_def revokeProviderSessionsLocked_def)

lemma auth_inv_revoke [simp]:
  "auth_inv L (revokeSessions U p n m, d) = auth_inv L (m, d)"
  "auth_inv L (revokeProviderSessionsLocked mode m, d) = auth_inv L (m, d)"
  by (simp_all add: revokeSessions_def revokeProviderSessionsLocked_def)

text \<open>Operations on the users of a configured manager go through this lemma.\<close>

lemma users_commit:
  assumes "auth_inv L (m, d)" and "m_configured m" and "fresh_temp io (m_filePath m) d"
    and "saveLocked L io (set_users us m, d) = (e, (m', d'))"
    and "list_all user_inv us" and "names_distinct (al_ucd L) us"
    and "modeIncludes (cf_Mode (m_config m)) ProviderLocal \<Longrightarrow> 0 < activeAdminCount us"
  shows "m' = set_users us m" and "auth_inv L (m', d')" and "auth_inv L (m, d')"
proof -
  let ?c = "(m_config m)\<lparr>cf_Users := us\<rparr>"
  have inv: "config_inv (al_ucd L) (m_config m)"
    using assms(1,2) by (simp add: auth_inv_def manager_inv_def)
  then have c: "config_inv (al_ucd L) ?c"
    using assms(5-7) by (simp add: config_inv_def)
  note commit = auth_inv_commit [OF assms(1) c assms(3) assms(4) [unfolded set_users_def]]
  show m': "m' = set_users us m"
    using commit(1) by (simp add: set_users_def)
  show "auth_inv L (m', d')" and "auth_inv L (m, d')"
    using commit(2) c inv assms(2) by (simp_all add: m' auth_inv_def manager_inv_def set_users_def)
qed

lemma user_of_inv:
  assumes "auth_inv L (m, d)" and "m_configured m"
  shows "list_all user_inv (cf_Users (m_config m))" and "names_distinct (al_ucd L) (cf_Users (m_config m))"
    and "modeIncludes (cf_Mode (m_config m)) ProviderLocal \<Longrightarrow> 0 < activeAdminCount (cf_Users (m_config m))"
  using assms by (simp_all add: auth_inv_def manager_inv_def config_inv_def)

lemma hashPassword_generated:
  "hashPassword U gen pw = Inr h \<Longrightarrow> gen pw = Some h \<and> validateStrongPassword U pw = None"
  by (simp add: hashPassword_def split: option.splits)

lemma activeAdminCount_append [simp]:
  "activeAdminCount (us @ vs) = activeAdminCount us + activeAdminCount vs"
  by (simp add: activeAdminCount_def)

lemma activeAdminCount_cong:
  assumes "map (\<lambda>u. u_Active u \<and> u_Role u = RoleAdmin) us = map (\<lambda>u. u_Active u \<and> u_Role u = RoleAdmin) vs"
  shows "activeAdminCount us = activeAdminCount vs"
proof -
  have "activeAdminCount us = length (filter (\<lambda>b. b) (map (\<lambda>u. u_Active u \<and> u_Role u = RoleAdmin) us))" for us
    by (simp add: activeAdminCount_def filter_map comp_def)
  from this [of us] this [of vs] assms show ?thesis by (simp only:)
qed

text \<open>\<open>bcrypt\<close> never returns an empty hash, and accepts the password it has hashed.\<close>

definition bcrypt_law :: "auth_lib \<Rightarrow> bool" where
  "bcrypt_law L \<longleftrightarrow> (\<forall>salt pw h. al_generate L salt pw = Some h \<longrightarrow> h \<noteq> [] \<and> al_compare L h pw)"

lemma CreateUser_inv [inv_intros]:
  assumes "auth_inv L (m, d)" and "fresh_temp (ce_io ce) (m_filePath m) d" and "bcrypt_law L"
  shows "auth_inv L (snd (CreateUser L ce input (m, d)))"
proof (cases "\<exists>f hash. normalizeUserFields (al_ucd L) (in_Username input) (in_DisplayName input) (in_Role input) = Inr f \<and>
    hashPassword (al_ucd L) (al_generate L (ce_salt ce)) (in_Password input) = Inr hash \<and> m_configured m \<and>
    findUserIndex (al_ucd L) (cf_Users (m_config m)) (fst f) = None")
  case False
  then have "snd (CreateUser L ce input (m, d)) = (m, d)"
    by (auto simp: CreateUser_def Let_def split: sum.splits prod.splits)
  then show ?thesis using assms(1) by simp
next
  case True
  then obtain username displayName role hash where
    norm: "normalizeUserFields (al_ucd L) (in_Username input) (in_DisplayName input) (in_Role input) =
         Inr (username, displayName, role)"
    and hash: "hashPassword (al_ucd L) (al_generate L (ce_salt ce)) (in_Password input) = Inr hash"
    and conf: "m_configured m" and free: "findUserIndex (al_ucd L) (cf_Users (m_config m)) username = None"
    by auto
  define u where "u = User.extend \<lparr>u_Username = username, u_DisplayName = displayName, u_Role = role,
    u_Active = (case in_Active input of None \<Rightarrow> True | Some a \<Rightarrow> a),
    u_ClusterIDs = clusterIDsForRole role (in_ClusterIDs input), u_MustChangePassword = False,
    u_CreatedAt = ce_now ce, u_UpdatedAt = ce_now ce\<rparr> (persistedUser.fields hash)"
  obtain e m' d' where save: "saveLocked L (ce_io ce) (set_users (cf_Users (m_config m) @ [u]) m, d) = (e, (m', d'))"
    by (metis prod_cases3)
  have result: "snd (CreateUser L ce input (m, d)) =
      (if e = None then (m', d') else (set_users (butlast (cf_Users (m_config m'))) m', d'))"
    using norm hash conf free save by (simp add: CreateUser_def Let_def u_def split: option.split)
  note ok = normalizeUserFields_ok [OF norm]
  have u: "u_Username u = username" "u_DisplayName u = displayName" "u_Role u = role" "u_PasswordHash u = hash"
    "u_ClusterIDs u = clusterIDsForRole role (in_ClusterIDs input)"
    by (simp_all add: u_def User.defs persistedUser.defs)
  then have "user_inv u"
    using ok hashPassword_generated [OF hash] assms(3)
    by (auto simp: user_inv_def bcrypt_law_def clusterIDsForRole_fixed clusterIDsForRole_normal)
  moreover have "names_distinct (al_ucd L) (cf_Users (m_config m) @ [u])"
    using names_distinct_append [OF user_of_inv(2) [OF assms(1) conf] free] ok u by simp
  ultimately show ?thesis
    using users_commit [OF assms(1) conf assms(2) save] user_of_inv [OF assms(1) conf] result
    by (simp add: trans_less_add1)
qed

lemma UpdateUser_inv [inv_intros]:
  assumes "auth_inv L (m, d)" and "fresh_temp (ce_io ce) (m_filePath m) d" and "bcrypt_law L"
  shows "auth_inv L (snd (UpdateUser L ce name input (m, d)))"
proof -
  let ?users = "cf_Users (m_config m)"
  let ?dn = "TrimSpace (in_DisplayName input)" and ?role = "ToLower (al_ucd L) (TrimSpace (in_Role input))"
  let ?hash = "if in_Password input \<noteq> []
    then hashPassword (al_ucd L) (al_generate L (ce_salt ce)) (in_Password input) else Inr []"
  let ?upd = "\<lambda>hash i. updatedUser ce ?dn ?role hash input (?users ! i)"
  show ?thesis
  proof (cases "\<exists>hash i. (?role = RoleAdmin \<or> ?role = RoleOperator) \<and> ?hash = Inr hash \<and> m_configured m \<and>
      findUserIndex (al_ucd L) ?users name = Some i \<and> ?dn \<noteq> [] \<and> \<not> 100 < length (runes ?dn) \<and>
      \<not> (modeIncludes (cf_Mode (m_config m)) ProviderLocal \<and> activeAdminCount (?users[i := ?upd hash i]) = 0)")
    case False
    then have "snd (UpdateUser L ce name input (m, d)) = (m, d)"
      by (auto simp: UpdateUser_def Let_def split: sum.splits option.splits)
    then show ?thesis using assms(1) by simp
  next
    case True
    then obtain hash i where role: "?role = RoleAdmin \<or> ?role = RoleOperator" and hash: "?hash = Inr hash"
      and conf: "m_configured m" and idx: "findUserIndex (al_ucd L) ?users name = Some i"
      and dn: "?dn \<noteq> []" "\<not> 100 < length (runes ?dn)"
      and admin: "\<not> (modeIncludes (cf_Mode (m_config m)) ProviderLocal \<and> activeAdminCount (?users[i := ?upd hash i]) = 0)"
      by blast
    obtain e m' d' where save: "saveLocked L (ce_io ce) (set_users (?users[i := ?upd hash i]) m, d) = (e, (m', d'))"
      by (metis prod_cases3)
    have result: "snd (UpdateUser L ce name input (m, d)) =
        (if e = None then (revokeSessions (al_ucd L) ProviderLocal (u_Username (?users ! i)) m', d')
         else (set_users ((cf_Users (m_config m'))[i := ?users ! i]) m', d'))"
      using role hash conf idx dn admin save by (auto simp: UpdateUser_def Let_def split: option.split)
    have i: "i < length ?users" using findUserIndex_less idx by blast
    note inv = user_of_inv [OF assms(1) conf]
    have "user_inv (?users ! i)" using inv(1) i by (simp add: list_all_length)
    then have "list_all user_inv (?users[i := ?upd hash i])"
      using inv(1) role dn
      by (intro list_all_update) (auto simp: user_inv_def updatedUser_def clusterIDsForRole_fixed clusterIDsForRole_normal)
    moreover have "names_distinct (al_ucd L) (?users[i := ?upd hash i])"
      using inv(2) i by (subst names_distinct_update) (simp_all add: updatedUser_def)
    ultimately show ?thesis
      using users_commit [OF assms(1) conf assms(2) save] admin result by simp
  qed
qed

lemma DeleteUser_inv [inv_intros]:
  assumes "auth_inv L (m, d)" and "fresh_temp (ce_io ce) (m_filePath m) d"
  shows "auth_inv L (snd (DeleteUser L ce name (m, d)))"
proof -
  let ?users = "cf_Users (m_config m)"
  let ?del = "\<lambda>i. take i ?users @ drop (i + 1) ?users"
  show ?thesis
  proof (cases "\<exists>i. m_configured m \<and> findUserIndex (al_ucd L) ?users name = Some i \<and>
      \<not> (modeIncludes (cf_Mode (m_config m)) ProviderLocal \<and> activeAdminCount (?del i) = 0)")
    case False
    then have "snd (DeleteUser L ce name (m, d)) = (m, d)"
      by (auto simp: DeleteUser_def Let_def split: option.splits)
    then show ?thesis using assms(1) by simp
  next
    case True
    then obtain i where conf: "m_configured m" and idx: "findUserIndex (al_ucd L) ?users name = Some i"
      and admin: "\<not> (modeIncludes (cf_Mode (m_config m)) ProviderLocal \<and> activeAdminCount (?del i) = 0)"
      by blast
    obtain e m' d' where save: "saveLocked L (ce_io ce) (set_users (?del i) m, d) = (e, (m', d'))"
      by (metis prod_cases3)
    have result: "snd (DeleteUser L ce name (m, d)) =
        (if e = None then (revokeSessions (al_ucd L) ProviderLocal name m', d') else (set_users ?users m', d'))"
      using conf idx admin save by (auto simp: DeleteUser_def Let_def split: option.split)
    note inv = user_of_inv [OF assms(1) conf]
    show ?thesis
      using users_commit [OF assms(1) conf assms(2) save list_all_remove [OF inv(1)] names_distinct_remove [OF inv(2)]]
        admin result by simp
  qed
qed

lemma dropGrant_user_inv:
  assumes "user_inv u"
  shows "user_inv (dropGrant c now u)"
proof -
  have fixed: "u_ClusterIDs u = clusterIDsForRole (u_Role u) (u_ClusterIDs u)"
    using assms by (simp add: user_inv_def)
  have "clusterIDsForRole (u_Role u) (filter (\<lambda>x. x \<noteq> c) (u_ClusterIDs u)) = filter (\<lambda>x. x \<noteq> c) (u_ClusterIDs u)"
    using clusterIDsForRole_normal [OF fixed]
    by (intro clusterIDsForRole_fixed) (simp_all add: sorted_wrt_filter)
  then show ?thesis using assms by (simp add: user_inv_def dropGrant_def Let_def)
qed

lemma dropGrant_fields [simp]:
  "u_Username (dropGrant c now u) = u_Username u" "u_Active (dropGrant c now u) = u_Active u"
  "u_Role (dropGrant c now u) = u_Role u"
  by (simp_all add: dropGrant_def Let_def)

abbreviation drop_grants :: "string \<Rightarrow> (nat \<Rightarrow> gotime) \<Rightarrow> nat \<Rightarrow> persistedUser list \<Rightarrow> persistedUser list" where
  "drop_grants c clock n users \<equiv> map (\<lambda>(i, u). dropGrant c (clock i) u) (enumerate n users)"

lemma drop_grants_names: "map u_Username (drop_grants c clock n users) = map u_Username users"
  by (induction users arbitrary: n) simp_all

lemma drop_grants_admins: "activeAdminCount (drop_grants c clock n users) = activeAdminCount users"
  by (induction users arbitrary: n) (simp_all add: activeAdminCount_def)

lemma drop_grants_inv: "list_all user_inv users \<Longrightarrow> list_all user_inv (drop_grants c clock n users)"
  by (induction users arbitrary: n) (simp_all add: dropGrant_user_inv)

lemma drop_grants_restore:
  "map2 (\<lambda>u p. u\<lparr>u_ClusterIDs := u_ClusterIDs p, u_UpdatedAt := u_UpdatedAt p\<rparr>) (drop_grants c clock n users) users = users"
  by (induction users arbitrary: n) (simp_all add: dropGrant_def Let_def)

lemma drop_grants_unchanged:
  "\<forall>u \<in> set users. c \<notin> set (u_ClusterIDs u) \<Longrightarrow> drop_grants c clock n users = users"
proof (induction users arbitrary: n)
  case (Cons u users)
  have "filter (\<lambda>x. x \<noteq> c) (u_ClusterIDs u) = u_ClusterIDs u"
    using Cons.prems by (simp add: filter_id_conv) blast
  with Cons show ?case by (simp add: dropGrant_def)
qed simp

lemma RemoveClusterPermissions_inv [inv_intros]:
  assumes "auth_inv L (m, d)" and "fresh_temp io (m_filePath m) d"
  shows "auth_inv L (snd (RemoveClusterPermissions L clock io cid (m, d)))"
proof -
  let ?users = "cf_Users (m_config m)" and ?c = "TrimSpace cid"
  let ?new = "drop_grants ?c clock 0 ?users"
  show ?thesis
  proof (cases "?c \<noteq> [] \<and> m_configured m \<and> (\<exists>u \<in> set ?users. ?c \<in> set (u_ClusterIDs u))")
    case False
    then have "snd (RemoveClusterPermissions L clock io cid (m, d)) = (m, d)"
      using drop_grants_unchanged [of ?users ?c clock 0]
      by (auto simp: RemoveClusterPermissions_def Let_def)
    then show ?thesis using assms(1) by simp
  next
    case True
    obtain e m' d' where save: "saveLocked L io (set_users ?new m, d) = (e, (m', d'))"
      by (metis prod_cases3)
    note inv = user_of_inv [OF assms(1)]
    have commit: "m' = set_users ?new m" "auth_inv L (m', d')" "auth_inv L (m, d')"
      using users_commit [OF assms(1) _ assms(2) save] True inv drop_grants_inv drop_grants_admins
        names_distinct_cong [OF drop_grants_names] by simp_all
    have "snd (RemoveClusterPermissions L clock io cid (m, d)) = (if e = None then (m', d') else (m, d'))"
      using True save commit(1) drop_grants_restore
      by (auto simp: RemoveClusterPermissions_def Let_def split: option.split)
    then show ?thesis using commit by simp
  qed
qed

text \<open>Both password changes end in the same update.\<close>

lemma password_commit_inv:
  assumes "auth_inv L (m, d)" and "fresh_temp (ce_io ce) (m_filePath m) d" and "newHash \<noteq> []"
    and "findUserIndex (al_ucd L) (cf_Users (m_config m)) name = Some i"
    and "saveLocked L (ce_io ce)
      (set_users ((cf_Users (m_config m))[i := changedUser ce newHash (cf_Users (m_config m) ! i)]) m, d) = (e, (m', d'))"
  shows "auth_inv L (m', d')" and "auth_inv L (set_users ((cf_Users (m_config m'))[i := cf_Users (m_config m) ! i]) m', d')"
proof -
  let ?users = "cf_Users (m_config m)"
  let ?new = "?users[i := changedUser ce newHash (?users ! i)]"
  have i: "i < length ?users" using findUserIndex_less assms(4) by blast
  have conf: "m_configured m"
    using i assms(1) by (auto simp: auth_inv_def manager_inv_def empty_config_def split: if_splits)
  note inv = user_of_inv [OF assms(1) conf]
  have "user_inv (?users ! i)" using inv(1) i by (simp add: list_all_length)
  then have "list_all user_inv ?new"
    using inv(1) assms(3) by (intro list_all_update) (simp_all add: user_inv_def changedUser_def)
  moreover have "names_distinct (al_ucd L) ?new"
    using inv(2) i by (subst names_distinct_update) (simp_all add: changedUser_def)
  moreover have "map (\<lambda>u. u_Active u \<and> u_Role u = RoleAdmin) ?new = map (\<lambda>u. u_Active u \<and> u_Role u = RoleAdmin) ?users"
    using i by (simp add: map_update list_update_same_conv changedUser_def)
  then have "activeAdminCount ?new = activeAdminCount ?users"
    by (rule activeAdminCount_cong)
  ultimately have commit: "m' = set_users ?new m" "auth_inv L (m', d')" "auth_inv L (m, d')"
    using users_commit [OF assms(1) conf assms(2,5)] inv(3) by simp_all
  then show "auth_inv L (m', d')" and "auth_inv L (set_users ((cf_Users (m_config m'))[i := ?users ! i]) m', d')"
    by simp_all
qed

lemma ChangePassword_commit_inv [inv_intros]:
  assumes "auth_inv L (m, d)" and "fresh_temp (ce_io ce) (m_filePath m) d" and "newHash \<noteq> []"
  shows "auth_inv L (snd (ChangePassword_commit L ce name (current, newHash) (m, d)))"
  using password_commit_inv [OF assms(1-3), of name] assms(1)
  by (auto simp: ChangePassword_commit_def Let_def split: option.split prod.split)

lemma CompleteTemporaryPasswordChange_commit_inv [inv_intros]:
  assumes "auth_inv L (m, d)" and "fresh_temp (ce_io ce) (m_filePath m) d" and "newHash \<noteq> []"
  shows "auth_inv L (snd (CompleteTemporaryPasswordChange_commit L ce name (current, newHash) (m, d)))"
  using password_commit_inv [OF assms(1-3), of name] assms(1)
  by (auto simp: CompleteTemporaryPasswordChange_commit_def Let_def split: option.split prod.split)

lemma UpdateSettings_inv [inv_intros]:
  assumes "auth_inv L (m, d)" and "fresh_temp (ce_io ce) (m_filePath m) d"
  shows "auth_inv L (snd (UpdateSettings L ce input (m, d)))"
proof -
  let ?mode = "ToLower (al_ucd L) (TrimSpace (si_Mode input))" and ?config = "m_config m"
  let ?norm = "normalizeLDAPSettings (al_ucd L) (si_LDAP input) (cf_LDAP ?config) (modeIncludes ?mode ProviderLDAP)"
  show ?thesis
  proof (cases "\<exists>l. ?mode \<in> {ModeLocal, ModeLDAP, ModeBoth} \<and> m_configured m \<and> ?norm = Inr l \<and>
      \<not> (modeIncludes ?mode ProviderLocal \<and> activeAdminCount (cf_Users ?config) = 0) \<and>
      \<not> (?mode = ModeLDAP \<and> l_AdminUsernames l = [])")
    case False
    then have "snd (UpdateSettings L ce input (m, d)) = (m, d)"
      by (auto simp: UpdateSettings_def Let_def split: sum.splits)
    then show ?thesis using assms(1) by simp
  next
    case True
    then obtain l where mode: "?mode \<in> {ModeLocal, ModeLDAP, ModeBoth}" and conf: "m_configured m" and norm: "?norm = Inr l"
      and ok: "\<not> (modeIncludes ?mode ProviderLocal \<and> activeAdminCount (cf_Users ?config) = 0)"
        "\<not> (?mode = ModeLDAP \<and> l_AdminUsernames l = [])"
      by blast
    let ?c = "?config\<lparr>cf_Mode := ?mode, cf_LDAP := l\<rparr>"
    obtain e m' d' where save: "saveLocked L (ce_io ce) (m\<lparr>m_config := ?c\<rparr>, d) = (e, (m', d'))"
      by (metis prod_cases3)
    have inv: "config_inv (al_ucd L) ?config"
      using assms(1) conf by (simp add: auth_inv_def manager_inv_def)
    then have c: "config_inv (al_ucd L) ?c"
      using mode ok by (simp add: config_inv_def)
    note commit = auth_inv_commit [OF assms(1) c assms(2) save]
    have "snd (UpdateSettings L ce input (m, d)) =
        (if e = None then (revokeProviderSessionsLocked ?mode m', d') else (m, d'))"
      using mode conf norm ok save commit(1) by (auto simp: UpdateSettings_def Let_def split: option.split)
    moreover have "auth_inv L (m', d')" and "auth_inv L (m, d')"
      using commit c inv conf by (simp_all add: auth_inv_def manager_inv_def)
    ultimately show ?thesis by simp
  qed
qed

lemma bootstrap_inv [inv_intros]:
  assumes "auth_inv L (m, d)" and "fresh_temp (ce_io ce) (m_filePath m) d" and "bcrypt_law L"
  shows "auth_inv L (snd (bootstrap L ce input must (m, d)))"
proof (cases "\<exists>f hash. normalizeUserFields (al_ucd L) (in_Username input) (in_DisplayName input) RoleAdmin = Inr f \<and>
    snd (snd f) = RoleAdmin \<and>
    hashPassword (al_ucd L) (al_generate L (ce_salt ce)) (in_Password input) = Inr hash \<and> \<not> m_configured m")
  case False
  then have "snd (bootstrap L ce input must (m, d)) = (m, d)"
    by (auto simp: bootstrap_def Let_def split: sum.splits prod.splits)
  then show ?thesis using assms(1) by simp
next
  case True
  then obtain username displayName hash where
    norm: "normalizeUserFields (al_ucd L) (in_Username input) (in_DisplayName input) RoleAdmin =
         Inr (username, displayName, RoleAdmin)"
    and hash: "hashPassword (al_ucd L) (al_generate L (ce_salt ce)) (in_Password input) = Inr hash"
    and conf: "\<not> m_configured m"
    by auto
  define u where "u = User.extend \<lparr>u_Username = username, u_DisplayName = displayName, u_Role = RoleAdmin,
    u_Active = True, u_ClusterIDs = [], u_MustChangePassword = must,
    u_CreatedAt = ce_now ce, u_UpdatedAt = ce_now ce\<rparr> (persistedUser.fields hash)"
  let ?c = "\<lparr>cf_Version = authConfigVersion, cf_ConfiguredAt = ce_now ce, cf_Mode = ModeLocal,
    cf_LDAP = empty_ldap, cf_Users = [u]\<rparr>"
  obtain e m' d' where save: "saveLocked L (ce_io ce) (m\<lparr>m_config := ?c\<rparr>, d) = (e, (m', d'))"
    by (metis prod_cases3)
  have "user_inv u"
    using normalizeUserFields_ok(1,5,6) [OF norm] hashPassword_generated [OF hash] assms(3)
    by (auto simp: user_inv_def bcrypt_law_def u_def User.defs persistedUser.defs clusterIDsForRole_def)
  then have c: "config_inv (al_ucd L) ?c"
    by (simp add: config_inv_def names_distinct_def activeAdminCount_def u_def User.defs persistedUser.defs)
      (simp add: auth_consts)
  note commit = auth_inv_commit [OF assms(1) c assms(2) save]
  have "snd (bootstrap L ce input must (m, d)) =
      (if e = None then (m'\<lparr>m_configured := True\<rparr>, d') else (m'\<lparr>m_config := empty_config\<rparr>, d'))"
    using norm hash conf save by (auto simp: bootstrap_def Let_def u_def split: option.split)
  then show ?thesis
    using commit c conf by (simp add: auth_inv_def manager_inv_def)
qed

lemma EnsureTemporaryAdmin_inv [inv_intros]:
  assumes "auth_inv L (m, d)" and "fresh_temp (ce_io ce) (m_filePath m) d" and "bcrypt_law L"
  shows "auth_inv L (snd (EnsureTemporaryAdmin L ce t (m, d)))"
  using bootstrap_inv [OF assms] assms(1)
  by (auto simp: EnsureTemporaryAdmin_def Let_def split: sum.split prod.split)
    (metis snd_conv)+

lemma session_ops_inv [inv_intros]:
  assumes "auth_inv L (m, d)"
  shows "auth_inv L (snd (CreateSession L now now' raw prin m), d)"
    and "auth_inv L (snd (Session L now token m), d)" and "auth_inv L (DeleteSession L token m, d)"
  using assms
  by (auto simp: CreateSession_def pruneSessionsLocked_def Session_def DeleteSession_def Let_def split: option.split)

section \<open>Restarts\<close>

lemma loadUsers_ok:
  assumes "loadUsers U us = Inr us'"
  shows "us' = map (\<lambda>u. u\<lparr>u_ClusterIDs := clusterIDsForRole (u_Role u) (u_ClusterIDs u)\<rparr>) us"
    and "\<forall>u \<in> set us. u_PasswordHash u \<noteq> [] \<and> length (runes (TrimSpace (u_DisplayName u))) \<le> 100"
  using assms by (induction us arbitrary: us') (auto simp: normalizeUserFields_def Let_def split: if_splits sum.splits)

lemma auth_consts_ascii [simp]:
  "ascii RoleAdmin" "ascii RoleOperator" "ascii ModeLocal" "ascii ModeLDAP" "ascii ModeBoth"
  by (simp_all add: auth_consts ascii_def byte_def)

lemma user_image_fields:
  assumes "user_inv u"
  shows "u_Username (user_image u) = u_Username u" and "u_Role (user_image u) = u_Role u"
    and "u_Active (user_image u) = u_Active u"
  using assms usernamePattern_visible [THEN visible_ascii] by (auto simp: user_inv_def user_image_def)

lemma load_image_inv:
  assumes "config_inv U c" and "loadUsers U (cf_Users (config_image c)) = Inr us"
  shows "config_inv U ((config_image c)\<lparr>cf_Users := us\<rparr>)"
proof -
  let ?f = "\<lambda>u. (user_image u)\<lparr>u_ClusterIDs := clusterIDsForRole (u_Role (user_image u)) (u_ClusterIDs (user_image u))\<rparr>"
  have all: "\<forall>u \<in> set (cf_Users c). user_inv u"
    using assms(1) by (simp add: config_inv_def list_all_iff)
  have us: "us = map ?f (cf_Users c)" and hash: "\<forall>u \<in> set (cf_Users c). u_PasswordHash (user_image u) \<noteq> [] \<and>
      length (runes (TrimSpace (u_DisplayName (user_image u)))) \<le> 100"
    using loadUsers_ok [OF assms(2)] by (simp_all add: config_image_def)
  have "user_inv (?f u)" if "u \<in> set (cf_Users c)" for u
  proof -
    have "user_inv u" and "u_PasswordHash (user_image u) \<noteq> []"
      and "length (runes (TrimSpace (u_DisplayName (user_image u)))) \<le> 100"
      using that all hash by blast+
    then show ?thesis
      using user_image_fields [of u]
      by (simp add: user_inv_def clusterIDsForRole_fixed clusterIDsForRole_normal)
  qed
  then have "list_all user_inv us"
    by (simp add: us list_all_iff)
  moreover have names: "map u_Username us = map u_Username (cf_Users c)"
    using all user_image_fields by (simp add: us)
  have "names_distinct U us"
    using assms(1) unfolding names_distinct_cong [OF names] by (simp add: config_inv_def)
  moreover have "activeAdminCount us = activeAdminCount (cf_Users c)"
    unfolding us using all user_image_fields
    by (intro activeAdminCount_cong) (simp only: map_map comp_def map_eq_conv, simp)
  ultimately show ?thesis
    using assms(1) by (auto simp: config_inv_def config_image_def ldap_image_def)
qed

lemma NewManager_inv [inv_intros]:
  assumes "disk_inv L path d" and "json_config_law (al_codec L)"
    and "NewManager L openFails path timeout d = Inr m"
  shows "auth_inv L (m, d)" and "m_filePath m = path"
proof -
  let ?m0 = "\<lparr>m_filePath = path, m_fileRoot = Dir path, m_timeout = timeout, m_config = empty_config,
    m_configured = False, m_sessions = Map.empty\<rparr>"
  have load: "load L openFails (?m0, d) = Inr m"
    using assms(3) by (simp add: NewManager_def split: if_splits)
  show "m_filePath m = path"
    using load by (auto simp: load_def split: if_splits option.splits sum.splits)
  show "auth_inv L (m, d)"
  proof (cases "d path")
    case None
    then show ?thesis
      using load assms(1) by (auto simp: load_def auth_inv_def manager_inv_def split: if_splits)
  next
    case (Some data)
    then obtain c t where c: "config_inv (al_ucd L) c" and t: "marshal (al_codec L) c = Some t" "data = t @ [newline]"
      using assms(1) by (auto simp: disk_inv_def)
    then have "unmarshal (al_codec L) (take authConfigLimit data) =
        (if length t \<le> authConfigLimit then Some (config_image c) else None)"
      using assms(2) by (simp add: json_config_law_def)
    then obtain us where "loadUsers (al_ucd L) (cf_Users (config_image c)) = Inr us"
      and "m = ?m0\<lparr>m_config := (config_image c)\<lparr>cf_Users := us\<rparr>, m_configured := True\<rparr>"
      using load Some by (auto simp: load_def split: if_splits option.splits sum.splits)
    then show ?thesis
      using load_image_inv [OF c] assms(1) by (simp add: auth_inv_def manager_inv_def)
  qed
qed

section \<open>Reachable states\<close>

text \<open>
  The operations that change the state. The two password changes appear with their commit
  only: the hashes it is given were computed earlier, in a state that other operations may
  have left since.
\<close>

datatype auth_op =
    OpBootstrap LocalUserInput
  | OpEnsureTemporaryAdmin tape
  | OpUpdateSettings SettingsInput
  | OpCreateUser LocalUserInput
  | OpUpdateUser string LocalUserInput
  | OpDeleteUser string
  | OpRemoveClusterPermissions "nat \<Rightarrow> gotime" string
  | OpChangePassword string string string
  | OpCompleteTemporaryPasswordChange string string string
  | OpCreateSession gotime "bytes option" Principal
  | OpSession string
  | OpDeleteSession string

fun run_op :: "auth_lib \<Rightarrow> call_env \<Rightarrow> auth_op \<Rightarrow> auth_state \<Rightarrow> auth_state" where
  "run_op L ce (OpBootstrap input) st = snd (Manager_Bootstrap L ce input st)"
| "run_op L ce (OpEnsureTemporaryAdmin t) st = snd (EnsureTemporaryAdmin L ce t st)"
| "run_op L ce (OpUpdateSettings input) st = snd (UpdateSettings L ce input st)"
| "run_op L ce (OpCreateUser input) st = snd (CreateUser L ce input st)"
| "run_op L ce (OpUpdateUser name input) st = snd (UpdateUser L ce name input st)"
| "run_op L ce (OpDeleteUser name) st = snd (DeleteUser L ce name st)"
| "run_op L ce (OpRemoveClusterPermissions clock cid) st = snd (RemoveClusterPermissions L clock (ce_io ce) cid st)"
| "run_op L ce (OpChangePassword name current new) st = snd (ChangePassword_commit L ce name (current, new) st)"
| "run_op L ce (OpCompleteTemporaryPasswordChange name current new) st =
     snd (CompleteTemporaryPasswordChange_commit L ce name (current, new) st)"
| "run_op L ce (OpCreateSession now' raw prin) st = (snd (CreateSession L (ce_now ce) now' raw prin (fst st)), snd st)"
| "run_op L ce (OpSession token) st = (snd (Session L (ce_now ce) token (fst st)), snd st)"
| "run_op L ce (OpDeleteSession token) st = (DeleteSession L token (fst st), snd st)"

text \<open>The new hash of a password change comes from \<open>bcrypt\<close>.\<close>

fun op_ok :: "auth_lib \<Rightarrow> auth_op \<Rightarrow> bool" where
  "op_ok L (OpChangePassword name current new) = (\<exists>salt pw. al_generate L salt pw = Some new)"
| "op_ok L (OpCompleteTemporaryPasswordChange name current new) = (\<exists>salt pw. al_generate L salt pw = Some new)"
| "op_ok L _ = True"

text \<open>
  A first start finds no configuration file. From then on operations run, each with its own
  clock, salt and file faults, and the process may stop and start again at any time: a stop
  in the middle of a save leaves under the target what one of the failing saves leaves there
  (\<open>crash_dir_target\<close>).
\<close>

inductive auth_reach :: "auth_lib \<Rightarrow> string \<Rightarrow> auth_state \<Rightarrow> bool" for L path where
  start: "d path = None \<Longrightarrow> NewManager L openFails path timeout d = Inr m \<Longrightarrow> auth_reach L path (m, d)"
| operation: "auth_reach L path (m, d) \<Longrightarrow> fresh_temp (ce_io ce) path d \<Longrightarrow> op_ok L op \<Longrightarrow>
    auth_reach L path (run_op L ce op (m, d))"
| restart: "auth_reach L path (m, d) \<Longrightarrow> NewManager L openFails path timeout d = Inr m' \<Longrightarrow> auth_reach L path (m', d)"

lemma saveLocked_path: "m_filePath (fst (snd (saveLocked L io st))) = m_filePath (fst st)"
  by (auto simp: saveLocked_def Let_def split: option.split prod.split)

lemma saveLocked_path': "saveLocked L io (m, d) = (e, (m', d')) \<Longrightarrow> m_filePath m' = m_filePath m"
  using saveLocked_path [of L io "(m, d)"] by simp

lemma session_ops_path:
  "m_filePath (snd (CreateSession L now now' raw prin m)) = m_filePath m"
  "m_filePath (snd (Session L now token m)) = m_filePath m" "m_filePath (DeleteSession L token m) = m_filePath m"
  "m_filePath (revokeSessions U p n m) = m_filePath m" "m_filePath (revokeProviderSessionsLocked mode m) = m_filePath m"
  by (auto simp: CreateSession_def pruneSessionsLocked_def Session_def DeleteSession_def revokeSessions_def
      revokeProviderSessionsLocked_def Let_def split: option.split)

lemma bootstrap_path: "m_filePath (fst (snd (bootstrap L ce input must (m, d)))) = m_filePath m"
  by (auto simp: bootstrap_def Let_def split: sum.split option.split prod.split dest: saveLocked_path')

lemma CreateUser_path: "m_filePath (fst (snd (CreateUser L ce input (m, d)))) = m_filePath m"
  by (auto simp: CreateUser_def Let_def session_ops_path split: sum.split option.split prod.split dest!: saveLocked_path')

lemma UpdateUser_path: "m_filePath (fst (snd (UpdateUser L ce name input (m, d)))) = m_filePath m"
  by (auto simp: UpdateUser_def Let_def session_ops_path split: sum.split option.split prod.split dest!: saveLocked_path')

lemma DeleteUser_path: "m_filePath (fst (snd (DeleteUser L ce name (m, d)))) = m_filePath m"
  by (auto simp: DeleteUser_def Let_def session_ops_path split: sum.split option.split prod.split dest!: saveLocked_path')

lemma UpdateSettings_path: "m_filePath (fst (snd (UpdateSettings L ce si (m, d)))) = m_filePath m"
  by (auto simp: UpdateSettings_def Let_def session_ops_path split: sum.split option.split prod.split dest!: saveLocked_path')

lemma RemoveClusterPermissions_path: "m_filePath (fst (snd (RemoveClusterPermissions L clock io cid (m, d)))) = m_filePath m"
  by (auto simp: RemoveClusterPermissions_def Let_def session_ops_path split: sum.split option.split prod.split dest!: saveLocked_path')

lemma ChangePassword_commit_path: "m_filePath (fst (snd (ChangePassword_commit L ce name (cur, new) (m, d)))) = m_filePath m"
  by (auto simp: ChangePassword_commit_def Let_def session_ops_path split: sum.split option.split prod.split dest!: saveLocked_path')

lemma CompleteTemporaryPasswordChange_commit_path: "m_filePath (fst (snd (CompleteTemporaryPasswordChange_commit L ce name (cur, new) (m, d)))) = m_filePath m"
  by (auto simp: CompleteTemporaryPasswordChange_commit_def Let_def session_ops_path split: sum.split option.split prod.split dest!: saveLocked_path')

lemma EnsureTemporaryAdmin_path: "m_filePath (fst (snd (EnsureTemporaryAdmin L ce t (m, d)))) = m_filePath m"
  using bootstrap_path [of L ce _ True m d]
  by (auto simp: EnsureTemporaryAdmin_def Let_def split: sum.split prod.split) (metis fst_conv snd_conv)+

lemma run_op_path: "m_filePath (fst (run_op L ce op (m, d))) = m_filePath m"
  by (cases op)
    (simp_all only: run_op.simps Manager_Bootstrap_def bootstrap_path EnsureTemporaryAdmin_path UpdateSettings_path
      CreateUser_path UpdateUser_path DeleteUser_path RemoveClusterPermissions_path ChangePassword_commit_path
      CompleteTemporaryPasswordChange_commit_path session_ops_path fst_conv)

lemma run_op_inv:
  assumes "auth_inv L (m, d)" and "fresh_temp (ce_io ce) (m_filePath m) d" and "op_ok L op" and "bcrypt_law L"
  shows "auth_inv L (run_op L ce op (m, d))"
  using assms by (cases op) (auto simp: Manager_Bootstrap_def bcrypt_law_def intro!: inv_intros)

lemma auth_reach_inv:
  assumes "auth_reach L path st" and "bcrypt_law L" and "json_config_law (al_codec L)"
  shows "auth_inv L st \<and> m_filePath (fst st) = path"
  using assms(1)
proof induction
  case (start d openFails timeout m)
  then have "disk_inv L path d" by (simp add: disk_inv_def)
  then show ?case using NewManager_inv [OF _ assms(3) start(2)] by simp
next
  case (operation m d ce op)
  then show ?case using run_op_inv [of L m d ce op] run_op_path [of L ce op m d] assms(2) by simp
next
  case (restart m d openFails timeout m')
  then have "disk_inv L path d" by (auto simp: auth_inv_def)
  then show ?case using NewManager_inv [OF _ assms(3) restart(2)] by simp
qed

end
