(* ===== verification/Auth_Codec.thy ===== *)
theory Auth_Codec
  imports Auth_Invariant Field_Codec
begin

text \<open>
  A concrete codec for the authentication configuration, and concrete libraries. They meet
  \<^const>\<open>json_config_law\<close> and \<^const>\<open>bcrypt_law\<close>, so both laws are satisfiable, and the
  closed instances of the theorems use them.
\<close>

definition packBool :: "bool \<Rightarrow> string" where
  "packBool b = (if b then ''t'' else ''f'')"

definition packUser :: "persistedUser \<Rightarrow> string" where
  "packUser u = writeFields
    [u_Username u, u_DisplayName u, u_Role u, packBool (u_Active u), writeFields (u_ClusterIDs u),
     packBool (u_MustChangePassword u), FormatInt (u_CreatedAt u), FormatInt (u_UpdatedAt u), u_PasswordHash u]"

fun fieldsUser :: "string list \<Rightarrow> persistedUser option" where
  "fieldsUser [a, b, c, d, e, f, g, h, i] =
     (case (readFields e, ParseInt g, ParseInt h) of
        (Some e', Some g', Some h') \<Rightarrow>
          Some \<lparr>u_Username = a, u_DisplayName = b, u_Role = c, u_Active = (d = ''t''), u_ClusterIDs = e',
            u_MustChangePassword = (f = ''t''), u_CreatedAt = g', u_UpdatedAt = h', u_PasswordHash = i\<rparr>
      | _ \<Rightarrow> None)"
| "fieldsUser _ = None"

definition unpackUser :: "string \<Rightarrow> persistedUser option" where
  "unpackUser s = (case readFields s of None \<Rightarrow> None | Some fs \<Rightarrow> fieldsUser fs)"

definition packLDAP :: "ldapSettings \<Rightarrow> string" where
  "packLDAP l = writeFields
    ([l_Host l, FormatInt (l_Port l), l_TLSMode l, l_CAFile l, l_ServerName l, l_BaseDN l, l_BindDN l,
      l_BindPassword l, l_UserFilter l, l_UserDNTemplate l, l_UsernameAttribute l, l_DisplayNameAttribute l]
     @ l_AdminUsernames l)"

fun fieldsLDAP :: "string list \<Rightarrow> ldapSettings option" where
  "fieldsLDAP (a # b # c # d # e # f # g # h # i # j # k # l # admins) =
     (case ParseInt b of
        None \<Rightarrow> None
      | Some port \<Rightarrow> Some \<lparr>l_Host = a, l_Port = port, l_TLSMode = c, l_CAFile = d, l_ServerName = e, l_BaseDN = f,
          l_BindDN = g, l_BindPassword = h, l_UserFilter = i, l_UserDNTemplate = j, l_UsernameAttribute = k,
          l_DisplayNameAttribute = l, l_AdminUsernames = admins\<rparr>)"
| "fieldsLDAP _ = None"

definition unpackLDAP :: "string \<Rightarrow> ldapSettings option" where
  "unpackLDAP s = (case readFields s of None \<Rightarrow> None | Some fs \<Rightarrow> fieldsLDAP fs)"

fun unpackUsers :: "string list \<Rightarrow> persistedUser list option" where
  "unpackUsers [] = Some []"
| "unpackUsers (s # ss) =
     (case (unpackUser s, unpackUsers ss) of (Some u, Some us) \<Rightarrow> Some (u # us) | _ \<Rightarrow> None)"

definition packConfig :: "persistedConfig \<Rightarrow> string list" where
  "packConfig c =
    [FormatInt (cf_Version c), FormatInt (cf_ConfiguredAt c), cf_Mode c, packLDAP (cf_LDAP c)] @ map packUser (cf_Users c)"

fun unpackConfig :: "string list \<Rightarrow> persistedConfig option" where
  "unpackConfig (a # b # c # d # users) =
     (case (ParseInt a, ParseInt b, unpackLDAP d, unpackUsers users) of
        (Some a', Some b', Some d', Some us) \<Rightarrow>
          Some \<lparr>cf_Version = a', cf_ConfiguredAt = b', cf_Mode = c, cf_LDAP = d', cf_Users = us\<rparr>
      | _ \<Rightarrow> None)"
| "unpackConfig _ = None"

definition config_ints_ok :: "persistedConfig \<Rightarrow> bool" where
  "config_ints_ok c \<longleftrightarrow> int64 (cf_Version c) \<and> int64 (cf_ConfiguredAt c) \<and> int64 (l_Port (cf_LDAP c)) \<and>
     list_all (\<lambda>u. int64 (u_CreatedAt u) \<and> int64 (u_UpdatedAt u)) (cf_Users c)"

definition config_codec :: "persistedConfig json_codec" where
  "config_codec = field_codec config_ints_ok (packConfig \<circ> config_image) unpackConfig"

lemma unpackUser_pack: "int64 (u_CreatedAt u) \<Longrightarrow> int64 (u_UpdatedAt u) \<Longrightarrow> unpackUser (packUser u) = Some u"
  by (simp add: unpackUser_def packUser_def ParseInt_FormatInt packBool_def)

lemma unpackUsers_pack:
  "list_all (\<lambda>u. int64 (u_CreatedAt u) \<and> int64 (u_UpdatedAt u)) us \<Longrightarrow> unpackUsers (map packUser us) = Some us"
  by (induction us) (simp_all add: unpackUser_pack)

lemma unpackLDAP_pack: "int64 (l_Port l) \<Longrightarrow> unpackLDAP (packLDAP l) = Some l"
  by (simp add: unpackLDAP_def packLDAP_def ParseInt_FormatInt)

lemma unpackConfig_pack: "config_ints_ok c \<Longrightarrow> unpackConfig (packConfig c) = Some c"
  by (simp add: packConfig_def config_ints_ok_def ParseInt_FormatInt unpackLDAP_pack unpackUsers_pack)

lemma config_ints_ok_image: "config_ints_ok (config_image c) = config_ints_ok c"
  by (simp add: config_ints_ok_def config_image_def ldap_image_def list_all_iff user_image_def)

lemma config_codec_law: "json_config_law config_codec"
  unfolding json_config_law_def config_codec_def
  by (intro allI impI field_codec_law [where img = config_image]) (simp_all add: unpackConfig_pack config_ints_ok_image)

section \<open>Concrete libraries\<close>

definition sample_lib :: auth_lib where
  "sample_lib =
    \<lparr>al_ucd = basic_ucd, al_generate = (\<lambda>salt pw. Some (CHR ''$'' # pw)), al_compare = (\<lambda>h pw. h = CHR ''$'' # pw),
     al_sha256hex = (\<lambda>s. s), al_codec = config_codec\<rparr>"

lemma sample_lib_laws: "bcrypt_law sample_lib" "json_config_law (al_codec sample_lib)"
  by (simp_all add: bcrypt_law_def sample_lib_def config_codec_law)

definition good_io :: save_io where
  "good_io = \<lparr>io_fail = None, io_written = 0, io_temp = ''t''\<rparr>"

definition sample_call :: call_env where
  "sample_call = \<lparr>ce_now = 5, ce_salt = 0, ce_io = good_io\<rparr>"

definition sample_user :: "string \<Rightarrow> string \<Rightarrow> persistedUser" where
  "sample_user name role =
    \<lparr>u_Username = name, u_DisplayName = name, u_Role = role, u_Active = True, u_ClusterIDs = [],
     u_MustChangePassword = False, u_CreatedAt = 5, u_UpdatedAt = 5, u_PasswordHash = ''$pw''\<rparr>"

definition sample_config :: persistedConfig where
  "sample_config =
    \<lparr>cf_Version = 1, cf_ConfiguredAt = 5, cf_Mode = ModeLocal, cf_LDAP = empty_ldap,
     cf_Users = [sample_user ''root'' RoleAdmin, sample_user ''bob'' RoleOperator]\<rparr>"

definition sample_manager :: Manager where
  "sample_manager =
    \<lparr>m_filePath = ''f'', m_fileRoot = ''.'', m_timeout = 1, m_config = sample_config, m_configured = True,
     m_sessions = Map.empty\<rparr>"

lemma sample_config_inv: "config_inv basic_ucd sample_config"
  by (simp add: config_inv_def sample_config_def sample_user_def authConfigVersion_def user_inv_def names_distinct_def
      activeAdminCount_def auth_consts clusterIDsForRole_def usernamePattern_def isAlnum_def isUserChar_def byte_def
      EqualFold_def foldRune_def runes_ascii ascii_def visible_def)

lemma sample_auth_inv: "auth_inv sample_lib (sample_manager, Map.empty)"
  using sample_config_inv
  by (simp add: auth_inv_def manager_inv_def sample_lib_def sample_manager_def disk_inv_def)

lemma sample_fresh: "fresh_temp good_io ''f'' Map.empty"
  by (simp add: fresh_temp_def good_io_def)

lemma sample_fields [simp]:
  "al_ucd sample_lib = basic_ucd" "al_codec sample_lib = config_codec" "ce_io sample_call = good_io"
  "ce_now sample_call = 5" "m_filePath sample_manager = ''f''" "m_config sample_manager = sample_config"
  "m_configured sample_manager"
  by (simp_all add: sample_lib_def sample_call_def sample_manager_def)

end
