(* ===== verification/Auth_Theorems.thy ===== *)
theory Auth_Theorems
  imports Auth_Codec
begin

text \<open>
  What the authentication package guarantees: someone can always administer the system,
  generated passwords meet the policy, sessions reflect the current user record, updates revoke
  sessions, concurrent password changes do not overwrite each other, LDAP credentials are sent
  only over an encrypted connection, and a saved configuration survives a restart. Three
  theorems state behaviours that the code does not intend.
\<close>

section \<open>Helper facts\<close>

lemma findUserIndex_self:
  assumes "names_distinct U users" and "i < length users" and "EqualFold U (u_Username (users ! i)) (TrimSpace name)"
  shows "findUserIndex U users name = Some i"
proof (cases "findUserIndex U users name")
  case None
  then show ?thesis using assms by (auto simp: findUserIndex_None)
next
  case (Some j)
  have j: "j < length users" "EqualFold U (u_Username (users ! j)) (TrimSpace name)"
    using findUserIndex_Some [OF Some] by auto
  have "j = i"
  proof (rule ccontr)
    assume "j \<noteq> i"
    moreover have "EqualFold U (u_Username (users ! j)) (u_Username (users ! i))"
      "EqualFold U (u_Username (users ! i)) (u_Username (users ! j))"
      using j(2) assms(3) EqualFold_sym EqualFold_trans by blast+
    ultimately show False
      using assms(1,2) j(1) by (auto simp: names_distinct_def sorted_wrt_iff_nth_less neq_iff)
  qed
  then show ?thesis using Some by simp
qed

lemma activeAdminCount_pos: "0 < activeAdminCount users \<longleftrightarrow> (\<exists>u \<in> set users. u_Active u \<and> u_Role u = RoleAdmin)"
  by (auto simp: activeAdminCount_def filter_empty_conv)

lemma roles_normal [simp]:
  "ToLower U (TrimSpace RoleAdmin) = RoleAdmin" "ToLower U (TrimSpace RoleOperator) = RoleOperator"
  by (simp_all add: RoleAdmin_def RoleOperator_def ToLower_def visible_def byte_def runes_ascii ascii_def lowerRune_def
      string_of_runes_def encodeRune_def) (simp_all add: char_of_def bit_Suc_0_iff)

lemma systemAdministrator_ok:
  "normalizeUserFields U ''admin'' systemAdministrator RoleAdmin = Inr (''admin'', systemAdministrator, RoleAdmin)"
proof -
  have "TrimSpace systemAdministrator = systemAdministrator"
    by (simp add: systemAdministrator_def) (simp add: TrimSpace_def space1_def space2_def space3_def)
  moreover have "length (runes systemAdministrator) = 5"
    by (simp add: systemAdministrator_def decodeRune_def cont_def Let_def)
  moreover have "systemAdministrator \<noteq> []"
    by (simp add: systemAdministrator_def)
  moreover have "TrimSpace ''admin'' = ''admin''" and "usernamePattern ''admin''"
    by (simp_all add: visible_def byte_def usernamePattern_def isAlnum_def isUserChar_def)
  moreover have "RoleAdmin \<noteq> []"
    by (simp add: RoleAdmin_def)
  ultimately show ?thesis
    by (simp add: normalizeUserFields_def)
qed

section \<open>Administrators and user names\<close>


text \<open>A first start, and the temporary administrator.\<close>

definition fresh_manager :: Manager where
  "fresh_manager =
    \<lparr>m_filePath = ''f'', m_fileRoot = Dir ''f'', m_timeout = 1, m_config = empty_config, m_configured = False,
     m_sessions = Map.empty\<rparr>"

definition sample_tape :: tape where
  "sample_tape = replicate 47 (Some 0)"

lemma fresh_start: "NewManager sample_lib False ''f'' 1 Map.empty = Inr fresh_manager"
  by (simp add: NewManager_def load_def fresh_manager_def visible_def byte_def)

lemma sample_password: "\<exists>pw. generateTemporaryPassword 24 sample_tape = Inr pw"
  by (rule generateTemporaryPassword_total) (simp_all add: sample_tape_def)

lemma sample_save:
  assumes "config_ints_ok ((m_config m)\<lparr>cf_Version := 1\<rparr>)" and "m_filePath m = ''f''" and "d ''t'' = None"
  shows "\<exists>d'. saveLocked sample_lib good_io (m, d) = (None, (m\<lparr>m_config := (m_config m)\<lparr>cf_Version := 1\<rparr>\<rparr>, d'))
    \<and> d' = d(''f'' \<mapsto> writeFields (packConfig (config_image ((m_config m)\<lparr>cf_Version := 1\<rparr>))) @ [newline])"
  using assms by (simp add: saveLocked_def authConfigVersion_def config_codec_def field_codec_def replace_file_cases fresh_temp_def good_io_def)

lemma sample_first_admin:
  assumes "generateTemporaryPassword 24 sample_tape = Inr pw"
  shows "\<exists>m d. EnsureTemporaryAdmin sample_lib sample_call sample_tape (fresh_manager, Map.empty) = (Inr (pw, True), (m, d)) \<and>
    m_configured m \<and> cf_Mode (m_config m) = ModeLocal"
proof -
  have pw: "hashPassword basic_ucd (al_generate sample_lib (ce_salt sample_call)) pw = Inr (CHR ''$'' # pw)"
    using generateTemporaryPassword_strong [OF assms] by (simp add: hashPassword_def sample_lib_def)
  let ?c = "\<lparr>cf_Version = authConfigVersion, cf_ConfiguredAt = 5, cf_Mode = ModeLocal, cf_LDAP = empty_ldap,
    cf_Users = [User.extend \<lparr>u_Username = ''admin'', u_DisplayName = systemAdministrator, u_Role = RoleAdmin, u_Active = True,
       u_ClusterIDs = [], u_MustChangePassword = True, u_CreatedAt = 5, u_UpdatedAt = 5\<rparr> (persistedUser.fields (CHR ''$'' # pw))]\<rparr>"
  have "config_ints_ok ?c"
    by (simp add: config_ints_ok_def int64_def authConfigVersion_def empty_ldap_def User.defs persistedUser.defs)
  then obtain d' where "saveLocked sample_lib good_io (fresh_manager\<lparr>m_config := ?c\<rparr>, Map.empty) = (None, (fresh_manager\<lparr>m_config := ?c\<rparr>, d'))"
    using sample_save [of "fresh_manager\<lparr>m_config := ?c\<rparr>" Map.empty]
    by (auto simp: fresh_manager_def authConfigVersion_def)
  then show ?thesis
    using pw assms systemAdministrator_ok [of basic_ucd]
    by (simp add: EnsureTemporaryAdmin_def bootstrap_def Let_def fresh_manager_def)
qed


section \<open>Temporary passwords\<close>

text \<open>
  With a working random source, a temporary password is generated for every length from
  10 to 72, and it meets the password policy, whatever the draws.
\<close>

theorem temporary_password_meets_policy:
  assumes "10 \<le> len" and "len \<le> 72" and "2 * len - 1 \<le> length t" and "None \<notin> set t"
  shows "\<exists>pw. generateTemporaryPassword len t = Inr pw \<and> validateStrongPassword U pw = None"
  using generateTemporaryPassword_total [of len t] generateTemporaryPassword_strong [of len t] assms by fastforce

theorem temporary_password_meets_policy_witness:
  "\<exists>pw. generateTemporaryPassword 24 sample_tape = Inr pw \<and> validateStrongPassword basic_ucd pw = None"
  by (rule temporary_password_meets_policy) (simp_all add: sample_tape_def)

text \<open>
  When the first start reports a temporary password, logging in as \<open>admin\<close> with it
  succeeds, as an administrator who must change the password.
\<close>

theorem first_start_admin_can_log_in:
  assumes "EnsureTemporaryAdmin L ce t (m, d) = (Inr (pw, True), (m', d'))" and "bcrypt_law L"
  shows "\<exists>p. AuthenticateLocal L m' ''admin'' pw = Inr p \<and> IsAdmin p \<and> p_MustChangePassword p"
proof -
  have trim: "TrimSpace ''admin'' = ''admin''"
    by (simp add: visible_def byte_def)
  obtain u where boot: "bootstrap L ce \<lparr>in_Username = ''admin'', in_DisplayName = systemAdministrator, in_Password = pw,
      in_Role = RoleAdmin, in_Active = None, in_ClusterIDs = []\<rparr> True (m, d) = (Inr u, (m', d'))"
    using assms(1) by (auto simp: EnsureTemporaryAdmin_def Let_def split: if_splits sum.splits prod.splits)
  obtain hash m1 where hash: "hashPassword (al_ucd L) (al_generate L (ce_salt ce)) pw = Inr hash"
    and save: "saveLocked L (ce_io ce) (m\<lparr>m_config := \<lparr>cf_Version = authConfigVersion, cf_ConfiguredAt = ce_now ce,
      cf_Mode = ModeLocal, cf_LDAP = empty_ldap, cf_Users = [User.extend \<lparr>u_Username = ''admin'',
      u_DisplayName = systemAdministrator, u_Role = RoleAdmin, u_Active = True, u_ClusterIDs = [],
      u_MustChangePassword = True, u_CreatedAt = ce_now ce, u_UpdatedAt = ce_now ce\<rparr> (persistedUser.fields hash)]\<rparr>\<rparr>, d) =
      (None, (m1, d'))" and m': "m' = m1\<lparr>m_configured := True\<rparr>"
    using boot systemAdministrator_ok [of "al_ucd L"]
    by (auto simp: bootstrap_def Let_def split: if_splits sum.splits prod.splits option.splits)
  have "al_compare L hash pw"
    using hashPassword_generated [OF hash] assms(2) by (auto simp: bcrypt_law_def)
  then show ?thesis
    using saveLocked_memory [OF save] trim
    by (simp add: AuthenticateLocal_def m' User.defs persistedUser.defs IsAdmin_def)
qed

theorem first_start_admin_can_log_in_witness:
  "\<exists>pw m d p. EnsureTemporaryAdmin sample_lib sample_call sample_tape (fresh_manager, Map.empty) = (Inr (pw, True), (m, d)) \<and>
     AuthenticateLocal sample_lib m ''admin'' pw = Inr p \<and> IsAdmin p"
proof -
  obtain pw m d where md: "EnsureTemporaryAdmin sample_lib sample_call sample_tape (fresh_manager, Map.empty) = (Inr (pw, True), (m, d))"
    using sample_password sample_first_admin by blast
  with first_start_admin_can_log_in [OF md sample_lib_laws(1)] show ?thesis by blast
qed

section \<open>Sessions\<close>

text \<open>
  C22. A session token that is accepted for a local user belongs to an unexpired session of an
  active user of the current configuration, and the principal carries the user's current role,
  grants and password-change requirement, not those at log-in.
\<close>

theorem session_reflects_current_user:
  assumes "Session L now token m = (Some p, m')" and "p_Provider p = ProviderLocal"
  shows "m' = m \<and> m_configured m \<and> modeIncludes (cf_Mode (m_config m)) ProviderLocal \<and>
    (\<exists>s u. m_sessions m (sessionKey L token) = Some s \<and> now < s_ExpiresAt s \<and> u \<in> set (cf_Users (m_config m)) \<and>
       u_Active u \<and> EqualFold (al_ucd L) (u_Username u) (TrimSpace (p_Username p)) \<and>
       p = \<lparr>p_Username = p_Username (s_Principal s), p_DisplayName = u_DisplayName u, p_Provider = ProviderLocal,
             p_Role = u_Role u, p_ClusterIDs = u_ClusterIDs u, p_MustChangePassword = u_MustChangePassword u\<rparr>)"
proof -
  obtain s where s: "m_sessions m (sessionKey L token) = Some s" "now < s_ExpiresAt s" "m_configured m"
    "modeIncludes (cf_Mode (m_config m)) (p_Provider (s_Principal s))" and m': "m' = m"
    using assms(1) by (auto simp: Session_def Let_def split: option.splits if_splits)
  have local: "p_Provider (s_Principal s) = ProviderLocal"
    using assms s by (auto simp: Session_def Let_def split: option.splits if_splits)
  then obtain i where i: "findUserIndex (al_ucd L) (cf_Users (m_config m)) (p_Username (s_Principal s)) = Some i"
    "u_Active (cf_Users (m_config m) ! i)"
    and p: "p = (s_Principal s)\<lparr>p_DisplayName := u_DisplayName (cf_Users (m_config m) ! i),
      p_Role := u_Role (cf_Users (m_config m) ! i), p_ClusterIDs := u_ClusterIDs (cf_Users (m_config m) ! i),
      p_MustChangePassword := u_MustChangePassword (cf_Users (m_config m) ! i)\<rparr>"
    using assms(1) s by (auto simp: Session_def Let_def split: option.splits if_splits)
  then have "cf_Users (m_config m) ! i \<in> set (cf_Users (m_config m))"
    and "EqualFold (al_ucd L) (u_Username (cf_Users (m_config m) ! i)) (TrimSpace (p_Username p))"
    using findUserIndex_Some [OF i(1)] by simp_all
  then show ?thesis
    using s m' i local p by (intro conjI exI [of _ s] exI [of _ "cf_Users (m_config m) ! i"]) simp_all
qed

definition bob :: Principal where
  "bob = \<lparr>p_Username = ''bob'', p_DisplayName = ''old'', p_Provider = ProviderLocal, p_Role = RoleAdmin, p_ClusterIDs = [''x''],
          p_MustChangePassword = True\<rparr>"

definition bob_session :: Manager where
  "bob_session = sample_manager\<lparr>m_sessions := [''k'' \<mapsto> \<lparr>s_Principal = bob, s_ExpiresAt = 100\<rparr>]\<rparr>"

lemma sample_find:
  "findUserIndex basic_ucd (cf_Users sample_config) ''bob'' = Some 1" "cf_Users sample_config ! Suc 0 = sample_user ''bob'' RoleOperator"
  by (simp_all add: sample_config_def sample_user_def EqualFold_def foldRune_def runes_ascii ascii_def visible_def byte_def)

lemma sample_mode: "cf_Mode sample_config = ModeLocal"
  by (simp add: sample_config_def)

theorem session_reflects_current_user_witness:
  "\<exists>p. Session sample_lib 7 ''k'' bob_session = (Some p, bob_session) \<and> p_Role p = RoleOperator \<and>
     (\<exists>u \<in> set (cf_Users sample_config). u_Active u)"
proof -
  have "Session sample_lib 7 ''k'' bob_session =
     (Some (bob\<lparr>p_DisplayName := ''bob'', p_Role := RoleOperator, p_ClusterIDs := [], p_MustChangePassword := False\<rparr>), bob_session)"
    by (simp add: Session_def sessionKey_def bob_session_def sample_lib_def)
      (simp add: bob_def sample_find sample_user_def sample_mode Let_def)
  from this session_reflects_current_user [OF this] show ?thesis
    by (auto simp: bob_def bob_session_def)
qed

text \<open>
  A successful update of a user ends every session of that user, and no other session.
\<close>

theorem update_user_revokes_sessions:
  assumes "UpdateUser L ce name input (m, d) = (Inr u, (m', d'))"
  shows "m_sessions m' k =
    (case m_sessions m k of
       None \<Rightarrow> None
     | Some s \<Rightarrow> if p_Provider (s_Principal s) = ProviderLocal \<and> EqualFold (al_ucd L) (p_Username (s_Principal s)) (u_Username u)
                 then None else Some s)"
proof -
  obtain hash i us m1 where idx: "findUserIndex (al_ucd L) (cf_Users (m_config m)) name = Some i"
    and u: "u = User.truncate (updatedUser ce (TrimSpace (in_DisplayName input)) (ToLower (al_ucd L) (TrimSpace (in_Role input)))
        hash input (cf_Users (m_config m) ! i))"
    and save: "saveLocked L (ce_io ce) (set_users us m, d) = (None, (m1, d'))"
    and m': "m' = revokeSessions (al_ucd L) ProviderLocal (u_Username (cf_Users (m_config m) ! i)) m1"
    using assms by (auto simp: UpdateUser_def Let_def split: if_splits sum.splits option.splits prod.splits)
  have "m_sessions m1 = m_sessions m"
    using saveLocked_memory [OF save] by (simp add: set_users_def)
  moreover have "u_Username u = u_Username (cf_Users (m_config m) ! i)"
    by (simp add: u updatedUser_def User.defs)
  ultimately show ?thesis
    by (simp add: m' revokeSessions_def retain_sessions_def split: option.split)
qed

definition bob_input :: LocalUserInput where
  "bob_input = \<lparr>in_Username = ''bob'', in_DisplayName = ''B'', in_Password = [], in_Role = RoleOperator, in_Active = None, in_ClusterIDs = []\<rparr>"

lemma bob_update:
  "\<exists>u st'. UpdateUser sample_lib sample_call ''bob'' bob_input (bob_session, Map.empty) = (Inr u, st') \<and> u_Username u = ''bob''"
proof -
  let ?u = "updatedUser sample_call ''B'' RoleOperator [] bob_input (sample_user ''bob'' RoleOperator)"
  have admins: "activeAdminCount ((cf_Users sample_config)[1 := ?u]) = 1"
    by (simp add: sample_config_def activeAdminCount_def updatedUser_def bob_input_def sample_user_def RoleAdmin_def RoleOperator_def)
  have "config_ints_ok ((m_config (set_users ((cf_Users sample_config)[1 := ?u]) bob_session))\<lparr>cf_Version := 1\<rparr>)"
    by (simp add: config_ints_ok_def set_users_def bob_session_def sample_config_def updatedUser_def sample_user_def int64_def empty_ldap_def)
  from sample_save [OF this, of Map.empty] obtain r where
    save: "saveLocked sample_lib good_io (set_users ((cf_Users sample_config)[1 := ?u]) bob_session, Map.empty) = (None, r)"
    by (auto simp: bob_session_def)
  have "TrimSpace ''B'' = ''B''"
    by (simp add: visible_def byte_def)
  then show ?thesis
    using save admins
    by (cases r) (simp add: UpdateUser_def bob_input_def [THEN arg_cong [where f = in_DisplayName]]
      bob_input_def [THEN arg_cong [where f = in_Role]] bob_input_def [THEN arg_cong [where f = in_Password]]
      runes_ascii ascii_def byte_def bob_session_def sample_find Let_def User.defs updatedUser_def sample_user_def)
qed

theorem update_user_revokes_sessions_witness:
  "m_sessions bob_session ''k'' \<noteq> None \<and>
   m_sessions (fst (snd (UpdateUser sample_lib sample_call ''bob'' bob_input (bob_session, Map.empty)))) ''k'' = None"
proof -
  obtain u m' d' where "UpdateUser sample_lib sample_call ''bob'' bob_input (bob_session, Map.empty) = (Inr u, (m', d'))"
    and "u_Username u = ''bob''"
    using bob_update by (metis prod.exhaust)
  with update_user_revokes_sessions [OF this(1), of "''k''"] show ?thesis
    by (simp add: bob_session_def bob_def)
qed

lemma delete_untrimmed_keeps:
  assumes "DeleteUser L ce name (m, d) = (Inr (), (m', d'))"
    and "m_sessions m k = Some s" and "\<not> EqualFold (al_ucd L) (p_Username (s_Principal s)) name"
  shows "m_sessions m' k = Some s"
proof -
  obtain us m1 where save: "saveLocked L (ce_io ce) (set_users us m, d) = (None, (m1, d'))"
    and m': "m' = revokeSessions (al_ucd L) ProviderLocal name m1"
    using assms(1) by (auto simp: DeleteUser_def Let_def split: if_splits option.splits prod.splits)
  have "m_sessions m1 = m_sessions m"
    using saveLocked_memory [OF save] by (simp add: set_users_def)
  then show ?thesis
    using assms(2,3) by (simp add: m' revokeSessions_def retain_sessions_def)
qed

lemma CreateUser_last:
  assumes "CreateUser L ce input (m, d) = (Inr u, (m', d'))"
  shows "\<exists>us w. cf_Users (m_config m') = us @ [w] \<and> User.truncate w = u \<and> m_configured m' \<and>
    m_sessions m' = m_sessions m \<and> cf_Mode (m_config m') = cf_Mode (m_config m)"
proof -
  obtain w where save: "saveLocked L (ce_io ce) (set_users (cf_Users (m_config m) @ [w]) m, d) = (None, (m', d'))"
    and w: "User.truncate w = u" and "m_configured m"
    using assms by (auto simp: CreateUser_def Let_def User.defs persistedUser.defs split: if_splits sum.splits option.splits prod.splits)
  then show ?thesis
    using saveLocked_memory [OF save] by (simp add: set_users_def)
qed

text \<open>
  \<open>DeleteUser\<close> finds the user by the trimmed name but revokes sessions by the name as
  given. Deleting a user by a name with surrounding white space leaves the user's sessions in
  place, and when an account of the same name is created later, an old token is accepted with
  the rights of the new account.
\<close>

theorem delete_user_untrimmed_name_leaves_session:
  assumes "DeleteUser L ce name (m, d) = (Inr (), (m1, d1))"
    and "m_sessions m (sessionKey L token) = Some s" and "p_Provider (s_Principal s) = ProviderLocal"
    and "\<not> EqualFold (al_ucd L) (p_Username (s_Principal s)) name"
    and "CreateUser L ce' input (m1, d1) = (Inr u, (m2, d2))" and "auth_inv L (m2, d2)"
    and "EqualFold (al_ucd L) (u_Username u) (TrimSpace (p_Username (s_Principal s)))" and "u_Active u"
    and "now < s_ExpiresAt s" and "modeIncludes (cf_Mode (m_config m2)) ProviderLocal"
  shows "\<exists>p. Session L now token m2 = (Some p, m2) \<and> p_Role p = u_Role u \<and> p_ClusterIDs p = u_ClusterIDs u"
proof -
  obtain us w where users: "cf_Users (m_config m2) = us @ [w]" and w: "User.truncate w = u" and conf: "m_configured m2"
    and sess: "m_sessions m2 = m_sessions m1"
    using CreateUser_last [OF assms(5)] by blast
  have wu: "u_Username w = u_Username u" "u_Active w = u_Active u" "u_Role w = u_Role u" "u_ClusterIDs w = u_ClusterIDs u"
    using w by (auto simp: User.defs)
  have "names_distinct (al_ucd L) (us @ [w])"
    using user_of_inv(2) [OF assms(6) conf] users by simp
  then have "findUserIndex (al_ucd L) (us @ [w]) (p_Username (s_Principal s)) = Some (length us)"
    by (rule findUserIndex_self) (simp_all add: wu assms(7))
  moreover have "m_sessions m2 (sessionKey L token) = Some s"
    using delete_untrimmed_keeps [OF assms(1,2,4)] sess by simp
  ultimately show ?thesis
    using assms(3,8-10) conf by (simp add: Session_def users wu)
qed

lemma sample_index: "findUserIndex basic_ucd (cf_Users sample_config) '' bob'' = Some 1"
proof -
  have "TrimSpace '' bob'' = ''bob''"
    by (simp add: TrimSpace_def space1_def space2_def space3_def byte_def)
  then show ?thesis
    by (simp add: sample_config_def sample_user_def EqualFold_def foldRune_def runes_ascii ascii_def byte_def)
qed

definition only_root :: "persistedUser list" where
  "only_root = [sample_user ''root'' RoleAdmin]"

lemma bob_deleted:
  "\<exists>d1. DeleteUser sample_lib sample_call '' bob'' (bob_session, Map.empty) = (Inr (), (set_users only_root bob_session, d1)) \<and>
    d1 ''t'' = None"
proof -
  have "take 1 (cf_Users sample_config) @ drop (1 + 1) (cf_Users sample_config) = only_root"
    by (simp add: sample_config_def only_root_def)
  moreover have admins: "activeAdminCount only_root = 1"
    by (simp add: only_root_def activeAdminCount_def sample_user_def)
  have "config_ints_ok ((m_config (set_users only_root bob_session))\<lparr>cf_Version := 1\<rparr>)"
    by (simp add: config_ints_ok_def set_users_def bob_session_def sample_config_def only_root_def sample_user_def int64_def empty_ldap_def)
  from sample_save [OF this, of Map.empty] obtain d1 where
    save: "saveLocked sample_lib good_io (set_users only_root bob_session, Map.empty) = (None, (set_users only_root bob_session, d1))"
    and "d1 ''t'' = None"
    by (auto simp: bob_session_def set_users_def sample_config_def)
  moreover have "retain_sessions (\<lambda>s. \<not> (p_Provider (s_Principal s) = ProviderLocal \<and> EqualFold basic_ucd (p_Username (s_Principal s)) '' bob''))
      [''k'' \<mapsto> \<lparr>s_Principal = bob, s_ExpiresAt = 100\<rparr>] = [''k'' \<mapsto> \<lparr>s_Principal = bob, s_ExpiresAt = 100\<rparr>]"
    by (auto simp: retain_sessions_def bob_def EqualFold_def runes_ascii ascii_def byte_def)
  then have "revokeSessions basic_ucd ProviderLocal '' bob'' (set_users only_root bob_session) = set_users only_root bob_session"
    by (simp add: revokeSessions_def set_users_def bob_session_def)
  ultimately show ?thesis
    using admins sample_index by (simp add: DeleteUser_def bob_session_def Let_def)
qed

definition bob_again :: LocalUserInput where
  "bob_again = \<lparr>in_Username = ''bob'', in_DisplayName = ''B'', in_Password = ''Secret-pw1'', in_Role = RoleAdmin, in_Active = None,
     in_ClusterIDs = []\<rparr>"

lemma bob_again_ok:
  "normalizeUserFields basic_ucd (in_Username bob_again) (in_DisplayName bob_again) (in_Role bob_again) = Inr (''bob'', ''B'', RoleAdmin)"
  "hashPassword basic_ucd (al_generate sample_lib 0) (in_Password bob_again) = Inr ''$Secret-pw1''"
proof -
  have "RoleAdmin \<noteq> []" by (simp add: RoleAdmin_def)
  then show "normalizeUserFields basic_ucd (in_Username bob_again) (in_DisplayName bob_again) (in_Role bob_again) = Inr (''bob'', ''B'', RoleAdmin)"
    by (simp add: bob_again_def normalizeUserFields_def visible_def byte_def usernamePattern_def isAlnum_def isUserChar_def
        runes_ascii ascii_def)
  have "validateStrongPassword basic_ucd ''Secret-pw1'' = None"
    by (rule strong_password) (simp_all add: byte_def isSpace_def isControl_def ascii_category_def)
  then show "hashPassword basic_ucd (al_generate sample_lib 0) (in_Password bob_again) = Inr ''$Secret-pw1''"
    by (simp add: bob_again_def hashPassword_def sample_lib_def)
qed

lemma bob_recreated:
  assumes "d1 ''t'' = None"
  shows "\<exists>u m2 d2. CreateUser sample_lib sample_call bob_again (set_users only_root bob_session, d1) = (Inr u, (m2, d2)) \<and>
    u_Username u = ''bob'' \<and> u_Active u \<and> u_Role u = RoleAdmin"
proof -
  let ?w = "User.extend \<lparr>u_Username = ''bob'', u_DisplayName = ''B'', u_Role = RoleAdmin, u_Active = True,
    u_ClusterIDs = clusterIDsForRole RoleAdmin [], u_MustChangePassword = False, u_CreatedAt = 5, u_UpdatedAt = 5\<rparr>
    (persistedUser.fields ''$Secret-pw1'')"
  have none: "findUserIndex basic_ucd only_root ''bob'' = None"
    by (simp add: only_root_def sample_user_def EqualFold_def foldRune_def runes_ascii ascii_def visible_def byte_def)
  have "config_ints_ok ((m_config (set_users (only_root @ [?w]) bob_session))\<lparr>cf_Version := 1\<rparr>)"
    by (simp add: config_ints_ok_def set_users_def bob_session_def sample_config_def only_root_def sample_user_def int64_def
        empty_ldap_def User.defs persistedUser.defs)
  from sample_save [OF this, of d1] assms obtain r where
    "saveLocked sample_lib good_io (set_users (only_root @ [?w]) bob_session, d1) = (None, r)"
    by (auto simp: bob_session_def)
  moreover have "in_Active bob_again = None" and "in_ClusterIDs bob_again = []"
    by (simp_all add: bob_again_def)
  ultimately show ?thesis
    using none bob_again_ok
    by (cases r) (simp add: CreateUser_def Let_def sample_call_def [THEN arg_cong [where f = ce_salt]] bob_session_def set_users_def)
qed

theorem delete_user_untrimmed_name_leaves_session_witness:
  "\<exists>d1 u m2 d2 p. DeleteUser sample_lib sample_call '' bob'' (bob_session, Map.empty) = (Inr (), (set_users only_root bob_session, d1)) \<and>
     CreateUser sample_lib sample_call bob_again (set_users only_root bob_session, d1) = (Inr u, (m2, d2)) \<and>
     Session sample_lib 7 ''k'' m2 = (Some p, m2) \<and> p_Role p = RoleAdmin"
proof -
  obtain d1 where del: "DeleteUser sample_lib sample_call '' bob'' (bob_session, Map.empty) = (Inr (), (set_users only_root bob_session, d1))"
    and d1: "d1 ''t'' = None"
    using bob_deleted by blast
  obtain u m2 d2 where cre: "CreateUser sample_lib sample_call bob_again (set_users only_root bob_session, d1) = (Inr u, (m2, d2))"
    and u: "u_Username u = ''bob''" "u_Active u" "u_Role u = RoleAdmin"
    using bob_recreated [of d1] d1 by blast
  have "auth_inv sample_lib (bob_session, Map.empty)"
    using sample_auth_inv by (simp add: bob_session_def)
  from DeleteUser_inv [OF this, of sample_call "'' bob''"] del
  have "auth_inv sample_lib (set_users only_root bob_session, d1)"
    by (simp add: sample_fresh bob_session_def)
  from CreateUser_inv [OF this _ sample_lib_laws(1), of sample_call bob_again] cre d1
  have inv: "auth_inv sample_lib (m2, d2)"
    by (simp add: fresh_temp_def good_io_def bob_session_def)
  have mode: "modeIncludes (cf_Mode (m_config m2)) ProviderLocal"
    using CreateUser_last [OF cre] by (auto simp: set_users_def bob_session_def sample_mode)
  have "\<exists>p. Session sample_lib 7 ''k'' m2 = (Some p, m2) \<and> p_Role p = u_Role u \<and> p_ClusterIDs p = u_ClusterIDs u"
    by (rule delete_user_untrimmed_name_leaves_session [OF del _ _ _ cre inv _ u(2) _ mode, of "''k''" "\<lparr>s_Principal = bob, s_ExpiresAt = 100\<rparr>"])
      (simp_all add: u bob_session_def sessionKey_def sample_lib_def bob_def EqualFold_def runes_ascii ascii_def byte_def visible_def)
  with del cre u show ?thesis by metis
qed

section \<open>Failing calls\<close>

lemma save_in_place:
  assumes "auth_inv L (m, d)" and "m_configured m" and "saveLocked L io (set_users us m, d) = (e, (m', d'))"
  shows "m' = set_users us m"
  using saveLocked_memory [OF assms(3)] assms(1,2) by (simp add: auth_inv_def manager_inv_def config_inv_def set_users_def)

lemma CreateUser_failed:
  "auth_inv L (m, d) \<Longrightarrow> CreateUser L ce input (m, d) = (Inl e, (m', d')) \<Longrightarrow> m' = m"
  by (auto simp: CreateUser_def Let_def split: sum.splits option.splits prod.splits if_splits dest!: save_in_place)

lemma UpdateUser_failed:
  "auth_inv L (m, d) \<Longrightarrow> UpdateUser L ce name input (m, d) = (Inl e, (m', d')) \<Longrightarrow> m' = m"
  by (auto simp: UpdateUser_def Let_def split: sum.splits option.splits prod.splits if_splits dest!: save_in_place)

lemma DeleteUser_failed:
  "auth_inv L (m, d) \<Longrightarrow> DeleteUser L ce name (m, d) = (Inl e, (m', d')) \<Longrightarrow> m' = m"
  by (auto simp: DeleteUser_def Let_def split: sum.splits option.splits prod.splits if_splits dest!: save_in_place)

lemma RemoveClusterPermissions_failed:
  "auth_inv L (m, d) \<Longrightarrow> RemoveClusterPermissions L clock io cid (m, d) = (Inl e, (m', d')) \<Longrightarrow> m' = m"
  by (auto simp: RemoveClusterPermissions_def Let_def drop_grants_restore
      split: sum.splits option.splits prod.splits if_splits dest!: save_in_place)

lemma UpdateSettings_failed:
  assumes "auth_inv L (m, d)" and "UpdateSettings L ce input (m, d) = (Inl e, (m', d'))"
  shows "m' = m"
proof -
  let ?mode = "ToLower (al_ucd L) (TrimSpace (si_Mode input))"
  show ?thesis
  proof (cases "normalizeLDAPSettings (al_ucd L) (si_LDAP input) (cf_LDAP (m_config m)) (modeIncludes ?mode ProviderLDAP)")
    case (Inl err)
    then show ?thesis
      using assms(2) by (simp add: UpdateSettings_def Let_def split: if_splits)
  next
    case (Inr l)
    obtain e1 m1 d1 where save: "saveLocked L (ce_io ce)
        (m\<lparr>m_config := (m_config m)\<lparr>cf_Mode := ?mode, cf_LDAP := l\<rparr>\<rparr>, d) = (e1, (m1, d1))"
      by (metis prod_cases3)
    have "cf_Version (m_config m) = authConfigVersion" if "m_configured m"
      using that assms(1) by (simp add: auth_inv_def manager_inv_def config_inv_def)
    then have "m1 = m\<lparr>m_config := (m_config m)\<lparr>cf_Mode := ?mode, cf_LDAP := l\<rparr>\<rparr>" if "m_configured m"
      using that saveLocked_memory [OF save] by simp
    then show ?thesis
      using assms(2) Inr save by (cases e1) (simp_all add: UpdateSettings_def Let_def split: if_splits)
  qed
qed

lemma ChangePassword_failed:
  assumes "auth_inv L (m, d)" and "ChangePassword_commit L ce name hs (m, d) = (Inl e, (m', d'))"
  shows "m' = m"
proof (cases "m_configured m")
  case True
  then show ?thesis
    using assms by (auto simp: ChangePassword_commit_def Let_def split: option.splits prod.splits if_splits dest!: save_in_place)
next
  case False
  then have "cf_Users (m_config m) = []"
    using assms(1) by (simp add: auth_inv_def manager_inv_def empty_config_def)
  then show ?thesis
    using assms(2) by (simp add: ChangePassword_commit_def Let_def split: prod.splits)
qed


definition chmod_call :: call_env where
  "chmod_call = \<lparr>ce_now = 5, ce_salt = 0, ce_io = good_io\<lparr>io_fail := Some ChmodTarget\<rparr>\<rparr>"

lemma chmod_delete:
  "\<exists>d'. DeleteUser sample_lib chmod_call ''bob'' (sample_manager, Map.empty) = (Inl (AuthSaveFailed ChmodTarget), (sample_manager, d')) \<and>
    d' = [''f'' \<mapsto> writeFields (packConfig (config_image (sample_config\<lparr>cf_Users := only_root\<rparr>))) @ [newline]]"
proof -
  have del: "take 1 (cf_Users sample_config) @ drop (1 + 1) (cf_Users sample_config) = only_root"
    by (simp add: sample_config_def only_root_def)
  have admins: "activeAdminCount only_root = 1"
    by (simp add: only_root_def activeAdminCount_def sample_user_def)
  have v: "sample_config\<lparr>cf_Users := us, cf_Version := 1\<rparr> = sample_config\<lparr>cf_Users := us\<rparr>" for us
    by (simp add: sample_config_def)
  have "config_ints_ok (sample_config\<lparr>cf_Users := only_root\<rparr>)"
    by (simp add: config_ints_ok_def sample_config_def only_root_def sample_user_def int64_def empty_ldap_def)
  then have "saveLocked sample_lib (ce_io chmod_call) (set_users only_root sample_manager, Map.empty) =
      (Some (AuthSaveFailed ChmodTarget), (set_users only_root sample_manager,
        [''f'' \<mapsto> writeFields (packConfig (config_image (sample_config\<lparr>cf_Users := only_root\<rparr>))) @ [newline]]))"
    by (simp add: saveLocked_def authConfigVersion_def config_codec_def field_codec_def replace_file_cases fresh_temp_def good_io_def
        chmod_call_def set_users_def v)
  then show ?thesis
    using admins sample_find del set_users_self [of sample_manager] by (simp add: DeleteUser_def Let_def)
qed


text \<open>
  When only the last step of saving fails, the restriction of the permissions after the
  rename, \<open>DeleteUser\<close> reports an error and keeps the user in memory, but the file on disk no
  longer has the user: the failed deletion takes effect at the next start.
\<close>

theorem failed_delete_takes_effect_on_restart:
  assumes "auth_inv L (m, d)" and "fresh_temp (ce_io ce) (m_filePath m) d"
    and "DeleteUser L ce name (m, d) = (Inl (AuthSaveFailed ChmodTarget), (m', d'))"
  shows "m' = m \<and> (\<exists>i t. findUserIndex (al_ucd L) (cf_Users (m_config m)) name = Some i \<and>
    marshal (al_codec L) ((m_config m)\<lparr>cf_Users := take i (cf_Users (m_config m)) @ drop (i + 1) (cf_Users (m_config m))\<rparr>) = Some t \<and>
    d' (m_filePath m) = Some (t @ [newline]))"
proof -
  obtain i m1 where conf: "m_configured m" and i: "findUserIndex (al_ucd L) (cf_Users (m_config m)) name = Some i"
    and save: "saveLocked L (ce_io ce) (set_users (take i (cf_Users (m_config m)) @ drop (i + 1) (cf_Users (m_config m))) m, d) =
      (Some (AuthSaveFailed ChmodTarget), (m1, d'))"
    using assms(3) by (auto simp: DeleteUser_def Let_def split: option.splits prod.splits if_splits)
  let ?us = "take i (cf_Users (m_config m)) @ drop (i + 1) (cf_Users (m_config m))"
  have m1: "m_config m1 = (m_config m)\<lparr>cf_Users := ?us\<rparr>"
    using save_in_place [OF assms(1) conf save] by (simp add: set_users_def)
  from save m1 assms(2) obtain t where "marshal (al_codec L) ((m_config m)\<lparr>cf_Users := ?us\<rparr>) = Some t"
    and "d' = d(m_filePath m \<mapsto> t @ [newline])"
    using saveLocked_memory [OF save]
    by (auto simp: saveLocked_def Let_def replace_file_cases set_users_def split: option.splits prod.splits if_splits)
  then show ?thesis
    using DeleteUser_failed [OF assms(1,3)] i by auto
qed

theorem failed_delete_takes_effect_on_restart_witness:
  "\<exists>d' t. DeleteUser sample_lib chmod_call ''bob'' (sample_manager, Map.empty) = (Inl (AuthSaveFailed ChmodTarget), (sample_manager, d')) \<and>
     marshal config_codec (sample_config\<lparr>cf_Users := only_root\<rparr>) = Some t \<and> d' ''f'' = Some (t @ [newline])"
proof -
  obtain d' where del: "DeleteUser sample_lib chmod_call ''bob'' (sample_manager, Map.empty) = (Inl (AuthSaveFailed ChmodTarget), (sample_manager, d'))"
    using chmod_delete by blast
  have "fresh_temp (ce_io chmod_call) (m_filePath sample_manager) Map.empty"
    by (simp add: chmod_call_def good_io_def fresh_temp_def)
  from failed_delete_takes_effect_on_restart [OF sample_auth_inv this del] del sample_find(1)
  show ?thesis by (simp add: only_root_def) (simp add: sample_config_def)
qed

section \<open>Concurrent password changes\<close>

text \<open>
  Two password changes of the same user that were checked against the same state are not
  both applied: once one of them has been committed, the other is refused and changes nothing.
\<close>

theorem concurrent_password_change_refused:
  assumes "ChangePassword_check L ce1 m name1 old1 new1 = Inr hs1" and "ChangePassword_check L ce2 m name2 old2 new2 = Inr hs2"
    and "findUserIndex (al_ucd L) (cf_Users (m_config m)) name1 = findUserIndex (al_ucd L) (cf_Users (m_config m)) name2"
    and "ChangePassword_commit L ce1 name1 hs1 (m, d) = (Inr p, (m', d'))" and "bcrypt_law L"
  shows "ChangePassword_commit L ce2 name2 hs2 (m', d') = (Inl (AuthErr ErrInvalidCredentials), (m', d'))"
proof -
  let ?users = "cf_Users (m_config m)"
  obtain i h1 h2 where i: "findUserIndex (al_ucd L) ?users name1 = Some i" "findUserIndex (al_ucd L) ?users name2 = Some i"
    and hs: "hs1 = (u_PasswordHash (?users ! i), h1)" "hs2 = (u_PasswordHash (?users ! i), h2)"
    and h1: "al_generate L (ce_salt ce1) new1 = Some h1" "\<not> al_compare L (u_PasswordHash (?users ! i)) new1"
    using assms(1-3) by (auto simp: ChangePassword_check_def Let_def split: option.splits if_splits)
  have ne: "h1 \<noteq> u_PasswordHash (?users ! i)"
    using h1 assms(5) by (auto simp: bcrypt_law_def)
  obtain m1 where save: "saveLocked L (ce_io ce1) (set_users (?users[i := changedUser ce1 h1 (?users ! i)]) m, d) = (None, (m1, d'))"
    and "m' = m1"
    using assms(4) i hs by (auto simp: ChangePassword_commit_def Let_def split: option.splits prod.splits if_splits)
  then have users': "cf_Users (m_config m') = ?users[i := changedUser ce1 h1 (?users ! i)]"
    using saveLocked_memory [OF save] by (simp add: set_users_def)
  have len: "i < length ?users" using findUserIndex_less i by blast
  have "map u_Username (cf_Users (m_config m')) = map u_Username ?users"
    using len by (simp add: users' map_update list_update_same_conv changedUser_def)
  then have "findUserIndex (al_ucd L) (cf_Users (m_config m')) name2 = Some i"
    using findUserIndex_cong i(2) by metis
  moreover have "u_PasswordHash (cf_Users (m_config m') ! i) = h1"
    using len by (simp add: users' changedUser_def)
  ultimately show ?thesis
    using ne by (simp add: ChangePassword_commit_def hs Let_def)
qed

lemma bob_check:
  "ChangePassword_check sample_lib sample_call sample_manager ''bob'' ''pw'' ''Secret-pw1'' = Inr (''$pw'', ''$Secret-pw1'')"
  "ChangePassword_check sample_lib sample_call sample_manager ''bob'' ''pw'' ''Secret-pw2'' = Inr (''$pw'', ''$Secret-pw2'')"
proof -
  have "validateStrongPassword basic_ucd ''Secret-pw1'' = None" "validateStrongPassword basic_ucd ''Secret-pw2'' = None"
    by (rule strong_password; simp add: byte_def isSpace_def isControl_def ascii_category_def)+
  then show "ChangePassword_check sample_lib sample_call sample_manager ''bob'' ''pw'' ''Secret-pw1'' = Inr (''$pw'', ''$Secret-pw1'')"
    "ChangePassword_check sample_lib sample_call sample_manager ''bob'' ''pw'' ''Secret-pw2'' = Inr (''$pw'', ''$Secret-pw2'')"
    by (simp_all add: ChangePassword_check_def sample_find Let_def) (simp_all add: sample_user_def sample_lib_def)
qed

lemma bob_commit:
  "\<exists>p m' d'. ChangePassword_commit sample_lib sample_call ''bob'' (''$pw'', ''$Secret-pw1'') (sample_manager, Map.empty) = (Inr p, (m', d'))"
proof -
  let ?us = "(cf_Users sample_config)[1 := changedUser sample_call ''$Secret-pw1'' (sample_user ''bob'' RoleOperator)]"
  have "config_ints_ok ((m_config (set_users ?us sample_manager))\<lparr>cf_Version := 1\<rparr>)"
    by (simp add: config_ints_ok_def set_users_def sample_config_def changedUser_def sample_user_def int64_def empty_ldap_def)
  from sample_save [OF this, of Map.empty] obtain m' d' where
    "saveLocked sample_lib good_io (set_users ?us sample_manager, Map.empty) = (None, (m', d'))"
    by auto
  moreover have "u_PasswordHash (sample_user ''bob'' RoleOperator) = ''$pw''"
    by (simp add: sample_user_def)
  ultimately show ?thesis
    using sample_find by (simp add: ChangePassword_commit_def Let_def)
qed

theorem concurrent_password_change_refused_witness:
  "\<exists>p m' d'. ChangePassword_commit sample_lib sample_call ''bob'' (''$pw'', ''$Secret-pw1'') (sample_manager, Map.empty) = (Inr p, (m', d')) \<and>
     ChangePassword_commit sample_lib sample_call ''bob'' (''$pw'', ''$Secret-pw2'') (m', d') = (Inl (AuthErr ErrInvalidCredentials), (m', d'))"
proof -
  obtain p m' d' where commit: "ChangePassword_commit sample_lib sample_call ''bob'' (''$pw'', ''$Secret-pw1'') (sample_manager, Map.empty) = (Inr p, (m', d'))"
    using bob_commit by blast
  from concurrent_password_change_refused [OF bob_check refl commit sample_lib_laws(1)] commit show ?thesis by blast
qed

section \<open>LDAP\<close>


definition sample_ldap :: ldapSettings where
  "sample_ldap = empty_ldap\<lparr>l_Host := ''h'', l_Port := 1, l_TLSMode := LDAPTLSStartTLS, l_UserDNTemplate := ''{{username}}''\<rparr>"

definition ldap_manager :: Manager where
  "ldap_manager = sample_manager\<lparr>m_config := sample_config\<lparr>cf_Mode := ModeBoth, cf_LDAP := sample_ldap\<rparr>\<rparr>"

definition sample_directory :: ldap_lib where
  "sample_directory =
    \<lparr>lb_server = (\<lambda>_ op. if op = Bind ''amy'' ''pw'' \<or> (\<forall>dn pw. op \<noteq> Bind dn pw) then Done else Failed),
     lb_EscapeDN = (\<lambda>s. s), lb_EscapeFilter = (\<lambda>s. s), lb_ReadFile = (\<lambda>_ _. None), lb_ValidPEM = (\<lambda>_. False)\<rparr>"

definition sample_tls :: tls_config where
  "sample_tls = \<lparr>tls_ServerName = ''h'', tls_RootCAs = None\<rparr>"

lemma sample_ldap_login:
  "AuthenticateLDAP basic_ucd sample_directory ldap_manager ''amy'' ''pw'' =
    (Inr \<lparr>p_Username = ''amy'', p_DisplayName = ''amy'', p_Provider = ProviderLDAP, p_Role = RoleOperator, p_ClusterIDs = [],
          p_MustChangePassword = False\<rparr>,
     [DialURL (''ldap://h:'' @ FormatInt 1) None, StartTLS sample_tls] @ Bind ''amy'' ''pw'' # [])"
proof -
  have "TrimSpace ''amy'' = ''amy''"
    by (simp add: visible_def byte_def)
  moreover have "ReplaceAll ''{{username}}'' usernamePlaceholder ''amy'' = ''amy''"
    by (simp add: usernamePlaceholder_def)
  moreover have "cf_LDAP (m_config ldap_manager) = sample_ldap" "cf_Mode (m_config ldap_manager) = ModeBoth" "m_configured ldap_manager"
    by (simp_all add: ldap_manager_def)
  moreover have "dialLDAP sample_directory sample_ldap root = (Inr (), [DialURL (''ldap://h:'' @ FormatInt 1) None, StartTLS sample_tls])" for root
    by (simp add: dialLDAP_def ldapTLSConfig_def sample_ldap_def empty_ldap_def sample_directory_def Let_def JoinHostPort_def
        LDAPTLSStartTLS_def LDAPTLSLDAPS_def sample_tls_def)
  ultimately show ?thesis
    by (simp add: AuthenticateLDAP_def findUserDN_def Let_def) (simp add: sample_ldap_def empty_ldap_def sample_directory_def containsFold_def)
qed




section \<open>Restart\<close>

lemma loadUsers_fixed:
  assumes "list_all user_inv users"
  shows "loadUsers U users = Inr users"
  using assms
proof (induction users)
  case (Cons u users)
  then have u: "user_inv u" by simp
  then have vis: "visible (u_Username u)" and len: "length (u_Username u) \<le> 100"
    using usernamePattern_visible by (auto simp: user_inv_def usernamePattern_def split: list.splits)
  have "length (runes (u_Username u)) \<le> 100"
    using len runes_ascii [OF visible_ascii [OF vis]] by simp
  moreover have "RoleAdmin \<noteq> []" "RoleOperator \<noteq> []"
    by (simp_all add: RoleAdmin_def RoleOperator_def)
  ultimately have "\<exists>f. normalizeUserFields U (u_Username u) (u_DisplayName u) (u_Role u) = Inr f"
    using u vis by (auto simp: user_inv_def normalizeUserFields_def Let_def)
  with Cons u show ?case
    by (auto simp: user_inv_def)
qed simp

text \<open>
  C23. The configuration a save has written is the configuration the next start loads, if its
  strings are UTF-8 and its text has at most 2 MiB; sessions start empty. A longer
  text is written all the same, and then the next start fails to decode it.
\<close>

theorem auth_config_survives_restart:
  assumes "auth_inv L (m, d)" and "m_configured m" and "json_config_law (al_codec L)"
    and "marshal (al_codec L) (m_config m) = Some t" and "d (m_filePath m) = Some (t @ [newline])"
    and "config_image (m_config m) = m_config m" and "cf_ConfiguredAt (m_config m) \<noteq> 0"
    and "TrimSpace (m_filePath m) \<noteq> []" and "0 < timeout"
  shows "NewManager L False (m_filePath m) timeout d =
    (if length t \<le> authConfigLimit
     then Inr \<lparr>m_filePath = m_filePath m, m_fileRoot = Dir (m_filePath m), m_timeout = timeout, m_config = m_config m,
                m_configured = True, m_sessions = Map.empty\<rparr>
     else Inl (AuthOther ''decode auth config''))"
proof -
  have inv: "config_inv (al_ucd L) (m_config m)"
    using assms(1,2) by (simp add: auth_inv_def manager_inv_def)
  have "unmarshal (al_codec L) (take authConfigLimit (t @ [newline])) = (if length t \<le> authConfigLimit then Some (m_config m) else None)"
    using assms(3,4,6) by (simp only: json_config_law_def)
  moreover have "loadUsers (al_ucd L) (cf_Users (m_config m)) = Inr (cf_Users (m_config m))"
    using inv by (simp add: config_inv_def loadUsers_fixed)
  ultimately show ?thesis
    using assms(5,7-9) inv by (auto simp: NewManager_def load_def config_inv_def)
qed

lemma sample_config_image: "config_image sample_config = sample_config"
  by (simp add: config_image_def ldap_image_def user_image_def sample_config_def sample_user_def empty_ldap_def auth_consts
      ascii_def byte_def)

lemma sample_text_length: "length (writeFields (packConfig sample_config)) \<le> authConfigLimit"
  by (simp add: packConfig_def packLDAP_def packUser_def length_writeFields sample_config_def sample_user_def empty_ldap_def
      authConfigLimit_def packBool_def FormatInt_def natDigits.simps auth_consts)

theorem auth_config_survives_restart_witness:
  "\<exists>t m'. NewManager sample_lib False ''f'' 1 [''f'' \<mapsto> t @ [newline]] = Inr m' \<and>
     marshal config_codec sample_config = Some t \<and> m_config m' = sample_config"
proof -
  let ?t = "writeFields (packConfig sample_config)" and ?d = "[''f'' \<mapsto> writeFields (packConfig sample_config) @ [newline]]"
  have t: "marshal config_codec sample_config = Some ?t"
    using sample_config_image
    by (simp add: config_codec_def field_codec_def config_ints_ok_def sample_config_def int64_def sample_user_def empty_ldap_def)
  have inv: "auth_inv sample_lib (sample_manager, ?d)"
    using sample_config_inv t by (auto simp: auth_inv_def manager_inv_def disk_inv_def)
  have "cf_ConfiguredAt sample_config \<noteq> 0"
    by (simp add: sample_config_def)
  with auth_config_survives_restart [OF inv _ sample_lib_laws(2), of ?t 1] t sample_config_image sample_text_length
  show ?thesis
    by (simp add: visible_def byte_def)
qed

end
