(* ===== verification/Audit_Spec.thy ===== *)
theory Audit_Spec
  imports Store_Types Go_Strings
begin

text \<open>
  The contract of \<open>store.AuditLog\<close>: what an event must look like, which events a query
  selects (\<open>validateAuditEvent\<close> and \<open>auditMatches\<close> of \<open>internal/store/audit_file.go\<close>), the
  order of a page, and the interface of a log with the facts its clients rely on: paging by
  cursor neither skips nor repeats an event.
\<close>

section \<open>Events and queries\<close>

definition validateAuditEvent :: "AuditEvent \<Rightarrow> error option" where
  "validateAuditEvent ev =
    (if length (ev_ID ev) \<noteq> 32 \<or> ev_OccurredAt ev = 0 \<or> TrimSpace (ev_Actor ev) = [] \<or>
        TrimSpace (ev_Action ev) = [] \<or> TrimSpace (ev_ResourceType ev) = [] \<or>
        TrimSpace (ev_Target ev) = [] \<or> TrimSpace (ev_Result ev) = []
     then Some (Opaque ''audit event is incomplete'')
     else if 200 < length (ev_Actor ev) \<or> 40 < length (ev_ActorType ev) \<or> 80 < length (ev_ClientIP ev) \<or>
        80 < length (ev_Action ev) \<or> 40 < length (ev_ResourceType ev) \<or> 64 < length (ev_ClusterID ev) \<or>
        200 < length (ev_ClusterName ev) \<or> 2048 < length (ev_Target ev) \<or> 2048 < length (ev_Detail ev) \<or>
        32 < length (ev_Result ev)
     then Some (Opaque ''audit event field exceeds size limit'')
     else None)"

definition auditMatches :: "ucd \<Rightarrow> AuditQuery \<Rightarrow> AuditEvent \<Rightarrow> bool" where
  "auditMatches U q ev =
    (if q_Since q \<noteq> 0 \<and> ev_OccurredAt ev < q_Since q then False
     else if q_Until q \<noteq> 0 \<and> \<not> ev_OccurredAt ev < q_Until q then False
     else if q_Before q \<noteq> 0 \<and> q_Before q < ev_OccurredAt ev then False
     else if q_Before q \<noteq> 0 \<and> ev_OccurredAt ev = q_Before q \<and> (q_BeforeID q = [] \<or> q_BeforeID q \<le> ev_ID ev) then False
     else if q_ClusterID q \<noteq> [] \<and> ev_ClusterID ev \<noteq> q_ClusterID q then False
     else if q_Actor q \<noteq> [] \<and> ev_Actor ev \<noteq> q_Actor q then False
     else if q_ActorType q \<noteq> [] \<and> ev_ActorType ev \<noteq> q_ActorType q then False
     else if q_Action q \<noteq> [] \<and> ev_Action ev \<noteq> q_Action q then False
     else
       let search = ToLower U (TrimSpace (q_Search q)) in
       if search = [] then True
       else Contains (ToLower U (Join [ev_Actor ev, ev_Target ev, ev_ClusterName ev, ev_Detail ev] [CHR 0x0A])) search)"

section \<open>The order of pages\<close>

text \<open>Events are ordered by time, and events of the same time by identifier.\<close>

datatype auditCursor = AuditCursor (ac_OccurredAt: gotime) (ac_ID: string)

instantiation auditCursor :: linorder
begin

definition less_eq_auditCursor :: "auditCursor \<Rightarrow> auditCursor \<Rightarrow> bool" where
  "a \<le> b \<longleftrightarrow> ac_OccurredAt a < ac_OccurredAt b \<or> ac_OccurredAt a = ac_OccurredAt b \<and> ac_ID a \<le> ac_ID b"

definition less_auditCursor :: "auditCursor \<Rightarrow> auditCursor \<Rightarrow> bool" where
  "a < b \<longleftrightarrow> ac_OccurredAt a < ac_OccurredAt b \<or> ac_OccurredAt a = ac_OccurredAt b \<and> ac_ID a < ac_ID b"

instance
proof
  fix a b c :: auditCursor
  show "a < b \<longleftrightarrow> a \<le> b \<and> \<not> b \<le> a"
    by (auto simp: less_eq_auditCursor_def less_auditCursor_def)
  show "a \<le> a"
    by (simp add: less_eq_auditCursor_def)
  show "a \<le> b \<Longrightarrow> b \<le> c \<Longrightarrow> a \<le> c"
    by (auto simp: less_eq_auditCursor_def)
  show "a \<le> b \<Longrightarrow> b \<le> a \<Longrightarrow> a = b"
    by (auto simp: less_eq_auditCursor_def intro: auditCursor.expand)
  show "a \<le> b \<or> b \<le> a"
    by (auto simp: less_eq_auditCursor_def)
qed

end

definition cursor_of :: "AuditEvent \<Rightarrow> auditCursor" where
  "cursor_of ev = AuditCursor (ev_OccurredAt ev) (ev_ID ev)"

definition at_cursor :: "AuditEvent \<Rightarrow> AuditQuery \<Rightarrow> AuditQuery" where
  "at_cursor ev q = q\<lparr>q_Before := ev_OccurredAt ev, q_BeforeID := ev_ID ev\<rparr>"

text \<open>The three parts of a query: the attributes of an event, and the position of the cursor.\<close>

definition selects :: "ucd \<Rightarrow> AuditQuery \<Rightarrow> AuditEvent \<Rightarrow> bool" where
  "selects U q ev \<longleftrightarrow>
     \<not> (q_Since q \<noteq> 0 \<and> ev_OccurredAt ev < q_Since q) \<and> \<not> (q_Until q \<noteq> 0 \<and> \<not> ev_OccurredAt ev < q_Until q) \<and>
     \<not> (q_ClusterID q \<noteq> [] \<and> ev_ClusterID ev \<noteq> q_ClusterID q) \<and> \<not> (q_Actor q \<noteq> [] \<and> ev_Actor ev \<noteq> q_Actor q) \<and>
     \<not> (q_ActorType q \<noteq> [] \<and> ev_ActorType ev \<noteq> q_ActorType q) \<and> \<not> (q_Action q \<noteq> [] \<and> ev_Action ev \<noteq> q_Action q) \<and>
     (let search = ToLower U (TrimSpace (q_Search q)) in
      if search = [] then True
      else Contains (ToLower U (Join [ev_Actor ev, ev_Target ev, ev_ClusterName ev, ev_Detail ev] [CHR 0x0A])) search)"

definition below_cursor :: "AuditQuery \<Rightarrow> AuditEvent \<Rightarrow> bool" where
  "below_cursor q ev \<longleftrightarrow>
     (q_Before q \<noteq> 0 \<longrightarrow> ev_OccurredAt ev < q_Before q \<or>
        ev_OccurredAt ev = q_Before q \<and> q_BeforeID q \<noteq> [] \<and> ev_ID ev < q_BeforeID q)"

lemma auditMatches_parts: "auditMatches U q ev \<longleftrightarrow> below_cursor q ev \<and> selects U q ev"
proof -
  have guard: "(if b then False else c) \<longleftrightarrow> \<not> b \<and> c" for b c
    by simp
  have cursor: "below_cursor q ev \<longleftrightarrow> \<not> (q_Before q \<noteq> 0 \<and> q_Before q < ev_OccurredAt ev) \<and>
      \<not> (q_Before q \<noteq> 0 \<and> ev_OccurredAt ev = q_Before q \<and> (q_BeforeID q = [] \<or> q_BeforeID q \<le> ev_ID ev))"
    by (auto simp: below_cursor_def)
  show ?thesis
    unfolding cursor selects_def auditMatches_def guard by blast
qed

lemma selects_cursor [simp]: "selects U (q\<lparr>q_Before := t, q_BeforeID := i\<rparr>) ev = selects U q ev"
  by (simp add: selects_def)

lemma selects_limit [simp]: "selects U (q\<lparr>q_Limit := n\<rparr>) ev = selects U q ev"
  by (simp add: selects_def)

lemma auditMatches_limit [simp]: "auditMatches U (q\<lparr>q_Limit := n\<rparr>) = auditMatches U q"
  by (simp add: fun_eq_iff auditMatches_parts below_cursor_def)

text \<open>Moving the cursor of a query to an event it selects selects what comes below the event.\<close>

lemma auditMatches_at_cursor:
  assumes "auditMatches U q l" and "ev_OccurredAt l \<noteq> 0" and "ev_ID l \<noteq> []"
  shows "auditMatches U (at_cursor l q) ev \<longleftrightarrow> auditMatches U q ev \<and> cursor_of ev < cursor_of l"
proof -
  have "below_cursor (at_cursor l q) ev \<longleftrightarrow> cursor_of ev < cursor_of l"
    using assms(2,3) by (simp add: below_cursor_def at_cursor_def less_auditCursor_def cursor_of_def)
  moreover have "cursor_of ev < cursor_of l \<Longrightarrow> below_cursor q ev"
    using assms(1) by (auto simp: auditMatches_parts below_cursor_def less_auditCursor_def cursor_of_def)
  moreover have "selects U (at_cursor l q) ev = selects U q ev"
    by (simp add: at_cursor_def)
  ultimately show ?thesis
    by (auto simp: auditMatches_parts)
qed

section \<open>The interface of a log\<close>

locale audit_log =
  fixes invar :: "'s \<Rightarrow> bool"
    and U :: ucd
    and logged :: "'s \<Rightarrow> AuditEvent list"
    and list_audit :: "AuditQuery \<Rightarrow> 's \<Rightarrow> (error, AuditPage) result"
    and save_audit :: "'io \<Rightarrow> AuditEvent \<Rightarrow> 's \<Rightarrow> (error, unit) result \<times> 's"
    and prune_audit :: "'jo \<Rightarrow> gotime \<Rightarrow> 's \<Rightarrow> (error, unit) result \<times> 's"
  assumes valid: "invar s \<Longrightarrow> ev \<in> set (logged s) \<Longrightarrow> validateAuditEvent ev = None"
    and list_ok: "invar s \<Longrightarrow> list_audit q s = Inr page \<Longrightarrow> 1 \<le> q_Limit q \<Longrightarrow>
      page = (let all = sort_desc cursor_of (rev (filter (auditMatches U q) (logged s))) in
        \<lparr>ap_Events = take (nat (q_Limit q)) all, ap_HasMore = (q_Limit q < int (length all))\<rparr>)"
    and save_invar: "invar s \<Longrightarrow> invar (snd (save_audit io ev s))"
    and save_ok: "invar s \<Longrightarrow> save_audit io ev s = (Inr (), s') \<Longrightarrow> logged s' = logged s @ [ev]"
    and save_err: "invar s \<Longrightarrow> save_audit io ev s = (Inl e, s') \<Longrightarrow> logged s' = logged s"
    and prune_invar: "invar s \<Longrightarrow> invar (snd (prune_audit jo t s))"
    and prune_ok: "invar s \<Longrightarrow> prune_audit jo t s = (Inr (), s') \<Longrightarrow>
      logged s' = (if t = 0 then logged s else filter (\<lambda>ev. t \<le> ev_OccurredAt ev) (logged s))"
begin

text \<open>
  A full page followed by the page at the cursor of its last event is the page of both
  sizes together, if no two events have the same time and identifier.
\<close>

lemma paging:
  assumes "invar s" and "distinct (map cursor_of (logged s))"
    and "list_audit q s = Inr p1" and "1 \<le> q_Limit q" and "ap_HasMore p1"
    and "list_audit ((at_cursor (last (ap_Events p1)) q)\<lparr>q_Limit := n\<rparr>) s = Inr p2" and "1 \<le> n"
    and "list_audit (q\<lparr>q_Limit := q_Limit q + n\<rparr>) s = Inr p"
  shows "ap_Events p = ap_Events p1 @ ap_Events p2" and "ap_HasMore p = ap_HasMore p2"
proof -
  let ?all = "sort_desc cursor_of (rev (filter (auditMatches U q) (logged s)))"
  let ?k = "nat (q_Limit q)"
  have dist0: "distinct (map cursor_of (filter (auditMatches U q) (rev (logged s))))"
    using assms(2) by (intro distinct_map_filter) (simp add: rev_map [symmetric])
  then have dist: "distinct (map cursor_of ?all)"
    by (simp add: rev_filter)
  have p1: "ap_Events p1 = take ?k ?all" and more: "?k < length ?all"
    using list_ok [OF assms(1,3,4)] assms(4,5) by (simp_all add: Let_def)
  let ?l = "last (ap_Events p1)"
  have k: "0 < ?k" "?k \<le> length ?all"
    using assms(4) more by simp_all
  then have "ap_Events p1 \<noteq> []"
    unfolding p1 by (metis length_0_conv length_take min_absorb2 neq0_conv)
  then have l: "?l \<in> set ?all"
    unfolding p1 by (metis in_set_takeD last_in_set)
  then have "auditMatches U q ?l" and "validateAuditEvent ?l = None"
    using valid [OF assms(1)] by simp_all
  then have sel: "auditMatches U (at_cursor ?l q) ev \<longleftrightarrow> auditMatches U q ev \<and> cursor_of ev < cursor_of ?l" for ev
    by (intro auditMatches_at_cursor) (auto simp: validateAuditEvent_def split: if_splits)
  have "filter (auditMatches U (at_cursor ?l q)) (logged s) =
      filter (\<lambda>ev. cursor_of ev < cursor_of ?l) (filter (auditMatches U q) (logged s))"
    unfolding filter_filter using sel by (intro filter_cong) auto
  then have "sort_desc cursor_of (rev (filter (auditMatches U (at_cursor ?l q)) (logged s))) =
      filter (\<lambda>ev. cursor_of ev < cursor_of ?l) ?all"
    by (simp only: rev_filter sort_desc_filter [OF dist0])
  also have "\<dots> = drop ?k ?all"
    using desc_filter_below_last [of cursor_of ?all ?k] dist k p1 by simp
  finally have rest: "sort_desc cursor_of (rev (filter (auditMatches U (at_cursor ?l q)) (logged s))) = drop ?k ?all" .
  have p2: "ap_Events p2 = take (nat n) (drop ?k ?all)" "ap_HasMore p2 = (n < int (length ?all - ?k))"
    using list_ok [OF assms(1,6)] assms(7) rest by (simp_all add: Let_def)
  have p: "ap_Events p = take (nat (q_Limit q + n)) ?all" "ap_HasMore p = (q_Limit q + n < int (length ?all))"
    using list_ok [OF assms(1,8)] assms(4,7) by (simp_all add: Let_def)
  show "ap_Events p = ap_Events p1 @ ap_Events p2"
    using assms(4,7) by (simp add: p p1 p2 nat_add_distrib take_add)
  show "ap_HasMore p = ap_HasMore p2"
    using more assms(4) by (auto simp: p p2)
qed

end

end
