(* ===== verification/File_Audit.thy ===== *)
theory File_Audit
  imports File_History_Persistence Audit_Spec Safe_File
begin

text \<open>
  \<open>internal/store/audit_file.go\<close>, the append-only audit log, on the file system of
  \<open>File_History\<close>; and \<open>internal/store/history_local.go\<close>, which pairs a history file with
  its audit file. The log is an interpretation of the interface of \<open>Audit_Spec\<close>; the
  last sections show that the file on disk holds what the log answers from.
\<close>

definition auditRecordVersion :: int where "auditRecordVersion = 1"
definition maxAuditRecordSize :: nat where "maxAuditRecordSize = 16384"

record auditRecord =
  ar_FormatVersion :: int
  ar_AuditEvent :: AuditEvent

record FileAudit =
  fa_file :: "nat option"  \<comment> \<open>the inode of the open descriptor; \<open>None\<close> when closed\<close>
  fa_filePath :: string
  fa_events :: "AuditEvent list"

definition auditLine :: "auditRecord json_codec \<Rightarrow> AuditEvent \<Rightarrow> bytes option" where
  "auditLine C ev =
    map_option (\<lambda>j. j @ [newline]) (marshal C \<lparr>ar_FormatVersion = auditRecordVersion, ar_AuditEvent = ev\<rparr>)"

section \<open>Loading\<close>

definition loadAuditLine :: "auditRecord json_codec \<Rightarrow> AuditEvent list \<Rightarrow> bytes \<Rightarrow> (error, AuditEvent list) result" where
  "loadAuditLine C events line =
    (if maxAuditRecordSize < length line then Inl (Opaque ''audit record exceeds limit'')
     else if TrimSpace line = [] then Inr events
     else case unmarshal C line of
         None \<Rightarrow> Inl (Opaque ''decode audit record'')
       | Some record \<Rightarrow>
           if ar_FormatVersion record \<noteq> auditRecordVersion then Inl (Opaque ''unsupported audit record version'')
           else case validateAuditEvent (ar_AuditEvent record) of
               Some _ \<Rightarrow> Inl (Opaque ''validate audit record'')
             | None \<Rightarrow> Inr (events @ [ar_AuditEvent record]))"

fun loadAuditLines :: "auditRecord json_codec \<Rightarrow> AuditEvent list \<Rightarrow> bytes list \<Rightarrow> (error, AuditEvent list) result" where
  "loadAuditLines C events [] = Inr events"
| "loadAuditLines C events (l # ls) =
     (case loadAuditLine C events l of Inl e \<Rightarrow> Inl e | Inr events' \<Rightarrow> loadAuditLines C events' ls)"

definition FileAudit_load ::
    "auditRecord json_codec \<Rightarrow> bool \<Rightarrow> FileAudit \<Rightarrow> nat \<Rightarrow> fsys \<Rightarrow> (error, FileAudit) result \<times> fsys" where
  "FileAudit_load C trunc_ok a i fs =
    (let (ls, rest) = split_lines [] (fs_data fs i) in
     case loadAuditLines C (fa_events a) ls of
       Inl e \<Rightarrow> (Inl e, fs)
     | Inr events \<Rightarrow>
         if rest = [] then (Inr (a\<lparr>fa_events := events\<rparr>), fs)
         else if trunc_ok then (Inr (a\<lparr>fa_events := events\<rparr>), set_data i (concat ls) fs)
         else (Inl (Opaque ''discard partial audit record''), fs))"

text \<open>\<open>path\<close> is the path that \<open>safefile.OpenFile\<close> has authorised.\<close>

definition NewFileAudit :: "auditRecord json_codec \<Rightarrow> bool \<Rightarrow> string \<Rightarrow> fsys \<Rightarrow> (error, FileAudit) result \<times> fsys" where
  "NewFileAudit C trunc_ok path fs =
    (if TrimSpace path = [] then (Inl (Opaque ''audit file path cannot be empty''), fs)
     else let (i, fs') = open_inode path fs in
       FileAudit_load C trunc_ok \<lparr>fa_file = Some i, fa_filePath = path, fa_events = []\<rparr> i fs')"

section \<open>Operations\<close>

definition FileAudit_SaveAudit ::
    "auditRecord json_codec \<Rightarrow> append_io \<Rightarrow> AuditEvent \<Rightarrow> FileAudit \<times> fsys \<Rightarrow> (error, unit) result \<times> (FileAudit \<times> fsys)" where
  "FileAudit_SaveAudit C io ev st =
    (let (a, fs) = st in
     case validateAuditEvent ev of
       Some e \<Rightarrow> (Inl e, st)
     | None \<Rightarrow>
         (case auditLine C ev of
            None \<Rightarrow> (Inl (Opaque ''encode audit record''), st)
          | Some data \<Rightarrow>
              if maxAuditRecordSize < length data then (Inl (Opaque ''audit record exceeds limit''), st)
              else case fa_file a of
                  None \<Rightarrow> (Inl (Opaque ''audit file is closed''), st)
                | Some i \<Rightarrow>
                    (case appendRecord io i data fs of
                       (Some e, fs') \<Rightarrow> (Inl (Opaque ''append audit record''), (a, fs'))
                     | (None, fs') \<Rightarrow> (Inr (), (a\<lparr>fa_events := fa_events a @ [ev]\<rparr>, fs')))))"

definition FileAudit_ListAudit :: "ucd \<Rightarrow> AuditQuery \<Rightarrow> FileAudit \<Rightarrow> (error, AuditPage) result" where
  "FileAudit_ListAudit U query a =
    (if q_Limit query < 1 then Inr \<lparr>ap_Events = [], ap_HasMore = False\<rparr>
     else if fa_file a = None then Inl (Opaque ''audit file is closed'')
     else
       let events = sort_desc cursor_of (filter (auditMatches U query) (rev (fa_events a)));
           hasMore = int (length events) > q_Limit query in
       Inr \<lparr>ap_Events = (if hasMore then take (nat (q_Limit query)) events else events), ap_HasMore = hasMore\<rparr>)"

fun encodeAudit :: "auditRecord json_codec \<Rightarrow> AuditEvent list \<Rightarrow> bytes option" where
  "encodeAudit C [] = Some []"
| "encodeAudit C (ev # evs) =
     (case (auditLine C ev, encodeAudit C evs) of (Some l, Some ls) \<Rightarrow> Some (l @ ls) | _ \<Rightarrow> None)"

definition FileAudit_replaceLocked ::
    "auditRecord json_codec \<Rightarrow> replace_fault \<Rightarrow> AuditEvent list \<Rightarrow> FileAudit \<times> fsys \<Rightarrow>
      (error, unit) result \<times> (FileAudit \<times> fsys)" where
  "FileAudit_replaceLocked C rf events st =
    (let (a, fs) = st in
     case encodeAudit C events of
       None \<Rightarrow> (Inl (Opaque ''encode pruned audit record''), st)
     | Some data \<Rightarrow>
         if rf = BeforeRenameFails then (Inl (Opaque ''replace pruned audit file''), st)
         else
           let fs' = fs\<lparr>fs_inode := (fs_inode fs)(fa_filePath a \<mapsto> fs_next fs),
                        fs_data := (fs_data fs)(fs_next fs := data), fs_next := Suc (fs_next fs)\<rparr> in
           if rf = ReopenFails then (Inl (Opaque ''reopen pruned audit file''), (a, fs'))
           else
             (if rf = CloseOldFails then Inl (Opaque ''close replaced audit file'') else Inr (),
              (a\<lparr>fa_file := Some (fs_next fs), fa_events := events\<rparr>, fs')))"

definition FileAudit_PruneAudit ::
    "auditRecord json_codec \<Rightarrow> replace_fault \<Rightarrow> gotime \<Rightarrow> FileAudit \<times> fsys \<Rightarrow> (error, unit) result \<times> (FileAudit \<times> fsys)" where
  "FileAudit_PruneAudit C rf before st =
    (let (a, fs) = st in
     if before = 0 then (Inr (), st)
     else if fa_file a = None then (Inl (Opaque ''audit file is closed''), st)
     else
       let kept = filter (\<lambda>ev. \<not> ev_OccurredAt ev < before) (fa_events a) in
       if length kept = length (fa_events a) then (Inr (), st) else FileAudit_replaceLocked C rf kept st)"

definition FileAudit_Close :: "FileAudit \<Rightarrow> FileAudit" where
  "FileAudit_Close a = a\<lparr>fa_file := None\<rparr>"

section \<open>The local backend\<close>

record localHistoryBackend =
  lb_history :: FileHistory
  lb_audit :: FileAudit

text \<open>\<open>filepath.Ext\<close>: from the last dot of the last element; empty if there is none.\<close>

definition Ext :: "string \<Rightarrow> string" where
  "Ext p =
    (let name = rev (takeWhile (\<lambda>c. c \<noteq> CHR ''/'') (rev p)) in
     if CHR ''.'' \<in> set name then CHR ''.'' # rev (takeWhile (\<lambda>c. c \<noteq> CHR ''.'') (rev name)) else [])"

definition auditFilePath :: "string \<Rightarrow> string" where
  "auditFilePath historyFile = take (length historyFile - length (Ext historyFile)) historyFile @ ''.audit.jsonl''"

text \<open>Both files are opened through \<open>safefile.OpenFile\<close>, which authorises their paths.\<close>

definition newLocalHistoryBackend ::
    "historyRecord json_codec \<Rightarrow> auditRecord json_codec \<Rightarrow> bool \<Rightarrow> string option \<Rightarrow> string \<Rightarrow> string \<Rightarrow> fsys \<Rightarrow>
      (error, localHistoryBackend) result \<times> fsys" where
  "newLocalHistoryBackend C A trunc_ok cwd historyFile managedRoot fs =
    (case resolve cwd managedRoot historyFile of
       Inl _ \<Rightarrow> (Inl (Opaque ''open history file''), fs)
     | Inr (_, _, path) \<Rightarrow>
         (case NewFileHistory C trunc_ok path fs of
            (Inl e, fs') \<Rightarrow> (Inl e, fs')
          | (Inr history, fs') \<Rightarrow>
              (case resolve cwd managedRoot (auditFilePath historyFile) of
                 Inl _ \<Rightarrow> (Inl (Opaque ''open audit file''), fs')
               | Inr (_, _, auditPath) \<Rightarrow>
                   (case NewFileAudit A trunc_ok auditPath fs' of
                      (Inl e, fs'') \<Rightarrow> (Inl e, fs'')
                    | (Inr audit, fs'') \<Rightarrow> (Inr \<lparr>lb_history = history, lb_audit = audit\<rparr>, fs'')))))"

definition localHistoryBackend_SaveAudit ::
    "auditRecord json_codec \<Rightarrow> append_io \<Rightarrow> AuditEvent \<Rightarrow> localHistoryBackend \<times> fsys \<Rightarrow>
      (error, unit) result \<times> (localHistoryBackend \<times> fsys)" where
  "localHistoryBackend_SaveAudit A io ev st =
    (let (b, fs) = st; (r, (a, fs')) = FileAudit_SaveAudit A io ev (lb_audit b, fs) in (r, (b\<lparr>lb_audit := a\<rparr>, fs')))"

definition localHistoryBackend_ListAudit :: "ucd \<Rightarrow> AuditQuery \<Rightarrow> localHistoryBackend \<Rightarrow> (error, AuditPage) result" where
  "localHistoryBackend_ListAudit U query b = FileAudit_ListAudit U query (lb_audit b)"

definition localHistoryBackend_PruneAudit ::
    "auditRecord json_codec \<Rightarrow> replace_fault \<Rightarrow> gotime \<Rightarrow> localHistoryBackend \<times> fsys \<Rightarrow>
      (error, unit) result \<times> (localHistoryBackend \<times> fsys)" where
  "localHistoryBackend_PruneAudit A rf before st =
    (let (b, fs) = st; (r, (a, fs')) = FileAudit_PruneAudit A rf before (lb_audit b, fs) in (r, (b\<lparr>lb_audit := a\<rparr>, fs')))"

definition localHistoryBackend_Close :: "localHistoryBackend \<Rightarrow> localHistoryBackend" where
  "localHistoryBackend_Close b = \<lparr>lb_history = FileHistory_Close (lb_history b), lb_audit = FileAudit_Close (lb_audit b)\<rparr>"

section \<open>The log as an audit log\<close>

definition fa_inv :: "FileAudit \<times> fsys \<Rightarrow> bool" where
  "fa_inv st \<longleftrightarrow> list_all (\<lambda>ev. validateAuditEvent ev = None) (fa_events (fst st))"

lemma filter_length_eq: "length (filter P xs) = length xs \<Longrightarrow> filter P xs = xs"
  by (metis filter_id_conv filter_True length_filter_less less_irrefl)

lemma FileAudit_ListAudit_ok:
  assumes "FileAudit_ListAudit U q a = Inr page" and "1 \<le> q_Limit q"
  shows "page = (let all = sort_desc cursor_of (rev (filter (auditMatches U q) (fa_events a))) in
        \<lparr>ap_Events = take (nat (q_Limit q)) all, ap_HasMore = (q_Limit q < int (length all))\<rparr>)"
  using assms by (auto simp: FileAudit_ListAudit_def Let_def rev_filter split: if_splits)

lemma FileAudit_SaveAudit_cases:
  assumes "FileAudit_SaveAudit C io ev (a, fs) = (r, (a', fs'))"
  shows "(r = Inr () \<and> validateAuditEvent ev = None \<and> a' = a\<lparr>fa_events := fa_events a @ [ev]\<rparr> \<and>
            (\<exists>i l. fa_file a = Some i \<and> auditLine C ev = Some l \<and> length l \<le> maxAuditRecordSize \<and>
               fs' = set_data i (fs_data fs i @ l) fs)) \<or>
         (\<exists>e. r = Inl e) \<and> a' = a"
  using assms
  by (auto simp: FileAudit_SaveAudit_def appendRecord_def Let_def split: option.splits if_splits prod.splits append_fault.splits)

lemma FileAudit_replaceLocked_events:
  assumes "FileAudit_replaceLocked C rf evs (a, fs) = (r, (a', fs'))"
  shows "fa_events a' = fa_events a \<or> fa_events a' = evs" and "r = Inr () \<Longrightarrow> fa_events a' = evs"
  using assms by (auto simp: FileAudit_replaceLocked_def Let_def split: option.splits if_splits)

lemma FileAudit_PruneAudit_events:
  assumes "FileAudit_PruneAudit C rf t (a, fs) = (r, (a', fs'))"
  shows "fa_events a' = fa_events a \<or> fa_events a' = filter (\<lambda>ev. t \<le> ev_OccurredAt ev) (fa_events a)"
    and "r = Inr () \<Longrightarrow> fa_events a' = (if t = 0 then fa_events a else filter (\<lambda>ev. t \<le> ev_OccurredAt ev) (fa_events a))"
proof -
  let ?kept = "filter (\<lambda>ev. \<not> ev_OccurredAt ev < t) (fa_events a)"
  have kept: "?kept = filter (\<lambda>ev. t \<le> ev_OccurredAt ev) (fa_events a)"
    by (simp add: not_less)
  have "(a' = a \<and> (r = Inr () \<longrightarrow> t = 0 \<or> ?kept = fa_events a)) \<or>
      t \<noteq> 0 \<and> FileAudit_replaceLocked C rf ?kept (a, fs) = (r, (a', fs'))"
  proof (cases "t = 0 \<or> fa_file a = None \<or> length ?kept = length (fa_events a)")
    case True
    then have "a' = a" and "r = Inr () \<longrightarrow> t = 0 \<or> length ?kept = length (fa_events a)"
      using assms by (auto simp: FileAudit_PruneAudit_def Let_def split: if_splits)
    then show ?thesis using filter_length_eq by blast
  next
    case False
    then show ?thesis using assms by (auto simp: FileAudit_PruneAudit_def Let_def split: if_splits)
  qed
  then show "fa_events a' = fa_events a \<or> fa_events a' = filter (\<lambda>ev. t \<le> ev_OccurredAt ev) (fa_events a)"
    and "r = Inr () \<Longrightarrow> fa_events a' = (if t = 0 then fa_events a else filter (\<lambda>ev. t \<le> ev_OccurredAt ev) (fa_events a))"
    unfolding kept using FileAudit_replaceLocked_events by (metis, metis)
qed

interpretation fa: audit_log fa_inv U "\<lambda>st. fa_events (fst st)" "\<lambda>q st. FileAudit_ListAudit U q (fst st)"
    "FileAudit_SaveAudit C" "FileAudit_PruneAudit C" for U C
proof (unfold_locales, goal_cases)
  case (1 s ev)
  then show ?case by (simp add: fa_inv_def list_all_iff)
next
  case (2 s q page)
  then show ?case by (intro FileAudit_ListAudit_ok) simp_all
next
  case (3 s io ev)
  then show ?case
    using FileAudit_SaveAudit_cases [of C io ev "fst s" "snd s"]
    by (cases "FileAudit_SaveAudit C io ev s") (auto simp: fa_inv_def)
next
  case (4 s io ev s')
  then show ?case
    using FileAudit_SaveAudit_cases [of C io ev "fst s" "snd s" "Inr ()" "fst s'" "snd s'"] by auto
next
  case (5 s io ev e s')
  then show ?case
    using FileAudit_SaveAudit_cases [of C io ev "fst s" "snd s" "Inl e" "fst s'" "snd s'"] by auto
next
  case (6 s rf t)
  obtain r a' fs' where p: "FileAudit_PruneAudit C rf t (fst s, snd s) = (r, (a', fs'))"
    by (metis prod_cases3)
  with 6 show ?case
    using FileAudit_PruneAudit_events(1) [OF p] by (auto simp: fa_inv_def list_all_iff)
next
  case (7 s rf t s')
  then show ?case
    using FileAudit_PruneAudit_events(2) [of C rf t "fst s" "snd s" "Inr ()" "fst s'" "snd s'"] by simp
qed

section \<open>The file holds the log\<close>

text \<open>
  What the code relies on of \<open>encoding/json\<close>: an event whose strings are UTF-8 is encoded as
  one line, not blank, from which it is decoded again.
\<close>

definition event_utf8 :: "AuditEvent \<Rightarrow> bool" where
  "event_utf8 ev \<longleftrightarrow> utf8Valid (ev_ID ev) \<and> utf8Valid (ev_Actor ev) \<and> utf8Valid (ev_ActorType ev) \<and>
     utf8Valid (ev_ClientIP ev) \<and> utf8Valid (ev_Action ev) \<and> utf8Valid (ev_ResourceType ev) \<and>
     utf8Valid (ev_ClusterID ev) \<and> utf8Valid (ev_ClusterName ev) \<and> utf8Valid (ev_Target ev) \<and>
     utf8Valid (ev_Detail ev) \<and> utf8Valid (ev_Result ev)"

definition json_audit_law :: "auditRecord json_codec \<Rightarrow> bool" where
  "json_audit_law C \<longleftrightarrow>
    (\<forall>ev j. event_utf8 ev \<longrightarrow> marshal C \<lparr>ar_FormatVersion = auditRecordVersion, ar_AuditEvent = ev\<rparr> = Some j \<longrightarrow>
       newline \<notin> set j \<and> TrimSpace (j @ [newline]) \<noteq> [] \<and>
       unmarshal C (j @ [newline]) = Some \<lparr>ar_FormatVersion = auditRecordVersion, ar_AuditEvent = ev\<rparr>)"

text \<open>Events that have been written: valid, UTF-8, and with a line of bounded length.\<close>

definition event_stored :: "auditRecord json_codec \<Rightarrow> AuditEvent \<Rightarrow> bool" where
  "event_stored C ev \<longleftrightarrow> event_utf8 ev \<and> validateAuditEvent ev = None \<and>
     (\<exists>l. auditLine C ev = Some l \<and> length l \<le> maxAuditRecordSize)"

definition fa_synced :: "auditRecord json_codec \<Rightarrow> FileAudit \<Rightarrow> fsys \<Rightarrow> bool" where
  "fa_synced C a fs \<longleftrightarrow>
    list_all (event_stored C) (fa_events a) \<and>
    (\<exists>i. fa_file a = Some i \<and> fs_inode fs (fa_filePath a) = Some i \<and>
       encodeAudit C (fa_events a) = Some (fs_data fs i))"

lemma encodeAudit_append:
  "encodeAudit C (xs @ ys) =
    (case (encodeAudit C xs, encodeAudit C ys) of (Some a, Some b) \<Rightarrow> Some (a @ b) | _ \<Rightarrow> None)"
  by (induction xs) (auto split: option.splits)

lemma event_stored_line:
  assumes "json_audit_law C" and "event_stored C ev"
  obtains j where "auditLine C ev = Some (j @ [newline])" and "newline \<notin> set j"
    and "loadAuditLine C evs (j @ [newline]) = Inr (evs @ [ev])"
proof -
  obtain j where j: "marshal C \<lparr>ar_FormatVersion = auditRecordVersion, ar_AuditEvent = ev\<rparr> = Some j"
    and "length (j @ [newline]) \<le> maxAuditRecordSize"
    using assms(2) by (auto simp: event_stored_def auditLine_def)
  moreover have "event_utf8 ev" "validateAuditEvent ev = None"
    using assms(2) by (simp_all add: event_stored_def)
  ultimately show thesis
    using assms(1) that [of j] by (auto simp: json_audit_law_def auditLine_def loadAuditLine_def)
qed

text \<open>Reading back what encoding a log has written.\<close>

lemma load_encoded:
  assumes "json_audit_law C" and "list_all (event_stored C) evs" and "encodeAudit C evs = Some data"
    and "newline \<notin> set torn"
  shows "\<exists>ls. split_lines [] (data @ torn) = (ls, torn) \<and> concat ls = data \<and> loadAuditLines C acc ls = Inr (acc @ evs)"
  using assms(2,3)
proof (induction evs arbitrary: data acc)
  case Nil
  then show ?case using split_lines_noline [OF assms(4), of "[]"] by simp
next
  case (Cons ev evs)
  then obtain rest where rest: "encodeAudit C evs = Some rest"
    by (auto split: option.splits)
  obtain j where j: "auditLine C ev = Some (j @ [newline])" "newline \<notin> set j"
    and load: "loadAuditLine C acc (j @ [newline]) = Inr (acc @ [ev])"
    using event_stored_line [OF assms(1), of ev acc] Cons.prems(1) by auto
  have data: "data = j @ [newline] @ rest"
    using Cons.prems(2) j rest by simp
  have "list_all (event_stored C) evs"
    using Cons.prems(1) by simp
  from Cons.IH [OF this rest, of "acc @ [ev]"]
  obtain ls where "split_lines [] (rest @ torn) = (ls, torn)" "concat ls = rest"
    "loadAuditLines C (acc @ [ev]) ls = Inr ((acc @ [ev]) @ evs)"
    by blast
  then show ?case
    using split_lines_line [OF j(2), of "[]" "rest @ torn"] load by (simp add: data)
qed

lemma FileAudit_SaveAudit_synced:
  assumes "json_audit_law C" and "event_utf8 ev" and "fa_synced C a fs"
    and "FileAudit_SaveAudit C io ev (a, fs) = (Inr (), (a', fs'))"
  shows "fa_synced C a' fs'"
proof -
  obtain i l where i: "fa_file a = Some i" and l: "auditLine C ev = Some l" "length l \<le> maxAuditRecordSize"
    and ev: "validateAuditEvent ev = None"
    and a': "a' = a\<lparr>fa_events := fa_events a @ [ev]\<rparr>" and fs': "fs' = set_data i (fs_data fs i @ l) fs"
    using FileAudit_SaveAudit_cases [OF assms(4)] by auto
  have "event_stored C ev"
    using assms(2) l ev by (auto simp: event_stored_def)
  then show ?thesis
    using assms(3) i l by (auto simp: fa_synced_def a' fs' encodeAudit_append set_data_def)
qed

lemma NewFileAudit_synced:
  assumes "json_audit_law C" and "fa_synced C a fs" and "TrimSpace (fa_filePath a) \<noteq> []" and "newline \<notin> set torn"
    and "fa_file a = Some i"
  shows "NewFileAudit C True (fa_filePath a) (set_data i (fs_data fs i @ torn) fs) = (Inr a, fs)"
proof -
  have i: "fs_inode fs (fa_filePath a) = Some i" and enc: "encodeAudit C (fa_events a) = Some (fs_data fs i)"
    and all: "list_all (event_stored C) (fa_events a)"
    using assms(2,5) by (auto simp: fa_synced_def)
  obtain ls where "split_lines [] (fs_data fs i @ torn) = (ls, torn)" "concat ls = fs_data fs i"
    "loadAuditLines C [] ls = Inr (fa_events a)"
    using load_encoded [OF assms(1) all enc assms(4), of "[]"] by auto
  moreover have "set_data i (fs_data fs i) fs = fs" "\<lparr>fa_file = Some i, fa_filePath = fa_filePath a, fa_events = fa_events a\<rparr> = a"
    using assms(5) by (simp_all add: set_data_def)
  ultimately show ?thesis
    using assms(3) i by (auto simp: NewFileAudit_def open_inode_def FileAudit_load_def set_data_def)
qed

lemma FileAudit_PruneAudit_synced:
  assumes "fa_synced C a fs" and "FileAudit_PruneAudit C rf t (a, fs) = (Inr (), (a', fs'))"
  shows "fa_synced C a' fs'"
proof (cases "a' = a \<and> fs' = fs")
  case True
  then show ?thesis using assms(1) by simp
next
  case False
  let ?kept = "filter (\<lambda>ev. \<not> ev_OccurredAt ev < t) (fa_events a)"
  have "FileAudit_replaceLocked C rf ?kept (a, fs) = (Inr (), (a', fs'))"
    using assms(2) False by (auto simp: FileAudit_PruneAudit_def Let_def split: if_splits)
  moreover have "list_all (event_stored C) ?kept"
    using assms(1) by (auto simp: fa_synced_def list_all_iff)
  ultimately show ?thesis
    by (auto simp: fa_synced_def FileAudit_replaceLocked_def Let_def split: option.splits if_splits)
qed

end
