(* ===== verification/Audit_Theorems.thy ===== *)
theory Audit_Theorems
  imports File_Audit Line_Codec
begin

text \<open>
  What the audit file guarantees: paging by cursor is exact, an acknowledged event survives a
  restart and a torn append, and pruning removes exactly the events before the cut-off, in memory
  and on disk. The first section has a concrete codec for the closed instances.
\<close>

section \<open>A concrete codec\<close>

definition auditFields :: "auditRecord \<Rightarrow> string list" where
  "auditFields r =
    (let ev = ar_AuditEvent r in
     [FormatInt (ar_FormatVersion r), ev_ID ev, FormatInt (ev_OccurredAt ev), ev_Actor ev, ev_ActorType ev, ev_ClientIP ev,
      ev_Action ev, ev_ResourceType ev, ev_ClusterID ev, ev_ClusterName ev, ev_Target ev, ev_Detail ev, ev_Result ev])"

fun fieldsAudit :: "string list \<Rightarrow> auditRecord option" where
  "fieldsAudit [v, i, t, a, b, c, d, e, f, g, h, j, k] =
     (case (ParseInt v, ParseInt t) of
        (Some v', Some t') \<Rightarrow>
          Some \<lparr>ar_FormatVersion = v', ar_AuditEvent =
            \<lparr>ev_ID = i, ev_OccurredAt = t', ev_Actor = a, ev_ActorType = b, ev_ClientIP = c, ev_Action = d,
             ev_ResourceType = e, ev_ClusterID = f, ev_ClusterName = g, ev_Target = h, ev_Detail = j, ev_Result = k\<rparr>\<rparr>
      | _ \<Rightarrow> None)"
| "fieldsAudit _ = None"

definition audit_codec :: "auditRecord json_codec" where
  "audit_codec =
    \<lparr>marshal = (\<lambda>r. if int64 (ev_OccurredAt (ar_AuditEvent r)) then Some (writeFields (auditFields r)) else None),
     unmarshal = (\<lambda>s. case readFields s of None \<Rightarrow> None | Some fs \<Rightarrow> fieldsAudit fs)\<rparr>"

lemma audit_codec_law: "json_audit_law audit_codec"
  unfolding json_audit_law_def
proof (intro allI impI conjI)
  fix ev j
  let ?r = "\<lparr>ar_FormatVersion = auditRecordVersion, ar_AuditEvent = ev\<rparr>"
  assume "marshal audit_codec ?r = Some j"
  then have j: "j = writeFields (auditFields ?r)" and t: "int64 (ev_OccurredAt ev)"
    by (auto simp: audit_codec_def split: if_splits)
  show "newline \<notin> set j"
    using std_plain(2) by (auto simp: j writeFields_def newline_def)
  show "TrimSpace (j @ [newline]) \<noteq> []"
    by (rule TrimSpace_keeps [of "CHR ''{''"]) (simp_all add: j writeFields_def byte_def)
  have "fieldsAudit (auditFields ?r) = Some ?r"
    using t by (simp add: auditFields_def ParseInt_FormatInt auditRecordVersion_def int64_def)
  then show "unmarshal audit_codec (j @ [newline]) = Some ?r"
    by (simp add: audit_codec_def j readFields_write)
qed

definition sample_event :: "gotime \<Rightarrow> char \<Rightarrow> AuditEvent" where
  "sample_event t c =
    \<lparr>ev_ID = replicate 32 c, ev_OccurredAt = t, ev_Actor = ''bob'', ev_ActorType = ''local'', ev_ClientIP = [],
     ev_Action = ''put'', ev_ResourceType = ''key'', ev_ClusterID = ''c'', ev_ClusterName = ''n'', ev_Target = ''k'',
     ev_Detail = [], ev_Result = ''ok''\<rparr>"

lemma sample_event_valid: "t \<noteq> 0 \<Longrightarrow> validateAuditEvent (sample_event t c) = None"
  by (simp add: validateAuditEvent_def sample_event_def visible_def byte_def)

lemma sample_event_utf8: "byte c < 0x80 \<Longrightarrow> event_utf8 (sample_event t c)"
  by (simp add: event_utf8_def sample_event_def utf8Valid_ascii [of "replicate 32 c"] ascii_def)
    (simp add: byte_def RuneError_def)

definition all_events :: AuditQuery where
  "all_events = \<lparr>q_Since = 0, q_Until = 0, q_Before = 0, q_BeforeID = [], q_Limit = 1, q_ClusterID = [], q_Actor = [],
     q_ActorType = [], q_Action = [], q_Search = []\<rparr>"

section \<open>Paging\<close>


definition sample_log :: FileAudit where
  "sample_log = \<lparr>fa_file = Some 0, fa_filePath = ''a'', fa_events = [sample_event 5 CHR ''x'', sample_event 7 CHR ''y'']\<rparr>"

lemma sample_log_list:
  "FileAudit_ListAudit basic_ucd all_events sample_log = Inr \<lparr>ap_Events = [sample_event 7 CHR ''y''], ap_HasMore = True\<rparr>"
  "FileAudit_ListAudit basic_ucd ((at_cursor (sample_event 7 CHR ''y'') all_events)\<lparr>q_Limit := 1\<rparr>) sample_log =
     Inr \<lparr>ap_Events = [sample_event 5 CHR ''x''], ap_HasMore = False\<rparr>"
  "FileAudit_ListAudit basic_ucd (all_events\<lparr>q_Limit := q_Limit all_events + 1\<rparr>) sample_log =
     Inr \<lparr>ap_Events = [sample_event 7 CHR ''y'', sample_event 5 CHR ''x''], ap_HasMore = False\<rparr>"
  by (simp_all add: FileAudit_ListAudit_def sample_log_def all_events_def at_cursor_def auditMatches_parts below_cursor_def
      selects_def sample_event_def sort_desc_def cursor_of_def less_eq_auditCursor_def less_auditCursor_def ToLower_def
      string_of_runes_def)


section \<open>Durability\<close>

text \<open>
  C38. Once \<open>SaveAudit\<close> has returned without error, a restart reads the log with the event
  from the file, even if a later append was torn in the middle of its line.
\<close>

theorem audit_save_survives_restart:
  assumes "json_audit_law C" and "event_utf8 ev" and "fa_synced C a fs" and "TrimSpace (fa_filePath a) \<noteq> []"
    and "FileAudit_SaveAudit C io ev (a, fs) = (Inr (), (a', fs'))" and "fa_file a = Some i" and "newline \<notin> set torn"
  shows "NewFileAudit C True (fa_filePath a) (set_data i (fs_data fs' i @ torn) fs') = (Inr a', fs') \<and>
    fa_events a' = fa_events a @ [ev]"
proof -
  have "fa_filePath a' = fa_filePath a" "fa_file a' = Some i" "fa_events a' = fa_events a @ [ev]"
    using FileAudit_SaveAudit_cases [OF assms(5)] assms(6) by auto
  then show ?thesis
    using NewFileAudit_synced [OF assms(1) FileAudit_SaveAudit_synced [OF assms(1-3,5)] _ assms(7)] assms(4) by simp
qed

definition empty_log :: FileAudit where
  "empty_log = \<lparr>fa_file = Some 0, fa_filePath = ''a'', fa_events = []\<rparr>"

definition log_fs :: fsys where
  "log_fs = \<lparr>fs_inode = [''a'' \<mapsto> 0], fs_data = (\<lambda>_. []), fs_next = 1\<rparr>"

lemma sample_line: "\<exists>l. auditLine audit_codec (sample_event 5 c) = Some l \<and> length l \<le> maxAuditRecordSize"
  by (simp add: auditLine_def audit_codec_def sample_event_def int64_def length_writeFields auditFields_def Let_def
      auditRecordVersion_def maxAuditRecordSize_def FormatInt_def natDigits.simps)

lemma sample_append: "\<exists>fs. FileAudit_SaveAudit audit_codec \<lparr>ai_fault = AppendOk, ai_truncate_ok = True\<rparr> (sample_event 5 CHR ''x'')
    (empty_log, log_fs) = (Inr (), (empty_log\<lparr>fa_events := [sample_event 5 CHR ''x'']\<rparr>, fs))"
proof -
  obtain l where "auditLine audit_codec (sample_event 5 CHR ''x'') = Some l" "\<not> maxAuditRecordSize < length l"
    using sample_line [of "CHR ''x''"] by auto
  then show ?thesis
    by (simp add: FileAudit_SaveAudit_def sample_event_valid empty_log_def appendRecord_def)
qed

theorem audit_save_survives_restart_witness:
  "\<exists>a fs. FileAudit_SaveAudit audit_codec \<lparr>ai_fault = AppendOk, ai_truncate_ok = True\<rparr> (sample_event 5 CHR ''x'') (empty_log, log_fs) =
       (Inr (), (a, fs)) \<and>
     NewFileAudit audit_codec True ''a'' (set_data 0 (fs_data fs 0 @ ''{torn'') fs) = (Inr a, fs) \<and> a \<noteq> empty_log"
proof -
  obtain fs where save: "FileAudit_SaveAudit audit_codec \<lparr>ai_fault = AppendOk, ai_truncate_ok = True\<rparr> (sample_event 5 CHR ''x'')
      (empty_log, log_fs) = (Inr (), (empty_log\<lparr>fa_events := [sample_event 5 CHR ''x'']\<rparr>, fs))"
    using sample_append by blast
  have "fa_synced audit_codec empty_log log_fs"
    by (simp add: fa_synced_def empty_log_def log_fs_def)
  moreover have "TrimSpace ''a'' \<noteq> []"
    by (simp add: visible_def byte_def)
  ultimately show ?thesis
    using audit_save_survives_restart [OF audit_codec_law sample_event_utf8 _ _ save, of 0 "''{torn''"] save
    by (auto simp: empty_log_def byte_def newline_def)
qed

section \<open>Retention\<close>

text \<open>
  A successful \<open>PruneAudit\<close> leaves exactly the events that are not older than the
  cut-off, in their order, and the file on disk holds exactly these: a restart loads them.
\<close>

theorem audit_prune_exact:
  assumes "json_audit_law C" and "fa_synced C a fs" and "t \<noteq> 0" and "TrimSpace (fa_filePath a) \<noteq> []"
    and "FileAudit_PruneAudit C rf t (a, fs) = (Inr (), (a', fs'))"
  shows "fa_events a' = filter (\<lambda>ev. t \<le> ev_OccurredAt ev) (fa_events a) \<and>
    NewFileAudit C True (fa_filePath a) fs' = (Inr a', fs')"
proof -
  have sync: "fa_synced C a' fs'"
    by (rule FileAudit_PruneAudit_synced [OF assms(2,5)])
  then obtain i where i: "fa_file a' = Some i" by (auto simp: fa_synced_def)
  have "fa_filePath a' = fa_filePath a"
    using assms(5) by (auto simp: FileAudit_PruneAudit_def FileAudit_replaceLocked_def Let_def split: if_splits option.splits)
  moreover have "set_data i (fs_data fs' i @ []) fs' = fs'"
    by (simp add: set_data_def)
  ultimately show ?thesis
    using NewFileAudit_synced [OF assms(1) sync _ _ i, of "[]"] FileAudit_PruneAudit_events(2) [OF assms(5)] assms(3,4) by simp
qed

theorem audit_prune_exact_witness:
  "\<exists>a1 fs1 a fs. FileAudit_SaveAudit audit_codec \<lparr>ai_fault = AppendOk, ai_truncate_ok = True\<rparr> (sample_event 5 CHR ''x'') (empty_log, log_fs) =
       (Inr (), (a1, fs1)) \<and> FileAudit_PruneAudit audit_codec ReplaceOk 6 (a1, fs1) = (Inr (), (a, fs)) \<and>
     NewFileAudit audit_codec True ''a'' fs = (Inr a, fs) \<and> fa_events a = []"
proof -
  obtain fs1 where save: "FileAudit_SaveAudit audit_codec \<lparr>ai_fault = AppendOk, ai_truncate_ok = True\<rparr> (sample_event 5 CHR ''x'')
      (empty_log, log_fs) = (Inr (), (empty_log\<lparr>fa_events := [sample_event 5 CHR ''x'']\<rparr>, fs1))"
    using sample_append by blast
  let ?a1 = "empty_log\<lparr>fa_events := [sample_event 5 CHR ''x'']\<rparr>"
  have "fa_synced audit_codec empty_log log_fs"
    by (simp add: fa_synced_def empty_log_def log_fs_def)
  then have sync: "fa_synced audit_codec ?a1 fs1"
    using FileAudit_SaveAudit_synced [OF audit_codec_law sample_event_utf8 _ save] by (simp add: byte_def)
  obtain a fs where prune: "FileAudit_PruneAudit audit_codec ReplaceOk 6 (?a1, fs1) = (Inr (), (a, fs))"
    by (simp add: FileAudit_PruneAudit_def FileAudit_replaceLocked_def empty_log_def sample_event_def)
  have "TrimSpace ''a'' \<noteq> []"
    by (simp add: visible_def byte_def)
  with audit_prune_exact [OF audit_codec_law sync _ _ prune] save prune show ?thesis
    by (auto simp: empty_log_def sample_event_def)
qed

end
