(* ===== verification/History_Manager.thy ===== *)
theory History_Manager
  imports File_Audit Atomic_File
begin

text \<open>
  \<open>internal/store/history_manager.go\<close>: the choice, configuration and use of one history
  backend. The backend is the Go interface \<open>historyBackend\<close>: a record of operations over a
  backend value, the world it stores in, and a per-call environment (clock and faults). The
  local backend of \<open>File_Audit\<close> is one instance; the database backend, whose SQL runs in a
  database server, is another.
\<close>

section \<open>The backend interface\<close>

record ('e, 'b, 'w) history_ops =
  ho_open :: "'e \<Rightarrow> HistoryStorageInput \<Rightarrow> bool \<Rightarrow> string \<Rightarrow> 'w \<Rightarrow> (error, 'b) result \<times> 'w"
  ho_Save :: "'e \<Rightarrow> ValueSnapshot \<Rightarrow> 'b \<times> 'w \<Rightarrow> (error, unit) result \<times> ('b \<times> 'w)"
  ho_LatestBefore :: "'e \<Rightarrow> string \<Rightarrow> bytes \<Rightarrow> int \<Rightarrow> 'b \<times> 'w \<Rightarrow> (error, ValueSnapshot option) result"
  ho_ListBefore :: "'e \<Rightarrow> string \<Rightarrow> bytes \<Rightarrow> int \<Rightarrow> int \<Rightarrow> 'b \<times> 'w \<Rightarrow> (error, ValueSnapshot list) result"
  ho_PruneKey :: "'e \<Rightarrow> string \<Rightarrow> bytes \<Rightarrow> int \<Rightarrow> 'b \<times> 'w \<Rightarrow> (error, unit) result \<times> ('b \<times> 'w)"
  ho_Prune :: "'e \<Rightarrow> int \<Rightarrow> 'b \<times> 'w \<Rightarrow> (error, unit) result \<times> ('b \<times> 'w)"
  ho_SaveAudit :: "'e \<Rightarrow> AuditEvent \<Rightarrow> 'b \<times> 'w \<Rightarrow> (error, unit) result \<times> ('b \<times> 'w)"
  ho_ListAudit :: "'e \<Rightarrow> AuditQuery \<Rightarrow> 'b \<times> 'w \<Rightarrow> (error, AuditPage) result"
  ho_PruneAudit :: "'e \<Rightarrow> gotime \<Rightarrow> 'b \<times> 'w \<Rightarrow> (error, unit) result \<times> ('b \<times> 'w)"
  ho_Close :: "'e \<Rightarrow> 'b \<times> 'w \<Rightarrow> (error, unit) result \<times> ('b \<times> 'w)"

section \<open>Normalisation\<close>

definition historyStorageConfigVersion :: int where "historyStorageConfigVersion = 2"
definition defaultRetentionVersions :: int where "defaultRetentionVersions = 100"
definition maxRetentionVersions :: int where "maxRetentionVersions = 10000"

definition oneOf :: "string \<Rightarrow> string list \<Rightarrow> bool" where
  "oneOf value allowed \<longleftrightarrow> value \<in> set allowed"

definition normalizeHistoryStorageInput ::
    "ucd \<Rightarrow> HistoryStorageInput \<Rightarrow> string \<Rightarrow> (error, HistoryStorageInput) result" where
  "normalizeHistoryStorageInput U input defaultLocalFile =
    (let input = input\<lparr>hs_Type := ToLower U (TrimSpace (hs_Type input)), hs_LocalFile := TrimSpace (hs_LocalFile input),
           hs_Host := TrimSpace (hs_Host input), hs_Database := TrimSpace (hs_Database input),
           hs_Username := TrimSpace (hs_Username input), hs_TLSMode := ToLower U (TrimSpace (hs_TLSMode input))\<rparr> in
     if hs_Type input = HistoryStorageLocal then
       Inr (input\<lparr>hs_LocalFile := if hs_LocalFile input = [] then defaultLocalFile else hs_LocalFile input,
              hs_Host := [], hs_Port := 0, hs_Database := [], hs_Username := [], hs_Password := [], hs_TLSMode := []\<rparr>)
     else if hs_Type input \<noteq> HistoryStoragePostgres \<and> hs_Type input \<noteq> HistoryStorageMySQL then
       Inl (Sentinel ErrHistorySetup)
     else
       let postgres = hs_Type input = HistoryStoragePostgres;
           input = input\<lparr>hs_Port := if hs_Port input = 0 then (if postgres then 5432 else 3306) else hs_Port input,
             hs_TLSMode := if hs_TLSMode input = [] then (if postgres then ''require'' else ''preferred'') else hs_TLSMode input\<rparr> in
       if \<not> oneOf (hs_TLSMode input)
            (if postgres then [''disable'', ''prefer'', ''require'', ''verify-ca'', ''verify-full'']
             else [''disable'', ''preferred'', ''require'', ''skip-verify''])
       then Inl (Sentinel ErrHistorySetup)
       else
         let input = input\<lparr>hs_LocalFile := []\<rparr> in
         if hs_Host input = [] \<or> hs_Database input = [] \<or> hs_Username input = [] then Inl (Sentinel ErrHistorySetup)
         else if hs_Port input < 1 \<or> 65535 < hs_Port input then Inl (Sentinel ErrHistorySetup)
         else Inr input)"

definition validateRetentionVersions :: "int \<Rightarrow> error option" where
  "validateRetentionVersions value =
    (if value < 0 \<or> maxRetentionVersions < value then Some (Sentinel ErrHistoryRetention) else None)"

definition normalizeRetentionVersions :: "int option \<Rightarrow> (error, int) result" where
  "normalizeRetentionVersions value =
    (case value of
       None \<Rightarrow> Inr defaultRetentionVersions
     | Some v \<Rightarrow> (case validateRetentionVersions v of Some e \<Rightarrow> Inl e | None \<Rightarrow> Inr v))"

text \<open>90 days of UTC are 90 times 24 hours.\<close>

definition auditCutoff :: "gotime \<Rightarrow> gotime" where
  "auditCutoff now = now - DefaultAuditRetentionDays * 86400 * 1000000000"

text \<open>The 16 random bytes are an argument; \<open>None\<close> is a failing source.\<close>

definition newAuditID :: "bytes option \<Rightarrow> string option" where
  "newAuditID raw = map_option hexEncode raw"

section \<open>The manager\<close>

record persistedHistoryStorage =
  ph_Version :: int
  ph_Configured :: gotime
  ph_Storage :: HistoryStorageInput
  ph_RetentionVersions :: int

record 'b HistoryManager =
  hm_configFile :: string
  hm_defaultLocalFile :: string
  hm_localFileRoot :: string
  hm_configuredAt :: gotime
  hm_config :: HistoryStorageInput
  hm_retentionVersions :: int
  hm_backend :: "'b option"

text \<open>
  What an operation can touch: the manager, the directory of the configuration file, and the
  world of the backend.
\<close>

type_synonym ('b, 'w) hm_state = "'b HistoryManager \<times> dir \<times> 'w"

definition HistoryManager_Status :: "'b HistoryManager \<Rightarrow> HistoryStorageStatus" where
  "HistoryManager_Status m =
    (let c = hm_config m; on = hm_backend m \<noteq> None in
     \<lparr>st_Configured = on, st_ConfiguredAt = hm_configuredAt m,
      st_Type = (if on then hs_Type c else []), st_LocalFile = (if on then hs_LocalFile c else []),
      st_DefaultLocalFile = hm_defaultLocalFile m, st_Host = (if on then hs_Host c else []),
      st_Port = (if on then hs_Port c else 0), st_Database = (if on then hs_Database c else []),
      st_Username = (if on then hs_Username c else []), st_PasswordConfigured = (on \<and> hs_Password c \<noteq> []),
      st_TLSMode = (if on then hs_TLSMode c else []), st_RetentionVersions = hm_retentionVersions m,
      st_AuditFile = (if on \<and> hs_Type c = HistoryStorageLocal then auditFilePath (hs_LocalFile c) else []),
      st_AuditRetentionDays = DefaultAuditRetentionDays\<rparr>)"

definition saveConfig ::
    "persistedHistoryStorage json_codec \<Rightarrow> save_io \<Rightarrow> HistoryStorageInput \<Rightarrow> gotime \<Rightarrow> int \<Rightarrow> string \<Rightarrow> dir \<Rightarrow>
      error option \<times> dir" where
  "saveConfig C io config configuredAt retentionVersions path d =
    (case marshal C \<lparr>ph_Version = historyStorageConfigVersion, ph_Configured = configuredAt, ph_Storage = config,
                      ph_RetentionVersions = retentionVersions\<rparr> of
       None \<Rightarrow> (Some (Opaque ''encode history storage config''), d)
     | Some text \<Rightarrow>
         (case replace_file io path (text @ [newline]) d of
            (None, d') \<Rightarrow> (None, d')
          | (Some _, d') \<Rightarrow> (Some (Opaque ''save history storage config''), d')))"

definition HistoryManager_Test ::
    "ucd \<Rightarrow> ('e, 'b, 'w) history_ops \<Rightarrow> 'e \<Rightarrow> HistoryStorageInput \<Rightarrow> 'b HistoryManager \<times> 'w \<Rightarrow> (error, unit) result \<times> 'w" where
  "HistoryManager_Test U H e input st =
    (let (m, w) = st in
     case normalizeRetentionVersions (hs_RetentionVersions input) of
       Inl err \<Rightarrow> (Inl err, w)
     | Inr _ \<Rightarrow>
         (case normalizeHistoryStorageInput U input (hm_defaultLocalFile m) of
            Inl err \<Rightarrow> (Inl err, w)
          | Inr normalized \<Rightarrow>
              (case ho_open H e normalized False (hm_localFileRoot m) w of
                 (Inl err, w') \<Rightarrow> (Inl err, w')
               | (Inr b, w') \<Rightarrow> (case ho_Close H e (b, w') of (r, (_, w'')) \<Rightarrow> (r, w'')))))"

definition HistoryManager_Configure ::
    "ucd \<Rightarrow> persistedHistoryStorage json_codec \<Rightarrow> ('e, 'b, 'w) history_ops \<Rightarrow> 'e \<Rightarrow> gotime \<Rightarrow> save_io \<Rightarrow>
      HistoryStorageInput \<Rightarrow> ('b, 'w) hm_state \<Rightarrow> (error, unit) result \<times> ('b, 'w) hm_state" where
  "HistoryManager_Configure U C H e now io input st =
    (let (m, d, w) = st in
     case normalizeRetentionVersions (hs_RetentionVersions input) of
       Inl err \<Rightarrow> (Inl err, st)
     | Inr keep \<Rightarrow>
         (case normalizeHistoryStorageInput U input (hm_defaultLocalFile m) of
            Inl err \<Rightarrow> (Inl err, st)
          | Inr normalized0 \<Rightarrow>
              let normalized = normalized0\<lparr>hs_RetentionVersions := None\<rparr> in
              if hm_backend m \<noteq> None then (Inl (Sentinel ErrHistoryConfigured), st)
              else case ho_open H e normalized True (hm_localFileRoot m) w of
                  (Inl err, w') \<Rightarrow> (Inl err, (m, d, w'))
                | (Inr b, w') \<Rightarrow>
                    (case saveConfig C io normalized now keep (hm_configFile m) d of
                       (Some err, d') \<Rightarrow>
                         (case ho_Close H e (b, w') of (_, (_, w'')) \<Rightarrow> (Inl (Sentinel ErrHistoryConfigSave), (m, d', w'')))
                     | (None, d') \<Rightarrow>
                         (Inr (), (m\<lparr>hm_config := normalized, hm_configuredAt := now, hm_retentionVersions := keep,
                                     hm_backend := Some b\<rparr>, d', w')))))"

text \<open>A call on the backend of the manager, which must be configured.\<close>

definition with_backend ::
    "'b HistoryManager \<times> 'w \<Rightarrow> ('b \<times> 'w \<Rightarrow> (error, unit) result \<times> ('b \<times> 'w)) \<Rightarrow>
      (error, unit) result \<times> ('b HistoryManager \<times> 'w)" where
  "with_backend st f =
    (let (m, w) = st in
     case hm_backend m of
       None \<Rightarrow> (Inl (Sentinel ErrHistoryNotSetup), st)
     | Some b \<Rightarrow> (case f (b, w) of (r, (b', w')) \<Rightarrow> (r, (m\<lparr>hm_backend := Some b'\<rparr>, w'))))"

definition HistoryManager_Save ::
    "('e, 'b, 'w) history_ops \<Rightarrow> 'e \<Rightarrow> ValueSnapshot \<Rightarrow> 'b HistoryManager \<times> 'w \<Rightarrow> (error, unit) result \<times> ('b HistoryManager \<times> 'w)" where
  "HistoryManager_Save H e snapshot st =
    with_backend st (save_and_prune (ho_Save H e snapshot)
      (ho_PruneKey H e (vs_ClusterID snapshot) (e_Key (vs_Entry snapshot)) (hm_retentionVersions (fst st))))"

definition auditDefaults :: "gotime \<Rightarrow> AuditEvent \<Rightarrow> AuditEvent" where
  "auditDefaults now ev =
    (let ev = (if ev_OccurredAt ev = 0 then ev\<lparr>ev_OccurredAt := now\<rparr> else ev) in
     if ev_Result ev = [] then ev\<lparr>ev_Result := ''success''\<rparr> else ev)"

text \<open>\<open>now\<close> is the clock when the event gets its time, \<open>now'\<close> when old events are pruned.\<close>

definition HistoryManager_SaveAudit ::
    "('e, 'b, 'w) history_ops \<Rightarrow> 'e \<Rightarrow> gotime \<Rightarrow> gotime \<Rightarrow> bytes option \<Rightarrow> AuditEvent \<Rightarrow> 'b HistoryManager \<times> 'w \<Rightarrow>
      (error, unit) result \<times> ('b HistoryManager \<times> 'w)" where
  "HistoryManager_SaveAudit H e now now' raw event st =
    with_backend st (\<lambda>bw.
      case (if ev_ID event = [] then newAuditID raw else Some (ev_ID event)) of
        None \<Rightarrow> (Inl (Sentinel ErrAuditLog), bw)
      | Some eid \<Rightarrow>
          (case ho_SaveAudit H e (auditDefaults now (event\<lparr>ev_ID := eid\<rparr>)) bw of
             (Inl _, bw') \<Rightarrow> (Inl (Sentinel ErrAuditLog), bw')
           | (Inr _, bw') \<Rightarrow>
               (case ho_PruneAudit H e (auditCutoff now') bw' of
                  (Inl _, bw'') \<Rightarrow> (Inl (Sentinel ErrAuditLog), bw'')
                | (Inr _, bw'') \<Rightarrow> (Inr (), bw''))))"

definition HistoryManager_ListAudit ::
    "('e, 'b, 'w) history_ops \<Rightarrow> 'e \<Rightarrow> gotime \<Rightarrow> AuditQuery \<Rightarrow> 'b HistoryManager \<times> 'w \<Rightarrow> (error, AuditPage) result" where
  "HistoryManager_ListAudit H e now query st =
    (let (m, w) = st in
     case hm_backend m of
       None \<Rightarrow> Inl (Sentinel ErrHistoryNotSetup)
     | Some b \<Rightarrow>
         let cutoff = auditCutoff now;
             query = (if q_Since query = 0 \<or> q_Since query < cutoff then query\<lparr>q_Since := cutoff\<rparr> else query) in
         case ho_ListAudit H e query (b, w) of
           Inl _ \<Rightarrow> Inl (Sentinel ErrAuditLog)
         | Inr page \<Rightarrow> Inr page)"

definition HistoryManager_PruneAudit ::
    "('e, 'b, 'w) history_ops \<Rightarrow> 'e \<Rightarrow> gotime \<Rightarrow> 'b HistoryManager \<times> 'w \<Rightarrow> (error, unit) result \<times> ('b HistoryManager \<times> 'w)" where
  "HistoryManager_PruneAudit H e before st =
    with_backend st (\<lambda>bw. case ho_PruneAudit H e before bw of
        (Inl _, bw') \<Rightarrow> (Inl (Sentinel ErrAuditLog), bw')
      | (Inr _, bw') \<Rightarrow> (Inr (), bw'))"

text \<open>\<open>ctxErr\<close> is \<open>ctx.Err()\<close> when the call starts.\<close>

definition HistoryManager_UpdateRetention ::
    "persistedHistoryStorage json_codec \<Rightarrow> ('e, 'b, 'w) history_ops \<Rightarrow> 'e \<Rightarrow> error option \<Rightarrow> save_io \<Rightarrow> int \<Rightarrow>
      ('b, 'w) hm_state \<Rightarrow> (error, unit) result \<times> ('b, 'w) hm_state" where
  "HistoryManager_UpdateRetention C H e ctxErr io keep st =
    (let (m, d, w) = st in
     case validateRetentionVersions keep of
       Some err \<Rightarrow> (Inl err, st)
     | None \<Rightarrow>
         (case ctxErr of
            Some err \<Rightarrow> (Inl err, st)
          | None \<Rightarrow>
              (case hm_backend m of
                 None \<Rightarrow> (Inl (Sentinel ErrHistoryNotSetup), st)
               | Some b \<Rightarrow>
                   (case saveConfig C io (hm_config m) (hm_configuredAt m) keep (hm_configFile m) d of
                      (Some _, d') \<Rightarrow> (Inl (Sentinel ErrHistoryConfigSave), (m, d', w))
                    | (None, d') \<Rightarrow>
                        (case ho_Prune H e keep (b, w) of
                           (r, (b', w')) \<Rightarrow>
                             ((case r of Inl err \<Rightarrow> Inl (Wrap (Sentinel ErrLocalHistory) err) | Inr _ \<Rightarrow> Inr ()),
                              (m\<lparr>hm_retentionVersions := keep, hm_backend := Some b'\<rparr>, d', w')))))))"

definition HistoryManager_LatestBefore ::
    "('e, 'b, 'w) history_ops \<Rightarrow> 'e \<Rightarrow> string \<Rightarrow> bytes \<Rightarrow> int \<Rightarrow> 'b HistoryManager \<times> 'w \<Rightarrow> (error, ValueSnapshot option) result" where
  "HistoryManager_LatestBefore H e clusterID key modRevision st =
    (case hm_backend (fst st) of
       None \<Rightarrow> Inl (Sentinel ErrHistoryNotSetup)
     | Some b \<Rightarrow> ho_LatestBefore H e clusterID key modRevision (b, snd st))"

definition HistoryManager_ListBefore ::
    "('e, 'b, 'w) history_ops \<Rightarrow> 'e \<Rightarrow> string \<Rightarrow> bytes \<Rightarrow> int \<Rightarrow> int \<Rightarrow> 'b HistoryManager \<times> 'w \<Rightarrow> (error, ValueSnapshot list) result" where
  "HistoryManager_ListBefore H e clusterID key modRevision limit st =
    (case hm_backend (fst st) of
       None \<Rightarrow> Inl (Sentinel ErrHistoryNotSetup)
     | Some b \<Rightarrow> ho_ListBefore H e clusterID key modRevision limit (b, snd st))"

definition HistoryManager_PruneKey ::
    "('e, 'b, 'w) history_ops \<Rightarrow> 'e \<Rightarrow> string \<Rightarrow> bytes \<Rightarrow> int \<Rightarrow> 'b HistoryManager \<times> 'w \<Rightarrow> (error, unit) result \<times> ('b HistoryManager \<times> 'w)" where
  "HistoryManager_PruneKey H e clusterID key keep st = with_backend st (ho_PruneKey H e clusterID key keep)"

definition HistoryManager_Prune ::
    "('e, 'b, 'w) history_ops \<Rightarrow> 'e \<Rightarrow> int \<Rightarrow> 'b HistoryManager \<times> 'w \<Rightarrow> (error, unit) result \<times> ('b HistoryManager \<times> 'w)" where
  "HistoryManager_Prune H e keep st = with_backend st (ho_Prune H e keep)"

definition HistoryManager_Close ::
    "('e, 'b, 'w) history_ops \<Rightarrow> 'e \<Rightarrow> 'b HistoryManager \<times> 'w \<Rightarrow> (error, unit) result \<times> ('b HistoryManager \<times> 'w)" where
  "HistoryManager_Close H e st =
    (let (m, w) = st in
     case hm_backend m of
       None \<Rightarrow> (Inr (), st)
     | Some b \<Rightarrow> (case ho_Close H e (b, w) of (r, (_, w')) \<Rightarrow> (r, (m\<lparr>hm_backend := None\<rparr>, w'))))"

section \<open>Loading\<close>

definition historyConfigLimit :: nat where "historyConfigLimit = 1048576"

definition HistoryManager_load ::
    "ucd \<Rightarrow> persistedHistoryStorage json_codec \<Rightarrow> ('e, 'b, 'w) history_ops \<Rightarrow> 'e \<Rightarrow> gotime \<Rightarrow> bool \<Rightarrow>
      ('b, 'w) hm_state \<Rightarrow> (error, 'b HistoryManager) result \<times> 'w" where
  "HistoryManager_load U C H e now openFails st =
    (let (m, d, w) = st in
     if openFails then (Inl (Opaque ''open history storage config''), w)
     else case d (hm_configFile m) of
         None \<Rightarrow> (Inr m, w)
       | Some text \<Rightarrow>
           (case unmarshal C (take historyConfigLimit text) of
              None \<Rightarrow> (Inl (Opaque ''decode history storage config''), w)
            | Some persisted \<Rightarrow>
                if ph_Version persisted \<noteq> 1 \<and> ph_Version persisted \<noteq> historyStorageConfigVersion
                then (Inl (Opaque ''unsupported history storage config version''), w)
                else
                  let keep = (if ph_Version persisted = 1 then defaultRetentionVersions else ph_RetentionVersions persisted) in
                  case validateRetentionVersions keep of
                    Some err \<Rightarrow> (Inl (Wrap (Opaque ''validate history retention'') err), w)
                  | None \<Rightarrow>
                      (case normalizeHistoryStorageInput U (ph_Storage persisted) (hm_defaultLocalFile m) of
                         Inl err \<Rightarrow> (Inl (Wrap (Opaque ''validate history storage config'') err), w)
                       | Inr normalized \<Rightarrow>
                           (case ho_open H e normalized True (hm_localFileRoot m) w of
                              (Inl err, w') \<Rightarrow> (Inl (Wrap (Opaque ''open configured history storage'') err), w')
                            | (Inr b, w') \<Rightarrow>
                                (case ho_Prune H e keep (b, w') of
                                   (Inl err, bw) \<Rightarrow>
                                     (Inl (Wrap (Opaque ''prune configured history storage'') err), snd (snd (ho_Close H e bw)))
                                 | (Inr _, bw) \<Rightarrow>
                                     (case ho_PruneAudit H e (auditCutoff now) bw of
                                        (Inl err, bw') \<Rightarrow>
                                          (Inl (Wrap (Opaque ''prune configured audit log'') err), snd (snd (ho_Close H e bw')))
                                      | (Inr _, (b', w'')) \<Rightarrow>
                                          (Inr (m\<lparr>hm_config := normalized, hm_configuredAt := ph_Configured persisted,
                                                  hm_retentionVersions := keep, hm_backend := Some b'\<rparr>), w'')))))))"

text \<open>\<open>mkdirOk\<close> says whether the directory of the local history could be created.\<close>

definition NewHistoryManager ::
    "ucd \<Rightarrow> persistedHistoryStorage json_codec \<Rightarrow> ('e, 'b, 'w) history_ops \<Rightarrow> 'e \<Rightarrow> gotime \<Rightarrow> bool \<Rightarrow> bool \<Rightarrow>
      string \<Rightarrow> string \<Rightarrow> int \<Rightarrow> HistoryStorageInput \<Rightarrow> dir \<Rightarrow> 'w \<Rightarrow> (error, 'b HistoryManager) result \<times> 'w" where
  "NewHistoryManager U C H e now mkdirOk openFails configFile defaultLocalFile connectTimeout zero d w =
    (if TrimSpace configFile = [] then (Inl (Opaque ''history storage config file cannot be empty''), w)
     else if TrimSpace defaultLocalFile = [] then (Inl (Opaque ''default local history file cannot be empty''), w)
     else if connectTimeout \<le> 0 then (Inl (Opaque ''history storage connection timeout must be positive''), w)
     else if \<not> mkdirOk then (Inl (Opaque ''create local history root''), w)
     else HistoryManager_load U C H e now openFails
       (\<lparr>hm_configFile = configFile, hm_defaultLocalFile = defaultLocalFile, hm_localFileRoot = Dir defaultLocalFile,
         hm_configuredAt = 0, hm_config = zero, hm_retentionVersions = defaultRetentionVersions, hm_backend = None\<rparr>, d, w))"

section \<open>The backends\<close>

text \<open>
  The environment of a call on the local backend: the clock, the faults of the file
  operations, and the working directory.
\<close>

record local_env =
  en_now :: gotime
  en_trunc :: bool
  en_append :: append_io
  en_replace :: replace_fault
  en_audit_append :: append_io
  en_audit_replace :: replace_fault
  en_cwd :: "string option"

definition on_history ::
    "(FileHistory \<times> fsys \<Rightarrow> (error, unit) result \<times> (FileHistory \<times> fsys)) \<Rightarrow> localHistoryBackend \<times> fsys \<Rightarrow>
      (error, unit) result \<times> (localHistoryBackend \<times> fsys)" where
  "on_history f bw = (case f (lb_history (fst bw), snd bw) of (r, (h, fs)) \<Rightarrow> (r, ((fst bw)\<lparr>lb_history := h\<rparr>, fs)))"

definition local_ops ::
    "ucd \<Rightarrow> historyRecord json_codec \<Rightarrow> auditRecord json_codec \<Rightarrow> (local_env, localHistoryBackend, fsys) history_ops" where
  "local_ops U C A =
    \<lparr>ho_open = (\<lambda>e config initialize root fs. newLocalHistoryBackend C A (en_trunc e) (en_cwd e) (hs_LocalFile config) root fs),
     ho_Save = (\<lambda>e s. on_history (FileHistory_Save C (en_now e) (en_append e) s)),
     ho_LatestBefore = (\<lambda>e c k r bw. FileHistory_LatestBefore c k r (lb_history (fst bw))),
     ho_ListBefore = (\<lambda>e c k r n bw. FileHistory_ListBefore c k r n (lb_history (fst bw))),
     ho_PruneKey = (\<lambda>e c k keep. on_history (FileHistory_PruneKey C (en_replace e) c k keep)),
     ho_Prune = (\<lambda>e keep. on_history (FileHistory_Prune C (en_replace e) keep)),
     ho_SaveAudit = (\<lambda>e. localHistoryBackend_SaveAudit A (en_audit_append e)),
     ho_ListAudit = (\<lambda>e q bw. localHistoryBackend_ListAudit U q (fst bw)),
     ho_PruneAudit = (\<lambda>e. localHistoryBackend_PruneAudit A (en_audit_replace e)),
     ho_Close = (\<lambda>e bw. (Inr (), (localHistoryBackend_Close (fst bw), snd bw)))\<rparr>"

text \<open>
  The dispatch on the configured type: a backend is a local one or a database, and the world has
  a file system and whatever the database operations \<open>D\<close> store in.
\<close>

definition on_left :: "('a \<times> 'v \<Rightarrow> 'r \<times> ('a \<times> 'v)) \<Rightarrow> 'a \<Rightarrow> 'v \<times> 'w \<Rightarrow> 'r \<times> (('a + 'b) \<times> ('v \<times> 'w))" where
  "on_left f a vw = (case f (a, fst vw) of (r, (a', v)) \<Rightarrow> (r, (Inl a', (v, snd vw))))"

definition on_right :: "('b \<times> 'w \<Rightarrow> 'r \<times> ('b \<times> 'w)) \<Rightarrow> 'b \<Rightarrow> 'v \<times> 'w \<Rightarrow> 'r \<times> (('a + 'b) \<times> ('v \<times> 'w))" where
  "on_right f b vw = (case f (b, snd vw) of (r, (b', w)) \<Rightarrow> (r, (Inr b', (fst vw, w))))"

definition openHistoryBackend ::
    "('e, 'a, 'v) history_ops \<Rightarrow> ('e, 'b, 'w) history_ops \<Rightarrow> 'e \<Rightarrow> HistoryStorageInput \<Rightarrow> bool \<Rightarrow> string \<Rightarrow> 'v \<times> 'w \<Rightarrow>
      (error, 'a + 'b) result \<times> ('v \<times> 'w)" where
  "openHistoryBackend L D e config initialize localFileRoot vw =
    (if hs_Type config = HistoryStorageLocal
     then (case ho_open L e config initialize localFileRoot (fst vw) of (r, v) \<Rightarrow> (map_sum id Inl r, (v, snd vw)))
     else (case ho_open D e config initialize localFileRoot (snd vw) of (r, w) \<Rightarrow> (map_sum id Inr r, (fst vw, w))))"

definition dispatch ::
    "(('e, 'a, 'v) history_ops \<Rightarrow> 'a \<times> 'v \<Rightarrow> 'r \<times> ('a \<times> 'v)) \<Rightarrow> (('e, 'b, 'w) history_ops \<Rightarrow> 'b \<times> 'w \<Rightarrow> 'r \<times> ('b \<times> 'w)) \<Rightarrow>
      ('e, 'a, 'v) history_ops \<Rightarrow> ('e, 'b, 'w) history_ops \<Rightarrow> ('a + 'b) \<times> ('v \<times> 'w) \<Rightarrow> 'r \<times> (('a + 'b) \<times> ('v \<times> 'w))" where
  "dispatch f g L D bw =
    (case fst bw of Inl a \<Rightarrow> on_left (f L) a (snd bw) | Inr b \<Rightarrow> on_right (g D) b (snd bw))"

definition query ::
    "(('e, 'a, 'v) history_ops \<Rightarrow> 'a \<times> 'v \<Rightarrow> 'r) \<Rightarrow> (('e, 'b, 'w) history_ops \<Rightarrow> 'b \<times> 'w \<Rightarrow> 'r) \<Rightarrow>
      ('e, 'a, 'v) history_ops \<Rightarrow> ('e, 'b, 'w) history_ops \<Rightarrow> ('a + 'b) \<times> ('v \<times> 'w) \<Rightarrow> 'r" where
  "query f g L D bw = (case fst bw of Inl a \<Rightarrow> f L (a, fst (snd bw)) | Inr b \<Rightarrow> g D (b, snd (snd bw)))"

definition backend_ops ::
    "('e, 'a, 'v) history_ops \<Rightarrow> ('e, 'b, 'w) history_ops \<Rightarrow> ('e, 'a + 'b, 'v \<times> 'w) history_ops" where
  "backend_ops L D =
    \<lparr>ho_open = openHistoryBackend L D,
     ho_Save = (\<lambda>e s. dispatch (\<lambda>H. ho_Save H e s) (\<lambda>H. ho_Save H e s) L D),
     ho_LatestBefore = (\<lambda>e c k r. query (\<lambda>H. ho_LatestBefore H e c k r) (\<lambda>H. ho_LatestBefore H e c k r) L D),
     ho_ListBefore = (\<lambda>e c k r n. query (\<lambda>H. ho_ListBefore H e c k r n) (\<lambda>H. ho_ListBefore H e c k r n) L D),
     ho_PruneKey = (\<lambda>e c k keep. dispatch (\<lambda>H. ho_PruneKey H e c k keep) (\<lambda>H. ho_PruneKey H e c k keep) L D),
     ho_Prune = (\<lambda>e keep. dispatch (\<lambda>H. ho_Prune H e keep) (\<lambda>H. ho_Prune H e keep) L D),
     ho_SaveAudit = (\<lambda>e ev. dispatch (\<lambda>H. ho_SaveAudit H e ev) (\<lambda>H. ho_SaveAudit H e ev) L D),
     ho_ListAudit = (\<lambda>e q. query (\<lambda>H. ho_ListAudit H e q) (\<lambda>H. ho_ListAudit H e q) L D),
     ho_PruneAudit = (\<lambda>e t. dispatch (\<lambda>H. ho_PruneAudit H e t) (\<lambda>H. ho_PruneAudit H e t) L D),
     ho_Close = (\<lambda>e. dispatch (\<lambda>H. ho_Close H e) (\<lambda>H. ho_Close H e) L D)\<rparr>"

end
