(* ===== verification/Manager_Theorems.thy ===== *)
theory Manager_Theorems
  imports History_Manager Audit_Theorems
begin

text \<open>
  What the history manager guarantees over the local backend: the retention limit holds for a key
  after every save and for all keys after the limit has been changed, a completed audit event is
  logged and expired ones are dropped, listings never show expired events, and the
  configuration of the storage survives a restart.
\<close>

section \<open>Saving with retention\<close>

lemma on_history_compose:
  "save_and_prune (on_history f) (on_history g) bw = on_history (save_and_prune f g) bw"
  by (auto simp: on_history_def save_and_prune_def split: prod.split sum.split)

lemma HistoryManager_Save_local:
  assumes "HistoryManager_Save (local_ops U C A) e x (m, fs) = (Inr (), (m', fs'))" and "hm_backend m = Some b"
  shows "\<exists>h'. save_and_prune (FileHistory_Save C (en_now e) (en_append e) x)
      (FileHistory_PruneKey C (en_replace e) (vs_ClusterID x) (vs_key x) (hm_retentionVersions m)) (lb_history b, fs) =
        (Inr (), (h', fs')) \<and> m' = m\<lparr>hm_backend := Some (b\<lparr>lb_history := h'\<rparr>)\<rparr>"
  using assms
  by (auto simp: HistoryManager_Save_def with_backend_def local_ops_def on_history_compose on_history_def split: prod.splits)


definition sample_env :: local_env where
  "sample_env = \<lparr>en_now = 9, en_trunc = True, en_append = \<lparr>ai_fault = AppendOk, ai_truncate_ok = True\<rparr>, en_replace = ReplaceOk,
     en_audit_append = \<lparr>ai_fault = AppendOk, ai_truncate_ok = True\<rparr>, en_audit_replace = ReplaceOk, en_cwd = None\<rparr>"

definition zero_input :: HistoryStorageInput where
  "zero_input = \<lparr>hs_Type = [], hs_LocalFile = [], hs_Host = [], hs_Port = 0, hs_Database = [], hs_Username = [], hs_Password = [],
     hs_TLSMode = [], hs_RetentionVersions = None\<rparr>"

definition sample_backend :: localHistoryBackend where
  "sample_backend = \<lparr>lb_history = \<lparr>fh_file = Some 0, fh_filePath = ''h'', fh_entries = [], fh_seen = {}\<rparr>, lb_audit = empty_log\<rparr>"

definition sample_hm :: "localHistoryBackend HistoryManager" where
  "sample_hm = \<lparr>hm_configFile = ''f'', hm_defaultLocalFile = ''h'', hm_localFileRoot = ''.'', hm_configuredAt = 5,
     hm_config = zero_input, hm_retentionVersions = 1, hm_backend = Some sample_backend\<rparr>"

definition sample_value :: ValueSnapshot where
  "sample_value = \<lparr>vs_ClusterID = ''c'', vs_Entry = \<lparr>e_Key = ''k'', e_Value = ''v'', e_CreateRevision = 1, e_ModRevision = 3,
     e_Version = 1, e_Lease = 0\<rparr>, vs_CapturedAt = 5\<rparr>"

lemma sample_value_saved:
  "\<exists>m' fs'. HistoryManager_Save (local_ops basic_ucd sample_codec audit_codec) sample_env sample_value (sample_hm, log_fs) =
     (Inr (), (m', fs'))"
proof -
  obtain j where j: "marshal sample_codec (recordFromSnapshot sample_value) = Some j" "length (j @ [newline]) \<le> maxHistoryRecordSize"
    by (simp add: sample_codec_def recordFromSnapshot_def sample_value_def int64_def length_writeFields recordFields_def
        length_StdEncode FormatInt_def natDigits.simps maxHistoryRecordSize_def historyRecordVersion_def)
  have valid: "validateSnapshot sample_value = None"
    by (simp add: validateSnapshot_def sample_value_def visible_def byte_def)
  let ?h = "addLocked (lb_history sample_backend) sample_value"
  have "FileHistory_Save sample_codec 9 \<lparr>ai_fault = AppendOk, ai_truncate_ok = True\<rparr> sample_value (lb_history sample_backend, log_fs) =
      (Inr (), (?h, set_data 0 (j @ [newline]) log_fs))"
    using j valid
    by (simp add: FileHistory_Save_def sample_value_def [THEN arg_cong [where f = vs_CapturedAt]] sample_backend_def appendRecord_def
        log_fs_def Let_def)
  moreover have "int (length (entries_at (fh_entries ?h) (historyEntryKey ''c'' ''k''))) = 1" "fh_file ?h = Some 0"
    by (simp_all add: addLocked_def sample_backend_def entries_at_def sample_value_def)
  then have "FileHistory_PruneKey sample_codec ReplaceOk ''c'' ''k'' 1 (?h, s) = (Inr (), (?h, s))" for s
    by (simp add: FileHistory_PruneKey_def Let_def)
  ultimately show ?thesis
    by (simp add: HistoryManager_Save_def with_backend_def sample_hm_def local_ops_def on_history_compose)
      (simp add: on_history_def save_and_prune_def sample_env_def sample_value_def [THEN arg_cong [where f = vs_ClusterID]]
        sample_value_def [THEN arg_cong [where f = vs_Entry]])
qed


section \<open>Changing the limit\<close>

lemma entries_at_map:
  assumes "f [] = []"
  shows "entries_at (map (\<lambda>(k, ss). (k, f ss)) es) k = f (entries_at es k)"
  using assms by (induction es) (auto simp: entries_at_def)

lemma FileHistory_Prune_ok:
  assumes "fh_inv h" and "0 \<le> keep" and "FileHistory_Prune C rf keep (h, fs) = (Inr (), (h', fs'))"
  shows "fh_abs h' c k = (if keep = 0 then fh_abs h c k else take (nat keep) (fh_abs h c k))"
proof -
  let ?es = "fh_entries h" and ?ek = "historyEntryKey c k"
  let ?f = "\<lambda>ss. if \<not> int (length ss) \<le> keep then take (nat keep) (sort_desc vs_rev ss) else ss"
  have dist: "distinct (map vs_rev (fh_abs h c k))"
    by (rule distinct_abs [OF assms(1)])
  have "keep = 0 \<and> h' = h \<or> (\<forall>e \<in> set ?es. int (length (snd e)) \<le> keep) \<and> h' = h \<or>
      keep \<noteq> 0 \<and> fh_entries h' = map (\<lambda>(k, ss). (k, ?f ss)) ?es"
  proof (cases "keep = 0 \<or> \<not> list_ex (\<lambda>(k, ss). \<not> int (length ss) \<le> keep) ?es")
    case True
    then show ?thesis
      using assms(3) by (auto simp: FileHistory_Prune_def Let_def list_ex_iff split: if_splits)
  next
    case False
    then have "replaceEntriesLocked C rf (map (\<lambda>(k, ss). (k, ?f ss)) ?es) (h, fs) = (Inr (), (h', fs'))"
      using assms(2,3)
      by (auto simp: FileHistory_Prune_def Let_def case_prod_unfold split: if_splits)
    from replaceEntriesLocked_cases [OF this] False show ?thesis by auto
  qed
  then show ?thesis
  proof (elim disjE conjE)
    assume "keep = 0" "h' = h"
    then show ?thesis by simp
  next
    assume short: "\<forall>e \<in> set ?es. int (length (snd e)) \<le> keep" and "h' = h"
    have "int (length (entries_at ?es ?ek)) \<le> keep"
      using short assms(2) by (auto simp: entries_at_def dest!: map_of_SomeD split: option.split)
    then have "length (fh_abs h c k) \<le> nat keep" by (simp add: fh_abs_def)
    with \<open>h' = h\<close> show ?thesis by simp
  next
    assume "keep \<noteq> 0" and es': "fh_entries h' = map (\<lambda>(k, ss). (k, ?f ss)) ?es"
    have "entries_at (fh_entries h') ?ek = ?f (entries_at ?es ?ek)"
      unfolding es' by (rule entries_at_map) simp
    moreover have "sort_desc vs_rev (take (nat keep) (fh_abs h c k)) = take (nat keep) (fh_abs h c k)"
      using dist desc_of_abs [of h c k] by (intro sort_desc_id) (simp_all add: desc_by_take take_map [symmetric])
    ultimately show ?thesis
      using \<open>keep \<noteq> 0\<close> by (auto simp: fh_abs_def)
  qed
qed

text \<open>
  When a change of the retention limit succeeds, the limit is recorded, and every key of
  every cluster keeps exactly its newest snapshots up to the limit (all of them if it is 0).
\<close>

theorem update_retention_prunes_all_keys:
  assumes "hm_backend m = Some b" and "fh_inv (lb_history b)"
    and "HistoryManager_UpdateRetention P (local_ops U C A) e ctxErr io keep (m, d, fs) = (Inr (), (m', d', fs'))"
  shows "0 \<le> keep \<and> keep \<le> 10000 \<and> hm_retentionVersions m' = keep \<and>
    (\<exists>b'. hm_backend m' = Some b' \<and>
      (\<forall>c k. fh_abs (lb_history b') c k =
         (if keep = 0 then fh_abs (lb_history b) c k else take (nat keep) (fh_abs (lb_history b) c k))))"
proof -
  obtain h' where keep: "0 \<le> keep" "keep \<le> 10000"
    and prune: "FileHistory_Prune C (en_replace e) keep (lb_history b, fs) = (Inr (), (h', fs'))"
    and m': "m' = m\<lparr>hm_retentionVersions := keep, hm_backend := Some (b\<lparr>lb_history := h'\<rparr>)\<rparr>"
    using assms(1,3)
    by (auto simp: HistoryManager_UpdateRetention_def Let_def validateRetentionVersions_def maxRetentionVersions_def
        local_ops_def on_history_def split: option.splits if_splits prod.splits sum.splits)
  then show ?thesis
    using FileHistory_Prune_ok [OF assms(2) keep(1) prune] by (simp add: m')
qed

text \<open>A concrete codec for the storage configuration.\<close>

definition packStorage :: "persistedHistoryStorage \<Rightarrow> string list" where
  "packStorage p =
    (let c = ph_Storage p in
     [FormatInt (ph_Version p), FormatInt (ph_Configured p), FormatInt (ph_RetentionVersions p), hs_Type c, hs_LocalFile c, hs_Host c,
      FormatInt (hs_Port c), hs_Database c, hs_Username c, hs_Password c, hs_TLSMode c] @
     (case hs_RetentionVersions c of None \<Rightarrow> [] | Some v \<Rightarrow> [FormatInt v]))"

fun unpackStorage :: "string list \<Rightarrow> persistedHistoryStorage option" where
  "unpackStorage (a # b # c # d # e # f # g # h # i # j # k # rest) =
     (case (ParseInt a, ParseInt b, ParseInt c, ParseInt g) of
        (Some a', Some b', Some c', Some g') \<Rightarrow>
          Some \<lparr>ph_Version = a', ph_Configured = b', ph_Storage = \<lparr>hs_Type = d, hs_LocalFile = e, hs_Host = f, hs_Port = g',
            hs_Database = h, hs_Username = i, hs_Password = j, hs_TLSMode = k,
            hs_RetentionVersions = (case rest of [] \<Rightarrow> None | x # _ \<Rightarrow> ParseInt x)\<rparr>, ph_RetentionVersions = c'\<rparr>
      | _ \<Rightarrow> None)"
| "unpackStorage _ = None"

definition storage_ints_ok :: "persistedHistoryStorage \<Rightarrow> bool" where
  "storage_ints_ok p \<longleftrightarrow> int64 (ph_Version p) \<and> int64 (ph_Configured p) \<and> int64 (ph_RetentionVersions p) \<and>
     int64 (hs_Port (ph_Storage p)) \<and> (\<forall>v. hs_RetentionVersions (ph_Storage p) = Some v \<longrightarrow> int64 v)"

definition hm_codec :: "persistedHistoryStorage json_codec" where
  "hm_codec = field_codec storage_ints_ok packStorage unpackStorage"

lemma sample_retention_updated:
  "\<exists>m' d'. HistoryManager_UpdateRetention hm_codec (local_ops basic_ucd sample_codec audit_codec) sample_env None
     \<lparr>io_fail = None, io_written = 0, io_temp = ''t''\<rparr> 7 (sample_hm, Map.empty, log_fs) = (Inr (), (m', d', log_fs))"
  by (simp add: HistoryManager_UpdateRetention_def validateRetentionVersions_def maxRetentionVersions_def sample_hm_def saveConfig_def
      hm_codec_def field_codec_def storage_ints_ok_def int64_def zero_input_def historyStorageConfigVersion_def
      replace_file_cases fresh_temp_def local_ops_def on_history_def FileHistory_Prune_def sample_backend_def)

theorem update_retention_prunes_all_keys_witness:
  "\<exists>m' d'. HistoryManager_UpdateRetention hm_codec (local_ops basic_ucd sample_codec audit_codec) sample_env None
     \<lparr>io_fail = None, io_written = 0, io_temp = ''t''\<rparr> 7 (sample_hm, Map.empty, log_fs) = (Inr (), (m', d', log_fs)) \<and>
     hm_retentionVersions m' = 7"
proof -
  obtain m' d' where upd: "HistoryManager_UpdateRetention hm_codec (local_ops basic_ucd sample_codec audit_codec) sample_env None
      \<lparr>io_fail = None, io_written = 0, io_temp = ''t''\<rparr> 7 (sample_hm, Map.empty, log_fs) = (Inr (), (m', d', log_fs))"
    using sample_retention_updated by blast
  have "hm_backend sample_hm = Some sample_backend" "fh_inv (lb_history sample_backend)"
    by (simp_all add: sample_hm_def sample_backend_def fh_inv_empty)
  from update_retention_prunes_all_keys [OF this upd] upd show ?thesis by blast
qed

section \<open>Audit\<close>

text \<open>
  When saving an audit event succeeds, the log consists of the unexpired events it had and
  the event (if unexpired itself), completed with a fresh identifier, the current time
  and the result "success" where they were missing.
\<close>

theorem audit_event_completed_and_logged:
  assumes "hm_backend m = Some b" and "fa_inv (lb_audit b, fs)" and "auditCutoff now' \<noteq> 0"
    and "HistoryManager_SaveAudit (local_ops U C A) e now now' raw ev (m, fs) = (Inr (), (m', fs'))"
  shows "\<exists>b' eid. hm_backend m' = Some b' \<and> lb_history b' = lb_history b \<and>
    (if ev_ID ev = [] then newAuditID raw = Some eid else eid = ev_ID ev) \<and>
    fa_events (lb_audit b') =
      filter (\<lambda>x. auditCutoff now' \<le> ev_OccurredAt x) (fa_events (lb_audit b) @ [auditDefaults now (ev\<lparr>ev_ID := eid\<rparr>)])"
proof -
  obtain eid a1 fs1 a2 where eid: "(if ev_ID ev = [] then newAuditID raw else Some (ev_ID ev)) = Some eid"
    and save: "FileAudit_SaveAudit A (en_audit_append e) (auditDefaults now (ev\<lparr>ev_ID := eid\<rparr>)) (lb_audit b, fs) = (Inr (), (a1, fs1))"
    and prune: "FileAudit_PruneAudit A (en_audit_replace e) (auditCutoff now') (a1, fs1) = (Inr (), (a2, fs'))"
    and m': "m' = m\<lparr>hm_backend := Some (b\<lparr>lb_audit := a2\<rparr>)\<rparr>"
    using assms(1,4)
    by (auto simp: HistoryManager_SaveAudit_def with_backend_def local_ops_def localHistoryBackend_SaveAudit_def
        localHistoryBackend_PruneAudit_def Let_def simp del: if_split split: option.splits sum.splits prod.splits)
  have "fa_events a1 = fa_events (lb_audit b) @ [auditDefaults now (ev\<lparr>ev_ID := eid\<rparr>)]"
    using fa.save_ok [OF assms(2) save] by simp
  moreover have "fa_inv (a1, fs1)"
    using fa.save_invar [OF assms(2), of A "en_audit_append e" "auditDefaults now (ev\<lparr>ev_ID := eid\<rparr>)"] save by simp
  ultimately have "fa_events a2 = filter (\<lambda>x. auditCutoff now' \<le> ev_OccurredAt x)
      (fa_events (lb_audit b) @ [auditDefaults now (ev\<lparr>ev_ID := eid\<rparr>)])"
    using fa.prune_ok [OF _ prune] assms(3) by simp
  then show ?thesis
    using eid by (intro exI [of _ "b\<lparr>lb_audit := a2\<rparr>"] exI [of _ eid]) (auto simp: m' split: if_splits)
qed

lemma sample_audit_saved:
  "\<exists>m' fs'. HistoryManager_SaveAudit (local_ops basic_ucd sample_codec audit_codec) sample_env 9 9 None (sample_event 5 CHR ''x'')
     (sample_hm, log_fs) = (Inr (), (m', fs'))"
proof -
  obtain fs where save: "FileAudit_SaveAudit audit_codec \<lparr>ai_fault = AppendOk, ai_truncate_ok = True\<rparr> (sample_event 5 CHR ''x'')
      (empty_log, log_fs) = (Inr (), (empty_log\<lparr>fa_events := [sample_event 5 CHR ''x'']\<rparr>, fs))"
    using sample_append by blast
  have "auditDefaults 9 (sample_event 5 CHR ''x''\<lparr>ev_ID := ev_ID (sample_event 5 CHR ''x'')\<rparr>) = sample_event 5 CHR ''x''"
    and "ev_ID (sample_event 5 CHR ''x'') \<noteq> []"
    by (simp_all add: auditDefaults_def sample_event_def)
  moreover have "FileAudit_PruneAudit audit_codec ReplaceOk (auditCutoff 9) (empty_log\<lparr>fa_events := [sample_event 5 CHR ''x'']\<rparr>, fs) =
      (Inr (), (empty_log\<lparr>fa_events := [sample_event 5 CHR ''x'']\<rparr>, fs))"
    by (simp add: FileAudit_PruneAudit_def auditCutoff_def DefaultAuditRetentionDays_def empty_log_def sample_event_def)
  ultimately show ?thesis
    using save
    by (simp add: HistoryManager_SaveAudit_def with_backend_def local_ops_def localHistoryBackend_SaveAudit_def
        localHistoryBackend_PruneAudit_def sample_hm_def sample_backend_def sample_env_def)
qed

theorem audit_event_completed_and_logged_witness:
  "\<exists>m' fs' b'. HistoryManager_SaveAudit (local_ops basic_ucd sample_codec audit_codec) sample_env 9 9 None (sample_event 5 CHR ''x'')
     (sample_hm, log_fs) = (Inr (), (m', fs')) \<and> hm_backend m' = Some b' \<and> length (fa_events (lb_audit b')) = 1"
proof -
  obtain m' fs' where save: "HistoryManager_SaveAudit (local_ops basic_ucd sample_codec audit_codec) sample_env 9 9 None
      (sample_event 5 CHR ''x'') (sample_hm, log_fs) = (Inr (), (m', fs'))"
    using sample_audit_saved by blast
  have "hm_backend sample_hm = Some sample_backend" "fa_inv (lb_audit sample_backend, log_fs)" "auditCutoff 9 \<noteq> 0"
    by (simp_all add: sample_hm_def sample_backend_def fa_inv_def empty_log_def auditCutoff_def DefaultAuditRetentionDays_def)
  from audit_event_completed_and_logged [OF this save] obtain b' eid where "hm_backend m' = Some b'"
    and "fa_events (lb_audit b') = filter (\<lambda>x. auditCutoff 9 \<le> ev_OccurredAt x)
      (fa_events (lb_audit sample_backend) @ [auditDefaults 9 (sample_event 5 CHR ''x''\<lparr>ev_ID := eid\<rparr>)])"
    by blast
  with save show ?thesis
    by (auto simp: sample_backend_def empty_log_def auditDefaults_def sample_event_def auditCutoff_def DefaultAuditRetentionDays_def)
qed

text \<open>
  A listing through the manager shows only events of the last 90 days, whatever the
  query asks for, also when expired events have not been pruned yet.
\<close>

theorem audit_listing_hides_expired:
  assumes "0 < auditCutoff now" and "HistoryManager_ListAudit (local_ops U C A) e now q (m, fs) = Inr page"
    and "ev \<in> set (ap_Events page)"
  shows "auditCutoff now \<le> ev_OccurredAt ev"
proof -
  let ?q = "if q_Since q = 0 \<or> q_Since q < auditCutoff now then q\<lparr>q_Since := auditCutoff now\<rparr> else q"
  obtain b :: localHistoryBackend where list: "FileAudit_ListAudit U ?q (lb_audit b) = Inr page"
    using assms(2)
    by (auto simp: HistoryManager_ListAudit_def Let_def local_ops_def localHistoryBackend_ListAudit_def simp del: if_split
        split: option.splits sum.splits)
  have since: "q_Since ?q \<noteq> 0" "auditCutoff now \<le> q_Since ?q"
    using assms(1) by auto
  have "1 \<le> q_Limit ?q"
    using list assms(3) by (auto simp: FileAudit_ListAudit_def simp del: if_split split: if_splits)
  from FileAudit_ListAudit_ok [OF list this] assms(3) have "auditMatches U ?q ev"
    by (auto simp: Let_def simp del: if_split dest!: in_set_takeD)
  then show ?thesis
    using since by (auto simp: auditMatches_parts selects_def simp del: if_split)
qed

theorem audit_listing_hides_expired_witness:
  "\<exists>page ev. HistoryManager_ListAudit (local_ops basic_ucd sample_codec audit_codec) sample_env 7776000000000006
      all_events (sample_hm\<lparr>hm_backend := Some (sample_backend\<lparr>lb_audit := sample_log\<rparr>)\<rparr>, log_fs) = Inr page \<and>
     ev \<in> set (ap_Events page) \<and> 6 \<le> ev_OccurredAt ev"
proof -
  let ?now = "7776000000000006 :: int"
  have cut: "auditCutoff ?now = 6"
    by (simp add: auditCutoff_def DefaultAuditRetentionDays_def)
  have list: "HistoryManager_ListAudit (local_ops basic_ucd sample_codec audit_codec) sample_env ?now
      all_events (sample_hm\<lparr>hm_backend := Some (sample_backend\<lparr>lb_audit := sample_log\<rparr>)\<rparr>, log_fs) =
      Inr \<lparr>ap_Events = [sample_event 7 CHR ''y''], ap_HasMore = False\<rparr>"
    by (simp add: HistoryManager_ListAudit_def cut local_ops_def localHistoryBackend_ListAudit_def)
      (simp add: FileAudit_ListAudit_def sample_log_def all_events_def auditMatches_parts below_cursor_def
      selects_def sample_event_def sort_desc_def ToLower_def string_of_runes_def)
  from audit_listing_hides_expired [OF _ list] cut list show ?thesis by auto
qed

section \<open>The configuration of the storage\<close>

lemma ToLower_lower:
  assumes "\<forall>c \<in> set s. byte c < 0x80 \<and> \<not> (0x41 \<le> byte c \<and> byte c \<le> 0x5A)"
  shows "ToLower U s = s"
proof -
  have "map (lowerRune U) (runes s) = map byte s"
    using assms by (auto simp: runes_ascii ascii_def lowerRune_def)
  moreover have "concat (map (encodeRune \<circ> byte) s) = s"
    using assms by (induction s) (auto simp: encodeRune_def byte_def)
  ultimately show ?thesis
    by (simp add: ToLower_def string_of_runes_def)
qed

definition plain_words :: "string list" where
  "plain_words = [HistoryStorageLocal, HistoryStoragePostgres, HistoryStorageMySQL, [], ''disable'', ''prefer'', ''preferred'',
     ''require'', ''verify-ca'', ''verify-full'', ''skip-verify'']"

lemma plain_words_fixed: "s \<in> set plain_words \<Longrightarrow> ToLower U (TrimSpace s) = s"
proof -
  assume "s \<in> set plain_words"
  then have "visible s" and "\<forall>c \<in> set s. byte c < 0x80 \<and> \<not> (0x41 \<le> byte c \<and> byte c \<le> 0x5A)"
    by (auto simp: plain_words_def HistoryStorageLocal_def HistoryStoragePostgres_def HistoryStorageMySQL_def visible_def byte_def)
  then show ?thesis by (simp add: ToLower_lower)
qed

lemma normalizeHistoryStorageInput_kind:
  assumes "normalizeHistoryStorageInput U x file = Inr y"
  shows "(hs_Type y = HistoryStorageLocal \<and> hs_Host y = [] \<and> hs_Port y = 0 \<and> hs_Database y = [] \<and>
      hs_Username y = [] \<and> hs_Password y = [] \<and> hs_TLSMode y = [] \<and> (hs_LocalFile y = [] \<longrightarrow> file = [])) \<or>
    (hs_LocalFile y = [] \<and> hs_Host y \<noteq> [] \<and> hs_Database y \<noteq> [] \<and> hs_Username y \<noteq> [] \<and> 1 \<le> hs_Port y \<and> hs_Port y \<le> 65535 \<and>
      (hs_Type y = HistoryStoragePostgres \<and>
         oneOf (hs_TLSMode y) [''disable'', ''prefer'', ''require'', ''verify-ca'', ''verify-full''] \<or>
       hs_Type y = HistoryStorageMySQL \<and>
         oneOf (hs_TLSMode y) [''disable'', ''preferred'', ''require'', ''skip-verify'']))"
proof (cases "ToLower U (TrimSpace (hs_Type x)) = HistoryStorageLocal")
  case True
  with assms show ?thesis
    by (intro disjI1) (auto simp: normalizeHistoryStorageInput_def split: if_splits)
next
  case False
  let ?pg = "ToLower U (TrimSpace (hs_Type x)) = HistoryStoragePostgres"
  from False assms have type: "?pg \<or> ToLower U (TrimSpace (hs_Type x)) = HistoryStorageMySQL"
    by (simp add: normalizeHistoryStorageInput_def Let_def split: if_split_asm)
  with False assms show ?thesis
    by (intro disjI2) (cases ?pg; simp add: normalizeHistoryStorageInput_def Let_def split: if_split_asm; clarsimp)
qed

lemma normalizeHistoryStorageInput_trimmed:
  assumes "normalizeHistoryStorageInput U x file = Inr y" and "TrimSpace file = file"
  shows "TrimSpace (hs_LocalFile y) = hs_LocalFile y" "TrimSpace (hs_Host y) = hs_Host y"
    "TrimSpace (hs_Database y) = hs_Database y" "TrimSpace (hs_Username y) = hs_Username y"
  using assms by (auto simp: normalizeHistoryStorageInput_def Let_def split: if_splits)

lemma normalizeHistoryStorageInput_idem:
  assumes "normalizeHistoryStorageInput U x file = Inr y" and "TrimSpace file = file"
  shows "normalizeHistoryStorageInput U (y\<lparr>hs_RetentionVersions := r\<rparr>) file = Inr (y\<lparr>hs_RetentionVersions := r\<rparr>)"
proof -
  note kind = normalizeHistoryStorageInput_kind [OF assms(1)] and trim = normalizeHistoryStorageInput_trimmed [OF assms]
  have "hs_Type y \<in> set plain_words" "hs_TLSMode y \<in> set plain_words"
    using kind by (auto simp: plain_words_def oneOf_def)
  note low = this [THEN plain_words_fixed]
  show ?thesis
  proof (cases "hs_Type y = HistoryStorageLocal")
    case True
    with kind have "hs_Host y = []" "hs_Port y = 0" "hs_Database y = []" "hs_Username y = []" "hs_Password y = []"
      "hs_TLSMode y = []" "hs_LocalFile y = [] \<longrightarrow> file = []"
      by (auto simp: HistoryStorageLocal_def HistoryStoragePostgres_def HistoryStorageMySQL_def)
    with True low trim show ?thesis
      by (cases y) (simp add: normalizeHistoryStorageInput_def)
  next
    case False
    with kind have "hs_LocalFile y = []" "hs_Host y \<noteq> []" "hs_Database y \<noteq> []" "hs_Username y \<noteq> []" "1 \<le> hs_Port y"
      "hs_Port y \<le> 65535" "hs_Type y = HistoryStoragePostgres \<or> hs_Type y = HistoryStorageMySQL" "hs_TLSMode y \<noteq> []"
      "oneOf (hs_TLSMode y) (if hs_Type y = HistoryStoragePostgres
         then [''disable'', ''prefer'', ''require'', ''verify-ca'', ''verify-full'']
         else [''disable'', ''preferred'', ''require'', ''skip-verify''])"
      by (auto simp: oneOf_def HistoryStoragePostgres_def HistoryStorageMySQL_def)
    with False low trim show ?thesis
      by (cases y) (simp add: normalizeHistoryStorageInput_def Let_def)
  qed
qed

text \<open>What the code relies on of \<open>encoding/json\<close> for the storage configuration.\<close>

definition storage_utf8 :: "HistoryStorageInput \<Rightarrow> bool" where
  "storage_utf8 c \<longleftrightarrow> list_all utf8Valid
     [hs_Type c, hs_LocalFile c, hs_Host c, hs_Database c, hs_Username c, hs_Password c, hs_TLSMode c]"

definition json_storage_law :: "persistedHistoryStorage json_codec \<Rightarrow> bool" where
  "json_storage_law C \<longleftrightarrow>
    (\<forall>p t n. storage_utf8 (ph_Storage p) \<longrightarrow> marshal C p = Some t \<longrightarrow>
       unmarshal C (take n (t @ [newline])) = (if length t \<le> n then Some p else None))"

lemma unpackStorage_pack: "storage_ints_ok p \<Longrightarrow> unpackStorage (packStorage p) = Some p"
  by (auto simp: packStorage_def storage_ints_ok_def ParseInt_FormatInt Let_def split: option.split)

lemma hm_codec_law: "json_storage_law hm_codec"
  unfolding json_storage_law_def hm_codec_def
  by (intro allI impI field_codec_law [where img = "\<lambda>p. p"]) (simp_all add: unpackStorage_pack)

text \<open>
  A restart after a successful configuration reopens the storage that was configured: the
  stored settings decode and normalise to themselves, so the loaded manager has the same
  settings, time and retention limit, and the backend is opened with these settings.
\<close>

theorem storage_config_survives_restart:
  assumes "json_storage_law P" and "fresh_temp io (hm_configFile m) d"
    and "HistoryManager_Configure U P H e now io input (m, d, w) = (Inr (), (m', d', w'))"
    and "TrimSpace (hm_defaultLocalFile m) = hm_defaultLocalFile m" and "storage_utf8 (hm_config m')"
    and "\<forall>text. d' (hm_configFile m) = Some text \<longrightarrow> length text \<le> historyConfigLimit"
    and "hm_configFile m0 = hm_configFile m" and "hm_defaultLocalFile m0 = hm_defaultLocalFile m"
    and "ho_open H e2 (hm_config m') True (hm_localFileRoot m0) w2 = (Inr b, w3)"
    and "ho_Prune H e2 (hm_retentionVersions m') (b, w3) = (Inr (), bw)"
    and "ho_PruneAudit H e2 (auditCutoff now2) bw = (Inr (), (b', w4))"
  shows "HistoryManager_load U P H e2 now2 False (m0, d', w2) =
    (Inr (m0\<lparr>hm_config := hm_config m', hm_configuredAt := now, hm_retentionVersions := hm_retentionVersions m',
             hm_backend := Some b'\<rparr>), w4)"
proof -
  obtain keep y t where keep: "normalizeRetentionVersions (hs_RetentionVersions input) = Inr keep"
    and y: "normalizeHistoryStorageInput U input (hm_defaultLocalFile m) = Inr y"
    and t: "marshal P \<lparr>ph_Version = 2, ph_Configured = now, ph_Storage = y\<lparr>hs_RetentionVersions := None\<rparr>, ph_RetentionVersions = keep\<rparr> = Some t"
    and d': "d' = d(hm_configFile m \<mapsto> t @ [newline])"
    and m': "hm_config m' = y\<lparr>hs_RetentionVersions := None\<rparr>" "hm_retentionVersions m' = keep"
    using assms(2,3)
    by (auto simp: HistoryManager_Configure_def Let_def saveConfig_def replace_file_cases historyStorageConfigVersion_def
        split: sum.splits if_splits prod.splits option.splits)
  have "length t \<le> historyConfigLimit"
    using assms(6) d' by simp
  then have dec: "unmarshal P (take historyConfigLimit (t @ [newline])) =
      Some \<lparr>ph_Version = 2, ph_Configured = now, ph_Storage = y\<lparr>hs_RetentionVersions := None\<rparr>, ph_RetentionVersions = keep\<rparr>"
    using assms(1) [unfolded json_storage_law_def, rule_format, OF _ t, of historyConfigLimit] assms(5) by (simp only: m') simp
  have ret: "validateRetentionVersions keep = None"
    using keep by (auto simp: normalizeRetentionVersions_def defaultRetentionVersions_def validateRetentionVersions_def
        maxRetentionVersions_def split: option.splits if_splits)
  have norm: "normalizeHistoryStorageInput U (y\<lparr>hs_RetentionVersions := None\<rparr>) (hm_defaultLocalFile m) = Inr (y\<lparr>hs_RetentionVersions := None\<rparr>)"
    by (rule normalizeHistoryStorageInput_idem [OF y assms(4)])
  show ?thesis
    using assms(7-11) d' dec ret norm m'
    by (simp add: HistoryManager_load_def historyStorageConfigVersion_def)
qed

text \<open>A restart that reopens a local history in a directory that is still empty.\<close>

definition new_fs :: fsys where
  "new_fs = \<lparr>fs_inode = Map.empty, fs_data = (\<lambda>_. []), fs_next = 0\<rparr>"

definition opened_backend :: localHistoryBackend where
  "opened_backend = \<lparr>lb_history = \<lparr>fh_file = Some 0, fh_filePath = ''/d/h'', fh_entries = [], fh_seen = {}\<rparr>,
     lb_audit = \<lparr>fa_file = Some 1, fa_filePath = ''/d/h.audit.jsonl'', fa_events = []\<rparr>\<rparr>"

definition opened_fs :: fsys where
  "opened_fs = \<lparr>fs_inode = [''/d/h'' \<mapsto> 0, ''/d/h.audit.jsonl'' \<mapsto> 1], fs_data = (\<lambda>_. []), fs_next = 2\<rparr>"

definition local_input :: HistoryStorageInput where
  "local_input = zero_input\<lparr>hs_Type := HistoryStorageLocal\<rparr>"

lemma opened_paths:
  "resolve None ''/d'' ''/d/h'' = Inr (''/d'', ''h'', ''/d/h'')"
  "resolve None ''/d'' ''/d/h.audit.jsonl'' = Inr (''/d'', ''h.audit.jsonl'', ''/d/h.audit.jsonl'')"
  "auditFilePath ''/d/h'' = ''/d/h.audit.jsonl''"
  "TrimSpace ''/d/h'' = ''/d/h''" "TrimSpace ''/d/h.audit.jsonl'' = ''/d/h.audit.jsonl''"
proof -
  show trim: "TrimSpace ''/d/h'' = ''/d/h''" "TrimSpace ''/d/h.audit.jsonl'' = ''/d/h.audit.jsonl''"
    by (simp_all add: visible_def byte_def)
  show "resolve None ''/d'' ''/d/h'' = Inr (''/d'', ''h'', ''/d/h'')"
    "resolve None ''/d'' ''/d/h.audit.jsonl'' = Inr (''/d'', ''h.audit.jsonl'', ''/d/h.audit.jsonl'')"
    by (simp_all add: resolve_def trim sample_paths Abs_def IsAbs_def Clean_def elements_def Rel_def)
  show "auditFilePath ''/d/h'' = ''/d/h.audit.jsonl''"
    by (simp add: auditFilePath_def Ext_def)
qed

lemma opened_local:
  "newLocalHistoryBackend sample_codec audit_codec True None ''/d/h'' ''/d'' new_fs = (Inr opened_backend, opened_fs)"
  by (simp add: newLocalHistoryBackend_def opened_paths NewFileHistory_def NewFileAudit_def open_inode_def FileHistory_load_def
      FileAudit_load_def new_fs_def opened_backend_def opened_fs_def fun_upd_idem)

theorem storage_config_survives_restart_witness:
  "\<exists>m' d' w'. HistoryManager_Configure basic_ucd hm_codec (local_ops basic_ucd sample_codec audit_codec) sample_env 7
       \<lparr>io_fail = None, io_written = 0, io_temp = ''t''\<rparr> local_input
       (sample_hm\<lparr>hm_backend := None, hm_defaultLocalFile := ''/d/h'', hm_localFileRoot := ''/d''\<rparr>, Map.empty, new_fs) =
       (Inr (), (m', d', w')) \<and>
     HistoryManager_load basic_ucd hm_codec (local_ops basic_ucd sample_codec audit_codec) sample_env 8 False
       (sample_hm\<lparr>hm_backend := None, hm_defaultLocalFile := ''/d/h'', hm_localFileRoot := ''/d''\<rparr>, d', new_fs) =
       (Inr (sample_hm\<lparr>hm_defaultLocalFile := ''/d/h'', hm_localFileRoot := ''/d'',
          hm_config := zero_input\<lparr>hs_Type := HistoryStorageLocal, hs_LocalFile := ''/d/h''\<rparr>, hm_configuredAt := 7,
          hm_retentionVersions := 100, hm_backend := Some opened_backend\<rparr>), opened_fs)"
proof -
  let ?H = "local_ops basic_ucd sample_codec audit_codec"
  let ?m = "sample_hm\<lparr>hm_backend := None, hm_defaultLocalFile := ''/d/h'', hm_localFileRoot := ''/d''\<rparr>"
  let ?io = "\<lparr>io_fail = None, io_written = 0, io_temp = ''t''\<rparr>"
  let ?c = "zero_input\<lparr>hs_Type := HistoryStorageLocal, hs_LocalFile := ''/d/h''\<rparr>"
  let ?p = "\<lparr>ph_Version = 2, ph_Configured = 7, ph_Storage = ?c, ph_RetentionVersions = 100\<rparr>"
  let ?m' = "?m\<lparr>hm_config := ?c, hm_configuredAt := 7, hm_retentionVersions := 100, hm_backend := Some opened_backend\<rparr>"
  have low: "ToLower basic_ucd (TrimSpace HistoryStorageLocal) = HistoryStorageLocal" "ToLower basic_ucd [] = []"
    using plain_words_fixed [of HistoryStorageLocal basic_ucd] plain_words_fixed [of "[]" basic_ucd] by (simp_all add: plain_words_def)
  have norm: "normalizeHistoryStorageInput basic_ucd local_input ''/d/h'' = Inr ?c"
    by (simp add: normalizeHistoryStorageInput_def local_input_def zero_input_def low)
  obtain t where t: "marshal hm_codec ?p = Some t" and short: "length t \<le> 1000"
    by (simp add: hm_codec_def field_codec_def storage_ints_ok_def int64_def zero_input_def length_writeFields packStorage_def FormatInt_def
        natDigits.simps HistoryStorageLocal_def)
  let ?d = "Map.empty(''f'' \<mapsto> t @ [newline])"
  have fresh: "fresh_temp ?io (hm_configFile ?m) Map.empty"
    by (simp add: fresh_temp_def sample_hm_def)
  have opened: "ho_open ?H sample_env ?c True (hm_localFileRoot ?m) new_fs = (Inr opened_backend, opened_fs)"
    by (simp add: local_ops_def sample_env_def opened_local)
  have conf: "HistoryManager_Configure basic_ucd hm_codec ?H sample_env 7 ?io local_input (?m, Map.empty, new_fs) =
      (Inr (), (?m', ?d, opened_fs))"
    using norm opened t fresh
    by (simp add: HistoryManager_Configure_def normalizeRetentionVersions_def defaultRetentionVersions_def saveConfig_def
        historyStorageConfigVersion_def replace_file_cases local_input_def zero_input_def sample_hm_def)
  have prune: "ho_Prune ?H sample_env 100 (opened_backend, opened_fs) = (Inr (), (opened_backend, opened_fs))"
    "ho_PruneAudit ?H sample_env c (opened_backend, opened_fs) = (Inr (), (opened_backend, opened_fs))" for c
    by (simp_all add: local_ops_def on_history_def FileHistory_Prune_def localHistoryBackend_PruneAudit_def FileAudit_PruneAudit_def
        opened_backend_def sample_env_def Let_def)
  have "utf8Valid ''local''" "utf8Valid ''/d/h''"
    by (simp_all add: utf8Valid_ascii ascii_def byte_def del: utf8Valid.simps)
  then have "storage_utf8 (hm_config ?m')"
    by (simp add: storage_utf8_def zero_input_def HistoryStorageLocal_def del: utf8Valid.simps(2))
  with storage_config_survives_restart [OF hm_codec_law fresh conf, of ?m sample_env new_fs opened_backend opened_fs
      "(opened_backend, opened_fs)" 8 opened_backend opened_fs] conf opened prune short show ?thesis
    by (auto simp: opened_paths sample_hm_def historyConfigLimit_def)
qed

end
