(* ===== verification/Mvcc.thy ===== *)
theory Mvcc
  imports Store_Types
begin

text \<open>
  The multi-version store that an etcd cluster keeps, as the etcd documentation describes it:
  a revision counter, a compaction revision, and the log of all writes, newest first. It is the
  vocabulary in which the laws of the etcd client and of \<open>store.KV\<close> are stated, and, with
  the operations below, a reference implementation of them.

  Other clients write to the cluster at any time. What they can do between two calls of the
  program is \<open>mvcc_le\<close>: revisions only grow and the log only gets longer.
\<close>

record mvcc =
  mv_rev :: int
  mv_compact :: int
  mv_log :: "(int \<times> bytes \<times> Entry option) list"

section \<open>Lookup\<close>

fun newest :: "(int \<times> bytes \<times> Entry option) list \<Rightarrow> bytes \<Rightarrow> int \<Rightarrow> Entry option" where
  "newest [] k r = None"
| "newest ((q, k', e) # log) k r = (if k' = k \<and> q \<le> r then e else newest log k r)"

definition at_rev :: "mvcc \<Rightarrow> bytes \<Rightarrow> int \<Rightarrow> Entry option" where
  "at_rev s k r = newest (mv_log s) k r"

definition current :: "mvcc \<Rightarrow> bytes \<Rightarrow> Entry option" where
  "current s k = at_rev s k (mv_rev s)"

definition mod_rev :: "mvcc \<Rightarrow> bytes \<Rightarrow> int" where
  "mod_rev s k = (case current s k of None \<Rightarrow> 0 | Some e \<Rightarrow> e_ModRevision e)"

section \<open>Updates\<close>

definition put_entry :: "bytes \<Rightarrow> bytes \<Rightarrow> mvcc \<Rightarrow> Entry" where
  "put_entry k v s =
    (let old = current s k; r = mv_rev s + 1 in
     \<lparr>e_Key = k, e_Value = v, e_CreateRevision = (case old of None \<Rightarrow> r | Some e \<Rightarrow> e_CreateRevision e),
      e_ModRevision = r, e_Version = (case old of None \<Rightarrow> 1 | Some e \<Rightarrow> e_Version e + 1), e_Lease = 0\<rparr>)"

definition mput :: "bytes \<Rightarrow> bytes \<Rightarrow> mvcc \<Rightarrow> mvcc" where
  "mput k v s = s\<lparr>mv_rev := mv_rev s + 1, mv_log := (mv_rev s + 1, k, Some (put_entry k v s)) # mv_log s\<rparr>"

definition mdelete :: "bytes \<Rightarrow> mvcc \<Rightarrow> mvcc" where
  "mdelete k s =
    (if current s k = None then s
     else s\<lparr>mv_rev := mv_rev s + 1, mv_log := (mv_rev s + 1, k, None) # mv_log s\<rparr>)"

definition mcompact :: "int \<Rightarrow> mvcc \<Rightarrow> mvcc" where
  "mcompact r s = (if mv_compact s \<le> r \<and> r \<le> mv_rev s then s\<lparr>mv_compact := r\<rparr> else s)"

section \<open>The invariant and the order of states\<close>

definition log_entry_ok :: "int \<times> bytes \<times> Entry option \<Rightarrow> bool" where
  "log_entry_ok x = (case x of (q, k, e) \<Rightarrow> 1 \<le> q \<and> (\<forall>v. e = Some v \<longrightarrow> e_Key v = k \<and> e_ModRevision v = q))"

definition mvcc_inv :: "mvcc \<Rightarrow> bool" where
  "mvcc_inv s \<longleftrightarrow> 0 \<le> mv_compact s \<and> mv_compact s \<le> mv_rev s \<and> list_all log_entry_ok (mv_log s) \<and>
     list_all (\<lambda>x. fst x \<le> mv_rev s) (mv_log s) \<and> sorted_wrt (\<lambda>x y. fst y \<le> fst x) (mv_log s)"

definition mvcc_le :: "mvcc \<Rightarrow> mvcc \<Rightarrow> bool" where
  "mvcc_le s s' \<longleftrightarrow> mvcc_inv s' \<and> mv_rev s \<le> mv_rev s' \<and> mv_compact s \<le> mv_compact s' \<and>
     (\<exists>new. mv_log s' = new @ mv_log s \<and> list_all (\<lambda>x. mv_rev s < fst x) new)"

definition empty_mvcc :: mvcc where
  "empty_mvcc = \<lparr>mv_rev = 1, mv_compact = 0, mv_log = []\<rparr>"

lemma empty_mvcc_inv [simp]: "mvcc_inv empty_mvcc"
  by (simp add: mvcc_inv_def empty_mvcc_def)

lemma mvcc_le_refl: "mvcc_inv s \<Longrightarrow> mvcc_le s s"
  by (auto simp: mvcc_le_def intro: exI [of _ "[]"])

lemma mvcc_le_trans [trans]:
  assumes "mvcc_le s t" and "mvcc_le t u"
  shows "mvcc_le s u"
proof -
  obtain xs ys where "mv_log t = xs @ mv_log s" "list_all (\<lambda>x. mv_rev s < fst x) xs"
      "mv_log u = ys @ mv_log t" "list_all (\<lambda>x. mv_rev t < fst x) ys"
    using assms by (auto simp: mvcc_le_def)
  moreover have "list_all (\<lambda>x. mv_rev s < fst x) ys"
    using assms(1) calculation(4) by (auto simp: mvcc_le_def list_all_iff)
  ultimately show ?thesis
    using assms by (auto simp: mvcc_le_def intro!: exI [of _ "ys @ xs"])
qed

lemma mvcc_le_inv: "mvcc_le s s' \<Longrightarrow> mvcc_inv s'"
  by (simp add: mvcc_le_def)

lemma mvcc_le_rev: "mvcc_le s s' \<Longrightarrow> mv_rev s \<le> mv_rev s'" "mvcc_le s s' \<Longrightarrow> mv_compact s \<le> mv_compact s'"
  by (simp_all add: mvcc_le_def)

lemma mput_le: "mvcc_inv s \<Longrightarrow> mvcc_le s (mput k v s)"
  by (fastforce simp: mvcc_le_def mvcc_inv_def mput_def log_entry_ok_def put_entry_def Let_def list_all_iff split: prod.splits)

lemma mdelete_le: "mvcc_inv s \<Longrightarrow> mvcc_le s (mdelete k s)"
  by (cases "current s k = None")
    (auto simp: mvcc_le_refl mdelete_def, fastforce simp: mvcc_le_def mvcc_inv_def log_entry_ok_def list_all_iff)

lemma mcompact_le: "mvcc_inv s \<Longrightarrow> mvcc_le s (mcompact r s)"
  by (auto simp: mvcc_le_refl mcompact_def mvcc_le_def mvcc_inv_def)

section \<open>Facts\<close>

lemma newest_entry:
  assumes "list_all log_entry_ok log" and "newest log k r = Some e"
  shows "e_Key e = k \<and> 1 \<le> e_ModRevision e \<and> e_ModRevision e \<le> r \<and> (e_ModRevision e, k, Some e) \<in> set log"
  using assms by (induction log k r rule: newest.induct) (auto simp: log_entry_ok_def split: if_splits)

lemma at_rev_entry:
  assumes "mvcc_inv s" and "at_rev s k r = Some e"
  shows "e_Key e = k" "1 \<le> e_ModRevision e" "e_ModRevision e \<le> r" "e_ModRevision e \<le> mv_rev s"
  using newest_entry [of "mv_log s" k r e] assms by (auto simp: at_rev_def mvcc_inv_def list_all_iff)

lemmas current_entry = at_rev_entry [of s k "mv_rev s" for s k, folded current_def]

lemma newest_append:
  assumes "list_all (\<lambda>x. r < fst x) new"
  shows "newest (new @ log) k r = newest log k r"
  using assms by (induction new) (auto split: prod.splits)

text \<open>What was true at a revision stays true at that revision.\<close>

lemma at_rev_stable:
  assumes "mvcc_le s s'" and "r \<le> mv_rev s"
  shows "at_rev s' k r = at_rev s k r"
proof -
  obtain new where new: "mv_log s' = new @ mv_log s" "list_all (\<lambda>x. mv_rev s < fst x) new"
    using assms(1) by (auto simp: mvcc_le_def)
  then have "list_all (\<lambda>x. r < fst x) new"
    using assms(2) by (auto simp: list_all_iff)
  with new(1) show ?thesis by (simp add: at_rev_def newest_append)
qed

text \<open>Between an entry and the revision at which it is read there is no other write to the key.\<close>

lemma newest_between:
  assumes "sorted_wrt (\<lambda>x y. fst y \<le> fst x) log" and "list_all log_entry_ok log"
    and "newest log k r = Some e" and "e_ModRevision e \<le> q" and "q \<le> r"
  shows "newest log k q = Some e"
  using assms
proof (induction log k r rule: newest.induct)
  case (2 p k' x log k r)
  show ?case
  proof (cases "k' = k \<and> p \<le> r")
    case True
    with 2 have "x = Some e" "p = e_ModRevision e" by (auto simp: log_entry_ok_def)
    with 2 True show ?thesis by simp
  next
    case False
    with 2 have "newest log k q = Some e" by (auto split: if_splits)
    moreover have "\<not> (k' = k \<and> p \<le> q)"
      using False 2(6) by auto
    ultimately show ?thesis by auto
  qed
qed simp

lemma at_rev_between:
  assumes "mvcc_inv s" and "at_rev s k r = Some e" and "e_ModRevision e \<le> q" and "q \<le> r"
  shows "at_rev s k q = Some e"
  using assms by (auto simp: at_rev_def mvcc_inv_def intro: newest_between)

text \<open>
  A key whose entry still has an old modification revision has not been written: this is what
  makes a comparison of modification revisions a check that nothing has changed.
\<close>

lemma current_unchanged:
  assumes "mvcc_le s s'" and "current s' k = Some e" and "e_ModRevision e \<le> mv_rev s"
  shows "current s k = Some e"
proof -
  have "at_rev s' k (mv_rev s) = Some e"
    using at_rev_between [OF mvcc_le_inv [OF assms(1)] assms(2) [unfolded current_def] assms(3)] mvcc_le_rev(1) [OF assms(1)] .
  then show ?thesis
    using at_rev_stable [OF assms(1) order_refl] by (simp add: current_def)
qed

lemma mod_rev_compare:
  assumes "mvcc_inv s" and "mvcc_le s s'" and "current s k = Some e" and "mod_rev s' k = e_ModRevision e"
  shows "current s' k = Some e"
proof -
  have pos: "1 \<le> e_ModRevision e" and le: "e_ModRevision e \<le> mv_rev s"
    using current_entry [OF assms(1,3)] by auto
  then obtain e' where e': "current s' k = Some e'" "e_ModRevision e' = e_ModRevision e"
    using assms(4) by (auto simp: mod_rev_def split: option.splits)
  then have "current s k = Some e'"
    using current_unchanged [OF assms(2) e'(1)] le by simp
  with assms(3) e' show ?thesis by simp
qed

lemma mod_rev_absent:
  assumes "mvcc_inv s" and "mod_rev s k = 0"
  shows "current s k = None"
  using assms current_entry(2) [OF assms(1)] by (fastforce simp: mod_rev_def split: option.splits)

lemma newest_above:
  assumes "list_all (\<lambda>x. fst x \<le> r) log" and "r \<le> r'"
  shows "newest log k r' = newest log k r"
  using assms by (induction log) (auto split: prod.splits)

lemma current_mput [simp]:
  assumes "mvcc_inv s"
  shows "current (mput k v s) k' = (if k' = k then Some (put_entry k v s) else current s k')"
  using assms newest_above [of "mv_rev s" "mv_log s" "mv_rev s + 1" k']
  by (auto simp: current_def at_rev_def mput_def mvcc_inv_def)

lemma current_mdelete:
  assumes "mvcc_inv s"
  shows "current (mdelete k s) k' = (if k' = k then None else current s k')"
  using assms newest_above [of "mv_rev s" "mv_log s" "mv_rev s + 1" k']
  by (auto simp: current_def at_rev_def mdelete_def mvcc_inv_def)

lemma put_entry_simps [simp]:
  "e_Key (put_entry k v s) = k" "e_Value (put_entry k v s) = v" "e_ModRevision (put_entry k v s) = mv_rev s + 1"
  by (simp_all add: put_entry_def Let_def)

lemma mput_rev [simp]: "mv_rev (mput k v s) = mv_rev s + 1"
  by (simp add: mput_def)

end
