(* ===== verification/Etcd_KV.thy ===== *)
theory Etcd_KV
  imports Mvcc Go_Strings
begin

text \<open>
  \<open>internal/store/etcd.go\<close>, the implementation of \<open>store.KV\<close> on the official etcd client.
  The client package is a parameter: a record of the calls the code makes, over the world
  the clusters live in. Its laws (locale \<open>mvcc_client\<close>) are the documented behaviour of etcd
  in terms of \<open>Mvcc\<close>: every call takes effect at one moment between its start and its
  end, while other clients go on writing; a call that returns an error may or may not have
  taken effect. From them follow the laws of \<open>store.KV\<close> (locale \<open>kv_store\<close>), on which the
  server relies. A client that executes the reference store of \<open>Mvcc\<close> shows that the laws
  can be met.
\<close>

section \<open>The etcd client\<close>

record KeyValue =
  kv_Key :: bytes
  kv_Value :: bytes
  kv_CreateRevision :: int
  kv_ModRevision :: int
  kv_Version :: int
  kv_Lease :: int

text \<open>
  A \<open>Get\<close> with its options: an empty range end is a single key, limit 0 no limit, revision
  0 the newest one.
\<close>

record get_request =
  gr_Key :: bytes
  gr_RangeEnd :: bytes
  gr_Limit :: int
  gr_Rev :: int
  gr_SortByKey :: bool
  gr_CountOnly :: bool

datatype txn_op = OpPut bytes bytes | OpDelete bytes

record status_response =
  sr_Errors :: "string list"
  sr_Version :: string
  sr_Leader :: nat
  sr_MemberId :: "nat option"

text \<open>\<open>Compacted\<close> is the error that \<open>rpctypes.Error\<close> maps to \<open>ErrCompacted\<close>.\<close>

datatype client_error = Compacted | ClientError error

fun clientErr :: "client_error \<Rightarrow> error" where
  "clientErr Compacted = Opaque ''mvcc: required revision has been compacted''"
| "clientErr (ClientError e) = e"

record 'w etcd_client =
  cl_Get :: "get_request \<Rightarrow> 'w \<Rightarrow> (client_error, KeyValue list) result \<times> 'w"
  cl_Put :: "bytes \<Rightarrow> bytes \<Rightarrow> 'w \<Rightarrow> (client_error, int) result \<times> 'w"
  cl_Delete :: "bytes \<Rightarrow> 'w \<Rightarrow> (client_error, int \<times> int) result \<times> 'w"
  cl_Txn :: "bytes \<Rightarrow> int \<Rightarrow> txn_op \<Rightarrow> 'w \<Rightarrow> (client_error, bool \<times> int) result \<times> 'w"
  cl_Status :: "string \<Rightarrow> 'w \<Rightarrow> (string, status_response) result"
  cl_PrefixRangeEnd :: "bytes \<Rightarrow> bytes"

section \<open>The interface of the server\<close>

record 'w KV =
  kv_Health :: "'w \<Rightarrow> error option \<times> 'w"
  kv_MemberStatuses :: "string list \<Rightarrow> 'w \<Rightarrow> MemberStatus list"
  kv_List :: "bytes \<Rightarrow> bytes \<Rightarrow> int \<Rightarrow> 'w \<Rightarrow> (error, Page) result \<times> 'w"
  kv_Get :: "bytes \<Rightarrow> 'w \<Rightarrow> (error, Entry option) result \<times> 'w"
  kv_GetAtRevision :: "bytes \<Rightarrow> int \<Rightarrow> 'w \<Rightarrow> (error, Entry option) result \<times> 'w"
  kv_Put :: "bytes \<Rightarrow> bytes \<Rightarrow> int option \<Rightarrow> 'w \<Rightarrow> (error, int) result \<times> 'w"
  kv_Delete :: "bytes \<Rightarrow> int option \<Rightarrow> 'w \<Rightarrow> (error, int \<times> bool) result \<times> 'w"

section \<open>Operations\<close>

definition entryFromKV :: "KeyValue \<Rightarrow> Entry" where
  "entryFromKV item =
    \<lparr>e_Key = kv_Key item, e_Value = kv_Value item, e_CreateRevision = kv_CreateRevision item,
     e_ModRevision = kv_ModRevision item, e_Version = kv_Version item, e_Lease = kv_Lease item\<rparr>"

definition plain_get :: "bytes \<Rightarrow> get_request" where
  "plain_get k = \<lparr>gr_Key = k, gr_RangeEnd = [], gr_Limit = 0, gr_Rev = 0, gr_SortByKey = False, gr_CountOnly = False\<rparr>"

definition Etcd_Health :: "'w etcd_client \<Rightarrow> 'w \<Rightarrow> error option \<times> 'w" where
  "Etcd_Health C w =
    (case cl_Get C ((plain_get [CHR 0x00])\<lparr>gr_RangeEnd := [CHR 0x00], gr_CountOnly := True, gr_Limit := 1\<rparr>) w of
       (Inl e, w') \<Rightarrow> (Some (clientErr e), w')
     | (Inr _, w') \<Rightarrow> (None, w'))"

text \<open>
  One goroutine per endpoint writes its own element of the result; they finish in any order,
  which is the argument \<open>order\<close>.
\<close>

definition memberStatus :: "'w etcd_client \<Rightarrow> string \<Rightarrow> 'w \<Rightarrow> MemberStatus" where
  "memberStatus C endpoint w =
    (let member = \<lparr>ms_Endpoint = endpoint, ms_MemberID = 0, ms_LeaderID = 0, ms_Reachable = False, ms_Healthy = False,
                   ms_Version = [], ms_Error = []\<rparr> in
     case cl_Status C endpoint w of
       Inl err \<Rightarrow> member\<lparr>ms_Error := err\<rparr>
     | Inr response \<Rightarrow>
         member\<lparr>ms_Reachable := True, ms_Healthy := sr_Errors response = [], ms_Version := sr_Version response,
                ms_LeaderID := sr_Leader response,
                ms_MemberID := (case sr_MemberId response of None \<Rightarrow> 0 | Some i \<Rightarrow> i),
                ms_Error := (if sr_Errors response \<noteq> [] then Join (sr_Errors response) ''; '' else [])\<rparr>)"

definition zeroStatus :: MemberStatus where
  "zeroStatus = \<lparr>ms_Endpoint = [], ms_MemberID = 0, ms_LeaderID = 0, ms_Reachable = False, ms_Healthy = False,
     ms_Version = [], ms_Error = []\<rparr>"

definition Etcd_MemberStatuses :: "nat list \<Rightarrow> 'w etcd_client \<Rightarrow> string list \<Rightarrow> 'w \<Rightarrow> MemberStatus list" where
  "Etcd_MemberStatuses order C endpoints w =
    fold (\<lambda>index statuses. statuses[index := memberStatus C (endpoints ! index) w]) order
      (replicate (length endpoints) zeroStatus)"

fun listPage :: "int \<Rightarrow> int \<Rightarrow> KeyValue list \<Rightarrow> Page" where
  "listPage index limit [] = \<lparr>pg_Entries = [], pg_NextCursor = []\<rparr>"
| "listPage index limit (item # items) =
     (if index = limit then \<lparr>pg_Entries = [], pg_NextCursor = kv_Key item\<rparr>
      else let page = listPage (index + 1) limit items in page\<lparr>pg_Entries := entryFromKV item # pg_Entries page\<rparr>)"

definition Etcd_List :: "'w etcd_client \<Rightarrow> bytes \<Rightarrow> bytes \<Rightarrow> int \<Rightarrow> 'w \<Rightarrow> (error, Page) result \<times> 'w" where
  "Etcd_List C pfx cursor limit w =
    (if limit < 1 then (Inl (Opaque ''limit must be positive''), w)
     else if cursor \<noteq> [] \<and> \<not> HasPrefix cursor pfx then (Inl (Opaque ''cursor is outside the requested pfx''), w)
     else
       let start = (if cursor \<noteq> [] then cursor else if pfx = [] then [CHR 0x00] else pfx);
           rangeEnd = (if pfx = [] then [CHR 0x00] else cl_PrefixRangeEnd C pfx) in
       case cl_Get C ((plain_get start)\<lparr>gr_RangeEnd := rangeEnd, gr_Limit := wrap64 (limit + 1), gr_SortByKey := True\<rparr>) w of
         (Inl e, w') \<Rightarrow> (Inl (clientErr e), w')
       | (Inr kvs, w') \<Rightarrow> (Inr (listPage 0 limit kvs), w'))"

definition firstEntry :: "KeyValue list \<Rightarrow> Entry option" where
  "firstEntry kvs = (case kvs of [] \<Rightarrow> None | kv # _ \<Rightarrow> Some (entryFromKV kv))"

definition Etcd_Get :: "'w etcd_client \<Rightarrow> bytes \<Rightarrow> 'w \<Rightarrow> (error, Entry option) result \<times> 'w" where
  "Etcd_Get C key w =
    (case cl_Get C ((plain_get key)\<lparr>gr_Limit := 1\<rparr>) w of
       (Inl e, w') \<Rightarrow> (Inl (clientErr e), w')
     | (Inr kvs, w') \<Rightarrow> (Inr (firstEntry kvs), w'))"

definition Etcd_GetAtRevision :: "'w etcd_client \<Rightarrow> bytes \<Rightarrow> int \<Rightarrow> 'w \<Rightarrow> (error, Entry option) result \<times> 'w" where
  "Etcd_GetAtRevision C key revision w =
    (if revision < 1 then (Inl (Sentinel ErrNoPreviousVersion), w)
     else case cl_Get C ((plain_get key)\<lparr>gr_Rev := revision, gr_Limit := 1\<rparr>) w of
         (Inl Compacted, w') \<Rightarrow> (Inl (Sentinel ErrHistoryCompacted), w')
       | (Inl e, w') \<Rightarrow> (Inl (clientErr e), w')
       | (Inr kvs, w') \<Rightarrow> (Inr (firstEntry kvs), w'))"

definition Etcd_Put :: "'w etcd_client \<Rightarrow> bytes \<Rightarrow> bytes \<Rightarrow> int option \<Rightarrow> 'w \<Rightarrow> (error, int) result \<times> 'w" where
  "Etcd_Put C key value expectedModRevision w =
    (case expectedModRevision of
       None \<Rightarrow>
         (case cl_Put C key value w of
            (Inl e, w') \<Rightarrow> (Inl (clientErr e), w')
          | (Inr revision, w') \<Rightarrow> (Inr revision, w'))
     | Some expected \<Rightarrow>
         (case cl_Txn C key expected (OpPut key value) w of
            (Inl e, w') \<Rightarrow> (Inl (clientErr e), w')
          | (Inr (succeeded, revision), w') \<Rightarrow>
              if \<not> succeeded then (Inl (Sentinel ErrConflict), w') else (Inr revision, w')))"

definition Etcd_Delete :: "'w etcd_client \<Rightarrow> bytes \<Rightarrow> int option \<Rightarrow> 'w \<Rightarrow> (error, int \<times> bool) result \<times> 'w" where
  "Etcd_Delete C key expectedModRevision w =
    (case expectedModRevision of
       None \<Rightarrow>
         (case cl_Delete C key w of
            (Inl e, w') \<Rightarrow> (Inl (clientErr e), w')
          | (Inr (revision, deleted), w') \<Rightarrow> (Inr (revision, 0 < deleted), w'))
     | Some expected \<Rightarrow>
         (case cl_Txn C key expected (OpDelete key) w of
            (Inl e, w') \<Rightarrow> (Inl (clientErr e), w')
          | (Inr (succeeded, revision), w') \<Rightarrow>
              if \<not> succeeded then (Inl (Sentinel ErrConflict), w') else (Inr (revision, True), w')))"

definition Etcd :: "nat list \<Rightarrow> 'w etcd_client \<Rightarrow> 'w KV" where
  "Etcd order C =
    \<lparr>kv_Health = Etcd_Health C, kv_MemberStatuses = Etcd_MemberStatuses order C, kv_List = Etcd_List C, kv_Get = Etcd_Get C,
     kv_GetAtRevision = Etcd_GetAtRevision C, kv_Put = Etcd_Put C, kv_Delete = Etcd_Delete C\<rparr>"

section \<open>The laws of the client\<close>

definition in_range :: "bytes \<Rightarrow> bytes \<Rightarrow> bytes \<Rightarrow> bool" where
  "in_range start stop k =
    (if stop = [] then k = start else if stop = [CHR 0x00] then start \<le> k else start \<le> k \<and> k < stop)"

definition kvFromEntry :: "Entry \<Rightarrow> KeyValue" where
  "kvFromEntry e =
    \<lparr>kv_Key = e_Key e, kv_Value = e_Value e, kv_CreateRevision = e_CreateRevision e, kv_ModRevision = e_ModRevision e,
     kv_Version = e_Version e, kv_Lease = e_Lease e\<rparr>"

text \<open>The entries at a revision in ascending order of their keys.\<close>

definition all_keys :: "mvcc \<Rightarrow> bytes list" where
  "all_keys s = sort (remdups (map (fst \<circ> snd) (mv_log s)))"

definition entries_in :: "mvcc \<Rightarrow> int \<Rightarrow> (bytes \<Rightarrow> bool) \<Rightarrow> Entry list" where
  "entries_in s r P = map (\<lambda>k. the (at_rev s k r)) (filter (\<lambda>k. at_rev s k r \<noteq> None) (filter P (all_keys s)))"

definition get_reply :: "get_request \<Rightarrow> mvcc \<Rightarrow> KeyValue list" where
  "get_reply req s =
    (let r = (if gr_Rev req = 0 then mv_rev s else gr_Rev req);
         kvs = map kvFromEntry (entries_in s r (in_range (gr_Key req) (gr_RangeEnd req))) in
     if gr_CountOnly req then [] else if 0 < gr_Limit req then take (nat (gr_Limit req)) kvs else kvs)"

fun txn_apply :: "txn_op \<Rightarrow> mvcc \<Rightarrow> mvcc" where
  "txn_apply (OpPut k v) s = mput k v s"
| "txn_apply (OpDelete k) s = mdelete k s"

text \<open>The client package does not know the sentinel errors of this program.\<close>

definition foreign :: "error \<Rightarrow> bool" where
  "foreign e \<longleftrightarrow> (\<forall>x. \<not> errorsIs e x)"

locale mvcc_client =
  fixes C :: "'w etcd_client" and st :: "'w \<Rightarrow> mvcc"
  assumes get_law: "mvcc_inv (st w) \<Longrightarrow> cl_Get C req w = (r, w') \<Longrightarrow>
      mvcc_le (st w) (st w') \<and>
      (\<forall>kvs. r = Inr kvs \<longrightarrow> (\<exists>s. mvcc_le (st w) s \<and> mvcc_le s (st w') \<and> gr_Rev req \<le> mv_rev s \<and> kvs = get_reply req s)) \<and>
      (r = Inl Compacted \<longrightarrow> 0 < gr_Rev req \<and> gr_Rev req < mv_compact (st w')) \<and> (\<forall>e. r = Inl (ClientError e) \<longrightarrow> foreign e)"
    and put_law: "mvcc_inv (st w) \<Longrightarrow> cl_Put C k v w = (p, w') \<Longrightarrow>
      mvcc_le (st w) (st w') \<and>
      (\<forall>rev. p = Inr rev \<longrightarrow> (\<exists>s. mvcc_le (st w) s \<and> mvcc_le (mput k v s) (st w') \<and> rev = mv_rev s + 1)) \<and>
      (\<forall>e. p = Inl (ClientError e) \<longrightarrow> foreign e)"
    and delete_law: "mvcc_inv (st w) \<Longrightarrow> cl_Delete C k w = (d, w') \<Longrightarrow>
      mvcc_le (st w) (st w') \<and>
      (\<forall>rev n. d = Inr (rev, n) \<longrightarrow> (\<exists>s. mvcc_le (st w) s \<and> mvcc_le (mdelete k s) (st w') \<and> rev = mv_rev (mdelete k s) \<and>
         n = (if current s k = None then 0 else 1))) \<and>
      (\<forall>e. d = Inl (ClientError e) \<longrightarrow> foreign e)"
    and txn_law: "mvcc_inv (st w) \<Longrightarrow> cl_Txn C k x opr w = (t, w') \<Longrightarrow>
      mvcc_le (st w) (st w') \<and>
      (\<forall>ok rev. t = Inr (ok, rev) \<longrightarrow> (\<exists>s. mvcc_le (st w) s \<and> (ok \<longleftrightarrow> mod_rev s k = x) \<and>
         (if ok then mvcc_le (txn_apply opr s) (st w') \<and> rev = mv_rev (txn_apply opr s) else mvcc_le s (st w')))) \<and>
      (\<forall>e. t = Inl (ClientError e) \<longrightarrow> foreign e)"
    and prefix_law: "pfx \<noteq> [] \<Longrightarrow> cl_PrefixRangeEnd C pfx \<noteq> [] \<and>
      (in_range pfx (cl_PrefixRangeEnd C pfx) k \<longleftrightarrow> HasPrefix k pfx)"

section \<open>The laws of the interface\<close>

definition list_spec :: "mvcc \<Rightarrow> bytes \<Rightarrow> bytes \<Rightarrow> Entry list" where
  "list_spec s pfx cursor = entries_in s (mv_rev s) (\<lambda>k. HasPrefix k pfx \<and> k \<noteq> [] \<and> cursor \<le> k)"

locale kv_store =
  fixes K :: "'w KV" and st :: "'w \<Rightarrow> mvcc"
  assumes kv_get: "mvcc_inv (st w) \<Longrightarrow> kv_Get K k w = (r, w') \<Longrightarrow>
      mvcc_le (st w) (st w') \<and>
      (\<forall>e. r = Inr e \<longrightarrow> (\<exists>s. mvcc_le (st w) s \<and> mvcc_le s (st w') \<and> e = current s k)) \<and>
      (\<forall>e. r = Inl e \<longrightarrow> foreign e)"
    and kv_at: "mvcc_inv (st w) \<Longrightarrow> kv_GetAtRevision K k q w = (r, w') \<Longrightarrow>
      mvcc_le (st w) (st w') \<and>
      (\<forall>e. r = Inr e \<longrightarrow> 1 \<le> q \<and> q \<le> mv_rev (st w') \<and> e = at_rev (st w') k q) \<and>
      (\<forall>e. r = Inl e \<longrightarrow> errorsIs e ErrHistoryCompacted \<longrightarrow> q < mv_compact (st w'))"
    and kv_put: "mvcc_inv (st w) \<Longrightarrow> kv_Put K k v x w = (p, w') \<Longrightarrow>
      mvcc_le (st w) (st w') \<and>
      (\<forall>rev. p = Inr rev \<longrightarrow> (\<exists>s. mvcc_le (st w) s \<and> (\<forall>m. x = Some m \<longrightarrow> mod_rev s k = m) \<and>
         mvcc_le (mput k v s) (st w') \<and> rev = mv_rev s + 1)) \<and>
      (\<forall>e. p = Inl e \<longrightarrow> errorsIs e ErrConflict \<longrightarrow>
         (\<exists>s m. mvcc_le (st w) s \<and> mvcc_le s (st w') \<and> x = Some m \<and> mod_rev s k \<noteq> m))"
    and kv_delete: "mvcc_inv (st w) \<Longrightarrow> kv_Delete K k x w = (d, w') \<Longrightarrow>
      mvcc_le (st w) (st w') \<and>
      (\<forall>rev ok. d = Inr (rev, ok) \<longrightarrow> (\<exists>s. mvcc_le (st w) s \<and> (\<forall>m. x = Some m \<longrightarrow> mod_rev s k = m) \<and>
         mvcc_le (mdelete k s) (st w') \<and> rev = mv_rev (mdelete k s) \<and> (x = None \<longrightarrow> ok = (current s k \<noteq> None))))"
    and kv_list: "mvcc_inv (st w) \<Longrightarrow> kv_List K pfx cursor limit w = (l, w') \<Longrightarrow>
      mvcc_le (st w) (st w') \<and>
      (\<forall>page. l = Inr page \<longrightarrow> limit < 2 ^ 63 - 1 \<longrightarrow> (\<exists>s. mvcc_le (st w) s \<and> mvcc_le s (st w') \<and>
         pg_Entries page = take (nat limit) (list_spec s pfx cursor) \<and>
         pg_NextCursor page = (if length (list_spec s pfx cursor) \<le> nat limit then []
           else e_Key (list_spec s pfx cursor ! nat limit))))"

section \<open>The implementation meets the laws\<close>

lemma entryFromKV_kvFromEntry [simp]: "entryFromKV (kvFromEntry e) = e"
  by (simp add: entryFromKV_def kvFromEntry_def)

lemma newest_absent: "k \<notin> (fst \<circ> snd) ` set log \<Longrightarrow> newest log k r = None"
  by (induction log k r rule: newest.induct) auto

lemma filter_eq_sorted: "distinct ks \<Longrightarrow> filter (\<lambda>k. k = x) ks = (if x \<in> set ks then [x] else [])"
  by (induction ks) auto

lemma entries_in_single: "entries_in s r (\<lambda>k. k = x) = (case at_rev s x r of None \<Rightarrow> [] | Some e \<Rightarrow> [e])"
proof -
  have one: "filter (\<lambda>k. k = x) (all_keys s) = (if x \<in> (fst \<circ> snd) ` set (mv_log s) then [x] else [])"
    using filter_eq_sorted [of "all_keys s" x] by (simp add: all_keys_def)
  show ?thesis
  proof (cases "x \<in> (fst \<circ> snd) ` set (mv_log s)")
    case True
    with one show ?thesis by (simp add: entries_in_def split: option.split)
  next
    case False
    with one newest_absent [OF False] show ?thesis by (simp add: entries_in_def at_rev_def)
  qed
qed

lemma in_range_single [simp]: "in_range k [] = (\<lambda>x. x = k)"
  by (simp add: in_range_def fun_eq_iff)

lemma firstEntry_single:
  "firstEntry (get_reply ((plain_get k)\<lparr>gr_Rev := q, gr_Limit := 1\<rparr>) s) = at_rev s k (if q = 0 then mv_rev s else q)"
  by (simp add: get_reply_def plain_get_def entries_in_single firstEntry_def split: option.split)

lemma listPage_take:
  assumes "index \<le> limit"
  shows "listPage index limit kvs =
    \<lparr>pg_Entries = map entryFromKV (take (nat (limit - index)) kvs),
     pg_NextCursor = (if length kvs \<le> nat (limit - index) then [] else kv_Key (kvs ! nat (limit - index)))\<rparr>"
  using assms
proof (induction index limit kvs rule: listPage.induct)
  case (2 index limit item items)
  show ?case
  proof (cases "index = limit")
    case False
    then have "nat (limit - index) = Suc (nat (limit - (index + 1)))"
      using 2(2) by simp
    with 2 False show ?thesis by (simp add: Let_def)
  qed simp
qed simp

lemma listPage_cut:
  assumes "0 \<le> limit"
  shows "listPage 0 limit (take (Suc (nat limit)) (map kvFromEntry xs)) =
    \<lparr>pg_Entries = take (nat limit) xs, pg_NextCursor = (if length xs \<le> nat limit then [] else e_Key (xs ! nat limit))\<rparr>"
proof -
  have "map entryFromKV (map kvFromEntry ys) = ys" for ys
    by (induction ys) simp_all
  then show ?thesis
    using assms by (auto simp: listPage_take take_map kvFromEntry_def min_def simp del: map_map)
qed

lemma HasPrefix_le: "HasPrefix k p \<Longrightarrow> p \<le> (k :: bytes)"
  by (induction k p rule: HasPrefix.induct) (auto simp: Cons_le_Cons)

lemma nul_le:
  assumes "k \<noteq> []"
  shows "[CHR 0x00] \<le> (k :: bytes)"
proof -
  obtain c l where k: "k = c # l" using assms by (cases k) auto
  have "CHR 0x00 \<le> c" by (simp add: less_eq_char_def)
  moreover have "[] \<le> l" by simp
  ultimately show ?thesis by (auto simp: k Cons_le_Cons simp del: Nil_le_Cons)
qed

context mvcc_client
begin

lemma Etcd_Get_law:
  assumes "mvcc_inv (st w)" and "Etcd_Get C k w = (r, w')"
  shows "mvcc_le (st w) (st w') \<and>
    (\<forall>e. r = Inr e \<longrightarrow> (\<exists>s. mvcc_le (st w) s \<and> mvcc_le s (st w') \<and> e = current s k)) \<and> (\<forall>e. r = Inl e \<longrightarrow> foreign e)"
proof -
  obtain g where g: "cl_Get C ((plain_get k)\<lparr>gr_Limit := 1\<rparr>) w = (g, w')"
    using assms(2) by (auto simp: Etcd_Get_def split: prod.splits sum.splits)
  note law = get_law [OF assms(1) g]
  have one: "firstEntry (get_reply ((plain_get k)\<lparr>gr_Limit := 1\<rparr>) s) = current s k" for s
    using firstEntry_single [where k = k and q = 0 and s = s] by (simp add: plain_get_def current_def)
  show ?thesis
  proof (cases g)
    case (Inl e)
    with law g assms(2) show ?thesis by (cases e) (auto simp: Etcd_Get_def plain_get_def foreign_def)
  next
    case (Inr kvs)
    with law g assms(2) one show ?thesis by (auto simp: Etcd_Get_def)
  qed
qed

lemma Etcd_GetAtRevision_law:
  assumes "mvcc_inv (st w)" and "Etcd_GetAtRevision C k q w = (r, w')"
  shows "mvcc_le (st w) (st w') \<and>
    (\<forall>e. r = Inr e \<longrightarrow> 1 \<le> q \<and> q \<le> mv_rev (st w') \<and> e = at_rev (st w') k q) \<and>
    (\<forall>e. r = Inl e \<longrightarrow> errorsIs e ErrHistoryCompacted \<longrightarrow> q < mv_compact (st w'))"
proof (cases "q < 1")
  case True
  with assms show ?thesis by (auto simp: Etcd_GetAtRevision_def mvcc_le_refl)
next
  case False
  let ?req = "(plain_get k)\<lparr>gr_Rev := q, gr_Limit := 1\<rparr>"
  obtain g where g: "cl_Get C ?req w = (g, w')"
    using assms(2) False by (auto simp: Etcd_GetAtRevision_def split: prod.splits sum.splits client_error.splits)
  note law = get_law [OF assms(1) g]
  show ?thesis
  proof (cases g)
    case (Inl e)
    with law g assms(2) False show ?thesis by (cases e) (auto simp: Etcd_GetAtRevision_def foreign_def)
  next
    case (Inr kvs)
    with law obtain s where s: "mvcc_le (st w) s" "mvcc_le s (st w')" "q \<le> mv_rev s" "kvs = get_reply ?req s"
      by auto
    then have "firstEntry kvs = at_rev (st w') k q"
      using firstEntry_single [where k = k and q = q and s = s] at_rev_stable [OF s(2,3)] False by simp
    with s Inr g assms(2) False law mvcc_le_rev(1) [OF s(2)] show ?thesis by (auto simp: Etcd_GetAtRevision_def)
  qed
qed

lemma Etcd_Put_law:
  assumes "mvcc_inv (st w)" and "Etcd_Put C k v x w = (p, w')"
  shows "mvcc_le (st w) (st w') \<and>
    (\<forall>rev. p = Inr rev \<longrightarrow> (\<exists>s. mvcc_le (st w) s \<and> (\<forall>m. x = Some m \<longrightarrow> mod_rev s k = m) \<and>
       mvcc_le (mput k v s) (st w') \<and> rev = mv_rev s + 1)) \<and>
    (\<forall>e. p = Inl e \<longrightarrow> errorsIs e ErrConflict \<longrightarrow>
       (\<exists>s m. mvcc_le (st w) s \<and> mvcc_le s (st w') \<and> x = Some m \<and> mod_rev s k \<noteq> m))"
proof (cases x)
  case None
  obtain g where g: "cl_Put C k v w = (g, w')"
    using assms(2) None by (auto simp: Etcd_Put_def split: prod.splits sum.splits)
  show ?thesis
  proof (cases g)
    case (Inl e)
    with put_law [OF assms(1) g] g assms(2) None show ?thesis by (cases e) (auto simp: Etcd_Put_def foreign_def)
  next
    case (Inr rev)
    with put_law [OF assms(1) g] g assms(2) None show ?thesis by (auto simp: Etcd_Put_def)
  qed
next
  case (Some m)
  obtain g where g: "cl_Txn C k m (OpPut k v) w = (g, w')"
    using assms(2) Some by (auto simp: Etcd_Put_def split: prod.splits sum.splits if_splits)
  note law = txn_law [OF assms(1) g]
  show ?thesis
  proof (cases g)
    case (Inl e)
    with law g assms(2) Some show ?thesis by (cases e) (auto simp: Etcd_Put_def foreign_def)
  next
    case (Inr okrev)
    obtain ok rev where okrev: "okrev = (ok, rev)" by (cases okrev)
    with law Inr obtain s where "mvcc_le (st w) s" "ok \<longleftrightarrow> mod_rev s k = m"
      "if ok then mvcc_le (mput k v s) (st w') \<and> rev = mv_rev s + 1 else mvcc_le s (st w')"
      by auto
    with law Inr okrev g assms(2) Some show ?thesis by (cases ok) (auto simp: Etcd_Put_def)
  qed
qed

lemma Etcd_Delete_law:
  assumes "mvcc_inv (st w)" and "Etcd_Delete C k x w = (d, w')"
  shows "mvcc_le (st w) (st w') \<and>
    (\<forall>rev ok. d = Inr (rev, ok) \<longrightarrow> (\<exists>s. mvcc_le (st w) s \<and> (\<forall>m. x = Some m \<longrightarrow> mod_rev s k = m) \<and>
       mvcc_le (mdelete k s) (st w') \<and> rev = mv_rev (mdelete k s) \<and> (x = None \<longrightarrow> ok = (current s k \<noteq> None))))"
proof (cases x)
  case None
  obtain g where g: "cl_Delete C k w = (g, w')"
    using assms(2) None by (auto simp: Etcd_Delete_def split: prod.splits sum.splits)
  show ?thesis
  proof (cases g)
    case (Inl e)
    with delete_law [OF assms(1) g] g assms(2) None show ?thesis by (auto simp: Etcd_Delete_def)
  next
    case (Inr rn)
    obtain rev n where rn: "rn = (rev, n)" by (cases rn)
    from delete_law [OF assms(1) g] Inr rn obtain s where "mvcc_le (st w) s" "mvcc_le (mdelete k s) (st w')"
      "rev = mv_rev (mdelete k s)" "n = (if current s k = None then 0 else 1)"
      by blast
    moreover have "d = Inr (rev, 0 < n)" "mvcc_le (st w) (st w')"
      using delete_law [OF assms(1) g] Inr rn g assms(2) None by (simp_all add: Etcd_Delete_def)
    ultimately show ?thesis using None by auto
  qed
next
  case (Some m)
  obtain g where g: "cl_Txn C k m (OpDelete k) w = (g, w')"
    using assms(2) Some by (auto simp: Etcd_Delete_def split: prod.splits sum.splits if_splits)
  note law = txn_law [OF assms(1) g]
  show ?thesis
  proof (cases g)
    case (Inl e)
    with law g assms(2) Some show ?thesis by (auto simp: Etcd_Delete_def)
  next
    case (Inr okrev)
    obtain ok rev where okrev: "okrev = (ok, rev)" by (cases okrev)
    with law Inr obtain s where "mvcc_le (st w) s" "ok \<longleftrightarrow> mod_rev s k = m"
      "if ok then mvcc_le (mdelete k s) (st w') \<and> rev = mv_rev (mdelete k s) else mvcc_le s (st w')"
      by auto
    with law Inr okrev g assms(2) Some show ?thesis by (cases ok) (auto simp: Etcd_Delete_def)
  qed
qed

lemma start_in_range:
  assumes "cursor \<noteq> [] \<longrightarrow> HasPrefix cursor pfx"
  shows "in_range (if cursor \<noteq> [] then cursor else if pfx = [] then [CHR 0x00] else pfx)
      (if pfx = [] then [CHR 0x00] else cl_PrefixRangeEnd C pfx) k \<longleftrightarrow> HasPrefix k pfx \<and> k \<noteq> [] \<and> cursor \<le> k"
proof (cases "pfx = []")
  case True
  have "k \<noteq> []" if "c # cs \<le> k" for c cs
    using that by auto
  with True show ?thesis
    using nul_le [of k] by (cases cursor) (auto simp: in_range_def)
next
  case False
  have stop: "cl_PrefixRangeEnd C pfx \<noteq> []" "in_range pfx (cl_PrefixRangeEnd C pfx) k \<longleftrightarrow> HasPrefix k pfx"
    using prefix_law [OF False] by auto
  have "pfx \<le> cursor" if "cursor \<noteq> []"
    using assms that HasPrefix_le by blast
  moreover have "k \<noteq> []" if "HasPrefix k pfx"
    using that False by (cases pfx) auto
  ultimately show ?thesis
    using False stop by (auto simp: in_range_def split: if_splits)
qed

lemma Etcd_List_law:
  assumes "mvcc_inv (st w)" and "Etcd_List C pfx cursor limit w = (l, w')"
  shows "mvcc_le (st w) (st w') \<and>
    (\<forall>page. l = Inr page \<longrightarrow> limit < 2 ^ 63 - 1 \<longrightarrow> (\<exists>s. mvcc_le (st w) s \<and> mvcc_le s (st w') \<and>
       pg_Entries page = take (nat limit) (list_spec s pfx cursor) \<and>
       pg_NextCursor page = (if length (list_spec s pfx cursor) \<le> nat limit then []
         else e_Key (list_spec s pfx cursor ! nat limit))))"
proof (cases "limit < 1 \<or> cursor \<noteq> [] \<and> \<not> HasPrefix cursor pfx")
  case True
  with assms show ?thesis by (auto simp: Etcd_List_def mvcc_le_refl split: if_splits)
next
  case False
  let ?start = "if cursor \<noteq> [] then cursor else if pfx = [] then [CHR 0x00] else pfx"
  let ?stop = "if pfx = [] then [CHR 0x00] else cl_PrefixRangeEnd C pfx"
  let ?req = "(plain_get ?start)\<lparr>gr_RangeEnd := ?stop, gr_Limit := wrap64 (limit + 1), gr_SortByKey := True\<rparr>"
  obtain g where g: "cl_Get C ?req w = (g, w')"
    using assms(2) False by (auto simp: Etcd_List_def Let_def split: prod.splits sum.splits)
  note law = get_law [OF assms(1) g]
  show ?thesis
  proof (cases g)
    case (Inl e)
    with law g assms(2) False show ?thesis by (auto simp: Etcd_List_def Let_def)
  next
    case (Inr kvs)
    with law obtain s where s: "mvcc_le (st w) s" "mvcc_le s (st w')" "kvs = get_reply ?req s"
      by auto
    have l: "l = Inr (listPage 0 limit kvs)"
      using assms(2) False g Inr by (auto simp: Etcd_List_def Let_def)
    have spec: "entries_in s (mv_rev s) (in_range ?start ?stop) = list_spec s pfx cursor"
    proof -
      have "cursor \<noteq> [] \<longrightarrow> HasPrefix cursor pfx" using False by blast
      then have "in_range ?start ?stop = (\<lambda>k. HasPrefix k pfx \<and> k \<noteq> [] \<and> cursor \<le> k)"
        by (intro ext) (rule start_in_range)
      then show ?thesis by (simp only: list_spec_def)
    qed
    have kvs: "kvs = take (Suc (nat limit)) (map kvFromEntry (list_spec s pfx cursor))" if "limit < 2 ^ 63 - 1"
    proof -
      have "wrap64 (limit + 1) = limit + 1"
        using that False by (intro wrap64_id) (simp add: int64_def)
      moreover have "nat (limit + 1) = Suc (nat limit)"
        using False by linarith
      ultimately show ?thesis
        using s(3) spec False by (simp add: get_reply_def plain_get_def)
    qed
    have page: "listPage 0 limit kvs = \<lparr>pg_Entries = take (nat limit) (list_spec s pfx cursor),
        pg_NextCursor = (if length (list_spec s pfx cursor) \<le> nat limit then []
          else e_Key (list_spec s pfx cursor ! nat limit))\<rparr>" if "limit < 2 ^ 63 - 1"
      unfolding kvs [OF that] by (rule listPage_cut) (use False in linarith)
    have "mvcc_le (st w) (st w')"
      using law by blast
    with s(1,2) page show ?thesis
      unfolding l by (intro conjI allI impI exI [of _ s]) auto
  qed
qed

end

sublocale mvcc_client \<subseteq> etcd: kv_store "Etcd order C" st for order
  by unfold_locales (use Etcd_Get_law Etcd_GetAtRevision_law Etcd_Put_law Etcd_Delete_law Etcd_List_law in \<open>simp_all add: Etcd_def\<close>)


section \<open>A client over the reference store\<close>

text \<open>The range end of a prefix: its last byte that can be is incremented and the rest is cut.\<close>

fun bump :: "bytes \<Rightarrow> bytes option" where
  "bump [] = None"
| "bump (c # cs) =
     (case bump cs of
        Some cs' \<Rightarrow> Some (c # cs')
      | None \<Rightarrow> if byte c = 255 then None else Some [char_of (byte c + 1)])"

definition GetPrefixRangeEnd :: "bytes \<Rightarrow> bytes" where
  "GetPrefixRangeEnd p = (case bump p of None \<Rightarrow> [CHR 0x00] | Some e \<Rightarrow> e)"

definition ref_client :: "mvcc etcd_client" where
  "ref_client =
    \<lparr>cl_Get = (\<lambda>req s. (if mv_rev s < gr_Rev req then Inl (ClientError (Opaque ''future revision''))
        else if 0 < gr_Rev req \<and> gr_Rev req < mv_compact s then Inl Compacted else Inr (get_reply req s), s)),
     cl_Put = (\<lambda>k v s. (Inr (mv_rev s + 1), mput k v s)),
     cl_Delete = (\<lambda>k s. (Inr (mv_rev (mdelete k s), if current s k = None then 0 else 1), mdelete k s)),
     cl_Txn = (\<lambda>k x opr s. if mod_rev s k = x then (Inr (True, mv_rev (txn_apply opr s)), txn_apply opr s)
        else (Inr (False, mv_rev s), s)),
     cl_Status = (\<lambda>endpoint s. Inl ''unreachable''), cl_PrefixRangeEnd = GetPrefixRangeEnd\<rparr>"

lemma char_less_iff: "c < d \<longleftrightarrow> byte c < byte d"
  by (simp add: less_char_def byte_def)

lemma byte_succ:
  assumes "byte c \<noteq> 255"
  shows "byte (char_of (Suc (byte c))) = Suc (byte c)" "char_of (Suc (byte c)) \<noteq> CHR 0x00"
proof -
  show succ: "byte (char_of (Suc (byte c))) = Suc (byte c)"
    using byte_less [of c] assms by (intro byte_char_of) linarith
  have "byte CHR 0x00 = 0" by (simp add: byte_def)
  with succ show "char_of (Suc (byte c)) \<noteq> CHR 0x00" by (metis nat.simps(3))
qed

lemma bump_prefix:
  "case bump p of
     None \<Rightarrow> p \<le> k \<longleftrightarrow> HasPrefix k p
   | Some e \<Rightarrow> e \<noteq> [] \<and> e \<noteq> [CHR 0x00] \<and> (p \<le> k \<and> k < e \<longleftrightarrow> HasPrefix k p)"
proof (induction p arbitrary: k)
  case (Cons c cs)
  show ?case
  proof (cases k)
    case Nil
    with Cons.IH [of "[]"] show ?thesis
      by (auto simp: byte_succ split: option.splits)
  next
    case k: (Cons d ds)
    have bounds: "byte c \<le> 255" "byte d \<le> 255" "byte CHR 0x00 = 0"
      using byte_less [of c] byte_less [of d] by (linarith, linarith, simp add: byte_def)
    show ?thesis
      using Cons.IH [of ds] bounds
      by (auto simp: k Cons_less_Cons Cons_le_Cons char_less_iff byte_succ byte_inj [symmetric] split: option.splits)
  qed
qed simp

lemma txn_apply_le: "mvcc_inv s \<Longrightarrow> mvcc_le s (txn_apply opr s)"
  by (cases opr) (simp_all add: mput_le mdelete_le)

interpretation ref: mvcc_client ref_client "\<lambda>s. s"
proof unfold_locales
  fix pfx k :: bytes
  assume "pfx \<noteq> []"
  then show "cl_PrefixRangeEnd ref_client pfx \<noteq> [] \<and> in_range pfx (cl_PrefixRangeEnd ref_client pfx) k = HasPrefix k pfx"
    using bump_prefix [of pfx k] by (auto simp: ref_client_def GetPrefixRangeEnd_def in_range_def split: option.splits)
next
  fix w w' :: mvcc and k x opr t
  assume "mvcc_inv w" "cl_Txn ref_client k x opr w = (t, w')"
  then show "mvcc_le w w' \<and>
      (\<forall>ok rev. t = Inr (ok, rev) \<longrightarrow> (\<exists>s. mvcc_le w s \<and> (ok \<longleftrightarrow> mod_rev s k = x) \<and>
         (if ok then mvcc_le (txn_apply opr s) w' \<and> rev = mv_rev (txn_apply opr s) else mvcc_le s w'))) \<and>
      (\<forall>e. t = Inl (ClientError e) \<longrightarrow> foreign e)"
    using txn_apply_le [of w opr] mvcc_le_refl [of "txn_apply opr w"] mvcc_le_inv [of w "txn_apply opr w"] mvcc_le_refl [of w]
    by (auto simp: ref_client_def split: if_splits intro!: exI [of _ w])
next
  fix w w' :: mvcc and req r
  assume "mvcc_inv w" "cl_Get ref_client req w = (r, w')"
  then show "mvcc_le w w' \<and>
      (\<forall>kvs. r = Inr kvs \<longrightarrow> (\<exists>s. mvcc_le w s \<and> mvcc_le s w' \<and> gr_Rev req \<le> mv_rev s \<and> kvs = get_reply req s)) \<and>
      (r = Inl Compacted \<longrightarrow> 0 < gr_Rev req \<and> gr_Rev req < mv_compact w') \<and> (\<forall>e. r = Inl (ClientError e) \<longrightarrow> foreign e)"
    using mvcc_le_refl [of w] by (auto simp: ref_client_def foreign_def split: if_splits intro!: exI [of _ w])
next
  fix w w' :: mvcc and k v p
  assume "mvcc_inv w" "cl_Put ref_client k v w = (p, w')"
  then show "mvcc_le w w' \<and> (\<forall>rev. p = Inr rev \<longrightarrow> (\<exists>s. mvcc_le w s \<and> mvcc_le (mput k v s) w' \<and> rev = mv_rev s + 1)) \<and>
      (\<forall>e. p = Inl (ClientError e) \<longrightarrow> foreign e)"
    using mput_le [of w k v] mvcc_le_refl [of w] mvcc_le_refl [of "mput k v w"] mvcc_le_inv [of w "mput k v w"]
    by (auto simp: ref_client_def intro!: exI [of _ w])
next
  fix w w' :: mvcc and k d
  assume "mvcc_inv w" "cl_Delete ref_client k w = (d, w')"
  then show "mvcc_le w w' \<and>
      (\<forall>rev n. d = Inr (rev, n) \<longrightarrow> (\<exists>s. mvcc_le w s \<and> mvcc_le (mdelete k s) w' \<and> rev = mv_rev (mdelete k s) \<and>
         n = (if current s k = None then 0 else 1))) \<and> (\<forall>e. d = Inl (ClientError e) \<longrightarrow> foreign e)"
    using mdelete_le [of w k] mvcc_le_refl [of w] mvcc_le_refl [of "mdelete k w"] mvcc_le_inv [of w "mdelete k w"]
    by (auto simp: ref_client_def intro!: exI [of _ w])
qed

section \<open>Listing and member states\<close>

lemma list_spec_keys:
  assumes "mvcc_inv s"
  shows "map e_Key (list_spec s pfx cursor) =
    filter (\<lambda>k. HasPrefix k pfx \<and> k \<noteq> [] \<and> cursor \<le> k \<and> at_rev s k (mv_rev s) \<noteq> None) (all_keys s)"
  using at_rev_entry(1) [OF assms] by (auto simp: list_spec_def entries_in_def intro!: map_idI)

lemma list_spec_sorted:
  assumes "mvcc_inv s"
  shows "sorted_wrt (<) (map e_Key (list_spec s pfx cursor))"
proof -
  have "sorted_wrt (<) (all_keys s)"
    by (simp add: all_keys_def strict_sorted_iff)
  then show ?thesis
    by (simp only: list_spec_keys [OF assms] sorted_wrt_filter)
qed

lemma list_spec_entries: "list_spec s pfx cursor = map (\<lambda>k. the (at_rev s k (mv_rev s))) (map e_Key (list_spec s pfx cursor))"
  if "mvcc_inv s" for s pfx cursor
  using at_rev_entry(1) [OF that] by (auto simp: list_spec_def entries_in_def)

lemma filter_ge_nth:
  assumes "sorted_wrt (<) (ks :: 'a::linorder list)" and "n < length ks"
  shows "filter (\<lambda>k. ks ! n \<le> k) ks = drop n ks"
proof -
  have "\<forall>k \<in> set (take n ks). \<not> ks ! n \<le> k"
    using assms by (auto simp: in_set_conv_nth sorted_wrt_iff_nth_less not_le)
  moreover have "\<forall>k \<in> set (drop n ks). ks ! n \<le> k"
    using assms by (auto simp: in_set_conv_nth sorted_wrt_iff_nth_less)
      (metis add.right_neutral add_less_cancel_left less_imp_le nat_neq_iff not_less0 order_refl add.commute less_diff_conv)
  moreover have "filter (\<lambda>k. ks ! n \<le> k) ks = filter (\<lambda>k. ks ! n \<le> k) (take n ks) @ filter (\<lambda>k. ks ! n \<le> k) (drop n ks)"
    by (metis append_take_drop_id filter_append)
  ultimately show ?thesis by (simp add: filter_empty_conv)
qed

lemma list_spec_resume:
  assumes "mvcc_inv s" and "n < length (list_spec s pfx cursor)"
  shows "list_spec s pfx (e_Key (list_spec s pfx cursor ! n)) = drop n (list_spec s pfx cursor)"
proof -
  let ?ks = "map e_Key (list_spec s pfx cursor)"
  have n: "n < length ?ks" using assms(2) by simp
  have "cursor \<le> ?ks ! n"
    using nth_mem [OF n] unfolding list_spec_keys [OF assms(1)] by simp
  then have "map e_Key (list_spec s pfx (?ks ! n)) = filter (\<lambda>k. ?ks ! n \<le> k) ?ks"
    unfolding list_spec_keys [OF assms(1)] filter_filter by (intro filter_cong) auto
  also have "\<dots> = drop n ?ks"
    by (rule filter_ge_nth [OF list_spec_sorted [OF assms(1)] n])
  finally have "map e_Key (list_spec s pfx (?ks ! n)) = drop n ?ks" .
  then have "list_spec s pfx (?ks ! n) = drop n (map (\<lambda>k. the (at_rev s k (mv_rev s))) ?ks)"
    using list_spec_entries [OF assms(1), of pfx "?ks ! n"] by (simp only: drop_map)
  also have "\<dots> = drop n (list_spec s pfx cursor)"
    using list_spec_entries [OF assms(1), of pfx cursor] by simp
  finally show ?thesis using n by simp
qed

lemma mvcc_le_antisym: "mvcc_le s t \<Longrightarrow> mvcc_le t s \<Longrightarrow> s = (t :: mvcc)"
  by (auto simp: mvcc_le_def)




text \<open>
  The goroutines of \<open>MemberStatuses\<close> write disjoint elements: whatever the order in which they
  finish, the result lists the status of each endpoint, in the order of the endpoints.
\<close>

theorem member_statuses_any_order:
  assumes "distinct order" and "set order = {..<length endpoints}"
  shows "Etcd_MemberStatuses order C endpoints w = map (\<lambda>e. memberStatus C e w) endpoints"
proof -
  let ?f = "\<lambda>i. memberStatus C (endpoints ! i) w"
  let ?run = "\<lambda>js sts. fold (\<lambda>i sts. sts[i := ?f i]) js (sts :: MemberStatus list)"
  have len: "length (?run js sts) = length sts" for js sts
    by (induction js arbitrary: sts) simp_all
  have nth: "?run js sts ! i = (if i \<in> set js then ?f i else sts ! i)" if "i < length sts" for i js sts
    using that by (induction js arbitrary: sts) (auto simp: nth_list_update)
  show ?thesis
    unfolding Etcd_MemberStatuses_def by (rule nth_equalityI) (simp_all add: len nth assms(2))
qed

theorem member_statuses_any_order_witness:
  "Etcd_MemberStatuses [1, 0] ref_client [''x'', ''y''] empty_mvcc =
     [memberStatus ref_client ''x'' empty_mvcc, memberStatus ref_client ''y'' empty_mvcc]"
  using member_statuses_any_order [of "[1, 0]" "[''x'', ''y'']" ref_client empty_mvcc]
  by (simp add: lessThan_Suc insert_commute)

end
