(* ===== verification/Registry.thy ===== *)
theory Registry
  imports Store_Types Go_Strings Base64 Atomic_File "HOL-Library.AList"
begin

text \<open>
  \<open>internal/store/registry.go\<close>: the file-backed collection of cluster connections, with the
  part of \<open>internal/store/etcd.go\<close> that opens clients. A client is a handle; the world of
  clients says which handles are open and with which configuration they were opened. The
  operations that release the lock in the middle (\<open>UpdateCluster\<close>, \<open>ClusterKV\<close>) are
  split there, so that other requests can come between.
\<close>

section \<open>Clients\<close>

record tls_info =
  ti_TrustedCAFile :: string
  ti_CertFile :: string
  ti_KeyFile :: string

record client_config =
  cc_Endpoints :: "string list"
  cc_DialTimeout :: int
  cc_Username :: string
  cc_Password :: string
  cc_TLS :: "tls_info option"

text \<open>
  The parameters: loading TLS files and creating a client (each may fail, depending on
  files and endpoints), \<open>url.Parse\<close> (scheme, host, and whether there is user information;
  \<open>None\<close> an error), the Unicode tables and the JSON codec of the clusters file.
\<close>

record url =
  url_Scheme :: string
  url_Host :: string
  url_HasUser :: bool

record clusterFile =
  cfl_Version :: int
  cfl_Clusters :: "Cluster list"

record reg_lib =
  rl_ucd :: ucd
  rl_parse :: "string \<Rightarrow> url option"
  rl_ClientConfig :: "tls_info \<Rightarrow> error option"
  rl_New :: "client_config \<Rightarrow> error option"
  rl_codec :: "clusterFile json_codec"

record clients =
  cw_next :: nat
  cw_open :: "nat \<rightharpoonup> client_config"

definition makeTLSConfig :: "reg_lib \<Rightarrow> Cluster \<Rightarrow> (error, tls_info option) result" where
  "makeTLSConfig L cluster =
    (if c_TLSCAFile cluster = [] \<and> c_TLSCertFile cluster = [] then Inr None
     else
       let tlsInfo = \<lparr>ti_TrustedCAFile = c_TLSCAFile cluster, ti_CertFile = c_TLSCertFile cluster,
                      ti_KeyFile = c_TLSKeyFile cluster\<rparr> in
       case rl_ClientConfig L tlsInfo of
         Some err \<Rightarrow> Inl (Wrap (Opaque ''load etcd TLS configuration'') err)
       | None \<Rightarrow> Inr (Some tlsInfo))"

definition clientConfig :: "int \<Rightarrow> Cluster \<Rightarrow> client_config" where
  "clientConfig dialTimeout cluster =
    \<lparr>cc_Endpoints = c_Endpoints cluster, cc_DialTimeout = dialTimeout, cc_Username = c_Username cluster,
     cc_Password = c_Password cluster,
     cc_TLS = (if c_TLSCAFile cluster = [] \<and> c_TLSCertFile cluster = [] then None
       else Some \<lparr>ti_TrustedCAFile = c_TLSCAFile cluster, ti_CertFile = c_TLSCertFile cluster,
                  ti_KeyFile = c_TLSKeyFile cluster\<rparr>)\<rparr>"

definition NewEtcd :: "reg_lib \<Rightarrow> Cluster \<Rightarrow> int \<Rightarrow> clients \<Rightarrow> (error, nat) result \<times> clients" where
  "NewEtcd L cluster dialTimeout cw =
    (case makeTLSConfig L cluster of
       Inl err \<Rightarrow> (Inl err, cw)
     | Inr tlsConfig \<Rightarrow>
         let config = \<lparr>cc_Endpoints = c_Endpoints cluster, cc_DialTimeout = dialTimeout, cc_Username = c_Username cluster,
                       cc_Password = c_Password cluster, cc_TLS = tlsConfig\<rparr> in
         case rl_New L config of
           Some err \<Rightarrow> (Inl (Wrap (Opaque ''create etcd client'') err), cw)
         | None \<Rightarrow> (Inr (cw_next cw), cw\<lparr>cw_next := cw_next cw + 1, cw_open := (cw_open cw)(cw_next cw \<mapsto> config)\<rparr>))"

definition Etcd_Close :: "nat \<Rightarrow> clients \<Rightarrow> clients" where
  "Etcd_Close h cw = cw\<lparr>cw_open := (cw_open cw)(h := None)\<rparr>"

section \<open>The registry\<close>

definition clusterFileVersion :: int where "clusterFileVersion = 1"

record managedCluster =
  mc_config :: Cluster
  mc_client :: "nat option"

record Registry =
  rg_filePath :: string
  rg_dialTimeout :: int
  rg_clusters :: "(string \<times> managedCluster) list"

type_synonym reg_state = "Registry \<times> dir \<times> clients"

abbreviation managed :: "Registry \<Rightarrow> string \<rightharpoonup> managedCluster" where
  "managed r \<equiv> map_of (rg_clusters r)"

section \<open>Validation\<close>

fun validateEndpoints :: "(string \<Rightarrow> url option) \<Rightarrow> string list \<Rightarrow> error option" where
  "validateEndpoints parse [] = None"
| "validateEndpoints parse (endpoint # endpoints) =
     (case parse endpoint of
        None \<Rightarrow> Some (Sentinel ErrInvalidCluster)
      | Some parsed \<Rightarrow>
          if (url_Scheme parsed \<noteq> ''http'' \<and> url_Scheme parsed \<noteq> ''https'') \<or> url_Host parsed = []
          then Some (Sentinel ErrInvalidCluster)
          else if url_HasUser parsed then Some (Sentinel ErrInvalidCluster)
          else validateEndpoints parse endpoints)"

definition validateCluster :: "reg_lib \<Rightarrow> Cluster \<Rightarrow> error option" where
  "validateCluster L cluster =
    (if c_Name cluster = [] then Some (Sentinel ErrInvalidCluster)
     else if 80 < length (runes (c_Name cluster)) then Some (Sentinel ErrInvalidCluster)
     else if c_Endpoints cluster = [] then Some (Sentinel ErrInvalidCluster)
     else case validateEndpoints (rl_parse L) (c_Endpoints cluster) of
         Some err \<Rightarrow> Some err
       | None \<Rightarrow>
           if (c_TLSCertFile cluster = []) \<noteq> (c_TLSKeyFile cluster = []) then Some (Sentinel ErrInvalidCluster)
           else if c_Username cluster = [] \<and> c_Password cluster \<noteq> [] then Some (Sentinel ErrInvalidCluster)
           else None)"

text \<open>Endpoints are trimmed; empty ones and repetitions are dropped.\<close>

fun dedupEndpoints :: "string list \<Rightarrow> string set \<Rightarrow> string list" where
  "dedupEndpoints [] seen = []"
| "dedupEndpoints (e # es) seen =
     (let endpoint = TrimSpace e in
      if endpoint = [] \<or> endpoint \<in> seen then dedupEndpoints es seen
      else endpoint # dedupEndpoints es (insert endpoint seen))"

definition clusterFromInput :: "reg_lib \<Rightarrow> ClusterInput \<Rightarrow> Cluster \<Rightarrow> (error, Cluster) result" where
  "clusterFromInput L input base =
    (let cluster = base\<lparr>c_Name := TrimSpace (ci_Name input), c_Username := TrimSpace (ci_Username input),
           c_TLSCAFile := TrimSpace (ci_TLSCAFile input), c_TLSCertFile := TrimSpace (ci_TLSCertFile input),
           c_TLSKeyFile := TrimSpace (ci_TLSKeyFile input), c_Endpoints := dedupEndpoints (ci_Endpoints input) {},
           c_Password := (case ci_Password input of None \<Rightarrow> c_Password base | Some p \<Rightarrow> p)\<rparr> in
     case validateCluster L cluster of
       Some err \<Rightarrow> Inl err
     | None \<Rightarrow> Inr cluster)"

definition zeroCluster :: Cluster where
  "zeroCluster = \<lparr>c_ID = [], c_Name = [], c_Endpoints = [], c_Username = [], c_Password = [], c_TLSCAFile = [],
     c_TLSCertFile = [], c_TLSKeyFile = [], c_CreatedAt = 0, c_UpdatedAt = 0\<rparr>"

text \<open>The 16 random bytes are an argument; \<open>None\<close> is a failing source.\<close>

definition newClusterID :: "bytes option \<Rightarrow> (error, string) result" where
  "newClusterID random = (case random of None \<Rightarrow> Inl (Opaque ''generate cluster id'') | Some bs \<Rightarrow> Inr (hexEncode bs))"

definition nameExistsLocked :: "ucd \<Rightarrow> Registry \<Rightarrow> string \<Rightarrow> string \<Rightarrow> bool" where
  "nameExistsLocked U r name exceptID \<longleftrightarrow>
    (\<exists>(cid, m) \<in> set (rg_clusters r). cid \<noteq> exceptID \<and> EqualFold U (c_Name (mc_config m)) name)"

section \<open>Loading and saving\<close>

definition clusterFileLimit :: nat where "clusterFileLimit = 4194304"

definition Registry_saveLocked :: "reg_lib \<Rightarrow> save_io \<Rightarrow> Registry \<Rightarrow> dir \<Rightarrow> error option \<times> dir" where
  "Registry_saveLocked L io r d =
    (let clusters = sort_key c_ID (map (mc_config \<circ> snd) (rg_clusters r)) in
     case marshal (rl_codec L) \<lparr>cfl_Version = clusterFileVersion, cfl_Clusters = clusters\<rparr> of
       None \<Rightarrow> (Some (Opaque ''encode clusters file''), d)
     | Some text \<Rightarrow>
         (case replace_file io (rg_filePath r) (text @ [newline]) d of
            (None, d') \<Rightarrow> (None, d')
          | (Some _, d') \<Rightarrow> (Some (Opaque ''save clusters file''), d')))"

fun loadClusters :: "reg_lib \<Rightarrow> Cluster list \<Rightarrow> (string \<times> managedCluster) list \<Rightarrow>
    (error, (string \<times> managedCluster) list) result" where
  "loadClusters L [] clusters = Inr clusters"
| "loadClusters L (cluster # cs) clusters =
     (if c_ID cluster = [] then Inl (Opaque ''clusters file contains an empty cluster id'')
      else if map_of clusters (c_ID cluster) \<noteq> None then Inl (Opaque ''clusters file contains duplicate id'')
      else case validateCluster L cluster of
          Some err \<Rightarrow> Inl (Wrap (Opaque ''invalid saved cluster'') err)
        | None \<Rightarrow> loadClusters L cs (AList.update (c_ID cluster) \<lparr>mc_config = cluster, mc_client = None\<rparr> clusters))"

definition Registry_load :: "reg_lib \<Rightarrow> bool \<Rightarrow> Registry \<Rightarrow> dir \<Rightarrow> (error, Registry) result" where
  "Registry_load L openFails r d =
    (if openFails then Inl (Opaque ''open clusters file'')
     else case d (rg_filePath r) of
         None \<Rightarrow> Inr r
       | Some text \<Rightarrow>
           (case unmarshal (rl_codec L) (take clusterFileLimit text) of
              None \<Rightarrow> Inl (Opaque ''decode clusters file'')
            | Some persisted \<Rightarrow>
                if cfl_Version persisted \<noteq> clusterFileVersion then Inl (Opaque ''unsupported clusters file version'')
                else case loadClusters L (cfl_Clusters persisted) (rg_clusters r) of
                    Inl err \<Rightarrow> Inl err
                  | Inr clusters \<Rightarrow> Inr (r\<lparr>rg_clusters := clusters\<rparr>)))"

definition NewRegistry :: "reg_lib \<Rightarrow> bool \<Rightarrow> string \<Rightarrow> int \<Rightarrow> dir \<Rightarrow> (error, Registry) result" where
  "NewRegistry L openFails filePath dialTimeout d =
    Registry_load L openFails \<lparr>rg_filePath = filePath, rg_dialTimeout = dialTimeout, rg_clusters = []\<rparr> d"

section \<open>Operations\<close>

text \<open>
  Sorted by lower-case name. Where names agree the identifier decides; the model lets it decide
  also between different names with the same lower case, whose order the code leaves open.
\<close>

definition ListClusters :: "ucd \<Rightarrow> Registry \<Rightarrow> Cluster list" where
  "ListClusters U r =
    sort_key (\<lambda>c. ToLower U (c_Name c)) (sort_key c_ID (map (mc_config \<circ> snd) (rg_clusters r)))"

definition CreateCluster ::
    "reg_lib \<Rightarrow> gotime \<Rightarrow> bytes option \<Rightarrow> save_io \<Rightarrow> ClusterInput \<Rightarrow> reg_state \<Rightarrow> (error, Cluster) result \<times> reg_state" where
  "CreateCluster L now random io input st =
    (case clusterFromInput L input zeroCluster of
       Inl err \<Rightarrow> (Inl err, st)
     | Inr cluster0 \<Rightarrow>
         (case newClusterID random of
            Inl err \<Rightarrow> (Inl err, st)
          | Inr newID \<Rightarrow>
              let cluster = cluster0\<lparr>c_ID := newID, c_CreatedAt := now, c_UpdatedAt := now\<rparr>;
                  (r, d, cw) = st in
              if nameExistsLocked (rl_ucd L) r (c_Name cluster) [] then (Inl (Sentinel ErrClusterNameExists), st)
              else
                let r1 = r\<lparr>rg_clusters := AList.update newID \<lparr>mc_config = cluster, mc_client = None\<rparr> (rg_clusters r)\<rparr> in
                case Registry_saveLocked L io r1 d of
                  (Some err, d') \<Rightarrow> (Inl err, (r1\<lparr>rg_clusters := AList.delete newID (rg_clusters r1)\<rparr>, d', cw))
                | (None, d') \<Rightarrow> (Inr cluster, (r1, d', cw))))"

text \<open>
  \<open>UpdateCluster\<close> reads the stored cluster under the read lock and replaces it under the
  write lock; between the two the registry is unlocked.
\<close>

definition UpdateCluster_read :: "reg_lib \<Rightarrow> gotime \<Rightarrow> string \<Rightarrow> ClusterInput \<Rightarrow> Registry \<Rightarrow> (error, Cluster) result" where
  "UpdateCluster_read L now cid input r =
    (case managed r cid of
       None \<Rightarrow> Inl (Sentinel ErrClusterNotFound)
     | Some existing \<Rightarrow>
         let base = mc_config existing in
         case clusterFromInput L input base of
           Inl err \<Rightarrow> Inl err
         | Inr cluster \<Rightarrow> Inr (cluster\<lparr>c_ID := c_ID base, c_CreatedAt := c_CreatedAt base, c_UpdatedAt := now\<rparr>))"

definition UpdateCluster_commit ::
    "reg_lib \<Rightarrow> save_io \<Rightarrow> string \<Rightarrow> Cluster \<Rightarrow> reg_state \<Rightarrow> (error, Cluster) result \<times> reg_state" where
  "UpdateCluster_commit L io cid cluster st =
    (let (r, d, cw) = st in
     case managed r cid of
       None \<Rightarrow> (Inl (Sentinel ErrClusterNotFound), st)
     | Some current \<Rightarrow>
         if nameExistsLocked (rl_ucd L) r (c_Name cluster) cid then (Inl (Sentinel ErrClusterNameExists), st)
         else
           let r1 = r\<lparr>rg_clusters := AList.update cid \<lparr>mc_config = cluster, mc_client = None\<rparr> (rg_clusters r)\<rparr> in
           case Registry_saveLocked L io r1 d of
             (Some err, d') \<Rightarrow> (Inl err, (r1\<lparr>rg_clusters := AList.update cid current (rg_clusters r1)\<rparr>, d', cw))
           | (None, d') \<Rightarrow>
               (Inr cluster, (r1, d', (case mc_client current of None \<Rightarrow> cw | Some h \<Rightarrow> Etcd_Close h cw))))"

definition UpdateCluster ::
    "reg_lib \<Rightarrow> gotime \<Rightarrow> save_io \<Rightarrow> (reg_state \<Rightarrow> reg_state) \<Rightarrow> string \<Rightarrow> ClusterInput \<Rightarrow> reg_state \<Rightarrow>
      (error, Cluster) result \<times> reg_state" where
  "UpdateCluster L now io others cid input st =
    (case UpdateCluster_read L now cid input (fst st) of
       Inl err \<Rightarrow> (Inl err, st)
     | Inr cluster \<Rightarrow> UpdateCluster_commit L io cid cluster (others st))"

text \<open>\<open>closeErr\<close> is the error of closing the client, which the caller gets.\<close>

definition DeleteCluster ::
    "reg_lib \<Rightarrow> save_io \<Rightarrow> error option \<Rightarrow> string \<Rightarrow> reg_state \<Rightarrow> (error, unit) result \<times> reg_state" where
  "DeleteCluster L io closeErr cid st =
    (let (r, d, cw) = st in
     case managed r cid of
       None \<Rightarrow> (Inl (Sentinel ErrClusterNotFound), st)
     | Some m \<Rightarrow>
         let r1 = r\<lparr>rg_clusters := AList.delete cid (rg_clusters r)\<rparr> in
         case Registry_saveLocked L io r1 d of
           (Some err, d') \<Rightarrow> (Inl err, (r1\<lparr>rg_clusters := AList.update cid m (rg_clusters r1)\<rparr>, d', cw))
         | (None, d') \<Rightarrow>
             (case mc_client m of
                None \<Rightarrow> (Inr (), (r1, d', cw))
              | Some h \<Rightarrow> (case closeErr of None \<Rightarrow> Inr () | Some err \<Rightarrow> Inl err, (r1, d', Etcd_Close h cw))))"

text \<open>\<open>health\<close> is the answer of the health check of the client that was opened.\<close>

definition TestCluster ::
    "reg_lib \<Rightarrow> (client_config \<Rightarrow> error option) \<Rightarrow> string \<Rightarrow> ClusterInput \<Rightarrow> Registry \<times> clients \<Rightarrow> error option \<times> clients" where
  "TestCluster L health cid input st =
    (let (r, cw) = st in
     case (if cid = [] then Some zeroCluster else map_option mc_config (managed r cid)) of
       None \<Rightarrow> (Some (Sentinel ErrClusterNotFound), cw)
     | Some base \<Rightarrow>
         (case clusterFromInput L input base of
            Inl err \<Rightarrow> (Some err, cw)
          | Inr cluster \<Rightarrow>
              (case NewEtcd L cluster (rg_dialTimeout r) cw of
                 (Inl err, cw') \<Rightarrow> (Some (Sentinel ErrInvalidCluster), cw')
               | (Inr h, cw') \<Rightarrow> (health (clientConfig (rg_dialTimeout r) cluster), Etcd_Close h cw'))))"

text \<open>
  \<open>ClusterKV\<close>: the first part looks the cluster up; the second, after a client has been
  opened without the lock, checks that the cluster is still the one the client was opened
  for. \<open>None\<close> of the second part is the retry. \<open>others n\<close> is what other requests do during
  the \<open>n\<close>-th attempt; the number of attempts is bounded by the first argument, and \<open>None\<close>
  means that it was used up.
\<close>

definition ClusterKV_adopt ::
    "string \<Rightarrow> Cluster \<Rightarrow> nat \<Rightarrow> reg_state \<Rightarrow> (error, nat \<times> Cluster) result option \<times> reg_state" where
  "ClusterKV_adopt cid cluster h st =
    (let (r, d, cw) = st in
     case managed r cid of
       None \<Rightarrow> (Some (Inl (Sentinel ErrClusterNotFound)), (r, d, Etcd_Close h cw))
     | Some current \<Rightarrow>
         if c_UpdatedAt (mc_config current) \<noteq> c_UpdatedAt cluster then (None, (r, d, Etcd_Close h cw))
         else case mc_client current of
             Some existingClient \<Rightarrow> (Some (Inr (existingClient, mc_config current)), (r, d, Etcd_Close h cw))
           | None \<Rightarrow>
               (Some (Inr (h, mc_config current)),
                (r\<lparr>rg_clusters := AList.update cid (current\<lparr>mc_client := Some h\<rparr>) (rg_clusters r)\<rparr>, d, cw)))"

fun ClusterKV ::
    "nat \<Rightarrow> reg_lib \<Rightarrow> (nat \<Rightarrow> reg_state \<Rightarrow> reg_state) \<Rightarrow> string \<Rightarrow> reg_state \<Rightarrow>
      (error, nat \<times> Cluster) result option \<times> reg_state" where
  "ClusterKV 0 L others cid st = (None, st)"
| "ClusterKV (Suc n) L others cid st =
    (let (r, d, cw) = st in
     case managed r cid of
       None \<Rightarrow> (Some (Inl (Sentinel ErrClusterNotFound)), st)
     | Some m \<Rightarrow>
         (case mc_client m of
            Some client \<Rightarrow> (Some (Inr (client, mc_config m)), st)
          | None \<Rightarrow>
              (case NewEtcd L (mc_config m) (rg_dialTimeout r) cw of
                 (Inl err, cw') \<Rightarrow> (Some (Inl err), (r, d, cw'))
               | (Inr h, cw') \<Rightarrow>
                   (case ClusterKV_adopt cid (mc_config m) h (others n (r, d, cw')) of
                      (Some res, st') \<Rightarrow> (Some res, st')
                    | (None, st') \<Rightarrow> ClusterKV n L others cid st'))))"

text \<open>\<open>errors.Join\<close> keeps all errors; \<open>errs h\<close> is the error of closing client \<open>h\<close>.\<close>

definition Registry_Close :: "(nat \<Rightarrow> error option) \<Rightarrow> reg_state \<Rightarrow> error list \<times> reg_state" where
  "Registry_Close errs st =
    (let (r, d, cw) = st; hs = List.map_filter (mc_client \<circ> snd) (rg_clusters r) in
     (List.map_filter errs hs, (r, d, fold Etcd_Close hs cw)))"

end
