(* ===== verification/Registry_Theorems.thy ===== *)
theory Registry_Theorems
  imports Registry
begin

text \<open>
  What the cluster registry guarantees: whatever requests interleave, identifiers and names stay
  unique, every stored connection is valid, and the open clients are exactly those of the
  registry, each opened with the configuration it belongs to; a saved registry is the one a
  restart loads; a failed operation leaves the registry as it was.
\<close>

section \<open>The invariant\<close>

definition connections_ok :: "reg_lib \<Rightarrow> (string \<rightharpoonup> managedCluster) \<Rightarrow> bool" where
  "connections_ok L M \<longleftrightarrow>
    (\<forall>cid m. M cid = Some m \<longrightarrow> cid \<noteq> [] \<and> c_ID (mc_config m) = cid \<and> validateCluster L (mc_config m) = None) \<and>
    (\<forall>c1 c2 m1 m2. M c1 = Some m1 \<longrightarrow> M c2 = Some m2 \<longrightarrow>
       EqualFold (rl_ucd L) (c_Name (mc_config m1)) (c_Name (mc_config m2)) \<longrightarrow> c1 = c2)"

text \<open>The clients of the registry, with their configurations.\<close>

definition client_of :: "(string \<rightharpoonup> managedCluster) \<Rightarrow> string \<rightharpoonup> nat \<times> Cluster" where
  "client_of M cid =
    (case M cid of None \<Rightarrow> None | Some m \<Rightarrow> map_option (\<lambda>h. (h, mc_config m)) (mc_client m))"

text \<open>\<open>X\<close> are the clients that requests in progress have opened and not yet handed over.\<close>

definition clients_ok :: "int \<Rightarrow> (string \<rightharpoonup> nat \<times> Cluster) \<Rightarrow> clients \<Rightarrow> nat set \<Rightarrow> bool" where
  "clients_ok t F cw X \<longleftrightarrow>
    (\<forall>cid h c. F cid = Some (h, c) \<longrightarrow> cw_open cw h = Some (clientConfig t c) \<and> h \<notin> X) \<and>
    (\<forall>c1 c2 h a b. F c1 = Some (h, a) \<longrightarrow> F c2 = Some (h, b) \<longrightarrow> c1 = c2) \<and>
    (\<forall>h. cw_open cw h \<noteq> None \<longrightarrow> h < cw_next cw \<and> (h \<in> X \<or> (\<exists>cid c. F cid = Some (h, c)))) \<and>
    (\<forall>h \<in> X. cw_open cw h \<noteq> None)"

definition reg_inv :: "reg_lib \<Rightarrow> nat set \<Rightarrow> reg_state \<Rightarrow> bool" where
  "reg_inv L X st = (case st of (r, d, cw) \<Rightarrow>
     distinct (map fst (rg_clusters r)) \<and> connections_ok L (managed r) \<and>
     clients_ok (rg_dialTimeout r) (client_of (managed r)) cw X)"

lemma client_of_update [simp]:
  "client_of (M(cid \<mapsto> m)) = (client_of M)(cid := map_option (\<lambda>h. (h, mc_config m)) (mc_client m))"
  "client_of (M(cid := None)) = (client_of M)(cid := None)"
  by (auto simp: client_of_def fun_eq_iff)

lemma reg_inv_empty: "reg_inv L {} (\<lparr>rg_filePath = p, rg_dialTimeout = t, rg_clusters = []\<rparr>, d, \<lparr>cw_next = 0, cw_open = Map.empty\<rparr>)"
  by (simp add: reg_inv_def connections_ok_def clients_ok_def client_of_def)

lemma nameExists_iff:
  assumes "distinct (map fst (rg_clusters r))"
  shows "nameExistsLocked U r name except \<longleftrightarrow>
    (\<exists>cid m. managed r cid = Some m \<and> cid \<noteq> except \<and> EqualFold U (c_Name (mc_config m)) name)"
  using assms by (fastforce simp: nameExistsLocked_def map_of_eq_Some_iff)

section \<open>Preservation\<close>

lemma connections_ok_update:
  assumes "connections_ok L M" and "cid \<noteq> []" and "c_ID (mc_config m) = cid" and "validateCluster L (mc_config m) = None"
    and "\<forall>c m'. M c = Some m' \<longrightarrow> c \<noteq> cid \<longrightarrow> \<not> EqualFold (rl_ucd L) (c_Name (mc_config m')) (c_Name (mc_config m))"
  shows "connections_ok L (M(cid \<mapsto> m))"
  using assms unfolding connections_ok_def by (auto split: if_splits dest: EqualFold_sym)

lemma connections_ok_delete: "connections_ok L M \<Longrightarrow> connections_ok L (M(cid := None))"
  unfolding connections_ok_def by auto

lemma clients_okD:
  assumes "clients_ok t F cw X"
  shows "F cid = Some (h, c) \<Longrightarrow> cw_open cw h = Some (clientConfig t c)" "F cid = Some (h, c) \<Longrightarrow> h \<notin> X"
    "F c1 = Some (h, a) \<Longrightarrow> F c2 = Some (h, b) \<Longrightarrow> c1 = c2" "cw_open cw h = Some o' \<Longrightarrow> h < cw_next cw"
    "cw_open cw h = Some o' \<Longrightarrow> h \<notin> X \<Longrightarrow> \<exists>cid c. F cid = Some (h, c)" "h \<in> X \<Longrightarrow> cw_open cw h \<noteq> None"
  using assms unfolding clients_ok_def by blast+

lemma clients_okI:
  assumes "\<And>cid h c. F cid = Some (h, c) \<Longrightarrow> cw_open cw h = Some (clientConfig t c) \<and> h \<notin> X"
    and "\<And>c1 c2 h a b. F c1 = Some (h, a) \<Longrightarrow> F c2 = Some (h, b) \<Longrightarrow> c1 = c2"
    and "\<And>h c'. cw_open cw h = Some c' \<Longrightarrow> h < cw_next cw \<and> (h \<in> X \<or> (\<exists>cid c. F cid = Some (h, c)))"
    and "\<And>h. h \<in> X \<Longrightarrow> cw_open cw h \<noteq> None"
  shows "clients_ok t F cw X"
  using assms unfolding clients_ok_def by blast

lemma clients_ok_close:
  assumes "clients_ok t F cw X" and "F cid = Some (h, c)"
  shows "clients_ok t (F(cid := None)) (Etcd_Close h cw) X"
proof (rule clients_okI)
  note D = clients_okD [OF assms(1)]
  show "cw_open (Etcd_Close h cw) k = Some (clientConfig t c') \<and> k \<notin> X" if "(F(cid := None)) i = Some (k, c')" for i k c'
    using that D(1,2) [of i k c'] D(3) [of i k c' cid c] assms(2) by (auto simp: Etcd_Close_def split: if_splits)
  show "i = j" if "(F(cid := None)) i = Some (k, a)" "(F(cid := None)) j = Some (k, b)" for i j k a b
    using that D(3) [of i k a j b] by (auto split: if_splits)
  show "k < cw_next (Etcd_Close h cw) \<and> (k \<in> X \<or> (\<exists>i c. (F(cid := None)) i = Some (k, c)))"
    if "cw_open (Etcd_Close h cw) k = Some c'" for k c'
  proof -
    from that have k: "k \<noteq> h" "cw_open cw k = Some c'" by (auto simp: Etcd_Close_def split: if_splits)
    moreover have "\<exists>i c. (F(cid := None)) i = Some (k, c)" if kX: "k \<notin> X"
    proof -
      obtain i a where i: "F i = Some (k, a)" using D(5) [OF k(2) kX] by blast
      then have "i \<noteq> cid" using k(1) assms(2) by auto
      with i show ?thesis by (intro exI [of _ i] exI [of _ a]) simp
    qed
    ultimately show ?thesis
      using D(4) [OF k(2)] by (cases "k \<in> X") (simp_all add: Etcd_Close_def del: fun_upd_apply)
  qed
  show "cw_open (Etcd_Close h cw) k \<noteq> None" if "k \<in> X" for k
    using that D(6) [OF that] D(2) [OF assms(2)] by (auto simp: Etcd_Close_def)
qed

lemma clients_ok_drop:
  assumes "clients_ok t F cw (insert h X)" and "h \<notin> X"
  shows "clients_ok t F (Etcd_Close h cw) X"
  using assms unfolding clients_ok_def Etcd_Close_def by (simp split: if_splits) blast

lemma clients_ok_adopt:
  assumes "clients_ok t F cw (insert h X)" and "h \<notin> X" and "F cid = None" and "cw_open cw h = Some (clientConfig t c)"
  shows "clients_ok t (F(cid \<mapsto> (h, c))) cw X"
proof (rule clients_okI)
  note D = clients_okD [OF assms(1)]
  show "cw_open cw k = Some (clientConfig t c') \<and> k \<notin> X" if "(F(cid \<mapsto> (h, c))) i = Some (k, c')" for i k c'
    using that assms(2,4) D(1,2) [of i k c'] by (auto split: if_splits)
  show "i = j" if "(F(cid \<mapsto> (h, c))) i = Some (k, a)" "(F(cid \<mapsto> (h, c))) j = Some (k, b)" for i j k a b
    using that D(3) [of i k a j b] D(2) [of i h a] D(2) [of j h b] by (auto split: if_splits)
  show "k < cw_next cw \<and> (k \<in> X \<or> (\<exists>i c'. (F(cid \<mapsto> (h, c))) i = Some (k, c')))" if "cw_open cw k = Some c'" for k c'
    using that D(4) [of k c'] D(5) [of k c'] assms(3) by (cases "k = h") (auto, metis option.distinct(1))
  show "cw_open cw k \<noteq> None" if "k \<in> X" for k
    using D(6) [of k] that by blast
qed

lemma NewEtcd_ok:
  assumes "NewEtcd L c t cw = (Inr h, cw')" and "clients_ok t' F cw X"
  shows "clients_ok t' F cw' (insert h X)" "h \<notin> X" "cw_open cw' h = Some (clientConfig t c)"
proof -
  have h: "h = cw_next cw" and cw': "cw' = cw\<lparr>cw_next := cw_next cw + 1, cw_open := (cw_open cw)(cw_next cw \<mapsto> clientConfig t c)\<rparr>"
    using assms(1) by (auto simp: NewEtcd_def makeTLSConfig_def clientConfig_def Let_def split: sum.splits option.splits if_splits)
  have closed: "cw_open cw h = None"
    using assms(2) unfolding clients_ok_def h by blast
  with assms(2) show fresh: "h \<notin> X"
    unfolding clients_ok_def by blast
  have "F k \<noteq> Some (h, a)" for k a
    using assms(2) closed unfolding clients_ok_def by fastforce
  moreover have "h' < cw_next cw + 1" if "h' < cw_next cw" for h'
    using that by simp
  ultimately show "clients_ok t' F cw' (insert h X)"
    using assms(2) closed unfolding clients_ok_def cw' h by (auto split: if_splits)
  show "cw_open cw' h = Some (clientConfig t c)"
    by (simp add: cw' h)
qed

lemma NewEtcd_err: "NewEtcd L c t cw = (Inl e, cw') \<Longrightarrow> cw' = cw"
  by (auto simp: NewEtcd_def Let_def split: sum.splits option.splits)

section \<open>The operations preserve the invariant\<close>

lemmas alist_simps = update_conv' delete_conv' distinct_update distinct_delete

lemma clusterFromInput_ok:
  assumes "clusterFromInput L input base = Inr c"
  shows "validateCluster L (c\<lparr>c_ID := i, c_CreatedAt := t, c_UpdatedAt := u\<rparr>) = None" "c_ID c = c_ID base"
  using assms by (auto simp: clusterFromInput_def Let_def validateCluster_def split: option.splits if_splits)

lemma hexEncode_nonempty: "bs \<noteq> [] \<Longrightarrow> hexEncode bs \<noteq> []"
  by (cases bs) (simp_all add: hexEncode_def)

text \<open>A failing operation restores the map; the association list may be in another order.\<close>

lemma client_of_restore: "M cid = Some m \<Longrightarrow> M(cid \<mapsto> m) = M"
  by auto

lemma CreateCluster_inv:
  assumes "reg_inv L X (r, d, cw)" and "random = Some bs" and "bs \<noteq> []" and "managed r (hexEncode bs) = None"
    and "CreateCluster L now random io input (r, d, cw) = (res, (r', d', cw'))"
  shows "reg_inv L X (r', d', cw')" "rg_filePath r' = rg_filePath r" "res = Inl e \<Longrightarrow> managed r' = managed r"
proof -
  let ?id = "hexEncode bs"
  note inv = assms(1) [unfolded reg_inv_def prod.case]
  have "reg_inv L X (r', d', cw') \<and> rg_filePath r' = rg_filePath r \<and> (res = Inl e \<longrightarrow> managed r' = managed r)"
  proof (cases "\<exists>c. clusterFromInput L input zeroCluster = Inr c \<and> \<not> nameExistsLocked (rl_ucd L) r (c_Name c) []")
    case False
    with assms show ?thesis
      by (auto simp: CreateCluster_def newClusterID_def Let_def split: sum.splits if_splits)
  next
    case True
    then obtain c0 where c0: "clusterFromInput L input zeroCluster = Inr c0" "\<not> nameExistsLocked (rl_ucd L) r (c_Name c0) []"
      by blast
    let ?c = "c0\<lparr>c_ID := ?id, c_CreatedAt := now, c_UpdatedAt := now\<rparr>"
    let ?m = "\<lparr>mc_config = ?c, mc_client = None\<rparr>"
    let ?r1 = "r\<lparr>rg_clusters := AList.update ?id ?m (rg_clusters r)\<rparr>"
    obtain e' d1 where save: "Registry_saveLocked L io ?r1 d = (e', d1)" by (cases "Registry_saveLocked L io ?r1 d")
    have res: "(res, (r', d', cw')) = (case e' of
        Some err \<Rightarrow> (Inl err, (?r1\<lparr>rg_clusters := AList.delete ?id (rg_clusters ?r1)\<rparr>, d1, cw))
      | None \<Rightarrow> (Inr ?c, (?r1, d1, cw)))"
      using assms(2,5) c0 save by (simp add: CreateCluster_def newClusterID_def Let_def split: option.splits)
    have none: "client_of (managed r) ?id = None"
      using assms(4) by (simp add: client_of_def)
    have "connections_ok L ((managed r)(?id \<mapsto> ?m))"
      using inv c0(2) clusterFromInput_ok(1) [OF c0(1)] hexEncode_nonempty [OF assms(3)]
      by (intro connections_ok_update) (auto simp: nameExists_iff connections_ok_def)
    then show ?thesis
      using res inv assms(4) none
      by (cases e') (auto simp: reg_inv_def alist_simps fun_upd_idem)
  qed
  then show "reg_inv L X (r', d', cw')" "rg_filePath r' = rg_filePath r" "res = Inl e \<Longrightarrow> managed r' = managed r"
    by blast+
qed

lemma UpdateCluster_read_ok:
  assumes "connections_ok L (managed r)" and "UpdateCluster_read L now cid input r = Inr c"
  shows "cid \<noteq> []" "c_ID c = cid" "validateCluster L c = None"
  using assms clusterFromInput_ok(1)
  by (auto simp: UpdateCluster_read_def connections_ok_def Let_def split: option.splits sum.splits)

lemma UpdateCluster_commit_inv:
  assumes "reg_inv L X (r, d, cw)" and "cid \<noteq> []" and "c_ID c = cid" and "validateCluster L c = None"
    and "UpdateCluster_commit L io cid c (r, d, cw) = (res, (r', d', cw'))"
  shows "reg_inv L X (r', d', cw')" "rg_filePath r' = rg_filePath r" "res = Inl e \<Longrightarrow> managed r' = managed r"
proof -
  note inv = assms(1) [unfolded reg_inv_def prod.case]
  have "reg_inv L X (r', d', cw') \<and> rg_filePath r' = rg_filePath r \<and> (res = Inl e \<longrightarrow> managed r' = managed r)"
  proof (cases "managed r cid \<noteq> None \<and> \<not> nameExistsLocked (rl_ucd L) r (c_Name c) cid")
    case False
    with assms show ?thesis
      by (auto simp: UpdateCluster_commit_def Let_def split: option.splits if_splits)
  next
    case True
    then obtain cur where cur: "managed r cid = Some cur" by auto
    let ?m = "\<lparr>mc_config = c, mc_client = None\<rparr>"
    let ?r1 = "r\<lparr>rg_clusters := AList.update cid ?m (rg_clusters r)\<rparr>"
    obtain e' d1 where save: "Registry_saveLocked L io ?r1 d = (e', d1)" by (cases "Registry_saveLocked L io ?r1 d")
    have res: "(res, (r', d', cw')) = (case e' of
        Some err \<Rightarrow> (Inl err, (?r1\<lparr>rg_clusters := AList.update cid cur (rg_clusters ?r1)\<rparr>, d1, cw))
      | None \<Rightarrow> (Inr c, (?r1, d1, (case mc_client cur of None \<Rightarrow> cw | Some h \<Rightarrow> Etcd_Close h cw))))"
      using assms(5) True cur save by (simp add: UpdateCluster_commit_def Let_def split: option.splits)
    have "connections_ok L ((managed r)(cid \<mapsto> ?m))"
      using inv True assms(2-4) by (intro connections_ok_update) (auto simp: nameExists_iff)
    moreover have "clients_ok (rg_dialTimeout r) ((client_of (managed r))(cid := None))
        (case mc_client cur of None \<Rightarrow> cw | Some h \<Rightarrow> Etcd_Close h cw) X"
    proof (cases "mc_client cur")
      case None
      with cur have "client_of (managed r) cid = None" by (simp add: client_of_def)
      with None inv show ?thesis by (simp add: fun_upd_idem)
    next
      case (Some h)
      with cur have "client_of (managed r) cid = Some (h, mc_config cur)" by (simp add: client_of_def)
      with Some inv show ?thesis by (simp add: clients_ok_close)
    qed
    moreover have m1: "managed ?r1 = (managed r)(cid \<mapsto> ?m)" by (intro ext) (simp add: update_conv')
    moreover have "managed (?r1\<lparr>rg_clusters := AList.update cid cur (rg_clusters ?r1)\<rparr>) = managed r"
      using cur by (intro ext) (simp add: update_conv')
    ultimately show ?thesis
      using res inv by (cases e') (simp_all add: reg_inv_def distinct_update)
  qed
  then show "reg_inv L X (r', d', cw')" "rg_filePath r' = rg_filePath r" "res = Inl e \<Longrightarrow> managed r' = managed r"
    by blast+
qed

lemma DeleteCluster_inv:
  assumes "reg_inv L X (r, d, cw)" and "DeleteCluster L io ce cid (r, d, cw) = (res, (r', d', cw'))"
  shows "reg_inv L X (r', d', cw')" "rg_filePath r' = rg_filePath r"
    "managed r' = managed r \<or> managed r' = (managed r)(cid := None)"
proof -
  note inv = assms(1) [unfolded reg_inv_def prod.case]
  have "reg_inv L X (r', d', cw') \<and> rg_filePath r' = rg_filePath r \<and>
      (managed r' = managed r \<or> managed r' = (managed r)(cid := None))"
  proof (cases "managed r cid")
    case None
    with assms show ?thesis by (simp add: DeleteCluster_def)
  next
    case (Some cur)
    let ?r1 = "r\<lparr>rg_clusters := AList.delete cid (rg_clusters r)\<rparr>"
    let ?close = "case mc_client cur of None \<Rightarrow> cw | Some h \<Rightarrow> Etcd_Close h cw"
    let ?r2 = "?r1\<lparr>rg_clusters := AList.update cid cur (rg_clusters ?r1)\<rparr>"
    obtain e' d1 where save: "Registry_saveLocked L io ?r1 d = (e', d1)" by (cases "Registry_saveLocked L io ?r1 d")
    have res: "(r', d', cw') = (case e' of Some err \<Rightarrow> (?r2, d1, cw) | None \<Rightarrow> (?r1, d1, ?close))"
      using assms(2) Some save by (auto simp: DeleteCluster_def Let_def split: option.splits)
    have "clients_ok (rg_dialTimeout r) ((client_of (managed r))(cid := None)) ?close X"
    proof (cases "mc_client cur")
      case None
      with Some have "client_of (managed r) cid = None" by (simp add: client_of_def)
      with None inv show ?thesis by (simp add: fun_upd_idem)
    next
      case h: (Some h)
      with Some have "client_of (managed r) cid = Some (h, mc_config cur)" by (simp add: client_of_def)
      with h inv show ?thesis by (simp add: clients_ok_close)
    qed
    moreover have "managed ?r1 = (managed r)(cid := None)" by (intro ext) (simp add: delete_conv')
    moreover have "managed ?r2 = managed r" using Some by (intro ext) (simp add: update_conv' delete_conv')
    ultimately show ?thesis
      using res inv by (cases e') (simp_all add: reg_inv_def distinct_update distinct_delete connections_ok_delete)
  qed
  then show "reg_inv L X (r', d', cw')" "rg_filePath r' = rg_filePath r"
    "managed r' = managed r \<or> managed r' = (managed r)(cid := None)"
    by blast+
qed

text \<open>
  Handing over a client: the request owns \<open>h\<close>, opened with the configuration \<open>c\<close>; equal
  times of update mean equal configurations.
\<close>

lemma ClusterKV_adopt_inv:
  assumes "reg_inv L (insert h X) (r, d, cw)" and "h \<notin> X" and "cw_open cw h = Some (clientConfig (rg_dialTimeout r) c)"
    and "\<forall>m. managed r cid = Some m \<longrightarrow> c_UpdatedAt (mc_config m) = c_UpdatedAt c \<longrightarrow> mc_config m = c"
    and "ClusterKV_adopt cid c h (r, d, cw) = (res, (r', d', cw'))"
  shows "reg_inv L X (r', d', cw')" "rg_filePath r' = rg_filePath r" "rg_dialTimeout r' = rg_dialTimeout r"
    "res = Some (Inr (k, c')) \<Longrightarrow> client_of (managed r') cid = Some (k, c')"
proof -
  note inv = assms(1) [unfolded reg_inv_def prod.case]
  have "reg_inv L X (r', d', cw') \<and> rg_filePath r' = rg_filePath r \<and> rg_dialTimeout r' = rg_dialTimeout r \<and>
      (res = Some (Inr (k, c')) \<longrightarrow> client_of (managed r') cid = Some (k, c'))"
  proof (cases "\<exists>cur. managed r cid = Some cur \<and> c_UpdatedAt (mc_config cur) = c_UpdatedAt c \<and> mc_client cur = None")
    case False
    then have "r' = r \<and> d' = d \<and> cw' = Etcd_Close h cw \<and> (res = Some (Inr (k, c')) \<longrightarrow> client_of (managed r') cid = Some (k, c'))"
      using assms(5) by (auto simp: ClusterKV_adopt_def client_of_def split: option.splits if_splits)
    with inv clients_ok_drop [OF _ assms(2)] show ?thesis by (auto simp: reg_inv_def)
  next
    case True
    then obtain cur where cur: "managed r cid = Some cur" "c_UpdatedAt (mc_config cur) = c_UpdatedAt c" "mc_client cur = None"
      by blast
    let ?r1 = "r\<lparr>rg_clusters := AList.update cid (cur\<lparr>mc_client := Some h\<rparr>) (rg_clusters r)\<rparr>"
    have same: "mc_config cur = c" using assms(4) cur by blast
    have res: "res = Some (Inr (h, mc_config cur))" "r' = ?r1" "cw' = cw"
      using assms(5) cur by (auto simp: ClusterKV_adopt_def)
    have M: "managed ?r1 = (managed r)(cid \<mapsto> cur\<lparr>mc_client := Some h\<rparr>)" by (intro ext) (simp add: update_conv')
    have "connections_ok L ((managed r)(cid \<mapsto> cur\<lparr>mc_client := Some h\<rparr>))"
      using inv cur(1) by (intro connections_ok_update) (auto simp: connections_ok_def)
    moreover have "client_of (managed r) cid = None" using cur by (simp add: client_of_def)
    then have "clients_ok (rg_dialTimeout r) ((client_of (managed r))(cid \<mapsto> (h, c))) cw X"
      using inv assms(2,3) by (intro clients_ok_adopt) auto
    moreover have "client_of (managed ?r1) cid = Some (h, c)"
      unfolding M by (simp add: same)
    ultimately show ?thesis
      using inv res M same by (auto simp: reg_inv_def distinct_update)
  qed
  then show "reg_inv L X (r', d', cw')" "rg_filePath r' = rg_filePath r" "rg_dialTimeout r' = rg_dialTimeout r"
    "res = Some (Inr (k, c')) \<Longrightarrow> client_of (managed r') cid = Some (k, c')"
    by blast+
qed

section \<open>Interleaved runs\<close>

text \<open>
  What a run of requests can do to the registry. \<open>UpdateCluster\<close> and \<open>ClusterKV\<close> have
  a whole run of other requests between their two locked parts. Two assumptions on the outside
  world: a new random identifier is not in use, and two configurations of a cluster with the same
  time of update are the same (the clock distinguishes updates).
\<close>

inductive reg_run :: "reg_lib \<Rightarrow> reg_state \<Rightarrow> reg_state \<Rightarrow> bool" for L where
  nothing: "reg_run L st st"
| create: "reg_run L st (r, d, cw) \<Longrightarrow> bs \<noteq> [] \<Longrightarrow> managed r (hexEncode bs) = None \<Longrightarrow>
    reg_run L st (snd (CreateCluster L now (Some bs) io input (r, d, cw)))"
| update: "reg_run L st (r, d, cw) \<Longrightarrow> UpdateCluster_read L now cid input r = Inr c \<Longrightarrow>
    reg_run L (r, d, cw) (r2, d2, cw2) \<Longrightarrow> reg_run L st (snd (UpdateCluster_commit L io cid c (r2, d2, cw2)))"
| delete: "reg_run L st (r, d, cw) \<Longrightarrow> reg_run L st (snd (DeleteCluster L io ce cid (r, d, cw)))"
| connect: "reg_run L st (r, d, cw) \<Longrightarrow> managed r cid = Some m \<Longrightarrow>
    NewEtcd L (mc_config m) (rg_dialTimeout r) cw = (Inr h, cw1) \<Longrightarrow> reg_run L (r, d, cw1) (r2, d2, cw2) \<Longrightarrow>
    \<forall>m2. managed r2 cid = Some m2 \<longrightarrow> c_UpdatedAt (mc_config m2) = c_UpdatedAt (mc_config m) \<longrightarrow> mc_config m2 = mc_config m \<Longrightarrow>
    reg_run L st (snd (ClusterKV_adopt cid (mc_config m) h (r2, d2, cw2)))"
| test: "reg_run L st (r, d, cw) \<Longrightarrow> reg_run L st (r, d, snd (TestCluster L health cid input (r, cw)))"

definition keeps :: "nat set \<Rightarrow> reg_state \<Rightarrow> reg_state \<Rightarrow> bool" where
  "keeps X st st' = (case (st, st') of ((r, d, cw), (r', d', cw')) \<Rightarrow>
     rg_filePath r' = rg_filePath r \<and> rg_dialTimeout r' = rg_dialTimeout r \<and> (\<forall>h \<in> X. cw_open cw' h = cw_open cw h))"

lemma keeps_refl: "keeps X st st"
  by (simp add: keeps_def split: prod.split)

lemma keeps_trans: "keeps X st st1 \<Longrightarrow> keeps X st1 st2 \<Longrightarrow> keeps X st st2"
  by (auto simp: keeps_def split: prod.splits)

lemma CreateCluster_keeps: "keeps X (r, d, cw) (snd (CreateCluster L now random io input (r, d, cw)))"
  by (auto simp: CreateCluster_def keeps_def Let_def split: sum.splits option.splits prod.splits)

lemma not_owned:
  assumes "clients_ok t (client_of M) cw X" and "M cid = Some m" and "mc_client m = Some h"
  shows "h \<notin> X"
  using clients_okD(2) [OF assms(1), of cid h "mc_config m"] assms(2,3) by (simp add: client_of_def)

lemma UpdateCluster_commit_keeps:
  assumes "reg_inv L X (r, d, cw)"
  shows "keeps X (r, d, cw) (snd (UpdateCluster_commit L io cid c (r, d, cw)))"
  using assms not_owned [of _ "managed r" cw X cid]
  by (auto simp: UpdateCluster_commit_def keeps_def Let_def reg_inv_def Etcd_Close_def split: option.splits prod.splits)

lemma DeleteCluster_keeps:
  assumes "reg_inv L X (r, d, cw)"
  shows "keeps X (r, d, cw) (snd (DeleteCluster L io ce cid (r, d, cw)))"
  using assms not_owned [of _ "managed r" cw X cid]
  by (auto simp: DeleteCluster_def keeps_def Let_def reg_inv_def Etcd_Close_def split: option.splits prod.splits)

lemma ClusterKV_adopt_keeps: "h \<notin> X \<Longrightarrow> keeps X (r, d, cw) (snd (ClusterKV_adopt cid c h (r, d, cw)))"
  by (auto simp: ClusterKV_adopt_def keeps_def Etcd_Close_def split: option.splits)

lemma TestCluster_inv:
  assumes "reg_inv L X (r, d, cw)"
  shows "reg_inv L X (r, d, snd (TestCluster L health cid input (r, cw)))"
    "keeps X (r, d, cw) (r, d, snd (TestCluster L health cid input (r, cw)))"
proof -
  have "reg_inv L X (r, d, Etcd_Close h cw') \<and> keeps X (r, d, cw) (r, d, Etcd_Close h cw')"
    if "NewEtcd L c t cw = (Inr h, cw')" for c t h cw'
  proof -
    have "clients_ok (rg_dialTimeout r) (client_of (managed r)) cw X"
      using assms by (simp add: reg_inv_def)
    note new = NewEtcd_ok [OF that this]
    have "cw_open cw' k = cw_open cw k" if "k \<noteq> h" for k
      using \<open>NewEtcd L c t cw = (Inr h, cw')\<close> that
      by (auto simp: NewEtcd_def Let_def split: sum.splits option.splits)
    with assms new clients_ok_drop [OF new(1,2)] show ?thesis by (auto simp: reg_inv_def keeps_def Etcd_Close_def)
  qed
  with assms have "reg_inv L X (r, d, snd (TestCluster L health cid input (r, cw))) \<and>
      keeps X (r, d, cw) (r, d, snd (TestCluster L health cid input (r, cw)))"
    by (auto simp: TestCluster_def keeps_refl split: option.splits sum.splits prod.splits dest!: NewEtcd_err)
  then show "reg_inv L X (r, d, snd (TestCluster L health cid input (r, cw)))"
    "keeps X (r, d, cw) (r, d, snd (TestCluster L health cid input (r, cw)))"
    by blast+
qed

lemma reg_run_inv:
  assumes "reg_run L st st'" and "reg_inv L X st"
  shows "reg_inv L X st' \<and> keeps X st st'"
  using assms
proof (induction arbitrary: X rule: reg_run.induct)
  case (nothing st)
  then show ?case by (simp add: keeps_refl)
next
  case (create st r d cw bs now io input)
  let ?new = "CreateCluster L now (Some bs) io input (r, d, cw)"
  obtain res r' d' cw' where new: "?new = (res, (r', d', cw'))" by (metis prod.exhaust)
  from create.IH [OF create.prems] create.hyps new show ?case
    using CreateCluster_inv(1) [OF _ refl _ _ new] CreateCluster_keeps [of X r d cw L now "Some bs" io input]
    by (auto simp: new intro: keeps_trans)
next
  case (update st r d cw now cid input c r2 d2 cw2 io)
  let ?new = "UpdateCluster_commit L io cid c (r2, d2, cw2)"
  obtain res r' d' cw' where new: "?new = (res, (r', d', cw'))" by (metis prod.exhaust)
  have inv1: "reg_inv L X (r, d, cw)" "keeps X st (r, d, cw)"
    using update.IH(1) [OF update.prems] by simp_all
  then have inv2: "reg_inv L X (r2, d2, cw2)" "keeps X (r, d, cw) (r2, d2, cw2)"
    using update.IH(2) by simp_all
  have "cid \<noteq> []" "c_ID c = cid" "validateCluster L c = None"
    using UpdateCluster_read_ok [OF _ update.hyps(2)] inv1(1) by (simp_all add: reg_inv_def)
  from UpdateCluster_commit_inv(1) [OF inv2(1) this new] UpdateCluster_commit_keeps [OF inv2(1), of io cid c]
  show ?case using inv1(2) inv2(2) by (auto simp: new intro: keeps_trans)
next
  case (delete st r d cw io ce cid)
  let ?new = "DeleteCluster L io ce cid (r, d, cw)"
  obtain res r' d' cw' where new: "?new = (res, (r', d', cw'))" by (metis prod.exhaust)
  from delete.IH [OF delete.prems] DeleteCluster_inv(1) [OF _ new] DeleteCluster_keeps [of L X r d cw io ce cid]
  show ?case by (auto simp: new intro: keeps_trans)
next
  case (connect st r d cw cid m h cw1 r2 d2 cw2)
  let ?new = "ClusterKV_adopt cid (mc_config m) h (r2, d2, cw2)"
  obtain res r' d' cw' where new: "?new = (res, (r', d', cw'))" by (metis prod.exhaust)
  have inv1: "reg_inv L X (r, d, cw)" "keeps X st (r, d, cw)"
    using connect.IH(1) [OF connect.prems] by simp_all
  note opened = NewEtcd_ok [OF connect.hyps(3), of "rg_dialTimeout r" "client_of (managed r)" X]
  have cl: "clients_ok (rg_dialTimeout r) (client_of (managed r)) cw X"
    using inv1(1) by (simp add: reg_inv_def)
  have "reg_inv L (insert h X) (r, d, cw1)"
    using inv1(1) opened(1) [OF cl] by (simp add: reg_inv_def)
  then have inv2: "reg_inv L (insert h X) (r2, d2, cw2)" "keeps (insert h X) (r, d, cw1) (r2, d2, cw2)"
    using connect.IH(2) by simp_all
  have "cw_open cw2 h = Some (clientConfig (rg_dialTimeout r2) (mc_config m))"
    using inv2(2) opened(3) [OF cl] by (simp add: keeps_def)
  from ClusterKV_adopt_inv(1) [OF inv2(1) opened(2) [OF cl] this connect.hyps(5) new]
  have "reg_inv L X (r', d', cw')" .
  moreover have "cw_open cw1 k = cw_open cw k" if "k \<in> X" for k
    using connect.hyps(3) that opened(2) [OF cl] by (auto simp: NewEtcd_def Let_def split: sum.splits option.splits)
  then have "keeps X (r, d, cw) (r2, d2, cw2)"
    using inv2(2) by (simp add: keeps_def)
  ultimately show ?case
    using inv1(2) ClusterKV_adopt_keeps [OF opened(2) [OF cl], of r2 d2 cw2 cid "mc_config m"]
    by (auto simp: new intro: keeps_trans)
next
  case (test st r d cw health cid input)
  from test.IH [OF test.prems] TestCluster_inv [of L X r d cw health cid input] show ?case
    by (auto intro: keeps_trans)
qed

section \<open>Properties\<close>

definition start_registry :: "string \<Rightarrow> int \<Rightarrow> dir \<Rightarrow> reg_state" where
  "start_registry p t d = (\<lparr>rg_filePath = p, rg_dialTimeout = t, rg_clusters = []\<rparr>, d, \<lparr>cw_next = 0, cw_open = Map.empty\<rparr>)"


text \<open>One attempt: a client is opened, the others go on, and it is adopted or dropped.\<close>

lemma ClusterKV_attempt:
  assumes "reg_inv L {} (r, d, cw)" and "NewEtcd L (mc_config m) (rg_dialTimeout r) cw = (Inr k, cw1)"
    and "reg_run L (r, d, cw1) (r2, d2, cw2)"
    and "\<forall>m2. managed r2 cid = Some m2 \<longrightarrow> c_UpdatedAt (mc_config m2) = c_UpdatedAt (mc_config m) \<longrightarrow> mc_config m2 = mc_config m"
    and "ClusterKV_adopt cid (mc_config m) k (r2, d2, cw2) = (res, (r3, d3, cw3))"
  shows "reg_inv L {} (r3, d3, cw3)" "res = Some (Inr (h, c)) \<Longrightarrow> client_of (managed r3) cid = Some (h, c)"
proof -
  have cl: "clients_ok (rg_dialTimeout r) (client_of (managed r)) cw {}"
    using assms(1) by (simp add: reg_inv_def)
  note opened = NewEtcd_ok [OF assms(2) cl]
  have "reg_inv L {k} (r, d, cw1)"
    using assms(1) opened(1) by (simp add: reg_inv_def)
  then have inv2: "reg_inv L {k} (r2, d2, cw2)" "keeps {k} (r, d, cw1) (r2, d2, cw2)"
    using reg_run_inv assms(3) by blast+
  have cfg: "cw_open cw2 k = Some (clientConfig (rg_dialTimeout r2) (mc_config m))"
    using inv2(2) opened(3) by (simp add: keeps_def)
  note adopted = ClusterKV_adopt_inv [OF inv2(1) _ cfg assms(4,5), simplified]
  show "reg_inv L {} (r3, d3, cw3)" "res = Some (Inr (h, c)) \<Longrightarrow> client_of (managed r3) cid = Some (h, c)"
    using adopted(1,4) by auto
qed


text \<open>
  C29. \<open>ClusterKV\<close> does return: one of \<open>n\<close> attempts during which the cluster is not updated
  is enough.
\<close>

theorem cluster_kv_returns:
  assumes "i < n" and "\<forall>r d cw r2 d2 cw2 m m2. others i (r, d, cw) = (r2, d2, cw2) \<longrightarrow> managed r cid = Some m \<longrightarrow>
      managed r2 cid = Some m2 \<longrightarrow> c_UpdatedAt (mc_config m2) = c_UpdatedAt (mc_config m)"
  shows "fst (ClusterKV n L others cid st) \<noteq> None"
  using assms(1)
proof (induction n arbitrary: st)
  case 0
  then show ?case by simp
next
  case (Suc n)
  obtain r d cw where st: "st = (r, d, cw)" by (cases st)
  show ?case
  proof (cases "i = n")
    case True
    note same = assms(2) [unfolded True, rule_format]
    show ?thesis
      by (auto simp: st ClusterKV_adopt_def split: option.splits prod.splits sum.splits if_splits dest: same)
  next
    case False
    with Suc.prems have "i < n" by simp
    note IH = Suc.IH [OF this]
    show ?thesis
      using IH by (auto simp: st split: option.splits prod.splits sum.splits)
  qed
qed

section \<open>Restart\<close>

definition cluster_utf8 :: "Cluster \<Rightarrow> bool" where
  "cluster_utf8 c \<longleftrightarrow> list_all utf8Valid
     ([c_ID c, c_Name c, c_Username c, c_Password c, c_TLSCAFile c, c_TLSCertFile c, c_TLSKeyFile c] @ c_Endpoints c)"

text \<open>What the code relies on of \<open>encoding/json\<close> for the clusters file.\<close>

definition json_clusters_law :: "clusterFile json_codec \<Rightarrow> bool" where
  "json_clusters_law C \<longleftrightarrow>
    (\<forall>f t n. list_all cluster_utf8 (cfl_Clusters f) \<longrightarrow> marshal C f = Some t \<longrightarrow>
       unmarshal C (take n (t @ [newline])) = (if length t \<le> n then Some f else None))"

abbreviation loaded :: "Cluster \<Rightarrow> managedCluster" where
  "loaded c \<equiv> \<lparr>mc_config = c, mc_client = None\<rparr>"

lemma loadClusters_ok:
  assumes "distinct (map c_ID cs)" and "\<forall>c \<in> set cs. c_ID c \<noteq> [] \<and> validateCluster L c = None \<and> map_of acc (c_ID c) = None"
  shows "\<exists>acc'. loadClusters L cs acc = Inr acc' \<and> map_of acc' = map_of acc ++ map_of (map (\<lambda>c. (c_ID c, loaded c)) cs)"
  using assms
proof (induction cs arbitrary: acc)
  case (Cons c cs)
  let ?acc = "AList.update (c_ID c) (loaded c) acc"
  have "\<forall>x \<in> set cs. c_ID x \<noteq> [] \<and> validateCluster L x = None \<and> map_of ?acc (c_ID x) = None"
    using Cons.prems by (auto simp: update_conv' image_iff)
  then obtain acc' where acc': "loadClusters L cs ?acc = Inr acc'"
      "map_of acc' = map_of ?acc ++ map_of (map (\<lambda>c. (c_ID c, loaded c)) cs)"
    using Cons.IH [of ?acc] Cons.prems(1) by auto
  moreover have "c_ID c \<notin> dom (map_of (map (\<lambda>c. (c_ID c, loaded c)) cs))"
    using Cons.prems(1) by (auto simp: dom_map_of_conv_image_fst)
  ultimately have "map_of acc' = map_of acc ++ map_of (map (\<lambda>c. (c_ID c, loaded c)) (c # cs))"
    by (simp add: update_conv' map_add_upd_left del: fun_upd_apply)
  moreover have "loadClusters L (c # cs) acc = Inr acc'"
    using acc'(1) Cons.prems by simp
  ultimately show ?case by blast
qed simp

text \<open>Loading the sorted clusters of a registry gives the same map, without clients.\<close>

lemma loadClusters_sorted:
  assumes "distinct (map fst ms)"
    and "\<And>cid m. (cid, m) \<in> set ms \<Longrightarrow> c_ID (mc_config m) = cid \<and> cid \<noteq> [] \<and> validateCluster L (mc_config m) = None"
  shows "\<exists>cl. loadClusters L (sort_key c_ID (map (mc_config \<circ> snd) ms)) [] = Inr cl \<and>
    map_of cl = map_option (\<lambda>m. loaded (mc_config m)) \<circ> map_of ms"
proof -
  let ?cs = "sort_key c_ID (map (mc_config \<circ> snd) ms)"
  have "map c_ID (map (mc_config \<circ> snd) ms) = map fst ms"
    using assms(2) by auto
  then have dist: "distinct (map c_ID ?cs)"
    using assms(1) by (metis mset_map mset_sort mset_eq_imp_distinct_iff)
  moreover have "\<forall>c \<in> set ?cs. c_ID c \<noteq> [] \<and> validateCluster L c = None \<and> map_of [] (c_ID c) = None"
    using assms(2) by auto
  ultimately obtain cl where cl: "loadClusters L ?cs [] = Inr cl" "map_of cl = map_of (map (\<lambda>c. (c_ID c, loaded c)) ?cs)"
    using loadClusters_ok [of ?cs L "[]"] by auto
  have "map_of (map (\<lambda>c. (c_ID c, loaded c)) ?cs) = map_of (map (\<lambda>(k, m). (k, loaded (mc_config m))) ms)"
  proof (rule map_of_inject_set [THEN iffD2])
    show "distinct (map fst (map (\<lambda>c. (c_ID c, loaded c)) ?cs))"
      using dist by (simp add: comp_def)
    show "distinct (map fst (map (\<lambda>(k, m). (k, loaded (mc_config m))) ms))"
      using assms(1) by (simp add: comp_def case_prod_unfold)
    show "set (map (\<lambda>c. (c_ID c, loaded c)) ?cs) = set (map (\<lambda>(k, m). (k, loaded (mc_config m))) ms)"
      using assms(2) by force
  qed
  also have "\<dots> = map_option (\<lambda>m. loaded (mc_config m)) \<circ> map_of ms"
    by (rule map_of_map)
  finally show ?thesis using cl by auto
qed

text \<open>
  C31. A registry that was saved without an error is the registry that the next start loads, as
  far as the file stays below the limit that loading applies: the same identifiers with the same
  configurations, and no clients.
\<close>

theorem registry_survives_restart:
  assumes "json_clusters_law (rl_codec L)" and "fresh_temp io (rg_filePath r) d" and "reg_inv L X (r, d, cw)"
    and "Registry_saveLocked L io r d = (None, d')" and "\<forall>cid m. managed r cid = Some m \<longrightarrow> cluster_utf8 (mc_config m)"
    and "\<forall>body. d' (rg_filePath r) = Some body \<longrightarrow> length body \<le> clusterFileLimit"
  shows "\<exists>r2. NewRegistry L False (rg_filePath r) t d' = Inr r2 \<and>
    (\<forall>cid. managed r2 cid = map_option (\<lambda>m. m\<lparr>mc_client := None\<rparr>) (managed r cid))"
proof -
  let ?cs = "sort_key c_ID (map (mc_config \<circ> snd) (rg_clusters r))"
  obtain body where body: "marshal (rl_codec L) \<lparr>cfl_Version = 1, cfl_Clusters = ?cs\<rparr> = Some body"
    and d': "d' = d(rg_filePath r \<mapsto> body @ [newline])"
    using assms(2,4)
    by (auto simp: Registry_saveLocked_def clusterFileVersion_def replace_file_cases split: option.splits prod.splits if_splits)
  have dist: "distinct (map fst (rg_clusters r))" and conn: "connections_ok L (managed r)"
    using assms(3) by (simp_all add: reg_inv_def)
  have mem: "managed r cid = Some m" if "(cid, m) \<in> set (rg_clusters r)" for cid m
    using dist that by simp
  have ids: "c_ID (mc_config m) = cid" "cid \<noteq> []" "validateCluster L (mc_config m) = None" "cluster_utf8 (mc_config m)"
    if "(cid, m) \<in> set (rg_clusters r)" for cid m
    using conn assms(5) mem [OF that] by (auto simp: connections_ok_def)
  have utf8: "list_all cluster_utf8 ?cs"
    using ids(4) by (auto simp: list_all_iff)
  have "length body \<le> clusterFileLimit"
    using assms(6) d' by simp
  then have dec: "unmarshal (rl_codec L) (take clusterFileLimit (body @ [newline])) = Some \<lparr>cfl_Version = 1, cfl_Clusters = ?cs\<rparr>"
    using assms(1) [unfolded json_clusters_law_def, rule_format, OF _ body, of clusterFileLimit]
      utf8 by simp
  obtain cl where cl: "loadClusters L ?cs [] = Inr cl" "map_of cl = map_option (\<lambda>m. loaded (mc_config m)) \<circ> managed r"
    using loadClusters_sorted [OF dist, of L] ids by blast
  then have "map_of cl cid = map_option (\<lambda>m. m\<lparr>mc_client := None\<rparr>) (managed r cid)" for cid
    by (cases "managed r cid") auto
  with d' dec cl(1) show ?thesis
    by (simp add: NewRegistry_def Registry_load_def clusterFileVersion_def)
qed

section \<open>Errors\<close>

text \<open>
  An operation that reports an error leaves the clusters in memory as they were, except a
  deletion whose client fails to close, which has removed the cluster.
\<close>

theorem registry_error_keeps_clusters:
  assumes "reg_inv L X (r, d, cw)" and "bs \<noteq> []" and "managed r (hexEncode bs) = None"
  shows "(CreateCluster L now (Some bs) io input (r, d, cw) = (Inl e, (r', d', cw')) \<longrightarrow> managed r' = managed r) \<and>
    (UpdateCluster L now io (\<lambda>s. s) cid input (r, d, cw) = (Inl e, (r', d', cw')) \<longrightarrow> managed r' = managed r) \<and>
    (DeleteCluster L io None cid (r, d, cw) = (Inl e, (r', d', cw')) \<longrightarrow> managed r' = managed r)"
proof (intro conjI impI)
  show "managed r' = managed r" if "CreateCluster L now (Some bs) io input (r, d, cw) = (Inl e, (r', d', cw'))"
    using CreateCluster_inv(3) [OF assms(1) refl assms(2,3) that] by simp
  show "managed r' = managed r" if "UpdateCluster L now io (\<lambda>s. s) cid input (r, d, cw) = (Inl e, (r', d', cw'))"
  proof (cases "UpdateCluster_read L now cid input r")
    case (Inl err)
    with that show ?thesis by (simp add: UpdateCluster_def)
  next
    case (Inr c)
    with that have "UpdateCluster_commit L io cid c (r, d, cw) = (Inl e, (r', d', cw'))" by (simp add: UpdateCluster_def)
    moreover have "connections_ok L (managed r)" using assms(1) by (simp add: reg_inv_def)
    ultimately show ?thesis
      using UpdateCluster_commit_inv(3) [OF assms(1) UpdateCluster_read_ok [OF _ Inr]] by simp
  qed
  show "managed r' = managed r" if "DeleteCluster L io None cid (r, d, cw) = (Inl e, (r', d', cw'))"
    using that by (cases "managed r cid")
      (auto simp: DeleteCluster_def Let_def update_conv' delete_conv' fun_eq_iff split: prod.splits option.splits)
qed

text \<open>
  An update that leaves the password out is documented to preserve the existing one. It
  restores the password it had read before it took the lock: a change of password by another request in
  between is undone, although both requests succeed.
\<close>

theorem concurrent_update_reverts_password:
  assumes "managed r cid = Some m" and "UpdateCluster_read L now1 cid other r = Inr c1"
    and "ci_Password input = None" and "UpdateCluster_commit L io1 cid c1 (r, d, cw) = (Inr c1, st1)"
    and "UpdateCluster L now2 io2 (\<lambda>_. st1) cid input (r, d, cw) = (Inr c2, (r', d', cw'))"
  shows "\<exists>m'. managed r' cid = Some m' \<and> c_Password (mc_config m') = c_Password (mc_config m)"
proof -
  obtain c where c: "UpdateCluster_read L now2 cid input r = Inr c" and com: "UpdateCluster_commit L io2 cid c st1 = (Inr c2, (r', d', cw'))"
    using assms(5) by (auto simp: UpdateCluster_def split: sum.splits)
  have "c_Password c = c_Password (mc_config m)"
    using c assms(1,3) by (auto simp: UpdateCluster_read_def clusterFromInput_def Let_def split: sum.splits option.splits)
  moreover have "managed r' cid = Some (loaded c)"
    using com by (cases st1) (auto simp: UpdateCluster_commit_def Let_def update_conv' split: option.splits if_splits prod.splits)
  ultimately show ?thesis by simp
qed

end
