(* ===== verification/Registry_Instances.thy ===== *)
theory Registry_Instances
  imports Registry_Theorems Field_Codec
begin

text \<open>
  A concrete codec of the clusters file, concrete libraries and small registries: the laws and
  hypotheses of \<open>Registry_Theorems\<close> hold for them, and its theorems are applied to them.
\<close>

section \<open>A codec\<close>

definition packCluster :: "Cluster \<Rightarrow> string" where
  "packCluster c = writeFields
    ([c_ID c, c_Name c, c_Username c, c_Password c, c_TLSCAFile c, c_TLSCertFile c, c_TLSKeyFile c,
      FormatInt (c_CreatedAt c), FormatInt (c_UpdatedAt c)] @ c_Endpoints c)"

fun fieldsCluster :: "string list \<Rightarrow> Cluster option" where
  "fieldsCluster (a # b # c # d # e # f # g # h # i # endpoints) =
     (case (ParseInt h, ParseInt i) of
        (Some h', Some i') \<Rightarrow>
          Some \<lparr>c_ID = a, c_Name = b, c_Endpoints = endpoints, c_Username = c, c_Password = d, c_TLSCAFile = e,
            c_TLSCertFile = f, c_TLSKeyFile = g, c_CreatedAt = h', c_UpdatedAt = i'\<rparr>
      | _ \<Rightarrow> None)"
| "fieldsCluster _ = None"

fun unpackClusters :: "string list \<Rightarrow> Cluster list option" where
  "unpackClusters [] = Some []"
| "unpackClusters (s # ss) =
     (case (readFields s, unpackClusters ss) of
        (Some fs, Some cs) \<Rightarrow> (case fieldsCluster fs of None \<Rightarrow> None | Some c \<Rightarrow> Some (c # cs))
      | _ \<Rightarrow> None)"

fun unpackClusterFile :: "string list \<Rightarrow> clusterFile option" where
  "unpackClusterFile (v # ss) =
     (case (ParseInt v, unpackClusters ss) of
        (Some v', Some cs) \<Rightarrow> Some \<lparr>cfl_Version = v', cfl_Clusters = cs\<rparr>
      | _ \<Rightarrow> None)"
| "unpackClusterFile _ = None"

definition file_ints_ok :: "clusterFile \<Rightarrow> bool" where
  "file_ints_ok f \<longleftrightarrow> int64 (cfl_Version f) \<and> list_all (\<lambda>c. int64 (c_CreatedAt c) \<and> int64 (c_UpdatedAt c)) (cfl_Clusters f)"

definition cluster_codec :: "clusterFile json_codec" where
  "cluster_codec =
    field_codec file_ints_ok (\<lambda>f. FormatInt (cfl_Version f) # map packCluster (cfl_Clusters f)) unpackClusterFile"

lemma unpackClusters_pack:
  "list_all (\<lambda>c. int64 (c_CreatedAt c) \<and> int64 (c_UpdatedAt c)) cs \<Longrightarrow> unpackClusters (map packCluster cs) = Some cs"
  by (induction cs) (simp_all add: packCluster_def ParseInt_FormatInt)

lemma cluster_codec_law: "json_clusters_law cluster_codec"
  unfolding json_clusters_law_def cluster_codec_def
  by (intro allI impI field_codec_law [where img = "\<lambda>f. f"])
    (simp_all add: file_ints_ok_def unpackClusters_pack ParseInt_FormatInt)

section \<open>Small registries\<close>

definition sample_reg_lib :: reg_lib where
  "sample_reg_lib =
    \<lparr>rl_ucd = basic_ucd,
     rl_parse = (\<lambda>s. if HasPrefix s ''http://'' then Some \<lparr>url_Scheme = ''http'', url_Host = drop 7 s, url_HasUser = False\<rparr> else None),
     rl_ClientConfig = (\<lambda>_. None), rl_New = (\<lambda>_. None), rl_codec = cluster_codec\<rparr>"

definition sample_cluster :: "string \<Rightarrow> gotime \<Rightarrow> Cluster" where
  "sample_cluster pw t =
    \<lparr>c_ID = ''78'', c_Name = ''n'', c_Endpoints = [''http://h''], c_Username = ''u'', c_Password = pw, c_TLSCAFile = [],
     c_TLSCertFile = [], c_TLSKeyFile = [], c_CreatedAt = 7, c_UpdatedAt = t\<rparr>"

definition sample_cluster_input :: "string option \<Rightarrow> ClusterInput" where
  "sample_cluster_input pw =
    \<lparr>ci_Name = ''n'', ci_Endpoints = [''http://h''], ci_Username = ''u'', ci_Password = pw, ci_TLSCAFile = [],
     ci_TLSCertFile = [], ci_TLSKeyFile = []\<rparr>"

definition no_clients :: clients where
  "no_clients = \<lparr>cw_next = 0, cw_open = Map.empty\<rparr>"

definition sample_reg :: "string \<Rightarrow> gotime \<Rightarrow> Registry" where
  "sample_reg pw t = \<lparr>rg_filePath = ''f'', rg_dialTimeout = 5, rg_clusters = [(''78'', loaded (sample_cluster pw t))]\<rparr>"

definition reg_io :: save_io where
  "reg_io = \<lparr>io_fail = None, io_written = 0, io_temp = ''t''\<rparr>"

lemma sample_trims: "TrimSpace ''n'' = ''n''" "TrimSpace ''u'' = ''u''" "TrimSpace ''http://h'' = ''http://h''"
  by (simp_all add: visible_def byte_def)

lemma sample_reg_valid: "validateCluster sample_reg_lib (sample_cluster pw t) = None"
  by (simp add: validateCluster_def sample_cluster_def sample_reg_lib_def runes_ascii ascii_def byte_def)

lemma sample_from_input:
  "clusterFromInput sample_reg_lib (sample_cluster_input (Some pw)) zeroCluster =
     Inr (sample_cluster pw t\<lparr>c_ID := [], c_CreatedAt := 0, c_UpdatedAt := 0\<rparr>)"
  "clusterFromInput sample_reg_lib (sample_cluster_input (Some pw)) (sample_cluster old t) = Inr (sample_cluster pw t)"
  "clusterFromInput sample_reg_lib (sample_cluster_input None) (sample_cluster old t) = Inr (sample_cluster old t)"
  by (simp_all add: clusterFromInput_def sample_cluster_input_def sample_trims zeroCluster_def sample_cluster_def Let_def
      validateCluster_def sample_reg_lib_def runes_ascii ascii_def byte_def)

lemma sample_reg_save:
  assumes "int64 t" and "d ''t'' = None"
  obtains s where "Registry_saveLocked sample_reg_lib reg_io (sample_reg pw t) d = (None, d(''f'' \<mapsto> s @ [newline]))"
    and "s = writeFields [FormatInt 1, packCluster (sample_cluster pw t)]"
  using assms
  by (simp add: Registry_saveLocked_def sample_reg_def sample_reg_lib_def cluster_codec_def field_codec_def file_ints_ok_def
      clusterFileVersion_def int64_def sample_cluster_def reg_io_def replace_file_cases fresh_temp_def)

lemma sample_reg_inv: "reg_inv sample_reg_lib {} (sample_reg pw t, d, no_clients)"
  using sample_reg_valid [of pw t]
  by (simp add: reg_inv_def connections_ok_def clients_ok_def client_of_def sample_reg_def no_clients_def sample_cluster_def)

lemma hex_x: "hexEncode ''x'' = ''78''"
  by (simp add: hexEncode_def byte_def hexDigit_def)

lemma sample_create:
  "\<exists>d. CreateCluster sample_reg_lib 7 (Some ''x'') reg_io (sample_cluster_input (Some pw)) (start_registry ''f'' 5 Map.empty) =
     (Inr (sample_cluster pw 7), (sample_reg pw 7, d, no_clients))"
proof -
  obtain s where "Registry_saveLocked sample_reg_lib reg_io (sample_reg pw 7) Map.empty = (None, [''f'' \<mapsto> s @ [newline]])"
    using sample_reg_save [of 7 Map.empty pw] by (auto simp: int64_def)
  then show ?thesis
    by (simp add: CreateCluster_def sample_from_input(1) [of pw 7] newClusterID_def hex_x start_registry_def nameExistsLocked_def
        no_clients_def) (simp add: sample_reg_def sample_cluster_def Let_def)
qed


section \<open>The theorems at these registries\<close>


definition connected :: clients where
  "connected = \<lparr>cw_next = 1, cw_open = [0 \<mapsto> clientConfig 5 (sample_cluster ''p'' 7)]\<rparr>"

lemma sample_connect:
  "ClusterKV 1 sample_reg_lib (\<lambda>_ s. s) ''78'' (sample_reg ''p'' 7, d, no_clients) =
     (Some (Inr (0, sample_cluster ''p'' 7)),
      (\<lparr>rg_filePath = ''f'', rg_dialTimeout = 5,
         rg_clusters = [(''78'', \<lparr>mc_config = sample_cluster ''p'' 7, mc_client = Some 0\<rparr>)]\<rparr>, d, connected))"
  by (simp add: sample_reg_def NewEtcd_def makeTLSConfig_def sample_reg_lib_def no_clients_def ClusterKV_adopt_def connected_def
      clientConfig_def sample_cluster_def)


theorem cluster_kv_returns_witness:
  "fst (ClusterKV 1 sample_reg_lib (\<lambda>_ s. s) ''78'' (sample_reg ''p'' 7, Map.empty, no_clients)) \<noteq> None"
  by (rule cluster_kv_returns [of 0]) simp_all

theorem registry_survives_restart_witness:
  "\<exists>d r. Registry_saveLocked sample_reg_lib reg_io (sample_reg ''p'' 7) Map.empty = (None, d) \<and>
     NewRegistry sample_reg_lib False ''f'' 5 d = Inr r \<and> managed r ''78'' = Some (loaded (sample_cluster ''p'' 7))"
proof -
  obtain s where save: "Registry_saveLocked sample_reg_lib reg_io (sample_reg ''p'' 7) Map.empty = (None, [''f'' \<mapsto> s @ [newline]])"
    and s: "s = writeFields [FormatInt 1, packCluster (sample_cluster ''p'' 7)]"
    using sample_reg_save [of 7 Map.empty "''p''"] by (auto simp: int64_def)
  have "length s \<le> 1000"
    by (simp add: s packCluster_def sample_cluster_def length_writeFields FormatInt_def natDigits.simps)
  moreover have "cluster_utf8 (sample_cluster ''p'' 7)"
  proof -
    have "utf8Valid ''78''" "utf8Valid ''n''" "utf8Valid ''u''" "utf8Valid ''p''" "utf8Valid ''http://h''"
      by (simp_all add: utf8Valid_ascii ascii_def byte_def del: utf8Valid.simps)
    then show ?thesis by (simp add: cluster_utf8_def sample_cluster_def del: utf8Valid.simps(2))
  qed
  moreover have "fresh_temp reg_io (rg_filePath (sample_reg ''p'' 7)) Map.empty" "json_clusters_law (rl_codec sample_reg_lib)"
    by (simp_all add: fresh_temp_def reg_io_def sample_reg_def sample_reg_lib_def cluster_codec_law)
  moreover have "\<forall>cid m. managed (sample_reg ''p'' 7) cid = Some m \<longrightarrow> cluster_utf8 (mc_config m)"
    using calculation(2) by (simp add: sample_reg_def)
  moreover have "managed (sample_reg ''p'' 7) cid = (if cid = ''78'' then Some (loaded (sample_cluster ''p'' 7)) else None)"
    "rg_filePath (sample_reg ''p'' 7) = ''f''" for cid
    by (simp_all add: sample_reg_def)
  ultimately obtain r where "NewRegistry sample_reg_lib False ''f'' 5 [''f'' \<mapsto> s @ [newline]] = Inr r"
      "managed r ''78'' = Some (loaded (sample_cluster ''p'' 7))"
    using registry_survives_restart [OF _ _ sample_reg_inv save, of 5] by (auto simp: clusterFileLimit_def dest: spec [of _ "''78''"])
  with save show ?thesis by blast
qed

theorem registry_error_keeps_clusters_witness:
  "\<exists>r d cw. CreateCluster sample_reg_lib 9 (Some ''y'') reg_io (sample_cluster_input (Some ''q'')) (sample_reg ''p'' 7, Map.empty, no_clients) =
     (Inl (Sentinel ErrClusterNameExists), (r, d, cw)) \<and> managed r = managed (sample_reg ''p'' 7)"
proof -
  have fails: "CreateCluster sample_reg_lib 9 (Some ''y'') reg_io (sample_cluster_input (Some ''q'')) (sample_reg ''p'' 7, Map.empty, no_clients) =
      (Inl (Sentinel ErrClusterNameExists), (sample_reg ''p'' 7, Map.empty, no_clients))"
    by (simp add: CreateCluster_def sample_from_input(1) [of "''q''" 9] newClusterID_def nameExistsLocked_def sample_reg_def)
      (simp add: sample_cluster_def)
  have "hexEncode ''y'' = ''79''"
    by (simp add: hexEncode_def byte_def hexDigit_def)
  then have "managed (sample_reg ''p'' 7) (hexEncode ''y'') = None"
    by (simp add: sample_reg_def)
  from registry_error_keeps_clusters [OF sample_reg_inv _ this] fails show ?thesis by blast
qed

theorem concurrent_update_reverts_password_witness:
  "\<exists>st1 r d cw. UpdateCluster_commit sample_reg_lib reg_io ''78'' (sample_cluster ''new'' 8) (sample_reg ''old'' 7, Map.empty, no_clients) =
       (Inr (sample_cluster ''new'' 8), st1) \<and> managed (fst st1) ''78'' = Some (loaded (sample_cluster ''new'' 8)) \<and>
     UpdateCluster sample_reg_lib 9 reg_io (\<lambda>_. st1) ''78'' (sample_cluster_input None) (sample_reg ''old'' 7, Map.empty, no_clients) =
       (Inr (sample_cluster ''old'' 9), (r, d, cw)) \<and>
     (\<exists>m. managed r ''78'' = Some m \<and> c_Password (mc_config m) = ''old'')"
proof -
  have read: "UpdateCluster_read sample_reg_lib 8 ''78'' (sample_cluster_input (Some ''new'')) (sample_reg ''old'' 7) = Inr (sample_cluster ''new'' 8)"
    "UpdateCluster_read sample_reg_lib 9 ''78'' (sample_cluster_input None) (sample_reg ''old'' 7) = Inr (sample_cluster ''old'' 9)"
    by (simp_all add: UpdateCluster_read_def sample_reg_def sample_from_input Let_def) (simp_all add: sample_cluster_def)
  have commit: "\<exists>d'. UpdateCluster_commit sample_reg_lib reg_io ''78'' (sample_cluster pw t) (sample_reg x u, d, no_clients) =
      (Inr (sample_cluster pw t), (sample_reg pw t, d', no_clients)) \<and> d' ''t'' = None"
    if t: "int64 t" "d ''t'' = None" for pw t x u d
  proof -
    obtain s where "Registry_saveLocked sample_reg_lib reg_io (sample_reg pw t) d = (None, d(''f'' \<mapsto> s @ [newline]))"
      using sample_reg_save [of t d pw] t by blast
    with t show ?thesis
      by (simp add: UpdateCluster_commit_def sample_reg_def nameExistsLocked_def)
  qed
  obtain d1 where c1: "UpdateCluster_commit sample_reg_lib reg_io ''78'' (sample_cluster ''new'' 8) (sample_reg ''old'' 7, Map.empty, no_clients) =
      (Inr (sample_cluster ''new'' 8), (sample_reg ''new'' 8, d1, no_clients))" "d1 ''t'' = None"
    using commit [of 8 Map.empty "''new''" "''old''" 7] by (auto simp: int64_def)
  obtain d2 where c2: "UpdateCluster_commit sample_reg_lib reg_io ''78'' (sample_cluster ''old'' 9) (sample_reg ''new'' 8, d1, no_clients) =
      (Inr (sample_cluster ''old'' 9), (sample_reg ''old'' 9, d2, no_clients))"
    using commit [of 9 d1 "''old''" "''new''" 8] c1(2) by (auto simp: int64_def)
  let ?st1 = "(sample_reg ''new'' 8, d1, no_clients)"
  have u: "UpdateCluster sample_reg_lib 9 reg_io (\<lambda>_. ?st1) ''78'' (sample_cluster_input None) (sample_reg ''old'' 7, Map.empty, no_clients) =
      (Inr (sample_cluster ''old'' 9), (sample_reg ''old'' 9, d2, no_clients))"
    using read(2) c2 by (simp add: UpdateCluster_def)
  have m: "managed (sample_reg ''old'' 7) ''78'' = Some (loaded (sample_cluster ''old'' 7))"
    by (simp add: sample_reg_def)
  have "ci_Password (sample_cluster_input None) = None"
    by (simp add: sample_cluster_input_def)
  from concurrent_update_reverts_password [OF m read(1) this c1(1) u] c1 u show ?thesis
    by (intro exI [of _ ?st1]) (auto simp: sample_reg_def sample_cluster_def)
qed

end
