(* ===== verification/Server_Labels.thy ===== *)
theory Server_Labels
  imports Prelude
begin

text \<open>
  The Chinese labels that \<open>internal/app/server.go\<close> and \<open>internal/app/auth.go\<close> write into audit
  events and status replies, as the bytes of their UTF-8 encodings.
\<close>

definition zhUnknownClient :: string where
  "zhUnknownClient = map char_of
    [0xE6, 0x9C, 0xAA, 0xE7, 0x9F, 0xA5, 0xE5, 0xAE, 0xA2, 0xE6, 0x88, 0xB7, 0xE7, 0xAB, 0xAF :: nat]"

definition zhEllipsis :: string where
  "zhEllipsis = map char_of
    [0xE2, 0x80, 0xA6 :: nat]"

definition zhNodes :: string where
  "zhNodes = map char_of
    [0x20, 0xE4, 0xB8, 0xAA, 0xE8, 0x8A, 0x82, 0xE7, 0x82, 0xB9 :: nat]"

definition zhNode :: string where
  "zhNode = map char_of
    [0xE8, 0x8A, 0x82, 0xE7, 0x82, 0xB9, 0x20 :: nat]"

definition zhLocalFile :: string where
  "zhLocalFile = map char_of
    [0xE6, 0x9C, 0xAC, 0xE5, 0x9C, 0xB0, 0xE6, 0x96, 0x87, 0xE4, 0xBB, 0xB6 :: nat]"

definition zhLocalAccount :: string where
  "zhLocalAccount = map char_of
    [0xE6, 0x9C, 0xAC, 0xE5, 0x9C, 0xB0, 0xE8, 0xB4, 0xA6, 0xE6, 0x88, 0xB7 :: nat]"

definition zhLoginOk :: string where
  "zhLoginOk = map char_of
    [0xE7, 0x99, 0xBB, 0xE5, 0xBD, 0x95, 0xE6, 0x88, 0x90, 0xE5, 0x8A, 0x9F :: nat]"

definition zhLogout :: string where
  "zhLogout = map char_of
    [0xE9, 0x80, 0x80, 0xE5, 0x87, 0xBA, 0xE7, 0x99, 0xBB, 0xE5, 0xBD, 0x95 :: nat]"

definition zhChangedPassword :: string where
  "zhChangedPassword = map char_of
    [0xE4, 0xBF, 0xAE, 0xE6, 0x94, 0xB9, 0xE6, 0x9C, 0xAC, 0xE5, 0x9C, 0xB0, 0xE8, 0xB4, 0xA6, 0xE6,
     0x88, 0xB7, 0xE5, 0xAF, 0x86, 0xE7, 0xA0, 0x81 :: nat]"

definition zhAuthTarget :: string where
  "zhAuthTarget = map char_of
    [0xE7, 0x99, 0xBB, 0xE5, 0xBD, 0x95, 0xE4, 0xB8, 0x8E, 0xE8, 0xAE, 0xA4, 0xE8, 0xAF, 0x81 :: nat]"

definition zhAuthModeSet :: string where
  "zhAuthModeSet = map char_of
    [0xE8, 0xAE, 0xA4, 0xE8, 0xAF, 0x81, 0xE6, 0x96, 0xB9, 0xE5, 0xBC, 0x8F, 0xE8, 0xAE, 0xBE, 0xE7,
     0xBD, 0xAE, 0xE4, 0xB8, 0xBA, 0x20 :: nat]"

definition zhOnlyLDAP :: string where
  "zhOnlyLDAP = map char_of
    [0xE4, 0xBB, 0x85, 0x20, 0x4C, 0x44, 0x41, 0x50 :: nat]"

definition zhLocalAndLDAP :: string where
  "zhLocalAndLDAP = map char_of
    [0xE6, 0x9C, 0xAC, 0xE5, 0x9C, 0xB0, 0xE8, 0xB4, 0xA6, 0xE6, 0x88, 0xB7, 0x20, 0x2B, 0x20, 0x4C,
     0x44, 0x41, 0x50 :: nat]"

definition zhOnlyLocal :: string where
  "zhOnlyLocal = map char_of
    [0xE4, 0xBB, 0x85, 0xE6, 0x9C, 0xAC, 0xE5, 0x9C, 0xB0, 0xE8, 0xB4, 0xA6, 0xE6, 0x88, 0xB7 :: nat]"

definition zhAdmin :: string where
  "zhAdmin = map char_of
    [0xE7, 0xAE, 0xA1, 0xE7, 0x90, 0x86, 0xE5, 0x91, 0x98 :: nat]"

definition zhOperator :: string where
  "zhOperator = map char_of
    [0xE6, 0x93, 0x8D, 0xE4, 0xBD, 0x9C, 0xE5, 0x91, 0x98 :: nat]"

definition zhAllClusters :: string where
  "zhAllClusters = map char_of
    [0xE5, 0x85, 0xA8, 0xE9, 0x83, 0xA8, 0xE9, 0x9B, 0x86, 0xE7, 0xBE, 0xA4 :: nat]"

definition zhUnassigned :: string where
  "zhUnassigned = map char_of
    [0xE6, 0x9C, 0xAA, 0xE5, 0x88, 0x86, 0xE9, 0x85, 0x8D :: nat]"

definition zhClusters :: string where
  "zhClusters = map char_of
    [0x20, 0xE4, 0xB8, 0xAA, 0xE9, 0x9B, 0x86, 0xE7, 0xBE, 0xA4 :: nat]"

definition zhEnabled :: string where
  "zhEnabled = map char_of
    [0xE5, 0x90, 0xAF, 0xE7, 0x94, 0xA8 :: nat]"

definition zhDisabled :: string where
  "zhDisabled = map char_of
    [0xE5, 0x81, 0x9C, 0xE7, 0x94, 0xA8 :: nat]"

definition zhCreateLocal :: string where
  "zhCreateLocal = map char_of
    [0xE5, 0x88, 0x9B, 0xE5, 0xBB, 0xBA, 0xE6, 0x9C, 0xAC, 0xE5, 0x9C, 0xB0 :: nat]"

definition zhAccountGrants :: string where
  "zhAccountGrants = map char_of
    [0xE8, 0xB4, 0xA6, 0xE6, 0x88, 0xB7, 0xEF, 0xBC, 0x8C, 0xE9, 0x9B, 0x86, 0xE7, 0xBE, 0xA4, 0xE6,
     0x9D, 0x83, 0xE9, 0x99, 0x90, 0xEF, 0xBC, 0x9A :: nat]"

definition zhUpdatedTo :: string where
  "zhUpdatedTo = map char_of
    [0xE6, 0x9B, 0xB4, 0xE6, 0x96, 0xB0, 0xE4, 0xB8, 0xBA :: nat]"

definition zhState :: string where
  "zhState = map char_of
    [0xEF, 0xBC, 0x8C, 0xE7, 0x8A, 0xB6, 0xE6, 0x80, 0x81, 0xEF, 0xBC, 0x9A :: nat]"

definition zhGrants :: string where
  "zhGrants = map char_of
    [0xEF, 0xBC, 0x8C, 0xE9, 0x9B, 0x86, 0xE7, 0xBE, 0xA4, 0xE6, 0x9D, 0x83, 0xE9, 0x99, 0x90, 0xEF,
     0xBC, 0x9A :: nat]"

definition zhDeletedAccount :: string where
  "zhDeletedAccount = map char_of
    [0xE5, 0x88, 0xA0, 0xE9, 0x99, 0xA4, 0xE6, 0x9C, 0xAC, 0xE5, 0x9C, 0xB0, 0xE8, 0xB4, 0xA6, 0xE6,
     0x88, 0xB7 :: nat]"

definition zhHistoryStorage :: string where
  "zhHistoryStorage = map char_of
    [0xE5, 0x8E, 0x86, 0xE5, 0x8F, 0xB2, 0xE5, 0xAD, 0x98, 0xE5, 0x82, 0xA8 :: nat]"

definition zhInitialisedAs :: string where
  "zhInitialisedAs = map char_of
    [0xE5, 0x88, 0x9D, 0xE5, 0xA7, 0x8B, 0xE5, 0x8C, 0x96, 0xE4, 0xB8, 0xBA, 0x20 :: nat]"

definition zhRetentionTarget :: string where
  "zhRetentionTarget = map char_of
    [0x56, 0x61, 0x6C, 0x75, 0x65, 0x20, 0xE5, 0x8E, 0x86, 0xE5, 0x8F, 0xB2, 0xE4, 0xBF, 0x9D, 0xE7,
     0x95, 0x99, 0xE7, 0xAD, 0x96, 0xE7, 0x95, 0xA5 :: nat]"

definition zhRetentionDetail :: string where
  "zhRetentionDetail = map char_of
    [0xE6, 0xAF, 0x8F, 0xE4, 0xB8, 0xAA, 0x20, 0x4B, 0x65, 0x79, 0x20, 0xE4, 0xBF, 0x9D, 0xE7, 0x95,
     0x99, 0xE7, 0x89, 0x88, 0xE6, 0x9C, 0xAC, 0xE6, 0x95, 0xB0, 0xEF, 0xBC, 0x9A :: nat]"

definition zhArrow :: string where
  "zhArrow = map char_of
    [0x20, 0xE2, 0x86, 0x92, 0x20 :: nat]"

definition zhSavedAs :: string where
  "zhSavedAs = map char_of
    [0xE4, 0xBF, 0x9D, 0xE5, 0xAD, 0x98, 0xE4, 0xB8, 0xBA, 0x20, 0x65, 0x74, 0x63, 0x64, 0x20, 0xE4,
     0xBF, 0xAE, 0xE8, 0xAE, 0xA2, 0xE7, 0x89, 0x88, 0xE6, 0x9C, 0xAC, 0x20, 0x23 :: nat]"

definition zhCreatedAs :: string where
  "zhCreatedAs = map char_of
    [0xE5, 0x88, 0x9B, 0xE5, 0xBB, 0xBA, 0xE4, 0xB8, 0xBA, 0x20, 0x65, 0x74, 0x63, 0x64, 0x20, 0xE4,
     0xBF, 0xAE, 0xE8, 0xAE, 0xA2, 0xE7, 0x89, 0x88, 0xE6, 0x9C, 0xAC, 0x20, 0x23 :: nat]"

definition zhDeletedAs :: string where
  "zhDeletedAs = map char_of
    [0xE5, 0x88, 0xA0, 0xE9, 0x99, 0xA4, 0xE4, 0xB8, 0xBA, 0x20, 0x65, 0x74, 0x63, 0x64, 0x20, 0xE4,
     0xBF, 0xAE, 0xE8, 0xAE, 0xA2, 0xE7, 0x89, 0x88, 0xE6, 0x9C, 0xAC, 0x20, 0x23 :: nat]"

definition zhRolledBackFrom :: string where
  "zhRolledBackFrom = map char_of
    [0xE4, 0xBB, 0x8E, 0xE4, 0xBF, 0xAE, 0xE6, 0x94, 0xB9, 0xE7, 0x89, 0x88, 0xE6, 0x9C, 0xAC, 0x20, 0x23 :: nat]"

definition zhRolledBackTo :: string where
  "zhRolledBackTo = map char_of
    [0x20, 0xE5, 0x9B, 0x9E, 0xE6, 0xBB, 0x9A, 0xEF, 0xBC, 0x8C, 0xE7, 0x94, 0x9F, 0xE6, 0x88, 0x90,
     0x20, 0x65, 0x74, 0x63, 0x64, 0x20, 0xE4, 0xBF, 0xAE, 0xE8, 0xAE, 0xA2, 0xE7, 0x89, 0x88, 0xE6,
     0x9C, 0xAC, 0x20, 0x23 :: nat]"

definition zhConfigured :: string where
  "zhConfigured = map char_of
    [0xE9, 0x85, 0x8D, 0xE7, 0xBD, 0xAE, 0x20 :: nat]"

definition zhUpdatedEndpoints :: string where
  "zhUpdatedEndpoints = map char_of
    [0xE6, 0x9B, 0xB4, 0xE6, 0x96, 0xB0, 0xE4, 0xB8, 0xBA, 0x20 :: nat]"

definition zhEndpoints :: string where
  "zhEndpoints = map char_of
    [0x20, 0xE4, 0xB8, 0xAA, 0x20, 0x45, 0x6E, 0x64, 0x70, 0x6F, 0x69, 0x6E, 0x74 :: nat]"

definition zhDeletedCluster :: string where
  "zhDeletedCluster = map char_of
    [0xE5, 0x88, 0xA0, 0xE9, 0x99, 0xA4, 0x20, 0x45, 0x74, 0x63, 0x64, 0x20, 0x53, 0x74, 0x75, 0x64,
     0x69, 0x6F, 0x20, 0xE9, 0x9B, 0x86, 0xE7, 0xBE, 0xA4, 0xE8, 0xBF, 0x9E, 0xE6, 0x8E, 0xA5, 0xE9,
     0x85, 0x8D, 0xE7, 0xBD, 0xAE :: nat]"

end
