(* ===== verification/Server_Types.thy ===== *)
theory Server_Types
  imports Server_Labels Store_Types Base64 Audit_Spec Auth_Types
begin

text \<open>
  What the handlers of \<open>internal/app/server.go\<close> and \<open>internal/app/auth.go\<close> share: requests
  and replies, the decoding of bodies, keys, values, limits, time ranges and cursors, the views of
  entries and clusters that are sent to the browser, and the labels of the audit log.
  Replies carry the status, and either the code of an error or the data sent; the
  texts of error messages are left out.
\<close>

section \<open>Constants\<close>

definition defaultPageSize :: int where "defaultPageSize = 50"
definition maxPageSize :: int where "maxPageSize = 100"
definition rollbackPageSize :: int where "rollbackPageSize = 25"
definition maxRollbackPage :: int where "maxRollbackPage = 100"
definition auditPageSize :: int where "auditPageSize = 50"
definition maxAuditPageSize :: int where "maxAuditPageSize = 100"
definition maxRequestBytes :: nat where "maxRequestBytes = 2097152"

section \<open>Requests\<close>

record request =
  rq_Method :: string
  rq_Segments :: "string list"        \<comment> \<open>the path, split at the slashes and then unescaped\<close>
  rq_Query :: "string \<Rightarrow> string"     \<comment> \<open>\<open>r.URL.Query().Get\<close>\<close>
  rq_PathValue :: "string \<Rightarrow> string"
  rq_Body :: bytes
  rq_Cookie :: "string option"        \<comment> \<open>the value of the session cookie\<close>
  rq_Header :: "string \<Rightarrow> string"
  rq_RemoteAddr :: string
  rq_TLS :: bool

definition rq_Path :: "request \<Rightarrow> string" where
  "rq_Path r = concat (map (\<lambda>seg. CHR ''/'' # seg) (rq_Segments r))"

text \<open>
  One step of a \<open>json.Decoder\<close> over the bytes it can read: a value and what follows it, an input
  that is no JSON or does not fit the type, or an input that ends within a value.
\<close>

datatype 'a json_read = JsonValue 'a bytes | Malformed | Truncated

datatype body_error = BodyTooLarge | BodyInvalid | BodyNotSingle

definition jsonBlank :: "bytes \<Rightarrow> bool" where
  "jsonBlank s \<longleftrightarrow> list_all (\<lambda>c. c = CHR 0x20 \<or> c = CHR 0x09 \<or> c = CHR 0x0A \<or> c = CHR 0x0D) s"

definition decodeJSON :: "(bytes \<Rightarrow> 'a json_read) \<Rightarrow> request \<Rightarrow> (body_error, 'a) result" where
  "decodeJSON dec r =
    (let body = rq_Body r; large = maxRequestBytes < length body in
     case dec (take maxRequestBytes body) of
       Malformed \<Rightarrow> Inl BodyInvalid
     | Truncated \<Rightarrow> Inl (if large then BodyTooLarge else BodyInvalid)
     | JsonValue v rest \<Rightarrow> if \<not> large \<and> jsonBlank rest then Inr v else Inl BodyNotSingle)"

record putRequest =
  pr_ClusterID :: string
  pr_Key :: string
  pr_KeyBase64 :: string
  pr_Value :: string
  pr_ValueBase64 :: string
  pr_ValueEncoding :: string
  pr_ExpectedModRevision :: "int option"

record rollbackRequest =
  rr_ClusterID :: string
  rr_Key :: string
  rr_KeyBase64 :: string
  rr_ExpectedModRevision :: "int option"
  rr_TargetModRevision :: "int option"

record clusterRequest =
  cr_ID :: string
  cr_Name :: string
  cr_Endpoints :: "string list"
  cr_Username :: string
  cr_Password :: "string option"
  cr_ClearPassword :: bool
  cr_TLSCAFile :: string
  cr_TLSCertFile :: string
  cr_TLSKeyFile :: string

record loginRequest =
  lr_Provider :: string
  lr_Username :: string
  lr_Password :: string

record changePasswordRequest =
  cp_CurrentPassword :: string
  cp_NewPassword :: string

definition toInput :: "clusterRequest \<Rightarrow> ClusterInput" where
  "toInput r =
    \<lparr>ci_Name = cr_Name r, ci_Endpoints = cr_Endpoints r, ci_Username = cr_Username r,
     ci_Password = (if cr_ClearPassword r then Some [] else cr_Password r),
     ci_TLSCAFile = cr_TLSCAFile r, ci_TLSCertFile = cr_TLSCertFile r, ci_TLSKeyFile = cr_TLSKeyFile r\<rparr>"

section \<open>Parameters of requests\<close>

text \<open>\<open>None\<close> is the error.\<close>

definition parseBounded :: "int \<Rightarrow> int \<Rightarrow> string \<Rightarrow> int option" where
  "parseBounded standard most raw =
    (if raw = [] then Some standard
     else case ParseInt raw of
         None \<Rightarrow> None
       | Some limit \<Rightarrow> if limit < 1 \<or> most < limit then None else Some limit)"

definition parseLimit :: "string \<Rightarrow> int option" where
  "parseLimit = parseBounded defaultPageSize maxPageSize"

definition parseRollbackLimit :: "string \<Rightarrow> int option" where
  "parseRollbackLimit = parseBounded rollbackPageSize maxRollbackPage"

definition parseAuditLimit :: "string \<Rightarrow> int option" where
  "parseAuditLimit = parseBounded auditPageSize maxAuditPageSize"

definition optionalInt64 :: "string \<Rightarrow> (unit, int option) result" where
  "optionalInt64 raw =
    (if raw = [] then Inr None
     else case ParseInt raw of
         None \<Rightarrow> Inl ()
       | Some value \<Rightarrow> if value < 0 then Inl () else Inr (Some value))"

text \<open>\<open>rfc3339\<close> is \<open>time.Parse(time.RFC3339, \<cdot>)\<close>.\<close>

definition parseAuditTimeRange :: "(string \<Rightarrow> gotime option) \<Rightarrow> string \<Rightarrow> string \<Rightarrow> (gotime \<times> gotime) option" where
  "parseAuditTimeRange rfc3339 rawFrom rawTo =
    (let rawFrom = TrimSpace rawFrom; rawTo = TrimSpace rawTo in
     case (if rawFrom \<noteq> [] then rfc3339 rawFrom else Some 0) of
       None \<Rightarrow> None
     | Some from \<Rightarrow>
         (case (if rawTo \<noteq> [] then rfc3339 rawTo else Some 0) of
            None \<Rightarrow> None
          | Some to \<Rightarrow> if from \<noteq> 0 \<and> to \<noteq> 0 \<and> \<not> from < to then None else Some (from, to)))"

text \<open>The error of \<open>json.Marshal\<close> is ignored: the cursor is then empty.\<close>

definition encodeAuditCursor :: "auditCursor json_codec \<Rightarrow> auditCursor \<Rightarrow> string" where
  "encodeAuditCursor C cursor = RawURLEncode (case marshal C cursor of None \<Rightarrow> [] | Some data \<Rightarrow> data)"

definition decodeAuditCursor :: "auditCursor json_codec \<Rightarrow> string \<Rightarrow> auditCursor option" where
  "decodeAuditCursor C raw =
    (case RawURLDecode raw of
       None \<Rightarrow> None
     | Some data \<Rightarrow>
         (case unmarshal C data of
            None \<Rightarrow> None
          | Some cursor \<Rightarrow> if ac_OccurredAt cursor = 0 \<or> length (ac_ID cursor) \<noteq> 32 then None else Some cursor))"

definition decodeKey :: "string \<Rightarrow> string \<Rightarrow> bytes option" where
  "decodeKey key encoded =
    (if encoded \<noteq> [] then
       (case StdDecode encoded of
          None \<Rightarrow> None
        | Some decoded \<Rightarrow> if length decoded = 0 then None else Some decoded)
     else if key = [] then None
     else Some key)"

definition keyFromQuery :: "request \<Rightarrow> bytes option" where
  "keyFromQuery r = decodeKey (rq_Query r ''key'') (rq_Query r ''key_base64'')"

definition decodeValue :: "putRequest \<Rightarrow> bytes option" where
  "decodeValue request =
    (if pr_ValueEncoding request = [] \<or> pr_ValueEncoding request = ''utf8'' then Some (pr_Value request)
     else if pr_ValueEncoding request = ''base64'' then StdDecode (TrimSpace (pr_ValueBase64 request))
     else None)"

section \<open>Views\<close>

text \<open>\<open>strings.Join(strings.Fields(s), " ")\<close> on runes, cut after \<open>limit\<close> runes.\<close>

fun joinRunes :: "rune list list \<Rightarrow> rune list" where
  "joinRunes [] = []"
| "joinRunes [f] = f"
| "joinRunes (f # fs) = f @ [0x20] @ joinRunes fs"

definition cutRunes :: "nat \<Rightarrow> rune list \<Rightarrow> string" where
  "cutRunes limit rs =
    (if limit < length rs then string_of_runes (take limit rs) @ zhEllipsis else string_of_runes rs)"

definition compactPreview :: "string \<Rightarrow> nat \<Rightarrow> string" where
  "compactPreview value limit = cutRunes limit (joinRunes (fieldsRunes (runes value) []))"

record entrySummary =
  es_Key :: string
  es_KeyBase64 :: string
  es_KeyIsUTF8 :: bool
  es_ValuePreview :: string
  es_ValueIsUTF8 :: bool
  es_ValueBytes :: nat
  es_CreateRevision :: int
  es_ModRevision :: int
  es_Version :: int
  es_Lease :: int

record entryDetail = entrySummary +
  ed_Value :: string
  ed_ValueBase64 :: string

definition makeEntrySummary :: "Entry \<Rightarrow> entrySummary" where
  "makeEntrySummary entry =
    \<lparr>es_Key = (if utf8Valid (e_Key entry) then e_Key entry else []),
     es_KeyBase64 = StdEncode (e_Key entry),
     es_KeyIsUTF8 = utf8Valid (e_Key entry),
     es_ValuePreview = (if utf8Valid (e_Value entry) then compactPreview (e_Value entry) 100 else []),
     es_ValueIsUTF8 = utf8Valid (e_Value entry),
     es_ValueBytes = length (e_Value entry),
     es_CreateRevision = e_CreateRevision entry, es_ModRevision = e_ModRevision entry,
     es_Version = e_Version entry, es_Lease = e_Lease entry\<rparr>"

definition makeEntryDetail :: "Entry \<Rightarrow> entryDetail" where
  "makeEntryDetail entry =
    entrySummary.extend (makeEntrySummary entry)
      (entryDetail.fields (if utf8Valid (e_Value entry) then e_Value entry else []) (StdEncode (e_Value entry)))"

record clusterResponse =
  cs_ID :: string
  cs_Name :: string
  cs_Endpoints :: "string list"
  cs_Username :: string
  cs_PasswordConfigured :: bool
  cs_TLSCAFile :: string
  cs_TLSCertFile :: string
  cs_TLSKeyFile :: string
  cs_CreatedAt :: gotime
  cs_UpdatedAt :: gotime

record clusterSummaryResponse =
  sm_ID :: string
  sm_Name :: string

definition makeClusterResponse :: "Cluster \<Rightarrow> clusterResponse" where
  "makeClusterResponse cluster =
    \<lparr>cs_ID = c_ID cluster, cs_Name = c_Name cluster, cs_Endpoints = c_Endpoints cluster, cs_Username = c_Username cluster,
     cs_PasswordConfigured = (c_Password cluster \<noteq> []), cs_TLSCAFile = c_TLSCAFile cluster,
     cs_TLSCertFile = c_TLSCertFile cluster, cs_TLSKeyFile = c_TLSKeyFile cluster, cs_CreatedAt = c_CreatedAt cluster,
     cs_UpdatedAt = c_UpdatedAt cluster\<rparr>"

definition endpointLabel :: "Cluster \<Rightarrow> string" where
  "endpointLabel cluster =
    (case c_Endpoints cluster of [e] \<Rightarrow> e | es \<Rightarrow> FormatInt (int (length es)) @ zhNodes)"

record rollbackVersionResponse =
  rv_Entry :: entrySummary
  rv_HistorySource :: string
  rv_CapturedAt :: gotime

record memberConnectionSummary =
  mc_Reachable :: int
  mc_Healthy :: int
  mc_LeaderIndex :: int

record statusReply =
  sp_Connected :: bool
  sp_Degraded :: bool
  sp_Endpoint :: string
  sp_Leader :: string
  sp_MemberCount :: nat
  sp_HealthyCount :: int

section \<open>Replies\<close>

datatype reply =
    ErrorReply string
  | FilesReply                          \<comment> \<open>of the file server of the web assets\<close>
  | MethodNotAllowed                    \<comment> \<open>of the mux: the path has handlers for other methods only\<close>
  | PanicReply                          \<comment> \<open>the handler panics; \<open>net/http\<close> drops the connection\<close>
  | FlagReply string bool
  | ConnectedReply bool
  | RevisionReply int
  | DeletedReply int
  | RollbackReply int int string
  | EntryReply entryDetail
  | KeysReply "entrySummary list" string
  | PreviewReply int string gotime entryDetail
  | VersionsReply int "rollbackVersionResponse list" int
  | ClusterSummariesReply "clusterSummaryResponse list"
  | ClustersReply "clusterResponse list"
  | ClusterReply clusterResponse
  | MemberReply statusReply
  | StorageReply HistoryStorageStatus
  | AuditReply "AuditEvent list" string
  | AuthStatusReply Status
  | PrincipalReply Principal
  | SettingsReply SettingsStatus
  | UsersReply "User list"
  | UserReply User

record response =
  rs_Status :: nat
  rs_Reply :: reply
  rs_SetCookie :: "(string \<times> int \<times> bool) option"   \<comment> \<open>value, maximal age in seconds, secure\<close>

definition writeJSON :: "nat \<Rightarrow> reply \<Rightarrow> response" where
  "writeJSON status value = \<lparr>rs_Status = status, rs_Reply = value, rs_SetCookie = None\<rparr>"

definition writeError :: "nat \<Rightarrow> string \<Rightarrow> response" where
  "writeError status code = writeJSON status (ErrorReply code)"

definition writeStoreError :: "error \<Rightarrow> response" where
  "writeStoreError err =
    (if errorsIs err ErrHistoryNotSetup then writeError 503 ''history_storage_not_configured''
     else if errorsIs err ErrLocalHistory then writeError 500 ''local_history_error''
     else if errorsIs err ErrConflict then writeError 409 ''revision_conflict''
     else if errorsIs err ErrHistoryCompacted then writeError 409 ''history_compacted''
     else if errorsIs err ErrNoPreviousVersion then writeError 404 ''rollback_unavailable''
     else if errorsIsDeadline err then writeError 504 ''etcd_timeout''
     else writeError 502 ''etcd_error'')"

definition writeClusterResolveError :: "error \<Rightarrow> response" where
  "writeClusterResolveError err =
    (if errorsIs err ErrClusterNotFound then writeError 404 ''cluster_not_found''
     else writeError 502 ''cluster_unavailable'')"

definition writeClusterMutationError :: "error \<Rightarrow> response" where
  "writeClusterMutationError err =
    (if errorsIs err ErrInvalidCluster then writeError 400 ''invalid_cluster''
     else if errorsIs err ErrClusterNotFound then writeError 404 ''cluster_not_found''
     else if errorsIs err ErrClusterNameExists then writeError 409 ''cluster_name_exists''
     else writeError 500 ''cluster_config_error'')"

section \<open>Audit labels\<close>

definition sanitizedAuditLabel :: "string \<Rightarrow> nat \<Rightarrow> string" where
  "sanitizedAuditLabel value limit =
    cutRunes limit (joinRunes (fieldsRunes (map (\<lambda>r. if isControl r then 0x20 else r) (runes (TrimSpace value))) []))"

text \<open>\<open>net.SplitHostPort\<close>: the host, or \<open>None\<close> for an error.\<close>

fun lastIndex :: "char \<Rightarrow> string \<Rightarrow> nat option" where
  "lastIndex c [] = None"
| "lastIndex c (x # xs) =
     (case lastIndex c xs of Some i \<Rightarrow> Some (Suc i) | None \<Rightarrow> if x = c then Some 0 else None)"

definition SplitHost :: "string \<Rightarrow> string option" where
  "SplitHost hostport =
    (case lastIndex CHR '':'' hostport of
       None \<Rightarrow> None
     | Some i \<Rightarrow>
         if hd hostport = CHR ''['' then
           (if CHR '']'' \<notin> set hostport then None
            else
              let n = length (takeWhile (\<lambda>c. c \<noteq> CHR '']'') hostport) in
              if n + 1 \<noteq> i \<or> CHR ''['' \<in> set (drop 1 hostport) \<or> CHR '']'' \<in> set (drop (n + 1) hostport) then None
              else Some (drop 1 (take n hostport)))
         else
           let host = take i hostport in
           if CHR '':'' \<in> set host \<or> CHR ''['' \<in> set hostport \<or> CHR '']'' \<in> set hostport then None
           else Some host)"

definition auditActor :: "request \<Rightarrow> string \<times> string \<times> string" where
  "auditActor r =
    (let address = TrimSpace (rq_RemoteAddr r);
         clientIP = sanitizedAuditLabel (case SplitHost address of Some host \<Rightarrow> host | None \<Rightarrow> address) 80;
         user = sanitizedAuditLabel (rq_Header r ''X-Authenticated-User'') 200;
         forwarded = sanitizedAuditLabel (rq_Header r ''X-Forwarded-User'') 200 in
     if user \<noteq> [] then (user, ''authenticated_user'', clientIP)
     else if forwarded \<noteq> [] then (forwarded, ''authenticated_user'', clientIP)
     else if clientIP = [] then (zhUnknownClient, ''unknown'', [])
     else (clientIP, ''client_ip'', clientIP))"

definition auditKeyLabel :: "bytes \<Rightarrow> string" where
  "auditKeyLabel key =
    (if \<not> utf8Valid key then ''base64:'' @ StdEncode key
     else
       let label = sanitizedAuditLabel key 512 in
       if label \<noteq> [] then label else ''base64:'' @ StdEncode key)"

definition historyStorageTypeLabel :: "string \<Rightarrow> string" where
  "historyStorageTypeLabel storageType =
    (if storageType = HistoryStoragePostgres then ''PostgreSQL''
     else if storageType = HistoryStorageMySQL then ''MySQL''
     else zhLocalFile)"

definition providerLabel :: "string \<Rightarrow> string" where
  "providerLabel provider = (if provider = ProviderLDAP then ''LDAP'' else zhLocalAccount)"

definition authModeLabel :: "string \<Rightarrow> string" where
  "authModeLabel mode = (if mode = ModeLDAP then zhOnlyLDAP else if mode = ModeBoth then zhLocalAndLDAP else zhOnlyLocal)"

definition roleLabel :: "string \<Rightarrow> string" where
  "roleLabel role = (if role = RoleAdmin then zhAdmin else zhOperator)"

definition userClusterAccessLabel :: "User \<Rightarrow> string" where
  "userClusterAccessLabel user =
    (if u_Role user = RoleAdmin then zhAllClusters
     else if u_ClusterIDs user = [] then zhUnassigned
     else FormatInt (int (length (u_ClusterIDs user))) @ zhClusters)"

definition activeLabel :: "bool \<Rightarrow> string" where
  "activeLabel active = (if active then zhEnabled else zhDisabled)"

definition event :: "string \<Rightarrow> string \<Rightarrow> string \<Rightarrow> string \<Rightarrow> string \<Rightarrow> string \<Rightarrow> AuditEvent" where
  "event action resourceType clusterID clusterName target detail =
    \<lparr>ev_ID = [], ev_OccurredAt = 0, ev_Actor = [], ev_ActorType = [], ev_ClientIP = [], ev_Action = action,
     ev_ResourceType = resourceType, ev_ClusterID = clusterID, ev_ClusterName = clusterName, ev_Target = target,
     ev_Detail = detail, ev_Result = []\<rparr>"

end
