(* ===== verification/Server.thy ===== *)
theory Server
  imports Server_Types Etcd_KV Registry Auth_Manager History_Manager
begin

text \<open>
  The server of \<open>internal/app/server.go\<close>: the two interfaces it is built on
  (\<open>store.HistoryStorage\<close> and \<open>store.ClusterRegistry\<close>) as records of operations over an
  abstract state, its own state, the checks of who may do what (\<open>internal/app/auth.go\<close>), and the
  recording of audit events, with the buffer that holds them until a history storage has
  been configured. The implementations in \<open>internal/store\<close> provide the interfaces at the
  end.
\<close>

section \<open>The interfaces\<close>

record 'h HistoryStorage =
  hst_Save :: "ValueSnapshot \<Rightarrow> 'h \<Rightarrow> (error, unit) result \<times> 'h"
  hst_ListBefore :: "string \<Rightarrow> bytes \<Rightarrow> int \<Rightarrow> int \<Rightarrow> 'h \<Rightarrow> (error, ValueSnapshot list) result \<times> 'h"
  hst_SaveAudit :: "AuditEvent \<Rightarrow> 'h \<Rightarrow> (error, unit) result \<times> 'h"
  hst_ListAudit :: "AuditQuery \<Rightarrow> 'h \<Rightarrow> (error, AuditPage) result \<times> 'h"
  hst_Status :: "'h \<Rightarrow> HistoryStorageStatus"
  hst_Test :: "HistoryStorageInput \<Rightarrow> 'h \<Rightarrow> (error, unit) result \<times> 'h"
  hst_Configure :: "HistoryStorageInput \<Rightarrow> 'h \<Rightarrow> (error, unit) result \<times> 'h"
  hst_UpdateRetention :: "int \<Rightarrow> 'h \<Rightarrow> (error, unit) result \<times> 'h"

record ('r, 'w) ClusterRegistry =
  cg_ListClusters :: "'r \<Rightarrow> Cluster list"
  cg_CreateCluster :: "ClusterInput \<Rightarrow> 'r \<Rightarrow> (error, Cluster) result \<times> 'r"
  cg_UpdateCluster :: "string \<Rightarrow> ClusterInput \<Rightarrow> 'r \<Rightarrow> (error, Cluster) result \<times> 'r"
  cg_DeleteCluster :: "string \<Rightarrow> 'r \<Rightarrow> (error, unit) result \<times> 'r"
  cg_TestCluster :: "string \<Rightarrow> ClusterInput \<Rightarrow> 'r \<Rightarrow> error option \<times> 'r"
  cg_ClusterKV :: "string \<Rightarrow> 'r \<Rightarrow> (error, 'w KV \<times> Cluster) result \<times> 'r"

section \<open>The state\<close>

text \<open>
  The server with what its fields refer to: the registry, the history, the authentication
  manager with the directory of its file, the pending audit events, and the etcd clusters.
\<close>

record ('r, 'h, 'w) Server =
  sv_clusters :: 'r
  sv_history :: 'h
  sv_auth :: "auth_state option"
  sv_pendingAudit :: "AuditEvent list"
  sv_etcd :: 'w

text \<open>
  What does not change while the server runs: the two implementations, the libraries below the
  authentication manager, the JSON decoders of the request bodies and of the audit
  cursor, \<open>time.Parse\<close>, and the status with which the file server answers.
\<close>

record ('r, 'h, 'w) deps =
  dp_clusters :: "('r, 'w) ClusterRegistry"
  dp_history :: "'h HistoryStorage"
  dp_auth :: auth_lib
  dp_ldap :: ldap_lib
  dp_rfc3339 :: "string \<Rightarrow> gotime option"
  dp_cursor :: "auditCursor json_codec"
  dp_put :: "bytes \<Rightarrow> putRequest json_read"
  dp_rollback :: "bytes \<Rightarrow> rollbackRequest json_read"
  dp_cluster :: "bytes \<Rightarrow> clusterRequest json_read"
  dp_storage :: "bytes \<Rightarrow> HistoryStorageInput json_read"
  dp_retention :: "bytes \<Rightarrow> int json_read"
  dp_login :: "bytes \<Rightarrow> loginRequest json_read"
  dp_password :: "bytes \<Rightarrow> changePasswordRequest json_read"
  dp_settings :: "bytes \<Rightarrow> SettingsInput json_read"
  dp_ldapInput :: "bytes \<Rightarrow> LDAPSettingsInput json_read"
  dp_user :: "bytes \<Rightarrow> LocalUserInput json_read"
  dp_files :: "request \<Rightarrow> nat"

text \<open>
  What a request finds outside: the successive readings of the clock, and the clock, randomness
  and file faults of its call on the authentication manager.
\<close>

record env =
  rc_clock :: "nat \<Rightarrow> gotime"
  rc_call :: call_env
  rc_random :: "bytes option"

definition NewServer :: "'r \<Rightarrow> 'h \<Rightarrow> auth_state list \<Rightarrow> 'w \<Rightarrow> ('r, 'h, 'w) Server" where
  "NewServer clusters history authentication etcd =
    \<lparr>sv_clusters = clusters, sv_history = history,
     sv_auth = (case authentication of [] \<Rightarrow> None | a # _ \<Rightarrow> Some a), sv_pendingAudit = [], sv_etcd = etcd\<rparr>"

text \<open>Calls on one part of the state.\<close>

definition call_history :: "('h \<Rightarrow> 'a \<times> 'h) \<Rightarrow> ('r, 'h, 'w) Server \<Rightarrow> 'a \<times> ('r, 'h, 'w) Server" where
  "call_history f s = (case f (sv_history s) of (x, h) \<Rightarrow> (x, s\<lparr>sv_history := h\<rparr>))"

definition call_etcd :: "('w \<Rightarrow> 'a \<times> 'w) \<Rightarrow> ('r, 'h, 'w) Server \<Rightarrow> 'a \<times> ('r, 'h, 'w) Server" where
  "call_etcd f s = (case f (sv_etcd s) of (x, w) \<Rightarrow> (x, s\<lparr>sv_etcd := w\<rparr>))"

definition call_clusters :: "('r \<Rightarrow> 'a \<times> 'r) \<Rightarrow> ('r, 'h, 'w) Server \<Rightarrow> 'a \<times> ('r, 'h, 'w) Server" where
  "call_clusters f s = (case f (sv_clusters s) of (x, r) \<Rightarrow> (x, s\<lparr>sv_clusters := r\<rparr>))"

section \<open>Who may do what\<close>

text \<open>The principal in the context of the request is an argument, \<open>None\<close> when there is none.\<close>

definition requireAdmin :: "('r, 'h, 'w) Server \<Rightarrow> Principal option \<Rightarrow> (response, Principal) result" where
  "requireAdmin s ctx =
    (if sv_auth s = None
     then Inr \<lparr>p_Username = [], p_DisplayName = [], p_Provider = [], p_Role = RoleAdmin, p_ClusterIDs = [],
            p_MustChangePassword = False\<rparr>
     else case ctx of
         None \<Rightarrow> Inl (writeError 401 ''authentication_required'')
       | Some p \<Rightarrow> if \<not> IsAdmin p then Inl (writeError 403 ''admin_required'') else Inr p)"

definition requestIsAdmin :: "('r, 'h, 'w) Server \<Rightarrow> Principal option \<Rightarrow> bool" where
  "requestIsAdmin s ctx \<longleftrightarrow> sv_auth s = None \<or> (case ctx of None \<Rightarrow> False | Some p \<Rightarrow> IsAdmin p)"

definition requestCanAccessCluster :: "('r, 'h, 'w) Server \<Rightarrow> Principal option \<Rightarrow> string \<Rightarrow> bool" where
  "requestCanAccessCluster s ctx clusterID \<longleftrightarrow>
     sv_auth s = None \<or> (case ctx of None \<Rightarrow> False | Some p \<Rightarrow> CanAccessCluster p clusterID)"

definition requireClusterAccess :: "('r, 'h, 'w) Server \<Rightarrow> Principal option \<Rightarrow> string \<Rightarrow> response option" where
  "requireClusterAccess s ctx clusterID =
    (if requestCanAccessCluster s ctx clusterID then None else Some (writeError 403 ''cluster_access_denied''))"

definition clusterKV :: "('r, 'h, 'w) deps \<Rightarrow> string \<Rightarrow> ('r, 'h, 'w) Server \<Rightarrow> (error, 'w KV \<times> Cluster) result \<times> ('r, 'h, 'w) Server" where
  "clusterKV D cid s =
    (if TrimSpace cid = [] then (Inl (Sentinel ErrClusterNotFound), s)
     else call_clusters (cg_ClusterKV (dp_clusters D) cid) s)"

definition clusterKVFromRequest ::
    "('r, 'h, 'w) deps \<Rightarrow> Principal option \<Rightarrow> request \<Rightarrow> ('r, 'h, 'w) Server \<Rightarrow>
      (response, 'w KV \<times> Cluster) result \<times> ('r, 'h, 'w) Server" where
  "clusterKVFromRequest D ctx r s =
    (let clusterID = TrimSpace (rq_Query r ''cluster_id'') in
     case requireClusterAccess s ctx clusterID of
       Some resp \<Rightarrow> (Inl resp, s)
     | None \<Rightarrow>
         (case clusterKV D clusterID s of
            (Inl err, s') \<Rightarrow> (Inl (writeClusterResolveError err), s')
          | (Inr kc, s') \<Rightarrow> (Inr kc, s')))"

text \<open>The zero value when there is no such cluster.\<close>

definition clusterConfiguration :: "('r, 'h, 'w) deps \<Rightarrow> string \<Rightarrow> ('r, 'h, 'w) Server \<Rightarrow> Cluster" where
  "clusterConfiguration D cid s =
    (case find (\<lambda>c. c_ID c = cid) (cg_ListClusters (dp_clusters D) (sv_clusters s)) of
       Some cluster \<Rightarrow> cluster | None \<Rightarrow> zeroCluster)"

definition validateUserClusterPermissions :: "('r, 'h, 'w) deps \<Rightarrow> LocalUserInput \<Rightarrow> ('r, 'h, 'w) Server \<Rightarrow> bool" where
  "validateUserClusterPermissions D input s \<longleftrightarrow>
     EqualFold (al_ucd (dp_auth D)) (TrimSpace (in_Role input)) RoleAdmin \<or>
     list_all (\<lambda>clusterID. let clusterID = TrimSpace clusterID in
        clusterID = [] \<or> clusterID \<in> set (map c_ID (cg_ListClusters (dp_clusters D) (sv_clusters s)))) (in_ClusterIDs input)"

section \<open>Audit\<close>

definition maxPending :: nat where "maxPending = 100"

definition saveAuditEvent :: "('r, 'h, 'w) deps \<Rightarrow> AuditEvent \<Rightarrow> ('r, 'h, 'w) Server \<Rightarrow> ('r, 'h, 'w) Server" where
  "saveAuditEvent D ev s =
    (case call_history (hst_SaveAudit (dp_history D) ev) s of
       (Inr _, s') \<Rightarrow> s'
     | (Inl err, s') \<Rightarrow>
         if errorsIs err ErrHistoryNotSetup then
           let pending = sv_pendingAudit s';
               pending = (if maxPending \<le> length pending then drop (length pending - 99) pending else pending) in
           s'\<lparr>sv_pendingAudit := pending @ [ev]\<rparr>
         else s')"

definition recordAuditForPrincipal ::
    "('r, 'h, 'w) deps \<Rightarrow> request \<Rightarrow> Principal \<Rightarrow> AuditEvent \<Rightarrow> ('r, 'h, 'w) Server \<Rightarrow> ('r, 'h, 'w) Server" where
  "recordAuditForPrincipal D r p ev s =
    (case auditActor r of (_, _, clientIP) \<Rightarrow>
       saveAuditEvent D (ev\<lparr>ev_Actor := p_Username p, ev_ActorType := p_Provider p, ev_ClientIP := clientIP\<rparr>) s)"

definition recordAudit ::
    "('r, 'h, 'w) deps \<Rightarrow> request \<Rightarrow> Principal option \<Rightarrow> AuditEvent \<Rightarrow> ('r, 'h, 'w) Server \<Rightarrow> ('r, 'h, 'w) Server" where
  "recordAudit D r ctx ev s =
    (case ctx of
       Some p \<Rightarrow> recordAuditForPrincipal D r p ev s
     | None \<Rightarrow>
         (case auditActor r of (actor, actorType, clientIP) \<Rightarrow>
            saveAuditEvent D (ev\<lparr>ev_Actor := actor, ev_ActorType := actorType, ev_ClientIP := clientIP\<rparr>) s))"

fun flushEvents :: "('r, 'h, 'w) deps \<Rightarrow> AuditEvent list \<Rightarrow> ('r, 'h, 'w) Server \<Rightarrow> ('r, 'h, 'w) Server" where
  "flushEvents D [] s = s"
| "flushEvents D (ev # evs) s =
     (case call_history (hst_SaveAudit (dp_history D) ev) s of
        (Inr _, s') \<Rightarrow> flushEvents D evs s'
      | (Inl err, s') \<Rightarrow>
          if errorsIs err ErrHistoryNotSetup then s'\<lparr>sv_pendingAudit := (ev # evs) @ sv_pendingAudit s'\<rparr>
          else flushEvents D evs s')"

definition flushPendingAudit :: "('r, 'h, 'w) deps \<Rightarrow> ('r, 'h, 'w) Server \<Rightarrow> ('r, 'h, 'w) Server" where
  "flushPendingAudit D s = flushEvents D (sv_pendingAudit s) (s\<lparr>sv_pendingAudit := []\<rparr>)"

text \<open>Whose events a listing may show: an operator sees the own ones of a cluster the operator has access to.\<close>

definition auditScope :: "('r, 'h, 'w) Server \<Rightarrow> Principal option \<Rightarrow> string \<Rightarrow> (response, string \<times> string) result" where
  "auditScope s ctx clusterID =
    (if requestIsAdmin s ctx then Inr ([], [])
     else if clusterID = [] then Inl (writeError 403 ''cluster_scope_required'')
     else case requireClusterAccess s ctx clusterID of
         Some resp \<Rightarrow> Inl resp
       | None \<Rightarrow>
           (case ctx of
              None \<Rightarrow> Inl (writeError 401 ''authentication_required'')
            | Some p \<Rightarrow> Inr (p_Username p, p_Provider p)))"

definition nextAuditCursor :: "auditCursor json_codec \<Rightarrow> AuditPage \<Rightarrow> string" where
  "nextAuditCursor C page =
    (if ap_HasMore page \<and> ap_Events page \<noteq> []
     then encodeAuditCursor C (AuditCursor (ev_OccurredAt (last (ap_Events page))) (ev_ID (last (ap_Events page))))
     else [])"

definition handleListAudit ::
    "('r, 'h, 'w) deps \<Rightarrow> Principal option \<Rightarrow> request \<Rightarrow> ('r, 'h, 'w) Server \<Rightarrow> response \<times> ('r, 'h, 'w) Server" where
  "handleListAudit D ctx r s =
    (case parseAuditLimit (rq_Query r ''limit'') of
       None \<Rightarrow> (writeError 400 ''invalid_limit'', s)
     | Some limit \<Rightarrow>
         (let clusterID = TrimSpace (rq_Query r ''cluster_id'') in
          case auditScope s ctx clusterID of
            Inl resp \<Rightarrow> (resp, s)
          | Inr (actor, actorType) \<Rightarrow>
              (case parseAuditTimeRange (dp_rfc3339 D) (rq_Query r ''from'') (rq_Query r ''to'') of
                 None \<Rightarrow> (writeError 400 ''invalid_date_range'', s)
               | Some (since, until) \<Rightarrow>
                   (let raw = TrimSpace (rq_Query r ''cursor'') in
                    case (if raw = [] then Some (AuditCursor 0 []) else decodeAuditCursor (dp_cursor D) raw) of
                      None \<Rightarrow> (writeError 400 ''invalid_cursor'', s)
                    | Some cursor \<Rightarrow>
                        (case call_history (hst_ListAudit (dp_history D)
                            \<lparr>q_Since = since, q_Until = until, q_Before = ac_OccurredAt cursor, q_BeforeID = ac_ID cursor,
                             q_Limit = limit, q_ClusterID = clusterID, q_Actor = actor, q_ActorType = actorType,
                             q_Action = TrimSpace (rq_Query r ''action''), q_Search = TrimSpace (rq_Query r ''search'')\<rparr>) s of
                           (Inl err, s') \<Rightarrow>
                             (if errorsIs err ErrHistoryNotSetup then writeError 503 ''history_storage_not_configured''
                              else writeError 500 ''audit_log_error'', s')
                         | (Inr page, s') \<Rightarrow>
                             (writeJSON 200 (AuditReply (ap_Events page) (nextAuditCursor (dp_cursor D) page)), s'))))))"

section \<open>The implementations\<close>

text \<open>
  The history manager as a history storage. Its state has the environments of all calls: the
  clock, the randomness, the faults of the configuration file and of the backend.
\<close>

record 'e mgr_call =
  ml_env :: 'e
  ml_now :: gotime
  ml_later :: gotime
  ml_random :: "bytes option"
  ml_io :: save_io
  ml_ctx :: "error option"

record ('e, 'b, 'v) mgr =
  mg_state :: "('b, 'v) hm_state"
  mg_calls :: "'e mgr_call list"

text \<open>One call uses up one environment; the last one serves for all that follow.\<close>

definition mgr_env :: "'e mgr_call \<Rightarrow> ('e, 'b, 'v) mgr \<Rightarrow> 'e mgr_call" where
  "mgr_env e0 g = (case mg_calls g of [] \<Rightarrow> e0 | e # _ \<Rightarrow> e)"

definition mgr_done :: "('b, 'v) hm_state \<Rightarrow> ('e, 'b, 'v) mgr \<Rightarrow> ('e, 'b, 'v) mgr" where
  "mgr_done st g = g\<lparr>mg_state := st, mg_calls := tl (mg_calls g)\<rparr>"

definition mgr_update ::
    "('b HistoryManager \<times> 'v \<Rightarrow> 'a \<times> ('b HistoryManager \<times> 'v)) \<Rightarrow> ('e, 'b, 'v) mgr \<Rightarrow> 'a \<times> ('e, 'b, 'v) mgr" where
  "mgr_update f g = (case mg_state g of (m, d, w) \<Rightarrow> case f (m, w) of (x, (m', w')) \<Rightarrow> (x, mgr_done (m', d, w') g))"

definition mgr_read :: "('b HistoryManager \<times> 'v \<Rightarrow> 'a) \<Rightarrow> ('e, 'b, 'v) mgr \<Rightarrow> 'a \<times> ('e, 'b, 'v) mgr" where
  "mgr_read f g = (case mg_state g of (m, d, w) \<Rightarrow> (f (m, w), mgr_done (mg_state g) g))"

definition manager_storage ::
    "ucd \<Rightarrow> persistedHistoryStorage json_codec \<Rightarrow> ('e, 'b, 'v) history_ops \<Rightarrow> 'e mgr_call \<Rightarrow> ('e, 'b, 'v) mgr HistoryStorage" where
  "manager_storage U P H e0 =
    \<lparr>hst_Save = (\<lambda>x g. mgr_update (HistoryManager_Save H (ml_env (mgr_env e0 g)) x) g),
     hst_ListBefore = (\<lambda>c k rv n g. mgr_read (HistoryManager_ListBefore H (ml_env (mgr_env e0 g)) c k rv n) g),
     hst_SaveAudit = (\<lambda>ev g. let e = mgr_env e0 g in
        mgr_update (HistoryManager_SaveAudit H (ml_env e) (ml_now e) (ml_later e) (ml_random e) ev) g),
     hst_ListAudit = (\<lambda>q g. let e = mgr_env e0 g in mgr_read (HistoryManager_ListAudit H (ml_env e) (ml_now e) q) g),
     hst_Status = (\<lambda>g. HistoryManager_Status (fst (mg_state g))),
     hst_Test = (\<lambda>input g. case mg_state g of (m, d, w) \<Rightarrow>
        (case HistoryManager_Test U H (ml_env (mgr_env e0 g)) input (m, w) of (x, w') \<Rightarrow> (x, mgr_done (m, d, w') g))),
     hst_Configure = (\<lambda>input g. let e = mgr_env e0 g in
        (case HistoryManager_Configure U P H (ml_env e) (ml_now e) (ml_io e) input (mg_state g) of (x, st) \<Rightarrow> (x, mgr_done st g))),
     hst_UpdateRetention = (\<lambda>keep g. let e = mgr_env e0 g in
        (case HistoryManager_UpdateRetention P H (ml_env e) (ml_ctx e) (ml_io e) keep (mg_state g) of (x, st) \<Rightarrow>
           (x, mgr_done st g)))\<rparr>"

text \<open>
  The registry as the provider of clusters. \<open>connect\<close> is the client that a configuration
  connects to; \<open>health\<close> its answer to a test. A request is alone with the registry: what
  others do between the two halves of \<open>ClusterKV\<close> and \<open>UpdateCluster\<close> is the
  subject of \<open>Registry_Theorems\<close>.
\<close>

record reg_call =
  rl_now :: gotime
  rl_random :: "bytes option"
  rl_io :: save_io
  rl_closeErr :: "error option"

definition registry_clusters ::
    "reg_lib \<Rightarrow> nat list \<Rightarrow> (client_config option \<Rightarrow> 'w etcd_client) \<Rightarrow> (client_config \<Rightarrow> error option) \<Rightarrow> reg_call \<Rightarrow>
      (reg_state, 'w) ClusterRegistry" where
  "registry_clusters L order connect health e =
    \<lparr>cg_ListClusters = (\<lambda>st. ListClusters (rl_ucd L) (fst st)),
     cg_CreateCluster = CreateCluster L (rl_now e) (rl_random e) (rl_io e),
     cg_UpdateCluster = UpdateCluster L (rl_now e) (rl_io e) (\<lambda>st. st),
     cg_DeleteCluster = DeleteCluster L (rl_io e) (rl_closeErr e),
     cg_TestCluster = (\<lambda>cid input st. case st of (r, d, cw) \<Rightarrow>
        (case TestCluster L health cid input (r, cw) of (x, cw') \<Rightarrow> (x, (r, d, cw')))),
     cg_ClusterKV = (\<lambda>cid st. case ClusterKV 1 L (\<lambda>_ st. st) cid st of
        (Some (Inr (h, cluster)), st') \<Rightarrow> (Inr (Etcd order (connect (cw_open (snd (snd st')) h)), cluster), st')
      | (Some (Inl err), st') \<Rightarrow> (Inl err, st')
      | (None, st') \<Rightarrow> (Inl (Sentinel ErrClusterNotFound), st'))\<rparr>"

end
