(* ===== verification/Server_Keys.thy ===== *)
theory Server_Keys
  imports Server
begin

text \<open>
  The handlers of keys in \<open>internal/app/server.go\<close>: the status of a cluster, listing and reading
  keys, writing and deleting with the archive of the value that is replaced, and rolling
  back to an earlier version, found in the history storage or in the revisions that etcd
  still has.
\<close>

section \<open>Status, list, get\<close>

text \<open>The first pass of \<open>summarizeMemberStatuses\<close>: reachable, healthy, first leader that is known.\<close>

fun countMembers :: "MemberStatus list \<Rightarrow> int \<times> int \<times> nat \<Rightarrow> int \<times> int \<times> nat" where
  "countMembers [] acc = acc"
| "countMembers (m # ms) (reachable, healthy, leaderID) =
     countMembers ms (if ms_Reachable m then reachable + 1 else reachable, if ms_Healthy m then healthy + 1 else healthy,
       if leaderID = 0 \<and> ms_LeaderID m \<noteq> 0 then ms_LeaderID m else leaderID)"

fun leaderIndex :: "MemberStatus list \<Rightarrow> nat \<Rightarrow> int \<Rightarrow> int" where
  "leaderIndex [] leaderID index = -1"
| "leaderIndex (m # ms) leaderID index =
     (if ms_Reachable m \<and> ms_MemberID m = leaderID then index else leaderIndex ms leaderID (index + 1))"

definition summarizeMemberStatuses :: "MemberStatus list \<Rightarrow> memberConnectionSummary" where
  "summarizeMemberStatuses statuses =
    (case countMembers statuses (0, 0, 0) of (reachable, healthy, leaderID) \<Rightarrow>
       \<lparr>mc_Reachable = reachable, mc_Healthy = healthy,
        mc_LeaderIndex = (if leaderID = 0 then -1 else leaderIndex statuses leaderID 0)\<rparr>)"

definition handleStatus ::
    "('r, 'h, 'w) deps \<Rightarrow> Principal option \<Rightarrow> request \<Rightarrow> ('r, 'h, 'w) Server \<Rightarrow> response \<times> ('r, 'h, 'w) Server" where
  "handleStatus D ctx r s =
    (let clusterID = TrimSpace (rq_Query r ''cluster_id'') in
     if clusterID = [] then (writeJSON 200 (ConnectedReply False), s)
     else case requireClusterAccess s ctx clusterID of
         Some resp \<Rightarrow> (resp, s)
       | None \<Rightarrow>
           (case call_clusters (cg_ClusterKV (dp_clusters D) clusterID) s of
              (Inl err, s1) \<Rightarrow> (writeClusterResolveError err, s1)
            | (Inr (kv, cluster), s1) \<Rightarrow>
                (let endpoint = (if requestIsAdmin s1 ctx then endpointLabel cluster else c_Name cluster);
                     statuses = kv_MemberStatuses kv (c_Endpoints cluster) (sv_etcd s1);
                     connection = summarizeMemberStatuses statuses;
                     (maintenanceUnavailable, s2) =
                       (if mc_Reachable connection = 0
                        then (case call_etcd (kv_Health kv) s1 of (err, s2) \<Rightarrow> (err = None, s2))
                        else (False, s1)) in
                 if mc_Reachable connection = 0 \<and> \<not> maintenanceUnavailable then
                   (writeJSON 200 (MemberReply \<lparr>sp_Connected = False, sp_Degraded = False, sp_Endpoint = endpoint, sp_Leader = [],
                      sp_MemberCount = length statuses, sp_HealthyCount = mc_Healthy connection\<rparr>), s2)
                 else
                   let leader = (if 0 \<le> mc_LeaderIndex connection
                                 then (if requestIsAdmin s2 ctx then ms_Endpoint (statuses ! nat (mc_LeaderIndex connection))
                                       else zhNode @ FormatInt (mc_LeaderIndex connection + 1))
                                 else []);
                       degraded = (0 < mc_Reachable connection \<and> mc_Healthy connection < int (length statuses)) in
                   (writeJSON 200 (MemberReply \<lparr>sp_Connected = True, sp_Degraded = degraded, sp_Endpoint = endpoint,
                      sp_Leader = leader, sp_MemberCount = length statuses, sp_HealthyCount = mc_Healthy connection\<rparr>), s2))))"

definition handleListKeys ::
    "('r, 'h, 'w) deps \<Rightarrow> Principal option \<Rightarrow> request \<Rightarrow> ('r, 'h, 'w) Server \<Rightarrow> response \<times> ('r, 'h, 'w) Server" where
  "handleListKeys D ctx r s =
    (case clusterKVFromRequest D ctx r s of
       (Inl resp, s1) \<Rightarrow> (resp, s1)
     | (Inr (kv, cluster), s1) \<Rightarrow>
         (case parseLimit (rq_Query r ''limit'') of
            None \<Rightarrow> (writeError 400 ''invalid_limit'', s1)
          | Some limit \<Rightarrow>
              (let raw = rq_Query r ''cursor'' in
               case (if raw = [] then Some [] else RawURLDecode raw) of
                 None \<Rightarrow> (writeError 400 ''invalid_cursor'', s1)
               | Some cursor \<Rightarrow>
                   (case call_etcd (kv_List kv (rq_Query r ''prefix'') cursor limit) s1 of
                      (Inl err, s2) \<Rightarrow> (writeStoreError err, s2)
                    | (Inr page, s2) \<Rightarrow>
                        (writeJSON 200 (KeysReply (map makeEntrySummary (pg_Entries page))
                           (if pg_NextCursor page \<noteq> [] then RawURLEncode (pg_NextCursor page) else [])), s2)))))"

definition handleGetKey ::
    "('r, 'h, 'w) deps \<Rightarrow> Principal option \<Rightarrow> request \<Rightarrow> ('r, 'h, 'w) Server \<Rightarrow> response \<times> ('r, 'h, 'w) Server" where
  "handleGetKey D ctx r s =
    (case clusterKVFromRequest D ctx r s of
       (Inl resp, s1) \<Rightarrow> (resp, s1)
     | (Inr (kv, cluster), s1) \<Rightarrow>
         (case keyFromQuery r of
            None \<Rightarrow> (writeError 400 ''invalid_key'', s1)
          | Some key \<Rightarrow>
              (case call_etcd (kv_Get kv key) s1 of
                 (Inl err, s2) \<Rightarrow> (writeStoreError err, s2)
               | (Inr None, s2) \<Rightarrow> (writeError 404 ''key_not_found'', s2)
               | (Inr (Some entry), s2) \<Rightarrow> (writeJSON 200 (EntryReply (makeEntryDetail entry)), s2))))"

section \<open>Archiving and writing\<close>

text \<open>\<open>now\<close> is the reading of the clock.\<close>

definition saveSnapshot ::
    "('r, 'h, 'w) deps \<Rightarrow> gotime \<Rightarrow> string \<Rightarrow> Entry \<Rightarrow> ('r, 'h, 'w) Server \<Rightarrow> error option \<times> ('r, 'h, 'w) Server" where
  "saveSnapshot D now clusterID entry s =
    (case call_history (hst_Save (dp_history D) \<lparr>vs_ClusterID = clusterID, vs_Entry = entry, vs_CapturedAt = now\<rparr>) s of
       (Inl err, s') \<Rightarrow> (Some (Wrap (Sentinel ErrLocalHistory) err), s')
     | (Inr _, s') \<Rightarrow> (None, s'))"

definition archiveCurrent ::
    "('r, 'h, 'w) deps \<Rightarrow> gotime \<Rightarrow> string \<Rightarrow> 'w KV \<Rightarrow> bytes \<Rightarrow> int option \<Rightarrow> ('r, 'h, 'w) Server \<Rightarrow>
      (error, Entry option) result \<times> ('r, 'h, 'w) Server" where
  "archiveCurrent D now clusterID kv key expectedModRevision s =
    (case call_etcd (kv_Get kv key) s of
       (Inl err, s1) \<Rightarrow> (Inl err, s1)
     | (Inr found, s1) \<Rightarrow>
         (case found of
            None \<Rightarrow> (Inr None, s1)
          | Some entry \<Rightarrow>
              if expectedModRevision \<noteq> None \<and> Some (e_ModRevision entry) \<noteq> expectedModRevision
              then (Inl (Sentinel ErrConflict), s1)
              else
                (case saveSnapshot D now clusterID entry s1 of
                   (Some err, s2) \<Rightarrow> (Inl err, s2)
                 | (None, s2) \<Rightarrow> (Inr (Some entry), s2))))"

definition putAudit :: "putRequest \<Rightarrow> Cluster \<Rightarrow> bytes \<Rightarrow> int \<Rightarrow> AuditEvent" where
  "putAudit request cluster key revision =
    (if pr_ExpectedModRevision request = Some 0
     then event ''key.create'' ''key'' (c_ID cluster) (c_Name cluster) (auditKeyLabel key) (zhCreatedAs @ FormatInt revision)
     else event ''key.update'' ''key'' (c_ID cluster) (c_Name cluster) (auditKeyLabel key) (zhSavedAs @ FormatInt revision))"

definition handlePutKey ::
    "('r, 'h, 'w) deps \<Rightarrow> env \<Rightarrow> Principal option \<Rightarrow> request \<Rightarrow> ('r, 'h, 'w) Server \<Rightarrow> response \<times> ('r, 'h, 'w) Server" where
  "handlePutKey D e ctx r s =
    (case decodeJSON (dp_put D) r of
       Inl _ \<Rightarrow> (writeError 400 ''invalid_request'', s)
     | Inr request \<Rightarrow>
         (case requireClusterAccess s ctx (pr_ClusterID request) of
            Some resp \<Rightarrow> (resp, s)
          | None \<Rightarrow>
              (case clusterKV D (pr_ClusterID request) s of
                 (Inl err, s1) \<Rightarrow> (writeClusterResolveError err, s1)
               | (Inr (kv, cluster), s1) \<Rightarrow>
                   (case decodeKey (pr_Key request) (pr_KeyBase64 request) of
                      None \<Rightarrow> (writeError 400 ''invalid_key'', s1)
                    | Some key \<Rightarrow>
                        (case decodeValue request of
                           None \<Rightarrow> (writeError 400 ''invalid_value'', s1)
                         | Some val \<Rightarrow>
                             (case archiveCurrent D (rc_clock e 0) (c_ID cluster) kv key (pr_ExpectedModRevision request) s1 of
                                (Inl err, s2) \<Rightarrow> (writeStoreError err, s2)
                              | (Inr _, s2) \<Rightarrow>
                                  (case call_etcd (kv_Put kv key val (pr_ExpectedModRevision request)) s2 of
                                     (Inl err, s3) \<Rightarrow> (writeStoreError err, s3)
                                   | (Inr revision, s3) \<Rightarrow>
                                       (writeJSON 200 (RevisionReply revision),
                                        recordAudit D r ctx (putAudit request cluster key revision) s3))))))))"

definition handleDeleteKey ::
    "('r, 'h, 'w) deps \<Rightarrow> env \<Rightarrow> Principal option \<Rightarrow> request \<Rightarrow> ('r, 'h, 'w) Server \<Rightarrow> response \<times> ('r, 'h, 'w) Server" where
  "handleDeleteKey D e ctx r s =
    (case clusterKVFromRequest D ctx r s of
       (Inl resp, s1) \<Rightarrow> (resp, s1)
     | (Inr (kv, cluster), s1) \<Rightarrow>
         (case keyFromQuery r of
            None \<Rightarrow> (writeError 400 ''invalid_key'', s1)
          | Some key \<Rightarrow>
              (case optionalInt64 (rq_Query r ''expected_mod_revision'') of
                 Inl _ \<Rightarrow> (writeError 400 ''invalid_revision'', s1)
               | Inr expected \<Rightarrow>
                   (case archiveCurrent D (rc_clock e 0) (c_ID cluster) kv key expected s1 of
                      (Inl err, s2) \<Rightarrow> (writeStoreError err, s2)
                    | (Inr None, s2) \<Rightarrow> (writeError 404 ''key_not_found'', s2)
                    | (Inr (Some _), s2) \<Rightarrow>
                        (case call_etcd (kv_Delete kv key expected) s2 of
                           (Inl err, s3) \<Rightarrow> (writeStoreError err, s3)
                         | (Inr (revision, deleted), s3) \<Rightarrow>
                             if \<not> deleted then (writeError 404 ''key_not_found'', s3)
                             else
                               (writeJSON 200 (DeletedReply revision),
                                recordAudit D r ctx (event ''key.delete'' ''key'' (c_ID cluster) (c_Name cluster)
                                  (auditKeyLabel key) (zhDeletedAs @ FormatInt revision)) s3))))))"

section \<open>Rollback\<close>

definition rollbackTarget ::
    "('r, 'h, 'w) deps \<Rightarrow> string \<Rightarrow> 'w KV \<Rightarrow> bytes \<Rightarrow> int \<Rightarrow> int \<Rightarrow> ('r, 'h, 'w) Server \<Rightarrow>
      (error, Entry \<times> Entry \<times> string \<times> gotime) result \<times> ('r, 'h, 'w) Server" where
  "rollbackTarget D clusterID kv key expectedModRevision targetModRevision s =
    (case call_etcd (kv_Get kv key) s of
       (Inl err, s1) \<Rightarrow> (Inl err, s1)
     | (Inr None, s1) \<Rightarrow> (Inl (Sentinel ErrNoPreviousVersion), s1)
     | (Inr (Some cur), s1) \<Rightarrow>
         if e_ModRevision cur \<noteq> expectedModRevision then (Inl (Sentinel ErrConflict), s1)
         else if targetModRevision < 1 \<or> e_ModRevision cur \<le> targetModRevision then (Inl (Sentinel ErrNoPreviousVersion), s1)
         else
           (case call_history (hst_ListBefore (dp_history D) clusterID key (wrap64 (targetModRevision + 1)) 1) s1 of
              (Inl err, s2) \<Rightarrow> (Inl (Wrap (Sentinel ErrLocalHistory) err), s2)
            | (Inr snapshots, s2) \<Rightarrow>
                if snapshots \<noteq> [] \<and> vs_rev (hd snapshots) = targetModRevision
                then (Inr (cur, vs_Entry (hd snapshots), ''storage'', vs_CapturedAt (hd snapshots)), s2)
                else
                  (case call_etcd (kv_GetAtRevision kv key targetModRevision) s2 of
                     (Inl err, s3) \<Rightarrow> (Inl err, s3)
                   | (Inr (Some previous), s3) \<Rightarrow>
                       if e_ModRevision previous = targetModRevision then (Inr (cur, previous, ''etcd'', 0), s3)
                       else (Inl (Sentinel ErrNoPreviousVersion), s3)
                   | (Inr None, s3) \<Rightarrow> (Inl (Sentinel ErrNoPreviousVersion), s3))))"

record rollbackCandidate =
  rb_Entry :: Entry
  rb_Source :: string
  rb_CapturedAt :: gotime

text \<open>
  The versions of a key that etcd still has, from a revision downwards, and whether the walk
  ended at the compacted part.
\<close>

function etcdVersions ::
    "'w KV \<Rightarrow> bytes \<Rightarrow> int \<Rightarrow> int \<Rightarrow> Entry list \<Rightarrow> 'w \<Rightarrow> (error, Entry list \<times> bool) result \<times> 'w" where
  "etcdVersions kv key revision limit entries w =
    (if \<not> (0 < revision \<and> int (length entries) < limit) then (Inr (entries, False), w)
     else case kv_GetAtRevision kv key revision w of
         (Inl err, w') \<Rightarrow> if errorsIs err ErrHistoryCompacted then (Inr (entries, True), w') else (Inl err, w')
       | (Inr None, w') \<Rightarrow> (Inr (entries, False), w')
       | (Inr (Some entry), w') \<Rightarrow>
           if e_ModRevision entry < 1 \<or> revision < e_ModRevision entry then (Inr (entries, False), w')
           else etcdVersions kv key (e_ModRevision entry - 1) limit (entries @ [entry]) w')"
  by pat_completeness auto
termination
  by (relation "measure (\<lambda>(kv, key, revision, limit, entries, w). nat revision)") auto

declare etcdVersions.simps [simp del]

definition etcdVersionsBefore ::
    "'w KV \<Rightarrow> bytes \<Rightarrow> int \<Rightarrow> int \<Rightarrow> 'w \<Rightarrow> (error, Entry list \<times> bool) result \<times> 'w" where
  "etcdVersionsBefore kv key beforeModRevision limit w = etcdVersions kv key (beforeModRevision - 1) limit [] w"

text \<open>
  The map from revisions to candidates is an association list; a snapshot of the storage is
  put first and an entry of etcd only where there is none.
\<close>

definition fromStorage :: "ValueSnapshot \<Rightarrow> rollbackCandidate" where
  "fromStorage snapshot = \<lparr>rb_Entry = vs_Entry snapshot, rb_Source = ''storage'', rb_CapturedAt = vs_CapturedAt snapshot\<rparr>"

definition fromEtcd :: "Entry \<Rightarrow> rollbackCandidate" where
  "fromEtcd entry = \<lparr>rb_Entry = entry, rb_Source = ''etcd'', rb_CapturedAt = 0\<rparr>"

definition addSnapshot :: "ValueSnapshot \<Rightarrow> (int \<times> rollbackCandidate) list \<Rightarrow> (int \<times> rollbackCandidate) list" where
  "addSnapshot snapshot m = AList.update (vs_rev snapshot) (fromStorage snapshot) m"

definition addEntry :: "Entry \<Rightarrow> (int \<times> rollbackCandidate) list \<Rightarrow> (int \<times> rollbackCandidate) list" where
  "addEntry entry m =
    (if map_of m (e_ModRevision entry) = None then AList.update (e_ModRevision entry) (fromEtcd entry) m else m)"

definition rollbackCandidates ::
    "('r, 'h, 'w) deps \<Rightarrow> string \<Rightarrow> 'w KV \<Rightarrow> bytes \<Rightarrow> int \<Rightarrow> int \<Rightarrow> ('r, 'h, 'w) Server \<Rightarrow>
      (error, rollbackCandidate list \<times> bool) result \<times> ('r, 'h, 'w) Server" where
  "rollbackCandidates D clusterID kv key beforeModRevision limit s =
    (case call_history (hst_ListBefore (dp_history D) clusterID key beforeModRevision (limit + 1)) s of
       (Inl err, s1) \<Rightarrow> (Inl (Wrap (Sentinel ErrLocalHistory) err), s1)
     | (Inr snapshots, s1) \<Rightarrow>
         (case call_etcd (etcdVersionsBefore kv key beforeModRevision (limit + 1)) s1 of
            (Inl err, s2) \<Rightarrow> (Inl err, s2)
          | (Inr (etcdEntries, compacted), s2) \<Rightarrow>
              (let byRevision = fold addEntry etcdEntries (fold addSnapshot snapshots []);
                   candidates = sort_desc (\<lambda>c. e_ModRevision (rb_Entry c)) (map snd byRevision) in
               if candidates = [] \<and> compacted then (Inl (Sentinel ErrHistoryCompacted), s2)
               else (Inr (take (nat limit) candidates, limit < int (length candidates)), s2))))"

definition handleRollbackPreview ::
    "('r, 'h, 'w) deps \<Rightarrow> Principal option \<Rightarrow> request \<Rightarrow> ('r, 'h, 'w) Server \<Rightarrow> response \<times> ('r, 'h, 'w) Server" where
  "handleRollbackPreview D ctx r s =
    (case clusterKVFromRequest D ctx r s of
       (Inl resp, s1) \<Rightarrow> (resp, s1)
     | (Inr (kv, cluster), s1) \<Rightarrow>
         (case keyFromQuery r of
            None \<Rightarrow> (writeError 400 ''invalid_key'', s1)
          | Some key \<Rightarrow>
              (case optionalInt64 (rq_Query r ''expected_mod_revision'') of
                 Inr (Some expected) \<Rightarrow>
                   if expected < 1 then (writeError 400 ''invalid_revision'', s1)
                   else
                     (case optionalInt64 (rq_Query r ''target_mod_revision'') of
                        Inr (Some target) \<Rightarrow>
                          if target < 1 \<or> expected \<le> target then (writeError 400 ''invalid_target_revision'', s1)
                          else
                            (case rollbackTarget D (c_ID cluster) kv key expected target s1 of
                               (Inl err, s2) \<Rightarrow> (writeStoreError err, s2)
                             | (Inr (cur, previous, src, capturedAt), s2) \<Rightarrow>
                                 (writeJSON 200 (PreviewReply (e_ModRevision cur) src capturedAt (makeEntryDetail previous)), s2))
                      | _ \<Rightarrow> (writeError 400 ''invalid_target_revision'', s1))
               | _ \<Rightarrow> (writeError 400 ''invalid_revision'', s1))))"

text \<open>Where a page of versions starts: at the expected revision, or below the one of the query.\<close>

definition versionsBefore :: "int \<Rightarrow> string \<Rightarrow> int option" where
  "versionsBefore expected raw =
    (if raw = [] then Some expected
     else case ParseInt raw of
         None \<Rightarrow> None
       | Some parsed \<Rightarrow> if parsed < 1 \<or> expected < parsed then None else Some parsed)"

definition handleRollbackVersions ::
    "('r, 'h, 'w) deps \<Rightarrow> Principal option \<Rightarrow> request \<Rightarrow> ('r, 'h, 'w) Server \<Rightarrow> response \<times> ('r, 'h, 'w) Server" where
  "handleRollbackVersions D ctx r s =
    (case clusterKVFromRequest D ctx r s of
       (Inl resp, s1) \<Rightarrow> (resp, s1)
     | (Inr (kv, cluster), s1) \<Rightarrow>
         (case keyFromQuery r of
            None \<Rightarrow> (writeError 400 ''invalid_key'', s1)
          | Some key \<Rightarrow>
              (case optionalInt64 (rq_Query r ''expected_mod_revision'') of
                 Inr (Some expected) \<Rightarrow>
                   if expected < 1 then (writeError 400 ''invalid_revision'', s1)
                   else
                     (case versionsBefore expected (rq_Query r ''before_mod_revision'') of
                        None \<Rightarrow> (writeError 400 ''invalid_revision'', s1)
                      | Some before \<Rightarrow>
                          (case parseRollbackLimit (rq_Query r ''limit'') of
                             None \<Rightarrow> (writeError 400 ''invalid_limit'', s1)
                           | Some limit \<Rightarrow>
                               (case call_etcd (kv_Get kv key) s1 of
                                  (Inl err, s2) \<Rightarrow> (writeStoreError err, s2)
                                | (Inr None, s2) \<Rightarrow> (writeStoreError (Sentinel ErrNoPreviousVersion), s2)
                                | (Inr (Some cur), s2) \<Rightarrow>
                                    if e_ModRevision cur \<noteq> expected then (writeStoreError (Sentinel ErrConflict), s2)
                                    else
                                      (case rollbackCandidates D (c_ID cluster) kv key before limit s2 of
                                         (Inl err, s3) \<Rightarrow> (writeStoreError err, s3)
                                       | (Inr (candidates, hasMore), s3) \<Rightarrow>
                                           if candidates = [] then (writeStoreError (Sentinel ErrNoPreviousVersion), s3)
                                           else
                                             (writeJSON 200 (VersionsReply (e_ModRevision cur)
                                                (map (\<lambda>c. \<lparr>rv_Entry = makeEntrySummary (rb_Entry c), rv_HistorySource = rb_Source c,
                                                          rv_CapturedAt = rb_CapturedAt c\<rparr>) candidates)
                                                (if hasMore then e_ModRevision (rb_Entry (last candidates)) else 0)), s3)))))
               | _ \<Rightarrow> (writeError 400 ''invalid_revision'', s1))))"

text \<open>The archiving of \<open>handleRollbackKey\<close>: the target, unless it came from the storage, and the current value.\<close>

definition archiveRollback ::
    "('r, 'h, 'w) deps \<Rightarrow> env \<Rightarrow> string \<Rightarrow> Entry \<Rightarrow> Entry \<Rightarrow> string \<Rightarrow> ('r, 'h, 'w) Server \<Rightarrow>
      error option \<times> ('r, 'h, 'w) Server" where
  "archiveRollback D e clusterID cur previous src s =
    (case (if src = ''etcd'' then saveSnapshot D (rc_clock e 0) clusterID previous s else (None, s)) of
       (Some err, s1) \<Rightarrow> (Some err, s1)
     | (None, s1) \<Rightarrow> saveSnapshot D (rc_clock e 1) clusterID cur s1)"

definition handleRollbackKey ::
    "('r, 'h, 'w) deps \<Rightarrow> env \<Rightarrow> Principal option \<Rightarrow> request \<Rightarrow> ('r, 'h, 'w) Server \<Rightarrow> response \<times> ('r, 'h, 'w) Server" where
  "handleRollbackKey D e ctx r s =
    (case decodeJSON (dp_rollback D) r of
       Inl _ \<Rightarrow> (writeError 400 ''invalid_request'', s)
     | Inr request \<Rightarrow>
         (case rr_ExpectedModRevision request of
            None \<Rightarrow> (writeError 400 ''invalid_revision'', s)
          | Some expected \<Rightarrow>
              if expected < 1 then (writeError 400 ''invalid_revision'', s)
              else
                (case rr_TargetModRevision request of
                   None \<Rightarrow> (writeError 400 ''invalid_target_revision'', s)
                 | Some target \<Rightarrow>
                     if target < 1 \<or> expected \<le> target then (writeError 400 ''invalid_target_revision'', s)
                     else
                       (case requireClusterAccess s ctx (rr_ClusterID request) of
                          Some resp \<Rightarrow> (resp, s)
                        | None \<Rightarrow>
                            (case clusterKV D (rr_ClusterID request) s of
                               (Inl err, s1) \<Rightarrow> (writeClusterResolveError err, s1)
                             | (Inr (kv, cluster), s1) \<Rightarrow>
                                 (case decodeKey (rr_Key request) (rr_KeyBase64 request) of
                                    None \<Rightarrow> (writeError 400 ''invalid_key'', s1)
                                  | Some key \<Rightarrow>
                                      (case rollbackTarget D (c_ID cluster) kv key expected target s1 of
                                         (Inl err, s2) \<Rightarrow> (writeStoreError err, s2)
                                       | (Inr (cur, previous, src, _), s2) \<Rightarrow>
                                           (case archiveRollback D e (c_ID cluster) cur previous src s2 of
                                              (Some err, s3) \<Rightarrow> (writeStoreError err, s3)
                                            | (None, s3) \<Rightarrow>
                                                (case call_etcd (kv_Put kv key (e_Value previous) (Some (e_ModRevision cur))) s3 of
                                                   (Inl err, s4) \<Rightarrow> (writeStoreError err, s4)
                                                 | (Inr revision, s4) \<Rightarrow>
                                                     (writeJSON 200 (RollbackReply revision (e_ModRevision previous) src),
                                                      recordAudit D r ctx
                                                        (event ''key.rollback'' ''key'' (c_ID cluster) (c_Name cluster) (auditKeyLabel key)
                                                          (zhRolledBackFrom @ FormatInt (e_ModRevision previous) @ zhRolledBackTo @
                                                           FormatInt revision)) s4))))))))))"

end
