(* ===== verification/Server_History.thy ===== *)
theory Server_History
  imports Server_Keys Manager_Theorems
begin

text \<open>
  What the handlers rely on when they archive values: the contract of the value history as the
  server sees it (locale \<open>value_storage\<close>), met by the history manager over the local backend, and
  the meaning of an archive: a stored snapshot is what etcd had for the key at the revision
  of the snapshot.
\<close>

section \<open>The contract\<close>

text \<open>
  A save may add the snapshot and may drop others of the same key (retention), also when it
  fails half-way; a successful one leaves the snapshot or a newer one. Recording an audit event and
  reading leave the snapshots alone.
\<close>

locale value_storage =
  fixes H :: "'h HistoryStorage" and invar :: "'h \<Rightarrow> bool" and stored :: "'h \<Rightarrow> string \<Rightarrow> bytes \<Rightarrow> ValueSnapshot list"
  assumes stored_desc: "invar h \<Longrightarrow> desc_by vs_rev (stored h c k)"
    and stored_distinct: "invar h \<Longrightarrow> distinct (map vs_rev (stored h c k))"
    and save_invar: "invar h \<Longrightarrow> hst_Save H x h = (r, h') \<Longrightarrow> invar h'"
    and save_adds: "invar h \<Longrightarrow> hst_Save H x h = (r, h') \<Longrightarrow> y \<in> set (stored h' c k) \<Longrightarrow>
      y \<in> set (stored h c k) \<or> c = vs_ClusterID x \<and> k = vs_key x \<and> vs_Entry y = vs_Entry x"
    and save_keeps: "invar h \<Longrightarrow> hst_Save H x h = (Inr (), h') \<Longrightarrow>
      \<exists>y \<in> set (stored h' (vs_ClusterID x) (vs_key x)). vs_rev x \<le> vs_rev y"
    and list_law: "invar h \<Longrightarrow> hst_ListBefore H c k q n h = (l, h') \<Longrightarrow>
      invar h' \<and> stored h' = stored h \<and> (\<forall>xs. l = Inr xs \<longrightarrow> xs = take (nat n) (filter (\<lambda>x. vs_rev x < q) (stored h c k)))"
    and audit_law: "invar h \<Longrightarrow> hst_SaveAudit H ev h = (a, h') \<Longrightarrow> invar h' \<and> stored h' = stored h"

section \<open>The history manager meets it\<close>

lemma FileHistory_PruneKey_subset:
  assumes "fh_inv h" and "FileHistory_PruneKey C rf c k keep (h, fs) = (r, (h', fs'))"
  shows "set (fh_abs h' c' k') \<subseteq> set (fh_abs h c' k')"
proof -
  let ?es = "fh_entries h" and ?ek = "historyEntryKey c k"
  let ?kept = "take (nat keep) (sort_desc vs_rev (entries_at ?es ?ek))"
  consider "h' = h" | "fh_entries h' = AList.update ?ek ?kept ?es"
    using assms(2) replaceEntriesLocked_cases [of C rf "AList.update ?ek ?kept ?es" h fs r h' fs']
    by (auto simp: FileHistory_PruneKey_def Let_def newestSnapshots_def split: if_splits)
  then show ?thesis
  proof cases
    case 2
    then show ?thesis
      by (auto simp: fh_abs_def entries_at_def update_conv' dest!: in_set_takeD split: option.splits if_splits)
  qed simp
qed

definition mgr_inv :: "('e, localHistoryBackend, fsys) mgr \<Rightarrow> bool" where
  "mgr_inv g \<longleftrightarrow> 0 \<le> hm_retentionVersions (fst (mg_state g)) \<and>
     (\<forall>b. hm_backend (fst (mg_state g)) = Some b \<longrightarrow> fh_inv (lb_history b))"

definition mgr_stored :: "('e, localHistoryBackend, fsys) mgr \<Rightarrow> string \<Rightarrow> bytes \<Rightarrow> ValueSnapshot list" where
  "mgr_stored g c k = (case hm_backend (fst (mg_state g)) of None \<Rightarrow> [] | Some b \<Rightarrow> fh_abs (lb_history b) c k)"

lemma mgr_stored_cong:
  "hm_backend (fst (mg_state g')) = hm_backend (fst (mg_state g)) \<Longrightarrow> mgr_stored g' = mgr_stored g"
  by (intro ext) (simp add: mgr_stored_def)

lemma mgr_update_eq:
  assumes "mgr_update f g = (x, g')"
  obtains m d w m' w' where "mg_state g = (m, d, w)" "f (m, w) = (x, (m', w'))" "mg_state g' = (m', d, w')"
  using assms by (auto simp: mgr_update_def mgr_done_def split: prod.splits)

lemma mgr_read_eq:
  assumes "mgr_read f g = (x, g')"
  obtains m d w where "mg_state g = (m, d, w)" "x = f (m, w)" "mg_state g' = mg_state g"
  using assms by (auto simp: mgr_read_def mgr_done_def split: prod.splits)

text \<open>What a save through the manager does to the file history of the local backend.\<close>

lemma manager_Save_cases:
  assumes "HistoryManager_Save (local_ops U C A) e x (m, fs) = (r, (m', fs'))"
  obtains "hm_backend m = None" "m' = m" "r = Inl (Sentinel ErrHistoryNotSetup)"
  | b h' where "hm_backend m = Some b" "m' = m\<lparr>hm_backend := Some (b\<lparr>lb_history := h'\<rparr>)\<rparr>"
      "save_and_prune (FileHistory_Save C (en_now e) (en_append e) x)
         (FileHistory_PruneKey C (en_replace e) (vs_ClusterID x) (vs_key x) (hm_retentionVersions m)) (lb_history b, fs) = (r, (h', fs'))"
  using assms
  by (cases "hm_backend m")
    (auto simp: HistoryManager_Save_def with_backend_def local_ops_def on_history_compose on_history_def split: prod.splits)

lemma local_save_effect:
  assumes "fh_inv h" and "0 \<le> keep"
    and "save_and_prune (FileHistory_Save C now io x) (FileHistory_PruneKey C rf (vs_ClusterID x) (vs_key x) keep) (h, fs) =
      (r, (h', fs'))"
  shows "fh_inv h'"
    and "y \<in> set (fh_abs h' c k) \<Longrightarrow> y \<in> set (fh_abs h c k) \<or> c = vs_ClusterID x \<and> k = vs_key x \<and> vs_Entry y = vs_Entry x"
    and "r = Inr () \<Longrightarrow> \<exists>y \<in> set (fh_abs h' (vs_ClusterID x) (vs_key x)). vs_rev x \<le> vs_rev y"
proof -
  have inv: "case (h, fs) of (h, fs) \<Rightarrow> fh_inv h" using assms(1) by simp
  obtain a h1 fs1 where save: "FileHistory_Save C now io x (h, fs) = (a, (h1, fs1))"
    by (metis surj_pair)
  have h1: "fh_inv h1" by (rule FileHistory_Save_inv [OF assms(1) save])
  have sub: "z \<in> set (fh_abs h c k) \<or> c = vs_ClusterID x \<and> k = vs_key x \<and> vs_Entry z = vs_Entry x"
    if "z \<in> set (fh_abs h1 c k)" for z c k
  proof (cases a)
    case (Inl err)
    with save that fh.save_err [OF inv, of C now io x err "(h1, fs1)" c k] show ?thesis by simp
  next
    case (Inr u)
    with save have "FileHistory_Save C now io x (h, fs) = (Inr (), (h1, fs1))" by simp
    from fh.save_ok [OF inv this, of c k] that ins_snapshot_set [of "stamp now x" "fh_abs h c k"] show ?thesis
      by (auto split: if_splits)
  qed
  have last: "fh_inv h' \<and> (\<forall>c k. set (fh_abs h' c k) \<subseteq> set (fh_abs h1 c k))"
  proof (cases a)
    case (Inl err)
    then show ?thesis using assms(3) save h1 by (simp add: save_and_prune_def)
  next
    case (Inr u)
    then have "FileHistory_PruneKey C rf (vs_ClusterID x) (vs_key x) keep (h1, fs1) = (r, (h', fs'))"
      using assms(3) save by (simp add: save_and_prune_def)
    then show ?thesis using FileHistory_PruneKey_inv [OF h1] FileHistory_PruneKey_subset [OF h1] by simp
  qed
  then show "fh_inv h'" by simp
  show "y \<in> set (fh_abs h c k) \<or> c = vs_ClusterID x \<and> k = vs_key x \<and> vs_Entry y = vs_Entry x" if "y \<in> set (fh_abs h' c k)"
    using last sub that by blast
  assume r: "r = Inr ()"
  let ?xs = "ins_snapshot (stamp now x) (fh_abs h (vs_ClusterID x) (vs_key x))"
  have abs: "fh_abs h' (vs_ClusterID x) (vs_key x) = (if keep = 0 then ?xs else take (nat keep) ?xs)"
    using fh.save_retained_ok [OF inv assms(2) assms(3) [unfolded r], of "vs_ClusterID x" "vs_key x"] by simp
  obtain z where z: "z \<in> set ?xs" "vs_rev z = vs_rev x"
    using ins_snapshot_rev [of "stamp now x"] by fastforce
  have desc: "desc_by vs_rev ?xs"
    using ins_snapshot_desc [OF fh.snaps_desc [OF inv] fh.snaps_distinct [OF inv]] by simp
  show "\<exists>y \<in> set (fh_abs h' (vs_ClusterID x) (vs_key x)). vs_rev x \<le> vs_rev y"
  proof (cases ?xs)
    case (Cons y ys)
    then have "vs_rev x \<le> vs_rev y"
      using z desc by (auto simp: desc_by_def)
    moreover have "y \<in> set (fh_abs h' (vs_ClusterID x) (vs_key x))"
      using assms(2) unfolding abs Cons by (cases "nat keep") auto
    ultimately show ?thesis by blast
  qed (use z in simp)
qed

lemma manager_SaveAudit_history:
  assumes "HistoryManager_SaveAudit (local_ops U C A) e now now' raw ev (m, fs) = (r, (m', fs'))"
  shows "hm_retentionVersions m' = hm_retentionVersions m \<and>
    map_option lb_history (hm_backend m') = map_option lb_history (hm_backend m)"
  using assms
  by (auto simp: HistoryManager_SaveAudit_def with_backend_def local_ops_def localHistoryBackend_SaveAudit_def
      localHistoryBackend_PruneAudit_def Let_def simp del: if_split split: option.splits sum.splits prod.splits if_splits)

lemma mgr_save_effect:
  assumes "mgr_inv g" and "hst_Save (manager_storage U P (local_ops V C A) e0) x g = (r, g')"
  shows "mgr_inv g'"
    and "y \<in> set (mgr_stored g' c k) \<Longrightarrow>
      y \<in> set (mgr_stored g c k) \<or> c = vs_ClusterID x \<and> k = vs_key x \<and> vs_Entry y = vs_Entry x"
    and "r = Inr () \<Longrightarrow> \<exists>y \<in> set (mgr_stored g' (vs_ClusterID x) (vs_key x)). vs_rev x \<le> vs_rev y"
proof -
  obtain m d w m' w' where g: "mg_state g = (m, d, w)" "mg_state g' = (m', d, w')"
    and save: "HistoryManager_Save (local_ops V C A) (ml_env (mgr_env e0 g)) x (m, w) = (r, (m', w'))"
    using assms(2) by (auto simp: manager_storage_def elim: mgr_update_eq)
  from save have "mgr_inv g' \<and>
      (\<forall>y c k. y \<in> set (mgr_stored g' c k) \<longrightarrow>
         y \<in> set (mgr_stored g c k) \<or> c = vs_ClusterID x \<and> k = vs_key x \<and> vs_Entry y = vs_Entry x) \<and>
      (r = Inr () \<longrightarrow> (\<exists>y \<in> set (mgr_stored g' (vs_ClusterID x) (vs_key x)). vs_rev x \<le> vs_rev y))"
  proof (cases rule: manager_Save_cases)
    case 1
    then show ?thesis using assms(1) g by (simp add: mgr_inv_def mgr_stored_def)
  next
    case (2 b h')
    then have "fh_inv (lb_history b)" "0 \<le> hm_retentionVersions m"
      using assms(1) g by (simp_all add: mgr_inv_def)
    from local_save_effect [OF this 2(3)] g 2(1,2) show ?thesis
      using \<open>0 \<le> hm_retentionVersions m\<close> by (simp add: mgr_inv_def mgr_stored_def)
  qed
  then show "mgr_inv g'" and "y \<in> set (mgr_stored g' c k) \<Longrightarrow>
      y \<in> set (mgr_stored g c k) \<or> c = vs_ClusterID x \<and> k = vs_key x \<and> vs_Entry y = vs_Entry x"
    and "r = Inr () \<Longrightarrow> \<exists>y \<in> set (mgr_stored g' (vs_ClusterID x) (vs_key x)). vs_rev x \<le> vs_rev y"
    by blast+
qed

interpretation hm: value_storage "manager_storage U P (local_ops V C A) e0" mgr_inv mgr_stored for U P V C A e0
proof (unfold_locales, goal_cases)
  case (1 h c k)
  then show ?case by (auto simp: mgr_inv_def mgr_stored_def desc_of_abs split: option.split)
next
  case (2 h c k)
  then show ?case by (auto simp: mgr_inv_def mgr_stored_def distinct_abs split: option.split)
next
  case (3 h x r h')
  then show ?case by (rule mgr_save_effect(1))
next
  case (4 h x r h' y c k)
  then show ?case by (rule mgr_save_effect(2))
next
  case (5 h x h')
  then show ?case using mgr_save_effect(3) by blast
next
  case (6 h c k q n r h')
  then obtain m d w where st: "mg_state h = (m, d, w)" "mg_state h' = mg_state h"
    and r: "r = HistoryManager_ListBefore (local_ops V C A) (ml_env (mgr_env e0 h)) c k q n (m, w)"
    by (auto simp: manager_storage_def elim: mgr_read_eq)
  then have "mgr_inv h' \<and> mgr_stored h' = mgr_stored h"
    using 6(1) by (simp add: mgr_inv_def mgr_stored_cong)
  moreover have "xs = take (nat n) (filter (\<lambda>x. vs_rev x < q) (mgr_stored h c k))" if "r = Inr xs" for xs
    using that r 6(1) st(1)
    by (auto simp: HistoryManager_ListBefore_def local_ops_def mgr_inv_def mgr_stored_def FileHistory_ListBefore_ok split: option.splits)
  ultimately show ?case by blast
next
  case (7 h ev a h')
  then obtain m d w m' w' where st: "mg_state h = (m, d, w)" "mg_state h' = (m', d, w')"
    and "hm_retentionVersions m' = hm_retentionVersions m \<and> map_option lb_history (hm_backend m') = map_option lb_history (hm_backend m)"
    by (auto simp: manager_storage_def Let_def elim!: mgr_update_eq dest!: manager_SaveAudit_history)
  then show ?case
    using 7(1) by (auto simp: mgr_inv_def mgr_stored_def fun_eq_iff map_option_case split: option.splits)
qed

end
