(* ===== verification/Server_Archive.thy ===== *)
theory Server_Archive
  imports Server_History
begin

text \<open>
  Writing through the server keeps the history honest and complete. Every stored snapshot is what
  etcd had for the key at the revision of the snapshot (\<open>truthful\<close>), whatever other clients
  write meanwhile; a write or a deletion that names the revision it replaces has archived
  exactly the value it replaced; a rollback restores the value of the version that was
  asked for, and that version and the value it replaced stay available.
\<close>

section \<open>Honest snapshots\<close>

definition truthful :: "(string \<Rightarrow> bytes \<Rightarrow> ValueSnapshot list) \<Rightarrow> string \<Rightarrow> mvcc \<Rightarrow> bool" where
  "truthful snaps c m \<longleftrightarrow>
    (\<forall>k. \<forall>y \<in> set (snaps c k). vs_rev y \<le> mv_rev m \<and> at_rev m k (vs_rev y) = Some (vs_Entry y))"

lemma truthfulD:
  assumes "truthful snaps c m" and "y \<in> set (snaps c k)"
  shows "vs_rev y \<le> mv_rev m" "at_rev m k (vs_rev y) = Some (vs_Entry y)"
  using assms by (auto simp: truthful_def)

lemma truthful_later:
  assumes "truthful snaps c m" and "mvcc_le m m'"
  shows "truthful snaps c m'"
  using assms(1) at_rev_stable [OF assms(2)] mvcc_le_rev(1) [OF assms(2)] by (fastforce simp: truthful_def)

text \<open>An entry that was current once is what etcd has at its revision ever after.\<close>

lemma current_recorded:
  assumes "mvcc_inv m" and "current m k = Some e" and "mvcc_le m m'"
  shows "e_ModRevision e \<le> mv_rev m'" "at_rev m' k (e_ModRevision e) = Some e"
proof -
  have le: "e_ModRevision e \<le> mv_rev m"
    using current_entry [OF assms(1,2)] by simp
  then have "at_rev m k (e_ModRevision e) = Some e"
    using at_rev_between [OF assms(1) assms(2) [unfolded current_def] order_refl] by simp
  with le show "e_ModRevision e \<le> mv_rev m'" "at_rev m' k (e_ModRevision e) = Some e"
    using at_rev_stable [OF assms(3) le] mvcc_le_rev(1) [OF assms(3)] by simp_all
qed

text \<open>
  If a stored snapshot is at least as new as an entry that is still current at a later time, then
  it is that entry.
\<close>

lemma newest_is_current:
  assumes "truthful snaps c m" and "y \<in> set (snaps c k)" and "mvcc_le m t"
    and "current t k = Some e" and "e_ModRevision e \<le> vs_rev y"
  shows "vs_Entry y = e"
proof -
  have y: "vs_rev y \<le> mv_rev m" "at_rev m k (vs_rev y) = Some (vs_Entry y)"
    by (rule truthfulD [OF assms(1,2)])+
  have "at_rev t k (vs_rev y) = Some e"
    using at_rev_between [OF mvcc_le_inv [OF assms(3)] assms(4) [unfolded current_def] assms(5)] y(1) mvcc_le_rev(1) [OF assms(3)]
    by simp
  with y at_rev_stable [OF assms(3) y(1)] show ?thesis by simp
qed

text \<open>The state of a server whose snapshots of a cluster are honest.\<close>

definition honest ::
    "('h \<Rightarrow> bool) \<Rightarrow> ('h \<Rightarrow> string \<Rightarrow> bytes \<Rightarrow> ValueSnapshot list) \<Rightarrow> ('w \<Rightarrow> mvcc) \<Rightarrow> string \<Rightarrow> ('r, 'h, 'w) Server \<Rightarrow> bool" where
  "honest invar stored st c s \<longleftrightarrow>
    mvcc_inv (st (sv_etcd s)) \<and> invar (sv_history s) \<and> truthful (stored (sv_history s)) c (st (sv_etcd s))"

lemma honest_etcd:
  "honest invar stored st c s \<Longrightarrow> mvcc_le (st (sv_etcd s)) (st w) \<Longrightarrow> honest invar stored st c (s\<lparr>sv_etcd := w\<rparr>)"
  by (auto simp: honest_def mvcc_le_inv intro: truthful_later)

lemma honest_clusters [simp]: "honest invar stored st c (s\<lparr>sv_clusters := cs\<rparr>) = honest invar stored st c s"
  by (simp add: honest_def)

section \<open>Replies\<close>

definition errorCode :: "response \<Rightarrow> string" where
  "errorCode resp = (case rs_Reply resp of ErrorReply code \<Rightarrow> code | _ \<Rightarrow> [])"

lemma writeJSON_simps [simp]:
  "rs_Status (writeJSON n x) = n" "rs_Reply (writeJSON n x) = x" "rs_SetCookie (writeJSON n x) = None"
  by (simp_all add: writeJSON_def)

lemma writeError_simps [simp]:
  "rs_Status (writeError n code) = n" "rs_Reply (writeError n code) = ErrorReply code"
  by (simp_all add: writeError_def)

lemma error_replies [simp]:
  "rs_Reply (writeStoreError err) = ErrorReply (errorCode (writeStoreError err))"
  "rs_Reply (writeClusterResolveError err) = ErrorReply (errorCode (writeClusterResolveError err))"
  "rs_Reply (writeClusterMutationError err) = ErrorReply (errorCode (writeClusterMutationError err))"
  by (simp_all add: writeStoreError_def writeClusterResolveError_def writeClusterMutationError_def errorCode_def)

lemma requireClusterAccess_simps:
  "requireClusterAccess s ctx c = Some resp \<longleftrightarrow> \<not> requestCanAccessCluster s ctx c \<and> resp = writeError 403 ''cluster_access_denied''"
  "requireClusterAccess s ctx c = None \<longleftrightarrow> requestCanAccessCluster s ctx c"
  by (auto simp: requireClusterAccess_def)

section \<open>Recording audit events\<close>

lemma call_simps:
  "call_etcd f s = (fst (f (sv_etcd s)), s\<lparr>sv_etcd := snd (f (sv_etcd s))\<rparr>)"
  "call_history g s = (fst (g (sv_history s)), s\<lparr>sv_history := snd (g (sv_history s))\<rparr>)"
  "call_clusters h s = (fst (h (sv_clusters s)), s\<lparr>sv_clusters := snd (h (sv_clusters s))\<rparr>)"
  by (simp_all add: call_etcd_def call_history_def call_clusters_def split: prod.split)

lemma call_eqs:
  "call_etcd f s = (x, s') \<longleftrightarrow> (\<exists>w. f (sv_etcd s) = (x, w) \<and> s' = s\<lparr>sv_etcd := w\<rparr>)"
  "call_history g s = (y, s') \<longleftrightarrow> (\<exists>h. g (sv_history s) = (y, h) \<and> s' = s\<lparr>sv_history := h\<rparr>)"
  "call_clusters i s = (z, s') \<longleftrightarrow> (\<exists>c. i (sv_clusters s) = (z, c) \<and> s' = s\<lparr>sv_clusters := c\<rparr>)"
  by (auto simp: call_simps prod_eq_iff)

text \<open>An audit event touches the history and the buffer of pending events only.\<close>

lemma saveAuditEvent_frame:
  "sv_etcd (saveAuditEvent D ev s) = sv_etcd s" "sv_clusters (saveAuditEvent D ev s) = sv_clusters s"
  "sv_auth (saveAuditEvent D ev s) = sv_auth s"
  "sv_history (saveAuditEvent D ev s) = snd (hst_SaveAudit (dp_history D) ev (sv_history s))"
  by (simp_all add: saveAuditEvent_def call_simps Let_def split: sum.split)

lemma recordAudit_event:
  "\<exists>ev'. recordAudit D r ctx ev s = saveAuditEvent D ev' s \<and> ev_Action ev' = ev_Action ev \<and> ev_Target ev' = ev_Target ev \<and>
     ev_ClusterID ev' = ev_ClusterID ev \<and> ev_Detail ev' = ev_Detail ev"
  by (cases ctx) (auto simp: recordAudit_def recordAuditForPrincipal_def intro!: exI split: prod.split)

section \<open>The archive\<close>

locale archive = value_storage H invar stored + kv_store K st
  for H :: "'h HistoryStorage" and invar and stored and K :: "'w KV" and st
begin

lemma recordAudit_keeps:
  assumes "invar (sv_history s)" and "dp_history D = H"
  shows "invar (sv_history (recordAudit D r ctx ev s))" "stored (sv_history (recordAudit D r ctx ev s)) = stored (sv_history s)"
    and "sv_etcd (recordAudit D r ctx ev s) = sv_etcd s"
proof -
  obtain ev' where "recordAudit D r ctx ev s = saveAuditEvent D ev' s"
    using recordAudit_event by metis
  then show "invar (sv_history (recordAudit D r ctx ev s))" "stored (sv_history (recordAudit D r ctx ev s)) = stored (sv_history s)"
    and "sv_etcd (recordAudit D r ctx ev s) = sv_etcd s"
    using audit_law [OF assms(1), of ev'] assms(2) by (simp_all add: saveAuditEvent_frame prod_eq_iff)
qed

lemma saveSnapshot_law:
  assumes "invar (sv_history s)" and "dp_history D = H" and "saveSnapshot D now c e s = (r, s')"
    and "truthful (stored (sv_history s)) c (st (sv_etcd s))"
    and "e_ModRevision e \<le> mv_rev (st (sv_etcd s))" "at_rev (st (sv_etcd s)) (e_Key e) (e_ModRevision e) = Some e"
  shows "invar (sv_history s')" "sv_etcd s' = sv_etcd s" "truthful (stored (sv_history s')) c (st (sv_etcd s'))"
    and "r = None \<Longrightarrow> \<exists>y \<in> set (stored (sv_history s') c (e_Key e)). e_ModRevision e \<le> vs_rev y"
    and "c' \<noteq> c \<Longrightarrow> set (stored (sv_history s') c' k) \<subseteq> set (stored (sv_history s) c' k)"
proof -
  let ?x = "\<lparr>vs_ClusterID = c, vs_Entry = e, vs_CapturedAt = now\<rparr>"
  obtain a h' where save: "hst_Save H ?x (sv_history s) = (a, h')" by fastforce
  have s': "s' = s\<lparr>sv_history := h'\<rparr>" and r: "r = None \<longleftrightarrow> a = Inr ()"
    using assms(2,3) save by (auto simp: saveSnapshot_def call_simps split: sum.splits)
  show "invar (sv_history s')" "sv_etcd s' = sv_etcd s"
    using save_invar [OF assms(1) save] by (simp_all add: s')
  show "truthful (stored (sv_history s')) c (st (sv_etcd s'))"
    using save_adds [OF assms(1) save] assms(4-6) by (fastforce simp: s' truthful_def)
  show "\<exists>y \<in> set (stored (sv_history s') c (e_Key e)). e_ModRevision e \<le> vs_rev y" if "r = None"
    using save_keeps [OF assms(1), of ?x h'] save that r by (auto simp: s')
  show "set (stored (sv_history s') c' k) \<subseteq> set (stored (sv_history s) c' k)" if "c' \<noteq> c"
    using save_adds [OF assms(1) save] that by (auto simp: s')
qed

lemma archiveCurrent_law:
  assumes "mvcc_inv (st (sv_etcd s))" and "invar (sv_history s)" and "dp_history D = H"
    and "truthful (stored (sv_history s)) c (st (sv_etcd s))" and "archiveCurrent D now c K key x s = (r, s')"
  shows "invar (sv_history s')" "mvcc_le (st (sv_etcd s)) (st (sv_etcd s'))" "truthful (stored (sv_history s')) c (st (sv_etcd s'))"
    and "r = Inr None \<Longrightarrow> \<exists>g. mvcc_le (st (sv_etcd s)) g \<and> mvcc_le g (st (sv_etcd s')) \<and> current g key = None"
    and "r = Inr (Some e) \<Longrightarrow> \<exists>g. mvcc_le (st (sv_etcd s)) g \<and> mvcc_le g (st (sv_etcd s')) \<and> current g key = Some e \<and>
      (\<forall>m. x = Some m \<longrightarrow> e_ModRevision e = m) \<and> (\<exists>y \<in> set (stored (sv_history s') c key). e_ModRevision e \<le> vs_rev y)"
proof -
  obtain a w where get: "kv_Get K key (sv_etcd s) = (a, w)" by fastforce
  note law = kv_get [OF assms(1) get]
  let ?s = "s\<lparr>sv_etcd := w\<rparr>"
  have later: "truthful (stored (sv_history ?s)) c (st (sv_etcd ?s))"
    using truthful_later [OF assms(4)] law by simp
  have "invar (sv_history s') \<and> mvcc_le (st (sv_etcd s)) (st (sv_etcd s')) \<and> truthful (stored (sv_history s')) c (st (sv_etcd s')) \<and>
    (r = Inr None \<longrightarrow> (\<exists>g. mvcc_le (st (sv_etcd s)) g \<and> mvcc_le g (st (sv_etcd s')) \<and> current g key = None)) \<and>
    (r = Inr (Some e) \<longrightarrow> (\<exists>g. mvcc_le (st (sv_etcd s)) g \<and> mvcc_le g (st (sv_etcd s')) \<and> current g key = Some e \<and>
      (\<forall>m. x = Some m \<longrightarrow> e_ModRevision e = m) \<and> (\<exists>y \<in> set (stored (sv_history s') c key). e_ModRevision e \<le> vs_rev y)))"
  proof (cases "\<exists>e0. a = Inr (Some e0) \<and> \<not> (x \<noteq> None \<and> Some (e_ModRevision e0) \<noteq> x)")
    case False
    then have "s' = ?s" "\<forall>e0. r \<noteq> Inr (Some e0)" "r = Inr None \<longleftrightarrow> a = Inr None"
      using assms(5) get by (auto simp: archiveCurrent_def call_simps split: sum.splits option.splits if_splits)
    then show ?thesis using law later assms(2) by (auto simp: eq_commute [of None])
  next
    case True
    then obtain e0 where a: "a = Inr (Some e0)" and ok: "\<forall>m. x = Some m \<longrightarrow> e_ModRevision e0 = m" by auto
    obtain g where g: "mvcc_le (st (sv_etcd s)) g" "mvcc_le g (st w)" "current g key = Some e0"
      using law a by fastforce
    have key: "e_Key e0 = key" using current_entry(1) [OF mvcc_le_inv [OF g(1)] g(3)] .
    obtain b s2 where save: "saveSnapshot D now c e0 ?s = (b, s2)" by fastforce
    have s': "s' = s2" and r: "r = Inr (Some e) \<longleftrightarrow> b = None \<and> e = e0" "r \<noteq> Inr None"
      using assms(5) get a True save by (auto simp: archiveCurrent_def call_simps split: option.splits)
    note snap = saveSnapshot_law [OF _ assms(3) save later]
    have rec: "e_ModRevision e0 \<le> mv_rev (st w)" "at_rev (st w) key (e_ModRevision e0) = Some e0"
      by (rule current_recorded [OF mvcc_le_inv [OF g(1)] g(3,2)])+
    show ?thesis
      using snap assms(2) rec key law g ok r s' by auto
  qed
  then show "invar (sv_history s')" "mvcc_le (st (sv_etcd s)) (st (sv_etcd s'))" "truthful (stored (sv_history s')) c (st (sv_etcd s'))"
    and "r = Inr None \<Longrightarrow> \<exists>g. mvcc_le (st (sv_etcd s)) g \<and> mvcc_le g (st (sv_etcd s')) \<and> current g key = None"
    and "r = Inr (Some e) \<Longrightarrow> \<exists>g. mvcc_le (st (sv_etcd s)) g \<and> mvcc_le g (st (sv_etcd s')) \<and> current g key = Some e \<and>
      (\<forall>m. x = Some m \<longrightarrow> e_ModRevision e = m) \<and> (\<exists>y \<in> set (stored (sv_history s') c key). e_ModRevision e \<le> vs_rev y)"
    by blast+
qed

text \<open>A conditional write after the archive replaces exactly what was archived.\<close>

lemma archived_before_write:
  assumes "mvcc_inv (st (sv_etcd s))" and "invar (sv_history s)" and "dp_history D = H"
    and "truthful (stored (sv_history s)) c (st (sv_etcd s))" and "archiveCurrent D now c K key (Some m) s = (Inr found, s2)"
    and "mvcc_le (st (sv_etcd s2)) t" and "mod_rev t key = m" and "m \<le> mv_rev (st (sv_etcd s))"
  shows "if m = 0 then current t key = None
    else \<exists>old y. current t key = Some old \<and> e_ModRevision old = m \<and> found = Some old \<and>
      y \<in> set (stored (sv_history s2) c key) \<and> vs_Entry y = old"
proof (cases "m = 0")
  case True
  then show ?thesis using mod_rev_absent [OF mvcc_le_inv [OF assms(6)]] assms(7) by simp
next
  case False
  then obtain old where old: "current t key = Some old" "e_ModRevision old = m"
    using assms(7) by (auto simp: mod_rev_def split: option.splits)
  note law = archiveCurrent_law [OF assms(1-5)]
  have unchanged: "current g key = Some old" if "mvcc_le (st (sv_etcd s)) g" "mvcc_le g (st (sv_etcd s2))" for g
    using current_unchanged [OF mvcc_le_trans [OF that(2) assms(6)] old(1)] old(2) assms(8) mvcc_le_rev(1) [OF that(1)] by simp
  obtain e where e: "found = Some e"
  proof (cases found)
    case None
    then show ?thesis using law(4) unchanged by fastforce
  qed
  obtain g y where g: "mvcc_le (st (sv_etcd s)) g" "mvcc_le g (st (sv_etcd s2))" "current g key = Some e"
    and y: "y \<in> set (stored (sv_history s2) c key)" "e_ModRevision e \<le> vs_rev y"
    using law(5) e by blast
  have "e = old" using unchanged [OF g(1,2)] g(3) by simp
  moreover have "vs_Entry y = old"
    using newest_is_current [OF law(3) y(1) assms(6) old(1)] y(2) \<open>e = old\<close> by simp
  ultimately show ?thesis using False old e y(1) by auto
qed

text \<open>Every step keeps the snapshots honest, whether it succeeds or not.\<close>

lemma honest_recordAudit:
  "honest invar stored st c s \<Longrightarrow> dp_history D = H \<Longrightarrow> honest invar stored st c (recordAudit D r ctx ev s)"
  using recordAudit_keeps [of s D r ctx ev] by (simp add: honest_def)

lemma honest_get:
  "honest invar stored st c s \<Longrightarrow> kv_Get K k (sv_etcd s) = (a, w) \<Longrightarrow> honest invar stored st c (s\<lparr>sv_etcd := w\<rparr>)"
  using kv_get [of "sv_etcd s" k a w] by (intro honest_etcd) (auto simp: honest_def)

lemma honest_at:
  "honest invar stored st c s \<Longrightarrow> kv_GetAtRevision K k q (sv_etcd s) = (a, w) \<Longrightarrow> honest invar stored st c (s\<lparr>sv_etcd := w\<rparr>)"
  using kv_at [of "sv_etcd s" k q a w] by (intro honest_etcd) (auto simp: honest_def)

lemma honest_put:
  "honest invar stored st c s \<Longrightarrow> kv_Put K k v x (sv_etcd s) = (a, w) \<Longrightarrow> honest invar stored st c (s\<lparr>sv_etcd := w\<rparr>)"
  using kv_put [of "sv_etcd s" k v x a w] by (intro honest_etcd) (auto simp: honest_def)

lemma honest_delete:
  "honest invar stored st c s \<Longrightarrow> kv_Delete K k x (sv_etcd s) = (a, w) \<Longrightarrow> honest invar stored st c (s\<lparr>sv_etcd := w\<rparr>)"
  using kv_delete [of "sv_etcd s" k x a w] by (intro honest_etcd) (auto simp: honest_def)

lemma honest_list:
  "honest invar stored st c s \<Longrightarrow> hst_ListBefore H c' k q n (sv_history s) = (a, h) \<Longrightarrow> honest invar stored st c (s\<lparr>sv_history := h\<rparr>)"
  using list_law [of "sv_history s" c' k q n a h] by (simp add: honest_def)

lemma honest_archive:
  "honest invar stored st c s \<Longrightarrow> dp_history D = H \<Longrightarrow> archiveCurrent D now c K key x s = (a, s') \<Longrightarrow> honest invar stored st c s'"
  using archiveCurrent_law(1-3) [of s D c now key x a s'] by (auto simp: honest_def dest: mvcc_le_inv)

lemma honest_save:
  assumes "honest invar stored st c s" and "dp_history D = H" and "saveSnapshot D now c e s = (a, s')"
    and "at_rev (st (sv_etcd s)) (e_Key e) (e_ModRevision e) = Some e" "e_ModRevision e \<le> mv_rev (st (sv_etcd s))"
  shows "honest invar stored st c s'"
  using saveSnapshot_law(1-3) [of s D now c e a s'] assms by (simp add: honest_def)

section \<open>Rollback, inside\<close>

lemma rollbackTarget_law:
  assumes "honest invar stored st c s" and "dp_history D = H" and "rollbackTarget D c K key m q s = (r, s')"
  shows "honest invar stored st c s'" "mvcc_le (st (sv_etcd s)) (st (sv_etcd s'))"
    and "r = Inr (cur, prev, src, at) \<Longrightarrow> \<exists>g. mvcc_le (st (sv_etcd s)) g \<and> mvcc_le g (st (sv_etcd s')) \<and> current g key = Some cur \<and>
      e_ModRevision cur = m \<and> q < m \<and> e_ModRevision prev = q \<and> q \<le> mv_rev (st (sv_etcd s')) \<and>
      at_rev (st (sv_etcd s')) key q = Some prev"
proof -
  obtain a w where get: "kv_Get K key (sv_etcd s) = (a, w)" by fastforce
  obtain l h where list: "hst_ListBefore H c key (wrap64 (q + 1)) 1 (sv_history s) = (l, h)" by fastforce
  obtain b v where old: "kv_GetAtRevision K key q w = (b, v)" by fastforce
  have inv: "mvcc_inv (st (sv_etcd s))" "invar (sv_history s)" "truthful (stored (sv_history s)) c (st (sv_etcd s))"
    using assms(1) by (simp_all add: honest_def)
  note g = kv_get [OF inv(1) get] and lst = list_law [OF inv(2) list]
  have wv: "mvcc_le (st w) (st v)" and at: "\<forall>e. b = Inr e \<longrightarrow> 1 \<le> q \<and> q \<le> mv_rev (st v) \<and> e = at_rev (st v) key q"
    using kv_at [OF _ old] g mvcc_le_inv by auto
  have hon1: "honest invar stored st c (s\<lparr>sv_etcd := w\<rparr>)"
    by (rule honest_get [OF assms(1) get])
  then have hon2: "honest invar stored st c (s\<lparr>sv_etcd := w, sv_history := h\<rparr>)"
    using honest_list [OF hon1, of c key "wrap64 (q + 1)" 1 l h] list by simp
  have hon3: "honest invar stored st c (s\<lparr>sv_etcd := v, sv_history := h\<rparr>)"
    using honest_etcd [OF hon2, of v] wv by (simp add: honest_def)
  have states: "s' = s\<lparr>sv_etcd := w\<rparr> \<or> s' = s\<lparr>sv_etcd := w, sv_history := h\<rparr> \<or> s' = s\<lparr>sv_etcd := v, sv_history := h\<rparr>"
    using assms(2,3) get list old
    by (auto simp: rollbackTarget_def call_simps split: sum.splits option.splits if_splits)
  then show "honest invar stored st c s'" "mvcc_le (st (sv_etcd s)) (st (sv_etcd s'))"
    using hon1 hon2 hon3 g mvcc_le_trans [OF conjunct1 [OF g] wv] by (elim disjE; simp)+
  assume "r = Inr (cur, prev, src, at)"
  then have cur: "a = Inr (Some cur)" "e_ModRevision cur = m" "q < m"
    and cases: "(\<exists>y ys. l = Inr (y # ys) \<and> vs_rev y = q \<and> vs_Entry y = prev \<and> sv_etcd s' = w) \<or>
      b = Inr (Some prev) \<and> e_ModRevision prev = q \<and> sv_etcd s' = v"
    using assms(2,3) get list old
    by (auto simp: rollbackTarget_def call_simps neq_Nil_conv split: sum.splits option.splits if_splits)
  obtain x where x: "mvcc_le (st (sv_etcd s)) x" "mvcc_le x (st w)" "current x key = Some cur"
    using g cur(1) by fastforce
  from cases have "e_ModRevision prev = q \<and> q \<le> mv_rev (st (sv_etcd s')) \<and> at_rev (st (sv_etcd s')) key q = Some prev \<and>
      mvcc_le (st w) (st (sv_etcd s'))"
  proof (elim disjE exE conjE)
    fix y ys
    assume l: "l = Inr (y # ys)" and y: "vs_rev y = q" "vs_Entry y = prev" "sv_etcd s' = w"
    then have "y \<in> set (take 1 (filter (\<lambda>x. vs_rev x < wrap64 (q + 1)) (stored (sv_history s) c key)))"
      using lst by (metis list.set_intros(1) nat_one_as_int)
    then have "y \<in> set (stored (sv_history s) c key)" by (auto dest: in_set_takeD)
    moreover have "truthful (stored (sv_history s)) c (st w)" using truthful_later [OF inv(3)] g by simp
    ultimately show ?thesis
      using y truthfulD mvcc_le_refl mvcc_le_inv g by metis
  next
    assume "b = Inr (Some prev)" "e_ModRevision prev = q" "sv_etcd s' = v"
    then show ?thesis using at wv by auto
  qed
  with cur x mvcc_le_trans show "\<exists>g. mvcc_le (st (sv_etcd s)) g \<and> mvcc_le g (st (sv_etcd s')) \<and> current g key = Some cur \<and>
      e_ModRevision cur = m \<and> q < m \<and> e_ModRevision prev = q \<and> q \<le> mv_rev (st (sv_etcd s')) \<and>
      at_rev (st (sv_etcd s')) key q = Some prev" by blast
qed

lemma archiveRollback_law:
  assumes "honest invar stored st c s" and "dp_history D = H" and "archiveRollback D e c cur prev src s = (r, s')"
    and "at_rev (st (sv_etcd s)) (e_Key prev) (e_ModRevision prev) = Some prev" "e_ModRevision prev \<le> mv_rev (st (sv_etcd s))"
    and "at_rev (st (sv_etcd s)) (e_Key cur) (e_ModRevision cur) = Some cur" "e_ModRevision cur \<le> mv_rev (st (sv_etcd s))"
  shows "honest invar stored st c s'" "sv_etcd s' = sv_etcd s"
    and "r = None \<Longrightarrow> \<exists>y \<in> set (stored (sv_history s') c (e_Key cur)). e_ModRevision cur \<le> vs_rev y"
proof -
  obtain b s1 where first: "(if src = ''etcd'' then saveSnapshot D (rc_clock e 0) c prev s else (None, s)) = (b, s1)" by fastforce
  have s1: "honest invar stored st c s1" "sv_etcd s1 = sv_etcd s"
  proof (atomize (full), cases "src = ''etcd''")
    case True
    then have save: "saveSnapshot D (rc_clock e 0) c prev s = (b, s1)" using first by simp
    have inv: "invar (sv_history s)" "truthful (stored (sv_history s)) c (st (sv_etcd s))"
      using assms(1) by (simp_all add: honest_def)
    show "honest invar stored st c s1 \<and> sv_etcd s1 = sv_etcd s"
      using honest_save [OF assms(1,2) save assms(4,5)] saveSnapshot_law(2) [OF inv(1) assms(2) save inv(2) assms(5,4)] by simp
  qed (use first assms(1) in simp)
  show "honest invar stored st c s'" "sv_etcd s' = sv_etcd s"
    and "r = None \<Longrightarrow> \<exists>y \<in> set (stored (sv_history s') c (e_Key cur)). e_ModRevision cur \<le> vs_rev y"
  proof -
    have "honest invar stored st c s' \<and> sv_etcd s' = sv_etcd s \<and>
      (r = None \<longrightarrow> (\<exists>y \<in> set (stored (sv_history s') c (e_Key cur)). e_ModRevision cur \<le> vs_rev y))"
    proof (cases b)
      case None
      then have save: "saveSnapshot D (rc_clock e 1) c cur s1 = (r, s')"
        using assms(3) first by (simp add: archiveRollback_def)
      have inv: "invar (sv_history s1)" "truthful (stored (sv_history s1)) c (st (sv_etcd s1))"
        using s1(1) by (simp_all add: honest_def)
      show ?thesis
        using saveSnapshot_law [OF inv(1) assms(2) save inv(2)] honest_save [OF s1(1) assms(2) save] assms(6,7) s1(2) by simp
    next
      case (Some err)
      then show ?thesis using assms(3) first s1 by (auto simp: archiveRollback_def)
    qed
    then show "honest invar stored st c s'" "sv_etcd s' = sv_etcd s"
      and "r = None \<Longrightarrow> \<exists>y \<in> set (stored (sv_history s') c (e_Key cur)). e_ModRevision cur \<le> vs_rev y" by blast+
  qed
qed

lemma rollback_archived:
  assumes "honest invar stored st c s" and "dp_history D = H"
    and "rollbackTarget D c K key m q s = (Inr (cur, prev, src, at), s2)" and "archiveRollback D e c cur prev src s2 = (r, s3)"
  shows "honest invar stored st c s3" "sv_etcd s3 = sv_etcd s2"
    and "r = None \<Longrightarrow> \<exists>y \<in> set (stored (sv_history s3) c key). e_ModRevision cur \<le> vs_rev y"
proof -
  note law = rollbackTarget_law [OF assms(1-3)]
  obtain g where g: "mvcc_le (st (sv_etcd s)) g" "mvcc_le g (st (sv_etcd s2))" "current g key = Some cur"
    and prev: "e_ModRevision prev = q" "q \<le> mv_rev (st (sv_etcd s2))" "at_rev (st (sv_etcd s2)) key q = Some prev"
    using law(3) by blast
  have "mvcc_inv (st (sv_etcd s2))" using law(1) by (simp add: honest_def)
  then have keys: "e_Key cur = key" "e_Key prev = key"
    using current_entry(1) [OF mvcc_le_inv [OF g(1)] g(3)] at_rev_entry(1) [OF _ prev(3)] by simp_all
  note cur = current_recorded [OF mvcc_le_inv [OF g(1)] g(3,2)]
  note arch = archiveRollback_law [OF law(1) assms(2,4)]
  show "honest invar stored st c s3" "sv_etcd s3 = sv_etcd s2"
    and "r = None \<Longrightarrow> \<exists>y \<in> set (stored (sv_history s3) c key). e_ModRevision cur \<le> vs_rev y"
    using arch cur prev keys by simp_all
qed

text \<open>The conditional write at the end of a rollback.\<close>

lemma rollback_write:
  assumes "honest invar stored st c s" and "dp_history D = H"
    and "rollbackTarget D c K key m q s = (Inr (cur, prev, src, at), s2)" and "archiveRollback D e c cur prev src s2 = (None, s3)"
    and "kv_Put K key (e_Value prev) (Some (e_ModRevision cur)) (sv_etcd s3) = (Inr n, w)"
  shows "\<exists>t y. mvcc_le (st (sv_etcd s)) t \<and> mvcc_le (mput key (e_Value prev) t) (st w) \<and> n = mv_rev t + 1 \<and>
    current t key = Some cur \<and> e_ModRevision cur = m \<and> q < m \<and> at_rev t key q = Some prev \<and> e_ModRevision prev = q \<and>
    y \<in> set (stored (sv_history s3) c key) \<and> vs_Entry y = cur"
proof -
  note law = rollbackTarget_law [OF assms(1-3)]
  obtain g where g: "mvcc_le (st (sv_etcd s)) g" "mvcc_le g (st (sv_etcd s2))" "current g key = Some cur" "e_ModRevision cur = m"
    and prev: "q < m" "e_ModRevision prev = q" "q \<le> mv_rev (st (sv_etcd s2))" "at_rev (st (sv_etcd s2)) key q = Some prev"
    using law(3) by blast
  have inv2: "mvcc_inv (st (sv_etcd s2))" using law(1) by (simp add: honest_def)
  have s3: "honest invar stored st c s3" "sv_etcd s3 = sv_etcd s2"
    and y: "\<exists>y \<in> set (stored (sv_history s3) c key). e_ModRevision cur \<le> vs_rev y"
    using rollback_archived [OF assms(1-4)] by simp_all
  obtain t where t: "mvcc_le (st (sv_etcd s2)) t" "mod_rev t key = m" "mvcc_le (mput key (e_Value prev) t) (st w)" "n = mv_rev t + 1"
    using kv_put [OF _ assms(5)] inv2 s3(2) g(4) by auto
  have curt: "current t key = Some cur"
    using mod_rev_compare [OF mvcc_le_inv [OF g(1)] mvcc_le_trans [OF g(2) t(1)] g(3)] t(2) g(4) by simp
  obtain z where z: "z \<in> set (stored (sv_history s3) c key)" "e_ModRevision cur \<le> vs_rev z" using y by blast
  have "truthful (stored (sv_history s3)) c (st (sv_etcd s2))" using s3 by (simp add: honest_def)
  from newest_is_current [where snaps = "stored (sv_history s3)", OF this z(1) t(1) curt z(2)] z(1) curt g(4) prev t
    at_rev_stable [OF t(1) prev(3), of key] mvcc_le_trans [OF law(2) t(1)]
  show ?thesis by metis
qed

end

end
