(* ===== verification/Server_Keys_Theorems.thy ===== *)
theory Server_Keys_Theorems
  imports Server_Archive
begin

text \<open>
  The guarantees of the key handlers, over the history manager with the local backend and any
  etcd client that meets the laws of \<open>Etcd_KV\<close>.
\<close>

section \<open>Put\<close>

lemma handlePutKey_success:
  assumes "handlePutKey D e ctx r s = (resp, s')" and "rs_Reply resp = RevisionReply n"
  obtains request kv cluster s1 key val found s2 w where
    "decodeJSON (dp_put D) r = Inr request" "requestCanAccessCluster s ctx (pr_ClusterID request)"
    "clusterKV D (pr_ClusterID request) s = (Inr (kv, cluster), s1)"
    "decodeKey (pr_Key request) (pr_KeyBase64 request) = Some key" "decodeValue request = Some val"
    "archiveCurrent D (rc_clock e 0) (c_ID cluster) kv key (pr_ExpectedModRevision request) s1 = (Inr found, s2)"
    "kv_Put kv key val (pr_ExpectedModRevision request) (sv_etcd s2) = (Inr n, w)"
    "s' = recordAudit D r ctx (putAudit request cluster key n) (s2\<lparr>sv_etcd := w\<rparr>)"
  using assms
  by (auto simp: handlePutKey_def requireClusterAccess_simps call_eqs split: sum.splits option.splits prod.splits)

lemma clusterKV_eq:
  assumes "clusterKV D cid s = (Inr (kv, cluster), s1)"
  obtains cs where "cg_ClusterKV (dp_clusters D) cid (sv_clusters s) = (Inr (kv, cluster), cs)" "s1 = s\<lparr>sv_clusters := cs\<rparr>"
  using assms by (auto simp: clusterKV_def call_eqs split: if_splits)

context mvcc_client begin

lemma Etcd_kv_store: "kv_store (Etcd order C) st"
  by unfold_locales

end

text \<open>The archive over the history manager and an etcd client that meets the laws.\<close>

lemma manager_archive:
  assumes "mvcc_client C st"
  shows "archive (manager_storage U P (local_ops V J A) e0) mgr_inv mgr_stored (Etcd order C) st"
  by (intro archive.intro hm.value_storage_axioms mvcc_client.Etcd_kv_store [OF assms])

interpretation local_archive: archive "manager_storage U P (local_ops V J A) e0" mgr_inv mgr_stored "Etcd order ref_client" "\<lambda>s. s"
  for U P V J A e0 order
  by (rule manager_archive [OF ref.mvcc_client_axioms])

context archive begin

lemma put_archived:
  assumes "dp_history D = H" and "honest invar stored st (c_ID cluster) s"
    and "decodeJSON (dp_put D) r = Inr request"
    and "cg_ClusterKV (dp_clusters D) (pr_ClusterID request) (sv_clusters s) = (Inr (K, cluster), cs)"
    and "pr_ExpectedModRevision request = Some m" and "m \<le> mv_rev (st (sv_etcd s))"
    and "handlePutKey D e ctx r s = (resp, s')" and "rs_Reply resp = RevisionReply n"
  shows "\<exists>key val t. decodeKey (pr_Key request) (pr_KeyBase64 request) = Some key \<and> decodeValue request = Some val \<and>
    mvcc_le (st (sv_etcd s)) t \<and> mvcc_le (mput key val t) (st (sv_etcd s')) \<and> n = mv_rev t + 1 \<and>
    (if m = 0 then current t key = None
     else \<exists>old y. current t key = Some old \<and> e_ModRevision old = m \<and>
       y \<in> set (stored (sv_history s') (c_ID cluster) key) \<and> vs_Entry y = old) \<and>
    honest invar stored st (c_ID cluster) s'"
proof -
  let ?c = "c_ID cluster"
  obtain req kv cl s1 key val found s2 w where req: "decodeJSON (dp_put D) r = Inr req"
    and s1: "clusterKV D (pr_ClusterID req) s = (Inr (kv, cl), s1)"
    and dec': "decodeKey (pr_Key req) (pr_KeyBase64 req) = Some key" "decodeValue req = Some val"
    and arc': "archiveCurrent D (rc_clock e 0) (c_ID cl) kv key (pr_ExpectedModRevision req) s1 = (Inr found, s2)"
    and put': "kv_Put kv key val (pr_ExpectedModRevision req) (sv_etcd s2) = (Inr n, w)"
    and s': "s' = recordAudit D r ctx (putAudit req cl key n) (s2\<lparr>sv_etcd := w\<rparr>)"
    by (rule handlePutKey_success [OF assms(7,8)])
  have [simp]: "req = request" using req assms(3) by simp
  from s1 have eqs: "kv = K" "cl = cluster" "s1 = s\<lparr>sv_clusters := cs\<rparr>"
    using assms(4) by (auto elim!: clusterKV_eq)
  note dec = dec' [simplified] and arc = arc' [unfolded eqs \<open>req = request\<close> assms(5)]
    and put = put' [unfolded eqs \<open>req = request\<close> assms(5)]
  have same: "sv_etcd s1 = sv_etcd s" "sv_history s1 = sv_history s" and hon1: "honest invar stored st ?c s1"
    using eqs(3) assms(2) by simp_all
  note inv1 = hon1 [unfolded honest_def]
  note law = archiveCurrent_law [OF _ _ assms(1) _ arc [folded eqs(3)]]
  have hon2: "honest invar stored st ?c s2"
    by (rule honest_archive [OF hon1 assms(1) arc [folded eqs(3)]])
  obtain t where t: "mvcc_le (st (sv_etcd s2)) t" "mod_rev t key = m" "mvcc_le (mput key val t) (st w)" "n = mv_rev t + 1"
    using kv_put [OF _ put] hon2 by (auto simp: honest_def)
  have old: "if m = 0 then current t key = None
    else \<exists>old y. current t key = Some old \<and> e_ModRevision old = m \<and> found = Some old \<and>
      y \<in> set (stored (sv_history s2) ?c key) \<and> vs_Entry y = old"
    using archived_before_write [OF _ _ assms(1) _ arc [folded eqs(3)] t(1,2)] inv1 assms(6) same by simp
  have hon3: "honest invar stored st ?c (s2\<lparr>sv_etcd := w\<rparr>)"
    by (rule honest_put [OF hon2 put])
  have "stored (sv_history s') = stored (sv_history s2)" "sv_etcd s' = w"
    using recordAudit_keeps [OF _ assms(1), of "s2\<lparr>sv_etcd := w\<rparr>" r ctx "putAudit request cluster key n"] hon2
    by (simp_all add: s' eqs honest_def)
  moreover have "honest invar stored st ?c s'"
    unfolding s' by (rule honest_recordAudit [OF hon3 assms(1)])
  moreover have "mvcc_le (st (sv_etcd s)) t"
    using mvcc_le_trans [OF law(2) t(1)] inv1 same by simp
  ultimately show ?thesis
    using dec old t(3,4) by (intro exI [of _ key] exI [of _ val] exI [of _ t]) (auto split: if_splits)
qed

end

text \<open>
  C1. A write that names the revision it replaces, and that the server reports as done, has been
  applied to the state of the key that has this revision, and the value it replaced is in
  the history: nothing is overwritten that was not archived first, whatever other clients write
  between the read, the archive and the write. With revision 0 the key did not exist. All
  snapshots of the cluster stay honest. (The revision is one that the client has read,
  so it is not in the future of the cluster.)
\<close>

theorem put_archives_replaced_value:
  assumes "dp_history D = manager_storage U P (local_ops V J A) e0" and "mvcc_client C st"
    and "honest mgr_inv mgr_stored st (c_ID cluster) s"
    and "decodeJSON (dp_put D) r = Inr request"
    and "cg_ClusterKV (dp_clusters D) (pr_ClusterID request) (sv_clusters s) = (Inr (Etcd order C, cluster), cs)"
    and "pr_ExpectedModRevision request = Some m" and "m \<le> mv_rev (st (sv_etcd s))"
    and "handlePutKey D e ctx r s = (resp, s')" and "rs_Reply resp = RevisionReply n"
  shows "\<exists>key val t. decodeKey (pr_Key request) (pr_KeyBase64 request) = Some key \<and> decodeValue request = Some val \<and>
    mvcc_le (st (sv_etcd s)) t \<and> mvcc_le (mput key val t) (st (sv_etcd s')) \<and> n = mv_rev t + 1 \<and>
    (if m = 0 then current t key = None
     else \<exists>old y. current t key = Some old \<and> e_ModRevision old = m \<and>
       y \<in> set (mgr_stored (sv_history s') (c_ID cluster) key) \<and> vs_Entry y = old) \<and>
    honest mgr_inv mgr_stored st (c_ID cluster) s'"
  using assms(3-) archive.put_archived [OF manager_archive [OF assms(2)] assms(1)] by blast

section \<open>Delete\<close>

lemma clusterKVFromRequest_eq:
  assumes "clusterKVFromRequest D ctx r s = (Inr (kv, cluster), s1)"
  obtains cs where "requestCanAccessCluster s ctx (TrimSpace (rq_Query r ''cluster_id''))"
    "cg_ClusterKV (dp_clusters D) (TrimSpace (rq_Query r ''cluster_id'')) (sv_clusters s) = (Inr (kv, cluster), cs)"
    "s1 = s\<lparr>sv_clusters := cs\<rparr>"
  using assms
  by (auto simp: clusterKVFromRequest_def Let_def requireClusterAccess_simps elim!: clusterKV_eq split: option.splits sum.splits prod.splits)

lemma clusterKVFromRequest_reply:
  "clusterKVFromRequest D ctx r s = (Inl resp, s1) \<Longrightarrow> \<exists>code. rs_Reply resp = ErrorReply code"
  by (auto simp: clusterKVFromRequest_def Let_def requireClusterAccess_simps split: option.splits sum.splits prod.splits)

lemma handleDeleteKey_success:
  assumes "handleDeleteKey D e ctx r s = (resp, s')" and "rs_Reply resp = DeletedReply n"
  obtains kv cluster s1 key x found s2 w where
    "clusterKVFromRequest D ctx r s = (Inr (kv, cluster), s1)" "keyFromQuery r = Some key"
    "optionalInt64 (rq_Query r ''expected_mod_revision'') = Inr x"
    "archiveCurrent D (rc_clock e 0) (c_ID cluster) kv key x s1 = (Inr (Some found), s2)"
    "kv_Delete kv key x (sv_etcd s2) = (Inr (n, True), w)"
    "s' = recordAudit D r ctx (event ''key.delete'' ''key'' (c_ID cluster) (c_Name cluster) (auditKeyLabel key)
        (zhDeletedAs @ FormatInt n)) (s2\<lparr>sv_etcd := w\<rparr>)"
  using assms
  by (auto simp: handleDeleteKey_def call_eqs dest!: clusterKVFromRequest_reply split: sum.splits option.splits prod.splits if_splits)

context archive begin

lemma delete_archived:
  assumes "dp_history D = H" and "honest invar stored st (c_ID cluster) s"
    and "cg_ClusterKV (dp_clusters D) (TrimSpace (rq_Query r ''cluster_id'')) (sv_clusters s) = (Inr (K, cluster), cs)"
    and "optionalInt64 (rq_Query r ''expected_mod_revision'') = Inr (Some m)" and "m \<le> mv_rev (st (sv_etcd s))"
    and "handleDeleteKey D e ctx r s = (resp, s')" and "rs_Reply resp = DeletedReply n"
  shows "\<exists>key t old y. keyFromQuery r = Some key \<and>
    mvcc_le (st (sv_etcd s)) t \<and> mvcc_le (mdelete key t) (st (sv_etcd s')) \<and> n = mv_rev t + 1 \<and>
    current t key = Some old \<and> e_ModRevision old = m \<and>
    y \<in> set (stored (sv_history s') (c_ID cluster) key) \<and> vs_Entry y = old \<and>
    honest invar stored st (c_ID cluster) s'"
proof -
  let ?c = "c_ID cluster"
  obtain kv cl s1 key x found s2 w where s1: "clusterKVFromRequest D ctx r s = (Inr (kv, cl), s1)"
    and key: "keyFromQuery r = Some key" and x: "optionalInt64 (rq_Query r ''expected_mod_revision'') = Inr x"
    and arc': "archiveCurrent D (rc_clock e 0) (c_ID cl) kv key x s1 = (Inr (Some found), s2)"
    and del': "kv_Delete kv key x (sv_etcd s2) = (Inr (n, True), w)"
    and s': "s' = recordAudit D r ctx (event ''key.delete'' ''key'' (c_ID cl) (c_Name cl) (auditKeyLabel key)
        (zhDeletedAs @ FormatInt n)) (s2\<lparr>sv_etcd := w\<rparr>)"
    by (rule handleDeleteKey_success [OF assms(6,7)])
  have xm: "x = Some m" using x assms(4) by simp
  from s1 have eqs: "kv = K" "cl = cluster" "s1 = s\<lparr>sv_clusters := cs\<rparr>"
    using assms(3) by (auto elim!: clusterKVFromRequest_eq)
  note arc = arc' [unfolded eqs(1,2) xm] and del = del' [unfolded eqs(1,2) xm]
  have same: "sv_etcd s1 = sv_etcd s" "sv_history s1 = sv_history s" and hon1: "honest invar stored st ?c s1"
    using eqs(3) assms(2) by simp_all
  note inv1 = hon1 [unfolded honest_def]
  note law = archiveCurrent_law [OF _ _ assms(1) _ arc]
  have hon2: "honest invar stored st ?c s2"
    by (rule honest_archive [OF hon1 assms(1) arc])
  obtain t where t: "mvcc_le (st (sv_etcd s2)) t" "mod_rev t key = m" "mvcc_le (mdelete key t) (st w)" "n = mv_rev (mdelete key t)"
    using kv_delete [OF _ del] hon2 by (auto simp: honest_def)
  have "m \<noteq> 0"
    using law(5) inv1 same current_entry(2) mvcc_le_inv by fastforce
  then obtain old y where old: "current t key = Some old" "e_ModRevision old = m" "y \<in> set (stored (sv_history s2) ?c key)"
      "vs_Entry y = old"
    using archived_before_write [OF _ _ assms(1) _ arc t(1,2)] inv1 assms(5) same by auto
  have hon3: "honest invar stored st ?c (s2\<lparr>sv_etcd := w\<rparr>)"
    by (rule honest_delete [OF hon2 del])
  have keep: "stored (sv_history s') = stored (sv_history s2)" "sv_etcd s' = w"
    using recordAudit_keeps [OF _ assms(1), of "s2\<lparr>sv_etcd := w\<rparr>"] hon2 by (simp_all add: s' honest_def)
  have hon4: "honest invar stored st ?c s'"
    unfolding s' by (rule honest_recordAudit [OF hon3 assms(1)])
  have "mvcc_le (st (sv_etcd s)) t"
    using mvcc_le_trans [OF law(2) t(1)] inv1 same by simp
  moreover have "n = mv_rev t + 1" using t(4) old(1) by (simp add: mdelete_def)
  ultimately show ?thesis
    using key t(3) old keep hon4 by (intro exI [of _ key] exI [of _ t] exI [of _ old] exI [of _ y]) simp
qed

end

text \<open>
  C3. A deletion that names the revision it removes, and that the server reports as done, removes
  the value with this revision, and that value is in the history.
\<close>

theorem delete_archives_deleted_value:
  assumes "dp_history D = manager_storage U P (local_ops V J A) e0" and "mvcc_client C st"
    and "honest mgr_inv mgr_stored st (c_ID cluster) s"
    and "cg_ClusterKV (dp_clusters D) (TrimSpace (rq_Query r ''cluster_id'')) (sv_clusters s) = (Inr (Etcd order C, cluster), cs)"
    and "optionalInt64 (rq_Query r ''expected_mod_revision'') = Inr (Some m)" and "m \<le> mv_rev (st (sv_etcd s))"
    and "handleDeleteKey D e ctx r s = (resp, s')" and "rs_Reply resp = DeletedReply n"
  shows "\<exists>key t old y. keyFromQuery r = Some key \<and>
    mvcc_le (st (sv_etcd s)) t \<and> mvcc_le (mdelete key t) (st (sv_etcd s')) \<and> n = mv_rev t + 1 \<and>
    current t key = Some old \<and> e_ModRevision old = m \<and>
    y \<in> set (mgr_stored (sv_history s') (c_ID cluster) key) \<and> vs_Entry y = old \<and>
    honest mgr_inv mgr_stored st (c_ID cluster) s'"
  using assms(3-) archive.delete_archived [OF manager_archive [OF assms(2)] assms(1)] by blast

section \<open>Rollback\<close>

lemma handleRollbackKey_success:
  assumes "handleRollbackKey D e ctx r s = (resp, s')" and "rs_Reply resp = RollbackReply n q src"
  obtains request m tg kv cluster s1 key cur prev at s2 s3 w where
    "decodeJSON (dp_rollback D) r = Inr request" "rr_ExpectedModRevision request = Some m" "rr_TargetModRevision request = Some tg"
    "requestCanAccessCluster s ctx (rr_ClusterID request)"
    "clusterKV D (rr_ClusterID request) s = (Inr (kv, cluster), s1)"
    "decodeKey (rr_Key request) (rr_KeyBase64 request) = Some key"
    "rollbackTarget D (c_ID cluster) kv key m tg s1 = (Inr (cur, prev, src, at), s2)"
    "archiveRollback D e (c_ID cluster) cur prev src s2 = (None, s3)"
    "kv_Put kv key (e_Value prev) (Some (e_ModRevision cur)) (sv_etcd s3) = (Inr n, w)" "q = e_ModRevision prev"
    "s' = recordAudit D r ctx (event ''key.rollback'' ''key'' (c_ID cluster) (c_Name cluster) (auditKeyLabel key)
        (zhRolledBackFrom @ FormatInt (e_ModRevision prev) @ zhRolledBackTo @ FormatInt n)) (s3\<lparr>sv_etcd := w\<rparr>)"
  using assms
  by (auto simp: handleRollbackKey_def requireClusterAccess_simps call_eqs split: sum.splits option.splits prod.splits if_splits)

context archive begin

lemma rollback_archives:
  assumes "dp_history D = H" and "honest invar stored st (c_ID cluster) s"
    and "decodeJSON (dp_rollback D) r = Inr request"
    and "cg_ClusterKV (dp_clusters D) (rr_ClusterID request) (sv_clusters s) = (Inr (K, cluster), cs)"
    and "handleRollbackKey D e ctx r s = (resp, s')" and "rs_Reply resp = RollbackReply n q src"
  shows "\<exists>key t cur prev y. decodeKey (rr_Key request) (rr_KeyBase64 request) = Some key \<and>
    rr_TargetModRevision request = Some q \<and> rr_ExpectedModRevision request = Some (e_ModRevision cur) \<and>
    mvcc_le (st (sv_etcd s)) t \<and> mvcc_le (mput key (e_Value prev) t) (st (sv_etcd s')) \<and> n = mv_rev t + 1 \<and>
    current t key = Some cur \<and> at_rev t key q = Some prev \<and> e_ModRevision prev = q \<and> q < e_ModRevision cur \<and>
    y \<in> set (stored (sv_history s') (c_ID cluster) key) \<and> vs_Entry y = cur \<and>
    honest invar stored st (c_ID cluster) s'"
proof -
  let ?c = "c_ID cluster"
  obtain req m tg kv cl s1 key cur prev at s2 s3 w where req: "decodeJSON (dp_rollback D) r = Inr req"
    and m: "rr_ExpectedModRevision req = Some m" and tg: "rr_TargetModRevision req = Some tg"
    and s1: "clusterKV D (rr_ClusterID req) s = (Inr (kv, cl), s1)"
    and key: "decodeKey (rr_Key req) (rr_KeyBase64 req) = Some key"
    and target': "rollbackTarget D (c_ID cl) kv key m tg s1 = (Inr (cur, prev, src, at), s2)"
    and arc': "archiveRollback D e (c_ID cl) cur prev src s2 = (None, s3)"
    and put': "kv_Put kv key (e_Value prev) (Some (e_ModRevision cur)) (sv_etcd s3) = (Inr n, w)" and q: "q = e_ModRevision prev"
    and s': "s' = recordAudit D r ctx (event ''key.rollback'' ''key'' (c_ID cl) (c_Name cl) (auditKeyLabel key)
        (zhRolledBackFrom @ FormatInt (e_ModRevision prev) @ zhRolledBackTo @ FormatInt n)) (s3\<lparr>sv_etcd := w\<rparr>)"
    by (rule handleRollbackKey_success [OF assms(5,6)])
  have req: "req = request" using req assms(3) by simp
  from s1 have eqs: "kv = K" "cl = cluster" "s1 = s\<lparr>sv_clusters := cs\<rparr>"
    using assms(4) req by (auto elim!: clusterKV_eq)
  note target = target' [unfolded eqs(1,2)] and arc = arc' [unfolded eqs(2)] and put = put' [unfolded eqs(1)]
  have hon1: "honest invar stored st ?c s1" and same: "sv_etcd s1 = sv_etcd s"
    using eqs(3) assms(2) by simp_all
  obtain t y where t: "mvcc_le (st (sv_etcd s)) t" "mvcc_le (mput key (e_Value prev) t) (st w)" "n = mv_rev t + 1"
      "current t key = Some cur" "e_ModRevision cur = m" "tg < m" "at_rev t key tg = Some prev" "e_ModRevision prev = tg"
    and y: "y \<in> set (stored (sv_history s3) ?c key)" "vs_Entry y = cur"
    using rollback_write [OF hon1 assms(1) target arc put] same by auto
  have hon3: "honest invar stored st ?c s3"
    by (rule rollback_archived(1) [OF hon1 assms(1) target arc])
  have hon4: "honest invar stored st ?c (s3\<lparr>sv_etcd := w\<rparr>)"
    by (rule honest_put [OF hon3 put])
  have keep: "stored (sv_history s') = stored (sv_history s3)" "sv_etcd s' = w"
    using recordAudit_keeps [OF _ assms(1), of "s3\<lparr>sv_etcd := w\<rparr>"] hon3 by (simp_all add: s' honest_def)
  have hon5: "honest invar stored st ?c s'"
    unfolding s' by (rule honest_recordAudit [OF hon4 assms(1)])
  show ?thesis
    using key tg m req q t y keep hon5
    by (intro exI [of _ key] exI [of _ t] exI [of _ cur] exI [of _ prev] exI [of _ y]) simp
qed

end

text \<open>
  C2. A rollback that the server reports as done has written, over the version with the expected
  revision, the value of the version with the target revision as etcd had it, wherever the
  server found it (history storage or etcd), and the version it replaced is in the history: the
  rollback can itself be rolled back.
\<close>

theorem rollback_restores_target:
  assumes "dp_history D = manager_storage U P (local_ops V J A) e0" and "mvcc_client C st"
    and "honest mgr_inv mgr_stored st (c_ID cluster) s"
    and "decodeJSON (dp_rollback D) r = Inr request"
    and "cg_ClusterKV (dp_clusters D) (rr_ClusterID request) (sv_clusters s) = (Inr (Etcd order C, cluster), cs)"
    and "handleRollbackKey D e ctx r s = (resp, s')" and "rs_Reply resp = RollbackReply n q src"
  shows "\<exists>key t cur prev y. decodeKey (rr_Key request) (rr_KeyBase64 request) = Some key \<and>
    rr_TargetModRevision request = Some q \<and> rr_ExpectedModRevision request = Some (e_ModRevision cur) \<and>
    mvcc_le (st (sv_etcd s)) t \<and> mvcc_le (mput key (e_Value prev) t) (st (sv_etcd s')) \<and> n = mv_rev t + 1 \<and>
    current t key = Some cur \<and> at_rev t key q = Some prev \<and> e_ModRevision prev = q \<and> q < e_ModRevision cur \<and>
    y \<in> set (mgr_stored (sv_history s') (c_ID cluster) key) \<and> vs_Entry y = cur \<and>
    honest mgr_inv mgr_stored st (c_ID cluster) s'"
  using assms(3-) archive.rollback_archives [OF manager_archive [OF assms(2)] assms(1)] by blast

end
