(* ===== verification/Server_Versions.thy ===== *)
theory Server_Versions
  imports Server_Keys_Theorems
begin

text \<open>
  The list of versions a key can be rolled back to. The walk through the revisions of etcd gives
  the chain of versions of the key, newest first; together with the snapshots of the history
  storage it gives every version that is known, each with the value etcd had, and the pages follow
  each other without a gap.
\<close>

section \<open>The chain of versions\<close>

text \<open>The versions of a key from a revision down to its creation, newest first.\<close>

function version_chain :: "mvcc \<Rightarrow> bytes \<Rightarrow> int \<Rightarrow> Entry list" where
  "version_chain m k q =
    (case at_rev m k q of
       None \<Rightarrow> []
     | Some e \<Rightarrow> if 1 \<le> e_ModRevision e \<and> e_ModRevision e \<le> q then e # version_chain m k (e_ModRevision e - 1) else [])"
  by pat_completeness auto
termination
  by (relation "measure (\<lambda>(m, k, q). nat q)") auto

declare version_chain.simps [simp del]

lemma version_chain_cases:
  assumes "e \<in> set (version_chain m k q)"
  obtains x where "at_rev m k q = Some x" "1 \<le> e_ModRevision x \<and> e_ModRevision x \<le> q"
    "e = x \<or> e \<in> set (version_chain m k (e_ModRevision x - 1))"
proof -
  have "e \<in> set (case at_rev m k q of None \<Rightarrow> []
      | Some x \<Rightarrow> if 1 \<le> e_ModRevision x \<and> e_ModRevision x \<le> q then x # version_chain m k (e_ModRevision x - 1) else [])"
    using assms by (simp only: version_chain.simps [of m k q])
  then show thesis
    by (cases "at_rev m k q") (auto intro: that split: if_splits)
qed

lemma version_chain_bounds:
  "e \<in> set (version_chain m k q) \<Longrightarrow> 1 \<le> e_ModRevision e \<and> e_ModRevision e \<le> q"
proof (induction m k q rule: version_chain.induct)
  case (1 m k q)
  from "1.prems" show ?case
    by (rule version_chain_cases) (use "1.IH" in fastforce)
qed

lemma version_chain_desc:
  "desc_by e_ModRevision (version_chain m k q) \<and> distinct (map e_ModRevision (version_chain m k q))"
proof (induction m k q rule: version_chain.induct)
  case (1 m k q)
  show ?case
  proof (cases "\<exists>e. at_rev m k q = Some e \<and> 1 \<le> e_ModRevision e \<and> e_ModRevision e \<le> q")
    case True
    then obtain e where e: "at_rev m k q = Some e" "1 \<le> e_ModRevision e \<and> e_ModRevision e \<le> q" by blast
    have chain: "version_chain m k q = e # version_chain m k (e_ModRevision e - 1)"
      using e by (simp add: version_chain.simps [of m k q])
    have "\<forall>x \<in> set (version_chain m k (e_ModRevision e - 1)). e_ModRevision x < e_ModRevision e"
      using version_chain_bounds by fastforce
    with 1 [OF e] show ?thesis by (auto simp: chain)
  next
    case False
    then have "version_chain m k q = []"
      by (auto simp: version_chain.simps [of m k q] split: option.splits)
    then show ?thesis by simp
  qed
qed

text \<open>Every element of the chain is what etcd had at its revision.\<close>

lemma version_chain_recorded:
  assumes "mvcc_inv m" and "e \<in> set (version_chain m k q)"
  shows "at_rev m k (e_ModRevision e) = Some e"
  using assms
proof (induction m k q rule: version_chain.induct)
  case (1 m k q)
  obtain x where x: "at_rev m k q = Some x" "1 \<le> e_ModRevision x \<and> e_ModRevision x \<le> q"
    and e: "e = x \<or> e \<in> set (version_chain m k (e_ModRevision x - 1))"
    using "1.prems"(2) by (rule version_chain_cases)
  show ?case
  proof (cases "e = x")
    case True
    then show ?thesis using at_rev_between [OF "1.prems"(1) x(1) order_refl] x(2) by simp
  next
    case False
    then show ?thesis using "1.IH" [OF x] "1.prems"(1) e by simp
  qed
qed

section \<open>The walk\<close>

context kv_store begin

lemma etcdVersions_law:
  assumes "mvcc_inv (st w)" and "etcdVersions K key q limit es0 w = (r, w')"
  shows "mvcc_le (st w) (st w') \<and>
    (\<forall>es cmp. r = Inr (es, cmp) \<longrightarrow> (\<exists>new rest. es = es0 @ new \<and> version_chain (st w') key q = new @ rest \<and>
      (int (length es0) \<le> limit \<longrightarrow> int (length es) \<le> limit) \<and>
      (if cmp then \<forall>e \<in> set rest. e_ModRevision e < mv_compact (st w') else rest = [] \<or> limit \<le> int (length es))))"
  using assms
proof (induction "nat q" arbitrary: q es0 w rule: less_induct)
  case less
  show ?case
  proof (cases "0 < q \<and> int (length es0) < limit")
    case False
    then have res: "r = Inr (es0, False)" "w' = w" using less.prems(2) by (auto simp: etcdVersions.simps)
    have "version_chain (st w) key q = []" if "\<not> 0 < q"
      using that version_chain_bounds [of _ "st w" key q] by (cases "version_chain (st w) key q") (auto, fastforce)
    with False show ?thesis
      by (auto simp: res mvcc_le_refl [OF less.prems(1)])
  next
    case True
    obtain a w1 where get: "kv_GetAtRevision K key q w = (a, w1)" by fastforce
    note law = kv_at [OF less.prems(1) get]
    show ?thesis
    proof (cases a)
      case (Inl err)
      then have res: "w' = w1" "r = (if errorsIs err ErrHistoryCompacted then Inr (es0, True) else Inl err)"
        using less.prems(2) True get by (auto simp: etcdVersions.simps split: if_splits)
      have "\<forall>e \<in> set (version_chain (st w1) key q). e_ModRevision e < mv_compact (st w1)" if "errorsIs err ErrHistoryCompacted"
        using version_chain_bounds law Inl that by fastforce
      with law show ?thesis by (auto simp: res)
    next
      case (Inr found)
      have at: "1 \<le> q" "q \<le> mv_rev (st w1)" "found = at_rev (st w1) key q" and le: "mvcc_le (st w) (st w1)"
        using law Inr by auto
      show ?thesis
      proof (cases found)
        case None
        then have res: "w' = w1" "r = Inr (es0, False)"
          using less.prems(2) True get Inr by (auto simp: etcdVersions.simps)
        have "version_chain (st w1) key q = []"
          using at(3) None by (simp add: version_chain.simps [of _ _ q])
        with le show ?thesis by (auto simp: res)
      next
        case (Some e)
        have e: "1 \<le> e_ModRevision e" "e_ModRevision e \<le> q"
          using at_rev_entry [OF mvcc_le_inv [OF le]] at(3) Some by auto
        then have rec: "etcdVersions K key (e_ModRevision e - 1) limit (es0 @ [e]) w1 = (r, w')"
          using less.prems(2) True get Inr Some by (subst (asm) etcdVersions.simps) simp
        have IH: "mvcc_le (st w1) (st w') \<and>
          (\<forall>es cmp. r = Inr (es, cmp) \<longrightarrow> (\<exists>new rest. es = (es0 @ [e]) @ new \<and>
            version_chain (st w') key (e_ModRevision e - 1) = new @ rest \<and>
            (int (length (es0 @ [e])) \<le> limit \<longrightarrow> int (length es) \<le> limit) \<and>
            (if cmp then \<forall>e \<in> set rest. e_ModRevision e < mv_compact (st w') else rest = [] \<or> limit \<le> int (length es))))"
          by (rule less.hyps) (use e rec mvcc_le_inv [OF le] in auto)
        have "at_rev (st w') key q = Some e"
          using at_rev_stable [OF conjunct1 [OF IH] at(2)] at(3) Some by simp
        then have chain: "version_chain (st w') key q = e # version_chain (st w') key (e_ModRevision e - 1)"
          using e by (simp add: version_chain.simps [of _ _ q])
        show ?thesis
        proof (intro conjI allI impI)
          show "mvcc_le (st w) (st w')" using mvcc_le_trans [OF le conjunct1 [OF IH]] .
          fix es cmp
          assume "r = Inr (es, cmp)"
          then obtain new rest where nr: "es = (es0 @ [e]) @ new" "version_chain (st w') key (e_ModRevision e - 1) = new @ rest"
              "int (length (es0 @ [e])) \<le> limit \<longrightarrow> int (length es) \<le> limit"
              "if cmp then \<forall>e \<in> set rest. e_ModRevision e < mv_compact (st w') else rest = [] \<or> limit \<le> int (length es)"
            using IH by blast
          show "\<exists>new rest. es = es0 @ new \<and> version_chain (st w') key q = new @ rest \<and>
              (int (length es0) \<le> limit \<longrightarrow> int (length es) \<le> limit) \<and>
              (if cmp then \<forall>e \<in> set rest. e_ModRevision e < mv_compact (st w') else rest = [] \<or> limit \<le> int (length es))"
            by (rule exI [of _ "e # new"], rule exI [of _ rest]) (use nr chain True in auto)
        qed
      qed
    qed
  qed
qed

end

lemma etcd_versions_walk:
  assumes "kv_store K st" and "mvcc_inv (st w)" and "0 \<le> limit"
    and "etcdVersionsBefore K key before limit w = (Inr (es, cmp), w')"
  shows "\<exists>rest. version_chain (st w') key (before - 1) = es @ rest \<and> int (length es) \<le> limit \<and>
    (if cmp then \<forall>e \<in> set rest. e_ModRevision e < mv_compact (st w') else rest = [] \<or> int (length es) = limit)"
proof -
  obtain rest where "version_chain (st w') key (before - 1) = es @ rest" "int (length es) \<le> limit"
      "if cmp then \<forall>e \<in> set rest. e_ModRevision e < mv_compact (st w') else rest = [] \<or> limit \<le> int (length es)"
    using kv_store.etcdVersions_law [OF assms(1,2) assms(4) [unfolded etcdVersionsBefore_def]] assms(3) by auto
  then show ?thesis by (intro exI [of _ rest]) (auto split: if_splits)
qed

text \<open>
  The walk through the revisions of etcd returns, for any client that meets the laws of etcd,
  the versions of the key below the given revision, newest first, each once: a prefix of
  the chain of versions that is cut only where the limit is reached or where etcd has compacted
  its history.
\<close>

theorem etcd_versions_exact:
  assumes "mvcc_client C st" and "mvcc_inv (st w)" and "0 \<le> limit"
    and "etcdVersionsBefore (Etcd order C) key before limit w = (Inr (es, compacted), w')"
  shows "\<exists>rest. version_chain (st w') key (before - 1) = es @ rest \<and> int (length es) \<le> limit \<and>
    (if compacted then \<forall>e \<in> set rest. e_ModRevision e < mv_compact (st w') else rest = [] \<or> int (length es) = limit)"
  using etcd_versions_walk [OF mvcc_client.Etcd_kv_store [OF assms(1)] assms(2-4)] .

section \<open>Merging\<close>

abbreviation rb_rev :: "rollbackCandidate \<Rightarrow> int" where
  "rb_rev c \<equiv> e_ModRevision (rb_Entry c)"

text \<open>The map from revisions to candidates: every candidate is stored under its own revision.\<close>

definition keyed :: "(int \<times> rollbackCandidate) list \<Rightarrow> bool" where
  "keyed m \<longleftrightarrow> distinct (map fst m) \<and> (\<forall>x \<in> set m. fst x = rb_rev (snd x))"

lemma keyed_update:
  assumes "keyed m" and "q = rb_rev c"
  shows "keyed (AList.update q c m)" "fst ` set (AList.update q c m) = insert q (fst ` set m)"
    and "x \<in> set (AList.update q c m) \<Longrightarrow> x = (q, c) \<or> x \<in> set m"
proof -
  have sub: "y = (q, c) \<or> y \<in> set m" if "y \<in> set (AList.update q c m)" for y
    using that by (induction m) (auto split: if_splits)
  then show "x \<in> set (AList.update q c m) \<Longrightarrow> x = (q, c) \<or> x \<in> set m" .
  show "keyed (AList.update q c m)"
    using assms sub unfolding keyed_def by (fastforce simp: distinct_update)
  show "fst ` set (AList.update q c m) = insert q (fst ` set m)"
    by (simp add: dom_update)
qed

lemma addSnapshot_keyed:
  assumes "keyed m"
  shows "keyed (addSnapshot y m)" "fst ` set (addSnapshot y m) = insert (vs_rev y) (fst ` set m)"
    and "x \<in> set (addSnapshot y m) \<Longrightarrow> x = (vs_rev y, fromStorage y) \<or> x \<in> set m"
  using keyed_update [OF assms, of "vs_rev y" "fromStorage y"] by (simp_all add: addSnapshot_def fromStorage_def)

lemma addEntry_keyed:
  assumes "keyed m"
  shows "keyed (addEntry e m)" "fst ` set (addEntry e m) = insert (e_ModRevision e) (fst ` set m)"
    and "x \<in> set (addEntry e m) \<Longrightarrow> x = (e_ModRevision e, fromEtcd e) \<or> x \<in> set m"
proof -
  have rev: "e_ModRevision e = rb_rev (fromEtcd e)" by (simp add: fromEtcd_def)
  note upd = keyed_update [OF assms rev]
  show "keyed (addEntry e m)" using upd(1) assms by (simp add: addEntry_def)
  show "fst ` set (addEntry e m) = insert (e_ModRevision e) (fst ` set m)"
    using upd(2) by (auto simp: addEntry_def map_of_eq_None_iff)
  show "x \<in> set (addEntry e m) \<Longrightarrow> x = (e_ModRevision e, fromEtcd e) \<or> x \<in> set m"
    using upd(3) [of x] by (simp add: addEntry_def split: if_splits)
qed

lemma fold_addSnapshot:
  assumes "keyed m"
  shows "keyed (fold addSnapshot ys m) \<and> fst ` set (fold addSnapshot ys m) = vs_rev ` set ys \<union> fst ` set m \<and>
    (\<forall>x \<in> set (fold addSnapshot ys m). x \<in> set m \<or> (\<exists>y \<in> set ys. x = (vs_rev y, fromStorage y)))"
  using assms
proof (induction ys arbitrary: m)
  case (Cons y ys)
  note step = addSnapshot_keyed [where y = y, OF Cons.prems]
  note IH = Cons.IH [OF step(1)]
  have "x \<in> set m \<or> (\<exists>z \<in> set (y # ys). x = (vs_rev z, fromStorage z))" if "x \<in> set (fold addSnapshot (y # ys) m)" for x
    using IH step(3) [of x] that by auto
  with IH step(2) show ?case by auto
qed simp

lemma fold_addEntry:
  assumes "keyed m"
  shows "keyed (fold addEntry es m) \<and> fst ` set (fold addEntry es m) = e_ModRevision ` set es \<union> fst ` set m \<and>
    (\<forall>x \<in> set (fold addEntry es m). x \<in> set m \<or> (\<exists>e \<in> set es. x = (e_ModRevision e, fromEtcd e)))"
  using assms
proof (induction es arbitrary: m)
  case (Cons e es)
  note step = addEntry_keyed [where e = e, OF Cons.prems]
  note IH = Cons.IH [OF step(1)]
  have "x \<in> set m \<or> (\<exists>z \<in> set (e # es). x = (e_ModRevision z, fromEtcd z))" if "x \<in> set (fold addEntry (e # es) m)" for x
    using IH step(3) [of x] that by auto
  with IH step(2) show ?case by auto
qed simp

lemma keyed_revs:
  assumes "keyed m"
  shows "map rb_rev (map snd m) = map fst m"
  using assms by (auto simp: keyed_def)

text \<open>The merged list has exactly the revisions of both sources, each once, newest first.\<close>

lemma merged_candidates:
  fixes ys es
  defines "cs \<equiv> sort_desc rb_rev (map snd (fold addEntry es (fold addSnapshot ys [])))"
  shows "desc_by rb_rev cs" "distinct (map rb_rev cs)" "rb_rev ` set cs = vs_rev ` set ys \<union> e_ModRevision ` set es"
    and "x \<in> set cs \<Longrightarrow> (\<exists>y \<in> set ys. x = fromStorage y) \<or> (\<exists>e \<in> set es. x = fromEtcd e)"
proof -
  let ?m = "fold addEntry es (fold addSnapshot ys [])"
  have s: "keyed (fold addSnapshot ys []) \<and> fst ` set (fold addSnapshot ys []) = vs_rev ` set ys \<and>
      (\<forall>x \<in> set (fold addSnapshot ys []). \<exists>y \<in> set ys. x = (vs_rev y, fromStorage y))"
    using fold_addSnapshot [of "[]" ys, unfolded keyed_def [of "[]"]] by simp
  note e = fold_addEntry [OF conjunct1 [OF s], of es]
  have revs: "map rb_rev (map snd ?m) = map fst ?m"
    using keyed_revs e by blast
  show "desc_by rb_rev cs" by (simp add: cs_def)
  have "distinct (map fst ?m)" using e by (simp add: keyed_def)
  then show "distinct (map rb_rev cs)"
    unfolding cs_def distinct_sort_desc revs .
  have "rb_rev ` set cs = set (map rb_rev (map snd ?m))" by (simp add: cs_def image_image)
  also have "\<dots> = fst ` set ?m" by (simp only: revs set_map)
  finally show "rb_rev ` set cs = vs_rev ` set ys \<union> e_ModRevision ` set es" using e s by auto
  show "x \<in> set cs \<Longrightarrow> (\<exists>y \<in> set ys. x = fromStorage y) \<or> (\<exists>e \<in> set es. x = fromEtcd e)"
    using e s by (fastforce simp: cs_def)
qed

text \<open>What is not on a page of a descending list is below everything on the page.\<close>

lemma desc_page:
  fixes f :: "'a \<Rightarrow> int"
  assumes "desc_by f cs" and "distinct (map f cs)" and "x \<in> set cs" and "x \<notin> set (take n cs)"
  shows "\<forall>y \<in> set (take n cs). f x < f y" "n < length cs"
proof -
  have "x \<in> set (drop n cs)" using assms(3,4) by (metis Un_iff append_take_drop_id set_append)
  then show "n < length cs" by (metis drop_all empty_iff list.set(1) not_le)
  have "sorted_wrt (\<lambda>x y. f y \<le> f x) (take n cs @ drop n cs)" "distinct (map f (take n cs @ drop n cs))"
    using assms(1,2) by (simp_all add: desc_by_def)
  then have "f x \<le> f y \<and> f x \<noteq> f y" if "y \<in> set (take n cs)" for y
    using that \<open>x \<in> set (drop n cs)\<close> unfolding sorted_wrt_append map_append distinct_append by (auto simp: image_iff)
  then show "\<forall>y \<in> set (take n cs). f x < f y" by (simp add: order_less_le)
qed

lemma desc_page_bound:
  fixes f :: "'a \<Rightarrow> int"
  assumes "desc_by f cs" and "distinct (map f cs)" and "finite S" and "S \<subseteq> f ` set cs" and "\<forall>r \<in> S. q < r" and "n < card S"
  shows "\<forall>y \<in> set (take n cs). q < f y" "n < length cs"
proof -
  have "card S \<le> length cs"
    using card_mono [OF _ assms(4)] card_image_le [of "set cs" f] card_length [of cs] by (simp add: order_trans)
  with assms(6) show n: "n < length cs" by simp
  show "\<forall>y \<in> set (take n cs). q < f y"
  proof (cases "S \<subseteq> f ` set (take n cs)")
    case True
    then have "card S \<le> n"
      using card_mono [OF _ True] card_image_le [of "set (take n cs)" f] card_length [of "take n cs"] n by simp
    with assms(6) show ?thesis by simp
  next
    case False
    then obtain r x where "r \<in> S" "x \<in> set cs" "r = f x" "x \<notin> set (take n cs)" using assms(4) by blast
    with desc_page(1) [OF assms(1,2)] assms(5) show ?thesis by force
  qed
qed

section \<open>Pages of candidates\<close>

text \<open>The revisions below a bound that can be found: those of the snapshots, and those that etcd has not compacted.\<close>

definition known_revisions :: "ValueSnapshot list \<Rightarrow> mvcc \<Rightarrow> bytes \<Rightarrow> int \<Rightarrow> int set" where
  "known_revisions snaps m key before =
    vs_rev ` {y \<in> set snaps. vs_rev y < before} \<union>
    e_ModRevision ` {e \<in> set (version_chain m key (before - 1)). mv_compact m \<le> e_ModRevision e}"

text \<open>A source that gave a prefix of its descending list either gave the revision or enough newer ones.\<close>

lemma prefix_or_enough:
  fixes f :: "'a \<Rightarrow> int"
  assumes "desc_by f (xs @ rest)" and "distinct (map f (xs @ rest))" and "x \<in> set (xs @ rest)" and "x \<notin> set xs"
  shows "\<forall>r \<in> f ` set xs. f x < r" "card (f ` set xs) = length xs"
proof -
  have "x \<notin> set (take (length xs) (xs @ rest))" using assms(4) by simp
  from desc_page(1) [OF assms(1-3) this] show "\<forall>r \<in> f ` set xs. f x < r" by auto
  show "card (f ` set xs) = length xs"
    using assms(2) distinct_card [of "map f xs"] by simp
qed

lemma page_covers:
  assumes "desc_by rb_rev cs" and "distinct (map rb_rev cs)" and "vs_rev ` set ys \<union> e_ModRevision ` set es = rb_rev ` set cs"
    and "0 \<le> limit"
    and "desc_by vs_rev all" "distinct (map vs_rev all)" "ys = take (nat (limit + 1)) all"
    and "version_chain m key q = es @ rest"
    and "if cmp then \<forall>e \<in> set rest. e_ModRevision e < mv_compact m else rest = [] \<or> int (length es) = limit + 1"
    and "r \<in> vs_rev ` set all \<union> e_ModRevision ` {e \<in> set (version_chain m key q). mv_compact m \<le> e_ModRevision e}"
  shows "r \<in> rb_rev ` set (take (nat limit) cs) \<or> (\<forall>c \<in> set (take (nat limit) cs). r < rb_rev c) \<and> limit < int (length cs)"
proof (cases "r \<in> rb_rev ` set cs")
  case True
  then obtain c where "c \<in> set cs" "r = rb_rev c" by blast
  with desc_page [OF assms(1,2), of c "nat limit"] assms(4) show ?thesis by fastforce
next
  case False
  have "\<exists>S. S \<subseteq> rb_rev ` set cs \<and> (\<forall>x \<in> S. r < x) \<and> nat limit < card S"
    using assms(10)
  proof
    assume "r \<in> vs_rev ` set all"
    then obtain y where y: "y \<in> set all" "r = vs_rev y" "y \<notin> set ys"
      using False assms(3) by blast
    have "nat (limit + 1) < length all"
      using y assms(7) by (metis not_less take_all)
    then have len: "length ys = nat limit + 1" using assms(4,7) by (simp add: nat_add_distrib)
    have "\<forall>x \<in> vs_rev ` set ys. r < x" "card (vs_rev ` set ys) = length ys"
      using prefix_or_enough [of vs_rev ys "drop (nat (limit + 1)) all" y] assms(5-7) y by simp_all
    with len assms(3) show ?thesis by (intro exI [of _ "vs_rev ` set ys"]) auto
  next
    assume "r \<in> e_ModRevision ` {e \<in> set (version_chain m key q). mv_compact m \<le> e_ModRevision e}"
    then obtain e where e: "e \<in> set (es @ rest)" "mv_compact m \<le> e_ModRevision e" "r = e_ModRevision e"
      using assms(8) by auto
    with False assms(3) have "e \<notin> set es" by blast
    note e = e this
    have len: "int (length es) = limit + 1"
      using assms(9) e by (auto split: if_splits)
    have "\<forall>x \<in> e_ModRevision ` set es. r < x" "card (e_ModRevision ` set es) = length es"
      using prefix_or_enough [of e_ModRevision es rest e] version_chain_desc [of m key q] assms(8) e by simp_all
    moreover have "nat limit < length es" using len assms(4) by linarith
    ultimately show ?thesis using assms(3) by (intro exI [of _ "e_ModRevision ` set es"]) auto
  qed
  then obtain S where S: "S \<subseteq> rb_rev ` set cs" "\<forall>x \<in> S. r < x" "nat limit < card S" by blast
  have "finite S" using S(1) finite_subset by blast
  from desc_page_bound [OF assms(1,2) this S] assms(4) show ?thesis by auto
qed

lemma rollbackCandidates_ok:
  assumes "rollbackCandidates D c K key before limit s = (Inr (cs, hasMore), s')"
  shows "\<exists>ys h es cmp w. hst_ListBefore (dp_history D) c key before (limit + 1) (sv_history s) = (Inr ys, h) \<and>
    etcdVersionsBefore K key before (limit + 1) (sv_etcd s) = (Inr (es, cmp), w) \<and> s' = s\<lparr>sv_history := h, sv_etcd := w\<rparr> \<and>
    cs = take (nat limit) (sort_desc rb_rev (map snd (fold addEntry es (fold addSnapshot ys [])))) \<and>
    hasMore = (limit < int (length (sort_desc rb_rev (map snd (fold addEntry es (fold addSnapshot ys []))))))"
  using assms
  by (auto simp: rollbackCandidates_def call_eqs Let_def split: sum.splits prod.splits if_splits)

text \<open>
  C10. The versions a key can be rolled back to. A page has at most as many versions as asked for,
  all below the given revision, in strictly descending order, and each with the value etcd had
  at its revision, whether it comes from the history storage or from etcd; and no version is
  missing: every revision that the storage has, or that etcd has and has not compacted, is on the
  page, or it is older than everything on the page and the page says that there are more.
\<close>

theorem rollback_versions_complete:
  assumes "dp_history D = manager_storage U P (local_ops V J A) e0" and "mvcc_client C st"
    and "honest mgr_inv mgr_stored st c s" and "0 \<le> limit"
    and "rollbackCandidates D c (Etcd order C) key before limit s = (Inr (cs, hasMore), s')"
  shows "int (length cs) \<le> limit \<and> desc_by rb_rev cs \<and> distinct (map rb_rev cs) \<and>
    (\<forall>x \<in> set cs. rb_rev x < before \<and> at_rev (st (sv_etcd s')) key (rb_rev x) = Some (rb_Entry x)) \<and>
    (\<forall>q \<in> known_revisions (mgr_stored (sv_history s') c key) (st (sv_etcd s')) key before.
       q \<in> rb_rev ` set cs \<or> hasMore \<and> (\<forall>x \<in> set cs. q < rb_rev x))"
proof -
  let ?H = "manager_storage U P (local_ops V J A) e0" and ?K = "Etcd order C"
  note ar = manager_archive [OF assms(2)]
  obtain ys h es cmp w where list: "hst_ListBefore ?H c key before (limit + 1) (sv_history s) = (Inr ys, h)"
    and versions: "etcdVersionsBefore ?K key before (limit + 1) (sv_etcd s) = (Inr (es, cmp), w)"
    and s': "s' = s\<lparr>sv_history := h, sv_etcd := w\<rparr>"
    and cs: "cs = take (nat limit) (sort_desc rb_rev (map snd (fold addEntry es (fold addSnapshot ys []))))"
    and hasMore: "hasMore = (limit < int (length (sort_desc rb_rev (map snd (fold addEntry es (fold addSnapshot ys []))))))"
    using rollbackCandidates_ok [OF assms(5)] assms(1) by auto
  let ?all = "sort_desc rb_rev (map snd (fold addEntry es (fold addSnapshot ys [])))"
  have inv: "mvcc_inv (st (sv_etcd s))" "mgr_inv (sv_history s)" "truthful (mgr_stored (sv_history s)) c (st (sv_etcd s))"
    using assms(3) by (simp_all add: honest_def)
  let ?below = "filter (\<lambda>x. vs_rev x < before) (mgr_stored (sv_history s) c key)"
  have ys: "ys = take (nat (limit + 1)) ?below" and h: "mgr_stored h = mgr_stored (sv_history s)"
    using hm.list_law [OF inv(2) list] by auto
  have below: "desc_by vs_rev ?below" "distinct (map vs_rev ?below)"
    using hm.stored_desc [OF inv(2)] hm.stored_distinct [OF inv(2)] by (simp_all add: desc_by_filter distinct_map_filter)
  have kv: "kv_store ?K st" by (rule mvcc_client.Etcd_kv_store [OF assms(2)])
  have le: "mvcc_le (st (sv_etcd s)) (st w)"
    using kv_store.etcdVersions_law [OF kv inv(1) versions [unfolded etcdVersionsBefore_def]] by blast
  obtain rest where chain: "version_chain (st w) key (before - 1) = es @ rest"
    and cut: "if cmp then \<forall>e \<in> set rest. e_ModRevision e < mv_compact (st w) else rest = [] \<or> int (length es) = limit + 1"
    using etcd_versions_walk [OF kv inv(1) _ versions] assms(4) by force
  note merged = merged_candidates [where es = es and ys = ys]
  have stored: "vs_rev y < before \<and> at_rev (st w) key (vs_rev y) = Some (vs_Entry y)" if "y \<in> set ys" for y
    using that ys truthfulD [OF truthful_later [OF inv(3) le]] by (auto dest: in_set_takeD)
  have recorded: "e_ModRevision e < before \<and> at_rev (st w) key (e_ModRevision e) = Some e" if "e \<in> set es" for e
  proof -
    have "e \<in> set (version_chain (st w) key (before - 1))" using that chain by simp
    from version_chain_bounds [OF this] version_chain_recorded [OF mvcc_le_inv [OF le] this] show ?thesis by simp
  qed
  have src: "rb_rev x < before \<and> at_rev (st w) key (rb_rev x) = Some (rb_Entry x)" if "x \<in> set ?all" for x
    using merged(4) [OF that] stored recorded by (auto simp: fromStorage_def fromEtcd_def)
  have "q \<in> rb_rev ` set cs \<or> hasMore \<and> (\<forall>x \<in> set cs. q < rb_rev x)"
    if "q \<in> known_revisions (mgr_stored (sv_history s') c key) (st (sv_etcd s')) key before" for q
    using page_covers [OF merged(1,2) merged(3) [symmetric] assms(4) below ys chain cut, of q] that
    by (auto simp: known_revisions_def s' h cs hasMore)
  then show ?thesis
    using merged(1,2) src assms(4)
    by (auto simp: cs s' desc_by_take take_map [symmetric] dest: in_set_takeD)
qed

end
