(* ===== verification/Server_Admin.thy ===== *)
theory Server_Admin
  imports Server_Keys
begin

text \<open>
  The handlers of clusters and of the history storage in \<open>internal/app/server.go\<close>, those of
  logins, settings and users in \<open>internal/app/auth.go\<close>, and \<open>Handler\<close>: the routes and the
  authentication in front of them. A call on the authentication manager of a server that
  has none ends in a panic, after the checks of the input that some of these calls make before.
\<close>

section \<open>Clusters\<close>

definition handleListClusters ::
    "('r, 'h, 'w) deps \<Rightarrow> Principal option \<Rightarrow> request \<Rightarrow> ('r, 'h, 'w) Server \<Rightarrow> response \<times> ('r, 'h, 'w) Server" where
  "handleListClusters D ctx r s =
    (let clusters = cg_ListClusters (dp_clusters D) (sv_clusters s) in
     (writeJSON 200
       (if \<not> requestIsAdmin s ctx
        then ClusterSummariesReply (map (\<lambda>c. \<lparr>sm_ID = c_ID c, sm_Name = c_Name c\<rparr>)
               (filter (\<lambda>c. requestCanAccessCluster s ctx (c_ID c)) clusters))
        else ClustersReply (map makeClusterResponse clusters)), s))"

definition handleCreateCluster ::
    "('r, 'h, 'w) deps \<Rightarrow> Principal option \<Rightarrow> request \<Rightarrow> ('r, 'h, 'w) Server \<Rightarrow> response \<times> ('r, 'h, 'w) Server" where
  "handleCreateCluster D ctx r s =
    (case requireAdmin s ctx of
       Inl resp \<Rightarrow> (resp, s)
     | Inr _ \<Rightarrow>
         (case decodeJSON (dp_cluster D) r of
            Inl _ \<Rightarrow> (writeError 400 ''invalid_request'', s)
          | Inr request \<Rightarrow>
              (case call_clusters (cg_CreateCluster (dp_clusters D) (toInput request)) s of
                 (Inl err, s1) \<Rightarrow> (writeClusterMutationError err, s1)
               | (Inr cluster, s1) \<Rightarrow>
                   (writeJSON 201 (ClusterReply (makeClusterResponse cluster)),
                    recordAudit D r ctx (event ''cluster.create'' ''cluster'' (c_ID cluster) (c_Name cluster) (c_Name cluster)
                      (zhConfigured @ FormatInt (int (length (c_Endpoints cluster))) @ zhEndpoints)) s1))))"

definition handleUpdateCluster ::
    "('r, 'h, 'w) deps \<Rightarrow> Principal option \<Rightarrow> request \<Rightarrow> ('r, 'h, 'w) Server \<Rightarrow> response \<times> ('r, 'h, 'w) Server" where
  "handleUpdateCluster D ctx r s =
    (case requireAdmin s ctx of
       Inl resp \<Rightarrow> (resp, s)
     | Inr _ \<Rightarrow>
         (case decodeJSON (dp_cluster D) r of
            Inl _ \<Rightarrow> (writeError 400 ''invalid_request'', s)
          | Inr request \<Rightarrow>
              (case call_clusters (cg_UpdateCluster (dp_clusters D) (rq_PathValue r ''id'') (toInput request)) s of
                 (Inl err, s1) \<Rightarrow> (writeClusterMutationError err, s1)
               | (Inr cluster, s1) \<Rightarrow>
                   (writeJSON 200 (ClusterReply (makeClusterResponse cluster)),
                    recordAudit D r ctx (event ''cluster.update'' ''cluster'' (c_ID cluster) (c_Name cluster) (c_Name cluster)
                      (zhUpdatedEndpoints @ FormatInt (int (length (c_Endpoints cluster))) @ zhEndpoints)) s1))))"

text \<open>An error of \<open>RemoveClusterPermissions\<close> is logged.\<close>

definition removeClusterPermissions :: "('r, 'h, 'w) deps \<Rightarrow> env \<Rightarrow> string \<Rightarrow> ('r, 'h, 'w) Server \<Rightarrow> ('r, 'h, 'w) Server" where
  "removeClusterPermissions D e clusterID s =
    (case sv_auth s of
       None \<Rightarrow> s
     | Some st \<Rightarrow> s\<lparr>sv_auth := Some (snd (RemoveClusterPermissions (dp_auth D) (rc_clock e) (ce_io (rc_call e)) clusterID st))\<rparr>)"

definition handleDeleteCluster ::
    "('r, 'h, 'w) deps \<Rightarrow> env \<Rightarrow> Principal option \<Rightarrow> request \<Rightarrow> ('r, 'h, 'w) Server \<Rightarrow> response \<times> ('r, 'h, 'w) Server" where
  "handleDeleteCluster D e ctx r s =
    (case requireAdmin s ctx of
       Inl resp \<Rightarrow> (resp, s)
     | Inr _ \<Rightarrow>
         (let clusterID = rq_PathValue r ''id''; cluster = clusterConfiguration D clusterID s in
          case call_clusters (cg_DeleteCluster (dp_clusters D) clusterID) s of
            (Inl err, s1) \<Rightarrow> (writeClusterMutationError err, s1)
          | (Inr _, s1) \<Rightarrow>
              (writeJSON 200 (FlagReply ''deleted'' True),
               recordAudit D r ctx (event ''cluster.delete'' ''cluster'' clusterID (c_Name cluster)
                 (if c_Name cluster = [] then clusterID else c_Name cluster) zhDeletedCluster)
                 (removeClusterPermissions D e clusterID s1))))"

definition handleTestCluster ::
    "('r, 'h, 'w) deps \<Rightarrow> Principal option \<Rightarrow> request \<Rightarrow> ('r, 'h, 'w) Server \<Rightarrow> response \<times> ('r, 'h, 'w) Server" where
  "handleTestCluster D ctx r s =
    (case requireAdmin s ctx of
       Inl resp \<Rightarrow> (resp, s)
     | Inr _ \<Rightarrow>
         (case decodeJSON (dp_cluster D) r of
            Inl _ \<Rightarrow> (writeError 400 ''invalid_request'', s)
          | Inr request \<Rightarrow>
              (case call_clusters (cg_TestCluster (dp_clusters D) (cr_ID request) (toInput request)) s of
                 (Some err, s1) \<Rightarrow>
                   (if errorsIs err ErrInvalidCluster \<or> errorsIs err ErrClusterNotFound then writeClusterMutationError err
                    else writeJSON 200 (ConnectedReply False), s1)
               | (None, s1) \<Rightarrow> (writeJSON 200 (ConnectedReply True), s1))))"

section \<open>History storage\<close>

definition handleHistoryStorageStatus ::
    "('r, 'h, 'w) deps \<Rightarrow> Principal option \<Rightarrow> request \<Rightarrow> ('r, 'h, 'w) Server \<Rightarrow> response \<times> ('r, 'h, 'w) Server" where
  "handleHistoryStorageStatus D ctx r s =
    (let status = hst_Status (dp_history D) (sv_history s) in
     (writeJSON 200 (if \<not> requestIsAdmin s ctx then FlagReply ''configured'' (st_Configured status) else StorageReply status), s))"

definition handleTestHistoryStorage ::
    "('r, 'h, 'w) deps \<Rightarrow> Principal option \<Rightarrow> request \<Rightarrow> ('r, 'h, 'w) Server \<Rightarrow> response \<times> ('r, 'h, 'w) Server" where
  "handleTestHistoryStorage D ctx r s =
    (case requireAdmin s ctx of
       Inl resp \<Rightarrow> (resp, s)
     | Inr _ \<Rightarrow>
         (case decodeJSON (dp_storage D) r of
            Inl _ \<Rightarrow> (writeError 400 ''invalid_request'', s)
          | Inr request \<Rightarrow>
              (case call_history (hst_Test (dp_history D) request) s of
                 (Inl err, s1) \<Rightarrow>
                   (if errorsIs err ErrHistorySetup \<or> errorsIs err ErrHistoryRetention then writeError 400 ''invalid_history_storage''
                    else writeJSON 200 (ConnectedReply False), s1)
               | (Inr _, s1) \<Rightarrow> (writeJSON 200 (ConnectedReply True), s1))))"

definition configureError :: "error \<Rightarrow> response" where
  "configureError err =
    (if errorsIs err ErrHistorySetup \<or> errorsIs err ErrHistoryRetention then writeError 400 ''invalid_history_storage''
     else if errorsIs err ErrHistoryConfigured then writeError 409 ''history_storage_configured''
     else if errorsIs err ErrHistoryConfigSave then writeError 500 ''history_storage_config_error''
     else writeError 502 ''history_storage_unavailable'')"

definition handleConfigureHistoryStorage ::
    "('r, 'h, 'w) deps \<Rightarrow> Principal option \<Rightarrow> request \<Rightarrow> ('r, 'h, 'w) Server \<Rightarrow> response \<times> ('r, 'h, 'w) Server" where
  "handleConfigureHistoryStorage D ctx r s =
    (case requireAdmin s ctx of
       Inl resp \<Rightarrow> (resp, s)
     | Inr _ \<Rightarrow>
         (case decodeJSON (dp_storage D) r of
            Inl _ \<Rightarrow> (writeError 400 ''invalid_request'', s)
          | Inr request \<Rightarrow>
              (case call_history (hst_Configure (dp_history D) request) s of
                 (Inl err, s1) \<Rightarrow> (configureError err, s1)
               | (Inr _, s1) \<Rightarrow>
                   (let s2 = flushPendingAudit D s1;
                        s3 = recordAudit D r ctx (event ''history_storage.configure'' ''system_setting'' [] [] zhHistoryStorage
                          (zhInitialisedAs @ historyStorageTypeLabel (st_Type (hst_Status (dp_history D) (sv_history s2))))) s2 in
                    (writeJSON 200 (StorageReply (hst_Status (dp_history D) (sv_history s3))), s3)))))"

definition retentionError :: "error \<Rightarrow> response" where
  "retentionError err =
    (if errorsIs err ErrHistoryRetention then writeError 400 ''invalid_history_retention''
     else if errorsIs err ErrHistoryNotSetup then writeError 503 ''history_storage_not_configured''
     else if errorsIs err ErrHistoryConfigSave then writeError 500 ''history_retention_save_error''
     else if errorsIs err ErrLocalHistory then writeError 500 ''history_prune_error''
     else writeError 500 ''history_retention_error'')"

definition handleUpdateHistoryRetention ::
    "('r, 'h, 'w) deps \<Rightarrow> Principal option \<Rightarrow> request \<Rightarrow> ('r, 'h, 'w) Server \<Rightarrow> response \<times> ('r, 'h, 'w) Server" where
  "handleUpdateHistoryRetention D ctx r s =
    (case requireAdmin s ctx of
       Inl resp \<Rightarrow> (resp, s)
     | Inr _ \<Rightarrow>
         (let previous = st_RetentionVersions (hst_Status (dp_history D) (sv_history s)) in
          case decodeJSON (dp_retention D) r of
            Inl _ \<Rightarrow> (writeError 400 ''invalid_request'', s)
          | Inr keep \<Rightarrow>
              (case call_history (hst_UpdateRetention (dp_history D) keep) s of
                 (Inl err, s1) \<Rightarrow> (retentionError err, s1)
               | (Inr _, s1) \<Rightarrow>
                   (let s2 = recordAudit D r ctx (event ''history_retention.update'' ''system_setting'' [] [] zhRetentionTarget
                          (zhRetentionDetail @ FormatInt previous @ zhArrow @ FormatInt keep)) s1 in
                    (writeJSON 200 (StorageReply (hst_Status (dp_history D) (sv_history s2))), s2)))))"

section \<open>Logins\<close>

fun authIs :: "auth_error \<Rightarrow> auth_sentinel \<Rightarrow> bool" where
  "authIs (AuthErr x) y = (x = y)"
| "authIs _ y = False"

definition writeAuthError :: "auth_error \<Rightarrow> response" where
  "writeAuthError err =
    (if authIs err ErrInvalidInput then writeError 400 ''invalid_auth_input''
     else if authIs err ErrAlreadyConfigured then writeError 409 ''auth_already_configured''
     else if authIs err ErrNotConfigured then writeError 428 ''auth_setup_required''
     else if authIs err ErrUserExists then writeError 409 ''user_exists''
     else if authIs err ErrUserNotFound then writeError 404 ''user_not_found''
     else if authIs err ErrLastAdmin then writeError 409 ''last_admin_required''
     else writeError 500 ''auth_storage_error'')"

definition requestIsHTTPS :: "ucd \<Rightarrow> request \<Rightarrow> bool" where
  "requestIsHTTPS U r \<longleftrightarrow> rq_TLS r \<or> EqualFold U (TrimSpace (rq_Header r ''X-Forwarded-Proto'')) ''https''"

definition panics :: "('r, 'h, 'w) Server \<Rightarrow> response \<times> ('r, 'h, 'w) Server" where
  "panics s = (\<lparr>rs_Status = 0, rs_Reply = PanicReply, rs_SetCookie = None\<rparr>, s)"

text \<open>
  A method on a nil manager gets as far as on one that is not configured: what looks at the
  input only is checked, and where it would find out, it follows the nil pointer.
\<close>

definition nilManager :: auth_state where
  "nilManager =
    (\<lparr>m_filePath = [], m_fileRoot = [], m_timeout = 0, m_config = empty_config, m_configured = False, m_sessions = Map.empty\<rparr>,
     Map.empty)"

definition onNil ::
    "(auth_error \<Rightarrow> response) \<Rightarrow> (auth_error, 'a) result \<times> auth_state \<Rightarrow> ('r, 'h, 'w) Server \<Rightarrow> response \<times> ('r, 'h, 'w) Server" where
  "onNil answer result s =
    (case fst result of
       Inl err \<Rightarrow> if authIs err ErrNotConfigured then panics s else (answer err, s)
     | Inr _ \<Rightarrow> panics s)"

text \<open>The middleware has put the principal into the context, or there is only the cookie.\<close>

definition requestPrincipal ::
    "('r, 'h, 'w) deps \<Rightarrow> env \<Rightarrow> Principal option \<Rightarrow> request \<Rightarrow> auth_state \<Rightarrow> Principal option \<times> auth_state" where
  "requestPrincipal D e ctx r st =
    (case ctx of
       Some p \<Rightarrow> (Some p, st)
     | None \<Rightarrow>
         (case rq_Cookie r of
            None \<Rightarrow> (None, st)
          | Some token \<Rightarrow>
              if TrimSpace token = [] then (None, st)
              else (case Session (dp_auth D) (rc_clock e 0) token (fst st) of (p, m) \<Rightarrow> (p, (m, snd st)))))"

definition handleAuthStatus ::
    "('r, 'h, 'w) deps \<Rightarrow> env \<Rightarrow> Principal option \<Rightarrow> request \<Rightarrow> ('r, 'h, 'w) Server \<Rightarrow> response \<times> ('r, 'h, 'w) Server" where
  "handleAuthStatus D e ctx r s =
    (case sv_auth s of
       None \<Rightarrow>
         (writeJSON 200 (AuthStatusReply \<lparr>status_Configured = False, status_LocalEnabled = False, status_LDAPEnabled = False,
            status_Authenticated = False, status_User = None\<rparr>), s)
     | Some st \<Rightarrow>
         (case requestPrincipal D e ctx r st of
            (p, st') \<Rightarrow> (writeJSON 200 (AuthStatusReply (Manager_Status (fst st') p)), s\<lparr>sv_auth := Some st'\<rparr>)))"

definition loginError :: "auth_error \<Rightarrow> response" where
  "loginError err =
    (if authIs err ErrInvalidCredentials then writeError 401 ''invalid_credentials''
     else if authIs err ErrProviderDisabled then writeError 400 ''provider_disabled''
     else if authIs err ErrNotConfigured then writeError 428 ''auth_setup_required''
     else writeError 502 ''authentication_backend_error'')"

text \<open>The age of the cookie is in seconds.\<close>

definition startSession ::
    "('r, 'h, 'w) deps \<Rightarrow> env \<Rightarrow> request \<Rightarrow> Principal \<Rightarrow> auth_state \<Rightarrow> (auth_error, string \<times> int \<times> bool) result \<times> auth_state" where
  "startSession D e r p st =
    (case CreateSession (dp_auth D) (rc_clock e 1) (rc_clock e 2) (rc_random e) p (fst st) of
       (Inl err, m) \<Rightarrow> (Inl err, (m, snd st))
     | (Inr (token, _), m) \<Rightarrow>
         (Inr (token, SessionDuration div 1000000000, requestIsHTTPS (al_ucd (dp_auth D)) r), (m, snd st)))"

definition handleAuthLogin ::
    "('r, 'h, 'w) deps \<Rightarrow> env \<Rightarrow> request \<Rightarrow> ('r, 'h, 'w) Server \<Rightarrow> response \<times> ('r, 'h, 'w) Server" where
  "handleAuthLogin D e r s =
    (case sv_auth s of
       None \<Rightarrow> (writeError 503 ''authentication_unavailable'', s)
     | Some st \<Rightarrow>
         (case decodeJSON (dp_login D) r of
            Inl _ \<Rightarrow> (writeError 400 ''invalid_request'', s)
          | Inr request \<Rightarrow>
              (let U = al_ucd (dp_auth D); provider = ToLower U (TrimSpace (lr_Provider request)) in
               if provider \<noteq> ProviderLocal \<and> provider \<noteq> ProviderLDAP then (writeError 400 ''invalid_provider'', s)
               else
                 (case (if provider = ProviderLocal
                        then AuthenticateLocal (dp_auth D) (fst st) (lr_Username request) (lr_Password request)
                        else fst (AuthenticateLDAP U (dp_ldap D) (fst st) (lr_Username request) (lr_Password request))) of
                    Inl err \<Rightarrow> (loginError err, s)
                  | Inr p \<Rightarrow>
                      (case startSession D e r p st of
                         (Inl _, st') \<Rightarrow> (writeError 500 ''session_error'', s\<lparr>sv_auth := Some st'\<rparr>)
                       | (Inr cookie, st') \<Rightarrow>
                           ((writeJSON 200 (PrincipalReply p))\<lparr>rs_SetCookie := Some cookie\<rparr>,
                            recordAuditForPrincipal D r p (event ''auth.login'' ''session'' [] [] (p_Username p)
                              (providerLabel (p_Provider p) @ zhLoginOk)) (s\<lparr>sv_auth := Some st'\<rparr>)))))))"

definition changePasswordError :: "auth_error \<Rightarrow> response" where
  "changePasswordError err =
    (if authIs err ErrInvalidCredentials then writeError 401 ''invalid_current_password''
     else if authIs err ErrPasswordUnchanged then writeError 400 ''password_unchanged''
     else if authIs err ErrPasswordChangeNotRequired then writeError 409 ''password_change_not_required''
     else writeAuthError err)"

definition handleChangePassword ::
    "('r, 'h, 'w) deps \<Rightarrow> env \<Rightarrow> Principal option \<Rightarrow> request \<Rightarrow> ('r, 'h, 'w) Server \<Rightarrow> response \<times> ('r, 'h, 'w) Server" where
  "handleChangePassword D e ctx r s =
    (case ctx of
       None \<Rightarrow> (writeError 401 ''authentication_required'', s)
     | Some p \<Rightarrow>
         if p_Provider p \<noteq> ProviderLocal then (writeError 400 ''local_account_required'', s)
         else
           (case decodeJSON (dp_password D) r of
              Inl _ \<Rightarrow> (writeError 400 ''invalid_request'', s)
            | Inr request \<Rightarrow>
                (let change = (if p_MustChangePassword p
                     then CompleteTemporaryPasswordChange (dp_auth D) (rc_call e) (p_Username p) (cp_NewPassword request)
                     else ChangePassword (dp_auth D) (rc_call e) (p_Username p) (cp_CurrentPassword request) (cp_NewPassword request)) in
                 case sv_auth s of
                   None \<Rightarrow> onNil changePasswordError (change nilManager) s
                 | Some st \<Rightarrow>
                     (case change st of
                        (Inl err, st') \<Rightarrow> (changePasswordError err, s\<lparr>sv_auth := Some st'\<rparr>)
                      | (Inr updated, st') \<Rightarrow>
                          (writeJSON 200 (PrincipalReply updated),
                           recordAuditForPrincipal D r updated (event ''auth.password.change'' ''user'' [] [] (p_Username updated)
                             zhChangedPassword) (s\<lparr>sv_auth := Some st'\<rparr>))))))"

definition zeroPrincipal :: Principal where
  "zeroPrincipal = \<lparr>p_Username = [], p_DisplayName = [], p_Provider = [], p_Role = [], p_ClusterIDs = [], p_MustChangePassword = False\<rparr>"

definition clearSessionCookie :: "('r, 'h, 'w) deps \<Rightarrow> request \<Rightarrow> string \<times> int \<times> bool" where
  "clearSessionCookie D r = ([], -1, requestIsHTTPS (al_ucd (dp_auth D)) r)"

definition handleAuthLogout ::
    "('r, 'h, 'w) deps \<Rightarrow> Principal option \<Rightarrow> request \<Rightarrow> ('r, 'h, 'w) Server \<Rightarrow> response \<times> ('r, 'h, 'w) Server" where
  "handleAuthLogout D ctx r s =
    (if rq_Cookie r \<noteq> None \<and> sv_auth s = None then panics s
     else
       let p = (case ctx of Some p \<Rightarrow> p | None \<Rightarrow> zeroPrincipal);
           s1 = (case (rq_Cookie r, sv_auth s) of
                   (Some token, Some (m, d)) \<Rightarrow> s\<lparr>sv_auth := Some (DeleteSession (dp_auth D) token m, d)\<rparr>
                 | _ \<Rightarrow> s) in
       ((writeJSON 200 (FlagReply ''logged_out'' True))\<lparr>rs_SetCookie := Some (clearSessionCookie D r)\<rparr>,
        recordAuditForPrincipal D r p (event ''auth.logout'' ''session'' [] [] (p_Username p) zhLogout) s1))"

section \<open>Settings and users\<close>

definition handleAuthSettings ::
    "('r, 'h, 'w) deps \<Rightarrow> Principal option \<Rightarrow> request \<Rightarrow> ('r, 'h, 'w) Server \<Rightarrow> response \<times> ('r, 'h, 'w) Server" where
  "handleAuthSettings D ctx r s =
    (case requireAdmin s ctx of
       Inl resp \<Rightarrow> (resp, s)
     | Inr _ \<Rightarrow>
         (case sv_auth s of
            None \<Rightarrow> panics s
          | Some st \<Rightarrow>
              (case Settings (fst st) of
                 Inl err \<Rightarrow> (writeAuthError err, s)
               | Inr settings \<Rightarrow> (writeJSON 200 (SettingsReply settings), s))))"

definition handleUpdateAuthSettings ::
    "('r, 'h, 'w) deps \<Rightarrow> env \<Rightarrow> Principal option \<Rightarrow> request \<Rightarrow> ('r, 'h, 'w) Server \<Rightarrow> response \<times> ('r, 'h, 'w) Server" where
  "handleUpdateAuthSettings D e ctx r s =
    (case requireAdmin s ctx of
       Inl resp \<Rightarrow> (resp, s)
     | Inr p \<Rightarrow>
         (case decodeJSON (dp_settings D) r of
            Inl _ \<Rightarrow> (writeError 400 ''invalid_request'', s)
          | Inr input \<Rightarrow>
              (case sv_auth s of
                 None \<Rightarrow> onNil writeAuthError (UpdateSettings (dp_auth D) (rc_call e) input nilManager) s
               | Some st \<Rightarrow>
                   (case UpdateSettings (dp_auth D) (rc_call e) input st of
                      (Inl err, st') \<Rightarrow> (writeAuthError err, s\<lparr>sv_auth := Some st'\<rparr>)
                    | (Inr settings, st') \<Rightarrow>
                        (writeJSON 200 (SettingsReply settings),
                         recordAuditForPrincipal D r p (event ''auth.settings.update'' ''system_setting'' [] [] zhAuthTarget
                           (zhAuthModeSet @ authModeLabel (ss_Mode settings))) (s\<lparr>sv_auth := Some st'\<rparr>))))))"

definition handleTestLDAP ::
    "('r, 'h, 'w) deps \<Rightarrow> Principal option \<Rightarrow> request \<Rightarrow> ('r, 'h, 'w) Server \<Rightarrow> response \<times> ('r, 'h, 'w) Server" where
  "handleTestLDAP D ctx r s =
    (case requireAdmin s ctx of
       Inl resp \<Rightarrow> (resp, s)
     | Inr _ \<Rightarrow>
         (case decodeJSON (dp_ldapInput D) r of
            Inl _ \<Rightarrow> (writeError 400 ''invalid_request'', s)
          | Inr input \<Rightarrow>
              (case sv_auth s of
                 None \<Rightarrow> panics s
               | Some st \<Rightarrow>
                   (case fst (TestLDAP (al_ucd (dp_auth D)) (dp_ldap D) (fst st) input) of
                      Inl err \<Rightarrow>
                        (if authIs err ErrInvalidInput then writeAuthError err else writeJSON 200 (ConnectedReply False), s)
                    | Inr _ \<Rightarrow> (writeJSON 200 (ConnectedReply True), s)))))"

definition handleListUsers ::
    "('r, 'h, 'w) deps \<Rightarrow> Principal option \<Rightarrow> request \<Rightarrow> ('r, 'h, 'w) Server \<Rightarrow> response \<times> ('r, 'h, 'w) Server" where
  "handleListUsers D ctx r s =
    (case requireAdmin s ctx of
       Inl resp \<Rightarrow> (resp, s)
     | Inr _ \<Rightarrow>
         (case sv_auth s of
            None \<Rightarrow> panics s
          | Some st \<Rightarrow>
              (case ListUsers (al_ucd (dp_auth D)) (fst st) of
                 Inl err \<Rightarrow> (writeAuthError err, s)
               | Inr users \<Rightarrow> (writeJSON 200 (UsersReply users), s))))"

definition handleCreateUser ::
    "('r, 'h, 'w) deps \<Rightarrow> env \<Rightarrow> Principal option \<Rightarrow> request \<Rightarrow> ('r, 'h, 'w) Server \<Rightarrow> response \<times> ('r, 'h, 'w) Server" where
  "handleCreateUser D e ctx r s =
    (case requireAdmin s ctx of
       Inl resp \<Rightarrow> (resp, s)
     | Inr p \<Rightarrow>
         (case decodeJSON (dp_user D) r of
            Inl _ \<Rightarrow> (writeError 400 ''invalid_request'', s)
          | Inr input \<Rightarrow>
              if \<not> validateUserClusterPermissions D input s then (writeError 400 ''invalid_cluster_permissions'', s)
              else
                (case sv_auth s of
                   None \<Rightarrow> onNil writeAuthError (CreateUser (dp_auth D) (rc_call e) input nilManager) s
                 | Some st \<Rightarrow>
                     (case CreateUser (dp_auth D) (rc_call e) input st of
                        (Inl err, st') \<Rightarrow> (writeAuthError err, s\<lparr>sv_auth := Some st'\<rparr>)
                      | (Inr user, st') \<Rightarrow>
                          (writeJSON 201 (UserReply user),
                           recordAuditForPrincipal D r p (event ''user.create'' ''user'' [] [] (u_Username user)
                             (zhCreateLocal @ roleLabel (u_Role user) @ zhAccountGrants @ userClusterAccessLabel user))
                             (s\<lparr>sv_auth := Some st'\<rparr>))))))"

definition handleUpdateUser ::
    "('r, 'h, 'w) deps \<Rightarrow> env \<Rightarrow> Principal option \<Rightarrow> request \<Rightarrow> ('r, 'h, 'w) Server \<Rightarrow> response \<times> ('r, 'h, 'w) Server" where
  "handleUpdateUser D e ctx r s =
    (case requireAdmin s ctx of
       Inl resp \<Rightarrow> (resp, s)
     | Inr p \<Rightarrow>
         (let username = rq_PathValue r ''username'' in
          case decodeJSON (dp_user D) r of
            Inl _ \<Rightarrow> (writeError 400 ''invalid_request'', s)
          | Inr input \<Rightarrow>
              if EqualFold (al_ucd (dp_auth D)) (p_Username p) username \<and> p_Provider p = ProviderLocal \<and>
                 (in_Active input = Some False \<or> in_Role input \<noteq> RoleAdmin)
              then (writeError 409 ''cannot_disable_self'', s)
              else if \<not> validateUserClusterPermissions D input s then (writeError 400 ''invalid_cluster_permissions'', s)
              else
                (case sv_auth s of
                   None \<Rightarrow> onNil writeAuthError (UpdateUser (dp_auth D) (rc_call e) username input nilManager) s
                 | Some st \<Rightarrow>
                     (case UpdateUser (dp_auth D) (rc_call e) username input st of
                        (Inl err, st') \<Rightarrow> (writeAuthError err, s\<lparr>sv_auth := Some st'\<rparr>)
                      | (Inr user, st') \<Rightarrow>
                          (writeJSON 200 (UserReply user),
                           recordAuditForPrincipal D r p (event ''user.update'' ''user'' [] [] (u_Username user)
                             (zhUpdatedTo @ roleLabel (u_Role user) @ zhState @ activeLabel (u_Active user) @ zhGrants @
                              userClusterAccessLabel user)) (s\<lparr>sv_auth := Some st'\<rparr>))))))"

definition handleDeleteUser ::
    "('r, 'h, 'w) deps \<Rightarrow> env \<Rightarrow> Principal option \<Rightarrow> request \<Rightarrow> ('r, 'h, 'w) Server \<Rightarrow> response \<times> ('r, 'h, 'w) Server" where
  "handleDeleteUser D e ctx r s =
    (case requireAdmin s ctx of
       Inl resp \<Rightarrow> (resp, s)
     | Inr p \<Rightarrow>
         (let username = rq_PathValue r ''username'' in
          if p_Provider p = ProviderLocal \<and> EqualFold (al_ucd (dp_auth D)) (p_Username p) username
          then (writeError 409 ''cannot_delete_self'', s)
          else
            (case sv_auth s of
               None \<Rightarrow> panics s
             | Some st \<Rightarrow>
                 (case DeleteUser (dp_auth D) (rc_call e) username st of
                    (Inl err, st') \<Rightarrow> (writeAuthError err, s\<lparr>sv_auth := Some st'\<rparr>)
                  | (Inr _, st') \<Rightarrow>
                      (writeJSON 200 (FlagReply ''deleted'' True),
                       recordAuditForPrincipal D r p (event ''user.delete'' ''user'' [] [] username zhDeletedAccount)
                         (s\<lparr>sv_auth := Some st'\<rparr>))))))"

section \<open>Routes\<close>

datatype route =
    AuthStatus | AuthLogin | AuthLogout | AuthChangePassword | AuthSettings | AuthUpdateSettings | LdapTest
  | UsersList | UserCreate | UserUpdate | UserDelete
  | ClustersList | ClusterCreate | ClusterUpdate | ClusterDelete | ClusterTest
  | StorageStatus | StorageTest | StorageConfigure | StorageRetention
  | AuditList | StatusGet | KeysList | KeyGet | KeyPut | KeyDelete | KeyVersions | KeyPreview | KeyRollback

text \<open>A pattern is a method and the segments of the path after \<open>/api/v1\<close>; \<open>None\<close> is a wildcard.\<close>

definition routes :: "(string \<times> string option list \<times> route) list" where
  "routes =
    [(''GET'', [Some ''auth'', Some ''status''], AuthStatus),
     (''POST'', [Some ''auth'', Some ''login''], AuthLogin),
     (''POST'', [Some ''auth'', Some ''logout''], AuthLogout),
     (''POST'', [Some ''auth'', Some ''change-password''], AuthChangePassword),
     (''GET'', [Some ''auth'', Some ''settings''], AuthSettings),
     (''PUT'', [Some ''auth'', Some ''settings''], AuthUpdateSettings),
     (''POST'', [Some ''auth'', Some ''ldap'', Some ''test''], LdapTest),
     (''GET'', [Some ''users''], UsersList),
     (''POST'', [Some ''users''], UserCreate),
     (''PUT'', [Some ''users'', None], UserUpdate),
     (''DELETE'', [Some ''users'', None], UserDelete),
     (''GET'', [Some ''clusters''], ClustersList),
     (''POST'', [Some ''clusters''], ClusterCreate),
     (''PUT'', [Some ''clusters'', None], ClusterUpdate),
     (''DELETE'', [Some ''clusters'', None], ClusterDelete),
     (''POST'', [Some ''clusters'', Some ''test''], ClusterTest),
     (''GET'', [Some ''history-storage''], StorageStatus),
     (''POST'', [Some ''history-storage'', Some ''test''], StorageTest),
     (''PUT'', [Some ''history-storage''], StorageConfigure),
     (''PATCH'', [Some ''history-storage'', Some ''retention''], StorageRetention),
     (''GET'', [Some ''audit''], AuditList),
     (''GET'', [Some ''status''], StatusGet),
     (''GET'', [Some ''keys''], KeysList),
     (''GET'', [Some ''key''], KeyGet),
     (''PUT'', [Some ''key''], KeyPut),
     (''DELETE'', [Some ''key''], KeyDelete),
     (''GET'', [Some ''key'', Some ''rollback-versions''], KeyVersions),
     (''GET'', [Some ''key'', Some ''rollback-preview''], KeyPreview),
     (''POST'', [Some ''key'', Some ''rollback''], KeyRollback)]"

text \<open>A wildcard matches a segment that is not empty; a pattern for \<open>GET\<close> also serves \<open>HEAD\<close>.\<close>

fun matchSegments :: "string option list \<Rightarrow> string list \<Rightarrow> bool" where
  "matchSegments [] [] = True"
| "matchSegments (Some p # ps) (seg # segs) = (p = seg \<and> matchSegments ps segs)"
| "matchSegments (None # ps) (seg # segs) = (seg \<noteq> [] \<and> matchSegments ps segs)"
| "matchSegments _ _ = False"

definition matchRoute :: "request \<Rightarrow> string \<times> string option list \<times> route \<Rightarrow> bool" where
  "matchRoute r pat =
    (case pat of (meth, ps, _) \<Rightarrow>
       (rq_Method r = meth \<or> rq_Method r = ''HEAD'' \<and> meth = ''GET'') \<and>
       matchSegments (Some ''api'' # Some ''v1'' # ps) (rq_Segments r))"

definition routeOf :: "request \<Rightarrow> route option" where
  "routeOf r = map_option (snd \<circ> snd) (find (matchRoute r) routes)"

text \<open>The wildcards are called \<open>username\<close> and \<open>id\<close>.\<close>

definition bindPath :: "route \<Rightarrow> request \<Rightarrow> request" where
  "bindPath rt r =
    (if rt = UserUpdate \<or> rt = UserDelete then r\<lparr>rq_PathValue := (\<lambda>_. [])(''username'' := last (rq_Segments r))\<rparr>
     else if rt = ClusterUpdate \<or> rt = ClusterDelete then r\<lparr>rq_PathValue := (\<lambda>_. [])(''id'' := last (rq_Segments r))\<rparr>
     else r\<lparr>rq_PathValue := (\<lambda>_. [])\<rparr>)"

fun handle ::
    "('r, 'h, 'w) deps \<Rightarrow> env \<Rightarrow> Principal option \<Rightarrow> route \<Rightarrow> request \<Rightarrow> ('r, 'h, 'w) Server \<Rightarrow> response \<times> ('r, 'h, 'w) Server" where
  "handle D e ctx AuthStatus r s = handleAuthStatus D e ctx r s"
| "handle D e ctx AuthLogin r s = handleAuthLogin D e r s"
| "handle D e ctx AuthLogout r s = handleAuthLogout D ctx r s"
| "handle D e ctx AuthChangePassword r s = handleChangePassword D e ctx r s"
| "handle D e ctx AuthSettings r s = handleAuthSettings D ctx r s"
| "handle D e ctx AuthUpdateSettings r s = handleUpdateAuthSettings D e ctx r s"
| "handle D e ctx LdapTest r s = handleTestLDAP D ctx r s"
| "handle D e ctx UsersList r s = handleListUsers D ctx r s"
| "handle D e ctx UserCreate r s = handleCreateUser D e ctx r s"
| "handle D e ctx UserUpdate r s = handleUpdateUser D e ctx r s"
| "handle D e ctx UserDelete r s = handleDeleteUser D e ctx r s"
| "handle D e ctx ClustersList r s = handleListClusters D ctx r s"
| "handle D e ctx ClusterCreate r s = handleCreateCluster D ctx r s"
| "handle D e ctx ClusterUpdate r s = handleUpdateCluster D ctx r s"
| "handle D e ctx ClusterDelete r s = handleDeleteCluster D e ctx r s"
| "handle D e ctx ClusterTest r s = handleTestCluster D ctx r s"
| "handle D e ctx StorageStatus r s = handleHistoryStorageStatus D ctx r s"
| "handle D e ctx StorageTest r s = handleTestHistoryStorage D ctx r s"
| "handle D e ctx StorageConfigure r s = handleConfigureHistoryStorage D ctx r s"
| "handle D e ctx StorageRetention r s = handleUpdateHistoryRetention D ctx r s"
| "handle D e ctx AuditList r s = handleListAudit D ctx r s"
| "handle D e ctx StatusGet r s = handleStatus D ctx r s"
| "handle D e ctx KeysList r s = handleListKeys D ctx r s"
| "handle D e ctx KeyGet r s = handleGetKey D ctx r s"
| "handle D e ctx KeyPut r s = handlePutKey D e ctx r s"
| "handle D e ctx KeyDelete r s = handleDeleteKey D e ctx r s"
| "handle D e ctx KeyVersions r s = handleRollbackVersions D ctx r s"
| "handle D e ctx KeyPreview r s = handleRollbackPreview D ctx r s"
| "handle D e ctx KeyRollback r s = handleRollbackKey D e ctx r s"

definition serveMux ::
    "('r, 'h, 'w) deps \<Rightarrow> env \<Rightarrow> Principal option \<Rightarrow> request \<Rightarrow> ('r, 'h, 'w) Server \<Rightarrow> response \<times> ('r, 'h, 'w) Server" where
  "serveMux D e ctx r s =
    (case routeOf r of
       None \<Rightarrow>
         if rq_Method r = ''GET'' \<or> rq_Method r = ''HEAD'' then (writeJSON (dp_files D r) FilesReply, s)
         else (writeJSON 405 MethodNotAllowed, s)
     | Some rt \<Rightarrow> handle D e ctx rt (bindPath rt r) s)"

section \<open>Authentication in front of the routes\<close>

definition publicAuthRoute :: "request \<Rightarrow> bool" where
  "publicAuthRoute r \<longleftrightarrow>
    rq_Method r @ '' '' @ rq_Path r \<in> {''GET /api/v1/auth/status'', ''POST /api/v1/auth/login''}"

definition passwordChangeAllowedRoute :: "request \<Rightarrow> bool" where
  "passwordChangeAllowedRoute r \<longleftrightarrow>
    rq_Method r @ '' '' @ rq_Path r \<in> {''POST /api/v1/auth/change-password'', ''POST /api/v1/auth/logout''}"

definition requireAuthentication ::
    "('r, 'h, 'w) deps \<Rightarrow> env \<Rightarrow> request \<Rightarrow> ('r, 'h, 'w) Server \<Rightarrow> response \<times> ('r, 'h, 'w) Server" where
  "requireAuthentication D e r s =
    (case sv_auth s of
       None \<Rightarrow> serveMux D e None r s
     | Some st \<Rightarrow>
         if \<not> HasPrefix (rq_Path r) ''/api/'' \<or> publicAuthRoute r then serveMux D e None r s
         else if \<not> status_Configured (Manager_Status (fst st) None) then (writeError 503 ''auth_setup_required'', s)
         else
           (case requestPrincipal D e None r st of
              (None, st') \<Rightarrow> (writeError 401 ''authentication_required'', s\<lparr>sv_auth := Some st'\<rparr>)
            | (Some p, st') \<Rightarrow>
                if p_MustChangePassword p \<and> \<not> passwordChangeAllowedRoute r
                then (writeError 403 ''password_change_required'', s\<lparr>sv_auth := Some st'\<rparr>)
                else serveMux D e (Some p) r (s\<lparr>sv_auth := Some st'\<rparr>)))"

definition Handler ::
    "('r, 'h, 'w) deps \<Rightarrow> env \<Rightarrow> request \<Rightarrow> ('r, 'h, 'w) Server \<Rightarrow> response \<times> ('r, 'h, 'w) Server" where
  "Handler D e r s = requireAuthentication D e r s"

end
