(* ===== verification/Server_Access.thy ===== *)
theory Server_Access
  imports Server_Admin Server_Archive
begin

text \<open>
  Who can do what through the HTTP interface: without a valid session only the login page and the
  login are served, a temporary password has to be changed first, a principal that is no
  administrator changes no user, cluster or setting, the data of a cluster needs a grant
  for it, and an operator sees the own audit events only.
\<close>

section \<open>Routes and paths\<close>

lemma routes_distinct:
  assumes "routeOf r = Some rt"
  obtains meth ps where "(meth, ps, rt) \<in> set routes" "matchRoute r (meth, ps, rt)"
proof -
  from assms obtain x where "find (matchRoute r) routes = Some x" "snd (snd x) = rt"
    by (auto simp: routeOf_def)
  then have "x \<in> set routes" "matchRoute r x"
    by (auto simp: find_Some_iff)
  with \<open>snd (snd x) = rt\<close> that show thesis by (metis prod.collapse)
qed

lemma matchSegments_Some: "matchSegments (Some p # ps) segs \<longleftrightarrow> (\<exists>rest. segs = p # rest \<and> matchSegments ps rest)"
  by (cases segs) auto

lemma matchSegments_Nil: "matchSegments [] segs \<longleftrightarrow> segs = []"
  by (cases segs) auto

lemma matchSegments_None: "matchSegments (None # ps) segs \<longleftrightarrow> (\<exists>seg rest. segs = seg # rest \<and> seg \<noteq> [] \<and> matchSegments ps rest)"
  by (cases segs) auto

lemma api_path:
  assumes "routeOf r = Some rt"
  shows "HasPrefix (rq_Path r) ''/api/''"
proof -
  obtain meth ps where "matchRoute r (meth, ps, rt)"
    by (rule routes_distinct [OF assms])
  then obtain rest where "rq_Segments r = ''api'' # ''v1'' # rest"
    by (auto simp: matchRoute_def matchSegments_Some)
  then show ?thesis by (simp add: rq_Path_def)
qed

lemma public_routes:
  assumes "routeOf r = Some rt" and "publicAuthRoute r"
  shows "rt = AuthStatus \<or> rt = AuthLogin"
proof -
  obtain meth ps where "(meth, ps, rt) \<in> set routes" "matchRoute r (meth, ps, rt)"
    by (rule routes_distinct [OF assms(1)])
  with assms(2) show ?thesis
    by (auto simp: routes_def matchRoute_def matchSegments_Some matchSegments_Nil matchSegments_None publicAuthRoute_def rq_Path_def)
qed

lemma password_routes:
  assumes "routeOf r = Some rt" and "passwordChangeAllowedRoute r"
  shows "rt = AuthChangePassword \<or> rt = AuthLogout"
proof -
  obtain meth ps where "(meth, ps, rt) \<in> set routes" "matchRoute r (meth, ps, rt)"
    by (rule routes_distinct [OF assms(1)])
  with assms(2) show ?thesis
    by (auto simp: routes_def matchRoute_def matchSegments_Some matchSegments_Nil matchSegments_None passwordChangeAllowedRoute_def rq_Path_def)
qed

section \<open>The gate\<close>

text \<open>
  C16. In front of every route except the login and its status page stands the session: the
  request is refused (401, 403 or 503) and changes nothing but the table of sessions, or
  the session of its cookie is valid and the handler runs for the principal of that session; and
  while that principal has to change a temporary password only the change and the logout are
  let through.
\<close>

theorem api_needs_session:
  assumes "sv_auth s = Some st" and "routeOf r = Some rt" and "rt \<noteq> AuthStatus" and "rt \<noteq> AuthLogin"
  shows "(\<exists>resp st'. Handler D e r s = (resp, s\<lparr>sv_auth := Some st'\<rparr>) \<and> rs_Status resp \<in> {401, 403, 503} \<and>
      st' \<in> {st, snd (requestPrincipal D e None r st)}) \<or>
    (\<exists>token p m. rq_Cookie r = Some token \<and> Session (dp_auth D) (rc_clock e 0) token (fst st) = (Some p, m) \<and>
      m_configured (fst st) \<and> (p_MustChangePassword p \<longrightarrow> rt = AuthChangePassword \<or> rt = AuthLogout) \<and>
      Handler D e r s = handle D e (Some p) rt (bindPath rt r) (s\<lparr>sv_auth := Some (m, snd st)\<rparr>))"
proof -
  have gate: "HasPrefix (rq_Path r) ''/api/''" "\<not> publicAuthRoute r"
    using api_path [OF assms(2)] public_routes [OF assms(2)] assms(3,4) by auto
  have same: "s = s\<lparr>sv_auth := Some st\<rparr>" using assms(1) by simp
  show ?thesis
  proof (cases "m_configured (fst st)")
    case False
    then have "Handler D e r s = (writeError 503 ''auth_setup_required'', s\<lparr>sv_auth := Some st\<rparr>)"
      using gate assms(1) same by (simp add: Handler_def requireAuthentication_def Manager_Status_def)
    then show ?thesis by (intro disjI1 exI conjI) auto
  next
    case True
    obtain q st' where prin: "requestPrincipal D e None r st = (q, st')" by (cases "requestPrincipal D e None r st")
    show ?thesis
    proof (cases "\<exists>p. q = Some p \<and> (p_MustChangePassword p \<longrightarrow> passwordChangeAllowedRoute r)")
      case False
      then have "Handler D e r s = (if q = None then writeError 401 ''authentication_required''
          else writeError 403 ''password_change_required'', s\<lparr>sv_auth := Some st'\<rparr>)"
        using gate assms(1) True prin
        by (auto simp: Handler_def requireAuthentication_def Manager_Status_def split: option.split)
      then obtain resp where "Handler D e r s = (resp, s\<lparr>sv_auth := Some st'\<rparr>)" "rs_Status resp \<in> {401, 403, 503}"
        by (cases "q = None") auto
      then show ?thesis using prin by (intro disjI1 exI [of _ resp] exI [of _ st']) simp
    next
      case live: True
      then obtain p where p: "q = Some p" "p_MustChangePassword p \<longrightarrow> passwordChangeAllowedRoute r" by blast
      have "Handler D e r s = handle D e (Some p) rt (bindPath rt r) (s\<lparr>sv_auth := Some st'\<rparr>)"
        using gate assms(1,2) True prin p by (auto simp: Handler_def requireAuthentication_def Manager_Status_def serveMux_def)
      moreover obtain token m where "rq_Cookie r = Some token" "Session (dp_auth D) (rc_clock e 0) token (fst st) = (Some p, m)"
          "st' = (m, snd st)"
        using prin p(1) by (auto simp: requestPrincipal_def split: option.splits if_splits prod.splits)
      ultimately show ?thesis
        using p(2) password_routes [OF assms(2)] True by (intro disjI2) blast
    qed
  qed
qed

section \<open>Frames\<close>

lemma recordAudit_frame [simp]:
  "sv_auth (recordAudit D r ctx ev s) = sv_auth s" "sv_clusters (recordAudit D r ctx ev s) = sv_clusters s"
  "sv_auth (recordAuditForPrincipal D r p ev s) = sv_auth s" "sv_clusters (recordAuditForPrincipal D r p ev s) = sv_clusters s"
  "sv_etcd (recordAudit D r ctx ev s) = sv_etcd s" "sv_etcd (recordAuditForPrincipal D r p ev s) = sv_etcd s"
  by (simp_all add: recordAudit_def recordAuditForPrincipal_def saveAuditEvent_frame split: option.split prod.split)

lemma saveSnapshot_frame:
  "saveSnapshot D now c e s = (x, s') \<Longrightarrow> sv_auth s' = sv_auth s \<and> sv_clusters s' = sv_clusters s \<and> sv_pendingAudit s' = sv_pendingAudit s"
  by (auto simp: saveSnapshot_def call_eqs split: sum.splits prod.splits)

lemma archiveCurrent_frame:
  "archiveCurrent D now c kv key m s = (x, s') \<Longrightarrow> sv_auth s' = sv_auth s \<and> sv_clusters s' = sv_clusters s \<and> sv_pendingAudit s' = sv_pendingAudit s"
  by (auto simp: archiveCurrent_def call_eqs dest!: saveSnapshot_frame split: sum.splits prod.splits option.splits if_splits)

lemma rollbackTarget_frame:
  "rollbackTarget D c kv key m q s = (x, s') \<Longrightarrow> sv_auth s' = sv_auth s \<and> sv_clusters s' = sv_clusters s \<and> sv_pendingAudit s' = sv_pendingAudit s"
  by (auto simp: rollbackTarget_def call_eqs split: sum.splits prod.splits option.splits if_splits)

lemma archiveRollback_frame:
  "archiveRollback D e c cur prev src s = (x, s') \<Longrightarrow> sv_auth s' = sv_auth s \<and> sv_clusters s' = sv_clusters s \<and> sv_pendingAudit s' = sv_pendingAudit s"
  by (auto simp: archiveRollback_def dest!: saveSnapshot_frame split: prod.splits option.splits if_splits)

lemma rollbackCandidates_frame:
  "rollbackCandidates D c kv key q n s = (x, s') \<Longrightarrow> sv_auth s' = sv_auth s \<and> sv_clusters s' = sv_clusters s \<and> sv_pendingAudit s' = sv_pendingAudit s"
  by (auto simp: rollbackCandidates_def call_eqs Let_def split: sum.splits prod.splits if_splits)

text \<open>What a request may do with the registry when it only looks clusters up.\<close>

definition only_lookup :: "('r, 'h, 'w) deps \<Rightarrow> ('r, 'h, 'w) Server \<Rightarrow> ('r, 'h, 'w) Server \<Rightarrow> bool" where
  "only_lookup D s s' \<longleftrightarrow> sv_auth s' = sv_auth s \<and>
     (sv_clusters s' = sv_clusters s \<or> (\<exists>cid. sv_clusters s' = snd (cg_ClusterKV (dp_clusters D) cid (sv_clusters s))))"

lemma only_lookupI [intro]:
  "sv_auth s' = sv_auth s \<Longrightarrow> sv_clusters s' = sv_clusters s \<Longrightarrow> only_lookup D s s'"
  by (simp add: only_lookup_def)

lemma clusterKV_lookup:
  "clusterKV D cid s = (x, s') \<Longrightarrow> only_lookup D s s'"
  by (auto simp: clusterKV_def only_lookup_def call_eqs split: if_splits) (metis snd_conv)

lemma clusterKVFromRequest_lookup:
  "clusterKVFromRequest D ctx r s = (x, s') \<Longrightarrow> only_lookup D s s'"
  by (auto simp: clusterKVFromRequest_def Let_def dest!: clusterKV_lookup split: option.splits prod.splits sum.splits)

lemma only_lookup_trans:
  "only_lookup D s s1 \<Longrightarrow> sv_auth s' = sv_auth s1 \<Longrightarrow> sv_clusters s' = sv_clusters s1 \<Longrightarrow> only_lookup D s s'"
  by (simp add: only_lookup_def)

lemmas frames = saveSnapshot_frame archiveCurrent_frame rollbackTarget_frame archiveRollback_frame rollbackCandidates_frame

lemma key_handlers_lookup:
  "handleListKeys D ctx r s = (resp, s') \<Longrightarrow> only_lookup D s s'"
  "handleGetKey D ctx r s = (resp, s') \<Longrightarrow> only_lookup D s s'"
  "handlePutKey D e ctx r s = (resp, s') \<Longrightarrow> only_lookup D s s'"
  "handleDeleteKey D e ctx r s = (resp, s') \<Longrightarrow> only_lookup D s s'"
  "handleRollbackPreview D ctx r s = (resp, s') \<Longrightarrow> only_lookup D s s'"
  "handleRollbackVersions D ctx r s = (resp, s') \<Longrightarrow> only_lookup D s s'"
  "handleRollbackKey D e ctx r s = (resp, s') \<Longrightarrow> only_lookup D s s'"
  by (auto simp: handleListKeys_def handleGetKey_def handlePutKey_def handleDeleteKey_def handleRollbackPreview_def
      handleRollbackVersions_def handleRollbackKey_def Let_def call_eqs
      dest!: frames clusterKV_lookup clusterKVFromRequest_lookup elim: only_lookup_trans
      split: sum.splits prod.splits option.splits if_splits)

lemma handleStatus_lookup:
  "handleStatus D ctx r s = (resp, s') \<Longrightarrow> only_lookup D s s'"
  by (auto simp: handleStatus_def only_lookup_def Let_def call_eqs split: sum.splits prod.splits option.splits if_splits)
    (metis snd_conv)+

lemma read_handlers_lookup:
  "handleListAudit D ctx r s = (resp, s') \<Longrightarrow> only_lookup D s s'"
  "handleListClusters D ctx r s = (resp, s') \<Longrightarrow> only_lookup D s s'"
  "handleHistoryStorageStatus D ctx r s = (resp, s') \<Longrightarrow> only_lookup D s s'"
  by (auto simp: handleListAudit_def handleListClusters_def handleHistoryStorageStatus_def Let_def call_eqs
      split: sum.splits prod.splits option.splits if_splits)

section \<open>Operators\<close>

lemma requireAdmin_operator:
  assumes "sv_auth s = Some st" and "\<not> IsAdmin p"
  shows "requireAdmin s (Some p) = Inl (writeError 403 ''admin_required'')"
  using assms by (simp add: requireAdmin_def)

definition admin_routes :: "route list" where
  "admin_routes = [AuthSettings, AuthUpdateSettings, LdapTest, UsersList, UserCreate, UserUpdate, UserDelete,
     ClusterCreate, ClusterUpdate, ClusterDelete, ClusterTest, StorageTest, StorageConfigure, StorageRetention]"

lemma admin_routes_refused:
  assumes "sv_auth s = Some st" and "\<not> IsAdmin p" and "rt \<in> set admin_routes"
  shows "handle D e (Some p) rt r s = (writeError 403 ''admin_required'', s)"
proof -
  note [simp] = requireAdmin_operator [OF assms(1,2)]
  show ?thesis
    using assms(3)
    by (auto simp: admin_routes_def handleAuthSettings_def handleUpdateAuthSettings_def handleTestLDAP_def handleListUsers_def
        handleCreateUser_def handleUpdateUser_def handleDeleteUser_def handleCreateCluster_def handleUpdateCluster_def
        handleDeleteCluster_def handleTestCluster_def handleTestHistoryStorage_def handleConfigureHistoryStorage_def
        handleUpdateHistoryRetention_def)
qed

text \<open>The handlers of sessions change the table of sessions only.\<close>

definition same_config :: "('r, 'h, 'w) Server \<Rightarrow> ('r, 'h, 'w) Server \<Rightarrow> bool" where
  "same_config s s' \<longleftrightarrow> (\<exists>m m' d. sv_auth s = Some (m, d) \<and> sv_auth s' = Some (m', d) \<and> m_config m' = m_config m) \<and>
     sv_clusters s' = sv_clusters s"

lemma Session_config: "m_config (snd (Session L now token m)) = m_config m"
  by (auto simp: Session_def DeleteSession_def Let_def split: option.split)

lemma CreateSession_config: "m_config (snd (CreateSession L now now' raw p m)) = m_config m"
  by (auto simp: CreateSession_def pruneSessionsLocked_def Let_def split: option.split)

lemma session_handlers_config:
  assumes "sv_auth s = Some (m, d)"
  shows "handleAuthStatus D e ctx r s = (resp, s') \<Longrightarrow> same_config s s'"
    and "handleAuthLogin D e r s = (resp, s') \<Longrightarrow> same_config s s'"
    and "handleAuthLogout D ctx r s = (resp, s') \<Longrightarrow> same_config s s'"
proof -
  show "handleAuthStatus D e ctx r s = (resp, s') \<Longrightarrow> same_config s s'"
    using assms Session_config [of "dp_auth D" "rc_clock e 0" _ m]
    by (auto simp: handleAuthStatus_def requestPrincipal_def same_config_def split: option.splits prod.splits if_splits)
      (metis snd_conv)+
  show "handleAuthLogin D e r s = (resp, s') \<Longrightarrow> same_config s s'"
    using assms CreateSession_config [of "dp_auth D" "rc_clock e 1" "rc_clock e 2" "rc_random e" _ m]
    by (auto simp: handleAuthLogin_def startSession_def same_config_def Let_def split: option.splits prod.splits sum.splits if_splits)
      (metis snd_conv)+
  show "handleAuthLogout D ctx r s = (resp, s') \<Longrightarrow> same_config s s'"
    using assms
    by (auto simp: handleAuthLogout_def same_config_def panics_def DeleteSession_def Let_def split: option.splits if_splits)
qed

text \<open>
  C17. A principal that is no administrator changes no user, no setting and no cluster: every
  route that would is refused with 403 and leaves the whole server as it is, and every other
  route, except the change of the own password, leaves users and settings as they are and
  does no more to the registry than look a cluster up.
\<close>

theorem operator_cannot_administer:
  assumes "sv_auth s = Some (m, d)" and "\<not> IsAdmin p" and "handle D e (Some p) rt r s = (resp, s')"
  shows "(rt \<in> set admin_routes \<longrightarrow> rs_Status resp = 403 \<and> s' = s) \<and>
    (rt \<noteq> AuthChangePassword \<longrightarrow>
      (\<exists>m'. sv_auth s' = Some (m', d) \<and> m_config m' = m_config m) \<and>
      (sv_clusters s' = sv_clusters s \<or> (\<exists>cid. sv_clusters s' = snd (cg_ClusterKV (dp_clusters D) cid (sv_clusters s)))))"
proof (cases "rt \<in> set admin_routes")
  case True
  then show ?thesis using admin_routes_refused [OF assms(1,2) True, of D e r] assms(1,3) by simp
next
  case False
  have sessions: "same_config s s'" if "rt \<in> {AuthStatus, AuthLogin, AuthLogout}"
    using that assms(3) session_handlers_config [OF assms(1)] by auto
  have others: "only_lookup D s s'" if "rt \<notin> {AuthStatus, AuthLogin, AuthLogout, AuthChangePassword}"
    using that False assms(3) by (cases rt) (auto simp: admin_routes_def dest: key_handlers_lookup handleStatus_lookup read_handlers_lookup)
  show ?thesis
    using False sessions others assms(1) by (auto simp: same_config_def only_lookup_def)
qed

section \<open>Grants\<close>

text \<open>The cluster that a request for keys is about; \<open>None\<close> when its body cannot be decoded.\<close>

definition key_routes :: "route list" where
  "key_routes = [StatusGet, KeysList, KeyGet, KeyPut, KeyDelete, KeyVersions, KeyPreview, KeyRollback]"

definition requestedCluster :: "('r, 'h, 'w) deps \<Rightarrow> route \<Rightarrow> request \<Rightarrow> string option" where
  "requestedCluster D rt r =
    (if rt = KeyPut then (case decodeJSON (dp_put D) r of Inl _ \<Rightarrow> None | Inr request \<Rightarrow> Some (pr_ClusterID request))
     else if rt = KeyRollback then (case decodeJSON (dp_rollback D) r of Inl _ \<Rightarrow> None | Inr request \<Rightarrow> Some (rr_ClusterID request))
     else Some (TrimSpace (rq_Query r ''cluster_id'')))"

text \<open>
  C18. The keys, values, versions and the status of a cluster are read and written only for
  principals that are administrators or have a grant for the cluster: a request for any other
  cluster gets an error (or, when it names no cluster, the answer that there is no
  connection), and the server does not touch the registry, the history or etcd for it.
\<close>

theorem cluster_data_needs_grant:
  assumes "sv_auth s = Some st" and "rt \<in> set key_routes" and "requestedCluster D rt r = Some cid" and "\<not> CanAccessCluster p cid"
  shows "\<exists>resp. handle D e (Some p) rt r s = (resp, s) \<and>
    (rs_Status resp \<in> {400, 403} \<and> (\<exists>code. rs_Reply resp = ErrorReply code) \<or> cid = [] \<and> rs_Reply resp = ConnectedReply False)"
proof -
  have denied: "requireClusterAccess s (Some p) cid = Some (writeError 403 ''cluster_access_denied'')"
    using assms(1,4) by (simp add: requireClusterAccess_def requestCanAccessCluster_def)
  then have query: "clusterKVFromRequest D (Some p) r s = (Inl (writeError 403 ''cluster_access_denied''), s)"
    if "cid = TrimSpace (rq_Query r ''cluster_id'')"
    using that by (simp add: clusterKVFromRequest_def)
  show ?thesis
    using assms(2,3) denied query
    by (auto simp: key_routes_def requestedCluster_def handleStatus_def handleListKeys_def handleGetKey_def handlePutKey_def
        handleDeleteKey_def handleRollbackVersions_def handleRollbackPreview_def handleRollbackKey_def Let_def
        split: sum.splits option.split if_splits)
qed

section \<open>The audit log\<close>

lemma auditScope_operator:
  assumes "sv_auth s = Some st" and "\<not> IsAdmin p" and "auditScope s (Some p) c = Inr (actor, actorType)"
  shows "actor = p_Username p" "actorType = p_Provider p" "c \<noteq> []" "CanAccessCluster p c"
  using assms
  by (auto simp: auditScope_def requestIsAdmin_def requireClusterAccess_def requestCanAccessCluster_def split: if_splits)

lemma auditScope_reply: "auditScope s ctx c = Inl x \<Longrightarrow> \<exists>code. rs_Reply x = ErrorReply code"
  by (auto simp: auditScope_def requireClusterAccess_simps split: if_splits option.splits)

lemma manager_ListAudit:
  assumes "hst_ListAudit (manager_storage U P (local_ops V J A) e0) q g = (Inr page, g')"
  obtains b :: localHistoryBackend and since where "FileAudit_ListAudit V (q\<lparr>q_Since := since\<rparr>) (lb_audit b) = Inr page"
proof -
  obtain m w now where "HistoryManager_ListAudit (local_ops V J A) (ml_env (mgr_env e0 g)) now q (m, w) = Inr page"
    using assms by (auto simp: manager_storage_def Let_def elim!: mgr_read_eq)
  then obtain b :: localHistoryBackend where "FileAudit_ListAudit V (if q_Since q = 0 \<or> q_Since q < auditCutoff now then q\<lparr>q_Since := auditCutoff now\<rparr> else q)
      (lb_audit b) = Inr page"
    by (auto simp: HistoryManager_ListAudit_def Let_def local_ops_def localHistoryBackend_ListAudit_def simp del: if_split
        split: option.splits sum.splits)
  then show thesis
    using that [of "auditCutoff now" b] that [of "q_Since q" b] by (auto split: if_splits)
qed

lemma handleListAudit_success:
  assumes "handleListAudit D ctx r s = (resp, s')" and "rs_Reply resp = AuditReply evs nextCursor"
  obtains limit actor actorType since until cur page h where
    "parseAuditLimit (rq_Query r ''limit'') = Some limit"
    "auditScope s ctx (TrimSpace (rq_Query r ''cluster_id'')) = Inr (actor, actorType)"
    "hst_ListAudit (dp_history D)
       \<lparr>q_Since = since, q_Until = until, q_Before = ac_OccurredAt cur, q_BeforeID = ac_ID cur, q_Limit = limit,
        q_ClusterID = TrimSpace (rq_Query r ''cluster_id''), q_Actor = actor, q_ActorType = actorType,
        q_Action = TrimSpace (rq_Query r ''action''), q_Search = TrimSpace (rq_Query r ''search'')\<rparr> (sv_history s) = (Inr page, h)"
    "evs = ap_Events page" "nextCursor = nextAuditCursor (dp_cursor D) page"
proof -
  have [simp]: "rs_Reply (if b then writeError n x else writeError k y) = ErrorReply (if b then x else y)" for b n k x y
    by simp
  show thesis
    using assms
    by (auto simp: handleListAudit_def Let_def call_eqs simp del: if_split dest!: auditScope_reply
        split: option.splits sum.splits prod.splits intro: that)
qed

text \<open>
  C19. An operator sees in the audit log only events of the cluster that the request names, for
  which the operator has a grant, and only those the operator has caused under the same
  login provider.
\<close>

theorem operator_sees_own_audit:
  assumes "dp_history D = manager_storage U P (local_ops V J A) e0" and "sv_auth s = Some st" and "\<not> IsAdmin p"
    and "p_Username p \<noteq> []" and "p_Provider p \<noteq> []"
    and "handleListAudit D (Some p) r s = (resp, s')" and "rs_Reply resp = AuditReply evs cursor" and "ev \<in> set evs"
  shows "CanAccessCluster p (TrimSpace (rq_Query r ''cluster_id'')) \<and> ev_ClusterID ev = TrimSpace (rq_Query r ''cluster_id'') \<and>
    ev_Actor ev = p_Username p \<and> ev_ActorType ev = p_Provider p"
proof -
  let ?c = "TrimSpace (rq_Query r ''cluster_id'')"
  obtain limit actor actorType since until cur page h where limit: "parseAuditLimit (rq_Query r ''limit'') = Some limit"
    and scope: "auditScope s (Some p) ?c = Inr (actor, actorType)"
    and list: "hst_ListAudit (dp_history D)
       \<lparr>q_Since = since, q_Until = until, q_Before = ac_OccurredAt cur, q_BeforeID = ac_ID cur, q_Limit = limit,
        q_ClusterID = ?c, q_Actor = actor, q_ActorType = actorType,
        q_Action = TrimSpace (rq_Query r ''action''), q_Search = TrimSpace (rq_Query r ''search'')\<rparr> (sv_history s) = (Inr page, h)"
    and evs: "evs = ap_Events page"
    by (rule handleListAudit_success [OF assms(6,7)])
  note own = auditScope_operator [OF assms(2,3) scope]
  obtain b :: localHistoryBackend and since' where lst: "FileAudit_ListAudit V
      \<lparr>q_Since = since', q_Until = until, q_Before = ac_OccurredAt cur, q_BeforeID = ac_ID cur, q_Limit = limit,
        q_ClusterID = ?c, q_Actor = actor, q_ActorType = actorType,
        q_Action = TrimSpace (rq_Query r ''action''), q_Search = TrimSpace (rq_Query r ''search'')\<rparr> (lb_audit b) = Inr page"
    by (rule manager_ListAudit [OF list [unfolded assms(1)]]) simp
  have "1 \<le> limit"
    using limit by (auto simp: parseAuditLimit_def parseBounded_def auditPageSize_def split: if_splits option.splits)
  with FileAudit_ListAudit_ok [OF lst] assms(8) evs have "auditMatches V
      \<lparr>q_Since = since', q_Until = until, q_Before = ac_OccurredAt cur, q_BeforeID = ac_ID cur, q_Limit = limit,
        q_ClusterID = ?c, q_Actor = actor, q_ActorType = actorType,
        q_Action = TrimSpace (rq_Query r ''action''), q_Search = TrimSpace (rq_Query r ''search'')\<rparr> ev"
    by (auto simp: Let_def dest!: in_set_takeD)
  then show ?thesis
    using own assms(4,5) by (auto simp: auditMatches_def split: if_splits)
qed

section \<open>Pending audit events\<close>

text \<open>At most 100 events wait for a history storage.\<close>

abbreviation few_pending :: "('r, 'h, 'w) Server \<Rightarrow> bool" where
  "few_pending s \<equiv> length (sv_pendingAudit s) \<le> maxPending"

lemma saveAuditEvent_pending: "few_pending s \<Longrightarrow> few_pending (saveAuditEvent D ev s)"
  by (auto simp: saveAuditEvent_def call_simps maxPending_def Let_def split: sum.split)

lemma recordAudit_pending [simp]:
  "few_pending s \<Longrightarrow> few_pending (recordAudit D r ctx ev s)"
  "few_pending s \<Longrightarrow> few_pending (recordAuditForPrincipal D r p ev s)"
  by (simp_all add: recordAudit_def recordAuditForPrincipal_def saveAuditEvent_pending split: option.split prod.split)

lemma flushEvents_pending:
  "length evs + length (sv_pendingAudit s) \<le> maxPending \<Longrightarrow> few_pending (flushEvents D evs s)"
  by (induction evs arbitrary: s) (auto simp: call_simps split: sum.split)

lemma flushPendingAudit_pending [simp]: "few_pending s \<Longrightarrow> few_pending (flushPendingAudit D s)"
  by (simp add: flushPendingAudit_def flushEvents_pending)

lemma lookup_pending:
  "clusterKV D cid s = (x, s') \<Longrightarrow> sv_pendingAudit s' = sv_pendingAudit s"
  "clusterKVFromRequest D ctx r s = (y, s') \<Longrightarrow> sv_pendingAudit s' = sv_pendingAudit s"
proof -
  show kv: "clusterKV D cid s = (x, s') \<Longrightarrow> sv_pendingAudit s' = sv_pendingAudit s" for cid x s'
    by (auto simp: clusterKV_def call_eqs split: if_splits)
  show "clusterKVFromRequest D ctx r s = (y, s') \<Longrightarrow> sv_pendingAudit s' = sv_pendingAudit s"
    by (auto simp: clusterKVFromRequest_def Let_def dest: kv split: option.splits prod.splits sum.splits)
qed

lemma pending_record:
  "few_pending s \<Longrightarrow> sv_pendingAudit s' = sv_pendingAudit s \<Longrightarrow> few_pending (recordAudit D r ctx ev s')"
  "few_pending s \<Longrightarrow> sv_pendingAudit s' = sv_pendingAudit s \<Longrightarrow> few_pending (recordAuditForPrincipal D r p ev s')"
  by (simp_all add: recordAudit_pending)

lemma key_handlers_pending:
  assumes "few_pending s"
  shows "handleStatus D ctx r s = (resp, s') \<Longrightarrow> few_pending s'"
    and "handleListKeys D ctx r s = (resp, s') \<Longrightarrow> few_pending s'"
    and "handleGetKey D ctx r s = (resp, s') \<Longrightarrow> few_pending s'"
    and "handlePutKey D e ctx r s = (resp, s') \<Longrightarrow> few_pending s'"
    and "handleDeleteKey D e ctx r s = (resp, s') \<Longrightarrow> few_pending s'"
    and "handleRollbackPreview D ctx r s = (resp, s') \<Longrightarrow> few_pending s'"
    and "handleRollbackVersions D ctx r s = (resp, s') \<Longrightarrow> few_pending s'"
    and "handleRollbackKey D e ctx r s = (resp, s') \<Longrightarrow> few_pending s'"
    and "handleListAudit D ctx r s = (resp, s') \<Longrightarrow> few_pending s'"
  using assms
  by (auto simp: handleStatus_def handleListKeys_def handleGetKey_def handlePutKey_def handleDeleteKey_def handleRollbackPreview_def
      handleRollbackVersions_def handleRollbackKey_def handleListAudit_def Let_def call_eqs simp del: if_split
      dest!: frames lookup_pending intro!: recordAudit_pending
      split: sum.splits prod.splits option.splits if_splits)

lemma admin_handlers_pending:
  assumes "few_pending s"
  shows "handleListClusters D ctx r s = (resp, s') \<Longrightarrow> few_pending s'"
    and "handleCreateCluster D ctx r s = (resp, s') \<Longrightarrow> few_pending s'"
    and "handleUpdateCluster D ctx r s = (resp, s') \<Longrightarrow> few_pending s'"
    and "handleDeleteCluster D e ctx r s = (resp, s') \<Longrightarrow> few_pending s'"
    and "handleTestCluster D ctx r s = (resp, s') \<Longrightarrow> few_pending s'"
    and "handleHistoryStorageStatus D ctx r s = (resp, s') \<Longrightarrow> few_pending s'"
    and "handleTestHistoryStorage D ctx r s = (resp, s') \<Longrightarrow> few_pending s'"
    and "handleConfigureHistoryStorage D ctx r s = (resp, s') \<Longrightarrow> few_pending s'"
    and "handleUpdateHistoryRetention D ctx r s = (resp, s') \<Longrightarrow> few_pending s'"
  using assms
  by (auto simp: handleListClusters_def handleCreateCluster_def handleUpdateCluster_def handleDeleteCluster_def
      removeClusterPermissions_def handleTestCluster_def handleHistoryStorageStatus_def handleTestHistoryStorage_def
      handleConfigureHistoryStorage_def handleUpdateHistoryRetention_def Let_def call_eqs simp del: if_split
      intro!: recordAudit_pending flushPendingAudit_pending
      split: sum.splits prod.splits option.splits)

lemma auth_handlers_pending:
  assumes "few_pending s"
  shows "handleAuthStatus D e ctx r s = (resp, s') \<Longrightarrow> few_pending s'"
    and "handleAuthLogin D e r s = (resp, s') \<Longrightarrow> few_pending s'"
    and "handleAuthLogout D ctx r s = (resp, s') \<Longrightarrow> few_pending s'"
    and "handleChangePassword D e ctx r s = (resp, s') \<Longrightarrow> few_pending s'"
    and "handleAuthSettings D ctx r s = (resp, s') \<Longrightarrow> few_pending s'"
    and "handleUpdateAuthSettings D e ctx r s = (resp, s') \<Longrightarrow> few_pending s'"
    and "handleTestLDAP D ctx r s = (resp, s') \<Longrightarrow> few_pending s'"
    and "handleListUsers D ctx r s = (resp, s') \<Longrightarrow> few_pending s'"
    and "handleCreateUser D e ctx r s = (resp, s') \<Longrightarrow> few_pending s'"
    and "handleUpdateUser D e ctx r s = (resp, s') \<Longrightarrow> few_pending s'"
    and "handleDeleteUser D e ctx r s = (resp, s') \<Longrightarrow> few_pending s'"
  using assms
  by (auto simp: handleAuthStatus_def handleAuthLogin_def handleAuthLogout_def handleChangePassword_def handleAuthSettings_def
      handleUpdateAuthSettings_def handleTestLDAP_def handleListUsers_def handleCreateUser_def handleUpdateUser_def
      handleDeleteUser_def panics_def onNil_def Let_def intro!: recordAudit_pending
      split: sum.splits prod.splits option.splits if_splits)

lemmas handlers_pending = key_handlers_pending admin_handlers_pending auth_handlers_pending

lemma handle_pending:
  assumes "few_pending s" and "handle D e ctx rt r s = (resp, s')"
  shows "few_pending s'"
  using assms(2)
  by (cases rt) (simp_all only: handle.simps, (rule handlers_pending [OF assms(1)], assumption)+)

text \<open>
  C20. Whatever requests come, at most 100 audit events wait in memory for a history storage to be
  configured.
\<close>

theorem pending_audit_bounded:
  assumes "length (sv_pendingAudit s) \<le> 100" and "Handler D e r s = (resp, s')"
  shows "length (sv_pendingAudit s') \<le> 100"
proof -
  have few: "few_pending s" using assms(1) by (simp add: maxPending_def)
  have mux: "few_pending s''" if "serveMux D e ctx r s1 = (resp, s'')" "sv_pendingAudit s1 = sv_pendingAudit s" for ctx s1 s''
    using that few handle_pending [of s1 D e ctx] by (auto simp: serveMux_def split: option.splits if_splits)
  have "few_pending s'"
    using assms(2) few mux
    by (auto simp: Handler_def requireAuthentication_def split: option.splits if_splits prod.splits)
  then show ?thesis by (simp add: maxPending_def)
qed

end
