(* ===== verification/Server_Instances.thy ===== *)
theory Server_Instances
  imports Server_Versions Server_Access Registry_Instances Auth_Theorems
begin

text \<open>
  A small server, with which the guarantees of the handlers are evaluated: one registered cluster,
  the local backend with an empty history, and a key that has been written twice.
\<close>

section \<open>Its parts\<close>

definition quiet_call :: "local_env mgr_call" where
  "quiet_call = \<lparr>ml_env = sample_env, ml_now = 9, ml_later = 9, ml_random = Some ''x'', ml_io = good_io, ml_ctx = None\<rparr>"

definition sample_history :: "(local_env, localHistoryBackend, fsys) mgr HistoryStorage" where
  "sample_history = manager_storage basic_ucd hm_codec (local_ops basic_ucd sample_codec audit_codec) quiet_call"

definition sample_clusters :: "(reg_state, mvcc) ClusterRegistry" where
  "sample_clusters = registry_clusters sample_reg_lib [] (\<lambda>_. ref_client) (\<lambda>_. None)
     \<lparr>rl_now = 9, rl_random = Some ''y'', rl_io = reg_io, rl_closeErr = None\<rparr>"

definition sample_deps ::
    "putRequest \<Rightarrow> rollbackRequest \<Rightarrow> (reg_state, (local_env, localHistoryBackend, fsys) mgr, mvcc) deps" where
  "sample_deps put rollback =
    \<lparr>dp_clusters = sample_clusters, dp_history = sample_history, dp_auth = sample_lib, dp_ldap = sample_directory,
     dp_rfc3339 = (\<lambda>_. None), dp_cursor = \<lparr>marshal = (\<lambda>_. None), unmarshal = (\<lambda>_. None)\<rparr>,
     dp_put = (\<lambda>_. JsonValue put []), dp_rollback = (\<lambda>_. JsonValue rollback []), dp_cluster = (\<lambda>_. Malformed),
     dp_storage = (\<lambda>_. Malformed), dp_retention = (\<lambda>_. Malformed), dp_login = (\<lambda>_. Malformed), dp_password = (\<lambda>_. Malformed),
     dp_settings = (\<lambda>_. Malformed), dp_ldapInput = (\<lambda>_. Malformed), dp_user = (\<lambda>_. Malformed), dp_files = (\<lambda>_. 200)\<rparr>"

definition put_again :: putRequest where
  "put_again = \<lparr>pr_ClusterID = ''78'', pr_Key = ''k'', pr_KeyBase64 = [], pr_Value = ''c'', pr_ValueBase64 = [],
     pr_ValueEncoding = [], pr_ExpectedModRevision = Some 3\<rparr>"

definition back_to_2 :: rollbackRequest where
  "back_to_2 = \<lparr>rr_ClusterID = ''78'', rr_Key = ''k'', rr_KeyBase64 = [], rr_ExpectedModRevision = Some 3,
     rr_TargetModRevision = Some 2\<rparr>"

abbreviation small_deps :: "(reg_state, (local_env, localHistoryBackend, fsys) mgr, mvcc) deps" where
  "small_deps \<equiv> sample_deps put_again back_to_2"

definition entry_a :: Entry where
  "entry_a = \<lparr>e_Key = ''k'', e_Value = ''a'', e_CreateRevision = 2, e_ModRevision = 2, e_Version = 1, e_Lease = 0\<rparr>"

definition entry_b :: Entry where
  "entry_b = \<lparr>e_Key = ''k'', e_Value = ''b'', e_CreateRevision = 2, e_ModRevision = 3, e_Version = 2, e_Lease = 0\<rparr>"

definition two_versions :: mvcc where
  "two_versions = \<lparr>mv_rev = 3, mv_compact = 0, mv_log = [(3, ''k'', Some entry_b), (2, ''k'', Some entry_a)]\<rparr>"

definition sample_server :: "auth_state option \<Rightarrow> (reg_state, (local_env, localHistoryBackend, fsys) mgr, mvcc) Server" where
  "sample_server a =
    \<lparr>sv_clusters = (sample_reg ''p'' 7, Map.empty, no_clients),
     sv_history = \<lparr>mg_state = (sample_hm\<lparr>hm_retentionVersions := 0\<rparr>, Map.empty, log_fs), mg_calls = []\<rparr>,
     sv_auth = a, sv_pendingAudit = [], sv_etcd = two_versions\<rparr>"

definition sample_clock :: env where
  "sample_clock = \<lparr>rc_clock = (\<lambda>_. 7), rc_call = sample_call, rc_random = Some ''r''\<rparr>"

definition query_request :: "string list \<Rightarrow> (string \<times> string) list \<Rightarrow> request" where
  "query_request segs q =
    \<lparr>rq_Method = ''GET'', rq_Segments = segs, rq_Query = (\<lambda>n. case map_of q n of None \<Rightarrow> [] | Some v \<Rightarrow> v),
     rq_PathValue = (\<lambda>_. []), rq_Body = [], rq_Cookie = Some ''k'', rq_Header = (\<lambda>_. []), rq_RemoteAddr = ''h'', rq_TLS = False\<rparr>"

lemma two_versions_built: "two_versions = mput ''k'' ''b'' (mput ''k'' ''a'' empty_mvcc)"
  by (simp add: two_versions_def mput_def put_entry_def current_def at_rev_def empty_mvcc_def entry_a_def entry_b_def Let_def)

lemma two_versions_inv: "mvcc_inv two_versions"
  unfolding two_versions_built by (intro mvcc_le_inv [OF mput_le] empty_mvcc_inv)

lemma two_versions_at:
  "current two_versions ''k'' = Some entry_b" "at_rev two_versions ''k'' 2 = Some entry_a" "at_rev two_versions ''k'' 3 = Some entry_b"
  "at_rev two_versions ''k'' 1 = None" "all_keys two_versions = [''k'']"
  by (simp_all add: two_versions_def current_def at_rev_def all_keys_def)

lemma ref_reads:
  "kv_Get (Etcd [] ref_client) ''k'' two_versions = (Inr (Some entry_b), two_versions)"
  "kv_GetAtRevision (Etcd [] ref_client) ''k'' 2 two_versions = (Inr (Some entry_a), two_versions)"
  "kv_GetAtRevision (Etcd [] ref_client) ''k'' 1 two_versions = (Inr None, two_versions)"
  "kv_Put (Etcd [] ref_client) ''k'' v (Some 3) two_versions = (Inr 4, mput ''k'' v two_versions)"
  "kv_Delete (Etcd [] ref_client) ''k'' (Some 3) two_versions = (Inr (4, True), mdelete ''k'' two_versions)"
  using two_versions_at
  by (simp_all add: Etcd_def Etcd_Get_def Etcd_GetAtRevision_def Etcd_Put_def Etcd_Delete_def ref_client_def get_reply_def plain_get_def
      entries_in_def in_range_def current_def mod_rev_def kvFromEntry_def entryFromKV_def firstEntry_def mput_def mdelete_def Let_def)
   (simp_all add: two_versions_def entry_a_def entry_b_def)


section \<open>Its calls\<close>

lemma sample_ClusterKV:
  "\<exists>cs. cg_ClusterKV sample_clusters ''78'' (sample_reg ''p'' 7, Map.empty, no_clients) =
     (Inr (Etcd [] ref_client, sample_cluster ''p'' 7), cs)"
  by (simp add: sample_clusters_def registry_clusters_def sample_connect del: ClusterKV.simps One_nat_def)

lemma sample_clusterKV:
  obtains cs where "cg_ClusterKV sample_clusters ''78'' (sample_reg ''p'' 7, Map.empty, no_clients) =
      (Inr (Etcd [] ref_client, sample_cluster ''p'' 7), cs)"
    and "clusterKV (sample_deps put rollback) ''78'' (sample_server a) =
      (Inr (Etcd [] ref_client, sample_cluster ''p'' 7), (sample_server a)\<lparr>sv_clusters := cs\<rparr>)"
  using sample_ClusterKV
  by (auto simp: clusterKV_def call_clusters_def sample_deps_def sample_server_def visible_def byte_def)

text \<open>A history that accepts snapshots and keeps all of them.\<close>

definition accepting :: "(local_env, localHistoryBackend, fsys) mgr \<Rightarrow> bool" where
  "accepting g \<longleftrightarrow> mg_calls g = [] \<and> (case mg_state g of (m, d, w) \<Rightarrow> hm_retentionVersions m = 0 \<and>
     (case hm_backend m of None \<Rightarrow> False | Some b \<Rightarrow> fh_file (lb_history b) = Some 0))"

lemma sample_encodes:
  assumes "entry = entry_a \<or> entry = entry_b"
  shows "validateSnapshot \<lparr>vs_ClusterID = ''78'', vs_Entry = entry, vs_CapturedAt = 7\<rparr> = None"
    and "\<exists>j. marshal sample_codec (recordFromSnapshot \<lparr>vs_ClusterID = ''78'', vs_Entry = entry, vs_CapturedAt = 7\<rparr>) = Some j \<and>
      length (j @ [newline]) \<le> maxHistoryRecordSize"
proof -
  show "validateSnapshot \<lparr>vs_ClusterID = ''78'', vs_Entry = entry, vs_CapturedAt = 7\<rparr> = None"
    using assms by (elim disjE) (simp_all add: validateSnapshot_def entry_a_def entry_b_def visible_def byte_def)
  show "\<exists>j. marshal sample_codec (recordFromSnapshot \<lparr>vs_ClusterID = ''78'', vs_Entry = entry, vs_CapturedAt = 7\<rparr>) = Some j \<and>
      length (j @ [newline]) \<le> maxHistoryRecordSize"
    using assms
    by (elim disjE) (simp_all add: entry_a_def entry_b_def sample_codec_def recordFromSnapshot_def int64_def length_writeFields
        recordFields_def length_StdEncode FormatInt_def natDigits.simps maxHistoryRecordSize_def historyRecordVersion_def)
qed

lemma accepting_saves:
  assumes "accepting g" and "entry = entry_a \<or> entry = entry_b"
  shows "\<exists>g'. hst_Save sample_history \<lparr>vs_ClusterID = ''78'', vs_Entry = entry, vs_CapturedAt = 7\<rparr> g = (Inr (), g') \<and> accepting g'"
proof -
  let ?x = "\<lparr>vs_ClusterID = ''78'', vs_Entry = entry, vs_CapturedAt = 7\<rparr>"
  obtain m d w b where g: "mg_calls g = []" "mg_state g = (m, d, w)" "hm_retentionVersions m = 0" "hm_backend m = Some b"
      "fh_file (lb_history b) = Some 0"
    using assms(1) by (auto simp: accepting_def split: option.splits prod.splits)
  obtain j where j: "marshal sample_codec (recordFromSnapshot ?x) = Some j" "length (j @ [newline]) \<le> maxHistoryRecordSize"
    using sample_encodes(2) [OF assms(2)] by blast
  have "\<exists>h' w'. FileHistory_Save sample_codec 9 \<lparr>ai_fault = AppendOk, ai_truncate_ok = True\<rparr> ?x (lb_history b, w) = (Inr (), (h', w')) \<and>
      fh_file h' = Some 0"
    using sample_encodes(1) [OF assms(2)] j g(5)
    by (auto simp: FileHistory_Save_def appendRecord_def addLocked_def Let_def)
  then show ?thesis
    using g
    by (auto simp: sample_history_def manager_storage_def mgr_update_def mgr_env_def mgr_done_def quiet_call_def HistoryManager_Save_def
        with_backend_def local_ops_def on_history_compose on_history_def save_and_prune_def sample_env_def FileHistory_PruneKey_def
        accepting_def)
qed

lemma accepting_snapshot:
  assumes "accepting (sv_history s)" and "entry = entry_a \<or> entry = entry_b"
  obtains h where "saveSnapshot (sample_deps put rollback) 7 ''78'' entry s = (None, s\<lparr>sv_history := h\<rparr>)" "accepting h"
  using accepting_saves [OF assms] by (auto simp: saveSnapshot_def call_history_def sample_deps_def)

lemma sample_accepting: "accepting (sv_history (sample_server a))"
  by (simp add: accepting_def sample_server_def sample_hm_def sample_backend_def)

lemma sample_honest: "honest mgr_inv mgr_stored (\<lambda>w. w) c (sample_server a)"
  by (simp add: honest_def sample_server_def two_versions_inv mgr_inv_def mgr_stored_def truthful_def sample_hm_def sample_backend_def
      fh_inv_empty fh_abs_def entries_at_def sort_desc_def)

lemma sample_decodes:
  assumes "rq_Body r = []"
  shows "decodeJSON (dp_put (sample_deps put rollback)) r = Inr put"
    "decodeJSON (dp_rollback (sample_deps put rollback)) r = Inr rollback"
  using assms by (simp_all add: decodeJSON_def sample_deps_def jsonBlank_def)

lemma sample_parts [simp]:
  "dp_history (sample_deps put rollback) = sample_history" "dp_clusters (sample_deps put rollback) = sample_clusters"
  "sv_etcd (sample_server a) = two_versions" "sv_clusters (sample_server a) = (sample_reg ''p'' 7, Map.empty, no_clients)"
  "sv_auth (sample_server a) = a" "c_ID (sample_cluster pw t) = ''78''" "rc_clock sample_clock i = 7"
  by (simp_all add: sample_deps_def sample_server_def sample_cluster_def sample_clock_def)

section \<open>Its replies\<close>

lemma sample_archive:
  assumes "sv_etcd s = two_versions" and "accepting (sv_history s)"
  obtains h where "archiveCurrent (sample_deps put rollback) 7 ''78'' (Etcd [] ref_client) ''k'' (Some 3) s =
      (Inr (Some entry_b), s\<lparr>sv_history := h\<rparr>)" "accepting h"
proof -
  obtain h where "saveSnapshot (sample_deps put rollback) 7 ''78'' entry_b s = (None, s\<lparr>sv_history := h\<rparr>)" "accepting h"
    using accepting_snapshot [of s entry_b put rollback] assms(2) by blast
  moreover have "e_ModRevision entry_b = 3" by (simp add: entry_b_def)
  moreover have same: "s\<lparr>sv_etcd := two_versions\<rparr> = s" using assms(1) by simp
  ultimately show ?thesis
    using assms(1) that by (simp add: archiveCurrent_def call_etcd_def ref_reads same)
qed

lemma sample_put_reply:
  "\<exists>resp s'. handlePutKey small_deps sample_clock None (query_request segs q) (sample_server None) = (resp, s') \<and>
     rs_Reply resp = RevisionReply 4"
proof -
  let ?s = "sample_server None"
  obtain cs where kv: "clusterKV small_deps ''78'' ?s = (Inr (Etcd [] ref_client, sample_cluster ''p'' 7), ?s\<lparr>sv_clusters := cs\<rparr>)"
    by (rule sample_clusterKV)
  obtain h where "archiveCurrent small_deps 7 ''78'' (Etcd [] ref_client) ''k'' (Some 3) (?s\<lparr>sv_clusters := cs\<rparr>) =
      (Inr (Some entry_b), ?s\<lparr>sv_clusters := cs, sv_history := h\<rparr>)"
    by (rule sample_archive [of "?s\<lparr>sv_clusters := cs\<rparr>" put_again back_to_2]) (simp_all add: sample_accepting)
  moreover have "decodeJSON (dp_put small_deps) (query_request segs q) = Inr put_again"
    by (simp add: sample_decodes query_request_def)
  ultimately show ?thesis
    using kv by (simp add: handlePutKey_def requireClusterAccess_def requestCanAccessCluster_def put_again_def decodeKey_def
        decodeValue_def call_etcd_def ref_reads writeJSON_def)
qed

theorem put_archives_replaced_value_witness:
  "\<exists>resp s'. handlePutKey small_deps sample_clock None (query_request [] []) (sample_server None) = (resp, s') \<and>
     rs_Reply resp = RevisionReply 4 \<and> mvcc_le two_versions (sv_etcd s') \<and>
     (\<exists>y \<in> set (mgr_stored (sv_history s') ''78'' ''k''). vs_rev y = 3)"
proof -
  obtain resp s' where put: "handlePutKey small_deps sample_clock None (query_request [] []) (sample_server None) = (resp, s')"
    and reply: "rs_Reply resp = RevisionReply 4"
    using sample_put_reply by blast
  obtain cs where kv: "cg_ClusterKV (dp_clusters small_deps) (pr_ClusterID put_again) (sv_clusters (sample_server None)) =
      (Inr (Etcd [] ref_client, sample_cluster ''p'' 7), cs)"
    using sample_ClusterKV by (auto simp: put_again_def)
  have parts: "dp_history small_deps = manager_storage basic_ucd hm_codec (local_ops basic_ucd sample_codec audit_codec) quiet_call"
    "decodeJSON (dp_put small_deps) (query_request [] []) = Inr put_again" "pr_ExpectedModRevision put_again = Some 3"
    "3 \<le> mv_rev (sv_etcd (sample_server None))" "decodeKey (pr_Key put_again) (pr_KeyBase64 put_again) = Some ''k''"
    by (simp_all add: sample_history_def sample_decodes query_request_def two_versions_def put_again_def decodeKey_def)
  from put_archives_replaced_value [OF parts(1) ref.mvcc_client_axioms sample_honest parts(2) kv parts(3,4) put reply] parts(5)
  obtain val t old y where t: "mvcc_le two_versions t" "mvcc_le (mput ''k'' val t) (sv_etcd s')"
    and y: "y \<in> set (mgr_stored (sv_history s') ''78'' ''k'')" "vs_Entry y = old" "e_ModRevision old = 3"
    by auto
  have "mvcc_le two_versions (sv_etcd s')"
    using mvcc_le_trans [OF mvcc_le_trans [OF t(1) mput_le [OF mvcc_le_inv [OF t(1)]]] t(2)] .
  with put reply y show ?thesis by blast
qed


lemma small_numbers: "FormatInt 3 = ''3''" "int64 3" "optionalInt64 ''3'' = Inr (Some 3)"
proof -
  have "char_of (51 :: nat) = CHR ''3''" by code_simp
  then show "FormatInt 3 = ''3''" "int64 3"
    by (simp_all add: FormatInt_def natDigits.simps int64_def)
  then show "optionalInt64 ''3'' = Inr (Some 3)"
    using ParseInt_FormatInt [of 3] by (simp add: optionalInt64_def)
qed

definition key_query :: "(string \<times> string) list" where
  "key_query = [(''cluster_id'', ''78''), (''key'', ''k''), (''expected_mod_revision'', ''3'')]"

lemma key_query_reads:
  "TrimSpace (rq_Query (query_request segs key_query) ''cluster_id'') = ''78''"
  "keyFromQuery (query_request segs key_query) = Some ''k''"
  "optionalInt64 (rq_Query (query_request segs key_query) ''expected_mod_revision'') = Inr (Some 3)"
  by (simp_all add: query_request_def key_query_def small_numbers keyFromQuery_def decodeKey_def visible_def byte_def)

lemma sample_delete_reply:
  "\<exists>resp s'. handleDeleteKey small_deps sample_clock None (query_request segs key_query) (sample_server None) = (resp, s') \<and>
     rs_Reply resp = DeletedReply 4"
proof -
  let ?s = "sample_server None"
  obtain cs where kv: "clusterKV small_deps ''78'' ?s = (Inr (Etcd [] ref_client, sample_cluster ''p'' 7), ?s\<lparr>sv_clusters := cs\<rparr>)"
    by (rule sample_clusterKV)
  then have "clusterKVFromRequest small_deps None (query_request segs key_query) ?s =
      (Inr (Etcd [] ref_client, sample_cluster ''p'' 7), ?s\<lparr>sv_clusters := cs\<rparr>)"
    by (simp add: clusterKVFromRequest_def key_query_reads requireClusterAccess_def requestCanAccessCluster_def)
  moreover obtain h where "archiveCurrent small_deps 7 ''78'' (Etcd [] ref_client) ''k'' (Some 3) (?s\<lparr>sv_clusters := cs\<rparr>) =
      (Inr (Some entry_b), ?s\<lparr>sv_clusters := cs, sv_history := h\<rparr>)"
    by (rule sample_archive [of "?s\<lparr>sv_clusters := cs\<rparr>" put_again back_to_2]) (simp_all add: sample_accepting)
  ultimately show ?thesis
    by (simp add: handleDeleteKey_def key_query_reads call_etcd_def ref_reads writeJSON_def)
qed

theorem delete_archives_deleted_value_witness:
  "\<exists>resp s'. handleDeleteKey small_deps sample_clock None (query_request [] key_query) (sample_server None) = (resp, s') \<and>
     rs_Reply resp = DeletedReply 4 \<and> (\<exists>y \<in> set (mgr_stored (sv_history s') ''78'' ''k''). vs_rev y = 3)"
proof -
  obtain resp s' where del: "handleDeleteKey small_deps sample_clock None (query_request [] key_query) (sample_server None) = (resp, s')"
    and reply: "rs_Reply resp = DeletedReply 4"
    using sample_delete_reply by blast
  obtain cs where kv: "cg_ClusterKV (dp_clusters small_deps) (TrimSpace (rq_Query (query_request [] key_query) ''cluster_id''))
      (sv_clusters (sample_server None)) = (Inr (Etcd [] ref_client, sample_cluster ''p'' 7), cs)"
    using sample_ClusterKV by (auto simp: key_query_reads)
  have parts: "dp_history small_deps = manager_storage basic_ucd hm_codec (local_ops basic_ucd sample_codec audit_codec) quiet_call"
    "3 \<le> mv_rev (sv_etcd (sample_server None))"
    by (simp_all add: sample_history_def two_versions_def)
  from delete_archives_deleted_value [OF parts(1) ref.mvcc_client_axioms sample_honest kv key_query_reads(3) parts(2) del reply]
  show ?thesis using del reply by (auto simp: key_query_reads)
qed

section \<open>Versions and rollback\<close>

lemma sample_list:
  assumes "1 \<le> q"
  shows "hst_ListBefore sample_history ''78'' ''k'' q n (sv_history (sample_server a)) = (Inr [], sv_history (sample_server a))"
  using assms
  by (simp add: sample_history_def manager_storage_def mgr_read_def mgr_done_def mgr_env_def HistoryManager_ListBefore_def local_ops_def
      sample_server_def sample_hm_def sample_backend_def FileHistory_ListBefore_def entries_at_def sort_desc_def)

lemma sample_rollback_reply:
  "\<exists>resp s'. handleRollbackKey small_deps sample_clock None (query_request segs q) (sample_server None) = (resp, s') \<and>
     rs_Reply resp = RollbackReply 4 2 ''etcd''"
proof -
  obtain cs where kv: "clusterKV small_deps ''78'' (sample_server None) =
      (Inr (Etcd [] ref_client, sample_cluster ''p'' 7), (sample_server None)\<lparr>sv_clusters := cs\<rparr>)"
    by (rule sample_clusterKV)
  let ?s = "(sample_server None)\<lparr>sv_clusters := cs\<rparr>"
  have revs: "e_ModRevision entry_b = 3" "e_ModRevision entry_a = 2" "wrap64 3 = 3"
    by (simp_all add: entry_a_def entry_b_def wrap64_id small_numbers)
  have same: "?s\<lparr>sv_etcd := two_versions\<rparr> = ?s" "?s\<lparr>sv_history := sv_history (sample_server None)\<rparr> = ?s"
    by (simp_all add: sample_server_def)
  have "rollbackTarget small_deps ''78'' (Etcd [] ref_client) ''k'' 3 2 ?s = (Inr (entry_b, entry_a, ''etcd'', 0), ?s)"
    using sample_list [of 3 1 None] by (simp add: rollbackTarget_def call_etcd_def call_history_def ref_reads revs same)
  moreover obtain h1 where "saveSnapshot small_deps 7 ''78'' entry_a ?s = (None, ?s\<lparr>sv_history := h1\<rparr>)" "accepting h1"
    by (rule accepting_snapshot [of ?s entry_a put_again back_to_2]) (simp_all add: sample_accepting)
  moreover from this(2) obtain h2 where "saveSnapshot small_deps 7 ''78'' entry_b (?s\<lparr>sv_history := h1\<rparr>) =
      (None, ?s\<lparr>sv_history := h2\<rparr>)"
    using accepting_snapshot [of "?s\<lparr>sv_history := h1\<rparr>" entry_b put_again back_to_2] by auto
  ultimately have "rollbackTarget small_deps ''78'' (Etcd [] ref_client) ''k'' 3 2 ?s = (Inr (entry_b, entry_a, ''etcd'', 0), ?s)"
    "archiveRollback small_deps sample_clock ''78'' entry_b entry_a ''etcd'' ?s = (None, ?s\<lparr>sv_history := h2\<rparr>)"
    by (simp_all add: archiveRollback_def)
  moreover have "decodeJSON (dp_rollback small_deps) (query_request segs q) = Inr back_to_2"
    by (simp add: sample_decodes query_request_def)
  ultimately show ?thesis
    using kv by (simp add: handleRollbackKey_def requireClusterAccess_def requestCanAccessCluster_def back_to_2_def decodeKey_def
        call_etcd_def ref_reads writeJSON_def revs)
qed

theorem rollback_restores_target_witness:
  "\<exists>resp s' y. handleRollbackKey small_deps sample_clock None (query_request [] []) (sample_server None) = (resp, s') \<and>
     rs_Reply resp = RollbackReply 4 2 ''etcd'' \<and> y \<in> set (mgr_stored (sv_history s') ''78'' ''k'') \<and> vs_rev y = 3"
proof -
  obtain resp s' where roll: "handleRollbackKey small_deps sample_clock None (query_request [] []) (sample_server None) = (resp, s')"
    and reply: "rs_Reply resp = RollbackReply 4 2 ''etcd''"
    using sample_rollback_reply by blast
  obtain cs where kv: "cg_ClusterKV (dp_clusters small_deps) (rr_ClusterID back_to_2) (sv_clusters (sample_server None)) =
      (Inr (Etcd [] ref_client, sample_cluster ''p'' 7), cs)"
    using sample_ClusterKV by (auto simp: back_to_2_def)
  have parts: "dp_history small_deps = manager_storage basic_ucd hm_codec (local_ops basic_ucd sample_codec audit_codec) quiet_call"
    "decodeJSON (dp_rollback small_deps) (query_request [] []) = Inr back_to_2"
    by (simp_all add: sample_history_def sample_decodes query_request_def)
  from rollback_restores_target [OF parts(1) ref.mvcc_client_axioms sample_honest parts(2) kv roll reply]
  show ?thesis using roll reply by (auto simp: back_to_2_def decodeKey_def)
qed

lemma sample_candidates:
  "\<exists>s'. rollbackCandidates small_deps ''78'' (Etcd [] ref_client) ''k'' 3 1 (sample_server None) =
     (Inr ([fromEtcd entry_a], False), s') \<and> sv_etcd s' = two_versions"
proof -
  have revs: "e_ModRevision entry_a = 2" by (simp add: entry_a_def)
  have "etcdVersions (Etcd [] ref_client) ''k'' 2 2 [] two_versions = (Inr ([entry_a], False), two_versions)"
    by (simp add: etcdVersions.simps [of _ _ 2] etcdVersions.simps [of _ _ 1] ref_reads revs)
  then show ?thesis
    using sample_list [of 3 2 None]
    by (simp add: rollbackCandidates_def call_history_def call_etcd_def etcdVersionsBefore_def addEntry_def sort_desc_def Let_def)
qed

theorem rollback_versions_complete_witness:
  "\<exists>s'. rollbackCandidates small_deps ''78'' (Etcd [] ref_client) ''k'' 3 1 (sample_server None) =
      (Inr ([fromEtcd entry_a], False), s') \<and>
     known_revisions (mgr_stored (sv_history s') ''78'' ''k'') two_versions ''k'' 3 \<subseteq> {2} \<and> at_rev two_versions ''k'' 2 = Some entry_a"
proof -
  obtain s' where cand: "rollbackCandidates small_deps ''78'' (Etcd [] ref_client) ''k'' 3 1 (sample_server None) =
      (Inr ([fromEtcd entry_a], False), s')" and w: "sv_etcd s' = two_versions"
    using sample_candidates by blast
  have parts: "dp_history small_deps = manager_storage basic_ucd hm_codec (local_ops basic_ucd sample_codec audit_codec) quiet_call"
    "(0::int) \<le> 1"
    by (simp_all add: sample_history_def)
  have "rb_rev (fromEtcd entry_a) = 2" "rb_Entry (fromEtcd entry_a) = entry_a" by (simp_all add: fromEtcd_def entry_a_def)
  with rollback_versions_complete [OF parts(1) ref.mvcc_client_axioms sample_honest parts(2) cand] cand w show ?thesis by auto
qed


section \<open>Access\<close>

definition operator_bob :: "string list \<Rightarrow> Principal" where
  "operator_bob grants = \<lparr>p_Username = ''bob'', p_DisplayName = ''bob'', p_Provider = ProviderLocal, p_Role = RoleOperator,
     p_ClusterIDs = grants, p_MustChangePassword = False\<rparr>"

lemma operator_bob_access: "\<not> IsAdmin (operator_bob grants)"
  "CanAccessCluster (operator_bob grants) cid \<longleftrightarrow> TrimSpace cid \<in> set grants"
  by (simp_all add: IsAdmin_def operator_bob_def CanAccessCluster_def RoleAdmin_def RoleOperator_def)

abbreviation guarded_server :: "(reg_state, (local_env, localHistoryBackend, fsys) mgr, mvcc) Server" where
  "guarded_server \<equiv> sample_server (Some (bob_session, Map.empty))"

lemma keys_route:
  "routeOf ((query_request [''api'', ''v1'', ''keys''] q)\<lparr>rq_Cookie := c\<rparr>) = Some KeysList"
  by (simp add: routeOf_def routes_def matchRoute_def query_request_def)

theorem api_needs_session_witness:
  "rs_Status (fst (Handler small_deps sample_clock ((query_request [''api'', ''v1'', ''keys''] [])\<lparr>rq_Cookie := None\<rparr>)
     guarded_server)) \<in> {401, 403, 503}"
  using api_needs_session [of guarded_server _ _ KeysList small_deps sample_clock, OF _ keys_route [of None "[]"]] by force

theorem operator_cannot_administer_witness:
  "rs_Status (fst (handle small_deps sample_clock (Some (operator_bob [])) UsersList (query_request [] []) guarded_server)) = 403 \<and>
   snd (handle small_deps sample_clock (Some (operator_bob [])) UsersList (query_request [] []) guarded_server) = guarded_server"
proof -
  obtain resp s' where run: "handle small_deps sample_clock (Some (operator_bob [])) UsersList (query_request [] []) guarded_server = (resp, s')"
    by (cases "handle small_deps sample_clock (Some (operator_bob [])) UsersList (query_request [] []) guarded_server")
  have "UsersList \<in> set admin_routes" by (simp add: admin_routes_def)
  with operator_cannot_administer [OF _ operator_bob_access(1) run] run show ?thesis by simp
qed

theorem cluster_data_needs_grant_witness:
  "\<exists>resp. handle small_deps sample_clock (Some (operator_bob [])) KeyGet (query_request [] key_query) guarded_server =
      (resp, guarded_server) \<and> rs_Status resp \<in> {400, 403}"
proof -
  have "requestedCluster small_deps KeyGet (query_request [] key_query) = Some ''78''"
    by (simp add: requestedCluster_def key_query_reads)
  moreover have "KeyGet \<in> set key_routes" "\<not> CanAccessCluster (operator_bob []) ''78''"
    by (simp_all add: key_routes_def operator_bob_access)
  ultimately show ?thesis
    using cluster_data_needs_grant [of guarded_server _ KeyGet small_deps "query_request [] key_query" "''78''" "operator_bob []" sample_clock]
    by fastforce
qed

definition logged_server :: "(reg_state, (local_env, localHistoryBackend, fsys) mgr, mvcc) Server" where
  "logged_server = guarded_server\<lparr>sv_history :=
     \<lparr>mg_state = (sample_hm\<lparr>hm_backend := Some (sample_backend\<lparr>lb_audit := sample_log\<rparr>)\<rparr>, Map.empty, log_fs), mg_calls = []\<rparr>\<rparr>"

lemma logged_listing:
  "\<exists>resp s'. handleListAudit small_deps (Some (operator_bob [''c''])) (query_request [] [(''cluster_id'', ''c'')]) logged_server = (resp, s') \<and>
     rs_Reply resp = AuditReply [sample_event 7 CHR ''y'', sample_event 5 CHR ''x''] []"
proof -
  let ?q = "\<lparr>q_Since = 0, q_Until = 0, q_Before = 0, q_BeforeID = [], q_Limit = 50, q_ClusterID = ''c'', q_Actor = ''bob'',
     q_ActorType = ProviderLocal, q_Action = [], q_Search = []\<rparr>"
  have "hst_ListAudit sample_history ?q (sv_history logged_server) =
      (Inr \<lparr>ap_Events = [sample_event 7 CHR ''y'', sample_event 5 CHR ''x''], ap_HasMore = False\<rparr>, sv_history logged_server)"
    by (simp add: sample_history_def manager_storage_def mgr_read_def mgr_done_def mgr_env_def logged_server_def quiet_call_def
        HistoryManager_ListAudit_def local_ops_def localHistoryBackend_ListAudit_def auditCutoff_def DefaultAuditRetentionDays_def)
      (simp add: FileAudit_ListAudit_def sample_log_def auditMatches_parts below_cursor_def
      selects_def sample_event_def sort_desc_def cursor_of_def less_eq_auditCursor_def less_auditCursor_def ToLower_def
      string_of_runes_def ProviderLocal_def)
  then show ?thesis
    by (simp add: handleListAudit_def query_request_def parseAuditLimit_def parseBounded_def auditPageSize_def auditScope_def
        requestIsAdmin_def requireClusterAccess_def requestCanAccessCluster_def operator_bob_access logged_server_def
        operator_bob_def [THEN arg_cong [where f = p_Username]] operator_bob_def [THEN arg_cong [where f = p_Provider]]
        parseAuditTimeRange_def call_history_def writeJSON_def nextAuditCursor_def visible_def byte_def)
qed

theorem operator_sees_own_audit_witness:
  "\<exists>resp s' evs cursor. handleListAudit small_deps (Some (operator_bob [''c''])) (query_request [] [(''cluster_id'', ''c'')]) logged_server =
      (resp, s') \<and> rs_Reply resp = AuditReply evs cursor \<and> length evs = 2 \<and> ev_Actor (hd evs) = ''bob''"
proof -
  obtain resp s' where run: "handleListAudit small_deps (Some (operator_bob [''c''])) (query_request [] [(''cluster_id'', ''c'')]) logged_server =
      (resp, s')" and reply: "rs_Reply resp = AuditReply [sample_event 7 CHR ''y'', sample_event 5 CHR ''x''] []"
    using logged_listing by blast
  have parts: "dp_history small_deps = manager_storage basic_ucd hm_codec (local_ops basic_ucd sample_codec audit_codec) quiet_call"
    "sv_auth logged_server = Some (bob_session, Map.empty)" "p_Username (operator_bob [''c'']) \<noteq> []" "p_Provider (operator_bob [''c'']) \<noteq> []"
    by (simp_all add: sample_history_def logged_server_def operator_bob_def ProviderLocal_def)
  have "ev_Actor (sample_event 7 CHR ''y'') = ''bob''"
    using operator_sees_own_audit [OF parts(1,2) operator_bob_access(1) parts(3,4) run reply, of "sample_event 7 CHR ''y''"]
    by (simp add: operator_bob_def)
  with run reply show ?thesis by auto
qed

theorem pending_audit_bounded_witness:
  "length (sv_pendingAudit (snd (Handler small_deps sample_clock (query_request [''api'', ''v1'', ''keys''] []) guarded_server))) \<le> 100"
proof -
  obtain resp s' where run: "Handler small_deps sample_clock (query_request [''api'', ''v1'', ''keys''] []) guarded_server = (resp, s')"
    by (cases "Handler small_deps sample_clock (query_request [''api'', ''v1'', ''keys''] []) guarded_server")
  have "length (sv_pendingAudit guarded_server) \<le> 100" by (simp add: sample_server_def)
  from pending_audit_bounded [OF this run] run show ?thesis by simp
qed

end
