(* ===== verification/Database_History.thy ===== *)
theory Database_History
  imports History_Manager
begin

text \<open>
  \<open>internal/store/history_database.go\<close>: value history and audit log in PostgreSQL or MySQL. The
  database server and its driver are not part of the program: they are the parameter
  \<open>sql_driver\<close>, which receives the statements the code sends, as terms with their arguments
  in place of the placeholders. What the code relies on is the locale \<open>sql_server\<close>: the
  effect of a statement on the rows of the two tables and the rows a query returns. A statement
  whose error is reported may have been executed (the connection was lost before the answer).
\<close>

section \<open>Statements\<close>

text \<open>A row of \<open>etcd_studio_value_history\<close>, without its serial number.\<close>

record value_row =
  vr_cluster_id :: string
  vr_key_hash :: bytes
  vr_key_data :: bytes
  vr_value_data :: bytes
  vr_create_revision :: int
  vr_mod_revision :: int
  vr_key_version :: int
  vr_lease :: int
  vr_captured_at :: gotime

datatype value_cond =
    ClusterIs string          \<comment> \<open>\<open>cluster_id=?\<close>\<close>
  | HashIs bytes              \<comment> \<open>\<open>key_hash=?\<close>\<close>
  | KeyIs bytes               \<comment> \<open>\<open>key_data=?\<close>\<close>
  | RevisionBelow int         \<comment> \<open>\<open>mod_revision<?\<close>\<close>

fun value_holds :: "value_row \<Rightarrow> value_cond \<Rightarrow> bool" where
  "value_holds row (ClusterIs c) = (vr_cluster_id row = c)"
| "value_holds row (HashIs h) = (vr_key_hash row = h)"
| "value_holds row (KeyIs k) = (vr_key_data row = k)"
| "value_holds row (RevisionBelow r) = (vr_mod_revision row < r)"

datatype audit_column = Actor | ActorType | Action | ClusterID | Target | ClusterName | Detail

fun audit_value :: "audit_column \<Rightarrow> AuditEvent \<Rightarrow> string" where
  "audit_value Actor ev = ev_Actor ev"
| "audit_value ActorType ev = ev_ActorType ev"
| "audit_value Action ev = ev_Action ev"
| "audit_value ClusterID ev = ev_ClusterID ev"
| "audit_value Target ev = ev_Target ev"
| "audit_value ClusterName ev = ev_ClusterName ev"
| "audit_value Detail ev = ev_Detail ev"

datatype audit_cond =
    OccurredFrom gotime                       \<comment> \<open>\<open>occurred_at >= ?\<close>\<close>
  | OccurredBefore gotime                     \<comment> \<open>\<open>occurred_at < ?\<close>\<close>
  | ColumnIs audit_column string              \<comment> \<open>\<open>column = ?\<close>\<close>
  | LowerLike audit_column string             \<comment> \<open>\<open>LOWER(column) LIKE ?\<close>\<close>
  | OneOf "audit_cond list"                   \<comment> \<open>\<open>(\<dots> OR \<dots>)\<close>\<close>
  | CursorBelow gotime gotime string          \<comment> \<open>\<open>(occurred_at < ? OR (occurred_at = ? AND id < ?))\<close>\<close>

text \<open>How the database compares text: equality, \<open>LOWER\<close> and \<open>LIKE\<close> depend on its collation.\<close>

record collation =
  co_eq :: "string \<Rightarrow> string \<Rightarrow> bool"
  co_lower :: "string \<Rightarrow> string"
  co_like :: "string \<Rightarrow> string \<Rightarrow> bool"       \<comment> \<open>value, pattern\<close>

fun audit_holds :: "collation \<Rightarrow> AuditEvent \<Rightarrow> audit_cond \<Rightarrow> bool" where
  "audit_holds T ev (OccurredFrom t) = (t \<le> ev_OccurredAt ev)"
| "audit_holds T ev (OccurredBefore t) = (ev_OccurredAt ev < t)"
| "audit_holds T ev (ColumnIs c s) = co_eq T (audit_value c ev) s"
| "audit_holds T ev (LowerLike c p) = co_like T (co_lower T (audit_value c ev)) p"
| "audit_holds T ev (OneOf cs) = (\<exists>c \<in> set cs. audit_holds T ev c)"
| "audit_holds T ev (CursorBelow t u i) = (ev_OccurredAt ev < t \<or> ev_OccurredAt ev = u \<and> ev_ID ev < i)"

datatype conflict_clause =
    OnConflictDoNothing      \<comment> \<open>\<open>ON CONFLICT (cluster_id, key_hash, mod_revision) DO NOTHING\<close>\<close>
  | OnDuplicateKeyKeep       \<comment> \<open>\<open>ON DUPLICATE KEY UPDATE mod_revision = mod_revision\<close>\<close>

text \<open>All tables and indices are created with \<open>IF NOT EXISTS\<close>, the MySQL ones with their indices.\<close>

datatype schema_object = ValueTable | HistoryLookup | AuditTable | AuditTime | AuditFilters

datatype statement =
    InsertValue conflict_clause value_row
  | DeleteValues "value_cond list"
  | InsertAudit AuditEvent
  | DeleteAudit "audit_cond list"
  | CreateIfMissing schema_object

section \<open>The driver\<close>

text \<open>What \<open>databaseConnection\<close> hands to the driver, before it is printed as a URL or a DSN.\<close>

datatype dataSource =
    Pgx (pg_User: string) (pg_Password: string) (pg_Host: string) (pg_Path: string) (pg_sslmode: string) (pg_connect_timeout: int)
  | MySQL (my_User: string) (my_Passwd: string) (my_Addr: string) (my_DBName: string) (my_Timeout: int) (my_TLSConfig: string)

text \<open>
  \<open>'f\<close> is what a call meets on the network and in the server. Queries return rows in the order
  of their \<open>ORDER BY\<close>: descending revision, or descending time and identifier. Failing to send a query, to
  read its rows and to scan them is one outcome.
\<close>

record ('f, 'w) sql_driver =
  sd_Open :: "dataSource \<Rightarrow> error option"
  sd_Ping :: "'f \<Rightarrow> 'w \<Rightarrow> error option"
  sd_exec :: "'f \<Rightarrow> statement \<Rightarrow> 'w \<Rightarrow> error option \<times> 'w"
  sd_values :: "'f \<Rightarrow> value_cond list \<Rightarrow> int \<Rightarrow> int \<Rightarrow> 'w \<Rightarrow> (error, value_row list) result"   \<comment> \<open>offset, limit\<close>
  sd_keys :: "'f \<Rightarrow> 'w \<Rightarrow> (error, (string \<times> bytes) list) result"
  sd_events :: "'f \<Rightarrow> audit_cond list \<Rightarrow> int \<Rightarrow> 'w \<Rightarrow> (error, AuditEvent list) result"
  sd_Close :: "'f \<Rightarrow> error option"

record 'f db_env =
  de_now :: gotime
  de_net :: 'f

section \<open>The backend\<close>

record DatabaseHistory =
  dh_dialect :: string
  dh_timeout :: int

definition databaseConnection :: "HistoryStorageInput \<Rightarrow> int \<Rightarrow> (error, dataSource) result" where
  "databaseConnection config timeout =
    (let address = JoinHostPort (hs_Host config) (FormatInt (hs_Port config)) in
     if hs_Type config = HistoryStoragePostgres then
       Inr (Pgx (hs_Username config) (hs_Password config) address (hs_Database config) (hs_TLSMode config)
         (max 1 (timeout div 1000000000)))
     else if hs_Type config = HistoryStorageMySQL then
       Inr (MySQL (hs_Username config) (hs_Password config) address (hs_Database config) timeout
         (if hs_TLSMode config = ''require'' then ''true''
          else if hs_TLSMode config = ''skip-verify'' then ''skip-verify''
          else if hs_TLSMode config = ''preferred'' then ''preferred'' else []))
     else Inl (Sentinel ErrHistorySetup))"

definition schemaStatements :: "string \<Rightarrow> statement list" where
  "schemaStatements dialect =
    (if dialect = HistoryStorageMySQL then map CreateIfMissing [ValueTable, AuditTable]
     else map CreateIfMissing [ValueTable, HistoryLookup, AuditTable, AuditTime, AuditFilters])"

fun execAll :: "('f, 'w) sql_driver \<Rightarrow> 'f \<Rightarrow> statement list \<Rightarrow> 'w \<Rightarrow> error option \<times> 'w" where
  "execAll D f [] w = (None, w)"
| "execAll D f (st # sts) w =
     (case sd_exec D f st w of (Some err, w') \<Rightarrow> (Some (Wrap (Opaque ''initialize history schema'') err), w') | (None, w') \<Rightarrow> execAll D f sts w')"

definition ensureSchema :: "('f, 'w) sql_driver \<Rightarrow> 'f \<Rightarrow> DatabaseHistory \<Rightarrow> 'w \<Rightarrow> error option \<times> 'w" where
  "ensureSchema D f h w = execAll D f (schemaStatements (dh_dialect h)) w"

definition NewDatabaseHistory ::
    "('f, 'w) sql_driver \<Rightarrow> 'f \<Rightarrow> int \<Rightarrow> HistoryStorageInput \<Rightarrow> bool \<Rightarrow> 'w \<Rightarrow> (error, DatabaseHistory) result \<times> 'w" where
  "NewDatabaseHistory D f connectTimeout config initialize w =
    (case databaseConnection config connectTimeout of
       Inl err \<Rightarrow> (Inl err, w)
     | Inr source \<Rightarrow>
         (case sd_Open D source of
            Some err \<Rightarrow> (Inl (Wrap (Opaque ''open history database'') err), w)
          | None \<Rightarrow>
              (case sd_Ping D f w of
                 Some err \<Rightarrow> (Inl (Wrap (Opaque ''connect to history database'') err), w)
               | None \<Rightarrow>
                   (let h = \<lparr>dh_dialect = hs_Type config, dh_timeout = connectTimeout\<rparr> in
                    if initialize then
                      (case ensureSchema D f h w of (Some err, w') \<Rightarrow> (Inl err, w') | (None, w') \<Rightarrow> (Inr h, w'))
                    else (Inr h, w)))))"

text \<open>\<open>sha\<close> is \<open>sha256.Sum256\<close>.\<close>

definition rowOf :: "(bytes \<Rightarrow> bytes) \<Rightarrow> ValueSnapshot \<Rightarrow> value_row" where
  "rowOf sha s =
    (let e = vs_Entry s in
     \<lparr>vr_cluster_id = vs_ClusterID s, vr_key_hash = sha (e_Key e), vr_key_data = e_Key e, vr_value_data = e_Value e,
      vr_create_revision = e_CreateRevision e, vr_mod_revision = e_ModRevision e, vr_key_version = e_Version e,
      vr_lease = e_Lease e, vr_captured_at = vs_CapturedAt s\<rparr>)"

definition DatabaseHistory_Save ::
    "(bytes \<Rightarrow> bytes) \<Rightarrow> ('f, 'w) sql_driver \<Rightarrow> 'f db_env \<Rightarrow> ValueSnapshot \<Rightarrow> DatabaseHistory \<times> 'w \<Rightarrow>
      (error, unit) result \<times> (DatabaseHistory \<times> 'w)" where
  "DatabaseHistory_Save sha D e snapshot hw =
    (case hw of (h, w) \<Rightarrow>
       (case validateSnapshot snapshot of
          Some err \<Rightarrow> (Inl err, (h, w))
        | None \<Rightarrow>
            (let s = (if vs_CapturedAt snapshot = 0 then snapshot\<lparr>vs_CapturedAt := de_now e\<rparr> else snapshot);
                 clause = (if dh_dialect h = HistoryStoragePostgres then OnConflictDoNothing else OnDuplicateKeyKeep) in
             case sd_exec D (de_net e) (InsertValue clause (rowOf sha s)) w of
               (Some err, w') \<Rightarrow> (Inl (Wrap (Opaque ''insert value history'') err), (h, w'))
             | (None, w') \<Rightarrow> (Inr (), (h, w')))))"

definition DatabaseHistory_SaveAudit ::
    "('f, 'w) sql_driver \<Rightarrow> 'f db_env \<Rightarrow> AuditEvent \<Rightarrow> DatabaseHistory \<times> 'w \<Rightarrow>
      (error, unit) result \<times> (DatabaseHistory \<times> 'w)" where
  "DatabaseHistory_SaveAudit D e ev hw =
    (case hw of (h, w) \<Rightarrow>
       (case validateAuditEvent ev of
          Some err \<Rightarrow> (Inl err, (h, w))
        | None \<Rightarrow>
            (case sd_exec D (de_net e) (InsertAudit ev) w of
               (Some err, w') \<Rightarrow> (Inl (Wrap (Opaque ''insert audit event'') err), (h, w'))
             | (None, w') \<Rightarrow> (Inr (), (h, w')))))"

definition auditConditions :: "ucd \<Rightarrow> AuditQuery \<Rightarrow> audit_cond list" where
  "auditConditions U q =
    (if q_Since q \<noteq> 0 then [OccurredFrom (q_Since q)] else []) @
    (if q_Until q \<noteq> 0 then [OccurredBefore (q_Until q)] else []) @
    (if q_ClusterID q \<noteq> [] then [ColumnIs ClusterID (q_ClusterID q)] else []) @
    (if q_Actor q \<noteq> [] then [ColumnIs Actor (q_Actor q)] else []) @
    (if q_ActorType q \<noteq> [] then [ColumnIs ActorType (q_ActorType q)] else []) @
    (if q_Action q \<noteq> [] then [ColumnIs Action (q_Action q)] else []) @
    (let search = ToLower U (TrimSpace (q_Search q)); pattern = ''%'' @ search @ ''%'' in
     if search \<noteq> [] then [OneOf (map (\<lambda>c. LowerLike c pattern) [Actor, Target, ClusterName, Detail])] else []) @
    (if q_Before q \<noteq> 0 then [CursorBelow (q_Before q) (q_Before q) (q_BeforeID q)] else [])"

definition DatabaseHistory_ListAudit ::
    "ucd \<Rightarrow> ('f, 'w) sql_driver \<Rightarrow> 'f db_env \<Rightarrow> AuditQuery \<Rightarrow> DatabaseHistory \<times> 'w \<Rightarrow> (error, AuditPage) result" where
  "DatabaseHistory_ListAudit U D e q hw =
    (if q_Limit q < 1 then Inr \<lparr>ap_Events = [], ap_HasMore = False\<rparr>
     else case sd_events D (de_net e) (auditConditions U q) (wrap64 (q_Limit q + 1)) (snd hw) of
         Inl err \<Rightarrow> Inl (Wrap (Opaque ''query audit events'') err)
       | Inr evs \<Rightarrow>
           (let hasMore = q_Limit q < int (length evs) in
            Inr \<lparr>ap_Events = (if hasMore then take (nat (q_Limit q)) evs else evs), ap_HasMore = hasMore\<rparr>))"

definition DatabaseHistory_PruneAudit ::
    "('f, 'w) sql_driver \<Rightarrow> 'f db_env \<Rightarrow> gotime \<Rightarrow> DatabaseHistory \<times> 'w \<Rightarrow> (error, unit) result \<times> (DatabaseHistory \<times> 'w)" where
  "DatabaseHistory_PruneAudit D e before hw =
    (case hw of (h, w) \<Rightarrow>
       if before = 0 then (Inr (), (h, w))
       else case sd_exec D (de_net e) (DeleteAudit [OccurredBefore before]) w of
           (Some err, w') \<Rightarrow> (Inl (Wrap (Opaque ''delete expired audit events'') err), (h, w'))
         | (None, w') \<Rightarrow> (Inr (), (h, w')))"

definition snapshotOf :: "string \<Rightarrow> value_row \<Rightarrow> ValueSnapshot" where
  "snapshotOf clusterID row =
    \<lparr>vs_ClusterID = clusterID,
     vs_Entry = \<lparr>e_Key = vr_key_data row, e_Value = vr_value_data row, e_CreateRevision = vr_create_revision row,
       e_ModRevision = vr_mod_revision row, e_Version = vr_key_version row, e_Lease = vr_lease row\<rparr>,
     vs_CapturedAt = vr_captured_at row\<rparr>"

definition DatabaseHistory_ListBefore ::
    "(bytes \<Rightarrow> bytes) \<Rightarrow> ('f, 'w) sql_driver \<Rightarrow> 'f db_env \<Rightarrow> string \<Rightarrow> bytes \<Rightarrow> int \<Rightarrow> int \<Rightarrow> DatabaseHistory \<times> 'w \<Rightarrow>
      (error, ValueSnapshot list) result" where
  "DatabaseHistory_ListBefore sha D e clusterID key modRevision limit hw =
    (if clusterID = [] \<or> length key = 0 \<or> modRevision < 1 then Inr []
     else if limit < 1 then Inr []
     else case sd_values D (de_net e) [ClusterIs clusterID, HashIs (sha key), KeyIs key, RevisionBelow modRevision] 0 limit (snd hw) of
         Inl err \<Rightarrow> Inl (Wrap (Opaque ''query value history'') err)
       | Inr rows \<Rightarrow> Inr (map (snapshotOf clusterID) rows))"

definition DatabaseHistory_LatestBefore ::
    "(bytes \<Rightarrow> bytes) \<Rightarrow> ('f, 'w) sql_driver \<Rightarrow> 'f db_env \<Rightarrow> string \<Rightarrow> bytes \<Rightarrow> int \<Rightarrow> DatabaseHistory \<times> 'w \<Rightarrow>
      (error, ValueSnapshot option) result" where
  "DatabaseHistory_LatestBefore sha D e clusterID key modRevision hw =
    (case DatabaseHistory_ListBefore sha D e clusterID key modRevision 1 hw of
       Inl err \<Rightarrow> Inl err
     | Inr snapshots \<Rightarrow> Inr (if snapshots = [] then None else Some (hd snapshots)))"

definition DatabaseHistory_PruneKey ::
    "(bytes \<Rightarrow> bytes) \<Rightarrow> ('f, 'w) sql_driver \<Rightarrow> 'f db_env \<Rightarrow> string \<Rightarrow> bytes \<Rightarrow> int \<Rightarrow> DatabaseHistory \<times> 'w \<Rightarrow>
      (error, unit) result \<times> (DatabaseHistory \<times> 'w)" where
  "DatabaseHistory_PruneKey sha D e clusterID key keep hw =
    (case hw of (h, w) \<Rightarrow>
       if keep = 0 \<or> clusterID = [] \<or> length key = 0 then (Inr (), (h, w))
       else if keep < 0 then (Inl (Opaque ''history retention cannot be negative''), (h, w))
       else case sd_values D (de_net e) [ClusterIs clusterID, HashIs (sha key), KeyIs key] (keep - 1) 1 w of
           Inl err \<Rightarrow> (Inl (Wrap (Opaque ''find history retention cutoff'') err), (h, w))
         | Inr [] \<Rightarrow> (Inr (), (h, w))
         | Inr (row # _) \<Rightarrow>
             (case sd_exec D (de_net e)
                 (DeleteValues [ClusterIs clusterID, HashIs (sha key), KeyIs key, RevisionBelow (vr_mod_revision row)]) w of
                (Some err, w') \<Rightarrow> (Inl (Wrap (Opaque ''delete expired value history'') err), (h, w'))
              | (None, w') \<Rightarrow> (Inr (), (h, w'))))"

fun pruneKeys ::
    "(bytes \<Rightarrow> bytes) \<Rightarrow> ('f, 'w) sql_driver \<Rightarrow> 'f db_env \<Rightarrow> int \<Rightarrow> (string \<times> bytes) list \<Rightarrow> DatabaseHistory \<times> 'w \<Rightarrow>
      (error, unit) result \<times> (DatabaseHistory \<times> 'w)" where
  "pruneKeys sha D e keep [] hw = (Inr (), hw)"
| "pruneKeys sha D e keep ((c, k) # items) hw =
     (case DatabaseHistory_PruneKey sha D e c k keep hw of
        (Inl err, hw') \<Rightarrow> (Inl err, hw')
      | (Inr _, hw') \<Rightarrow> pruneKeys sha D e keep items hw')"

definition DatabaseHistory_Prune ::
    "(bytes \<Rightarrow> bytes) \<Rightarrow> ('f, 'w) sql_driver \<Rightarrow> 'f db_env \<Rightarrow> int \<Rightarrow> DatabaseHistory \<times> 'w \<Rightarrow>
      (error, unit) result \<times> (DatabaseHistory \<times> 'w)" where
  "DatabaseHistory_Prune sha D e keep hw =
    (if keep = 0 then (Inr (), hw)
     else if keep < 0 then (Inl (Opaque ''history retention cannot be negative''), hw)
     else case sd_keys D (de_net e) (snd hw) of
         Inl err \<Rightarrow> (Inl (Wrap (Opaque ''list history keys for retention'') err), hw)
       | Inr items \<Rightarrow> pruneKeys sha D e keep items hw)"

definition DatabaseHistory_Close ::
    "('f, 'w) sql_driver \<Rightarrow> 'f db_env \<Rightarrow> DatabaseHistory \<times> 'w \<Rightarrow> (error, unit) result \<times> (DatabaseHistory \<times> 'w)" where
  "DatabaseHistory_Close D e hw = (case sd_Close D (de_net e) of Some err \<Rightarrow> (Inl err, hw) | None \<Rightarrow> (Inr (), hw))"

definition database_ops ::
    "(bytes \<Rightarrow> bytes) \<Rightarrow> ucd \<Rightarrow> int \<Rightarrow> ('f, 'w) sql_driver \<Rightarrow> ('f db_env, DatabaseHistory, 'w) history_ops" where
  "database_ops sha U connectTimeout D =
    \<lparr>ho_open = (\<lambda>e config initialize root w. NewDatabaseHistory D (de_net e) connectTimeout config initialize w),
     ho_Save = DatabaseHistory_Save sha D,
     ho_LatestBefore = DatabaseHistory_LatestBefore sha D,
     ho_ListBefore = DatabaseHistory_ListBefore sha D,
     ho_PruneKey = DatabaseHistory_PruneKey sha D,
     ho_Prune = DatabaseHistory_Prune sha D,
     ho_SaveAudit = DatabaseHistory_SaveAudit D,
     ho_ListAudit = DatabaseHistory_ListAudit U D,
     ho_PruneAudit = DatabaseHistory_PruneAudit D,
     ho_Close = DatabaseHistory_Close D\<rparr>"

end
