(* ===== verification/Database_Theorems.thy ===== *)
theory Database_Theorems
  imports Database_History Server_Keys_Theorems
begin

text \<open>
  The database backend meets the contract that the server relies on. The laws of the database
  (locale \<open>sql_server\<close>) are the documented effects of the statements and the documented
  results of the queries; \<open>database\<close> adds that the hash of the keys has no collisions. A reference
  database meets them.
\<close>

section \<open>The laws of the database\<close>

type_synonym tables = "value_row list \<times> AuditEvent list"

abbreviation row_id :: "value_row \<Rightarrow> string \<times> bytes \<times> int" where
  "row_id row \<equiv> (vr_cluster_id row, vr_key_hash row, vr_mod_revision row)"

text \<open>
  The effect of a statement, \<open>None\<close> where a constraint forbids it. The columns for times have
  microseconds: \<open>clock\<close> is the time that is stored for a time.
\<close>

fun effect :: "(gotime \<Rightarrow> gotime) \<Rightarrow> collation \<Rightarrow> statement \<Rightarrow> tables \<Rightarrow> tables option" where
  "effect clock T (InsertValue clause row) (rows, evs) =
     Some (if row_id row \<in> row_id ` set rows then rows else rows @ [row\<lparr>vr_captured_at := clock (vr_captured_at row)\<rparr>], evs)"
| "effect clock T (DeleteValues cs) (rows, evs) = Some (filter (\<lambda>row. \<not> list_all (value_holds row) cs) rows, evs)"
| "effect clock T (InsertAudit ev) (rows, evs) =
     (if ev_ID ev \<in> ev_ID ` set evs then None else Some (rows, evs @ [ev\<lparr>ev_OccurredAt := clock (ev_OccurredAt ev)\<rparr>]))"
| "effect clock T (DeleteAudit cs) (rows, evs) = Some (rows, filter (\<lambda>ev. \<not> list_all (audit_holds T ev) cs) evs)"
| "effect clock T (CreateIfMissing obj) (rows, evs) = Some (rows, evs)"

text \<open>The rows of a query with \<open>ORDER BY f DESC\<close>: rows with the same \<open>f\<close> may come in any order.\<close>

definition ordered_rows :: "('a \<Rightarrow> 'k::linorder) \<Rightarrow> 'a list \<Rightarrow> 'a list \<Rightarrow> bool" where
  "ordered_rows f xs ys \<longleftrightarrow> mset ys = mset xs \<and> desc_by f ys"

locale sql_server =
  fixes D :: "('f, 'w) sql_driver" and tables :: "'w \<Rightarrow> tables" and clock :: "gotime \<Rightarrow> gotime" and T :: collation
  assumes executed: "sd_exec D f stm w = (err, w') \<Longrightarrow>
      effect clock T stm (tables w) = Some (tables w') \<or> err \<noteq> None \<and> tables w' = tables w"
    and select_rows: "sd_values D f cs off lim w = Inr xs \<Longrightarrow>
      \<exists>all. ordered_rows vr_mod_revision (filter (\<lambda>row. list_all (value_holds row) cs) (fst (tables w))) all \<and>
        xs = take (nat lim) (drop (nat off) all)"
    and select_keys: "sd_keys D f w = Inr ks \<Longrightarrow>
      set ks = (\<lambda>row. (vr_cluster_id row, vr_key_data row)) ` set (fst (tables w))"
    and select_events: "sd_events D f acs lim w = Inr evs \<Longrightarrow>
      \<exists>all. ordered_rows cursor_of (filter (\<lambda>ev. list_all (audit_holds T ev) acs) (snd (tables w))) all \<and>
        evs = take (nat lim) all"

locale database = sql_server D tables clock T
  for D :: "('f, 'w) sql_driver" and tables and clock and T +
  fixes sha :: "bytes \<Rightarrow> bytes"
  assumes no_collision: "sha k = sha k' \<Longrightarrow> k = k'"

section \<open>The value history\<close>

definition db_inv :: "(bytes \<Rightarrow> bytes) \<Rightarrow> tables \<Rightarrow> bool" where
  "db_inv sha ts \<longleftrightarrow> distinct (map row_id (fst ts)) \<and>
    (\<forall>row \<in> set (fst ts). vr_key_hash row = sha (vr_key_data row) \<and> vr_cluster_id row \<noteq> [] \<and> vr_key_data row \<noteq> [] \<and>
       1 \<le> vr_mod_revision row)"

definition key_rows :: "(bytes \<Rightarrow> bytes) \<Rightarrow> tables \<Rightarrow> string \<Rightarrow> bytes \<Rightarrow> value_row list" where
  "key_rows sha ts c k = filter (\<lambda>row. vr_cluster_id row = c \<and> vr_key_hash row = sha k \<and> vr_key_data row = k) (fst ts)"

definition db_stored :: "(bytes \<Rightarrow> bytes) \<Rightarrow> tables \<Rightarrow> string \<Rightarrow> bytes \<Rightarrow> ValueSnapshot list" where
  "db_stored sha ts c k = map (snapshotOf c) (sort_desc vr_mod_revision (key_rows sha ts c k))"

lemma snapshotOf_rev [simp]: "vs_rev (snapshotOf c row) = vr_mod_revision row"
  by (simp add: snapshotOf_def)

lemma key_rows_distinct:
  assumes "db_inv sha ts"
  shows "distinct (map vr_mod_revision (key_rows sha ts c k))"
proof -
  have "distinct (map row_id (key_rows sha ts c k))"
    using assms by (simp add: db_inv_def key_rows_def distinct_map_filter)
  then have "inj_on row_id (set (key_rows sha ts c k))" "distinct (key_rows sha ts c k)"
    by (simp_all add: distinct_map)
  then have "inj_on vr_mod_revision (set (key_rows sha ts c k))"
    by (auto simp: inj_on_def key_rows_def)
  with \<open>distinct (key_rows sha ts c k)\<close> show ?thesis by (simp add: distinct_map)
qed

lemma db_stored_order:
  assumes "db_inv sha ts"
  shows "desc_by vs_rev (db_stored sha ts c k)" "distinct (map vs_rev (db_stored sha ts c k))"
proof -
  have "desc_by vr_mod_revision (sort_desc vr_mod_revision (key_rows sha ts c k))" by simp
  then show "desc_by vs_rev (db_stored sha ts c k)"
    by (simp add: db_stored_def desc_by_def sorted_wrt_map)
  have "distinct (map vr_mod_revision (sort_desc vr_mod_revision (key_rows sha ts c k)))"
    using key_rows_distinct [OF assms] by simp
  then show "distinct (map vs_rev (db_stored sha ts c k))"
    by (simp add: db_stored_def comp_def)
qed

lemma ordered_rows_unique:
  "ordered_rows f xs ys \<Longrightarrow> distinct (map f xs) \<Longrightarrow> ys = sort_desc f xs"
  by (simp add: ordered_rows_def any_sort_is_sort_desc)

lemma filter_map_below:
  "filter (\<lambda>x. vs_rev x < r) (map (snapshotOf c) rows) = map (snapshotOf c) (filter (\<lambda>row. vr_mod_revision row < r) rows)"
  by (simp add: filter_map comp_def)

context sql_server begin

text \<open>The rows of one key below a revision, in order.\<close>

lemma select_key:
  assumes "db_inv sha (tables w)" and "sd_values D f [ClusterIs c, HashIs (sha k), KeyIs k] off lim w = Inr rows"
  shows "rows = take (nat lim) (drop (nat off) (sort_desc vr_mod_revision (key_rows sha (tables w) c k)))"
proof -
  have "filter (\<lambda>row. list_all (value_holds row) [ClusterIs c, HashIs (sha k), KeyIs k]) (fst (tables w)) = key_rows sha (tables w) c k"
    by (simp add: key_rows_def)
  then show ?thesis
    using select_rows [OF assms(2)] ordered_rows_unique [OF _ key_rows_distinct [OF assms(1)]] by auto
qed

lemma select_below:
  assumes "db_inv sha (tables w)"
    and "sd_values D f [ClusterIs c, HashIs (sha k), KeyIs k, RevisionBelow q] 0 lim w = Inr rows"
  shows "rows = take (nat lim) (filter (\<lambda>row. vr_mod_revision row < q) (sort_desc vr_mod_revision (key_rows sha (tables w) c k)))"
proof -
  let ?below = "filter (\<lambda>row. vr_mod_revision row < q) (key_rows sha (tables w) c k)"
  have "filter (\<lambda>row. list_all (value_holds row) [ClusterIs c, HashIs (sha k), KeyIs k, RevisionBelow q]) (fst (tables w)) = ?below"
    by (simp add: key_rows_def conj_commute conj_left_commute)
  then obtain all where all: "ordered_rows vr_mod_revision ?below all" "rows = take (nat lim) all"
    using select_rows [OF assms(2)] by auto
  moreover have "distinct (map vr_mod_revision ?below)"
    using key_rows_distinct [OF assms(1)] by (rule distinct_map_filter)
  ultimately show ?thesis
    using ordered_rows_unique sort_desc_filter [OF key_rows_distinct [OF assms(1)]] by metis
qed

lemma list_before_law:
  assumes "db_inv sha (tables w)" and "DatabaseHistory_ListBefore sha D e c k q n (h, w) = Inr xs"
  shows "xs = take (nat n) (filter (\<lambda>x. vs_rev x < q) (db_stored sha (tables w) c k))"
proof (cases "c = [] \<or> k = [] \<or> q < 1 \<or> n < 1")
  case True
  have "filter (\<lambda>x. vs_rev x < q) (db_stored sha (tables w) c k) = []" if "n \<ge> 1"
    using that True assms(1) by (auto simp: db_stored_def key_rows_def db_inv_def filter_map_below filter_empty_conv)
  with True show ?thesis using assms(2) by (cases "n < 1") (auto simp: DatabaseHistory_ListBefore_def split: if_splits)
next
  case False
  then obtain rows where "sd_values D (de_net e) [ClusterIs c, HashIs (sha k), KeyIs k, RevisionBelow q] 0 n w = Inr rows"
    and xs: "xs = map (snapshotOf c) rows"
    using assms(2) by (auto simp: DatabaseHistory_ListBefore_def split: sum.splits)
  from select_below [OF assms(1) this(1)] show ?thesis
    by (simp add: xs db_stored_def filter_map_below take_map)
qed

text \<open>A save adds the row of the snapshot unless there is one with the same identity.\<close>

lemma save_effect:
  assumes "DatabaseHistory_Save sha D e x (h, w) = (r, (h', w'))"
  shows "h' = h" and "tables w' = tables w \<and> r \<noteq> Inr () \<or> validateSnapshot x = None \<and>
    (\<exists>clause. effect clock T (InsertValue clause (rowOf sha (stamp (de_now e) x))) (tables w) = Some (tables w'))"
proof -
  have step: "effect clock T stm (tables w) = Some (tables w') \<or> tables w' = tables w \<and> err \<noteq> None"
    if "sd_exec D f stm w = (err, w')" for f stm err
    using executed [OF that] by blast
  show "h' = h" and "tables w' = tables w \<and> r \<noteq> Inr () \<or> validateSnapshot x = None \<and>
    (\<exists>clause. effect clock T (InsertValue clause (rowOf sha (stamp (de_now e) x))) (tables w) = Some (tables w'))"
    using assms step
    by (auto simp: DatabaseHistory_Save_def Let_def stamp_def [symmetric] split: option.splits prod.splits)
qed

end

lemma effect_insert:
  "effect clock T (InsertValue clause row) ts =
     Some (if row_id row \<in> row_id ` set (fst ts) then fst ts else fst ts @ [row\<lparr>vr_captured_at := clock (vr_captured_at row)\<rparr>], snd ts)"
  by (cases ts) simp

lemma rowOf_simps [simp]:
  "vr_cluster_id (rowOf sha s) = vs_ClusterID s" "vr_key_hash (rowOf sha s) = sha (vs_key s)" "vr_key_data (rowOf sha s) = vs_key s"
  "vr_mod_revision (rowOf sha s) = vs_rev s" "vr_captured_at (rowOf sha s) = vs_CapturedAt s"
  by (simp_all add: rowOf_def Let_def)

text \<open>A stored snapshot comes back as it was, with its time as the database keeps it.\<close>

lemma snapshotOf_rowOf:
  "snapshotOf (vs_ClusterID s) ((rowOf sha s)\<lparr>vr_captured_at := t\<rparr>) = s\<lparr>vs_CapturedAt := t\<rparr>"
  by (simp add: snapshotOf_def rowOf_def Let_def)

text \<open>What an insertion does to the snapshots.\<close>

lemma insert_stored:
  assumes "db_inv sha ts" and "\<And>a b. sha a = sha b \<Longrightarrow> a = b" and "validateSnapshot x = None"
    and "effect clock T (InsertValue clause (rowOf sha x)) ts = Some ts'"
  shows "db_inv sha ts'"
    and "db_stored sha ts' c k = (if c = vs_ClusterID x \<and> k = vs_key x
      then ins_snapshot (x\<lparr>vs_CapturedAt := clock (vs_CapturedAt x)\<rparr>) (db_stored sha ts c k) else db_stored sha ts c k)"
proof -
  let ?row = "(rowOf sha x)\<lparr>vr_captured_at := clock (vs_CapturedAt x)\<rparr>" and ?c = "vs_ClusterID x" and ?k = "vs_key x"
  let ?x = "x\<lparr>vs_CapturedAt := clock (vs_CapturedAt x)\<rparr>"
  have valid: "?c \<noteq> []" "?k \<noteq> []" "1 \<le> vs_rev x"
    using assms(3) by (auto simp: validateSnapshot_def split: if_splits)
  have ts': "ts' = (if row_id (rowOf sha x) \<in> row_id ` set (fst ts) then fst ts else fst ts @ [?row], snd ts)"
    using assms(4) by (auto simp: effect_insert split: if_splits)
  then show "db_inv sha ts'"
    using assms(1) valid by (auto simp: db_inv_def)
  have taken: "row_id (rowOf sha x) \<in> row_id ` set (fst ts) \<longleftrightarrow> vs_rev ?x \<in> vs_rev ` set (db_stored sha ts ?c ?k)"
  proof
    assume "row_id (rowOf sha x) \<in> row_id ` set (fst ts)"
    then obtain row where row: "row_id (rowOf sha x) = row_id row" "row \<in> set (fst ts)" by (rule imageE)
    then have "sha (vr_key_data row) = sha ?k" using assms(1) by (simp add: db_inv_def)
    with row assms(2) have "row \<in> set (key_rows sha ts ?c ?k)" "vr_mod_revision row = vs_rev x"
      by (simp_all add: key_rows_def)
    then show "vs_rev ?x \<in> vs_rev ` set (db_stored sha ts ?c ?k)"
      by (force simp: db_stored_def image_image)
  next
    assume "vs_rev ?x \<in> vs_rev ` set (db_stored sha ts ?c ?k)"
    then obtain row where "row \<in> set (key_rows sha ts ?c ?k)" "vr_mod_revision row = vs_rev x"
      by (auto simp: db_stored_def)
    then show "row_id (rowOf sha x) \<in> row_id ` set (fst ts)"
      by (intro image_eqI [of _ _ row]) (simp_all add: key_rows_def)
  qed
  have rows: "key_rows sha ts' c k = (if row_id (rowOf sha x) \<notin> row_id ` set (fst ts) \<and> c = ?c \<and> k = ?k
      then key_rows sha ts c k @ [?row] else key_rows sha ts c k)" for c k
    by (auto simp: ts' key_rows_def)
  have "db_stored sha ts' ?c ?k = ins_snapshot ?x (db_stored sha ts ?c ?k)"
  proof (cases "row_id (rowOf sha x) \<in> row_id ` set (fst ts)")
    case True
    then show ?thesis using rows [of ?c ?k] taken by (simp add: db_stored_def ins_snapshot_def)
  next
    case False
    let ?all = "key_rows sha ts ?c ?k @ [?row]"
    have "db_stored sha ts' ?c ?k = map (snapshotOf ?c) (sort_desc vr_mod_revision ?all)"
      using rows [of ?c ?k] False by (simp add: db_stored_def)
    also have "\<dots> = sort_desc vs_rev (db_stored sha ts ?c ?k @ [?x])"
    proof (rule any_sort_is_sort_desc)
      show "mset (map (snapshotOf ?c) (sort_desc vr_mod_revision ?all)) = mset (db_stored sha ts ?c ?k @ [?x])"
        by (simp add: db_stored_def snapshotOf_rowOf)
      have "desc_by vr_mod_revision (sort_desc vr_mod_revision ?all)" by simp
      then show "desc_by vs_rev (map (snapshotOf ?c) (sort_desc vr_mod_revision ?all))"
        by (simp add: desc_by_def sorted_wrt_map)
      show "distinct (map vs_rev (db_stored sha ts ?c ?k @ [?x]))"
        using db_stored_order(2) [OF assms(1), of ?c ?k] False taken by auto
    qed
    also have "\<dots> = ins_snapshot ?x (db_stored sha ts ?c ?k)"
      using False taken by (simp add: ins_snapshot_def)
    finally show ?thesis .
  qed
  moreover have "db_stored sha ts' c k = db_stored sha ts c k" if "\<not> (c = ?c \<and> k = ?k)"
    using rows [of c k] that by (auto simp: db_stored_def)
  ultimately show "db_stored sha ts' c k = (if c = vs_ClusterID x \<and> k = vs_key x
      then ins_snapshot (x\<lparr>vs_CapturedAt := clock (vs_CapturedAt x)\<rparr>) (db_stored sha ts c k) else db_stored sha ts c k)"
    by auto
qed

text \<open>What deleting the rows of a key below a revision does to the snapshots.\<close>

definition below :: "(bytes \<Rightarrow> bytes) \<Rightarrow> string \<Rightarrow> bytes \<Rightarrow> int \<Rightarrow> statement" where
  "below sha c k q = DeleteValues [ClusterIs c, HashIs (sha k), KeyIs k, RevisionBelow q]"

lemma delete_stored:
  assumes "db_inv sha ts" and "effect clock T (below sha c k q) ts = Some ts'"
  shows "db_inv sha ts'"
    and "db_stored sha ts' c' k' = (if c' = c \<and> k' = k then filter (\<lambda>x. q \<le> vs_rev x) (db_stored sha ts c' k') else db_stored sha ts c' k')"
proof -
  obtain rows evs where ts: "ts = (rows, evs)" by (cases ts)
  then have ts': "ts' = (filter (\<lambda>row. \<not> (vr_cluster_id row = c \<and> vr_key_hash row = sha k \<and> vr_key_data row = k \<and> vr_mod_revision row < q)) rows, evs)"
    using assms(2) by (auto simp: below_def)
  then show "db_inv sha ts'"
    using assms(1) by (auto simp: db_inv_def ts distinct_map_filter)
  have "key_rows sha ts' c' k' = (if c' = c \<and> k' = k then filter (\<lambda>row. q \<le> vr_mod_revision row) (key_rows sha ts c' k') else key_rows sha ts c' k')"
    by (auto simp: ts' ts key_rows_def intro!: filter_cong)
  then show "db_stored sha ts' c' k' =
      (if c' = c \<and> k' = k then filter (\<lambda>x. q \<le> vs_rev x) (db_stored sha ts c' k') else db_stored sha ts c' k')"
    using sort_desc_filter [OF key_rows_distinct [OF assms(1)]] by (auto simp: db_stored_def filter_map comp_def)
qed

lemma keep_newest:
  assumes "desc_by f xs" and "distinct (map f xs)" and "n < length xs"
  shows "filter (\<lambda>x. f (xs ! n) \<le> f x) xs = take (Suc n) xs"
proof -
  have "filter (\<lambda>x. f x < f (last (take (Suc n) xs))) xs = drop (Suc n) xs"
    using assms by (intro desc_filter_below_last) auto
  moreover have "last (take (Suc n) xs) = xs ! n"
    using assms(3) by (simp add: take_Suc_conv_app_nth)
  ultimately have "set (drop (Suc n) xs) = {x \<in> set xs. f x < f (xs ! n)}"
    by (metis set_filter)
  moreover have "f (xs ! n) \<le> f x" if "x \<in> set (take (Suc n) xs)" for x
    using that assms(1,3) unfolding desc_by_def in_set_conv_nth
    by (metis (no_types, lifting) length_take less_Suc_eq less_trans min_less_iff_conj nth_take order_refl sorted_wrt_nth_less)
  ultimately have "filter (\<lambda>x. f (xs ! n) \<le> f x) (take (Suc n) xs) = take (Suc n) xs"
    "filter (\<lambda>x. f (xs ! n) \<le> f x) (drop (Suc n) xs) = []"
    by (auto simp: filter_id_conv filter_empty_conv not_le)
  then show ?thesis
    by (metis append_Nil2 append_take_drop_id filter_append)
qed

context sql_server begin

lemma prune_key_law:
  assumes "db_inv sha (tables w)" and "DatabaseHistory_PruneKey sha D e c k keep (h, w) = (r, (h', w'))"
  shows "h' = h" "db_inv sha (tables w')" "set (db_stored sha (tables w') c' k') \<subseteq> set (db_stored sha (tables w) c' k')"
    and "r = Inr () \<Longrightarrow> db_stored sha (tables w') c' k' =
      (if 0 < keep \<and> c' = c \<and> k' = k then take (nat keep) (db_stored sha (tables w) c' k') else db_stored sha (tables w) c' k')"
    and "db_stored sha (tables w') c' k' = db_stored sha (tables w) c' k' \<or>
      0 < keep \<and> db_stored sha (tables w') c' k' = take (nat keep) (db_stored sha (tables w) c' k')"
proof -
  let ?st = "\<lambda>w c k. db_stored sha (tables w) c k" and ?all = "sort_desc vr_mod_revision (key_rows sha (tables w) c k)"
  have empty: "?st w [] k = []" "?st w c [] = []" for c k
    using assms(1) by (auto simp: db_stored_def key_rows_def db_inv_def sort_desc_def filter_empty_conv)
  have "h' = h \<and> db_inv sha (tables w') \<and>
    (\<forall>c' k'. ?st w' c' k' = ?st w c' k' \<or> 0 < keep \<and> ?st w' c' k' = take (nat keep) (?st w c' k')) \<and>
    (r = Inr () \<longrightarrow> (\<forall>c' k'. ?st w' c' k' = (if 0 < keep \<and> c' = c \<and> k' = k then take (nat keep) (?st w c' k') else ?st w c' k')))"
  proof (cases "\<exists>row rest. 0 < keep \<and> c \<noteq> [] \<and> k \<noteq> [] \<and>
      sd_values D (de_net e) [ClusterIs c, HashIs (sha k), KeyIs k] (keep - 1) 1 w = Inr (row # rest)")
    case False
    have short: "length (?st w c k) < nat keep"
      if "sd_values D (de_net e) [ClusterIs c, HashIs (sha k), KeyIs k] (keep - 1) 1 w = Inr []" "0 < keep"
    proof -
      have "drop (nat (keep - 1)) ?all = []" using select_key [OF assms(1) that(1)] by simp
      then have "length ?all \<le> nat (keep - 1)" by simp
      then show ?thesis using that(2) by (simp add: db_stored_def)
    qed
    from False assms(2) have "w' = w" "h' = h" "r = Inr () \<longrightarrow> \<not> 0 < keep \<or> c = [] \<or> k = [] \<or>
        sd_values D (de_net e) [ClusterIs c, HashIs (sha k), KeyIs k] (keep - 1) 1 w = Inr []"
      by (auto simp: DatabaseHistory_PruneKey_def split: if_splits sum.splits list.splits prod.splits)
    then show ?thesis using assms(1) empty short by force
  next
    case True
    then obtain row rest where keep: "0 < keep" "c \<noteq> []" "k \<noteq> []"
      and sel: "sd_values D (de_net e) [ClusterIs c, HashIs (sha k), KeyIs k] (keep - 1) 1 w = Inr (row # rest)" by blast
    have "row # rest = take 1 (drop (nat (keep - 1)) ?all)" using select_key [OF assms(1) sel] by simp
    then have n: "nat (keep - 1) < length ?all" "row = ?all ! nat (keep - 1)"
      by (metis drop_eq_Nil list.distinct(1) not_le take_Nil, metis drop_eq_Nil hd_drop_conv_nth hd_take list.distinct(1) list.sel(1) not_le take_Nil zero_less_one)
    obtain err where run: "sd_exec D (de_net e) (below sha c k (vr_mod_revision row)) w = (err, w')" "h' = h" "r = Inr () \<longleftrightarrow> err = None"
      using assms(2) keep sel by (auto simp: DatabaseHistory_PruneKey_def below_def split: prod.splits option.splits)
    have "filter (\<lambda>x. vr_mod_revision row \<le> vs_rev x) (?st w c k) = take (nat keep) (?st w c k)"
    proof -
      have "vr_mod_revision row = vs_rev (?st w c k ! nat (keep - 1))" "nat (keep - 1) < length (?st w c k)" "nat keep = Suc (nat (keep - 1))"
        using n keep(1) by (simp_all add: db_stored_def)
      then show ?thesis using keep_newest [OF db_stored_order [OF assms(1)]] by simp
    qed
    then have pruned: "db_inv sha (tables w')" "?st w' c' k' = (if 0 < keep \<and> c' = c \<and> k' = k then take (nat keep) (?st w c' k') else ?st w c' k')"
      if "effect clock T (below sha c k (vr_mod_revision row)) (tables w) = Some (tables w')" for c' k'
      using delete_stored [OF assms(1) that] keep(1) by simp_all
    from executed [OF run(1)] show ?thesis
    proof
      assume eff: "effect clock T (below sha c k (vr_mod_revision row)) (tables w) = Some (tables w')"
      from pruned [OF eff] run(2) show ?thesis by (simp split: if_splits)
    next
      assume "err \<noteq> None \<and> tables w' = tables w"
      with run(2,3) assms(1) show ?thesis by simp
    qed
  qed
  then show "h' = h" "db_inv sha (tables w')"
    and "r = Inr () \<Longrightarrow> ?st w' c' k' = (if 0 < keep \<and> c' = c \<and> k' = k then take (nat keep) (?st w c' k') else ?st w c' k')"
    and kept: "?st w' c' k' = ?st w c' k' \<or> 0 < keep \<and> ?st w' c' k' = take (nat keep) (?st w c' k')"
    by blast+
  show "set (?st w' c' k') \<subseteq> set (?st w c' k')"
    using kept by (auto dest: in_set_takeD)
qed

end

context sql_server begin

lemma prune_keys_law:
  assumes "db_inv sha (tables w)" and "0 < keep" and "pruneKeys sha D e keep items (h, w) = (r, (h', w'))"
  shows "h' = h \<and> db_inv sha (tables w') \<and> (r = Inr () \<longrightarrow> (\<forall>c k. db_stored sha (tables w') c k =
    (if (c, k) \<in> set items then take (nat keep) (db_stored sha (tables w) c k) else db_stored sha (tables w) c k)))"
  using assms(1,3)
proof (induction items arbitrary: h w)
  case (Cons item items)
  obtain c k where item: "item = (c, k)" by (cases item)
  obtain a h1 w1 where one: "DatabaseHistory_PruneKey sha D e c k keep (h, w) = (a, (h1, w1))" by (cases "DatabaseHistory_PruneKey sha D e c k keep (h, w)") auto
  note law = prune_key_law [OF Cons.prems(1) one]
  show ?case
  proof (cases a)
    case (Inl err)
    then show ?thesis using Cons.prems(2) one law(1,2) by (auto simp: item)
  next
    case (Inr u)
    then have rest: "pruneKeys sha D e keep items (h1, w1) = (r, (h', w'))" and a: "a = Inr ()"
      using Cons.prems(2) one by (simp_all add: item)
    show ?thesis
      using Cons.IH [OF law(2) rest] law(1) law(4) [OF a] assms(2) by (simp add: item)
  qed
qed simp

lemma prune_law:
  assumes "db_inv sha (tables w)" and "DatabaseHistory_Prune sha D e keep (h, w) = (Inr (), (h', w'))"
  shows "db_inv sha (tables w')"
    and "db_stored sha (tables w') c k = (if 0 < keep then take (nat keep) (db_stored sha (tables w) c k) else db_stored sha (tables w) c k)"
proof -
  have "db_inv sha (tables w') \<and> (\<forall>c k. db_stored sha (tables w') c k =
      (if 0 < keep then take (nat keep) (db_stored sha (tables w) c k) else db_stored sha (tables w) c k))"
  proof (cases "0 < keep")
    case True
    then obtain items where items: "sd_keys D (de_net e) w = Inr items" and run: "pruneKeys sha D e keep items (h, w) = (Inr (), (h', w'))"
      using assms(2) by (auto simp: DatabaseHistory_Prune_def split: sum.splits)
    have "db_stored sha (tables w) c k = []" if "(c, k) \<notin> set items" for c k
    proof -
      have "key_rows sha (tables w) c k = []"
        using that unfolding select_keys [OF items] by (auto simp: key_rows_def filter_empty_conv)
      then show ?thesis by (simp add: db_stored_def sort_desc_def)
    qed
    with prune_keys_law [OF assms(1) True run] True show ?thesis by auto
  next
    case False
    then have "w' = w" using assms(2) by (auto simp: DatabaseHistory_Prune_def split: if_splits)
    with False assms(1) show ?thesis by simp
  qed
  then show "db_inv sha (tables w')"
    and "db_stored sha (tables w') c k = (if 0 < keep then take (nat keep) (db_stored sha (tables w) c k) else db_stored sha (tables w) c k)"
    by blast+
qed

end

section \<open>Refinement\<close>

text \<open>
  The abstract value history: a list of snapshots per cluster and key, in descending order of their
  revisions, with the four operations of \<open>store.ValueHistory\<close>.
\<close>

type_synonym abstract_history = "string \<Rightarrow> bytes \<Rightarrow> ValueSnapshot list"

definition spec_save :: "ValueSnapshot \<Rightarrow> abstract_history \<Rightarrow> abstract_history" where
  "spec_save x S = (\<lambda>c k. if c = vs_ClusterID x \<and> k = vs_key x then ins_snapshot x (S c k) else S c k)"

definition spec_list :: "string \<Rightarrow> bytes \<Rightarrow> int \<Rightarrow> int \<Rightarrow> abstract_history \<Rightarrow> ValueSnapshot list" where
  "spec_list c k q n S = take (nat n) (filter (\<lambda>x. vs_rev x < q) (S c k))"

definition spec_prune_key :: "string \<Rightarrow> bytes \<Rightarrow> int \<Rightarrow> abstract_history \<Rightarrow> abstract_history" where
  "spec_prune_key c k keep S = (\<lambda>c' k'. if 0 < keep \<and> c' = c \<and> k' = k then take (nat keep) (S c' k') else S c' k')"

definition spec_prune :: "int \<Rightarrow> abstract_history \<Rightarrow> abstract_history" where
  "spec_prune keep S = (\<lambda>c k. if 0 < keep then take (nat keep) (S c k) else S c k)"

text \<open>The snapshot that a save stores: stamped, and with the time as the database keeps it.\<close>

definition recorded :: "(gotime \<Rightarrow> gotime) \<Rightarrow> gotime \<Rightarrow> ValueSnapshot \<Rightarrow> ValueSnapshot" where
  "recorded clock now x = (stamp now x)\<lparr>vs_CapturedAt := clock (vs_CapturedAt (stamp now x))\<rparr>"

lemma recorded_simps [simp]:
  "vs_ClusterID (recorded clock now x) = vs_ClusterID x" "vs_Entry (recorded clock now x) = vs_Entry x"
  by (simp_all add: recorded_def)

context database begin

lemma save_law:
  assumes "db_inv sha (tables w)" and "DatabaseHistory_Save sha D e x (h, w) = (r, (h', w'))"
  shows "h' = h" "db_inv sha (tables w')"
    and "db_stored sha (tables w') = spec_save (recorded clock (de_now e) x) (db_stored sha (tables w)) \<or>
      r \<noteq> Inr () \<and> db_stored sha (tables w') = db_stored sha (tables w)"
proof -
  note eff = save_effect [OF assms(2)]
  show "h' = h" by (rule eff(1))
  have "validateSnapshot (stamp (de_now e) x) = validateSnapshot x" by (simp add: validateSnapshot_def)
  then have ins: "db_inv sha (tables w')" "db_stored sha (tables w') = spec_save (recorded clock (de_now e) x) (db_stored sha (tables w))"
    if "validateSnapshot x = None" "effect clock T (InsertValue clause (rowOf sha (stamp (de_now e) x))) (tables w) = Some (tables w')"
    for clause
    using insert_stored [OF assms(1) no_collision, of "stamp (de_now e) x", OF _ _ that(2)] that(1)
    by (simp_all add: fun_eq_iff spec_save_def recorded_def)
  from eff(2) have "db_inv sha (tables w') \<and> (db_stored sha (tables w') = spec_save (recorded clock (de_now e) x) (db_stored sha (tables w)) \<or>
      r \<noteq> Inr () \<and> db_stored sha (tables w') = db_stored sha (tables w))"
    using ins assms(1) by (elim disjE conjE exE) simp_all
  then show "db_inv sha (tables w')"
    and "db_stored sha (tables w') = spec_save (recorded clock (de_now e) x) (db_stored sha (tables w)) \<or>
      r \<noteq> Inr () \<and> db_stored sha (tables w') = db_stored sha (tables w)" by blast+
qed

end

text \<open>
  C11. The database backend refines the abstract value history: with \<open>db_stored\<close> as the
  abstraction, a successful \<open>Save\<close>, \<open>PruneKey\<close> or \<open>Prune\<close> is the abstract operation, a
  \<open>ListBefore\<close> returns the abstract list, a failed save is the abstract one or none, and the unique index is
  never violated. A stored time is what the database keeps of it.
\<close>

theorem database_history_refines:
  assumes "database D tables clock T sha" and "db_inv sha (tables w)"
  shows "(\<forall>r h' w'. DatabaseHistory_Save sha D e x (h, w) = (r, (h', w')) \<longrightarrow> db_inv sha (tables w') \<and>
      (db_stored sha (tables w') = spec_save (recorded clock (de_now e) x) (db_stored sha (tables w)) \<or>
        r \<noteq> Inr () \<and> db_stored sha (tables w') = db_stored sha (tables w))) \<and>
    (\<forall>xs. DatabaseHistory_ListBefore sha D e c k q n (h, w) = Inr xs \<longrightarrow> xs = spec_list c k q n (db_stored sha (tables w))) \<and>
    (\<forall>h' w'. DatabaseHistory_PruneKey sha D e c k keep (h, w) = (Inr (), (h', w')) \<longrightarrow> db_inv sha (tables w') \<and>
      db_stored sha (tables w') = spec_prune_key c k keep (db_stored sha (tables w))) \<and>
    (\<forall>h' w'. DatabaseHistory_Prune sha D e keep (h, w) = (Inr (), (h', w')) \<longrightarrow> db_inv sha (tables w') \<and>
      db_stored sha (tables w') = spec_prune keep (db_stored sha (tables w)))"
proof -
  have server: "sql_server D tables clock T"
    using assms(1) by (rule database.axioms(1))
  show ?thesis
    using database.save_law [OF assms] sql_server.list_before_law [OF server assms(2)] sql_server.prune_key_law [OF server assms(2)]
      sql_server.prune_law [OF server assms(2)]
    by (intro conjI allI impI) (simp_all add: fun_eq_iff spec_list_def spec_prune_key_def spec_prune_def)
qed

end
