(* ===== verification/Database_Server.thy ===== *)
theory Database_Server
  imports Database_Theorems
begin

text \<open>
  The history manager over the database backend is a value storage in the sense of the server, so
  what the key handlers guarantee for the local backend holds for the database; and the database
  and the audit file answer the same audit queries.
\<close>

section \<open>A reference database\<close>

text \<open>It fails when the environment says so.\<close>

definition ref_sql :: "(gotime \<Rightarrow> gotime) \<Rightarrow> collation \<Rightarrow> (error option, tables) sql_driver" where
  "ref_sql clock T =
    \<lparr>sd_Open = (\<lambda>source. None), sd_Ping = (\<lambda>f w. f),
     sd_exec = (\<lambda>f stm w. case f of
        Some err \<Rightarrow> (Some err, w)
      | None \<Rightarrow> (case effect clock T stm w of None \<Rightarrow> (Some (Opaque ''duplicate key''), w) | Some w' \<Rightarrow> (None, w'))),
     sd_values = (\<lambda>f cs off lim w. case f of
        Some err \<Rightarrow> Inl err
      | None \<Rightarrow> Inr (take (nat lim) (drop (nat off) (sort_desc vr_mod_revision
          (filter (\<lambda>row. list_all (value_holds row) cs) (fst w)))))),
     sd_keys = (\<lambda>f w. case f of
        Some err \<Rightarrow> Inl err | None \<Rightarrow> Inr (remdups (map (\<lambda>row. (vr_cluster_id row, vr_key_data row)) (fst w)))),
     sd_events = (\<lambda>f cs lim w. case f of
        Some err \<Rightarrow> Inl err
      | None \<Rightarrow> Inr (take (nat lim) (sort_desc cursor_of (filter (\<lambda>ev. list_all (audit_holds T ev) cs) (snd w))))),
     sd_Close = (\<lambda>f. None)\<rparr>"

lemma ordered_rows_sort: "ordered_rows f xs (sort_desc f xs)"
  by (simp add: ordered_rows_def)

interpretation refdb: database "ref_sql clock T" "\<lambda>w. w" clock T "\<lambda>k. k" for clock T
proof unfold_locales
  fix f stm w err w'
  assume "sd_exec (ref_sql clock T) f stm w = (err, w')"
  then show "effect clock T stm w = Some w' \<or> err \<noteq> None \<and> w' = w"
    by (auto simp: ref_sql_def split: option.splits)
next
  fix f cs off lim w xs
  assume "sd_values (ref_sql clock T) f cs off lim w = Inr xs"
  then show "\<exists>all. ordered_rows vr_mod_revision (filter (\<lambda>row. list_all (value_holds row) cs) (fst w)) all \<and>
      xs = take (nat lim) (drop (nat off) all)"
    using ordered_rows_sort by (auto simp: ref_sql_def split: option.splits)
next
  fix f w ks
  assume "sd_keys (ref_sql clock T) f w = Inr ks"
  then show "set ks = (\<lambda>row. (vr_cluster_id row, vr_key_data row)) ` set (fst w)"
    by (auto simp: ref_sql_def split: option.splits)
next
  fix f acs lim w evs
  assume "sd_events (ref_sql clock T) f acs lim w = Inr evs"
  then show "\<exists>all. ordered_rows cursor_of (filter (\<lambda>ev. list_all (audit_holds T ev) acs) (snd w)) all \<and> evs = take (nat lim) all"
    using ordered_rows_sort by (auto simp: ref_sql_def split: option.splits)
qed simp

section \<open>The value storage\<close>

definition db_mgr_inv :: "(bytes \<Rightarrow> bytes) \<Rightarrow> ('w \<Rightarrow> tables) \<Rightarrow> ('f db_env, DatabaseHistory, 'w) mgr \<Rightarrow> bool" where
  "db_mgr_inv sha tables g \<longleftrightarrow> (case mg_state g of (m, d, w) \<Rightarrow> 0 \<le> hm_retentionVersions m \<and> db_inv sha (tables w))"

definition db_mgr_stored ::
    "(bytes \<Rightarrow> bytes) \<Rightarrow> ('w \<Rightarrow> tables) \<Rightarrow> ('f db_env, DatabaseHistory, 'w) mgr \<Rightarrow> string \<Rightarrow> bytes \<Rightarrow> ValueSnapshot list" where
  "db_mgr_stored sha tables g c k =
    (case mg_state g of (m, d, w) \<Rightarrow> if hm_backend m = None then [] else db_stored sha (tables w) c k)"

context sql_server begin

text \<open>Audit statements leave the value table alone.\<close>

lemma audit_rows:
  "DatabaseHistory_SaveAudit D e ev (h, w) = (r, (h', w')) \<Longrightarrow> h' = h \<and> fst (tables w') = fst (tables w)"
  "DatabaseHistory_PruneAudit D e t (h, w) = (r, (h', w')) \<Longrightarrow> h' = h \<and> fst (tables w') = fst (tables w)"
proof -
  have step: "fst (tables w') = fst (tables w)" if "sd_exec D f stm w = (err, w')" "stm = InsertAudit ev' \<or> stm = DeleteAudit cs" for f stm err w w' ev' cs
    using executed [OF that(1)] that(2) by (cases "tables w"; cases "tables w'") (auto split: if_splits)
  show "DatabaseHistory_SaveAudit D e ev (h, w) = (r, (h', w')) \<Longrightarrow> h' = h \<and> fst (tables w') = fst (tables w)"
    by (auto simp: DatabaseHistory_SaveAudit_def split: option.splits prod.splits dest!: step)
  show "DatabaseHistory_PruneAudit D e t (h, w) = (r, (h', w')) \<Longrightarrow> h' = h \<and> fst (tables w') = fst (tables w)"
    by (auto simp: DatabaseHistory_PruneAudit_def split: option.splits prod.splits if_splits dest!: step)
qed

end

lemma db_audit_frame:
  assumes "fst ts' = fst ts"
  shows "db_inv sha ts' = db_inv sha ts" "db_stored sha ts' = db_stored sha ts"
  using assms by (simp_all add: db_inv_def db_stored_def key_rows_def fun_eq_iff)

context database begin

lemma db_save_and_prune:
  assumes "db_inv sha (tables w)" and "0 \<le> keep"
    and "save_and_prune (DatabaseHistory_Save sha D e x) (DatabaseHistory_PruneKey sha D e (vs_ClusterID x) (vs_key x) keep) (h, w) =
      (r, (h', w'))"
  shows "h' = h" "db_inv sha (tables w')"
    and "y \<in> set (db_stored sha (tables w') c k) \<Longrightarrow>
      y \<in> set (db_stored sha (tables w) c k) \<or> c = vs_ClusterID x \<and> k = vs_key x \<and> vs_Entry y = vs_Entry x"
    and "r = Inr () \<Longrightarrow> \<exists>y \<in> set (db_stored sha (tables w') (vs_ClusterID x) (vs_key x)). vs_rev x \<le> vs_rev y"
proof -
  let ?x = "recorded clock (de_now e) x" and ?c = "vs_ClusterID x" and ?k = "vs_key x"
  obtain a h1 w1 where save: "DatabaseHistory_Save sha D e x (h, w) = (a, (h1, w1))"
    by (cases "DatabaseHistory_Save sha D e x (h, w)") auto
  note law = save_law [OF assms(1) save]
  have added: "y \<in> set (db_stored sha (tables w) c k) \<or> c = ?c \<and> k = ?k \<and> vs_Entry y = vs_Entry x"
    if "y \<in> set (db_stored sha (tables w1) c k)" for y c k
    using law(3) that ins_snapshot_set [of ?x "db_stored sha (tables w) c k"] by (auto simp: spec_save_def split: if_splits)
  have "h' = h \<and> db_inv sha (tables w') \<and> (y \<in> set (db_stored sha (tables w') c k) \<longrightarrow>
      y \<in> set (db_stored sha (tables w) c k) \<or> c = ?c \<and> k = ?k \<and> vs_Entry y = vs_Entry x) \<and>
      (r = Inr () \<longrightarrow> (\<exists>y \<in> set (db_stored sha (tables w') ?c ?k). vs_rev x \<le> vs_rev y))"
  proof (cases a)
    case (Inl err)
    then have "h' = h1" "w' = w1" "r = Inl err" using assms(3) save by (simp_all add: save_and_prune_def)
    with law(1,2) added show ?thesis by blast
  next
    case (Inr u)
    then have prune: "DatabaseHistory_PruneKey sha D e ?c ?k keep (h1, w1) = (r, (h', w'))" and a: "a = Inr ()"
      using assms(3) save by (simp_all add: save_and_prune_def)
    note pl = prune_key_law [OF law(2) prune]
    let ?old = "db_stored sha (tables w) ?c ?k"
    have new: "db_stored sha (tables w1) ?c ?k = ins_snapshot ?x ?old"
      using law(3) a by (auto simp: spec_save_def)
    obtain z where z: "z \<in> set (ins_snapshot ?x ?old)" "vs_rev z = vs_rev x"
      using ins_snapshot_rev [of ?x ?old] by auto
    have "\<exists>y \<in> set (db_stored sha (tables w') ?c ?k). vs_rev x \<le> vs_rev y" if "r = Inr ()"
    proof (cases "ins_snapshot ?x ?old")
      case (Cons y ys)
      have "desc_by vs_rev (y # ys)"
        using ins_snapshot_desc(1) [OF db_stored_order [OF assms(1)]] Cons by metis
      then have "vs_rev x \<le> vs_rev y" using z Cons by (auto simp: desc_by_def)
      moreover have "y \<in> set (db_stored sha (tables w') ?c ?k)"
        using pl(4) [OF that, of ?c ?k] new Cons assms(2) by (cases "nat keep") (auto split: if_splits)
      ultimately show ?thesis by blast
    qed (use z in simp)
    then show ?thesis
      using pl(1-3) law(1) added by blast
  qed
  then show "h' = h" "db_inv sha (tables w')"
    and "y \<in> set (db_stored sha (tables w') c k) \<Longrightarrow>
      y \<in> set (db_stored sha (tables w) c k) \<or> c = ?c \<and> k = ?k \<and> vs_Entry y = vs_Entry x"
    and "r = Inr () \<Longrightarrow> \<exists>y \<in> set (db_stored sha (tables w') ?c ?k). vs_rev x \<le> vs_rev y"
    by blast+
qed

lemma db_mgr_save:
  assumes "db_mgr_inv sha tables g" and "hst_Save (manager_storage U P (database_ops sha V tmo D) e0) x g = (r, g')"
  shows "db_mgr_inv sha tables g'"
    and "y \<in> set (db_mgr_stored sha tables g' c k) \<Longrightarrow>
      y \<in> set (db_mgr_stored sha tables g c k) \<or> c = vs_ClusterID x \<and> k = vs_key x \<and> vs_Entry y = vs_Entry x"
    and "r = Inr () \<Longrightarrow> \<exists>y \<in> set (db_mgr_stored sha tables g' (vs_ClusterID x) (vs_key x)). vs_rev x \<le> vs_rev y"
proof -
  let ?e = "ml_env (mgr_env e0 g)"
  obtain m d w m' w' where g: "mg_state g = (m, d, w)" "mg_state g' = (m', d, w')"
    and save: "HistoryManager_Save (database_ops sha V tmo D) ?e x (m, w) = (r, (m', w'))"
    using assms(2) by (auto simp: manager_storage_def elim: mgr_update_eq)
  have inv: "0 \<le> hm_retentionVersions m" "db_inv sha (tables w)" using assms(1) g by (simp_all add: db_mgr_inv_def)
  have "db_mgr_inv sha tables g' \<and> (y \<in> set (db_mgr_stored sha tables g' c k) \<longrightarrow>
      y \<in> set (db_mgr_stored sha tables g c k) \<or> c = vs_ClusterID x \<and> k = vs_key x \<and> vs_Entry y = vs_Entry x) \<and>
      (r = Inr () \<longrightarrow> (\<exists>y \<in> set (db_mgr_stored sha tables g' (vs_ClusterID x) (vs_key x)). vs_rev x \<le> vs_rev y))"
  proof (cases "hm_backend m")
    case None
    then have "m' = m" "w' = w" "r \<noteq> Inr ()" using save by (auto simp: HistoryManager_Save_def with_backend_def)
    with None inv g show ?thesis by (simp add: db_mgr_inv_def db_mgr_stored_def)
  next
    case (Some b)
    obtain h' where run: "save_and_prune (DatabaseHistory_Save sha D ?e x)
        (DatabaseHistory_PruneKey sha D ?e (vs_ClusterID x) (vs_key x) (hm_retentionVersions m)) (b, w) = (r, (h', w'))"
      and m': "m' = m\<lparr>hm_backend := Some h'\<rparr>"
      using save Some by (auto simp: HistoryManager_Save_def with_backend_def database_ops_def split: prod.splits)
    from db_save_and_prune [OF inv(2,1) run] Some inv(1) g m' show ?thesis
      by (simp add: db_mgr_inv_def db_mgr_stored_def)
  qed
  then show "db_mgr_inv sha tables g'"
    and "y \<in> set (db_mgr_stored sha tables g' c k) \<Longrightarrow>
      y \<in> set (db_mgr_stored sha tables g c k) \<or> c = vs_ClusterID x \<and> k = vs_key x \<and> vs_Entry y = vs_Entry x"
    and "r = Inr () \<Longrightarrow> \<exists>y \<in> set (db_mgr_stored sha tables g' (vs_ClusterID x) (vs_key x)). vs_rev x \<le> vs_rev y"
    by blast+
qed

lemma db_mgr_audit:
  assumes "db_mgr_inv sha tables g" and "hst_SaveAudit (manager_storage U P (database_ops sha V tmo D) e0) ev g = (r, g')"
  shows "db_mgr_inv sha tables g' \<and> db_mgr_stored sha tables g' = db_mgr_stored sha tables g"
proof -
  obtain m d w m' w' where g: "mg_state g = (m, d, w)" "mg_state g' = (m', d, w')"
    and save: "HistoryManager_SaveAudit (database_ops sha V tmo D) (ml_env (mgr_env e0 g)) (ml_now (mgr_env e0 g))
      (ml_later (mgr_env e0 g)) (ml_random (mgr_env e0 g)) ev (m, w) = (r, (m', w'))"
    using assms(2) by (auto simp: manager_storage_def Let_def elim!: mgr_update_eq)
  have "fst (tables w') = fst (tables w) \<and> hm_retentionVersions m' = hm_retentionVersions m \<and> (hm_backend m' = None) = (hm_backend m = None)"
    using save
    by (auto simp: HistoryManager_SaveAudit_def with_backend_def database_ops_def split: option.splits sum.splits prod.splits
        dest!: audit_rows)
  then show ?thesis
    using assms(1) g db_audit_frame [of "tables w'" "tables w" sha]
    by (auto simp: db_mgr_inv_def db_mgr_stored_def fun_eq_iff)
qed

end

sublocale database < dm: value_storage "manager_storage U P (database_ops sha V tmo D) e0" "db_mgr_inv sha tables" "db_mgr_stored sha tables"
  for U P V tmo e0
proof (unfold_locales, goal_cases)
  case (1 h c k)
  then show ?case by (auto simp: db_mgr_inv_def db_mgr_stored_def db_stored_order split: prod.split)
next
  case (2 h c k)
  then show ?case by (auto simp: db_mgr_inv_def db_mgr_stored_def db_stored_order split: prod.split)
next
  case (3 h x r h')
  then show ?case by (rule db_mgr_save(1))
next
  case (4 h x r h' y c k)
  then show ?case by (rule db_mgr_save(2))
next
  case (5 h x h')
  then show ?case using db_mgr_save(3) by blast
next
  case (6 h c k q n r h')
  then obtain m d w where st: "mg_state h = (m, d, w)" "mg_state h' = mg_state h"
    and r: "r = HistoryManager_ListBefore (database_ops sha V tmo D) (ml_env (mgr_env e0 h)) c k q n (m, w)"
    by (auto simp: manager_storage_def elim: mgr_read_eq)
  then show ?case
    using 6(1) list_before_law [of sha w]
    by (auto simp: db_mgr_inv_def db_mgr_stored_def fun_eq_iff HistoryManager_ListBefore_def database_ops_def split: option.splits)
next
  case (7 h ev a h')
  then show ?case by (rule db_mgr_audit)
qed

context database begin

lemma manager_values:
  "value_storage (manager_storage U P (database_ops sha V tmo D) e0) (db_mgr_inv sha tables) (db_mgr_stored sha tables)"
  by unfold_locales

end

text \<open>
  With the database backend too, a reported write that names the revision it replaces has
  been applied to the version with this revision, and the value it replaced is in the database.
\<close>

theorem database_put_archives_replaced_value:
  assumes "database D tables clock T sha" and "dp_history S = manager_storage U P (database_ops sha V tmo D) e0" and "mvcc_client C st"
    and "honest (db_mgr_inv sha tables) (db_mgr_stored sha tables) st (c_ID cluster) s"
    and "decodeJSON (dp_put S) r = Inr request"
    and "cg_ClusterKV (dp_clusters S) (pr_ClusterID request) (sv_clusters s) = (Inr (Etcd order C, cluster), cs)"
    and "pr_ExpectedModRevision request = Some m" and "m \<le> mv_rev (st (sv_etcd s))"
    and "handlePutKey S e ctx r s = (resp, s')" and "rs_Reply resp = RevisionReply n"
  shows "\<exists>key val t. decodeKey (pr_Key request) (pr_KeyBase64 request) = Some key \<and> decodeValue request = Some val \<and>
    mvcc_le (st (sv_etcd s)) t \<and> mvcc_le (mput key val t) (st (sv_etcd s')) \<and> n = mv_rev t + 1 \<and>
    (if m = 0 then current t key = None
     else \<exists>old y. current t key = Some old \<and> e_ModRevision old = m \<and>
       y \<in> set (db_mgr_stored sha tables (sv_history s') (c_ID cluster) key) \<and> vs_Entry y = old) \<and>
    honest (db_mgr_inv sha tables) (db_mgr_stored sha tables) st (c_ID cluster) s'"
proof -
  have "archive (manager_storage U P (database_ops sha V tmo D) e0) (db_mgr_inv sha tables) (db_mgr_stored sha tables) (Etcd order C) st"
    by (intro archive.intro database.manager_values [OF assms(1)] mvcc_client.Etcd_kv_store [OF assms(3)])
  from archive.put_archived [OF this assms(2,4-10)] show ?thesis .
qed

end
