(* ===== verification/Database_Audit.thy ===== *)
theory Database_Audit
  imports Database_Server Audit_Theorems
begin

text \<open>
  The audit log in the database and the audit file answer the same queries, as long as the search
  has no wildcards of \<open>LIKE\<close>: the SQL conditions of \<open>ListAudit\<close> select the events that
  \<open>auditMatches\<close> selects.
\<close>

section \<open>Conditions\<close>

definition plain_search :: "string \<Rightarrow> bool" where
  "plain_search s \<longleftrightarrow> CHR ''%'' \<notin> set s \<and> CHR ''_'' \<notin> set s \<and> CHR 0x5C \<notin> set s \<and> CHR 0x0A \<notin> set s"

text \<open>A collation that compares text as Go does, and \<open>LIKE\<close> with a pattern that has no other wildcards.\<close>

definition go_collation :: "ucd \<Rightarrow> collation \<Rightarrow> bool" where
  "go_collation U T \<longleftrightarrow> co_eq T = (=) \<and> co_lower T = ToLower U \<and>
     (\<forall>v p. plain_search p \<longrightarrow> co_like T v (''%'' @ p @ ''%'') = Contains v p)"

lemma search_fields:
  assumes "CHR 0x0A \<notin> set t"
  shows "Contains (ToLower U (Join [a, b, c, d] [CHR 0x0A])) t \<longleftrightarrow>
    Contains (ToLower U a) t \<or> Contains (ToLower U b) t \<or> Contains (ToLower U c) t \<or> Contains (ToLower U d) t"
proof -
  have newline: "byte CHR 0x0A < 0x80" "lowerRune U (byte CHR 0x0A) = byte CHR 0x0A"
    by (simp_all add: byte_def lowerRune_def)
  show ?thesis
    by (simp add: ToLower_append [OF newline] Contains_append [OF assms])
qed

lemma list_all_optional: "list_all P (if b then [x] else []) \<longleftrightarrow> (b \<longrightarrow> P x)"
  by simp

lemma conditions_select:
  assumes "go_collation U T" and "plain_search (ToLower U (TrimSpace (q_Search q)))"
  shows "list_all (audit_holds T ev) (auditConditions U q) \<longleftrightarrow> auditMatches U q ev"
proof -
  let ?s = "ToLower U (TrimSpace (q_Search q))"
  have nl: "CHR 0x0A \<notin> set ?s" using assms(2) by (simp add: plain_search_def)
  have T: "co_eq T = (=)" "co_lower T = ToLower U" "co_like T v (CHR ''%'' # ?s @ ''%'') = Contains v ?s" for v
    using assms by (simp_all add: go_collation_def)
  have cursor: "(q_Before q \<noteq> 0 \<longrightarrow> ev_OccurredAt ev < q_Before q \<or> ev_OccurredAt ev = q_Before q \<and> ev_ID ev < q_BeforeID q) \<longleftrightarrow>
      below_cursor q ev"
    by (cases "q_BeforeID q") (auto simp: below_cursor_def)
  show ?thesis
    unfolding auditMatches_parts cursor [symmetric] selects_def search_fields [OF nl] Let_def auditConditions_def list_all_append
      list_all_optional
    by (simp add: T not_less not_le) blast
qed

section \<open>Listing\<close>


section \<open>LIKE\<close>

text \<open>
  The reference for \<open>LIKE\<close>, over single-byte characters: a percent sign matches everything, an
  underscore one character, and a backslash takes the next character literally.
\<close>

fun sqlLike :: "string \<Rightarrow> string \<Rightarrow> bool" where
  "sqlLike [] v = (v = [])"
| "sqlLike (p # ps) v =
     (if p = CHR ''%'' then \<exists>n \<in> set [0 ..< Suc (length v)]. sqlLike ps (drop n v)
      else if p = CHR 0x5C then (case ps of [] \<Rightarrow> False | c # cs \<Rightarrow> v \<noteq> [] \<and> hd v = c \<and> sqlLike cs (tl v))
      else v \<noteq> [] \<and> (p = CHR ''_'' \<or> hd v = p) \<and> sqlLike ps (tl v))"

definition ref_collation :: "ucd \<Rightarrow> collation" where
  "ref_collation U = \<lparr>co_eq = (=), co_lower = ToLower U, co_like = (\<lambda>v p. sqlLike p v)\<rparr>"

lemma sqlLike_plain:
  "plain_search p \<Longrightarrow> sqlLike (p @ ps) v \<longleftrightarrow> (\<exists>u. v = p @ u \<and> sqlLike ps u)"
proof (induction p arbitrary: v)
  case (Cons c p)
  then have "sqlLike (p @ ps) (tl v) \<longleftrightarrow> (\<exists>u. tl v = p @ u \<and> sqlLike ps u)"
    by (simp add: plain_search_def)
  then show ?case
    using Cons.prems by (cases v) (auto simp: plain_search_def)
qed simp

lemma sqlLike_all: "sqlLike ''%'' v"
  by simp

lemma go_ref_collation: "go_collation U (ref_collation U)"
proof -
  have "sqlLike (''%'' @ p @ ''%'') v \<longleftrightarrow> Contains v p" if "plain_search p" for v p
  proof -
    have "sqlLike (''%'' @ p @ ''%'') v \<longleftrightarrow> (\<exists>n \<le> length v. \<exists>u. drop n v = p @ u)"
      using sqlLike_plain [OF that, of "''%''"] sqlLike_all by (auto simp: less_Suc_eq_le simp del: upt_Suc)
    also have "\<dots> \<longleftrightarrow> (\<exists>x u. v = x @ p @ u)"
    proof
      assume "\<exists>n \<le> length v. \<exists>u. drop n v = p @ u"
      then obtain n u where "drop n v = p @ u" by blast
      then have "v = take n v @ p @ u" by (metis append_take_drop_id)
      then show "\<exists>x u. v = x @ p @ u" by blast
    next
      assume "\<exists>x u. v = x @ p @ u"
      then obtain x u where "v = x @ p @ u" by blast
      then show "\<exists>n \<le> length v. \<exists>u. drop n v = p @ u" by (intro exI [of _ "length x"]) auto
    qed
    finally show ?thesis by (simp add: Contains_iff)
  qed
  then show ?thesis by (simp add: go_collation_def ref_collation_def)
qed

text \<open>
  Without the condition on the search the two differ, because the wildcards in it are not
  escaped: a search for an underscore finds, in the database, the event of \<open>bob\<close>, which has no
  underscore.
\<close>

lemma search_wildcard_differs:
  "list_all (audit_holds (ref_collation basic_ucd) (sample_event 5 CHR ''x'')) (auditConditions basic_ucd (all_events\<lparr>q_Search := ''_''\<rparr>))"
  "\<not> auditMatches basic_ucd (all_events\<lparr>q_Search := ''_''\<rparr>) (sample_event 5 CHR ''x'')"
proof -
  have lower: "ToLower basic_ucd ''_'' = ''_''" "ToLower basic_ucd ''bob'' = ''bob''" "TrimSpace ''_'' = ''_''"
    by (simp_all add: ToLower_lower byte_def visible_def)
  show "list_all (audit_holds (ref_collation basic_ucd) (sample_event 5 CHR ''x'')) (auditConditions basic_ucd (all_events\<lparr>q_Search := ''_''\<rparr>))"
    using lower by (simp add: auditConditions_def all_events_def Let_def sample_event_def ref_collation_def numeral_eq_Suc)
  show "\<not> auditMatches basic_ucd (all_events\<lparr>q_Search := ''_''\<rparr>) (sample_event 5 CHR ''x'')"
    using lower by (simp add: auditMatches_def all_events_def Let_def sample_event_def search_fields ToLower_lower byte_def del: Join.simps)
qed

end
