(* ===== verification/Database_Instances.thy ===== *)
theory Database_Instances
  imports Database_Audit Server_Instances
begin

text \<open>The guarantees of the database backend, evaluated over the reference database.\<close>

definition quiet_db :: "error option db_env" where
  "quiet_db = \<lparr>de_now = 9, de_net = None\<rparr>"

definition sample_sql :: "(error option, tables) sql_driver" where
  "sample_sql = ref_sql (\<lambda>t. t) (ref_collation basic_ucd)"

definition sample_dh :: DatabaseHistory where
  "sample_dh = \<lparr>dh_dialect = HistoryStoragePostgres, dh_timeout = 5\<rparr>"

abbreviation snapshot_b :: ValueSnapshot where
  "snapshot_b \<equiv> \<lparr>vs_ClusterID = ''78'', vs_Entry = entry_b, vs_CapturedAt = 7\<rparr>"

lemma sample_database: "database sample_sql (\<lambda>w. w) (\<lambda>t. t) (ref_collation basic_ucd) (\<lambda>k. k)"
  unfolding sample_sql_def by (rule refdb.database_axioms)

lemma empty_db_inv: "db_inv sha ([], evs)"
  by (simp add: db_inv_def)

lemma sample_db_save:
  "DatabaseHistory_Save (\<lambda>k. k) sample_sql quiet_db snapshot_b (sample_dh, ([], [])) =
     (Inr (), (sample_dh, ([rowOf (\<lambda>k. k) snapshot_b], [])))"
  by (simp add: DatabaseHistory_Save_def sample_encodes sample_sql_def ref_sql_def quiet_db_def effect_insert)

theorem database_history_refines_witness:
  "\<exists>ts. DatabaseHistory_Save (\<lambda>k. k) sample_sql quiet_db snapshot_b (sample_dh, ([], [])) = (Inr (), (sample_dh, ts)) \<and>
     db_stored (\<lambda>k. k) ts = spec_save (recorded (\<lambda>t. t) 9 snapshot_b) (db_stored (\<lambda>k. k) ([], []))"
proof -
  have "de_now quiet_db = 9" by (simp add: quiet_db_def)
  with conjunct1 [OF database_history_refines [OF sample_database empty_db_inv, of quiet_db snapshot_b sample_dh "[]"],
      THEN spec, THEN spec, THEN spec, THEN mp, OF sample_db_save] sample_db_save
  show ?thesis by auto
qed


section \<open>A server over the database\<close>

definition db_call :: "error option db_env mgr_call" where
  "db_call = \<lparr>ml_env = quiet_db, ml_now = 9, ml_later = 9, ml_random = Some ''x'', ml_io = good_io, ml_ctx = None\<rparr>"

definition db_history :: "(error option db_env, DatabaseHistory, tables) mgr HistoryStorage" where
  "db_history = manager_storage basic_ucd hm_codec (database_ops (\<lambda>k. k) basic_ucd 5 sample_sql) db_call"

definition db_deps :: "(reg_state, (error option db_env, DatabaseHistory, tables) mgr, mvcc) deps" where
  "db_deps =
    \<lparr>dp_clusters = sample_clusters, dp_history = db_history, dp_auth = sample_lib, dp_ldap = sample_directory,
     dp_rfc3339 = (\<lambda>_. None), dp_cursor = \<lparr>marshal = (\<lambda>_. None), unmarshal = (\<lambda>_. None)\<rparr>,
     dp_put = (\<lambda>_. JsonValue put_again []), dp_rollback = (\<lambda>_. JsonValue back_to_2 []), dp_cluster = (\<lambda>_. Malformed),
     dp_storage = (\<lambda>_. Malformed), dp_retention = (\<lambda>_. Malformed), dp_login = (\<lambda>_. Malformed), dp_password = (\<lambda>_. Malformed),
     dp_settings = (\<lambda>_. Malformed), dp_ldapInput = (\<lambda>_. Malformed), dp_user = (\<lambda>_. Malformed), dp_files = (\<lambda>_. 200)\<rparr>"

definition db_server :: "(reg_state, (error option db_env, DatabaseHistory, tables) mgr, mvcc) Server" where
  "db_server =
    \<lparr>sv_clusters = (sample_reg ''p'' 7, Map.empty, no_clients),
     sv_history = \<lparr>mg_state = (\<lparr>hm_configFile = ''f'', hm_defaultLocalFile = ''h'', hm_localFileRoot = ''.'', hm_configuredAt = 5,
        hm_config = zero_input, hm_retentionVersions = 0, hm_backend = Some sample_dh\<rparr>, Map.empty, ([], [])), mg_calls = []\<rparr>,
     sv_auth = None, sv_pendingAudit = [], sv_etcd = two_versions\<rparr>"

lemma db_server_parts [simp]:
  "dp_history db_deps = db_history" "dp_clusters db_deps = sample_clusters" "sv_etcd db_server = two_versions"
  "sv_clusters db_server = (sample_reg ''p'' 7, Map.empty, no_clients)" "sv_auth db_server = None"
  by (simp_all add: db_deps_def db_server_def)

lemma db_honest: "honest (db_mgr_inv (\<lambda>k. k) (\<lambda>w. w)) (db_mgr_stored (\<lambda>k. k) (\<lambda>w. w)) (\<lambda>w. w) c db_server"
  by (simp add: honest_def db_server_def two_versions_inv db_mgr_inv_def db_mgr_stored_def truthful_def empty_db_inv db_stored_def
      key_rows_def sort_desc_def)

lemma db_snapshot:
  assumes "sv_history s = sv_history db_server"
  shows "\<exists>h. saveSnapshot db_deps 7 ''78'' entry_b s = (None, s\<lparr>sv_history := h\<rparr>)"
proof -
  have "\<exists>h. hst_Save db_history snapshot_b (sv_history db_server) = (Inr (), h)"
    using sample_db_save
    by (simp add: db_history_def manager_storage_def mgr_update_def mgr_env_def mgr_done_def db_call_def HistoryManager_Save_def
        with_backend_def database_ops_def save_and_prune_def DatabaseHistory_PruneKey_def db_server_def)
  then show ?thesis
    using assms by (auto simp: saveSnapshot_def call_history_def)
qed

lemma db_put_reply:
  "\<exists>resp s'. handlePutKey db_deps sample_clock None (query_request [] []) db_server = (resp, s') \<and> rs_Reply resp = RevisionReply 4"
proof -
  obtain cs where kv: "cg_ClusterKV sample_clusters ''78'' (sample_reg ''p'' 7, Map.empty, no_clients) =
      (Inr (Etcd [] ref_client, sample_cluster ''p'' 7), cs)"
    using sample_ClusterKV by blast
  let ?s = "db_server\<lparr>sv_clusters := cs\<rparr>"
  have "clusterKV db_deps ''78'' db_server = (Inr (Etcd [] ref_client, sample_cluster ''p'' 7), ?s)"
    using kv by (simp add: clusterKV_def call_clusters_def visible_def byte_def)
  moreover obtain h where "saveSnapshot db_deps 7 ''78'' entry_b ?s = (None, ?s\<lparr>sv_history := h\<rparr>)"
    using db_snapshot [of ?s] by auto
  moreover have same: "?s\<lparr>sv_etcd := two_versions\<rparr> = ?s" by (simp add: db_server_def)
  ultimately have "clusterKV db_deps ''78'' db_server = (Inr (Etcd [] ref_client, sample_cluster ''p'' 7), ?s)"
    "archiveCurrent db_deps 7 ''78'' (Etcd [] ref_client) ''k'' (Some 3) ?s = (Inr (Some entry_b), ?s\<lparr>sv_history := h\<rparr>)"
    by (simp_all add: archiveCurrent_def call_etcd_def ref_reads same entry_b_def [THEN arg_cong [where f = e_ModRevision]])
  moreover have "decodeJSON (dp_put db_deps) (query_request [] []) = Inr put_again"
    by (simp add: decodeJSON_def db_deps_def jsonBlank_def query_request_def)
  ultimately show ?thesis
    by (simp add: handlePutKey_def requireClusterAccess_def requestCanAccessCluster_def put_again_def decodeKey_def
        decodeValue_def call_etcd_def ref_reads writeJSON_def)
qed

theorem database_put_archives_replaced_value_witness:
  "\<exists>resp s'. handlePutKey db_deps sample_clock None (query_request [] []) db_server = (resp, s') \<and>
     rs_Reply resp = RevisionReply 4 \<and> (\<exists>y \<in> set (db_mgr_stored (\<lambda>k. k) (\<lambda>w. w) (sv_history s') ''78'' ''k''). vs_rev y = 3)"
proof -
  obtain resp s' where put: "handlePutKey db_deps sample_clock None (query_request [] []) db_server = (resp, s')"
    and reply: "rs_Reply resp = RevisionReply 4"
    using db_put_reply by blast
  obtain cs where kv: "cg_ClusterKV (dp_clusters db_deps) (pr_ClusterID put_again) (sv_clusters db_server) =
      (Inr (Etcd [] ref_client, sample_cluster ''p'' 7), cs)"
    using sample_ClusterKV by (auto simp: put_again_def)
  have parts: "dp_history db_deps = manager_storage basic_ucd hm_codec (database_ops (\<lambda>k. k) basic_ucd 5 sample_sql) db_call"
    "decodeJSON (dp_put db_deps) (query_request [] []) = Inr put_again" "pr_ExpectedModRevision put_again = Some 3"
    "3 \<le> mv_rev (sv_etcd db_server)" "decodeKey (pr_Key put_again) (pr_KeyBase64 put_again) = Some ''k''"
    by (simp_all add: db_history_def decodeJSON_def db_deps_def jsonBlank_def query_request_def two_versions_def put_again_def decodeKey_def)
  from database_put_archives_replaced_value [OF sample_database parts(1) ref.mvcc_client_axioms db_honest parts(2) kv parts(3,4) put reply]
    parts(5) put reply show ?thesis by auto
qed

end
