(* ===== verification/Config.thy ===== *)
theory Config
  imports Safe_File
begin

text \<open>
  \<open>internal/config/config.go\<close>: the process configuration from environment variables. The
  environment is a function from names to values, empty for a variable that is not set;
  \<open>time.ParseDuration\<close> is a parameter, \<open>None\<close> being its error. The second part shows where the
  files are when only the file of the clusters is named.
\<close>

section \<open>Loading\<close>

definition defaultListenAddress :: string where "defaultListenAddress = ''127.0.0.1:8080''"
definition defaultClustersFile :: string where "defaultClustersFile = ''./data/clusters.json''"
definition defaultDialTimeout :: int where "defaultDialTimeout = 5 * 1000000000"

record Config =
  cg_ListenAddress :: string
  cg_ClustersFile :: string
  cg_HistoryConfigFile :: string
  cg_HistoryFile :: string
  cg_AuthFile :: string
  cg_DialTimeout :: int

datatype config_error = InvalidDialTimeout | EmptyClustersFile | EmptyHistoryFile | EmptyHistoryConfigFile | EmptyAuthFile

definition envOrDefault :: "(string \<Rightarrow> string) \<Rightarrow> string \<Rightarrow> string \<Rightarrow> string" where
  "envOrDefault getenv name fallback = (let v = TrimSpace (getenv name) in if v \<noteq> [] then v else fallback)"

text \<open>\<open>filepath.Join\<close> of a directory and a name, neither of which is empty.\<close>

definition joinPath :: "string \<Rightarrow> string \<Rightarrow> string" where
  "joinPath d name = Clean (d @ ''/'' @ name)"

definition Load :: "(string \<Rightarrow> string) \<Rightarrow> (string \<Rightarrow> int option) \<Rightarrow> (config_error, Config) result" where
  "Load getenv parseDuration =
    (let clustersFile = envOrDefault getenv ''CLUSTERS_FILE'' defaultClustersFile;
         dataDirectory = Dir clustersFile;
         cfg = \<lparr>cg_ListenAddress = envOrDefault getenv ''LISTEN_ADDR'' defaultListenAddress,
           cg_ClustersFile = clustersFile,
           cg_HistoryConfigFile = envOrDefault getenv ''HISTORY_CONFIG_FILE'' (joinPath dataDirectory ''history-storage.json''),
           cg_HistoryFile = envOrDefault getenv ''HISTORY_FILE'' (joinPath dataDirectory ''history.jsonl''),
           cg_AuthFile = envOrDefault getenv ''AUTH_FILE'' (joinPath dataDirectory ''auth.json''),
           cg_DialTimeout = defaultDialTimeout\<rparr>;
         raw = TrimSpace (getenv ''ETCD_DIAL_TIMEOUT'') in
     case (if raw = [] then Inr cfg
           else case parseDuration raw of
               None \<Rightarrow> Inl InvalidDialTimeout
             | Some timeout \<Rightarrow> if timeout \<le> 0 then Inl InvalidDialTimeout else Inr (cfg\<lparr>cg_DialTimeout := timeout\<rparr>)) of
       Inl err \<Rightarrow> Inl err
     | Inr cfg \<Rightarrow>
         if TrimSpace (cg_ClustersFile cfg) = [] then Inl EmptyClustersFile
         else if TrimSpace (cg_HistoryFile cfg) = [] then Inl EmptyHistoryFile
         else if TrimSpace (cg_HistoryConfigFile cfg) = [] then Inl EmptyHistoryConfigFile
         else if TrimSpace (cg_AuthFile cfg) = [] then Inl EmptyAuthFile
         else Inr cfg)"

section \<open>Paths below a directory\<close>

text \<open>
  The stack that simplification keeps: plain elements above dot-dots, and no dot-dots below the
  root. Simplifying it again changes nothing.
\<close>

fun simple_stack :: "bool \<Rightarrow> string list \<Rightarrow> bool" where
  "simple_stack r [] = True"
| "simple_stack r (e # out) =
     (if e = ''..'' then \<not> r \<and> (\<forall>d \<in> set out. d = ''..'') \<and> simple_stack r out else plain_element e \<and> simple_stack r out)"

lemma splitSlash_append: "splitSlash cur (s @ CHR ''/'' # t) = splitSlash cur s @ splitSlash [] t"
  by (induction cur s rule: splitSlash.induct) auto

lemma cleanElements_append: "cleanElements r (xs @ ys) out = cleanElements r ys (cleanElements r xs out)"
  by (induction r xs out rule: cleanElements.induct) (auto split: list.split)

lemma dotdots_simple: "\<forall>d \<in> set out. d = ''..'' \<Longrightarrow> simple_stack False out"
  by (induction out) auto

lemma cleanElements_simple:
  "\<forall>e \<in> set es. CHR ''/'' \<notin> set e \<Longrightarrow> simple_stack r out \<Longrightarrow> simple_stack r (cleanElements r es out)"
proof (induction r es out rule: cleanElements.induct)
  case (2 r e es out)
  consider "e = [] \<or> e = ''.''" | "e = ''..''" | "plain_element e"
    using 2(6) by (auto simp: plain_element_def)
  then show ?case
  proof cases
    case 2
    with "2.IH"(2-4) "2.prems" show ?thesis by (cases out) auto
  next
    case 3
    then have "e \<noteq> []" "e \<noteq> ''.''" "e \<noteq> ''..''" by (auto simp: plain_element_def)
    with 3 "2.IH"(5) "2.prems" show ?thesis by simp
  qed (use "2.IH"(1) "2.prems" in auto)
qed simp

lemma simple_stack_fixed: "simple_stack r out \<Longrightarrow> cleanElements r (rev out) [] = out"
proof (induction out)
  case (Cons e out)
  then have "cleanElements r (rev out) [] = out" by (auto split: if_splits)
  then have "cleanElements r (rev (e # out)) [] = cleanElements r [e] out"
    by (simp only: rev.simps cleanElements_append)
  also have "\<dots> = e # out"
    using Cons.prems by (cases out) (auto simp: plain_element_def split: if_splits)
  finally show ?case .
qed simp

lemma elements_simple: "simple_stack (IsAbs p) (rev (elements p))"
  using splitSlash_no_slash [of _ "[]" p] by (simp add: elements_def cleanElements_simple)

lemma simple_no_slash: "simple_stack r out \<Longrightarrow> list_all (\<lambda>e. CHR ''/'' \<notin> set e \<and> e \<noteq> []) out"
proof (induction out)
  case (Cons e out)
  then have "e = ''..'' \<or> plain_element e" "simple_stack r out" by (auto split: if_splits)
  with Cons.IH show ?case by (auto simp: plain_element_def)
qed simp

lemma elements_no_slash: "e \<in> set (elements p) \<Longrightarrow> CHR ''/'' \<notin> set e \<and> e \<noteq> []"
  using simple_no_slash [OF elements_simple [of p]] by (simp add: list_all_iff)

lemma Join_slash_Nil: "Join es ''/'' = [] \<Longrightarrow> \<forall>e \<in> set es. e \<noteq> [] \<Longrightarrow> es = []"
  by (cases es rule: remdups_adj.cases) auto

lemma Clean_relative: "\<not> IsAbs p \<Longrightarrow> elements p \<noteq> [] \<Longrightarrow> Clean p = Join (elements p) ''/''"
  using Join_slash_Nil [of "elements p"] elements_no_slash [of _ p] by (auto simp: Clean_def Let_def)

text \<open>Cleaning keeps the elements, also of a relative path.\<close>

lemma elements_Clean: "elements (Clean p) = elements p"
proof (cases "IsAbs p")
  case False
  show ?thesis
  proof (cases "elements p = []")
    case True
    then have "Clean p = ''.''" using False by (simp add: Clean_def)
    then show ?thesis using True by (simp add: elements_def IsAbs_def)
  next
    case nonempty: False
    have "splitSlash [] (Clean p) = elements p"
      using splitSlash_Join [OF nonempty] elements_no_slash [of _ p] Clean_relative [OF False nonempty] by auto
    then show ?thesis
      using simple_stack_fixed [OF elements_simple [of p]] False by (simp add: elements_def [of "Clean p"])
  qed
qed (rule elements_Clean_abs)

lemma Clean_distinct: "distinct (map elements ps) \<Longrightarrow> distinct (map Clean ps)"
proof -
  assume "distinct (map elements ps)"
  then have "distinct (map elements (map Clean ps))" by (simp add: comp_def elements_Clean)
  then show ?thesis by (simp only: distinct_map)
qed

lemma Clean_cong: "elements p = elements q \<Longrightarrow> IsAbs p = IsAbs q \<Longrightarrow> Clean p = Clean q"
  by (simp add: Clean_def)

lemma elements_slash:
  assumes "plain_element e"
  shows "elements (d @ CHR ''/'' # e) = elements (d @ ''/'') @ [e]"
proof -
  have "CHR ''/'' \<notin> set e" using assms by (simp add: plain_element_def)
  moreover have "IsAbs (d @ CHR ''/'' # e) = IsAbs (d @ ''/'')" by (cases d) (auto simp: IsAbs_def)
  ultimately show ?thesis
    using assms by (simp add: elements_def splitSlash_append splitSlash_plain cleanElements_append plain_element_def)
qed

lemma trailing_slash:
  assumes "d \<noteq> []"
  shows "IsAbs (d @ CHR ''/'' # e) = IsAbs d" "elements (d @ ''/'') = elements d" "Clean (d @ ''/'') = Clean d"
proof -
  show abs: "IsAbs (d @ CHR ''/'' # e) = IsAbs d" for e using assms by (cases d) (auto simp: IsAbs_def)
  show els: "elements (d @ ''/'') = elements d"
    using abs by (simp add: elements_def splitSlash_append cleanElements_append)
  show "Clean (d @ ''/'') = Clean d" by (rule Clean_cong [OF els abs])
qed

lemma elements_below: "d \<noteq> [] \<Longrightarrow> plain_element e \<Longrightarrow> elements (d @ CHR ''/'' # e) = elements d @ [e]"
  by (simp add: elements_slash trailing_slash)

lemma Clean_not_empty: "Clean p \<noteq> []"
  by (simp add: Clean_def Let_def)

lemma Join_snoc: "Join (es @ [e]) ''/'' = (if es = [] then e else Join es ''/'' @ CHR ''/'' # e)"
  by (induction es rule: induct_list012) auto

lemma Clean_parts: "elements d \<noteq> [] \<Longrightarrow> Clean d = (if IsAbs d then CHR ''/'' # Join (elements d) ''/'' else Join (elements d) ''/'')"
  using Clean_relative [of d] by (simp add: Clean_def)

lemma joinPath_cases:
  assumes "d \<noteq> []" and "plain_element e"
  shows "joinPath d e = (if elements d = [] then if IsAbs d then CHR ''/'' # e else e else Clean d @ CHR ''/'' # e)"
proof -
  have "elements (d @ CHR ''/'' # e) = elements d @ [e]" "IsAbs (d @ CHR ''/'' # e) = IsAbs d"
    using elements_below [OF assms] trailing_slash(1) [OF assms(1)] by auto
  then show ?thesis
    using Clean_parts [of "d @ CHR ''/'' # e"] Clean_parts [of d] by (auto simp: joinPath_def Join_snoc)
qed

lemma dropWhile_name: "CHR ''/'' \<notin> set e \<Longrightarrow> dropWhile (\<lambda>c. c \<noteq> CHR ''/'') (rev e @ xs) = dropWhile (\<lambda>c. c \<noteq> CHR ''/'') xs"
  by (rule dropWhile_append2) auto

lemma Dir_name:
  assumes "CHR ''/'' \<notin> set e"
  shows "Dir (x @ CHR ''/'' # e) = Clean (x @ ''/'')" "Dir e = ''.''"
proof -
  show "Dir (x @ CHR ''/'' # e) = Clean (x @ ''/'')"
    using dropWhile_name [OF assms, of "CHR ''/'' # rev x"] by (simp add: Dir_def)
  have "Clean [] = ''.''" by (simp add: Clean_def elements_def IsAbs_def)
  with dropWhile_name [OF assms, of "[]"] show "Dir e = ''.''"
    by (simp add: Dir_def del: dropWhile_eq_Nil_conv)
qed

lemma Dir_joinPath:
  assumes "d \<noteq> []" and "plain_element e"
  shows "Dir (joinPath d e) = Clean d"
proof -
  have e: "CHR ''/'' \<notin> set e" using assms(2) by (simp add: plain_element_def)
  show ?thesis
  proof (cases "elements d = []")
    case True
    then have "Clean d = (if IsAbs d then ''/'' else ''.'')" by (simp add: Clean_def)
    moreover have "Clean ''/'' = ''/''" by (simp add: Clean_def elements_def IsAbs_def)
    ultimately show ?thesis
      using True joinPath_cases [OF assms] Dir_name(1) [OF e, of "[]"] Dir_name(2) [OF e] by simp
  next
    case False
    have "Clean (Clean d) = Clean d" by (rule Clean_cong) (simp_all add: elements_Clean)
    then show ?thesis
      using False joinPath_cases [OF assms] Dir_name(1) [OF e, of "Clean d"] trailing_slash(3) [OF Clean_not_empty, of d] by simp
  qed
qed

lemma Clean_joinPath: "Clean (joinPath d e) = joinPath d e"
  unfolding joinPath_def by (rule Clean_cong) (simp_all add: elements_Clean)

lemma Clean_Dir: "Clean (Dir p) = Dir p"
  unfolding Dir_def by (rule Clean_cong) (simp_all add: elements_Clean)

lemma elements_joinPath: "d \<noteq> [] \<Longrightarrow> plain_element e \<Longrightarrow> elements (joinPath d e) = elements d @ [e]"
  by (simp add: joinPath_def elements_Clean elements_below)

text \<open>The name of a file: what follows the last slash.\<close>

definition baseName :: "string \<Rightarrow> string" where
  "baseName p = rev (takeWhile (\<lambda>c. c \<noteq> CHR ''/'') (rev p))"

lemma elements_baseName:
  assumes "plain_element (baseName p)"
  shows "elements p = elements (Dir p) @ [baseName p]"
proof -
  let ?d = "dropWhile (\<lambda>c. c \<noteq> CHR ''/'') (rev p)"
  have p: "p = rev ?d @ baseName p"
    unfolding baseName_def by (metis rev_append rev_rev_ident takeWhile_dropWhile_id)
  show ?thesis
  proof (cases ?d)
    case Nil
    then have "p = baseName p" using p by (simp del: dropWhile_eq_Nil_conv)
    moreover from Nil have "CHR ''/'' \<notin> set p" by auto
    ultimately show ?thesis
      using assms Dir_name(2) [of p] by (simp add: elements_def splitSlash_plain plain_element_def IsAbs_def)
  next
    case (Cons c x)
    then have "c = CHR ''/''" using hd_dropWhile [of "\<lambda>c. c \<noteq> CHR ''/''" "rev p"] by auto
    with Cons p have "p = rev x @ CHR ''/'' # baseName p" by simp
    moreover have "CHR ''/'' \<notin> set (baseName p)" using assms by (simp add: plain_element_def)
    ultimately show ?thesis
      using elements_slash [OF assms, of "rev x"] Dir_name(1) [of "baseName p" "rev x"] elements_Clean [of "rev x @ ''/''"] by metis
  qed
qed

section \<open>Where the files are\<close>

lemma Load_ok:
  assumes "Load getenv parseDuration = Inr cfg"
  shows "cg_HistoryConfigFile cfg = envOrDefault getenv ''HISTORY_CONFIG_FILE'' (joinPath (Dir (cg_ClustersFile cfg)) ''history-storage.json'')"
    "cg_HistoryFile cfg = envOrDefault getenv ''HISTORY_FILE'' (joinPath (Dir (cg_ClustersFile cfg)) ''history.jsonl'')"
    "cg_AuthFile cfg = envOrDefault getenv ''AUTH_FILE'' (joinPath (Dir (cg_ClustersFile cfg)) ''auth.json'')"
    "0 < cg_DialTimeout cfg" "TrimSpace (cg_AuthFile cfg) \<noteq> []"
  using assms by (auto simp: Load_def Let_def defaultDialTimeout_def split: option.splits if_splits)

text \<open>
  When only the file of the clusters is configured, the other three files are in its
  directory, and the four are different files unless the file of the clusters has the name of one
  of the others; the timeout is always positive.
\<close>

theorem default_data_files:
  assumes "Load getenv parseDuration = Inr cfg"
    and "TrimSpace (getenv ''HISTORY_CONFIG_FILE'') = []" "TrimSpace (getenv ''HISTORY_FILE'') = []" "TrimSpace (getenv ''AUTH_FILE'') = []"
    and "plain_element (baseName (cg_ClustersFile cfg))"
    and "baseName (cg_ClustersFile cfg) \<notin> {''history-storage.json'', ''history.jsonl'', ''auth.json''}"
  shows "distinct (map Clean [cg_ClustersFile cfg, cg_HistoryConfigFile cfg, cg_HistoryFile cfg, cg_AuthFile cfg]) \<and>
    list_all (\<lambda>f. Dir f = Dir (cg_ClustersFile cfg)) [cg_HistoryConfigFile cfg, cg_HistoryFile cfg, cg_AuthFile cfg] \<and>
    0 < cg_DialTimeout cfg"
proof -
  let ?p = "cg_ClustersFile cfg"
  let ?f = "joinPath (Dir ?p)"
  have files: "cg_HistoryConfigFile cfg = ?f ''history-storage.json''" "cg_HistoryFile cfg = ?f ''history.jsonl''"
      "cg_AuthFile cfg = ?f ''auth.json''" "0 < cg_DialTimeout cfg"
    using Load_ok [OF assms(1)] assms(2-4) by (simp_all add: envOrDefault_def)
  have plain: "plain_element ''history-storage.json''" "plain_element ''history.jsonl''" "plain_element ''auth.json''"
    by (simp_all add: plain_element_def)
  have d: "Dir ?p \<noteq> []" using Clean_not_empty Clean_Dir by metis
  note els = elements_joinPath [OF d]
  have "distinct (map elements [?p, ?f ''history-storage.json'', ?f ''history.jsonl'', ?f ''auth.json''])"
    using assms(6) plain by (simp add: els elements_baseName [OF assms(5)])
  then have "distinct (map Clean [?p, ?f ''history-storage.json'', ?f ''history.jsonl'', ?f ''auth.json''])"
    by (rule Clean_distinct)
  then show ?thesis
    using plain by (simp add: files Dir_joinPath [OF d] Clean_Dir)
qed

theorem default_data_files_witness:
  "\<exists>cfg. Load (\<lambda>_. []) (\<lambda>_. None) = Inr cfg \<and> cg_AuthFile cfg = ''data/auth.json'' \<and>
     distinct (map Clean [cg_ClustersFile cfg, cg_HistoryConfigFile cfg, cg_HistoryFile cfg, cg_AuthFile cfg])"
proof -
  have "Load (\<lambda>_. []) (\<lambda>_. None) =
      Inr \<lparr>cg_ListenAddress = ''127.0.0.1:8080'', cg_ClustersFile = ''./data/clusters.json'',
        cg_HistoryConfigFile = ''data/history-storage.json'', cg_HistoryFile = ''data/history.jsonl'',
        cg_AuthFile = ''data/auth.json'', cg_DialTimeout = 5000000000\<rparr>" by code_simp
  then obtain cfg where cfg: "Load (\<lambda>_. []) (\<lambda>_. None) = Inr cfg" "cg_AuthFile cfg = ''data/auth.json''"
      "cg_ClustersFile cfg = defaultClustersFile"
    by (simp add: defaultClustersFile_def)
  have "plain_element (baseName defaultClustersFile)" "baseName defaultClustersFile = ''clusters.json''" by code_simp+
  with default_data_files [OF cfg(1)] cfg show ?thesis by simp
qed

end
