(* ===== verification/Server_Honest.thy ===== *)
theory Server_Honest
  imports Server_Access Server_Keys_Theorems
begin

text \<open>
  The archive of a cluster stays honest whatever key requests come, for this cluster or another,
  and however they end: refused, half done or done, with other clients writing all the time.
\<close>

section \<open>Clients of other clusters\<close>

text \<open>
  Whatever a client does, time goes on for a cluster, and no more is known for the clusters that it
  does not serve.
\<close>

inductive kv_step :: "'w KV \<Rightarrow> 'w \<Rightarrow> 'w \<Rightarrow> bool" for K where
  get: "kv_Get K k w = (a, w') \<Longrightarrow> kv_step K w w'"
| at: "kv_GetAtRevision K k q w = (b, w') \<Longrightarrow> kv_step K w w'"
| put: "kv_Put K k v x w = (p, w') \<Longrightarrow> kv_step K w w'"
| delete: "kv_Delete K k x w = (d, w') \<Longrightarrow> kv_step K w w'"
| list: "kv_List K pfx cursor n w = (l, w') \<Longrightarrow> kv_step K w w'"

definition moves :: "'w KV \<Rightarrow> ('w \<Rightarrow> mvcc) \<Rightarrow> bool" where
  "moves K st \<longleftrightarrow> (\<forall>w w'. kv_step K w w' \<longrightarrow> mvcc_inv (st w) \<longrightarrow> mvcc_le (st w) (st w'))"

lemma kv_store_moves:
  assumes "kv_store K st"
  shows "moves K st"
  unfolding moves_def
proof (intro allI impI)
  fix w w'
  assume "kv_step K w w'" and inv: "mvcc_inv (st w)"
  then show "mvcc_le (st w) (st w')"
  proof (cases rule: kv_step.cases)
    case (get k a)
    from kv_store.kv_get [OF assms inv get] show ?thesis ..
  next
    case (at k q b)
    from kv_store.kv_at [OF assms inv at] show ?thesis ..
  next
    case (put k v x p)
    from kv_store.kv_put [OF assms inv put] show ?thesis ..
  next
    case (delete k x d)
    from kv_store.kv_delete [OF assms inv delete] show ?thesis ..
  next
    case (list pfx cursor n l)
    from kv_store.kv_list [OF assms inv list] show ?thesis ..
  qed
qed

text \<open>The registry hands out, for the cluster \<open>c\<close>, clients of this cluster.\<close>

definition serves :: "('r, 'h, 'w) deps \<Rightarrow> string \<Rightarrow> ('w \<Rightarrow> mvcc) \<Rightarrow> bool" where
  "serves D c st \<longleftrightarrow> (\<forall>cid cs kv cl cs'. cg_ClusterKV (dp_clusters D) cid cs = (Inr (kv, cl), cs') \<longrightarrow>
    (if c_ID cl = c then \<exists>order C. kv = Etcd order C \<and> mvcc_client C st else moves kv st))"

definition client_for :: "string \<Rightarrow> ('w \<Rightarrow> mvcc) \<Rightarrow> 'w KV \<Rightarrow> string \<Rightarrow> bool" where
  "client_for c st kv c' \<longleftrightarrow> moves kv st \<and> (c' = c \<longrightarrow> kv_store kv st)"

lemma serves_client:
  assumes "serves D c st" and "cg_ClusterKV (dp_clusters D) cid cs = (Inr (kv, cl), cs')"
  shows "client_for c st kv (c_ID cl)"
proof (cases "c_ID cl = c")
  case True
  then obtain order C where "kv = Etcd order C" "mvcc_client C st"
    using assms unfolding serves_def by metis
  then have "kv_store kv st" using mvcc_client.Etcd_kv_store by blast
  then show ?thesis by (simp add: client_for_def kv_store_moves)
next
  case False
  with assms show ?thesis unfolding serves_def client_for_def by metis
qed

section \<open>Steps\<close>

context value_storage begin

lemma honest_step:
  assumes "honest invar stored st c s" and "moves K st" and "kv_step K (sv_etcd s) w"
  shows "honest invar stored st c (s\<lparr>sv_etcd := w\<rparr>)"
  using assms by (intro honest_etcd) (auto simp: moves_def honest_def)

lemma honest_listed:
  "honest invar stored st c s \<Longrightarrow> hst_ListBefore H c' k q n (sv_history s) = (a, h) \<Longrightarrow> honest invar stored st c (s\<lparr>sv_history := h\<rparr>)"
  using list_law [of "sv_history s" c' k q n a h] by (simp add: honest_def)

lemma honest_audited:
  assumes "honest invar stored st c s" and "dp_history D = H"
  shows "honest invar stored st c (recordAudit D r ctx ev s)"
proof -
  obtain ev' where "recordAudit D r ctx ev s = saveAuditEvent D ev' s"
    using recordAudit_event by metis
  with assms audit_law [of "sv_history s" ev'] show ?thesis
    by (simp add: honest_def saveAuditEvent_frame prod_eq_iff)
qed

lemma honest_saved_elsewhere:
  assumes "honest invar stored st c s" and "dp_history D = H" and "saveSnapshot D now c' e s = (a, s')" and "c' \<noteq> c"
  shows "honest invar stored st c s'"
proof -
  let ?x = "\<lparr>vs_ClusterID = c', vs_Entry = e, vs_CapturedAt = now\<rparr>"
  obtain b h where save: "hst_Save H ?x (sv_history s) = (b, h)" by fastforce
  then have s': "s' = s\<lparr>sv_history := h\<rparr>"
    using assms(2,3) by (auto simp: saveSnapshot_def call_simps split: sum.splits)
  have inv: "invar (sv_history s)" using assms(1) by (simp add: honest_def)
  have "truthful (stored h) c m" if "truthful (stored (sv_history s)) c m" for m
    using save_adds [OF inv save] assms(4) that by (fastforce simp: truthful_def)
  with assms(1) save_invar [OF inv save] show ?thesis by (simp add: honest_def s')
qed

lemma honest_archived:
  assumes "honest invar stored st c s" and "dp_history D = H" and "client_for c st K c'"
    and "archiveCurrent D now c' K key x s = (a, s')"
  shows "honest invar stored st c s'"
proof (cases "c' = c")
  case True
  then have "archive H invar stored K st"
    using assms(3) by (intro archive.intro value_storage_axioms) (simp add: client_for_def)
  from archive.honest_archive [OF this assms(1,2)] assms(4) True show ?thesis by blast
next
  case False
  obtain b w where get: "kv_Get K key (sv_etcd s) = (b, w)" by fastforce
  have hon: "honest invar stored st c (s\<lparr>sv_etcd := w\<rparr>)"
    using honest_step [OF assms(1) _ kv_step.get [OF get]] assms(3) by (simp add: client_for_def)
  show ?thesis
    using assms(2,4) get hon honest_saved_elsewhere [OF hon _ _ False]
    by (auto simp: archiveCurrent_def call_simps split: sum.splits option.splits if_splits prod.splits)
qed

lemma honest_target:
  assumes "honest invar stored st c s" and "dp_history D = H" and "client_for c st K c'"
    and "rollbackTarget D c' K key m q s = (a, s')"
  shows "honest invar stored st c s'"
proof -
  obtain b w where get: "kv_Get K key (sv_etcd s) = (b, w)" by fastforce
  obtain l h where list: "hst_ListBefore H c' key (wrap64 (q + 1)) 1 (sv_history s) = (l, h)" by fastforce
  obtain b' v where old: "kv_GetAtRevision K key q w = (b', v)" by fastforce
  have K: "moves K st" using assms(3) by (simp add: client_for_def)
  have hon1: "honest invar stored st c (s\<lparr>sv_etcd := w\<rparr>)"
    by (rule honest_step [OF assms(1) K kv_step.get [OF get]])
  have hon2: "honest invar stored st c (s\<lparr>sv_etcd := w, sv_history := h\<rparr>)"
    using honest_listed [OF hon1] list by simp
  have "honest invar stored st c (s\<lparr>sv_etcd := w, sv_history := h, sv_etcd := v\<rparr>)"
    by (rule honest_step [OF hon2 K kv_step.at]) (use old in simp)
  with hon1 hon2 show ?thesis
    using assms(2,4) get list old
    by (auto simp: rollbackTarget_def call_simps split: sum.splits option.splits if_splits)
qed

lemma honest_rollback:
  assumes "honest invar stored st c s" and "dp_history D = H" and "client_for c st K c'"
    and "rollbackTarget D c' K key m q s = (Inr (cur, prev, src, at), s2)" and "archiveRollback D e c' cur prev src s2 = (r, s3)"
  shows "honest invar stored st c s3"
proof (cases "c' = c")
  case True
  then have "archive H invar stored K st"
    using assms(3) by (intro archive.intro value_storage_axioms) (simp add: client_for_def)
  from archive.rollback_archived(1) [OF this assms(1,2)] assms(4,5) True show ?thesis by blast
next
  case False
  have hon2: "honest invar stored st c s2" by (rule honest_target [OF assms(1-4)])
  show ?thesis
    using assms(5) hon2
    by (auto simp: archiveRollback_def split: prod.splits option.splits if_splits
        dest: honest_saved_elsewhere [OF _ assms(2) _ False, rotated])
qed

lemma moves_versions:
  assumes "moves K st"
  shows "etcdVersions K key q n es w = (a, w') \<Longrightarrow> mvcc_inv (st w) \<Longrightarrow> mvcc_le (st w) (st w')"
proof (induction "nat q" arbitrary: q es w rule: less_induct)
  case less
  obtain b w1 where get: "kv_GetAtRevision K key q w = (b, w1)" by fastforce
  have step: "mvcc_le (st w) (st w1)"
    using assms kv_step.at [OF get] less.prems(2) unfolding moves_def by blast
  show ?case
  proof (cases "w' = w \<or> w' = w1")
    case True
    then show ?thesis using step mvcc_le_refl [OF less.prems(2)] by blast
  next
    case False
    then obtain e where e: "\<not> q < e_ModRevision e" "\<not> e_ModRevision e < 1"
        "etcdVersions K key (e_ModRevision e - 1) n (es @ [e]) w1 = (a, w')"
      using less.prems(1) get unfolding etcdVersions.simps [of K key q n es w]
      by (auto split: if_splits sum.splits option.splits)
    have "nat (e_ModRevision e - 1) < nat q" using e(1,2) by simp
    from less.hyps [OF this e(3) mvcc_le_inv [OF step]] step show ?thesis by (rule mvcc_le_trans [rotated])
  qed
qed

lemma honest_candidates:
  assumes "honest invar stored st c s" and "dp_history D = H" and "moves K st"
    and "rollbackCandidates D c' K key before n s = (a, s')"
  shows "honest invar stored st c s'"
proof -
  obtain l h where list: "hst_ListBefore H c' key before (n + 1) (sv_history s) = (l, h)" by fastforce
  obtain b w where versions: "etcdVersionsBefore K key before (n + 1) (sv_etcd s) = (b, w)" by fastforce
  have hon1: "honest invar stored st c (s\<lparr>sv_history := h\<rparr>)" by (rule honest_listed [OF assms(1) list])
  then have "honest invar stored st c (s\<lparr>sv_history := h, sv_etcd := w\<rparr>)"
    using moves_versions [OF assms(3) versions [unfolded etcdVersionsBefore_def]]
    by (intro honest_etcd) (simp_all add: honest_def)
  with hon1 show ?thesis
    using assms(2,4) list versions
    by (auto simp: rollbackCandidates_def call_simps Let_def split: sum.splits prod.splits if_splits)
qed

section \<open>Handlers\<close>

lemma client_moves: "client_for c st K c' \<Longrightarrow> moves K st"
  by (simp add: client_for_def)

lemma served_client:
  assumes "serves D c st"
  shows "clusterKV D cid s = (x, s') \<Longrightarrow> honest invar stored st c s \<Longrightarrow>
      honest invar stored st c s' \<and> (\<forall>kv cl. x = Inr (kv, cl) \<longrightarrow> client_for c st kv (c_ID cl))"
    and "clusterKVFromRequest D ctx r s = (y, s') \<Longrightarrow> honest invar stored st c s \<Longrightarrow>
      honest invar stored st c s' \<and> (\<forall>kv cl. y = Inr (kv, cl) \<longrightarrow> client_for c st kv (c_ID cl))"
proof -
  have one: "honest invar stored st c s' \<and> (\<forall>kv cl. x = Inr (kv, cl) \<longrightarrow> client_for c st kv (c_ID cl))"
    if "clusterKV D cid s = (x, s')" "honest invar stored st c s" for cid x s'
    using that serves_client [OF assms] by (auto simp: clusterKV_def call_eqs split: if_splits)
  show "clusterKV D cid s = (x, s') \<Longrightarrow> honest invar stored st c s \<Longrightarrow>
      honest invar stored st c s' \<and> (\<forall>kv cl. x = Inr (kv, cl) \<longrightarrow> client_for c st kv (c_ID cl))"
    by (rule one)
  show "clusterKVFromRequest D ctx r s = (y, s') \<Longrightarrow> honest invar stored st c s \<Longrightarrow>
      honest invar stored st c s' \<and> (\<forall>kv cl. y = Inr (kv, cl) \<longrightarrow> client_for c st kv (c_ID cl))"
    by (auto simp: clusterKVFromRequest_def Let_def split: option.splits prod.splits sum.splits dest!: one)
qed

text \<open>Whatever a handler of keys answers, the snapshots stay honest.\<close>

lemmas etcd_calls = honest_step [OF _ client_moves kv_step.get] honest_step [OF _ client_moves kv_step.put]
  honest_step [OF _ client_moves kv_step.delete] honest_step [OF _ client_moves kv_step.list]

lemma read_handlers_honest:
  assumes "honest invar stored st c s" and "serves D c st" and "dp_history D = H"
  shows "handleListKeys D ctx r s = (resp, s') \<Longrightarrow> honest invar stored st c s'"
    and "handleGetKey D ctx r s = (resp, s') \<Longrightarrow> honest invar stored st c s'"
    and "handleRollbackPreview D ctx r s = (resp, s') \<Longrightarrow> honest invar stored st c s'"
    and "handleRollbackVersions D ctx r s = (resp, s') \<Longrightarrow> honest invar stored st c s'"
proof -
  obtain y s1 where look: "clusterKVFromRequest D ctx r s = (y, s1)" by fastforce
  have hon: "honest invar stored st c s1" and kv: "\<And>kv cl. y = Inr (kv, cl) \<Longrightarrow> client_for c st kv (c_ID cl)"
    using served_client(2) [OF assms(2) look assms(1)] by auto
  show "handleListKeys D ctx r s = (resp, s') \<Longrightarrow> honest invar stored st c s'"
    using look hon kv
    by (auto simp: handleListKeys_def call_eqs Let_def split: sum.splits option.splits prod.splits intro: etcd_calls)
  show "handleGetKey D ctx r s = (resp, s') \<Longrightarrow> honest invar stored st c s'"
    using look hon kv
    by (auto simp: handleGetKey_def call_eqs split: sum.splits option.splits prod.splits intro: etcd_calls)
  show "handleRollbackPreview D ctx r s = (resp, s') \<Longrightarrow> honest invar stored st c s'"
    using look hon kv
    by (auto simp: handleRollbackPreview_def split: sum.splits option.splits prod.splits if_splits
        intro: honest_target [OF _ assms(3)])
  show "handleRollbackVersions D ctx r s = (resp, s') \<Longrightarrow> honest invar stored st c s'"
    using look hon kv
    by (auto simp: handleRollbackVersions_def call_eqs split: sum.splits option.splits prod.splits if_splits
        intro: etcd_calls honest_candidates [OF _ assms(3) client_moves])
qed

lemma write_handlers_honest:
  assumes "honest invar stored st c s" and "serves D c st" and "dp_history D = H"
  shows "handlePutKey D e ctx r s = (resp, s') \<Longrightarrow> honest invar stored st c s'"
    and "handleDeleteKey D e ctx r s = (resp, s') \<Longrightarrow> honest invar stored st c s'"
    and "handleRollbackKey D e ctx r s = (resp, s') \<Longrightarrow> honest invar stored st c s'"
proof -
  have resolved: "honest invar stored st c s1 \<and> (\<forall>kv cl. y = Inr (kv, cl) \<longrightarrow> client_for c st kv (c_ID cl))"
    if "clusterKV D cid s = (y, s1)" for cid y s1
    by (rule served_client(1) [OF assms(2) that assms(1)])
  show "handlePutKey D e ctx r s = (resp, s') \<Longrightarrow> honest invar stored st c s'"
    using assms(1)
    by (auto simp: handlePutKey_def call_eqs split: sum.splits option.splits prod.splits dest!: resolved
        intro!: honest_audited [OF _ assms(3)] intro: etcd_calls honest_archived [OF _ assms(3)])
  show "handleDeleteKey D e ctx r s = (resp, s') \<Longrightarrow> honest invar stored st c s'"
  proof -
    assume run: "handleDeleteKey D e ctx r s = (resp, s')"
    obtain y s1 where look: "clusterKVFromRequest D ctx r s = (y, s1)" by fastforce
    have hon: "honest invar stored st c s1" and kv: "\<And>kv cl. y = Inr (kv, cl) \<Longrightarrow> client_for c st kv (c_ID cl)"
      using served_client(2) [OF assms(2) look assms(1)] by auto
    show ?thesis
      using run look hon kv
      by (auto simp: handleDeleteKey_def call_eqs split: sum.splits option.splits prod.splits if_splits
          intro!: honest_audited [OF _ assms(3)] intro: etcd_calls honest_archived [OF _ assms(3)])
  qed
  show "handleRollbackKey D e ctx r s = (resp, s') \<Longrightarrow> honest invar stored st c s'"
    using assms(1)
    by (auto simp: handleRollbackKey_def call_eqs split: sum.splits option.splits prod.splits if_splits dest!: resolved
        intro!: honest_audited [OF _ assms(3)] intro: etcd_calls honest_target [OF _ assms(3)] honest_rollback [OF _ assms(3)])
qed

end


section \<open>Runs of requests\<close>

fun serve ::
    "('r, 'h, 'w) deps \<Rightarrow> (env \<times> request) list \<Rightarrow> ('r, 'h, 'w) Server \<Rightarrow> response list \<times> ('r, 'h, 'w) Server" where
  "serve D [] s = ([], s)"
| "serve D ((e, r) # rs) s =
     (case Handler D e r s of (resp, s') \<Rightarrow> (case serve D rs s' of (resps, s'') \<Rightarrow> (resp # resps, s'')))"

definition archive_routes :: "route list" where
  "archive_routes = [KeysList, KeyGet, KeyPut, KeyDelete, KeyVersions, KeyPreview, KeyRollback]"

lemma honest_auth [simp]: "honest invar stored st c (s\<lparr>sv_auth := a\<rparr>) = honest invar stored st c s"
  by (simp add: honest_def)

context value_storage begin

lemma Handler_honest:
  assumes "honest invar stored st c s" and "serves D c st" and "dp_history D = H"
    and "routeOf r = Some rt" and "rt \<in> set archive_routes" and "Handler D e r s = (resp, s')"
  shows "honest invar stored st c s'"
proof -
  have mux: "honest invar stored st c s2" if "serveMux D e ctx r s1 = (resp2, s2)" "honest invar stored st c s1" for ctx s1 resp2 s2
    using assms(4,5) that(1) read_handlers_honest [OF that(2) assms(2,3)] write_handlers_honest [OF that(2) assms(2,3)]
    by (auto simp: serveMux_def archive_routes_def)
  show ?thesis
    using assms(1,6)
    by (auto simp: Handler_def requireAuthentication_def split: option.splits if_splits prod.splits dest: mux)
qed

lemma serve_honest:
  "honest invar stored st c s \<Longrightarrow> serves D c st \<Longrightarrow> dp_history D = H \<Longrightarrow>
    list_all (\<lambda>(e, r). \<exists>rt \<in> set archive_routes. routeOf r = Some rt) rs \<Longrightarrow> serve D rs s = (resps, s') \<Longrightarrow>
    honest invar stored st c s'"
proof (induction rs arbitrary: s resps)
  case (Cons x rs)
  obtain e r where x: "x = (e, r)" by (cases x)
  obtain resp s1 where step: "Handler D e r s = (resp, s1)" by fastforce
  then have "honest invar stored st c s1"
    using Handler_honest [OF Cons.prems(1-3)] Cons.prems(4) by (auto simp: x)
  with Cons step show ?case by (auto simp: x split: prod.splits)
qed simp

end

text \<open>
  C4. Whatever requests on keys come, for this cluster or others, with or without a session, and
  however each of them ends, while other clients write to etcd: every archived value of the
  cluster is the value that etcd had for this key at the revision of the snapshot.
\<close>

theorem archive_stays_honest:
  assumes "dp_history D = manager_storage U P (local_ops V J A) e0" and "serves D c st"
    and "honest mgr_inv mgr_stored st c s"
    and "list_all (\<lambda>(e, r). \<exists>rt \<in> set archive_routes. routeOf r = Some rt) rs" and "serve D rs s = (resps, s')"
  shows "mvcc_inv (st (sv_etcd s')) \<and> mgr_inv (sv_history s') \<and>
    (\<forall>k. \<forall>y \<in> set (mgr_stored (sv_history s') c k).
       vs_rev y \<le> mv_rev (st (sv_etcd s')) \<and> at_rev (st (sv_etcd s')) k (vs_rev y) = Some (vs_Entry y))"
  using hm.serve_honest [OF assms(3,2,1,4,5)] by (simp add: honest_def truthful_def)

end
