(* ===== verification/Startup.thy ===== *)
theory Startup
  imports Config Server_Honest Auth_Theorems
begin

text \<open>
  \<open>cmd/etcd-studio/main.go\<close>: the parts are built in order, the first failure ends the process,
  and the server is handed to the HTTP library. The libraries of the parts are gathered in
  \<open>program\<close>, what a start meets in \<open>start_env\<close>. The files of the process are one
  directory \<open>d\<close>; each part keeps the state of its own file, and \<open>default_data_files\<close> of
  theory \<open>Config\<close> says when these are different files.
\<close>

section \<open>main\<close>

record ('e, 'b, 'v) program =
  pg_registry :: reg_lib
  pg_ucd :: ucd
  pg_storage :: "persistedHistoryStorage json_codec"
  pg_history :: "('e, 'b, 'v) history_ops"
  pg_auth :: auth_lib

record 'e start_env =
  se_getenv :: "string \<Rightarrow> string"
  se_parseDuration :: "string \<Rightarrow> int option"
  se_clustersOpenFails :: bool
  se_mkdirOk :: bool
  se_historyOpenFails :: bool
  se_historyEnv :: 'e
  se_now :: gotime
  se_authOpenFails :: bool
  se_Listen :: "string \<Rightarrow> error option"
  se_authCall :: call_env
  se_tape :: tape

datatype start_error =
    InvalidConfiguration config_error
  | RegistryFailed error
  | HistoryFailed error
  | AuthFailed auth_error
  | ListenFailed error
  | TemporaryAdminFailed auth_error

text \<open>
  The outcome is the exit with status 1, or the server that is served and the password
  that is printed; in both cases with the files and the history storage as they are then.
  There is no client connection yet.
\<close>

definition main ::
    "('e, 'b, 'v) program \<Rightarrow> 'e start_env \<Rightarrow> 'w \<Rightarrow> dir \<Rightarrow> 'v \<Rightarrow>
      (start_error, (reg_state, ('e, 'b, 'v) mgr, 'w) Server \<times> string option) result \<times> dir \<times> 'v" where
  "main P e etcd d v =
    (case Load (se_getenv e) (se_parseDuration e) of
       Inl err \<Rightarrow> (Inl (InvalidConfiguration err), d, v)
     | Inr cfg \<Rightarrow>
         (case NewRegistry (pg_registry P) (se_clustersOpenFails e) (cg_ClustersFile cfg) (cg_DialTimeout cfg) d of
            Inl err \<Rightarrow> (Inl (RegistryFailed err), d, v)
          | Inr clusters \<Rightarrow>
              (case NewHistoryManager (pg_ucd P) (pg_storage P) (pg_history P) (se_historyEnv e) (se_now e) (se_mkdirOk e)
                  (se_historyOpenFails e) (cg_HistoryConfigFile cfg) (cg_HistoryFile cfg) (cg_DialTimeout cfg) zero_input d v of
                 (Inl err, v') \<Rightarrow> (Inl (HistoryFailed err), d, v')
               | (Inr history, v') \<Rightarrow>
                   (case NewManager (pg_auth P) (se_authOpenFails e) (cg_AuthFile cfg) (cg_DialTimeout cfg) d of
                      Inl err \<Rightarrow> (Inl (AuthFailed err), d, v')
                    | Inr authentication \<Rightarrow>
                        (case se_Listen e (cg_ListenAddress cfg) of
                           Some err \<Rightarrow> (Inl (ListenFailed err), d, v')
                         | None \<Rightarrow>
                             (case EnsureTemporaryAdmin (pg_auth P) (se_authCall e) (se_tape e) (authentication, d) of
                                (Inl err, (m, d')) \<Rightarrow> (Inl (TemporaryAdminFailed err), d', v')
                              | (Inr (temporaryPassword, temporaryAdminCreated), (m, d')) \<Rightarrow>
                                  (Inr (NewServer (clusters, d, \<lparr>cw_next = 0, cw_open = Map.empty\<rparr>)
                                          \<lparr>mg_state = (history, d, v'), mg_calls = []\<rparr> [(m, d')] etcd,
                                        if temporaryAdminCreated then Some temporaryPassword else None),
                                   d', v')))))))"

text \<open>
  What runs when the HTTP library has stopped serving after a signal: the deferred calls, the
  storage before the clients. Their errors are only logged. After any other error of the HTTP
  library the process exits without them.
\<close>

definition closeAll ::
    "('e, 'b, 'v) history_ops \<Rightarrow> 'e \<Rightarrow> (nat \<Rightarrow> error option) \<Rightarrow>
      (reg_state, ('e, 'b, 'v) mgr, 'w) Server \<Rightarrow> (reg_state, ('e, 'b, 'v) mgr, 'w) Server" where
  "closeAll H e errs s =
    (let (m, d, v) = mg_state (sv_history s);
         (m', v') = snd (HistoryManager_Close H e (m, v)) in
     s\<lparr>sv_history := (sv_history s)\<lparr>mg_state := (m', d, v')\<rparr>, sv_clusters := snd (Registry_Close errs (sv_clusters s))\<rparr>)"

section \<open>What a start leaves\<close>

lemma load_sessions: "load L f (m, d) = Inr m' \<Longrightarrow> m_sessions m' = m_sessions m \<and> m_filePath m' = m_filePath m \<and>
    (d (m_filePath m) \<noteq> None \<longrightarrow> m_configured m')"
  by (auto simp: load_def split: if_splits option.splits sum.splits)

lemma NewManager_fresh:
  "NewManager L f path timeout d = Inr m \<Longrightarrow> m_sessions m = Map.empty \<and> m_filePath m = path \<and> (d path \<noteq> None \<longrightarrow> m_configured m)"
  by (auto simp: NewManager_def split: if_splits dest!: load_sessions)

lemma bootstrap_fresh:
  assumes "bootstrap L ce input b (m, d) = (Inr u, (m', d'))"
  shows "m_configured m' \<and> m_sessions m' = m_sessions m"
  using assms
  by (auto simp: bootstrap_def Let_def split: if_splits sum.splits prod.splits option.splits dest!: saveLocked_memory)

lemma bootstrap_already: "bootstrap L ce input b (m, d) = (Inl (AuthErr ErrAlreadyConfigured), st') \<Longrightarrow> m_configured m"
  by (auto simp: bootstrap_def normalizeUserFields_def hashPassword_def validateStrongPassword_def saveLocked_def Let_def
      split: if_splits sum.splits prod.splits option.splits)

lemma EnsureTemporaryAdmin_fresh:
  assumes "EnsureTemporaryAdmin L ce t (m, d) = (Inr (pw, created), (m', d'))"
  shows "m_configured m'" "m_sessions m' = m_sessions m" "m_configured m \<Longrightarrow> \<not> created"
  using assms
  by (auto simp: EnsureTemporaryAdmin_def Let_def split: if_splits sum.splits prod.splits
      dest!: bootstrap_fresh bootstrap_already)

lemma main_started:
  assumes "main P e etcd d v = (Inr (s, printed), d', v')"
  shows "\<exists>cfg m m' pw. Load (se_getenv e) (se_parseDuration e) = Inr cfg \<and>
    NewManager (pg_auth P) (se_authOpenFails e) (cg_AuthFile cfg) (cg_DialTimeout cfg) d = Inr m \<and>
    EnsureTemporaryAdmin (pg_auth P) (se_authCall e) (se_tape e) (m, d) = (Inr (pw, printed \<noteq> None), (m', d')) \<and>
    (printed \<noteq> None \<longrightarrow> printed = Some pw) \<and> sv_auth s = Some (m', d')"
  using assms
  by (auto simp: main_def NewServer_def split: sum.splits option.splits prod.splits if_splits)

text \<open>A start over an existing file of accounts prints no password.\<close>

lemma main_again:
  assumes "main P e etcd d v = (Inr (s, printed), d', v')" and "Load (se_getenv e) (se_parseDuration e) = Inr cfg"
    and "d (cg_AuthFile cfg) \<noteq> None"
  shows "printed = None"
proof -
  obtain m m' pw where "NewManager (pg_auth P) (se_authOpenFails e) (cg_AuthFile cfg) (cg_DialTimeout cfg) d = Inr m"
      "EnsureTemporaryAdmin (pg_auth P) (se_authCall e) (se_tape e) (m, d) = (Inr (pw, printed \<noteq> None), (m', d'))"
    using main_started [OF assms(1)] assms(2) by fastforce
  then show ?thesis
    using NewManager_fresh EnsureTemporaryAdmin_fresh(3) assms(3) by blast
qed

section \<open>Before the first login\<close>

definition nobody :: "auth_state \<Rightarrow> bool" where
  "nobody st \<longleftrightarrow> m_configured (fst st) \<and> m_sessions (fst st) = Map.empty"

lemma nobody_session: "nobody st \<Longrightarrow> requestPrincipal D e None r st = (None, st)"
  by (cases st) (auto simp: nobody_def requestPrincipal_def Session_def DeleteSession_def split: option.split)

lemma nobody_refused:
  assumes "sv_auth s = Some st" and "nobody st" and "routeOf r \<noteq> Some AuthLogin"
  shows "snd (Handler D e r s) = s"
    and "HasPrefix (rq_Path r) ''/api/'' \<Longrightarrow> \<not> publicAuthRoute r \<Longrightarrow> fst (Handler D e r s) = writeError 401 ''authentication_required''"
proof -
  have conf: "m_configured (fst st)" and same: "s\<lparr>sv_auth := Some st\<rparr> = s"
    using assms(1,2) by (simp_all add: nobody_def)
  have "snd (serveMux D e None r s) = s" if "\<not> HasPrefix (rq_Path r) ''/api/'' \<or> publicAuthRoute r"
  proof (cases "routeOf r")
    case (Some rt)
    then have "rt = AuthStatus" using that api_path [OF Some] public_routes [OF Some] assms(3) by auto
    then show ?thesis
      using Some assms(1) by (simp add: serveMux_def handleAuthStatus_def nobody_session [OF assms(2)] same)
  qed (simp add: serveMux_def)
  then show "snd (Handler D e r s) = s"
    using assms(1) conf by (simp add: nobody_session [OF assms(2)] Handler_def requireAuthentication_def Manager_Status_def same)
  show "HasPrefix (rq_Path r) ''/api/'' \<Longrightarrow> \<not> publicAuthRoute r \<Longrightarrow> fst (Handler D e r s) = writeError 401 ''authentication_required''"
    using assms(1) conf by (simp add: nobody_session [OF assms(2)] Handler_def requireAuthentication_def Manager_Status_def)
qed

lemma main_nobody:
  assumes "main P e etcd d v = (Inr (s, printed), d', v')"
  obtains st where "sv_auth s = Some st" "nobody st"
proof -
  obtain cfg :: Config and m m' pw where m: "NewManager (pg_auth P) (se_authOpenFails e) (cg_AuthFile cfg) (cg_DialTimeout cfg) d = Inr m"
      "EnsureTemporaryAdmin (pg_auth P) (se_authCall e) (se_tape e) (m, d) = (Inr (pw, printed \<noteq> None), (m', d'))"
      "sv_auth s = Some (m', d')"
    using main_started [OF assms] by fastforce
  then have "nobody (m', d')"
    using NewManager_fresh [OF m(1)] EnsureTemporaryAdmin_fresh [OF m(2)] by (simp add: nobody_def)
  with m(3) that show thesis by blast
qed

text \<open>
  C14. A server that has been started answers every request to the API, of any number in any order, with
  401 until somebody logs in, the status of the login apart, and nothing changes meanwhile: there
  is no start without accounts to check against.
\<close>

theorem started_server_needs_login:
  assumes "main P e0 etcd d v = (Inr (s, printed), d', v')"
    and "list_all (\<lambda>(e, r). routeOf r \<noteq> Some AuthLogin) rs" and "serve D rs s = (resps, s')"
  shows "s' = s \<and> list_all2 (\<lambda>(e, r) resp. HasPrefix (rq_Path r) ''/api/'' \<and> \<not> publicAuthRoute r \<longrightarrow>
    resp = writeError 401 ''authentication_required'') rs resps"
proof -
  obtain st where st: "sv_auth s = Some st" "nobody st" by (rule main_nobody [OF assms(1)])
  show ?thesis
    using assms(2,3)
  proof (induction rs arbitrary: resps)
    case (Cons x rs)
    obtain e r where x: "x = (e, r)" by (cases x)
    with Cons.prems(1) have r: "routeOf r \<noteq> Some AuthLogin" by simp
    obtain resp where step: "Handler D e r s = (resp, s)"
      using nobody_refused(1) [OF st r, of D e] by (metis prod.collapse)
    moreover obtain rest where "serve D rs s = (rest, s')" "resps = resp # rest"
      using Cons.prems(2) step by (auto simp: x split: prod.splits)
    ultimately show ?case
      using Cons nobody_refused(2) [OF st r, of D e] by (auto simp: x)
  qed simp
qed

section \<open>The first login\<close>

lemma login_public:
  assumes "routeOf r = Some AuthLogin"
  shows "publicAuthRoute r"
proof -
  obtain meth ps where "(meth, ps, AuthLogin) \<in> set routes" "matchRoute r (meth, ps, AuthLogin)"
    by (rule routes_distinct [OF assms])
  then show ?thesis
    by (auto simp: routes_def matchRoute_def matchSegments_Some matchSegments_Nil matchSegments_None publicAuthRoute_def rq_Path_def)
qed

lemma login_session:
  assumes "routeOf r = Some AuthLogin" and "sv_auth s = Some st"
    and "decodeJSON (dp_login D) (bindPath AuthLogin r) = Inr \<lparr>lr_Provider = ''local'', lr_Username = name, lr_Password = pw\<rparr>"
    and "AuthenticateLocal (dp_auth D) (fst st) name pw = Inr p" and "rc_random e = Some bs"
  shows "\<exists>resp s' m'. Handler D e r s = (resp, s') \<and> rs_Status resp = 200 \<and> sv_auth s' = Some (m', snd st) \<and>
    map_option fst (rs_SetCookie resp) = Some (hexEncode bs) \<and> m_config m' = m_config (fst st) \<and> m_configured m' = m_configured (fst st) \<and>
    m_filePath m' = m_filePath (fst st) \<and> m_sessions m' (sessionKey (dp_auth D) (hexEncode bs)) = Some \<lparr>s_Principal = p, s_ExpiresAt = rc_clock e 1 + SessionDuration\<rparr>"
proof -
  have "ToLower U (TrimSpace ''local'') = ProviderLocal" for U
    by (simp add: ToLower_lower ProviderLocal_def visible_def byte_def)
  then have "handleAuthLogin D e (bindPath AuthLogin r) s =
     (case startSession D e (bindPath AuthLogin r) p st of
        (Inl _, st') \<Rightarrow> (writeError 500 ''session_error'', s\<lparr>sv_auth := Some st'\<rparr>)
      | (Inr cookie, st') \<Rightarrow>
          ((writeJSON 200 (PrincipalReply p))\<lparr>rs_SetCookie := Some cookie\<rparr>,
           recordAuditForPrincipal D (bindPath AuthLogin r) p (event ''auth.login'' ''session'' [] [] (p_Username p)
             (providerLabel (p_Provider p) @ zhLoginOk)) (s\<lparr>sv_auth := Some st'\<rparr>)))"
    using assms(2-4) by (simp add: handleAuthLogin_def)
  moreover have "Handler D e r s = handleAuthLogin D e (bindPath AuthLogin r) s"
    using login_public [OF assms(1)] assms(1,2) by (simp add: Handler_def requireAuthentication_def serveMux_def)
  ultimately show ?thesis
    using assms(5) by (simp add: startSession_def CreateSession_def Let_def pruneSessionsLocked_def)
qed

lemma first_admin_config:
  assumes "EnsureTemporaryAdmin L ce t (m, d) = (Inr (pw, True), (m', d'))"
  obtains u where "cf_Users (m_config m') = [u]" "u_Username u = ''admin''" "u_Active u" "u_Role u = RoleAdmin" "u_MustChangePassword u"
    "cf_Mode (m_config m') = ModeLocal"
proof -
  obtain u where boot: "bootstrap L ce \<lparr>in_Username = ''admin'', in_DisplayName = systemAdministrator, in_Password = pw,
      in_Role = RoleAdmin, in_Active = None, in_ClusterIDs = []\<rparr> True (m, d) = (Inr u, (m', d'))"
    using assms by (auto simp: EnsureTemporaryAdmin_def Let_def split: if_splits sum.splits prod.splits)
  show thesis
    using boot systemAdministrator_ok [of "al_ucd L"]
    by (auto simp: bootstrap_def Let_def User.defs persistedUser.defs split: if_splits sum.splits prod.splits option.splits
        dest!: saveLocked_memory intro!: that)
qed

lemma saved_target:
  assumes "saveLocked L io (m, d) = (err, (m', d'))" and "fresh_temp io (m_filePath m) d"
    and "err = None \<or> err = Some (AuthSaveFailed ChmodTarget)"
  shows "d' (m_filePath m) \<noteq> None"
  using assms by (auto simp: saveLocked_def Let_def replace_file_cases split: option.splits prod.splits if_splits)

lemma bootstrap_saves:
  assumes "bootstrap L ce input b (m, d) = (r, (m', d'))" and "r = Inr u \<or> r = Inl (AuthSaveFailed ChmodTarget)"
  shows "\<exists>c err m1. saveLocked L (ce_io ce) (m\<lparr>m_config := c\<rparr>, d) = (err, (m1, d')) \<and>
    (err = None \<or> err = Some (AuthSaveFailed ChmodTarget))"
proof -
  have fields: "normalizeUserFields U a c r' \<noteq> Inl (AuthSaveFailed st)" for U a c r' st
    by (auto simp: normalizeUserFields_def Let_def)
  have hash: "hashPassword U g p \<noteq> Inl (AuthSaveFailed st)" for U g p st
    by (auto simp: hashPassword_def validateStrongPassword_def split: option.splits)
  show ?thesis
    using assms fields hash
    by (fastforce simp: bootstrap_def Let_def split: if_splits sum.splits prod.splits option.splits)
qed

lemma written_config:
  assumes "EnsureTemporaryAdmin L ce t (m, d) = (r, (m', d'))" and "fresh_temp (ce_io ce) (m_filePath m) d"
    and "r = Inr (pw, True) \<or> r = Inl (AuthSaveFailed ChmodTarget)"
  shows "d' (m_filePath m) \<noteq> None"
proof -
  have "generateTemporaryPassword n t \<noteq> Inl (AuthSaveFailed ChmodTarget)" for n
    by (auto simp: generateTemporaryPassword_def split: option.splits prod.splits if_splits)
  then obtain input r' u where "bootstrap L ce input True (m, d) = (r', (m', d'))" "r' = Inr u \<or> r' = Inl (AuthSaveFailed ChmodTarget)"
    using assms(1,3)
    by (auto simp: EnsureTemporaryAdmin_def Let_def split: if_splits sum.splits prod.splits)
  then obtain c err m1 where "saveLocked L (ce_io ce) (m\<lparr>m_config := c\<rparr>, d) = (err, (m1, d'))"
      "err = None \<or> err = Some (AuthSaveFailed ChmodTarget)"
    using bootstrap_saves by metis
  from saved_target [OF this(1) _ this(2)] assms(2) show ?thesis by simp
qed

lemma hexEncode_visible: "visible (hexEncode bs)"
proof -
  have "\<forall>n \<in> set [0 ..< 16]. 0x20 < byte (hexDigit n) \<and> byte (hexDigit n) < 0x80" by code_simp
  then have digit: "0x20 < byte (hexDigit n) \<and> byte (hexDigit n) < 0x80" if "n < 16" for n
    using that by simp
  have "byte c div 16 < 16" for c using byte_less [of c] by (simp add: less_mult_imp_div_less)
  with digit show ?thesis by (auto simp: visible_def hexEncode_def)
qed

text \<open>A session of the temporary administrator is good for the change of the password only.\<close>

lemma temporary_session:
  assumes "cf_Users (m_config m) = [u]" "u_Username u = ''admin''" "u_Active u" "u_Role u = RoleAdmin" "u_MustChangePassword u"
    and "cf_Mode (m_config m) = ModeLocal" "m_configured m"
    and "m_sessions m (sessionKey L token) = Some \<lparr>s_Principal = p, s_ExpiresAt = t\<rparr>"
    and "p_Provider p = ProviderLocal" "p_Username p = ''admin''"
  shows "\<exists>q. (\<forall>now < t. Session L now token m = (Some q, m)) \<and> IsAdmin q \<and> p_MustChangePassword q \<and>
    p_Provider q = ProviderLocal \<and> p_Username q = ''admin''"
proof -
  have "TrimSpace ''admin'' = ''admin''" by (simp add: visible_def byte_def)
  then have "findUserIndex (al_ucd L) [u] ''admin'' = Some 0"
    using assms(2) by simp
  with assms show ?thesis
    by (intro exI [of _ "p\<lparr>p_DisplayName := u_DisplayName u, p_Role := RoleAdmin, p_ClusterIDs := u_ClusterIDs u,
          p_MustChangePassword := True\<rparr>"]) (simp add: Session_def Let_def IsAdmin_def)
qed

lemma must_change_refused:
  assumes "sv_auth s = Some (m, d)" "m_configured m" "rq_Cookie r = Some token" "TrimSpace token \<noteq> []"
    and "Session (dp_auth D) (rc_clock e 0) token m = (Some q, m)" "p_MustChangePassword q"
    and "routeOf r = Some rt" "rt \<notin> {AuthStatus, AuthLogin, AuthChangePassword, AuthLogout}"
  shows "Handler D e r s = (writeError 403 ''password_change_required'', s)"
proof -
  have "\<not> publicAuthRoute r" "\<not> passwordChangeAllowedRoute r" "HasPrefix (rq_Path r) ''/api/''"
    using public_routes [OF assms(7)] password_routes [OF assms(7)] api_path [OF assms(7)] assms(8) by auto
  moreover have "s\<lparr>sv_auth := Some (m, d)\<rparr> = s" using assms(1) by simp
  ultimately show ?thesis
    using assms(1-6) by (simp add: Handler_def requireAuthentication_def Manager_Status_def requestPrincipal_def)
qed

lemma first_login_state:
  assumes "EnsureTemporaryAdmin (dp_auth D) ce t (m, d) = (Inr (pw, True), (m', d'))" and "bcrypt_law (dp_auth D)"
    and "sv_auth s = Some (m', d')" and "routeOf r = Some AuthLogin" and "rc_random e = Some bs" and "bs \<noteq> []"
    and "decodeJSON (dp_login D) (bindPath AuthLogin r) = Inr \<lparr>lr_Provider = ''local'', lr_Username = ''admin'', lr_Password = pw\<rparr>"
  obtains resp s' m1 q where "Handler D e r s = (resp, s')" "rs_Status resp = 200" "map_option fst (rs_SetCookie resp) = Some (hexEncode bs)"
    "sv_auth s' = Some (m1, d')" "m_configured m1" "m_config m1 = m_config m'" "m_filePath m1 = m_filePath m'"
    "\<And>now. now < rc_clock e 1 + SessionDuration \<Longrightarrow> Session (dp_auth D) now (hexEncode bs) m1 = (Some q, m1)"
    "IsAdmin q" "p_MustChangePassword q" "p_Provider q = ProviderLocal" "p_Username q = ''admin''"
    "TrimSpace (hexEncode bs) \<noteq> []"
proof -
  obtain p where p: "AuthenticateLocal (dp_auth D) m' ''admin'' pw = Inr p" "IsAdmin p" "p_MustChangePassword p"
    using first_start_admin_can_log_in [OF assms(1,2)] by blast
  obtain u where u: "cf_Users (m_config m') = [u]" "u_Username u = ''admin''" "u_Active u" "u_Role u = RoleAdmin" "u_MustChangePassword u"
    "cf_Mode (m_config m') = ModeLocal"
    by (rule first_admin_config [OF assms(1)])
  have prin: "p_Provider p = ProviderLocal" "p_Username p = ''admin''"
    using p(1) u by (auto simp: AuthenticateLocal_def Let_def split: if_splits option.splits)
  obtain resp s' m1 where login: "Handler D e r s = (resp, s')" "rs_Status resp = 200" "sv_auth s' = Some (m1, d')"
      "map_option fst (rs_SetCookie resp) = Some (hexEncode bs)" "m_config m1 = m_config m'" "m_configured m1 = m_configured m'"
      "m_filePath m1 = m_filePath m'"
      "m_sessions m1 (sessionKey (dp_auth D) (hexEncode bs)) = Some \<lparr>s_Principal = p, s_ExpiresAt = rc_clock e 1 + SessionDuration\<rparr>"
    using login_session [OF assms(4,3,7) _ assms(5), of p] p(1) by auto
  have conf: "m_configured m1" using EnsureTemporaryAdmin_fresh(1) [OF assms(1)] login(6) by simp
  obtain q where "\<And>now. now < rc_clock e 1 + SessionDuration \<Longrightarrow> Session (dp_auth D) now (hexEncode bs) m1 = (Some q, m1)"
      "IsAdmin q" "p_MustChangePassword q" "p_Provider q = ProviderLocal" "p_Username q = ''admin''"
    using temporary_session [OF _ u(2-5) _ conf login(8) prin] u(1,6) login(5) by auto
  moreover have "TrimSpace (hexEncode bs) \<noteq> []"
    using assms(6) hexEncode_visible [of bs] by (cases bs) (simp_all add: hexEncode_def)
  ultimately show thesis using that login conf by blast
qed

lemma first_login:
  assumes "EnsureTemporaryAdmin (dp_auth D) ce t (m, d) = (Inr (pw, True), (m', d'))" and "bcrypt_law (dp_auth D)"
    and "sv_auth s = Some (m', d')" and "routeOf r = Some AuthLogin" and "rc_random e = Some bs" and "bs \<noteq> []"
    and "decodeJSON (dp_login D) (bindPath AuthLogin r) = Inr \<lparr>lr_Provider = ''local'', lr_Username = ''admin'', lr_Password = pw\<rparr>"
  shows "\<exists>resp s'. Handler D e r s = (resp, s') \<and> rs_Status resp = 200 \<and> map_option fst (rs_SetCookie resp) = Some (hexEncode bs) \<and>
    (\<forall>e2 r2 rt. rq_Cookie r2 = Some (hexEncode bs) \<and> rc_clock e2 0 < rc_clock e 1 + SessionDuration \<and>
      routeOf r2 = Some rt \<and> rt \<notin> {AuthStatus, AuthLogin, AuthChangePassword, AuthLogout} \<longrightarrow>
      Handler D e2 r2 s' = (writeError 403 ''password_change_required'', s'))"
proof -
  obtain resp s' m1 q where login: "Handler D e r s = (resp, s')" "rs_Status resp = 200"
      "map_option fst (rs_SetCookie resp) = Some (hexEncode bs)" "sv_auth s' = Some (m1, d')" "m_configured m1"
      "\<And>now. now < rc_clock e 1 + SessionDuration \<Longrightarrow> Session (dp_auth D) now (hexEncode bs) m1 = (Some q, m1)"
      "p_MustChangePassword q" "TrimSpace (hexEncode bs) \<noteq> []"
    by (rule first_login_state [OF assms]) blast
  have "Handler D e2 r2 s' = (writeError 403 ''password_change_required'', s')"
    if "rq_Cookie r2 = Some (hexEncode bs)" "rc_clock e2 0 < rc_clock e 1 + SessionDuration" "routeOf r2 = Some rt"
      "rt \<notin> {AuthStatus, AuthLogin, AuthChangePassword, AuthLogout}" for e2 r2 rt
    using must_change_refused [OF login(4,5) that(1) login(8) login(6) [OF that(2)] login(7) that(3,4)] .
  with login(1-3) show ?thesis by blast
qed

text \<open>
  When a start has printed a temporary password, the login of \<open>admin\<close> with it is answered with the
  cookie of a session; with that cookie every request but the change of the password, the logout
  and the status is refused until the password is changed; and no later start over the same files
  prints a password again.
\<close>

theorem first_start_login:
  assumes "main P e0 etcd d v = (Inr (s, Some pw), d', v')" and "bcrypt_law (pg_auth P)" and "dp_auth D = pg_auth P"
    and "Load (se_getenv e0) (se_parseDuration e0) = Inr cfg" and "fresh_temp (ce_io (se_authCall e0)) (cg_AuthFile cfg) d"
    and "routeOf r = Some AuthLogin" and "rc_random e = Some bs" and "bs \<noteq> []"
    and "decodeJSON (dp_login D) (bindPath AuthLogin r) = Inr \<lparr>lr_Provider = ''local'', lr_Username = ''admin'', lr_Password = pw\<rparr>"
  shows "(\<exists>resp s'. Handler D e r s = (resp, s') \<and> rs_Status resp = 200 \<and> map_option fst (rs_SetCookie resp) = Some (hexEncode bs) \<and>
      (\<forall>e2 r2 rt. rq_Cookie r2 = Some (hexEncode bs) \<and> rc_clock e2 0 < rc_clock e 1 + SessionDuration \<and>
        routeOf r2 = Some rt \<and> rt \<notin> {AuthStatus, AuthLogin, AuthChangePassword, AuthLogout} \<longrightarrow>
        Handler D e2 r2 s' = (writeError 403 ''password_change_required'', s'))) \<and>
    (\<forall>e2 etcd2 d2 v2 s2 printed rest. main P e2 etcd2 d2 v2 = (Inr (s2, printed), rest) \<and>
      Load (se_getenv e2) (se_parseDuration e2) = Inr cfg \<and> d2 (cg_AuthFile cfg) = d' (cg_AuthFile cfg) \<longrightarrow> printed = None)"
proof -
  obtain m m' where m: "NewManager (pg_auth P) (se_authOpenFails e0) (cg_AuthFile cfg) (cg_DialTimeout cfg) d = Inr m"
      and admin: "EnsureTemporaryAdmin (pg_auth P) (se_authCall e0) (se_tape e0) (m, d) = (Inr (pw, True), (m', d'))"
      and s: "sv_auth s = Some (m', d')"
    using main_started [OF assms(1)] assms(4) by auto
  have "d' (cg_AuthFile cfg) \<noteq> None"
    using written_config [OF admin] assms(5) NewManager_fresh [OF m] by simp
  then have "printed = None" if "main P e2 etcd2 d2 v2 = (Inr (s2, printed), rest)"
      "Load (se_getenv e2) (se_parseDuration e2) = Inr cfg" "d2 (cg_AuthFile cfg) = d' (cg_AuthFile cfg)"
    for e2 etcd2 d2 v2 s2 printed rest
    using that main_again [of P e2 etcd2 d2 v2 s2 printed "fst rest" "snd rest"] by simp
  then have "\<forall>e2 etcd2 d2 v2 s2 printed rest. main P e2 etcd2 d2 v2 = (Inr (s2, printed), rest) \<and>
      Load (se_getenv e2) (se_parseDuration e2) = Inr cfg \<and> d2 (cg_AuthFile cfg) = d' (cg_AuthFile cfg) \<longrightarrow> printed = None"
    by (intro allI impI) (elim conjE)
  with first_login [OF admin [folded assms(3)] _ s assms(6-9)] assms(2,3) show ?thesis by simp
qed

text \<open>
  C39. When the last step of the first save fails, after the new file is in place, the process exits
  without printing the password; and no later start over these files prints one, so that
  nobody can log in.
\<close>

theorem failed_first_start_locks_out:
  assumes "main P e0 etcd d v = (Inl (TemporaryAdminFailed (AuthSaveFailed ChmodTarget)), d', v')"
    and "Load (se_getenv e0) (se_parseDuration e0) = Inr cfg" and "fresh_temp (ce_io (se_authCall e0)) (cg_AuthFile cfg) d"
    and "main P e2 etcd' d2 v2 = (Inr (s2, printed), d3, v3)" and "Load (se_getenv e2) (se_parseDuration e2) = Inr cfg"
    and "d2 (cg_AuthFile cfg) = d' (cg_AuthFile cfg)"
  shows "printed = None"
proof -
  obtain m m' where m: "NewManager (pg_auth P) (se_authOpenFails e0) (cg_AuthFile cfg) (cg_DialTimeout cfg) d = Inr m"
      and failed: "EnsureTemporaryAdmin (pg_auth P) (se_authCall e0) (se_tape e0) (m, d) = (Inl (AuthSaveFailed ChmodTarget), (m', d'))"
    using assms(1,2) by (auto simp: main_def split: sum.splits option.splits prod.splits if_splits)
  have "d' (cg_AuthFile cfg) \<noteq> None"
    using written_config [OF failed] assms(3) NewManager_fresh [OF m] by simp
  then show ?thesis using main_again [OF assms(4,5)] assms(6) by simp
qed

end
