(* ===== verification/Server_Replies.thy ===== *)
theory Server_Replies
  imports Server_Access
begin

text \<open>
  What each route of the API may answer: the body of a success, the status that goes with it,
  the routes that set a cookie, and the bodies that only an administrator may read. The
  handlers of \<open>internal/app\<close> are checked against this table, as a program against its types.
\<close>

section \<open>The table\<close>

datatype body_type =
    ErrorBody | FilesBody | MethodBody | NoBody | FlagBody string | ConnectedBody | RevisionBody | DeletedBody | RollbackBody
  | EntryBody | KeysBody | PreviewBody | VersionsBody | SummariesBody | ClustersBody | ClusterBody | MemberBody | StorageBody
  | AuditBody | AuthStatusBody | PrincipalBody | SettingsBody | UsersBody | UserBody

fun typeOf :: "reply \<Rightarrow> body_type" where
  "typeOf (ErrorReply _) = ErrorBody"
| "typeOf FilesReply = FilesBody"
| "typeOf MethodNotAllowed = MethodBody"
| "typeOf PanicReply = NoBody"
| "typeOf (FlagReply name _) = FlagBody name"
| "typeOf (ConnectedReply _) = ConnectedBody"
| "typeOf (RevisionReply _) = RevisionBody"
| "typeOf (DeletedReply _) = DeletedBody"
| "typeOf (RollbackReply _ _ _) = RollbackBody"
| "typeOf (EntryReply _) = EntryBody"
| "typeOf (KeysReply _ _) = KeysBody"
| "typeOf (PreviewReply _ _ _ _) = PreviewBody"
| "typeOf (VersionsReply _ _ _) = VersionsBody"
| "typeOf (ClusterSummariesReply _) = SummariesBody"
| "typeOf (ClustersReply _) = ClustersBody"
| "typeOf (ClusterReply _) = ClusterBody"
| "typeOf (MemberReply _) = MemberBody"
| "typeOf (StorageReply _) = StorageBody"
| "typeOf (AuditReply _ _) = AuditBody"
| "typeOf (AuthStatusReply _) = AuthStatusBody"
| "typeOf (PrincipalReply _) = PrincipalBody"
| "typeOf (SettingsReply _) = SettingsBody"
| "typeOf (UsersReply _) = UsersBody"
| "typeOf (UserReply _) = UserBody"

fun answers :: "route \<Rightarrow> (nat \<times> body_type) list" where
  "answers AuthStatus = [(200, AuthStatusBody)]"
| "answers AuthLogin = [(200, PrincipalBody)]"
| "answers AuthLogout = [(200, FlagBody ''logged_out'')]"
| "answers AuthChangePassword = [(200, PrincipalBody)]"
| "answers AuthSettings = [(200, SettingsBody)]"
| "answers AuthUpdateSettings = [(200, SettingsBody)]"
| "answers LdapTest = [(200, ConnectedBody)]"
| "answers UsersList = [(200, UsersBody)]"
| "answers UserCreate = [(201, UserBody)]"
| "answers UserUpdate = [(200, UserBody)]"
| "answers UserDelete = [(200, FlagBody ''deleted'')]"
| "answers ClustersList = [(200, ClustersBody), (200, SummariesBody)]"
| "answers ClusterCreate = [(201, ClusterBody)]"
| "answers ClusterUpdate = [(200, ClusterBody)]"
| "answers ClusterDelete = [(200, FlagBody ''deleted'')]"
| "answers ClusterTest = [(200, ConnectedBody)]"
| "answers StorageStatus = [(200, StorageBody), (200, FlagBody ''configured'')]"
| "answers StorageTest = [(200, ConnectedBody)]"
| "answers StorageConfigure = [(200, StorageBody)]"
| "answers StorageRetention = [(200, StorageBody)]"
| "answers AuditList = [(200, AuditBody)]"
| "answers StatusGet = [(200, ConnectedBody), (200, MemberBody)]"
| "answers KeysList = [(200, KeysBody)]"
| "answers KeyGet = [(200, EntryBody)]"
| "answers KeyPut = [(200, RevisionBody)]"
| "answers KeyDelete = [(200, DeletedBody)]"
| "answers KeyVersions = [(200, VersionsBody)]"
| "answers KeyPreview = [(200, PreviewBody)]"
| "answers KeyRollback = [(200, RollbackBody)]"

definition admin_bodies :: "body_type list" where
  "admin_bodies = [ClustersBody, ClusterBody, StorageBody, SettingsBody, UsersBody, UserBody]"

definition failure :: "response \<Rightarrow> bool" where
  "failure resp \<longleftrightarrow> typeOf (rs_Reply resp) = ErrorBody \<and> rs_Reply resp \<noteq> ErrorReply [] \<and>
     400 \<le> rs_Status resp \<and> rs_Status resp \<le> 504 \<and> rs_SetCookie resp = None"

definition success :: "Principal option \<Rightarrow> route \<Rightarrow> response \<Rightarrow> bool" where
  "success ctx rt resp \<longleftrightarrow> (rs_Status resp, typeOf (rs_Reply resp)) \<in> set (answers rt) \<and>
     (rs_SetCookie resp \<noteq> None \<longleftrightarrow> rt \<in> {AuthLogin, AuthLogout}) \<and>
     (typeOf (rs_Reply resp) \<in> set admin_bodies \<longrightarrow> (case ctx of None \<Rightarrow> False | Some p \<Rightarrow> IsAdmin p))"

definition asset :: "response \<Rightarrow> bool" where
  "asset resp \<longleftrightarrow> rs_Reply resp = FilesReply \<or> resp = writeJSON 405 MethodNotAllowed"

fun well_typed :: "Principal option \<Rightarrow> route option \<Rightarrow> response \<Rightarrow> bool" where
  "well_typed ctx None resp = (failure resp \<or> asset resp)"
| "well_typed ctx (Some rt) resp = (failure resp \<or> success ctx rt resp)"

section \<open>The handlers\<close>

lemma failure_writeError [simp]: "failure (writeError status code) \<longleftrightarrow> code \<noteq> [] \<and> 400 \<le> status \<and> status \<le> 504"
  by (auto simp: failure_def writeError_def writeJSON_def)

lemma failure_errors [simp]:
  "failure (writeStoreError err)" "failure (writeClusterResolveError err)" "failure (writeClusterMutationError err)"
  "failure (configureError err)" "failure (retentionError err)" "failure (writeAuthError aerr)" "failure (loginError aerr)"
  "failure (changePasswordError aerr)"
  by (simp_all add: writeStoreError_def writeClusterResolveError_def writeClusterMutationError_def configureError_def
      retentionError_def writeAuthError_def loginError_def changePasswordError_def)

lemma success_plain [simp]:
  "success ctx rt (writeJSON status b) \<longleftrightarrow> (status, typeOf b) \<in> set (answers rt) \<and> rt \<notin> {AuthLogin, AuthLogout} \<and>
     (typeOf b \<in> set admin_bodies \<longrightarrow> (case ctx of None \<Rightarrow> False | Some p \<Rightarrow> IsAdmin p))"
  by (auto simp: success_def writeJSON_def)

lemma success_cookie [simp]:
  "success ctx rt ((writeJSON status b)\<lparr>rs_SetCookie := Some c\<rparr>) \<longleftrightarrow> (status, typeOf b) \<in> set (answers rt) \<and>
     rt \<in> {AuthLogin, AuthLogout} \<and> (typeOf b \<in> set admin_bodies \<longrightarrow> (case ctx of None \<Rightarrow> False | Some p \<Rightarrow> IsAdmin p))"
  by (auto simp: success_def writeJSON_def)

lemma admin_checked:
  "requireAdmin s ctx = Inl resp \<Longrightarrow> failure resp"
  "requireAdmin s ctx = Inr p \<Longrightarrow> sv_auth s \<noteq> None \<Longrightarrow> \<exists>p. ctx = Some p \<and> IsAdmin p"
  "requestIsAdmin s ctx \<Longrightarrow> sv_auth s \<noteq> None \<Longrightarrow> \<exists>p. ctx = Some p \<and> IsAdmin p"
  by (auto simp: requireAdmin_def requestIsAdmin_def split: if_splits option.splits)

lemma access_checked:
  "requireClusterAccess s ctx c = Some resp \<Longrightarrow> failure resp"
  "clusterKVFromRequest D ctx r s = (Inl resp, s') \<Longrightarrow> failure resp"
  "auditScope s ctx c = Inl resp \<Longrightarrow> failure resp"
  by (auto simp: requireClusterAccess_def clusterKVFromRequest_def auditScope_def Let_def split: if_splits option.splits sum.splits prod.splits)

lemmas type_rules = Let_def admin_bodies_def

lemma key_handlers_typed:
  "handleStatus D ctx r s = (resp, s') \<Longrightarrow> well_typed ctx (Some StatusGet) resp"
  "handleListKeys D ctx r s = (resp, s') \<Longrightarrow> well_typed ctx (Some KeysList) resp"
  "handleGetKey D ctx r s = (resp, s') \<Longrightarrow> well_typed ctx (Some KeyGet) resp"
  "handlePutKey D e ctx r s = (resp, s') \<Longrightarrow> well_typed ctx (Some KeyPut) resp"
  "handleDeleteKey D e ctx r s = (resp, s') \<Longrightarrow> well_typed ctx (Some KeyDelete) resp"
  "handleRollbackPreview D ctx r s = (resp, s') \<Longrightarrow> well_typed ctx (Some KeyPreview) resp"
  "handleRollbackVersions D ctx r s = (resp, s') \<Longrightarrow> well_typed ctx (Some KeyVersions) resp"
  "handleRollbackKey D e ctx r s = (resp, s') \<Longrightarrow> well_typed ctx (Some KeyRollback) resp"
  "handleListAudit D ctx r s = (resp, s') \<Longrightarrow> well_typed ctx (Some AuditList) resp"
  by (auto simp: handleStatus_def handleListKeys_def handleGetKey_def handlePutKey_def handleDeleteKey_def handleRollbackPreview_def
      handleRollbackVersions_def handleRollbackKey_def handleListAudit_def type_rules dest!: access_checked
      split: sum.splits prod.splits option.splits if_splits)

lemma admin_handlers_typed:
  assumes "sv_auth s \<noteq> None"
  shows "handleListClusters D ctx r s = (resp, s') \<Longrightarrow> well_typed ctx (Some ClustersList) resp"
    "handleCreateCluster D ctx r s = (resp, s') \<Longrightarrow> well_typed ctx (Some ClusterCreate) resp"
    "handleUpdateCluster D ctx r s = (resp, s') \<Longrightarrow> well_typed ctx (Some ClusterUpdate) resp"
    "handleDeleteCluster D e ctx r s = (resp, s') \<Longrightarrow> well_typed ctx (Some ClusterDelete) resp"
    "handleTestCluster D ctx r s = (resp, s') \<Longrightarrow> well_typed ctx (Some ClusterTest) resp"
    "handleHistoryStorageStatus D ctx r s = (resp, s') \<Longrightarrow> well_typed ctx (Some StorageStatus) resp"
    "handleTestHistoryStorage D ctx r s = (resp, s') \<Longrightarrow> well_typed ctx (Some StorageTest) resp"
    "handleConfigureHistoryStorage D ctx r s = (resp, s') \<Longrightarrow> well_typed ctx (Some StorageConfigure) resp"
    "handleUpdateHistoryRetention D ctx r s = (resp, s') \<Longrightarrow> well_typed ctx (Some StorageRetention) resp"
  using assms
  by (auto simp: handleListClusters_def handleCreateCluster_def handleUpdateCluster_def handleDeleteCluster_def handleTestCluster_def
      handleHistoryStorageStatus_def handleTestHistoryStorage_def handleConfigureHistoryStorage_def handleUpdateHistoryRetention_def
      type_rules simp del: not_None_eq dest!: admin_checked(1) dest: admin_checked(2,3)
      split: sum.splits prod.splits option.splits if_splits)

lemma auth_handlers_typed:
  assumes "sv_auth s \<noteq> None"
  shows "handleAuthStatus D e ctx r s = (resp, s') \<Longrightarrow> well_typed ctx (Some AuthStatus) resp"
    "handleAuthLogin D e r s = (resp, s') \<Longrightarrow> well_typed ctx (Some AuthLogin) resp"
    "handleAuthLogout D ctx r s = (resp, s') \<Longrightarrow> well_typed ctx (Some AuthLogout) resp"
    "handleChangePassword D e ctx r s = (resp, s') \<Longrightarrow> well_typed ctx (Some AuthChangePassword) resp"
    "handleAuthSettings D ctx r s = (resp, s') \<Longrightarrow> well_typed ctx (Some AuthSettings) resp"
    "handleUpdateAuthSettings D e ctx r s = (resp, s') \<Longrightarrow> well_typed ctx (Some AuthUpdateSettings) resp"
    "handleTestLDAP D ctx r s = (resp, s') \<Longrightarrow> well_typed ctx (Some LdapTest) resp"
    "handleListUsers D ctx r s = (resp, s') \<Longrightarrow> well_typed ctx (Some UsersList) resp"
    "handleCreateUser D e ctx r s = (resp, s') \<Longrightarrow> well_typed ctx (Some UserCreate) resp"
    "handleUpdateUser D e ctx r s = (resp, s') \<Longrightarrow> well_typed ctx (Some UserUpdate) resp"
    "handleDeleteUser D e ctx r s = (resp, s') \<Longrightarrow> well_typed ctx (Some UserDelete) resp"
  using assms
  by (auto simp: handleAuthStatus_def handleAuthLogin_def handleAuthLogout_def handleChangePassword_def handleAuthSettings_def
      handleUpdateAuthSettings_def handleTestLDAP_def handleListUsers_def handleCreateUser_def handleUpdateUser_def
      handleDeleteUser_def type_rules dest!: admin_checked(1) dest: admin_checked(2)
      split: sum.splits prod.splits option.splits if_splits)

lemmas handlers_typed = key_handlers_typed admin_handlers_typed auth_handlers_typed

lemma handle_typed:
  assumes "sv_auth s \<noteq> None" and "handle D e ctx rt r s = (resp, s')"
  shows "well_typed ctx (Some rt) resp"
  using assms(2)
  by (cases rt) (simp_all only: handle.simps, (rule handlers_typed, (assumption | rule assms(1))+)+)

section \<open>The server\<close>

text \<open>What nobody may read with a session, everybody may not read without one.\<close>

lemma success_anyone: "success None rt resp \<Longrightarrow> success ctx rt resp"
  by (auto simp: success_def split: option.splits)

lemma well_typed_anyone: "well_typed None ro resp \<Longrightarrow> well_typed ctx ro resp"
  by (cases ro) (auto dest: success_anyone)

lemma serveMux_typed:
  assumes "sv_auth s \<noteq> None" and "serveMux D e ctx r s = (resp, s')"
  shows "well_typed ctx (routeOf r) resp"
  using assms(2) handle_typed [OF assms(1)]
  by (auto simp: serveMux_def asset_def writeJSON_def split: option.splits if_splits)

text \<open>
  C9. Every answer of a server that checks accounts is of the type of its route: a failure with
  an error code and a status from 400 to 504, or a success with the status and the body that the
  route has, a cookie only from login and logout, and the bodies with endpoints, settings and
  accounts only for an administrator with a valid session; nothing panics.
\<close>

theorem answers_well_typed:
  assumes "sv_auth s = Some st" and "Handler D e r s = (resp, s')"
  shows "well_typed (fst (requestPrincipal D e None r st)) (routeOf r) resp"
proof -
  have mux: "well_typed (fst (requestPrincipal D e None r st)) (routeOf r) resp"
    if "serveMux D e ctx r s1 = (resp, s')" "sv_auth s1 \<noteq> None" "ctx = None \<or> ctx = fst (requestPrincipal D e None r st)" for ctx s1
    using serveMux_typed [OF that(2,1)] that(3) well_typed_anyone by metis
  have session: "well_typed (Some p) (routeOf r) resp"
    if "requestPrincipal D e None r st = (Some p, st')" "serveMux D e (Some p) r (s\<lparr>sv_auth := Some st'\<rparr>) = (resp, s')" for p st'
    using mux [OF that(2)] that(1) by simp
  have refused: "well_typed ctx (routeOf r) (writeError n c)" if "c \<noteq> []" "400 \<le> n" "n \<le> 504" for ctx n c
    using that by (cases "routeOf r") simp_all
  show ?thesis
    using assms
    by (auto simp: Handler_def requireAuthentication_def intro: refused mux session split: option.splits if_splits prod.splits)
qed

end
