(* ===== verification/Server_Progress.thy ===== *)
theory Server_Progress
  imports Startup Server_Replies
begin

text \<open>
  What the server does bring about when nothing fails outside: a temporary password is exchanged
  and its owner gets in, and a key that has been written is read back.
\<close>

section \<open>The exchange of a temporary password\<close>

text \<open>
  \<open>encoding/json\<close> encodes every configuration of strings, truth values and numbers whose times it can
  represent.
\<close>

definition encodes_configs :: "persistedConfig json_codec \<Rightarrow> bool" where
  "encodes_configs C \<longleftrightarrow> (\<forall>c. config_ints_ok c \<longrightarrow> marshal C c \<noteq> None)"

lemma saveLocked_succeeds:
  assumes "encodes_configs (al_codec L)" and "config_ints_ok (m_config m)" and "io_fail io = None" and "fresh_temp io (m_filePath m) d"
  shows "\<exists>d'. saveLocked L io (m, d) = (None, (m\<lparr>m_config := (m_config m)\<lparr>cf_Version := authConfigVersion\<rparr>\<rparr>, d'))"
proof -
  have "config_ints_ok ((m_config m)\<lparr>cf_Version := authConfigVersion\<rparr>)"
    using assms(2) by (simp add: config_ints_ok_def authConfigVersion_def int64_def)
  with assms(1) obtain t where "marshal (al_codec L) ((m_config m)\<lparr>cf_Version := authConfigVersion\<rparr>) = Some t"
    by (auto simp: encodes_configs_def)
  then show ?thesis
    using assms(3,4) by (simp add: saveLocked_def replace_file_cases)
qed

lemma changedUser_simps [simp]:
  "u_Username (changedUser ce h u) = u_Username u" "u_DisplayName (changedUser ce h u) = u_DisplayName u"
  "u_Role (changedUser ce h u) = u_Role u" "u_Active (changedUser ce h u) = u_Active u"
  "u_ClusterIDs (changedUser ce h u) = u_ClusterIDs u" "u_CreatedAt (changedUser ce h u) = u_CreatedAt u"
  "u_PasswordHash (changedUser ce h u) = h" "\<not> u_MustChangePassword (changedUser ce h u)"
  "u_UpdatedAt (changedUser ce h u) = ce_now ce"
  by (simp_all add: changedUser_def)

lemma findUserIndex_changed [simp]:
  "findUserIndex U (users[i := changedUser ce h (users ! i)]) name = findUserIndex U users name"
proof (rule findUserIndex_cong)
  show "map u_Username (users[i := changedUser ce h (users ! i)]) = map u_Username users"
    by (metis list_update_id map_update changedUser_simps(1))
qed

lemma findUserIndex_trim: "findUserIndex U users (TrimSpace name) = findUserIndex U users name"
  by (induction users) simp_all

lemma session_local:
  assumes "Session L now token m = (Some p, m')" and "p_Provider p = ProviderLocal"
  obtains i where "m' = m" "m_configured m" "modeIncludes (cf_Mode (m_config m)) ProviderLocal"
    "findUserIndex (al_ucd L) (cf_Users (m_config m)) (p_Username p) = Some i" "u_Active (cf_Users (m_config m) ! i)"
    "p_MustChangePassword p = u_MustChangePassword (cf_Users (m_config m) ! i)"
    "p_Role p = u_Role (cf_Users (m_config m) ! i)"
  using assms by (auto simp: Session_def Let_def split: option.splits if_splits)

text \<open>A session sees the changed record of its user from the next request on.\<close>

lemma session_changed:
  assumes "Session L now token m = (Some p, m')" and "p_Provider p = ProviderLocal"
    and "findUserIndex (al_ucd L) (cf_Users (m_config m)) (p_Username p) = Some i"
    and "m2 = m\<lparr>m_config := (m_config m)\<lparr>cf_Version := v, cf_Users := (cf_Users (m_config m))[i := changedUser ce h (cf_Users (m_config m) ! i)]\<rparr>\<rparr>"
  shows "Session L now token m2 = (Some (p\<lparr>p_MustChangePassword := False\<rparr>), m2)"
proof -
  have i: "i < length (cf_Users (m_config m))" using findUserIndex_less [OF assms(3)] .
  obtain se where se: "m_sessions m (sessionKey L token) = Some se" "now < s_ExpiresAt se"
    using assms(1) by (auto simp: Session_def split: option.splits if_splits)
  have p: "p_Username p = p_Username (s_Principal se)" "p_Provider (s_Principal se) = ProviderLocal"
    "p = (s_Principal se)\<lparr>p_DisplayName := u_DisplayName (cf_Users (m_config m) ! i), p_Role := u_Role (cf_Users (m_config m) ! i),
       p_ClusterIDs := u_ClusterIDs (cf_Users (m_config m) ! i), p_MustChangePassword := u_MustChangePassword (cf_Users (m_config m) ! i)\<rparr>"
    and conf: "m_configured m" "modeIncludes (cf_Mode (m_config m)) ProviderLocal" "u_Active (cf_Users (m_config m) ! i)"
    using assms(1,2,3) se by (auto simp: Session_def Let_def split: option.splits if_splits)
  have "Session L now token m2 = (Some ((s_Principal se)\<lparr>p_DisplayName := u_DisplayName (cf_Users (m_config m) ! i),
      p_Role := u_Role (cf_Users (m_config m) ! i), p_ClusterIDs := u_ClusterIDs (cf_Users (m_config m) ! i),
      p_MustChangePassword := False\<rparr>), m2)"
    using se p(1,2) conf i assms(3) by (simp add: Session_def Let_def assms(4))
  then show ?thesis by (subst p(3)) simp
qed

lemma temporary_password_change:
  assumes "Session L now token m = (Some p, m1)" and "p_Provider p = ProviderLocal" and "p_MustChangePassword p"
    and "validateStrongPassword (al_ucd L) new = None" and "AuthenticateLocal L m (p_Username p) new = Inl err"
    and "al_generate L (ce_salt ce) new = Some h" and "bcrypt_law L"
    and "encodes_configs (al_codec L)" and "config_ints_ok (m_config m)" and "int64 (ce_now ce)"
    and "io_fail (ce_io ce) = None" and "fresh_temp (ce_io ce) (m_filePath m) d"
  obtains q m2 d2 where "CompleteTemporaryPasswordChange L ce (p_Username p) new (m, d) = (Inr q, (m2, d2))"
    "m_configured m2"
    "\<And>t. fst (Session L t token m) = Some p \<Longrightarrow> Session L t token m2 = (Some (p\<lparr>p_MustChangePassword := False\<rparr>), m2)"
    "\<exists>q2. AuthenticateLocal L m2 (p_Username p) new = Inr q2 \<and> \<not> p_MustChangePassword q2"
proof -
  obtain i where i: "m_configured m" "modeIncludes (cf_Mode (m_config m)) ProviderLocal"
      "findUserIndex (al_ucd L) (cf_Users (m_config m)) (p_Username p) = Some i" "u_Active (cf_Users (m_config m) ! i)"
      "u_MustChangePassword (cf_Users (m_config m) ! i)"
    by (rule session_local [OF assms(1,2)]) (use assms(3) in auto)
  let ?u = "cf_Users (m_config m) ! i"
  let ?users = "(cf_Users (m_config m))[i := changedUser ce h ?u]"
  let ?m2 = "m\<lparr>m_config := (m_config m)\<lparr>cf_Version := authConfigVersion, cf_Users := ?users\<rparr>\<rparr>"
  have idx: "findUserIndex (al_ucd L) (cf_Users (m_config m)) (TrimSpace (p_Username p)) = Some i" "i < length (cf_Users (m_config m))"
    using i(3) findUserIndex_trim findUserIndex_less by auto
  have "\<not> al_compare L (u_PasswordHash ?u) new"
    using assms(5) i idx by (auto simp: AuthenticateLocal_def Let_def split: if_splits)
  then have check: "CompleteTemporaryPasswordChange_check L ce m (p_Username p) new = Inr (u_PasswordHash ?u, h)"
    using assms(4,6) i by (simp add: CompleteTemporaryPasswordChange_check_def Let_def)
  have "config_ints_ok (m_config (set_users ?users m))"
    using assms(9,10) idx(2)
    by (auto simp: config_ints_ok_def set_users_def list_all_iff dest!: set_update_subset_insert [THEN subsetD])
  then obtain d2 where "saveLocked L (ce_io ce) (set_users ?users m, d) = (None, (?m2, d2))"
    using saveLocked_succeeds [OF assms(8) _ assms(11), of "set_users ?users m" d] assms(12) by (auto simp: set_users_def)
  then have "CompleteTemporaryPasswordChange L ce (p_Username p) new (m, d) = (Inr (localPrincipal (?users ! i)), (?m2, d2))"
    using check i by (simp add: CompleteTemporaryPasswordChange_def CompleteTemporaryPasswordChange_commit_def Let_def)
  moreover have "Session L t token ?m2 = (Some (p\<lparr>p_MustChangePassword := False\<rparr>), ?m2)" if "fst (Session L t token m) = Some p" for t
    using session_changed [OF _ assms(2) i(3) refl, of t token] that by (metis prod.collapse)
  moreover have "al_compare L h new"
    using assms(6,7) by (auto simp: bcrypt_law_def)
  then have "\<exists>q2. AuthenticateLocal L ?m2 (p_Username p) new = Inr q2 \<and> \<not> p_MustChangePassword q2"
    using i idx by (simp add: AuthenticateLocal_def Let_def)
  ultimately show thesis
    using i(1) by (intro that [of "localPrincipal (?users ! i)" ?m2 d2]) simp_all
qed

lemma change_password_allowed:
  assumes "routeOf r = Some AuthChangePassword"
  shows "passwordChangeAllowedRoute r"
proof -
  obtain meth ps where "(meth, ps, AuthChangePassword) \<in> set routes" "matchRoute r (meth, ps, AuthChangePassword)"
    by (rule routes_distinct [OF assms])
  then show ?thesis
    by (auto simp: routes_def matchRoute_def matchSegments_Some matchSegments_Nil matchSegments_None passwordChangeAllowedRoute_def rq_Path_def)
qed

text \<open>With a cookie the request is handled in the name of the principal of its session.\<close>

lemma session_request:
  assumes "sv_auth s = Some (m, d)" and "m_configured m" and "rq_Cookie r = Some token" and "TrimSpace token \<noteq> []"
    and "Session (dp_auth D) (rc_clock e 0) token m = (Some p, m)" and "routeOf r = Some rt" and "rt \<notin> {AuthStatus, AuthLogin}"
    and "\<not> p_MustChangePassword p \<or> rt = AuthChangePassword"
  shows "Handler D e r s = handle D e (Some p) rt (bindPath rt r) s"
proof -
  have "\<not> publicAuthRoute r" "HasPrefix (rq_Path r) ''/api/''"
    using public_routes [OF assms(6)] api_path [OF assms(6)] assms(7) by auto
  moreover have "\<not> (p_MustChangePassword p \<and> \<not> passwordChangeAllowedRoute r)"
    using assms(8) change_password_allowed assms(6) by blast
  moreover have same: "s\<lparr>sv_auth := Some (m, d)\<rparr> = s" using assms(1) by simp
  ultimately show ?thesis
    using assms(1-6) by (auto simp: Handler_def requireAuthentication_def Manager_Status_def requestPrincipal_def serveMux_def same)
qed

lemma exchange:
  assumes "sv_auth s = Some (m, d)" and "Session (dp_auth D) (rc_clock e 0) token m = (Some p, m1)"
    and "p_Provider p = ProviderLocal" and "p_MustChangePassword p"
    and "routeOf r = Some AuthChangePassword" and "rq_Cookie r = Some token" and "TrimSpace token \<noteq> []"
    and "decodeJSON (dp_password D) (bindPath AuthChangePassword r) = Inr request" and "new = cp_NewPassword request"
    and "validateStrongPassword (al_ucd (dp_auth D)) new = None" and "AuthenticateLocal (dp_auth D) m (p_Username p) new = Inl err"
    and "al_generate (dp_auth D) (ce_salt (rc_call e)) new = Some h" and "bcrypt_law (dp_auth D)"
    and "encodes_configs (al_codec (dp_auth D))" and "config_ints_ok (m_config m)" and "int64 (ce_now (rc_call e))"
    and "io_fail (ce_io (rc_call e)) = None" and "fresh_temp (ce_io (rc_call e)) (m_filePath m) d"
  shows "\<exists>resp s' m' d'. Handler D e r s = (resp, s') \<and> rs_Status resp = 200 \<and> sv_auth s' = Some (m', d') \<and>
    (\<exists>q. AuthenticateLocal (dp_auth D) m' (p_Username p) new = Inr q \<and> \<not> p_MustChangePassword q) \<and>
    (\<forall>e2 r2 rt. rq_Cookie r2 = Some token \<and> fst (Session (dp_auth D) (rc_clock e2 0) token m) = Some p \<and>
      routeOf r2 = Some rt \<and> rt \<notin> {AuthStatus, AuthLogin} \<longrightarrow>
      Handler D e2 r2 s' = handle D e2 (Some (p\<lparr>p_MustChangePassword := False\<rparr>)) rt (bindPath rt r2) s')"
proof -
  have m: "m1 = m" "m_configured m" by (rule session_local [OF assms(2,3)], simp)+
  obtain q m' d' where change: "CompleteTemporaryPasswordChange (dp_auth D) (rc_call e) (p_Username p) new (m, d) = (Inr q, (m', d'))"
      "m_configured m'"
      "\<And>t. fst (Session (dp_auth D) t token m) = Some p \<Longrightarrow> Session (dp_auth D) t token m' = (Some (p\<lparr>p_MustChangePassword := False\<rparr>), m')"
      "\<exists>q2. AuthenticateLocal (dp_auth D) m' (p_Username p) new = Inr q2 \<and> \<not> p_MustChangePassword q2"
    using temporary_password_change [OF assms(2-4,10-18)] by metis
  let ?ev = "event ''auth.password.change'' ''user'' [] [] (p_Username q) zhChangedPassword"
  let ?s' = "recordAuditForPrincipal D (bindPath AuthChangePassword r) q ?ev (s\<lparr>sv_auth := Some (m', d')\<rparr>)"
  have "Handler D e r s = handleChangePassword D e (Some p) (bindPath AuthChangePassword r) s"
    using session_request [OF assms(1) m(2) assms(6,7) assms(2) [unfolded m(1)] assms(5)] by simp
  also have "\<dots> = (writeJSON 200 (PrincipalReply q), ?s')"
    using assms(1,3,4,8,9) change(1) by (simp add: handleChangePassword_def)
  finally have run: "Handler D e r s = (writeJSON 200 (PrincipalReply q), ?s')" .
  have auth: "sv_auth ?s' = Some (m', d')" by simp
  have later: "Handler D e2 r2 ?s' = handle D e2 (Some (p\<lparr>p_MustChangePassword := False\<rparr>)) rt (bindPath rt r2) ?s'"
    if "rq_Cookie r2 = Some token" "fst (Session (dp_auth D) (rc_clock e2 0) token m) = Some p" "routeOf r2 = Some rt"
      "rt \<notin> {AuthStatus, AuthLogin}" for e2 r2 rt
    using session_request [OF auth change(2) that(1) assms(7) change(3) [OF that(2)] that(3,4)] by simp
  show ?thesis
    using run auth change(4) later by (intro exI [of _ "writeJSON 200 (PrincipalReply q)"] exI [of _ ?s'] exI [of _ m'] exI [of _ d'])
      (simp add: writeJSON_def)
qed

text \<open>
  A user with a temporary password gets out of the restricted state: when the disk works, the change
  to any other password that is strong enough succeeds in the session that the temporary password
  opened, the new password is good for a login without restriction, and the same cookie is
  from then on served on every route with the full rights of the user, until it expires.
\<close>

theorem temporary_password_exchanged:
  assumes "sv_auth s = Some (m, d)" and "Session (dp_auth D) (rc_clock e 0) token m = (Some p, m1)"
    and "p_Provider p = ProviderLocal" and "p_MustChangePassword p"
    and "routeOf r = Some AuthChangePassword" and "rq_Cookie r = Some token" and "TrimSpace token \<noteq> []"
    and "decodeJSON (dp_password D) (bindPath AuthChangePassword r) = Inr request" and "new = cp_NewPassword request"
    and "validateStrongPassword (al_ucd (dp_auth D)) new = None" and "AuthenticateLocal (dp_auth D) m (p_Username p) new = Inl err"
    and "al_generate (dp_auth D) (ce_salt (rc_call e)) new = Some h" and "bcrypt_law (dp_auth D)"
    and "encodes_configs (al_codec (dp_auth D))" and "config_ints_ok (m_config m)" and "int64 (ce_now (rc_call e))"
    and "io_fail (ce_io (rc_call e)) = None" and "fresh_temp (ce_io (rc_call e)) (m_filePath m) d"
  shows "\<exists>resp s' m' d'. Handler D e r s = (resp, s') \<and> rs_Status resp = 200 \<and> sv_auth s' = Some (m', d') \<and>
    (\<exists>q. AuthenticateLocal (dp_auth D) m' (p_Username p) new = Inr q \<and> \<not> p_MustChangePassword q) \<and>
    (\<forall>e2 r2 rt. rq_Cookie r2 = Some token \<and> fst (Session (dp_auth D) (rc_clock e2 0) token m) = Some p \<and>
      routeOf r2 = Some rt \<and> rt \<notin> {AuthStatus, AuthLogin} \<longrightarrow>
      Handler D e2 r2 s' = handle D e2 (Some (p\<lparr>p_MustChangePassword := False\<rparr>)) rt (bindPath rt r2) s')"
  by (rule exchange [OF assms])

lemma AuthenticateLocal_cong:
  "m_config m = m_config m' \<Longrightarrow> m_configured m = m_configured m' \<Longrightarrow> AuthenticateLocal L m name pw = AuthenticateLocal L m' name pw"
  by (simp add: AuthenticateLocal_def Let_def)

text \<open>
  C15. From the first start to the first administrator: after a start that has printed a temporary
  password, the login with it is answered with a cookie that is good for the change of the
  password and nothing else; the change to a password of one's own is answered with 200; and with
  the same cookie every route is then served in the name of an administrator.
\<close>

theorem first_admin_takes_over:
  assumes "main P e0 etcd d v = (Inr (s, Some pw), d', v')" and "bcrypt_law (pg_auth P)" and "encodes_configs (al_codec (pg_auth P))"
    and "dp_auth D = pg_auth P" and "sv_auth s = Some (m, d1)" and "config_ints_ok (m_config m)"
    and "routeOf r1 = Some AuthLogin" and "rc_random e1 = Some bs" and "bs \<noteq> []"
    and "decodeJSON (dp_login D) (bindPath AuthLogin r1) = Inr \<lparr>lr_Provider = ''local'', lr_Username = ''admin'', lr_Password = pw\<rparr>"
    and "routeOf r2 = Some AuthChangePassword" and "rq_Cookie r2 = Some (hexEncode bs)"
    and "rc_clock e2 0 < rc_clock e1 1 + SessionDuration"
    and "decodeJSON (dp_password D) (bindPath AuthChangePassword r2) = Inr request" and "new = cp_NewPassword request"
    and "validateStrongPassword (al_ucd (pg_auth P)) new = None" and "AuthenticateLocal (pg_auth P) m ''admin'' new = Inl err"
    and "al_generate (pg_auth P) (ce_salt (rc_call e2)) new = Some h" and "int64 (ce_now (rc_call e2))"
    and "io_fail (ce_io (rc_call e2)) = None" and "fresh_temp (ce_io (rc_call e2)) (m_filePath m) d1"
  shows "\<exists>resp1 s1 resp2 s2 q. Handler D e1 r1 s = (resp1, s1) \<and> rs_Status resp1 = 200 \<and>
    map_option fst (rs_SetCookie resp1) = Some (hexEncode bs) \<and>
    (\<forall>e3 r3 rt. rq_Cookie r3 = Some (hexEncode bs) \<and> rc_clock e3 0 < rc_clock e1 1 + SessionDuration \<and>
      routeOf r3 = Some rt \<and> rt \<notin> {AuthStatus, AuthLogin, AuthChangePassword, AuthLogout} \<longrightarrow>
      Handler D e3 r3 s1 = (writeError 403 ''password_change_required'', s1)) \<and> Handler D e2 r2 s1 = (resp2, s2) \<and> rs_Status resp2 = 200 \<and>
    IsAdmin q \<and> (\<forall>e3 r3 rt. rq_Cookie r3 = Some (hexEncode bs) \<and> rc_clock e3 0 < rc_clock e1 1 + SessionDuration \<and>
      routeOf r3 = Some rt \<and> rt \<notin> {AuthStatus, AuthLogin} \<longrightarrow> Handler D e3 r3 s2 = handle D e3 (Some q) rt (bindPath rt r3) s2)"
proof -
  obtain cfg :: Config and m0 where admin: "EnsureTemporaryAdmin (pg_auth P) (se_authCall e0) (se_tape e0) (m0, d) = (Inr (pw, True), (m, d1))"
    using main_started [OF assms(1)] assms(5) by fastforce
  obtain resp1 s1 m1 q where login: "Handler D e1 r1 s = (resp1, s1)" "rs_Status resp1 = 200"
      "map_option fst (rs_SetCookie resp1) = Some (hexEncode bs)" "sv_auth s1 = Some (m1, d1)" "m_configured m1"
      "m_config m1 = m_config m" "m_filePath m1 = m_filePath m"
      "\<And>now. now < rc_clock e1 1 + SessionDuration \<Longrightarrow> Session (dp_auth D) now (hexEncode bs) m1 = (Some q, m1)"
      "IsAdmin q" "p_MustChangePassword q" "p_Provider q = ProviderLocal" "p_Username q = ''admin''" "TrimSpace (hexEncode bs) \<noteq> []"
    by (rule first_login_state [OF admin [folded assms(4)] assms(2) [folded assms(4)] assms(5,7-10)]) blast
  have other: "AuthenticateLocal (dp_auth D) m1 (p_Username q) new = Inl err"
    using AuthenticateLocal_cong [of m1 m] login(5,6,12) assms(4,17) EnsureTemporaryAdmin_fresh(1) [OF admin] by simp
  have ints: "config_ints_ok (m_config m1)" and io: "fresh_temp (ce_io (rc_call e2)) (m_filePath m1) d1"
    using login(6,7) assms(6,21) by simp_all
  note libs = assms(16,18,2,3) [folded assms(4)]
  obtain resp2 s2 where "Handler D e2 r2 s1 = (resp2, s2)" "rs_Status resp2 = 200"
      "\<And>e3 r3 rt. rq_Cookie r3 = Some (hexEncode bs) \<Longrightarrow> fst (Session (dp_auth D) (rc_clock e3 0) (hexEncode bs) m1) = Some q \<Longrightarrow>
        routeOf r3 = Some rt \<Longrightarrow> rt \<notin> {AuthStatus, AuthLogin} \<Longrightarrow>
        Handler D e3 r3 s2 = handle D e3 (Some (q\<lparr>p_MustChangePassword := False\<rparr>)) rt (bindPath rt r3) s2"
    using exchange [OF login(4) login(8) [OF assms(13)] login(11,10) assms(11,12) login(13) assms(14,15) libs(1) other libs(2-4)
        ints assms(19,20) io] by blast
  moreover have "IsAdmin (q\<lparr>p_MustChangePassword := False\<rparr>)" using login(9) by (simp add: IsAdmin_def)
  moreover have "Handler D e3 r3 s1 = (writeError 403 ''password_change_required'', s1)"
    if "rq_Cookie r3 = Some (hexEncode bs)" "rc_clock e3 0 < rc_clock e1 1 + SessionDuration" "routeOf r3 = Some rt"
      "rt \<notin> {AuthStatus, AuthLogin, AuthChangePassword, AuthLogout}" for e3 r3 rt
    using must_change_refused [OF login(4,5) that(1) login(13) login(8) [OF that(2)] login(10) that(3,4)] .
  ultimately show ?thesis
    using login(1-3) login(8)
    by (intro exI [of _ resp1] exI [of _ s1] exI [of _ resp2] exI [of _ s2] exI [of _ "q\<lparr>p_MustChangePassword := False\<rparr>"]) auto
qed

section \<open>Written and read back\<close>

text \<open>
  An etcd cluster that answers and that nobody else writes to meanwhile: every call takes
  effect on the state it finds.
\<close>

locale quiet_client = mvcc_client C st for C :: "'w etcd_client" and st :: "'w \<Rightarrow> mvcc" +
  assumes quiet_get: "mvcc_inv (st w) \<Longrightarrow> gr_Rev req = 0 \<Longrightarrow> \<exists>w'. cl_Get C req w = (Inr (get_reply req (st w)), w') \<and> st w' = st w"
    and quiet_put: "mvcc_inv (st w) \<Longrightarrow> \<exists>w'. cl_Put C k v w = (Inr (mv_rev (st w) + 1), w') \<and> st w' = mput k v (st w)"
    and quiet_txn: "mvcc_inv (st w) \<Longrightarrow> mod_rev (st w) k = x \<Longrightarrow>
      \<exists>w'. cl_Txn C k x opr w = (Inr (True, mv_rev (txn_apply opr (st w))), w') \<and> st w' = txn_apply opr (st w)"
begin

lemma quiet_read:
  assumes "mvcc_inv (st w)"
  obtains w' where "kv_Get (Etcd order C) key w = (Inr (current (st w) key), w')" "st w' = st w"
  using quiet_get [OF assms, of "(plain_get key)\<lparr>gr_Limit := 1\<rparr>"] firstEntry_single [of 0 key "st w"]
  by (auto simp: Etcd_def Etcd_Get_def plain_get_def current_def)

lemma quiet_write:
  assumes "mvcc_inv (st w)" and "\<forall>m. x = Some m \<longrightarrow> mod_rev (st w) key = m"
  obtains w' where "kv_Put (Etcd order C) key val x w = (Inr (mv_rev (st w) + 1), w')" "st w' = mput key val (st w)"
proof (cases x)
  case None
  then show thesis using that quiet_put [OF assms(1), of key val] by (auto simp: Etcd_def Etcd_Put_def)
next
  case (Some m)
  then show thesis
    using that quiet_txn [OF assms(1), of key m "OpPut key val"] assms(2) by (auto simp: Etcd_def Etcd_Put_def)
qed

lemma quiet_archive:
  assumes "mvcc_inv (st (sv_etcd s))" and "\<forall>m. x = Some m \<longrightarrow> mod_rev (st (sv_etcd s)) key = m"
    and "\<forall>old. current (st (sv_etcd s)) key = Some old \<longrightarrow>
      fst (hst_Save (dp_history D) \<lparr>vs_ClusterID = cid, vs_Entry = old, vs_CapturedAt = now\<rparr> (sv_history s)) = Inr ()"
  obtains h w where "archiveCurrent D now cid (Etcd order C) key x s =
      (Inr (current (st (sv_etcd s)) key), s\<lparr>sv_history := h, sv_etcd := w\<rparr>)" "st w = st (sv_etcd s)"
proof -
  obtain w where get: "kv_Get (Etcd order C) key (sv_etcd s) = (Inr (current (st (sv_etcd s)) key), w)" "st w = st (sv_etcd s)"
    by (rule quiet_read [OF assms(1)])
  show thesis
  proof (cases "current (st (sv_etcd s)) key")
    case None
    then show thesis using that [where h = "sv_history s" and w = w] get by (simp add: archiveCurrent_def call_etcd_def)
  next
    case (Some old)
    obtain h where save: "hst_Save (dp_history D) \<lparr>vs_ClusterID = cid, vs_Entry = old, vs_CapturedAt = now\<rparr> (sv_history s) = (Inr (), h)"
      using assms(3) Some by (metis prod.collapse)
    have "x = None \<or> x = Some (e_ModRevision old)" using assms(2) Some by (cases x) (simp_all add: mod_rev_def)
    then show thesis
      using that [where h = h and w = w] get save Some by (auto simp: archiveCurrent_def call_etcd_def saveSnapshot_def call_history_def)
  qed
qed

end

text \<open>The reference client is such a cluster.\<close>

interpretation ref_quiet: quiet_client ref_client "\<lambda>s. s"
proof (unfold_locales, goal_cases)
  case (1 w req)
  then have "\<not> mv_rev w < gr_Rev req" by (simp add: mvcc_inv_def)
  with 1 show ?case by (simp add: ref_client_def)
qed (simp_all add: ref_client_def)

lemma clusterKV_found:
  assumes "TrimSpace cid \<noteq> []" and "cg_ClusterKV (dp_clusters D) cid (sv_clusters s) = (Inr kc, cs)"
  shows "clusterKV D cid s = (Inr kc, s\<lparr>sv_clusters := cs\<rparr>)"
  using assms by (simp add: clusterKV_def call_clusters_def)

text \<open>What a client sees of a value is the value: base64 is exact.\<close>

lemma makeEntryDetail_view:
  "StdDecode (es_KeyBase64 (makeEntryDetail entry)) = Some (e_Key entry)"
  "StdDecode (ed_ValueBase64 (makeEntryDetail entry)) = Some (e_Value entry)"
  "es_ModRevision (makeEntryDetail entry) = e_ModRevision entry"
  "utf8Valid (e_Value entry) \<Longrightarrow> ed_Value (makeEntryDetail entry) = e_Value entry"
  by (simp_all add: makeEntryDetail_def makeEntrySummary_def entrySummary.defs entryDetail.defs std64.roundtrip)

text \<open>
  C8. A write is read back. When etcd answers and nobody else writes, the storage takes the value
  that is replaced, and the expected revision is the current one, the put is answered with the
  next revision; and the get that follows, by anybody with access, has the key, this
  revision and exactly the bytes that were put, as text too if they are valid UTF-8.
\<close>

theorem put_is_read_back:
  assumes "quiet_client C st" and "mvcc_inv (st (sv_etcd s))"
    and "decodeJSON (dp_put D) r = Inr request" and "requestCanAccessCluster s ctx (pr_ClusterID request)"
    and "TrimSpace (pr_ClusterID request) \<noteq> []"
    and "cg_ClusterKV (dp_clusters D) (pr_ClusterID request) (sv_clusters s) = (Inr (Etcd order C, cluster), cs)"
    and "decodeKey (pr_Key request) (pr_KeyBase64 request) = Some key" and "decodeValue request = Some val"
    and "\<forall>m. pr_ExpectedModRevision request = Some m \<longrightarrow> mod_rev (st (sv_etcd s)) key = m"
    and "\<forall>old. current (st (sv_etcd s)) key = Some old \<longrightarrow>
      fst (hst_Save (dp_history D) \<lparr>vs_ClusterID = c_ID cluster, vs_Entry = old, vs_CapturedAt = rc_clock e 0\<rparr> (sv_history s)) = Inr ()"
    and "cid = TrimSpace (rq_Query r2 ''cluster_id'')" and "cid \<noteq> []" and "requestCanAccessCluster s ctx2 cid"
    and "cg_ClusterKV (dp_clusters D) cid cs = (Inr (Etcd order2 C, cluster2), cs2)" and "keyFromQuery r2 = Some key"
  shows "\<exists>s' s'' detail. handlePutKey D e ctx r s = (writeJSON 200 (RevisionReply (mv_rev (st (sv_etcd s)) + 1)), s') \<and>
    handleGetKey D ctx2 r2 s' = (writeJSON 200 (EntryReply detail), s'') \<and> StdDecode (es_KeyBase64 detail) = Some key \<and>
    StdDecode (ed_ValueBase64 detail) = Some val \<and> es_ModRevision detail = mv_rev (st (sv_etcd s)) + 1 \<and>
    (utf8Valid val \<longrightarrow> ed_Value detail = val)"
proof -
  let ?t = "st (sv_etcd s)" and ?s1 = "s\<lparr>sv_clusters := cs\<rparr>"
  obtain h w where archived: "archiveCurrent D (rc_clock e 0) (c_ID cluster) (Etcd order C) key (pr_ExpectedModRevision request) ?s1 =
      (Inr (current ?t key), ?s1\<lparr>sv_history := h, sv_etcd := w\<rparr>)" and w: "st w = ?t"
    by (rule quiet_client.quiet_archive [OF assms(1), of ?s1]) (use assms(2,9,10) in auto)
  obtain w2 where put: "kv_Put (Etcd order C) key val (pr_ExpectedModRevision request) w = (Inr (mv_rev ?t + 1), w2)"
      and w2: "st w2 = mput key val ?t"
    by (rule quiet_client.quiet_write [OF assms(1), of w]) (use assms(2,9) w in auto)
  let ?s' = "recordAudit D r ctx (putAudit request cluster key (mv_rev ?t + 1)) (s\<lparr>sv_clusters := cs, sv_history := h, sv_etcd := w2\<rparr>)"
  have written: "handlePutKey D e ctx r s = (writeJSON 200 (RevisionReply (mv_rev ?t + 1)), ?s')"
    using assms(3,4,7,8) clusterKV_found [OF assms(5,6)] archived put
    by (simp add: handlePutKey_def requireClusterAccess_def call_etcd_def)
  have inv: "mvcc_inv (st w2)" using w2 mput_le [OF assms(2)] mvcc_le_inv by metis
  obtain w3 where get: "kv_Get (Etcd order2 C) key w2 = (Inr (Some (put_entry key val ?t)), w3)"
    by (rule quiet_client.quiet_read [OF assms(1) inv, of order2 key]) (use w2 assms(2) in auto)
  have "clusterKV D cid ?s' = (Inr (Etcd order2 C, cluster2), ?s'\<lparr>sv_clusters := cs2\<rparr>)"
    by (rule clusterKV_found) (use assms(11,12,14) in simp_all)
  moreover have "requestCanAccessCluster ?s' ctx2 cid"
    using assms(13) by (simp add: requestCanAccessCluster_def)
  ultimately have read: "handleGetKey D ctx2 r2 ?s' =
      (writeJSON 200 (EntryReply (makeEntryDetail (put_entry key val ?t))), ?s'\<lparr>sv_clusters := cs2, sv_etcd := w3\<rparr>)"
    using assms(11,15) get
    by (simp add: handleGetKey_def clusterKVFromRequest_def requireClusterAccess_def Let_def call_etcd_def)
  show ?thesis
    using written read makeEntryDetail_view [of "put_entry key val ?t"] put_entry_simps by metis
qed

end
