(* ===== verification/Server_Lock.thy ===== *)
theory Server_Lock
  imports Server_Honest
begin

text \<open>
  Optimistic locking across requests: of all writes, deletions and rollbacks of a key that
  name the same revision as the one they replace, one at most is reported as done.
\<close>

section \<open>The etcd cluster moves forward\<close>

context kv_store begin

lemma archive_moves:
  assumes "mvcc_inv (st (sv_etcd s))" and "archiveCurrent D now cid K key x s = (a, s')"
  shows "mvcc_le (st (sv_etcd s)) (st (sv_etcd s'))"
proof -
  obtain b w where get: "kv_Get K key (sv_etcd s) = (b, w)" by fastforce
  then have "mvcc_le (st (sv_etcd s)) (st w)" using kv_get [OF assms(1)] by blast
  moreover have "sv_etcd s' = w"
    using assms(2) get by (auto simp: archiveCurrent_def saveSnapshot_def call_eqs split: sum.splits option.splits if_splits prod.splits)
  ultimately show ?thesis by simp
qed

lemma target_moves:
  assumes "mvcc_inv (st (sv_etcd s))" and "rollbackTarget D cid K key m q s = (Inr (cur, prev, src, at), s')"
  shows "mvcc_le (st (sv_etcd s)) (st (sv_etcd s')) \<and> e_ModRevision cur = m"
proof -
  obtain b w where get: "kv_Get K key (sv_etcd s) = (b, w)" by fastforce
  then have le: "mvcc_le (st (sv_etcd s)) (st w)" using kv_get [OF assms(1)] by blast
  obtain b' v where old: "kv_GetAtRevision K key q w = (b', v)" by fastforce
  then have "mvcc_le (st w) (st v)" using kv_at [OF mvcc_le_inv [OF le]] by blast
  moreover have "(sv_etcd s' = w \<or> sv_etcd s' = v) \<and> e_ModRevision cur = m"
    using assms(2) get old by (auto simp: rollbackTarget_def call_eqs split: sum.splits option.splits if_splits prod.splits)
  ultimately show ?thesis using le mvcc_le_trans by blast
qed

end

lemma archiveRollback_etcd: "archiveRollback D e cid cur prev src s = (a, s') \<Longrightarrow> sv_etcd s' = sv_etcd s"
  by (auto simp: archiveRollback_def saveSnapshot_def call_eqs split: sum.splits prod.splits option.splits if_splits)

section \<open>Requests that take a revision\<close>

inductive takes ::
    "('r, 'h, 'w) deps \<Rightarrow> 'w etcd_client \<Rightarrow> bytes \<Rightarrow> int \<Rightarrow> ('r, 'h, 'w) Server \<Rightarrow> ('r, 'h, 'w) Server \<Rightarrow> bool"
  for D C key m s s' where
  put: "handlePutKey D e ctx r s = (resp, s') \<Longrightarrow> rs_Reply resp = RevisionReply n \<Longrightarrow> decodeJSON (dp_put D) r = Inr request \<Longrightarrow>
     cg_ClusterKV (dp_clusters D) (pr_ClusterID request) (sv_clusters s) = (Inr (Etcd order C, cluster), cs) \<Longrightarrow>
     decodeKey (pr_Key request) (pr_KeyBase64 request) = Some key \<Longrightarrow> pr_ExpectedModRevision request = Some m \<Longrightarrow> takes D C key m s s'"
| delete: "handleDeleteKey D e ctx r s = (resp, s') \<Longrightarrow> rs_Reply resp = DeletedReply n \<Longrightarrow>
     cg_ClusterKV (dp_clusters D) (TrimSpace (rq_Query r ''cluster_id'')) (sv_clusters s) = (Inr (Etcd order C, cluster), cs) \<Longrightarrow>
     keyFromQuery r = Some key \<Longrightarrow> optionalInt64 (rq_Query r ''expected_mod_revision'') = Inr (Some m) \<Longrightarrow> takes D C key m s s'"
| rollback: "handleRollbackKey D e ctx r s = (resp, s') \<Longrightarrow> rs_Reply resp = RollbackReply n q src \<Longrightarrow>
     decodeJSON (dp_rollback D) r = Inr rollback \<Longrightarrow>
     cg_ClusterKV (dp_clusters D) (rr_ClusterID rollback) (sv_clusters s) = (Inr (Etcd order C, cluster), cs) \<Longrightarrow>
     decodeKey (rr_Key rollback) (rr_KeyBase64 rollback) = Some key \<Longrightarrow> rr_ExpectedModRevision rollback = Some m \<Longrightarrow> takes D C key m s s'"

text \<open>Each of them changes the key at a moment when its revision is the one that was named.\<close>

lemma taken_by_put:
  assumes "kv_store K st" and "mvcc_inv (st (sv_etcd s))" and "mvcc_le (st (sv_etcd s)) (st (sv_etcd s2))"
    and "kv_Put K key val (Some m) (sv_etcd s2) = (Inr n, w)"
  shows "\<exists>t. mvcc_le (st (sv_etcd s)) t \<and> mod_rev t key = m \<and> mvcc_le (mput key val t) (st w)"
  using kv_store.kv_put [OF assms(1) mvcc_le_inv [OF assms(3)] assms(4)] mvcc_le_trans [OF assms(3)] by auto

lemma takes_effect:
  assumes "mvcc_client C st" and "mvcc_inv (st (sv_etcd s))" and "takes D C key m s s'"
  shows "\<exists>t t'. mvcc_le (st (sv_etcd s)) t \<and> mod_rev t key = m \<and> (t' = mdelete key t \<or> (\<exists>v. t' = mput key v t)) \<and>
    mvcc_le t' (st (sv_etcd s'))"
  using assms(3)
proof cases
  case (put e ctx r resp n request order cluster cs)
  have K: "kv_store (Etcd order C) st" by (rule mvcc_client.Etcd_kv_store [OF assms(1)])
  obtain val found s2 w where "archiveCurrent D (rc_clock e 0) (c_ID cluster) (Etcd order C) key (Some m) (s\<lparr>sv_clusters := cs\<rparr>) = (Inr found, s2)"
      and step: "kv_Put (Etcd order C) key val (Some m) (sv_etcd s2) = (Inr n, w)" and s': "sv_etcd s' = w"
    by (rule handlePutKey_success [OF put(1,2)]) (use put(3-) in \<open>auto elim!: clusterKV_eq\<close>)
  then have "mvcc_le (st (sv_etcd s)) (st (sv_etcd s2))"
    using kv_store.archive_moves [OF K, of "s\<lparr>sv_clusters := cs\<rparr>"] assms(2) by simp
  from taken_by_put [OF K assms(2) this step] s' show ?thesis by blast
next
  case (delete e ctx r resp n order cluster cs)
  have K: "kv_store (Etcd order C) st" by (rule mvcc_client.Etcd_kv_store [OF assms(1)])
  obtain found s2 w where "archiveCurrent D (rc_clock e 0) (c_ID cluster) (Etcd order C) key (Some m) (s\<lparr>sv_clusters := cs\<rparr>) = (Inr (Some found), s2)"
      and step: "kv_Delete (Etcd order C) key (Some m) (sv_etcd s2) = (Inr (n, True), w)" and s': "sv_etcd s' = w"
    by (rule handleDeleteKey_success [OF delete(1,2)]) (use delete(3-) in \<open>auto elim!: clusterKVFromRequest_eq\<close>)
  then have le: "mvcc_le (st (sv_etcd s)) (st (sv_etcd s2))"
    using kv_store.archive_moves [OF K, of "s\<lparr>sv_clusters := cs\<rparr>"] assms(2) by simp
  obtain t where "mvcc_le (st (sv_etcd s2)) t" "mod_rev t key = m" "mvcc_le (mdelete key t) (st w)"
    using kv_store.kv_delete [OF K mvcc_le_inv [OF le] step] by auto
  with s' mvcc_le_trans [OF le] show ?thesis by blast
next
  case (rollback e ctx r resp n q src request order cluster cs)
  have K: "kv_store (Etcd order C) st" by (rule mvcc_client.Etcd_kv_store [OF assms(1)])
  obtain tg cur prev at s2 s3 w where target: "rollbackTarget D (c_ID cluster) (Etcd order C) key m tg (s\<lparr>sv_clusters := cs\<rparr>) = (Inr (cur, prev, src, at), s2)"
      and archived: "archiveRollback D e (c_ID cluster) cur prev src s2 = (None, s3)"
      and step: "kv_Put (Etcd order C) key (e_Value prev) (Some (e_ModRevision cur)) (sv_etcd s3) = (Inr n, w)" and s': "sv_etcd s' = w"
    by (rule handleRollbackKey_success [OF rollback(1,2)]) (use rollback(3-) in \<open>auto elim!: clusterKV_eq\<close>)
  have "mvcc_le (st (sv_etcd s)) (st (sv_etcd s3))" "e_ModRevision cur = m"
    using kv_store.target_moves [OF K, of "s\<lparr>sv_clusters := cs\<rparr>"] target assms(2) archiveRollback_etcd [OF archived] by auto
  from taken_by_put [OF K assms(2) this(1)] step s' this(2) show ?thesis by blast
qed

text \<open>Once a revision has been replaced, the key never has it again.\<close>

lemma revision_gone:
  assumes "mvcc_inv t" and "t' = mdelete key t \<or> (\<exists>v. t' = mput key v t)" and "mod_rev t key = m" and "m \<noteq> 0"
    and "mvcc_le t' u"
  shows "mod_rev u key \<noteq> m"
proof
  assume again: "mod_rev u key = m"
  obtain old where old: "current t key = Some old" "e_ModRevision old = m"
    using assms(3,4) by (auto simp: mod_rev_def split: option.splits)
  have m: "m \<le> mv_rev t" using current_entry(4) [OF assms(1) old(1)] old(2) by simp
  have le: "mvcc_le t t'" using assms(1,2) mput_le mdelete_le by blast
  obtain e where e: "current u key = Some e" "e_ModRevision e = m"
    using again assms(4) by (auto simp: mod_rev_def split: option.splits)
  have "current t' key = Some e"
    using current_unchanged [OF assms(5) e(1)] e(2) m mvcc_le_rev(1) [OF le] by simp
  then show False
    using assms(1,2) current_mdelete [OF assms(1), of key key] e(2) m by auto
qed

text \<open>
  Of all requests that name the same revision of a key as the one they write over, delete or roll
  back, one at most is reported as done, however many requests and other clients come between
  two of them: no update is lost unnoticed. (Revision 0 stands for a key that does not exist,
  which a deletion makes true again.)
\<close>

theorem revision_taken_once:
  assumes "mvcc_client C st" and "mvcc_inv (st (sv_etcd s))" and "m \<noteq> 0"
    and "takes D C key m s s'" and "mvcc_le (st (sv_etcd s')) (st (sv_etcd s2))"
  shows "\<not> takes D C key m s2 s3"
proof
  assume again: "takes D C key m s2 s3"
  obtain t t' where t: "mvcc_le (st (sv_etcd s)) t" "mod_rev t key = m" "t' = mdelete key t \<or> (\<exists>v. t' = mput key v t)"
      "mvcc_le t' (st (sv_etcd s'))"
    using takes_effect [OF assms(1,2,4)] by blast
  obtain u where u: "mvcc_le (st (sv_etcd s2)) u" "mod_rev u key = m"
    using takes_effect [OF assms(1) mvcc_le_inv [OF assms(5)] again] by blast
  have "mvcc_le t' u" using mvcc_le_trans [OF mvcc_le_trans [OF t(4) assms(5)] u(1)] .
  from revision_gone [OF mvcc_le_inv [OF t(1)] t(3,2) assms(3) this] u(2) show False by contradiction
qed

end
