(* ===== verification/Startup_Instances.thy ===== *)
theory Startup_Instances
  imports Server_Progress Server_Lock Server_Instances
begin

text \<open>The theorems on the start, evaluated: two starts with accounts in the file \<open>f\<close>.\<close>

definition sample_program :: "(local_env, localHistoryBackend, fsys) program" where
  "sample_program =
    \<lparr>pg_registry = sample_reg_lib, pg_ucd = basic_ucd, pg_storage = hm_codec,
     pg_history = local_ops basic_ucd sample_codec audit_codec, pg_auth = sample_lib\<rparr>"

definition sample_environment :: "string \<Rightarrow> string" where
  "sample_environment name = (if name = ''AUTH_FILE'' then ''f'' else if name = ''ETCD_DIAL_TIMEOUT'' then ''1ns'' else [])"

definition sample_start :: "io_step option \<Rightarrow> local_env start_env" where
  "sample_start failing =
    \<lparr>se_getenv = sample_environment, se_parseDuration = (\<lambda>_. Some 1), se_clustersOpenFails = False, se_mkdirOk = True,
     se_historyOpenFails = False, se_historyEnv = sample_env, se_now = 5, se_authOpenFails = False, se_Listen = (\<lambda>_. None),
     se_authCall = sample_call\<lparr>ce_io := good_io\<lparr>io_fail := failing\<rparr>\<rparr>, se_tape = sample_tape\<rparr>"

definition sample_files :: Config where
  "sample_files =
    \<lparr>cg_ListenAddress = ''127.0.0.1:8080'', cg_ClustersFile = ''./data/clusters.json'',
     cg_HistoryConfigFile = ''data/history-storage.json'', cg_HistoryFile = ''data/history.jsonl'',
     cg_AuthFile = ''f'', cg_DialTimeout = 1\<rparr>"

lemma sample_Load: "Load sample_environment (\<lambda>_. Some 1) = Inr sample_files"
  by code_simp

lemma zero_tape: "generateTemporaryPassword 24 sample_tape = Inr ''a2!AAAAAAAAAAAAAAAAAAAAA''"
  by code_simp


definition sample_admin :: persistedConfig where
  "sample_admin =
    \<lparr>cf_Version = 1, cf_ConfiguredAt = 5, cf_Mode = ModeLocal, cf_LDAP = empty_ldap,
     cf_Users = [\<lparr>u_Username = ''admin'', u_DisplayName = systemAdministrator, u_Role = RoleAdmin, u_Active = True,
       u_ClusterIDs = [], u_MustChangePassword = True, u_CreatedAt = 5, u_UpdatedAt = 5, u_PasswordHash = ''$a2!AAAAAAAAAAAAAAAAAAAAA''\<rparr>]\<rparr>"

definition sample_text :: bytes where
  "sample_text = writeFields (packConfig sample_admin)"

lemma sample_admin_image: "config_image sample_admin = sample_admin"
proof -
  have "toValidUTF8 systemAdministrator = systemAdministrator"
    by (simp add: toValidUTF8_def systemAdministrator_def decodeRune_def RuneError_def cont_def Let_def)
  then show ?thesis
    by (simp add: config_image_def ldap_image_def user_image_def sample_admin_def empty_ldap_def auth_consts ascii_def byte_def)
qed

lemma sample_admin_text: "marshal config_codec sample_admin = Some sample_text" "length sample_text \<le> authConfigLimit"
proof -
  show "marshal config_codec sample_admin = Some sample_text"
    using sample_admin_image
    by (simp add: sample_text_def config_codec_def field_codec_def config_ints_ok_def sample_admin_def int64_def empty_ldap_def)
  show "length sample_text \<le> authConfigLimit"
    by (simp add: sample_text_def packConfig_def packLDAP_def packUser_def length_writeFields sample_admin_def empty_ldap_def
        authConfigLimit_def packBool_def FormatInt_def natDigits.simps auth_consts systemAdministrator_def)
qed

lemma sample_accounts:
  assumes "f = None \<or> f = Some ChmodTarget"
  shows "\<exists>m. EnsureTemporaryAdmin sample_lib (sample_call\<lparr>ce_io := good_io\<lparr>io_fail := f\<rparr>\<rparr>) sample_tape (fresh_manager, Map.empty) =
    (if f = None then Inr (''a2!AAAAAAAAAAAAAAAAAAAAA'', True) else Inl (AuthSaveFailed ChmodTarget), (m, [''f'' \<mapsto> sample_text @ [newline]])) \<and>
    (f = None \<longrightarrow> m = fresh_manager\<lparr>m_config := sample_admin, m_configured := True\<rparr>)"
proof -
  have hash: "hashPassword basic_ucd (al_generate sample_lib (ce_salt sample_call)) ''a2!AAAAAAAAAAAAAAAAAAAAA'' = Inr ''$a2!AAAAAAAAAAAAAAAAAAAAA''"
    using generateTemporaryPassword_strong [OF zero_tape] by (simp add: hashPassword_def sample_lib_def)
  have user: "User.extend \<lparr>u_Username = ''admin'', u_DisplayName = systemAdministrator, u_Role = RoleAdmin, u_Active = True,
      u_ClusterIDs = [], u_MustChangePassword = True, u_CreatedAt = 5, u_UpdatedAt = 5\<rparr> (persistedUser.fields ''$a2!AAAAAAAAAAAAAAAAAAAAA'') =
      hd (cf_Users sample_admin)"
    by (simp add: User.defs persistedUser.defs sample_admin_def)
  have save: "saveLocked sample_lib (good_io\<lparr>io_fail := f\<rparr>) (fresh_manager\<lparr>m_config := sample_admin\<rparr>, Map.empty) =
      (map_option AuthSaveFailed f, (fresh_manager\<lparr>m_config := sample_admin\<rparr>, [''f'' \<mapsto> sample_text @ [newline]]))"
    using assms sample_admin_text(1)
    by (auto simp: saveLocked_def sample_lib_def replace_file_cases fresh_temp_def good_io_def fresh_manager_def sample_admin_def
        authConfigVersion_def)
  show ?thesis
    using assms hash zero_tape save user systemAdministrator_ok [of basic_ucd]
    by (auto simp: EnsureTemporaryAdmin_def bootstrap_def Let_def sample_admin_def authConfigVersion_def fresh_manager_def sample_call_def sample_lib_def)
qed

text \<open>With no files but that of the accounts, the start depends on the accounts only.\<close>

lemma run_parts:
  assumes "d ''./data/clusters.json'' = None" and "d ''data/history-storage.json'' = None"
    and "NewManager sample_lib False ''f'' 1 d = Inr m"
    and "EnsureTemporaryAdmin sample_lib (sample_call\<lparr>ce_io := good_io\<lparr>io_fail := f\<rparr>\<rparr>) sample_tape (m, d) = (r, (m', d'))"
  shows "\<exists>s. main sample_program (sample_start f) etcd d v =
    (map_sum TemporaryAdminFailed (\<lambda>(pw, created). (s, if created then Some pw else None)) r, d', v)"
proof -
  have "TrimSpace ''data/history-storage.json'' \<noteq> []" "TrimSpace ''data/history.jsonl'' \<noteq> []"
    by (simp_all add: visible_def byte_def)
  then show ?thesis
    using assms
    by (auto simp: main_def sample_program_def sample_start_def sample_Load sample_files_def NewRegistry_def Registry_load_def
        NewHistoryManager_def HistoryManager_load_def split: sum.split prod.split)
qed

lemma first_start:
  assumes "f = None \<or> f = Some ChmodTarget"
  shows "\<exists>s. main sample_program (sample_start f) etcd Map.empty v =
    (if f = None then Inr (s, Some ''a2!AAAAAAAAAAAAAAAAAAAAA'') else Inl (TemporaryAdminFailed (AuthSaveFailed ChmodTarget)),
     [''f'' \<mapsto> sample_text @ [newline]], v)"
proof -
  obtain m where "EnsureTemporaryAdmin sample_lib (sample_call\<lparr>ce_io := good_io\<lparr>io_fail := f\<rparr>\<rparr>) sample_tape (fresh_manager, Map.empty) =
      (if f = None then Inr (''a2!AAAAAAAAAAAAAAAAAAAAA'', True) else Inl (AuthSaveFailed ChmodTarget), (m, [''f'' \<mapsto> sample_text @ [newline]]))"
    using sample_accounts [OF assms] by blast
  from run_parts [OF _ _ fresh_start this, of etcd v] assms show ?thesis by auto
qed

lemma second_start:
  "\<exists>s. main sample_program (sample_start None) etcd [''f'' \<mapsto> sample_text @ [newline]] v =
    (Inr (s, None), [''f'' \<mapsto> sample_text @ [newline]], v)"
proof -
  have "unmarshal config_codec (take authConfigLimit (sample_text @ [newline])) = Some sample_admin"
    using sample_lib_laws(2) sample_admin_text sample_admin_image by (simp add: json_config_law_def sample_lib_def del: take_append)
  moreover have "loadUsers basic_ucd (cf_Users sample_admin) = Inr (cf_Users sample_admin)"
    using systemAdministrator_ok [of basic_ucd] by (simp add: sample_admin_def clusterIDsForRole_def)
  ultimately obtain m where m: "NewManager sample_lib False ''f'' 1 [''f'' \<mapsto> sample_text @ [newline]] = Inr m" "m_configured m"
    by (simp add: NewManager_def load_def sample_lib_def visible_def byte_def) (simp add: sample_admin_def authConfigVersion_def)
  then have "EnsureTemporaryAdmin sample_lib (sample_call\<lparr>ce_io := good_io\<lparr>io_fail := None\<rparr>\<rparr>) sample_tape (m, [''f'' \<mapsto> sample_text @ [newline]]) =
      (Inr ([], False), (m, [''f'' \<mapsto> sample_text @ [newline]]))"
    by (simp add: EnsureTemporaryAdmin_def)
  from run_parts [OF _ _ m(1) this, of etcd v] show ?thesis by auto
qed

section \<open>The theorems at work\<close>

definition login_request :: request where
  "login_request = (query_request [''api'', ''v1'', ''auth'', ''login''] [])\<lparr>rq_Method := ''POST'', rq_Cookie := None\<rparr>"

definition login_deps :: "(reg_state, (local_env, localHistoryBackend, fsys) mgr, mvcc) deps" where
  "login_deps = small_deps\<lparr>dp_login := (\<lambda>_. JsonValue \<lparr>lr_Provider = ''local'', lr_Username = ''admin'', lr_Password = ''a2!AAAAAAAAAAAAAAAAAAAAA''\<rparr> [])\<rparr>"

lemma login_route: "routeOf login_request = Some AuthLogin"
  by (simp add: routeOf_def routes_def matchRoute_def login_request_def query_request_def)

lemma login_decoded: "decodeJSON (dp_login login_deps) (bindPath AuthLogin login_request) =
    Inr \<lparr>lr_Provider = ''local'', lr_Username = ''admin'', lr_Password = ''a2!AAAAAAAAAAAAAAAAAAAAA''\<rparr>"
  by (simp add: decodeJSON_def login_deps_def login_request_def query_request_def bindPath_def jsonBlank_def maxRequestBytes_def)

lemma start_parts:
  "pg_auth sample_program = sample_lib" "dp_auth login_deps = sample_lib" "dp_auth small_deps = sample_lib"
  "Load (se_getenv (sample_start f)) (se_parseDuration (sample_start f)) = Inr sample_files"
  "fresh_temp (ce_io (se_authCall (sample_start f))) (cg_AuthFile sample_files) Map.empty"
  by (simp_all add: sample_program_def login_deps_def sample_deps_def sample_start_def sample_Load sample_files_def fresh_temp_def good_io_def)

theorem first_start_login_witness:
  "\<exists>s rest resp s'. main sample_program (sample_start None) empty_mvcc Map.empty new_fs = (Inr (s, Some ''a2!AAAAAAAAAAAAAAAAAAAAA''), rest) \<and>
     Handler login_deps sample_clock login_request s = (resp, s') \<and> rs_Status resp = 200"
proof -
  obtain s where start: "main sample_program (sample_start None) empty_mvcc Map.empty new_fs =
      (Inr (s, Some ''a2!AAAAAAAAAAAAAAAAAAAAA''), [''f'' \<mapsto> sample_text @ [newline]], new_fs)"
    using first_start [of None empty_mvcc new_fs] by auto
  have "rc_random sample_clock = Some ''r''" by (simp add: sample_clock_def)
  from first_start_login [OF start _ _ start_parts(4,5) login_route this _ login_decoded] start sample_lib_laws(1)
  show ?thesis by (auto simp: start_parts)
qed

theorem started_server_needs_login_witness:
  "\<exists>s printed rest. main sample_program (sample_start None) empty_mvcc Map.empty new_fs = (Inr (s, printed), rest) \<and>
     snd (serve small_deps [(sample_clock, query_request [''api'', ''v1'', ''keys''] [])] s) = s"
proof -
  obtain s where start: "main sample_program (sample_start None) empty_mvcc Map.empty new_fs =
      (Inr (s, Some ''a2!AAAAAAAAAAAAAAAAAAAAA''), [''f'' \<mapsto> sample_text @ [newline]], new_fs)"
    using first_start [of None empty_mvcc new_fs] by auto
  obtain resps s' where run: "serve small_deps [(sample_clock, query_request [''api'', ''v1'', ''keys''] [])] s = (resps, s')"
    by (cases "serve small_deps [(sample_clock, query_request [''api'', ''v1'', ''keys''] [])] s")
  have "routeOf (query_request [''api'', ''v1'', ''keys''] []) \<noteq> Some AuthLogin"
    by (simp add: routeOf_def routes_def matchRoute_def query_request_def)
  with started_server_needs_login [OF start _ run] start run show ?thesis by auto
qed

theorem failed_first_start_locks_out_witness:
  "\<exists>d rest s printed rest'.
     main sample_program (sample_start (Some ChmodTarget)) empty_mvcc Map.empty new_fs = (Inl (TemporaryAdminFailed (AuthSaveFailed ChmodTarget)), d, rest) \<and>
     main sample_program (sample_start None) empty_mvcc d new_fs = (Inr (s, printed), rest') \<and> printed = None"
proof -
  have failed: "main sample_program (sample_start (Some ChmodTarget)) empty_mvcc Map.empty new_fs =
      (Inl (TemporaryAdminFailed (AuthSaveFailed ChmodTarget)), [''f'' \<mapsto> sample_text @ [newline]], new_fs)"
    using first_start [of "Some ChmodTarget" empty_mvcc new_fs] by auto
  obtain s p where second: "main sample_program (sample_start None) empty_mvcc [''f'' \<mapsto> sample_text @ [newline]] new_fs =
      (Inr (s, p), [''f'' \<mapsto> sample_text @ [newline]], new_fs)"
    using second_start [of empty_mvcc new_fs] by blast
  from failed_first_start_locks_out [OF failed start_parts(4,5) second start_parts(4)] failed second show ?thesis by auto
qed

text \<open>The administrator of the first start.\<close>

lemma started_accounts:
  assumes "main sample_program (sample_start None) etcd Map.empty v = (Inr (s, printed), rest)"
  shows "sv_auth s = Some (fresh_manager\<lparr>m_config := sample_admin, m_configured := True\<rparr>, [''f'' \<mapsto> sample_text @ [newline]])"
proof -
  obtain d' v' where run: "main sample_program (sample_start None) etcd Map.empty v = (Inr (s, printed), d', v')"
    using assms by (cases rest) auto
  obtain m where "EnsureTemporaryAdmin sample_lib (sample_call\<lparr>ce_io := good_io\<lparr>io_fail := None\<rparr>\<rparr>) sample_tape (fresh_manager, Map.empty) =
      (Inr (''a2!AAAAAAAAAAAAAAAAAAAAA'', True), (m, [''f'' \<mapsto> sample_text @ [newline]]))"
      "m = fresh_manager\<lparr>m_config := sample_admin, m_configured := True\<rparr>"
    using sample_accounts [of None] by auto
  then show ?thesis
    using main_started [OF run] fresh_start
    by (auto simp: sample_program_def sample_start_def sample_Load sample_files_def)
qed

definition change_request :: "string \<Rightarrow> request" where
  "change_request token =
    (query_request [''api'', ''v1'', ''auth'', ''change-password''] [])\<lparr>rq_Method := ''POST'', rq_Cookie := Some token\<rparr>"

definition change_deps :: "(reg_state, (local_env, localHistoryBackend, fsys) mgr, mvcc) deps" where
  "change_deps = login_deps\<lparr>dp_password := (\<lambda>_. JsonValue \<lparr>cp_CurrentPassword = [], cp_NewPassword = ''Secret-pw1''\<rparr> [])\<rparr>"

lemma change_route: "routeOf (change_request token) = Some AuthChangePassword" "rq_Cookie (change_request token) = Some token"
  by (simp_all add: routeOf_def routes_def matchRoute_def change_request_def query_request_def)

lemma change_parts:
  "decodeJSON (dp_password change_deps) (bindPath AuthChangePassword (change_request token)) =
     Inr \<lparr>cp_CurrentPassword = [], cp_NewPassword = ''Secret-pw1''\<rparr>"
  "decodeJSON (dp_login change_deps) (bindPath AuthLogin login_request) =
     Inr \<lparr>lr_Provider = ''local'', lr_Username = ''admin'', lr_Password = ''a2!AAAAAAAAAAAAAAAAAAAAA''\<rparr>"
  "dp_auth change_deps = sample_lib" "al_generate sample_lib (ce_salt (rc_call sample_clock)) ''Secret-pw1'' = Some ''$Secret-pw1''"
  "int64 (ce_now (rc_call sample_clock))" "io_fail (ce_io (rc_call sample_clock)) = None" "rc_random sample_clock = Some ''r''"
  by (simp_all add: decodeJSON_def change_deps_def login_deps_def login_request_def change_request_def query_request_def bindPath_def
      jsonBlank_def maxRequestBytes_def start_parts sample_lib_def sample_clock_def sample_call_def int64_def good_io_def sample_deps_def)

lemma change_laws: "encodes_configs (al_codec sample_lib)" "validateStrongPassword (al_ucd sample_lib) ''Secret-pw1'' = None"
proof -
  show "encodes_configs (al_codec sample_lib)"
    by (simp add: encodes_configs_def sample_lib_def config_codec_def field_codec_def)
  have "validateStrongPassword basic_ucd ''Secret-pw1'' = None"
    by (rule strong_password) (simp_all add: byte_def isSpace_def isControl_def ascii_category_def)
  then show "validateStrongPassword (al_ucd sample_lib) ''Secret-pw1'' = None" by (simp add: sample_lib_def)
qed

definition waiting_bob :: Manager where
  "waiting_bob = set_users [sample_user ''root'' RoleAdmin, (sample_user ''bob'' RoleOperator)\<lparr>u_MustChangePassword := True\<rparr>] bob_session"

lemma waiting_bob_session:
  "fst (Session sample_lib 7 ''k'' waiting_bob) =
     Some (bob\<lparr>p_DisplayName := ''bob'', p_Role := RoleOperator, p_ClusterIDs := []\<rparr>)"
  "m_filePath waiting_bob = ''f''" "config_ints_ok (m_config waiting_bob)"
proof -
  have users: "cf_Users (m_config waiting_bob) = [sample_user ''root'' RoleAdmin, (sample_user ''bob'' RoleOperator)\<lparr>u_MustChangePassword := True\<rparr>]"
    "cf_Mode (m_config waiting_bob) = ModeLocal" "m_configured waiting_bob"
    "m_sessions waiting_bob = [''k'' \<mapsto> \<lparr>s_Principal = bob, s_ExpiresAt = 100\<rparr>]"
    by (simp_all add: waiting_bob_def set_users_def bob_session_def sample_mode)
  have "findUserIndex basic_ucd (cf_Users (m_config waiting_bob)) ''bob'' = findUserIndex basic_ucd (cf_Users sample_config) ''bob''"
    by (rule findUserIndex_cong) (simp add: users sample_config_def sample_user_def)
  then have "findUserIndex basic_ucd (cf_Users (m_config waiting_bob)) ''bob'' = Some 1"
    by (simp only: sample_find(1))
  then show "fst (Session sample_lib 7 ''k'' waiting_bob) =
      Some (bob\<lparr>p_DisplayName := ''bob'', p_Role := RoleOperator, p_ClusterIDs := []\<rparr>)"
    by (simp add: Session_def sessionKey_def users(2-4) sample_lib_def)
      (simp add: bob_def users(1) sample_user_def Let_def)
  show "m_filePath waiting_bob = ''f''" "config_ints_ok (m_config waiting_bob)"
    by (simp_all add: waiting_bob_def set_users_def bob_session_def sample_config_def config_ints_ok_def sample_user_def
        int64_def empty_ldap_def)
qed

text \<open>In these accounts no user has the password of the requests.\<close>

lemma other_password:
  "\<exists>err. AuthenticateLocal sample_lib m name ''Secret-pw1'' = Inl err"
  if "list_all (\<lambda>u. u_PasswordHash u \<noteq> ''$Secret-pw1'') (cf_Users (m_config m))"
  using that findUserIndex_less [of basic_ucd "cf_Users (m_config m)" "TrimSpace name"]
  by (auto simp: AuthenticateLocal_def Let_def sample_lib_def list_all_length split: option.split)

theorem temporary_password_exchanged_witness:
  "\<exists>resp s'. Handler change_deps sample_clock (change_request ''k'') (sample_server (Some (waiting_bob, Map.empty))) = (resp, s') \<and>
     rs_Status resp = 200"
proof -
  let ?p = "bob\<lparr>p_DisplayName := ''bob'', p_Role := RoleOperator, p_ClusterIDs := []\<rparr>"
  obtain m1 where session: "Session (dp_auth change_deps) (rc_clock sample_clock 0) ''k'' waiting_bob = (Some ?p, m1)"
    using waiting_bob_session(1) by (cases "Session sample_lib 7 ''k'' waiting_bob") (simp add: change_parts(3))
  obtain err where other: "AuthenticateLocal (dp_auth change_deps) waiting_bob (p_Username ?p) ''Secret-pw1'' = Inl err"
    using other_password [of waiting_bob "p_Username ?p"]
    by (auto simp: change_parts(3) waiting_bob_def set_users_def sample_user_def)
  have p: "p_Provider ?p = ProviderLocal" "p_MustChangePassword ?p" "TrimSpace ''k'' \<noteq> []"
    by (simp_all add: bob_def visible_def byte_def)
  have new: "''Secret-pw1'' = cp_NewPassword \<lparr>cp_CurrentPassword = [], cp_NewPassword = ''Secret-pw1''\<rparr>" by simp
  have io: "fresh_temp (ce_io (rc_call sample_clock)) (m_filePath waiting_bob) Map.empty"
    by (simp add: waiting_bob_session fresh_temp_def sample_clock_def sample_call_def good_io_def)
  show ?thesis
    using temporary_password_exchanged [OF sample_parts(5) session p(1,2) change_route p(3) change_parts(1) new
        change_laws(2) [folded change_parts(3)] other change_parts(4) [folded change_parts(3)] sample_lib_laws(1) [folded change_parts(3)]
        change_laws(1) [folded change_parts(3)] waiting_bob_session(3) change_parts(5,6) io] by blast
qed

theorem first_admin_takes_over_witness:
  "\<exists>s rest resp1 s1 resp2 s2. main sample_program (sample_start None) empty_mvcc Map.empty new_fs = (Inr (s, Some ''a2!AAAAAAAAAAAAAAAAAAAAA''), rest) \<and>
     Handler change_deps sample_clock login_request s = (resp1, s1) \<and> map_option fst (rs_SetCookie resp1) = Some (hexEncode ''r'') \<and>
     Handler change_deps sample_clock (change_request (hexEncode ''r'')) s1 = (resp2, s2) \<and> rs_Status resp2 = 200"
proof -
  obtain s where start: "main sample_program (sample_start None) empty_mvcc Map.empty new_fs =
      (Inr (s, Some ''a2!AAAAAAAAAAAAAAAAAAAAA''), [''f'' \<mapsto> sample_text @ [newline]], new_fs)"
    using first_start [of None empty_mvcc new_fs] by auto
  let ?m = "fresh_manager\<lparr>m_config := sample_admin, m_configured := True\<rparr>"
  have libs: "pg_auth sample_program = sample_lib" "dp_auth change_deps = pg_auth sample_program"
    by (simp_all add: start_parts change_parts)
  obtain err where other: "AuthenticateLocal sample_lib ?m ''admin'' ''Secret-pw1'' = Inl err"
    using other_password [of ?m "''admin''"] by (auto simp: sample_admin_def)
  have ints: "config_ints_ok (m_config ?m)"
    by (simp add: sample_admin_def config_ints_ok_def int64_def empty_ldap_def)
  have new: "''Secret-pw1'' = cp_NewPassword \<lparr>cp_CurrentPassword = [], cp_NewPassword = ''Secret-pw1''\<rparr>" by simp
  have early: "rc_clock sample_clock 0 < rc_clock sample_clock 1 + SessionDuration" by (simp add: SessionDuration_def)
  have io: "fresh_temp (ce_io (rc_call sample_clock)) (m_filePath ?m) [''f'' \<mapsto> sample_text @ [newline]]"
    by (simp add: fresh_manager_def fresh_temp_def sample_clock_def sample_call_def good_io_def)
  show ?thesis
    using first_admin_takes_over [OF start sample_lib_laws(1) [folded libs(1)] change_laws(1) [folded libs(1)] libs(2) started_accounts [OF start]
        ints login_route change_parts(7) _ change_parts(2) change_route early change_parts(1) new change_laws(2) [folded libs(1)]
        other [folded libs(1)] change_parts(4) [folded libs(1)] change_parts(5,6) io] start by blast
qed

section \<open>Requests on the small server\<close>

definition put_request :: request where
  "put_request = (query_request [''api'', ''v1'', ''key''] [])\<lparr>rq_Method := ''PUT''\<rparr>"

lemma put_route: "routeOf put_request = Some KeyPut"
  by (simp add: routeOf_def routes_def matchRoute_def put_request_def query_request_def)

lemma small_serves: "serves small_deps c (\<lambda>w. w)"
proof -
  have "kv_store kv (\<lambda>w. w) \<and> (\<exists>order. kv = Etcd order ref_client)"
    if "cg_ClusterKV sample_clusters cid cs = (Inr (kv, cl), cs')" for cid cs kv cl cs'
    using that ref.Etcd_kv_store
    by (auto simp: sample_clusters_def registry_clusters_def split: option.splits sum.splits prod.splits)
  then show ?thesis
    using kv_store_moves ref.mvcc_client_axioms unfolding serves_def sample_deps_def by fastforce
qed

theorem archive_stays_honest_witness:
  "list_all (\<lambda>y. at_rev (sv_etcd (snd (serve small_deps [(sample_clock, put_request), (sample_clock, put_request)] (sample_server None)))) ''k'' (vs_rev y) =
       Some (vs_Entry y))
     (mgr_stored (sv_history (snd (serve small_deps [(sample_clock, put_request), (sample_clock, put_request)] (sample_server None)))) ''78'' ''k'')"
proof -
  let ?rs = "[(sample_clock, put_request), (sample_clock, put_request)]"
  obtain resps s' where run: "serve small_deps ?rs (sample_server None) = (resps, s')"
    by (cases "serve small_deps ?rs (sample_server None)")
  have "dp_history small_deps = manager_storage basic_ucd hm_codec (local_ops basic_ucd sample_codec audit_codec) quiet_call"
    by (simp add: sample_deps_def sample_history_def)
  moreover have "list_all (\<lambda>(e, r). \<exists>rt \<in> set archive_routes. routeOf r = Some rt) ?rs"
    using put_route by (simp add: archive_routes_def)
  ultimately show ?thesis
    using archive_stays_honest [OF _ small_serves sample_honest _ run, of basic_ucd hm_codec basic_ucd sample_codec audit_codec quiet_call "''78''"] run
    by (simp add: list_all_iff)
qed

section \<open>Types and progress on the small server\<close>

theorem answers_well_typed_witness:
  "well_typed None (Some KeysList) (fst (Handler small_deps sample_clock
     ((query_request [''api'', ''v1'', ''keys''] [])\<lparr>rq_Cookie := None\<rparr>) guarded_server))"
proof -
  let ?r = "(query_request [''api'', ''v1'', ''keys''] [])\<lparr>rq_Cookie := None\<rparr>"
  obtain resp s' where run: "Handler small_deps sample_clock ?r guarded_server = (resp, s')"
    by (cases "Handler small_deps sample_clock ?r guarded_server")
  have "fst (requestPrincipal small_deps sample_clock None ?r (bob_session, Map.empty)) = None"
    by (simp add: requestPrincipal_def)
  with answers_well_typed [OF sample_parts(5) run] keys_route [of None "[]"] run show ?thesis by simp
qed

lemma sample_ClusterKV_twice:
  "\<exists>cs cs2. cg_ClusterKV sample_clusters ''78'' (sample_reg ''p'' 7, Map.empty, no_clients) =
     (Inr (Etcd [] ref_client, sample_cluster ''p'' 7), cs) \<and>
     cg_ClusterKV sample_clusters ''78'' cs = (Inr (Etcd [] ref_client, sample_cluster ''p'' 7), cs2)"
proof -
  have "cg_ClusterKV sample_clusters ''78''
      (\<lparr>rg_filePath = ''f'', rg_dialTimeout = 5, rg_clusters = [(''78'', \<lparr>mc_config = sample_cluster ''p'' 7, mc_client = Some 0\<rparr>)]\<rparr>, d, connected) =
      (Inr (Etcd [] ref_client, sample_cluster ''p'' 7),
       (\<lparr>rg_filePath = ''f'', rg_dialTimeout = 5, rg_clusters = [(''78'', \<lparr>mc_config = sample_cluster ''p'' 7, mc_client = Some 0\<rparr>)]\<rparr>, d, connected))"
    for d
    by (simp add: sample_clusters_def registry_clusters_def)
  then show ?thesis
    by (simp add: sample_clusters_def registry_clusters_def sample_connect del: ClusterKV.simps One_nat_def)
qed

theorem put_is_read_back_witness:
  "\<exists>s' s'' detail. handlePutKey small_deps sample_clock None (query_request [] []) (sample_server None) = (writeJSON 200 (RevisionReply 4), s') \<and>
     handleGetKey small_deps None (query_request [] key_query) s' = (writeJSON 200 (EntryReply detail), s'') \<and>
     StdDecode (ed_ValueBase64 detail) = Some ''c''"
proof -
  let ?s = "sample_server None"
  obtain cs cs2 where reg: "cg_ClusterKV (dp_clusters small_deps) (pr_ClusterID put_again) (sv_clusters ?s) = (Inr (Etcd [] ref_client, sample_cluster ''p'' 7), cs)"
      "cg_ClusterKV (dp_clusters small_deps) ''78'' cs = (Inr (Etcd [] ref_client, sample_cluster ''p'' 7), cs2)"
    using sample_ClusterKV_twice by (auto simp: put_again_def)
  have dec: "decodeJSON (dp_put small_deps) (query_request [] []) = Inr put_again" "decodeKey (pr_Key put_again) (pr_KeyBase64 put_again) = Some ''k''"
    "decodeValue put_again = Some ''c''" "TrimSpace (pr_ClusterID put_again) \<noteq> []" "''78'' \<noteq> []"
    by (simp_all add: sample_decodes query_request_def put_again_def decodeKey_def decodeValue_def visible_def byte_def)
  have rights: "requestCanAccessCluster ?s None c" for c by (simp add: requestCanAccessCluster_def)
  have inv: "mvcc_inv (sv_etcd ?s)" by (simp add: two_versions_inv)
  have expected: "\<forall>m. pr_ExpectedModRevision put_again = Some m \<longrightarrow> mod_rev (sv_etcd ?s) ''k'' = m"
    by (simp add: put_again_def mod_rev_def two_versions_at entry_b_def)
  have saves: "\<forall>old. current (sv_etcd ?s) ''k'' = Some old \<longrightarrow> fst (hst_Save (dp_history small_deps)
      \<lparr>vs_ClusterID = c_ID (sample_cluster ''p'' 7), vs_Entry = old, vs_CapturedAt = rc_clock sample_clock 0\<rparr> (sv_history ?s)) = Inr ()"
    using accepting_saves [OF sample_accepting, of entry_b None] by (auto simp: two_versions_at)
  have "mv_rev (sv_etcd ?s) + 1 = 4" by (simp add: two_versions_def)
  with put_is_read_back [OF ref_quiet.quiet_client_axioms inv dec(1) rights dec(4) reg(1) dec(2,3) expected saves
      key_query_reads(1) [of "[]", symmetric] dec(5) rights reg(2) key_query_reads(2) [of "[]"]]
  show ?thesis by fastforce
qed

theorem revision_taken_once_witness:
  "\<exists>s'. takes small_deps ref_client ''k'' 3 (sample_server None) s' \<and> \<not> takes small_deps ref_client ''k'' 3 s' s'"
proof -
  let ?s = "sample_server None"
  obtain resp s' where put: "handlePutKey small_deps sample_clock None (query_request [] []) ?s = (resp, s')" "rs_Reply resp = RevisionReply 4"
    using sample_put_reply by blast
  obtain cs where kv: "cg_ClusterKV (dp_clusters small_deps) (pr_ClusterID put_again) (sv_clusters ?s) =
      (Inr (Etcd [] ref_client, sample_cluster ''p'' 7), cs)"
    using sample_ClusterKV by (auto simp: put_again_def)
  have first: "takes small_deps ref_client ''k'' 3 ?s s'"
    by (rule takes.put [OF put _ kv]) (simp_all add: sample_decodes query_request_def put_again_def decodeKey_def)
  have inv: "mvcc_inv (sv_etcd ?s)" by (simp add: two_versions_inv)
  have "mvcc_inv (sv_etcd s')" using takes_effect [OF ref.mvcc_client_axioms inv first] mvcc_le_inv by blast
  then have "mvcc_le (sv_etcd s') (sv_etcd s')" by (rule mvcc_le_refl)
  from revision_taken_once [OF ref.mvcc_client_axioms inv _ first this] first show ?thesis by auto
qed

end
