(* ===== verification/Server_Jobs.thy ===== *)
theory Server_Jobs
  imports Server_Lock
begin

text \<open>
  Requests on keys as sequences of calls. \<open>net/http\<close> runs every request in a goroutine of
  its own, and the handlers hold no lock from one call to the next: a write, a deletion or
  a rollback is a sequence of calls on etcd and on the history storage, between which the
  calls of all other requests can come. Here each handler is a small state machine with one call per
  step, which gives the handler of \<open>Server_Keys\<close> when nothing comes between.
\<close>

section \<open>A request as a sequence of calls\<close>

text \<open>What a request is asked to do; \<open>WRollback\<close> has the expected and the target revision.\<close>

datatype work = WPut bytes "int option" | WDelete "int option" | WRollback int int

fun wanted :: "work \<Rightarrow> int option" where
  "wanted (WPut _ x) = x"
| "wanted (WDelete x) = x"
| "wanted (WRollback expected _) = Some expected"

record 'w job =
  jb_cluster :: string
  jb_kv :: "'w KV"
  jb_key :: bytes
  jb_work :: work
  jb_clock :: "nat \<Rightarrow> gotime"

text \<open>
  The call that comes next, with the local variables it needs: the read, the two ways to find the
  version to roll back to, the archiving of this version and of the current one, and
  the write, of a value or (\<open>None\<close>) of a deletion. The string is where a rollback found its
  version, empty otherwise.
\<close>

datatype phase =
    Reading
  | Listing Entry int
  | Looking Entry int
  | Keeping Entry Entry
  | Archiving Entry "bytes option" "int option" string
  | Writing "bytes option" "int option" string
  | Failed error
  | Absent
  | Finished int string

fun afterGet :: "work \<Rightarrow> (error, Entry option) result \<Rightarrow> phase" where
  "afterGet _ (Inl err) = Failed err"
| "afterGet (WPut val x) (Inr None) = Writing (Some val) x []"
| "afterGet (WPut val x) (Inr (Some cur)) =
     (if x \<noteq> None \<and> Some (e_ModRevision cur) \<noteq> x then Failed (Sentinel ErrConflict) else Archiving cur (Some val) x [])"
| "afterGet (WDelete x) (Inr None) = Absent"
| "afterGet (WDelete x) (Inr (Some cur)) =
     (if x \<noteq> None \<and> Some (e_ModRevision cur) \<noteq> x then Failed (Sentinel ErrConflict) else Archiving cur None x [])"
| "afterGet (WRollback expected target) (Inr None) = Failed (Sentinel ErrNoPreviousVersion)"
| "afterGet (WRollback expected target) (Inr (Some cur)) =
     (if e_ModRevision cur \<noteq> expected then Failed (Sentinel ErrConflict)
      else if target < 1 \<or> e_ModRevision cur \<le> target then Failed (Sentinel ErrNoPreviousVersion)
      else Listing cur target)"

definition afterList :: "Entry \<Rightarrow> int \<Rightarrow> (error, ValueSnapshot list) result \<Rightarrow> phase" where
  "afterList cur target r =
    (case r of
       Inl err \<Rightarrow> Failed (Wrap (Sentinel ErrLocalHistory) err)
     | Inr snapshots \<Rightarrow>
         if snapshots \<noteq> [] \<and> vs_rev (hd snapshots) = target
         then Archiving cur (Some (e_Value (vs_Entry (hd snapshots)))) (Some (e_ModRevision cur)) ''storage''
         else Looking cur target)"

definition afterLook :: "Entry \<Rightarrow> int \<Rightarrow> (error, Entry option) result \<Rightarrow> phase" where
  "afterLook cur target r =
    (case r of
       Inl err \<Rightarrow> Failed err
     | Inr (Some prev) \<Rightarrow> if e_ModRevision prev = target then Keeping cur prev else Failed (Sentinel ErrNoPreviousVersion)
     | Inr None \<Rightarrow> Failed (Sentinel ErrNoPreviousVersion))"

definition afterSave :: "phase \<Rightarrow> (error, unit) result \<Rightarrow> phase" where
  "afterSave ph r = (case r of Inl err \<Rightarrow> Failed (Wrap (Sentinel ErrLocalHistory) err) | Inr _ \<Rightarrow> ph)"

text \<open>One call.\<close>

fun advance :: "'h HistoryStorage \<Rightarrow> 'w job \<Rightarrow> phase \<Rightarrow> 'h \<Rightarrow> 'w \<Rightarrow> phase \<times> 'h \<times> 'w" where
  "advance H j Reading h w = (case kv_Get (jb_kv j) (jb_key j) w of (r, w') \<Rightarrow> (afterGet (jb_work j) r, h, w'))"
| "advance H j (Listing cur target) h w =
     (case hst_ListBefore H (jb_cluster j) (jb_key j) (wrap64 (target + 1)) 1 h of (r, h') \<Rightarrow> (afterList cur target r, h', w))"
| "advance H j (Looking cur target) h w =
     (case kv_GetAtRevision (jb_kv j) (jb_key j) target w of (r, w') \<Rightarrow> (afterLook cur target r, h, w'))"
| "advance H j (Keeping cur prev) h w =
     (case hst_Save H \<lparr>vs_ClusterID = jb_cluster j, vs_Entry = prev, vs_CapturedAt = jb_clock j 0\<rparr> h of
        (r, h') \<Rightarrow> (afterSave (Archiving cur (Some (e_Value prev)) (Some (e_ModRevision cur)) ''etcd'') r, h', w))"
| "advance H j (Archiving cur v x src) h w =
     (case hst_Save H \<lparr>vs_ClusterID = jb_cluster j, vs_Entry = cur, vs_CapturedAt = jb_clock j (if src = [] then 0 else 1)\<rparr> h of
        (r, h') \<Rightarrow> (afterSave (Writing v x src) r, h', w))"
| "advance H j (Writing (Some val) x src) h w =
     (case kv_Put (jb_kv j) (jb_key j) val x w of
        (Inl err, w') \<Rightarrow> (Failed err, h, w')
      | (Inr revision, w') \<Rightarrow> (Finished revision src, h, w'))"
| "advance H j (Writing None x src) h w =
     (case kv_Delete (jb_kv j) (jb_key j) x w of
        (Inl err, w') \<Rightarrow> (Failed err, h, w')
      | (Inr (revision, deleted), w') \<Rightarrow> (if deleted then Finished revision src else Absent, h, w'))"
| "advance H j ph h w = (ph, h, w)"

text \<open>Alone, a request ends after at most six calls.\<close>

fun alone :: "nat \<Rightarrow> 'h HistoryStorage \<Rightarrow> 'w job \<Rightarrow> phase \<Rightarrow> 'h \<Rightarrow> 'w \<Rightarrow> phase \<times> 'h \<times> 'w" where
  "alone 0 H j ph h w = (ph, h, w)"
| "alone (Suc n) H j ph h w = (case advance H j ph h w of (ph', h', w') \<Rightarrow> alone n H j ph' h' w')"

definition solo :: "'h HistoryStorage \<Rightarrow> 'w job \<Rightarrow> 'h \<Rightarrow> 'w \<Rightarrow> phase \<times> 'h \<times> 'w" where
  "solo H j h w = alone 6 H j Reading h w"

text \<open>The answer and the state after the last call.\<close>

definition respond ::
    "phase \<times> 'h \<times> 'w \<Rightarrow> (int \<Rightarrow> string \<Rightarrow> ('r, 'h, 'w) Server \<Rightarrow> response \<times> ('r, 'h, 'w) Server) \<Rightarrow> ('r, 'h, 'w) Server \<Rightarrow>
      response \<times> ('r, 'h, 'w) Server" where
  "respond outcome finish s =
    (case outcome of (ph, h, w) \<Rightarrow>
       let s' = s\<lparr>sv_history := h, sv_etcd := w\<rparr> in
       case ph of
         Finished revision src \<Rightarrow> finish revision src s'
       | Failed err \<Rightarrow> (writeStoreError err, s')
       | Absent \<Rightarrow> (writeError 404 ''key_not_found'', s')
       | _ \<Rightarrow> panics s')"

lemma alone_final [simp]:
  "alone n H j (Failed err) h w = (Failed err, h, w)" "alone n H j Absent h w = (Absent, h, w)"
  "alone n H j (Finished k src) h w = (Finished k src, h, w)"
  by (induction n) simp_all

lemma alone_Writing [simp]:
  "alone (Suc n) H j (Writing v x src) h w = advance H j (Writing v x src) h w"
  by (cases v) (simp_all split: prod.split sum.split)

declare alone.simps(2) [simp del]

lemma alone_Archiving [simp]:
  "alone (Suc (Suc n)) H j (Archiving cur v x src) h w =
    (case hst_Save H \<lparr>vs_ClusterID = jb_cluster j, vs_Entry = cur, vs_CapturedAt = jb_clock j (if src = [] then 0 else 1)\<rparr> h of
       (Inl err, h') \<Rightarrow> (Failed (Wrap (Sentinel ErrLocalHistory) err), h', w)
     | (Inr _, h') \<Rightarrow> advance H j (Writing v x src) h' w)"
proof -
  let ?x = "\<lparr>vs_ClusterID = jb_cluster j, vs_Entry = cur, vs_CapturedAt = jb_clock j (if src = [] then 0 else 1)\<rparr>"
  obtain a h' where save: "hst_Save H ?x h = (a, h')" by fastforce
  then have "advance H j (Archiving cur v x src) h w = (afterSave (Writing v x src) a, h', w)" by simp
  then have "alone (Suc (Suc n)) H j (Archiving cur v x src) h w = alone (Suc n) H j (afterSave (Writing v x src) a) h' w"
    by (subst alone.simps(2)) simp
  then show ?thesis using save by (cases a) (simp_all add: afterSave_def)
qed

lemma solo_reads:
  "solo H j h w = (case kv_Get (jb_kv j) (jb_key j) w of (r, w') \<Rightarrow> alone 5 H j (afterGet (jb_work j) r) h w')"
  using alone.simps(2) [of 5 H j Reading h w] by (simp add: solo_def split: prod.split)

lemmas job_steps = respond_def archiveCurrent_def saveSnapshot_def call_simps eval_nat_numeral

lemma put_is_job:
  assumes "decodeJSON (dp_put D) r = Inr request" and "requestCanAccessCluster s ctx (pr_ClusterID request)"
    and "clusterKV D (pr_ClusterID request) s = (Inr (kv, cluster), s1)"
    and "decodeKey (pr_Key request) (pr_KeyBase64 request) = Some key" and "decodeValue request = Some val"
  shows "handlePutKey D e ctx r s =
    respond (solo (dp_history D) \<lparr>jb_cluster = c_ID cluster, jb_kv = kv, jb_key = key,
        jb_work = WPut val (pr_ExpectedModRevision request), jb_clock = rc_clock e\<rparr> (sv_history s1) (sv_etcd s1))
      (\<lambda>n _ s'. (writeJSON 200 (RevisionReply n), recordAudit D r ctx (putAudit request cluster key n) s')) s1"
proof -
  obtain a w where get: "kv_Get kv key (sv_etcd s1) = (a, w)" by fastforce
  consider err where "a = Inl err" | "a = Inr None" | cur where "a = Inr (Some cur)"
    by (cases a) auto
  then show ?thesis
    using assms get
    by cases (auto simp: handlePutKey_def requireClusterAccess_simps solo_reads job_steps Let_def
      split: sum.split option.split prod.split)
qed

lemma delete_is_job:
  assumes "clusterKVFromRequest D ctx r s = (Inr (kv, cluster), s1)" and "keyFromQuery r = Some key"
    and "optionalInt64 (rq_Query r ''expected_mod_revision'') = Inr expected"
  shows "handleDeleteKey D e ctx r s =
    respond (solo (dp_history D) \<lparr>jb_cluster = c_ID cluster, jb_kv = kv, jb_key = key, jb_work = WDelete expected,
        jb_clock = rc_clock e\<rparr> (sv_history s1) (sv_etcd s1))
      (\<lambda>n _ s'. (writeJSON 200 (DeletedReply n), recordAudit D r ctx (event ''key.delete'' ''key'' (c_ID cluster) (c_Name cluster)
         (auditKeyLabel key) (zhDeletedAs @ FormatInt n)) s')) s1"
proof -
  obtain a w where get: "kv_Get kv key (sv_etcd s1) = (a, w)" by fastforce
  consider err where "a = Inl err" | "a = Inr None" | cur where "a = Inr (Some cur)"
    by (cases a) auto
  then show ?thesis
    using assms get
    by cases (auto simp: handleDeleteKey_def solo_reads job_steps Let_def split: sum.split option.split prod.split)
qed

lemma alone_rollback [simp]:
  "alone (Suc n) H j (Listing cur q) h w =
    (case hst_ListBefore H (jb_cluster j) (jb_key j) (wrap64 (q + 1)) 1 h of (r, h') \<Rightarrow> alone n H j (afterList cur q r) h' w)"
  "alone (Suc n) H j (Looking cur q) h w =
    (case kv_GetAtRevision (jb_kv j) (jb_key j) q w of (r, w') \<Rightarrow> alone n H j (afterLook cur q r) h w')"
  "alone (Suc n) H j (Keeping cur prev) h w =
    (case hst_Save H \<lparr>vs_ClusterID = jb_cluster j, vs_Entry = prev, vs_CapturedAt = jb_clock j 0\<rparr> h of
       (r, h') \<Rightarrow> alone n H j (afterSave (Archiving cur (Some (e_Value prev)) (Some (e_ModRevision cur)) ''etcd'') r) h' w)"
  by (simp_all add: alone.simps(2) split: prod.split)

text \<open>A rollback that has found its version: what is left to do.\<close>

definition found_phase :: "Entry \<Rightarrow> Entry \<Rightarrow> string \<Rightarrow> phase" where
  "found_phase cur prev src =
    (if src = ''etcd'' then Keeping cur prev else Archiving cur (Some (e_Value prev)) (Some (e_ModRevision cur)) ''storage'')"

lemma target_is_phase:
  assumes "rollbackTarget D (jb_cluster j) (jb_kv j) (jb_key j) expected target s = (res, s2)"
    and "jb_work j = WRollback expected target"
  shows "case res of
      Inl err \<Rightarrow> solo (dp_history D) j (sv_history s) (sv_etcd s) = (Failed err, sv_history s2, sv_etcd s2) \<and>
        s2 = s\<lparr>sv_history := sv_history s2, sv_etcd := sv_etcd s2\<rparr>
    | Inr (cur, prev, src, at) \<Rightarrow> e_ModRevision prev = target \<and> src \<in> {''storage'', ''etcd''} \<and>
        s2 = s\<lparr>sv_history := sv_history s2, sv_etcd := sv_etcd s2\<rparr> \<and>
        (\<exists>n. solo (dp_history D) j (sv_history s) (sv_etcd s) =
           alone (Suc (Suc (Suc n))) (dp_history D) j (found_phase cur prev src) (sv_history s2) (sv_etcd s2))"
proof -
  obtain a w where get: "kv_Get (jb_kv j) (jb_key j) (sv_etcd s) = (a, w)" by fastforce
  obtain l h where list: "hst_ListBefore (dp_history D) (jb_cluster j) (jb_key j) (wrap64 (target + 1)) 1 (sv_history s) = (l, h)" by fastforce
  obtain b v where at: "kv_GetAtRevision (jb_kv j) (jb_key j) target w = (b, v)" by fastforce
  consider (stop) err where "afterGet (WRollback expected target) a = Failed err"
    | (go) cur where "afterGet (WRollback expected target) a = Listing cur target" "a = Inr (Some cur)"
      "e_ModRevision cur = expected" "\<not> (target < 1 \<or> e_ModRevision cur \<le> target)"
  proof -
    consider err where "a = Inl err" | "a = Inr None" | cur where "a = Inr (Some cur)" by (cases a) auto
    then show thesis
    proof cases
      case (3 cur)
      show thesis
      proof (cases "e_ModRevision cur = expected \<and> \<not> (target < 1 \<or> e_ModRevision cur \<le> target)")
        case True
        then show thesis using that(2) [of cur] 3 by simp
      next
        case False
        then show thesis
          using that(1) [of "Sentinel (if e_ModRevision cur \<noteq> expected then ErrConflict else ErrNoPreviousVersion)"] 3 by auto
      qed
    qed (use that(1) in auto)
  qed
  then show ?thesis
  proof cases
    case stop
    have "(res, s2) = (Inl err, s\<lparr>sv_etcd := w\<rparr>)"
      using assms(1) stop get
      by (cases "(WRollback expected target, a)" rule: afterGet.cases)
        (auto simp: rollbackTarget_def call_simps split: if_splits)
    then show ?thesis using stop get assms(2) by (simp add: solo_reads)
  next
    case go
    have run: "solo (dp_history D) j (sv_history s) (sv_etcd s) = alone 4 (dp_history D) j (afterList cur target l) h w"
      using go(1) get list assms(2) by (simp add: solo_reads eval_nat_numeral)
    consider (failed) e where "l = Inl e" | (stored) snaps where "l = Inr snaps" "snaps \<noteq> []" "vs_rev (hd snaps) = target"
      | (old) snaps where "l = Inr snaps" "\<not> (snaps \<noteq> [] \<and> vs_rev (hd snaps) = target)"
      by (cases l) auto
    then show ?thesis
    proof cases
      case failed
      then show ?thesis using assms(1) go(2-) get list run by (auto simp: rollbackTarget_def call_simps afterList_def)
    next
      case stored
      then show ?thesis using assms(1) go(2-) get list run
        by (auto simp: rollbackTarget_def call_simps afterList_def found_phase_def eval_nat_numeral)
    next
      case old
      then have "afterList cur target l = Looking cur target" by (auto simp: afterList_def)
      then have "alone 4 (dp_history D) j (afterList cur target l) h w = alone 3 (dp_history D) j (afterLook cur target b) h v"
        using at by (simp add: eval_nat_numeral)
      then show ?thesis
        using assms(1) go(2-) get list run old at
        by (auto simp: rollbackTarget_def call_simps afterLook_def found_phase_def eval_nat_numeral split: sum.splits option.splits if_splits)
    qed
  qed
qed

lemma found_is_phase:
  assumes "archiveRollback D e (jb_cluster j) cur prev src s = (a, s3)" and "jb_clock j = rc_clock e" and "src \<in> {''storage'', ''etcd''}"
    and "s = s1\<lparr>sv_history := sv_history s, sv_etcd := sv_etcd s\<rparr>"
  shows "respond (alone (Suc (Suc (Suc n))) (dp_history D) j (found_phase cur prev src) (sv_history s) (sv_etcd s)) finish s1 =
    (case a of
       Some err \<Rightarrow> (writeStoreError err, s3)
     | None \<Rightarrow>
         (case call_etcd (kv_Put (jb_kv j) (jb_key j) (e_Value prev) (Some (e_ModRevision cur))) s3 of
            (Inl err, s4) \<Rightarrow> (writeStoreError err, s4)
          | (Inr revision, s4) \<Rightarrow> finish revision src s4))"
proof -
  let ?keep = "\<lparr>vs_ClusterID = jb_cluster j, vs_Entry = prev, vs_CapturedAt = rc_clock e 0\<rparr>"
  let ?arch = "\<lparr>vs_ClusterID = jb_cluster j, vs_Entry = cur, vs_CapturedAt = rc_clock e 1\<rparr>"
  obtain k h where keep: "hst_Save (dp_history D) ?keep (sv_history s) = (k, h)" by fastforce
  let ?h = "if src = ''etcd'' then h else sv_history s"
  obtain b h' where arch: "hst_Save (dp_history D) ?arch ?h = (b, h')" by fastforce
  have state: "s1\<lparr>sv_history := x, sv_etcd := y\<rparr> = s\<lparr>sv_history := x, sv_etcd := y\<rparr>" for x y
    by (subst assms(4)) simp
  show ?thesis
    using assms(1-3) keep arch
    by (cases k; cases b)
      (auto simp: found_phase_def archiveRollback_def saveSnapshot_def call_simps respond_def afterSave_def state
        split: sum.splits if_splits prod.splits)
qed

lemma rollback_is_job:
  assumes "decodeJSON (dp_rollback D) r = Inr request" and "rr_ExpectedModRevision request = Some expected"
    and "1 \<le> expected" and "rr_TargetModRevision request = Some target" and "1 \<le> target" and "target < expected"
    and "requestCanAccessCluster s ctx (rr_ClusterID request)" and "clusterKV D (rr_ClusterID request) s = (Inr (kv, cluster), s1)"
    and "decodeKey (rr_Key request) (rr_KeyBase64 request) = Some key"
  shows "handleRollbackKey D e ctx r s =
    respond (solo (dp_history D) \<lparr>jb_cluster = c_ID cluster, jb_kv = kv, jb_key = key, jb_work = WRollback expected target,
        jb_clock = rc_clock e\<rparr> (sv_history s1) (sv_etcd s1))
      (\<lambda>n src s'. (writeJSON 200 (RollbackReply n target src), recordAudit D r ctx (event ''key.rollback'' ''key'' (c_ID cluster)
         (c_Name cluster) (auditKeyLabel key) (zhRolledBackFrom @ FormatInt target @ zhRolledBackTo @ FormatInt n)) s')) s1"
proof -
  let ?j = "\<lparr>jb_cluster = c_ID cluster, jb_kv = kv, jb_key = key, jb_work = WRollback expected target, jb_clock = rc_clock e\<rparr>"
  obtain res s2 where target: "rollbackTarget D (c_ID cluster) kv key expected target s1 = (res, s2)" by fastforce
  have access: "requireClusterAccess s ctx (rr_ClusterID request) = None"
    using assms(7) by (simp add: requireClusterAccess_simps)
  note phase = target_is_phase [of D ?j, simplified, OF target]
  show ?thesis
  proof (cases res)
    case (Inl err)
    have "handleRollbackKey D e ctx r s = (writeStoreError err, s2)"
      using assms target Inl by (simp add: handleRollbackKey_def access)
    with phase Inl show ?thesis by (simp add: respond_def Let_def)
  next
    case (Inr x)
    obtain cur prev src at where x: "res = Inr (cur, prev, src, at)" using Inr by (cases x) auto
    obtain a s3 where archived: "archiveRollback D e (c_ID cluster) cur prev src s2 = (a, s3)" by fastforce
    have prev: "e_ModRevision prev = target" using phase x by simp
    have handler: "handleRollbackKey D e ctx r s =
      (case a of
         Some err \<Rightarrow> (writeStoreError err, s3)
       | None \<Rightarrow>
           (case call_etcd (kv_Put kv key (e_Value prev) (Some (e_ModRevision cur))) s3 of
              (Inl err, s4) \<Rightarrow> (writeStoreError err, s4)
            | (Inr revision, s4) \<Rightarrow>
                (writeJSON 200 (RollbackReply revision target src), recordAudit D r ctx (event ''key.rollback'' ''key'' (c_ID cluster)
                  (c_Name cluster) (auditKeyLabel key) (zhRolledBackFrom @ FormatInt target @ zhRolledBackTo @ FormatInt revision)) s4)))"
      using assms target x archived unfolding prev [symmetric] by (simp add: handleRollbackKey_def access)
    obtain n where n: "solo (dp_history D) ?j (sv_history s1) (sv_etcd s1) =
        alone (Suc (Suc (Suc n))) (dp_history D) ?j (found_phase cur prev src) (sv_history s2) (sv_etcd s2)"
      and rest: "src \<in> {''storage'', ''etcd''}" "s2 = s1\<lparr>sv_history := sv_history s2, sv_etcd := sv_etcd s2\<rparr>"
      using phase x by auto
    have tail: "archiveRollback D e (jb_cluster ?j) cur prev src s2 = (a, s3)" "jb_clock ?j = rc_clock e"
      using archived by simp_all
    show ?thesis
      unfolding n handler found_is_phase [OF tail rest] by (cases a) simp_all
  qed
qed


end
