(* ===== verification/Server_Concurrent.thy ===== *)
theory Server_Concurrent
  imports Server_Jobs
begin

text \<open>
  Many requests on keys at a time. The calls of the requests of \<open>Server_Jobs\<close> interleave in any
  order with each other, with readers, with audit events, and with other clients of the
  etcd cluster. Two promises of the program survive this: a write that names the revision it
  replaces has the replaced value in the history before it takes effect, and of all requests on a
  key that name the same revision one at most is done.
\<close>

section \<open>The newest snapshot of a key stays\<close>

text \<open>
  What a request relies on when others save and prune meanwhile: no save takes away the
  newest snapshot of a key without a newer one in its place.
\<close>

locale newest_storage = value_storage +
  assumes save_newest: "invar h \<Longrightarrow> hst_Save H x h = (r, h') \<Longrightarrow> y \<in> set (stored h c k) \<Longrightarrow>
      \<exists>z \<in> set (stored h' c k). vs_rev y \<le> vs_rev z"

lemma take_newest:
  assumes "desc_by vs_rev xs" and "y \<in> set xs" and "0 < n"
  shows "\<exists>z \<in> set (take n xs). vs_rev y \<le> vs_rev z"
proof -
  obtain x xs' m where "xs = x # xs'" "n = Suc m" using assms(2,3) by (cases xs; cases n) auto
  with assms(1,2) show ?thesis by (auto simp: desc_by_def)
qed

lemma FileHistory_PruneKey_newest:
  assumes "fh_inv h" and "0 \<le> keep" and "FileHistory_PruneKey C rf c k keep (h, fs) = (r, (h', fs'))"
    and "y \<in> set (fh_abs h c' k')"
  shows "\<exists>z \<in> set (fh_abs h' c' k'). vs_rev y \<le> vs_rev z"
proof -
  let ?es = "fh_entries h" and ?ek = "historyEntryKey c k"
  let ?kept = "take (nat keep) (sort_desc vs_rev (entries_at ?es ?ek))"
  consider "h' = h" | "fh_entries h' = AList.update ?ek ?kept ?es" "keep \<noteq> 0"
    using assms(3) replaceEntriesLocked_cases [of C rf "AList.update ?ek ?kept ?es" h fs r h' fs']
    by (auto simp: FileHistory_PruneKey_def Let_def newestSnapshots_def split: if_splits)
  then show ?thesis
  proof cases
    case 2
    show ?thesis
    proof (cases "historyEntryKey c' k' = ?ek")
      case True
      then have "y \<in> set (sort_desc vs_rev (entries_at ?es ?ek))" using assms(4) by (simp add: set_abs)
      from take_newest [OF _ this, of "nat keep"] 2 assms(2) True show ?thesis
        by (simp add: set_abs)
    next
      case False
      with 2(1) assms(4) show ?thesis by (auto simp: set_abs)
    qed
  qed (use assms(4) in blast)
qed

lemma local_save_newest:
  assumes "fh_inv h" and "0 \<le> keep"
    and "save_and_prune (FileHistory_Save C now io x) (FileHistory_PruneKey C rf (vs_ClusterID x) (vs_key x) keep) (h, fs) = (r, (h', fs'))"
    and "y \<in> set (fh_abs h c k)"
  shows "\<exists>z \<in> set (fh_abs h' c k). vs_rev y \<le> vs_rev z"
proof -
  have inv: "case (h, fs) of (h, fs) \<Rightarrow> fh_inv h" using assms(1) by simp
  obtain a h1 fs1 where save: "FileHistory_Save C now io x (h, fs) = (a, (h1, fs1))" by (metis surj_pair)
  show ?thesis
  proof (cases a)
    case (Inl err)
    with save fh.save_err [OF inv, of C now io x err "(h1, fs1)" c k] assms(3,4) show ?thesis
      by (auto simp: save_and_prune_def)
  next
    case (Inr u)
    with save have "FileHistory_Save C now io x (h, fs) = (Inr (), (h1, fs1))" by simp
    from fh.save_ok [OF inv this, of c k] have "y \<in> set (fh_abs h1 c k)"
      using assms(4) ins_snapshot_superset by (auto split: if_splits)
    moreover have "FileHistory_PruneKey C rf (vs_ClusterID x) (vs_key x) keep (h1, fs1) = (r, (h', fs'))"
      using assms(3) save Inr by (simp add: save_and_prune_def)
    ultimately show ?thesis
      using FileHistory_PruneKey_newest [OF FileHistory_Save_inv [OF assms(1) save] assms(2)] by blast
  qed
qed

interpretation hm_newest: newest_storage "manager_storage U P (local_ops V C A) e0" mgr_inv mgr_stored for U P V C A e0
proof (unfold_locales, goal_cases)
  case (1 g x r g' y c k)
  obtain m d w m' w' where g: "mg_state g = (m, d, w)" "mg_state g' = (m', d, w')"
    and save: "HistoryManager_Save (local_ops V C A) (ml_env (mgr_env e0 g)) x (m, w) = (r, (m', w'))"
    using 1(2) by (auto simp: manager_storage_def elim: mgr_update_eq)
  from save show ?case
  proof (cases rule: manager_Save_cases)
    case 1
    then show ?thesis using \<open>y \<in> set (mgr_stored g c k)\<close> g by (auto simp: mgr_stored_def)
  next
    case (2 b h')
    then have "fh_inv (lb_history b)" "0 \<le> hm_retentionVersions m"
      using 1(1) g by (simp_all add: mgr_inv_def)
    from local_save_newest [OF this 2(3)] show ?thesis
      using 1(3) g 2(1,2) by (simp add: mgr_stored_def)
  qed
qed

section \<open>Many requests at a time\<close>

record ('h, 'w) system =
  sy_history :: 'h
  sy_etcd :: 'w
  sy_jobs :: "nat \<Rightarrow> ('w job \<times> phase) option"

text \<open>
  A request may arrive at any time, for any cluster, and name a revision that it has
  read; any request may make its next call; readers and audit events use the storage; and other
  clients write to the cluster \<open>c\<close>.
\<close>

inductive interleave ::
    "'h HistoryStorage \<Rightarrow> string \<Rightarrow> ('w \<Rightarrow> mvcc) \<Rightarrow> ('h, 'w) system \<Rightarrow> ('h, 'w) system \<Rightarrow> bool" for H c st s where
  arrive: "sy_jobs s i = None \<Longrightarrow> client_for c st (jb_kv j) (jb_cluster j) \<Longrightarrow>
    jb_cluster j = c \<longrightarrow> (\<forall>m. wanted (jb_work j) = Some m \<longrightarrow> m \<le> mv_rev (st (sy_etcd s))) \<Longrightarrow>
    interleave H c st s (s\<lparr>sy_jobs := (sy_jobs s)(i \<mapsto> (j, Reading))\<rparr>)"
| call: "sy_jobs s i = Some (j, ph) \<Longrightarrow> advance H j ph (sy_history s) (sy_etcd s) = (ph', h, w) \<Longrightarrow>
    interleave H c st s (s\<lparr>sy_history := h, sy_etcd := w, sy_jobs := (sy_jobs s)(i \<mapsto> (j, ph'))\<rparr>)"
| event: "hst_SaveAudit H ev (sy_history s) = (a, h) \<Longrightarrow> interleave H c st s (s\<lparr>sy_history := h\<rparr>)"
| look: "hst_ListBefore H c' k q n (sy_history s) = (l, h) \<Longrightarrow> interleave H c st s (s\<lparr>sy_history := h\<rparr>)"
| others: "mvcc_le (st (sy_etcd s)) (st w) \<Longrightarrow> interleave H c st s (s\<lparr>sy_etcd := w\<rparr>)"

text \<open>What a phase knows of the etcd cluster and of the snapshots of its key.\<close>

definition seen :: "mvcc \<Rightarrow> bytes \<Rightarrow> Entry \<Rightarrow> bool" where
  "seen m k e \<longleftrightarrow> e_Key e = k \<and> e_ModRevision e \<le> mv_rev m \<and> at_rev m k (e_ModRevision e) = Some e"

definition gone :: "mvcc \<Rightarrow> bytes \<Rightarrow> int \<Rightarrow> bool" where
  "gone m k q \<longleftrightarrow> (\<forall>u. mvcc_le m u \<longrightarrow> mod_rev u k \<noteq> q)"

fun phase_ok :: "work \<Rightarrow> bytes \<Rightarrow> ValueSnapshot list \<Rightarrow> mvcc \<Rightarrow> phase \<Rightarrow> bool" where
  "phase_ok wk k snaps m (Listing cur q) = (seen m k cur \<and> wanted wk = Some (e_ModRevision cur))"
| "phase_ok wk k snaps m (Looking cur q) = (seen m k cur \<and> wanted wk = Some (e_ModRevision cur))"
| "phase_ok wk k snaps m (Keeping cur prev) = (seen m k cur \<and> seen m k prev \<and> wanted wk = Some (e_ModRevision cur))"
| "phase_ok wk k snaps m (Archiving cur v x src) =
     (seen m k cur \<and> x = wanted wk \<and> (\<forall>q. x = Some q \<longrightarrow> e_ModRevision cur = q))"
| "phase_ok wk k snaps m (Writing v x src) =
     (x = wanted wk \<and> (\<forall>q. x = Some q \<and> q \<noteq> 0 \<longrightarrow> gone m k q \<or> (\<exists>y \<in> set snaps. q \<le> vs_rev y)))"
| "phase_ok wk k snaps m (Finished n src) = (\<forall>q. wanted wk = Some q \<and> q \<noteq> 0 \<longrightarrow> gone m k q)"
| "phase_ok wk k snaps m ph = True"

lemma seen_later: "seen m k e \<Longrightarrow> mvcc_le m m' \<Longrightarrow> seen m' k e"
  using at_rev_stable [of m m' "e_ModRevision e" k] mvcc_le_rev(1) [of m m'] by (auto simp: seen_def)

lemma gone_later: "gone m k q \<Longrightarrow> mvcc_le m m' \<Longrightarrow> gone m' k q"
  using mvcc_le_trans [of m m'] by (auto simp: gone_def)

lemma seen_current: "mvcc_inv g \<Longrightarrow> current g k = Some e \<Longrightarrow> mvcc_le g m \<Longrightarrow> seen m k e"
  using current_recorded [of g k e m] current_entry(1) [of g k e] by (simp add: seen_def)

lemma seen_at: "mvcc_inv m \<Longrightarrow> at_rev m k q = Some e \<Longrightarrow> seen m k e"
  using at_rev_entry [of m k q e] at_rev_between [of m k q e "e_ModRevision e"] by (simp add: seen_def)

text \<open>A revision that a key does not have, although it is not in the future, it will never have.\<close>

lemma gone_absent:
  assumes "mvcc_inv g" and "mod_rev g k \<noteq> q" and "q \<noteq> 0" and "q \<le> mv_rev g"
  shows "gone g k q"
  unfolding gone_def
proof (intro allI impI notI)
  fix u
  assume u: "mvcc_le g u" and again: "mod_rev u k = q"
  then obtain e where "current u k = Some e" "e_ModRevision e = q"
    using assms(3) by (auto simp: mod_rev_def split: option.splits)
  then have "current g k = Some e" using current_unchanged [OF u] assms(4) by simp
  with \<open>e_ModRevision e = q\<close> assms(2) show False by (simp add: mod_rev_def)
qed

lemma phase_ok_later:
  assumes "phase_ok wk k snaps m ph" and "mvcc_le m m'" and "\<forall>y \<in> set snaps. \<exists>z \<in> set snaps'. vs_rev y \<le> vs_rev z"
  shows "phase_ok wk k snaps' m' ph"
  using assms(1) seen_later [OF _ assms(2)] gone_later [OF _ assms(2)] assms(3)
  by (cases ph) (fastforce intro: order_trans)+

definition shared_ok ::
    "('h \<Rightarrow> bool) \<Rightarrow> ('h \<Rightarrow> string \<Rightarrow> bytes \<Rightarrow> ValueSnapshot list) \<Rightarrow> ('w \<Rightarrow> mvcc) \<Rightarrow> string \<Rightarrow> 'h \<Rightarrow> 'w \<Rightarrow> bool" where
  "shared_ok invar stored st c h w \<longleftrightarrow> mvcc_inv (st w) \<and> invar h \<and> truthful (stored h) c (st w)"

definition goes_on ::
    "('h \<Rightarrow> string \<Rightarrow> bytes \<Rightarrow> ValueSnapshot list) \<Rightarrow> ('w \<Rightarrow> mvcc) \<Rightarrow> string \<Rightarrow> 'h \<Rightarrow> 'w \<Rightarrow> 'h \<Rightarrow> 'w \<Rightarrow> bool" where
  "goes_on stored st c h w h' w' \<longleftrightarrow> mvcc_le (st w) (st w') \<and>
     (\<forall>k. \<forall>y \<in> set (stored h c k). \<exists>z \<in> set (stored h' c k). vs_rev y \<le> vs_rev z)"

context newest_storage begin

lemma etcd_goes_on:
  assumes "shared_ok invar stored st c h w" and "mvcc_le (st w) (st w')"
  shows "shared_ok invar stored st c h w'" "goes_on stored st c h w h w'"
  using assms mvcc_le_inv truthful_later by (auto simp: shared_ok_def goes_on_def)

lemma call_goes_on:
  assumes "shared_ok invar stored st c h w" and "client_for c st K c'" and "kv_step K w w'"
  shows "shared_ok invar stored st c h w'" "goes_on stored st c h w h w'"
  using assms etcd_goes_on [OF assms(1), of w'] by (auto simp: client_for_def moves_def shared_ok_def)

lemma same_goes_on:
  assumes "shared_ok invar stored st c h w" and "invar h'" and "stored h' = stored h"
  shows "shared_ok invar stored st c h' w" "goes_on stored st c h w h' w"
  using assms mvcc_le_refl by (auto simp: shared_ok_def goes_on_def)

lemma save_goes_on:
  assumes "shared_ok invar stored st c h w" and "hst_Save H \<lparr>vs_ClusterID = c', vs_Entry = e, vs_CapturedAt = t\<rparr> h = (r, h')"
    and "c' = c \<longrightarrow> seen (st w) (e_Key e) e"
  shows "shared_ok invar stored st c h' w" "goes_on stored st c h w h' w"
proof -
  have inv: "invar h" "mvcc_inv (st w)" "truthful (stored h) c (st w)" using assms(1) by (simp_all add: shared_ok_def)
  have "truthful (stored h') c (st w)"
    using save_adds [OF inv(1) assms(2)] inv(3) assms(3) by (fastforce simp: truthful_def seen_def)
  then show "shared_ok invar stored st c h' w" using inv save_invar [OF inv(1) assms(2)] by (simp add: shared_ok_def)
  show "goes_on stored st c h w h' w"
    using save_newest [OF inv(1) assms(2)] mvcc_le_refl [OF inv(2)] by (simp add: goes_on_def)
qed

lemma advance_goes_on:
  assumes "shared_ok invar stored st c h w" and "client_for c st (jb_kv j) (jb_cluster j)"
    and "jb_cluster j = c \<longrightarrow> phase_ok (jb_work j) (jb_key j) snaps (st w) ph" and "advance H j ph h w = (ph', h', w')"
  shows "shared_ok invar stored st c h' w' \<and> goes_on stored st c h w h' w'"
proof -
  note step = call_goes_on [OF assms(1,2)] and keep = save_goes_on [OF assms(1)]
  have idle: "shared_ok invar stored st c h w \<and> goes_on stored st c h w h w"
    using assms(1) mvcc_le_refl by (auto simp: shared_ok_def goes_on_def)
  show ?thesis
  proof (cases ph)
    case (Listing cur q)
    then obtain r where "hst_ListBefore H (jb_cluster j) (jb_key j) (wrap64 (q + 1)) 1 h = (r, h')" "w' = w"
      using assms(4) by (auto split: prod.splits)
    with same_goes_on [OF assms(1)] list_law [of h "jb_cluster j" "jb_key j" "wrap64 (q + 1)" 1 r h'] assms(1)
    show ?thesis by (auto simp: shared_ok_def)
  next
    case (Keeping cur prev)
    then obtain r where "hst_Save H \<lparr>vs_ClusterID = jb_cluster j, vs_Entry = prev, vs_CapturedAt = jb_clock j 0\<rparr> h = (r, h')" "w' = w"
      using assms(4) by (auto split: prod.splits)
    with keep [OF this(1)] Keeping assms(3) show ?thesis by (auto simp: seen_def)
  next
    case (Archiving cur v x src)
    then obtain r t where "hst_Save H \<lparr>vs_ClusterID = jb_cluster j, vs_Entry = cur, vs_CapturedAt = t\<rparr> h = (r, h')" "w' = w"
      using assms(4) by (auto simp del: if_split split: prod.splits)
    with keep [OF this(1)] Archiving assms(3) show ?thesis by (auto simp: seen_def)
  next
    case (Writing v x src)
    then have "h' = h \<and> kv_step (jb_kv j) w w'"
      using assms(4) by (cases v) (auto split: prod.splits sum.splits intro: kv_step.put kv_step.delete)
    with step show ?thesis by blast
  next
    case Reading
    then have "h' = h \<and> kv_step (jb_kv j) w w'"
      using assms(4) by (auto split: prod.splits intro: kv_step.get)
    with step show ?thesis by blast
  next
    case (Looking cur q)
    then have "h' = h \<and> kv_step (jb_kv j) w w'"
      using assms(4) by (auto split: prod.splits intro: kv_step.at)
    with step show ?thesis by blast
  qed (use assms(4) idle in simp_all)
qed

text \<open>What a call finds out.\<close>

lemma write_gone:
  assumes "mvcc_inv t" and "t' = mdelete key t \<or> (\<exists>v. t' = mput key v t)" and "mod_rev t key = m" and "m \<noteq> 0"
    and "mvcc_le t' u"
  shows "gone u key m"
  unfolding gone_def using revision_gone [OF assms(1-4)] mvcc_le_trans [OF assms(5)] by blast

lemma read_phase:
  assumes "shared_ok invar stored st c h w" and "kv_store K st" and "kv_Get K key w = (r, w')"
    and "\<forall>m. wanted wk = Some m \<longrightarrow> m \<le> mv_rev (st w)"
  shows "phase_ok wk key snaps (st w') (afterGet wk r)"
proof -
  have inv: "mvcc_inv (st w)" using assms(1) by (simp add: shared_ok_def)
  note law = kv_store.kv_get [OF assms(2) inv assms(3)]
  show ?thesis
  proof (cases r)
    case (Inr found)
    then obtain g where g: "mvcc_le (st w) g" "mvcc_le g (st w')" "found = current g key" using law by blast
    have g_inv: "mvcc_inv g" by (rule mvcc_le_inv [OF g(1)])
    show ?thesis
    proof (cases found)
      case None
      then have "mod_rev g key = 0" using g(3) by (simp add: mod_rev_def)
      then have "gone (st w') key q" if "wanted wk = Some q" "q \<noteq> 0" for q
        using gone_absent [OF g_inv, of key q] gone_later [OF _ g(2)] that assms(4) mvcc_le_rev(1) [OF g(1)] by force
      with Inr None show ?thesis by (cases wk) auto
    next
      case (Some cur)
      then have "seen (st w') key cur" using seen_current [OF g_inv _ g(2)] g(3) by simp
      with Inr Some show ?thesis by (cases wk) auto
    qed
  qed simp
qed

lemma written_phase:
  assumes "kv_store K st" and "mvcc_inv (st w)" and "x = wanted wk"
  shows "kv_Put K key val x w = (Inr n, w') \<Longrightarrow> phase_ok wk key snaps (st w') (Finished n src)"
    and "kv_Delete K key x w = (Inr (n, True), w') \<Longrightarrow> phase_ok wk key snaps (st w') (Finished n src)"
proof -
  have taken: "phase_ok wk key snaps (st w') (Finished n src)"
    if "mvcc_inv t" "\<forall>m. x = Some m \<longrightarrow> mod_rev t key = m" "mvcc_le t' (st w')" "t' = mdelete key t \<or> (\<exists>v. t' = mput key v t)" for t t'
    using write_gone [OF that(1,4) _ _ that(3)] that(2) assms(3) by auto
  show "phase_ok wk key snaps (st w') (Finished n src)" if put: "kv_Put K key val x w = (Inr n, w')"
  proof -
    obtain t where t: "mvcc_le (st w) t" "\<forall>m. x = Some m \<longrightarrow> mod_rev t key = m" "mvcc_le (mput key val t) (st w')"
      using kv_store.kv_put [OF assms(1,2) put] by blast
    show ?thesis by (rule taken [OF mvcc_le_inv [OF t(1)] t(2,3)]) blast
  qed
  show "phase_ok wk key snaps (st w') (Finished n src)" if del: "kv_Delete K key x w = (Inr (n, True), w')"
  proof -
    obtain t where t: "mvcc_le (st w) t" "\<forall>m. x = Some m \<longrightarrow> mod_rev t key = m" "mvcc_le (mdelete key t) (st w')"
      using kv_store.kv_delete [OF assms(1,2) del] by auto
    show ?thesis by (rule taken [OF mvcc_le_inv [OF t(1)] t(2,3)]) blast
  qed
qed

lemma archived_phase:
  assumes "invar h" and "hst_Save H \<lparr>vs_ClusterID = c, vs_Entry = cur, vs_CapturedAt = t\<rparr> h = (r, h')"
    and "phase_ok wk key snaps m (Archiving cur v x src)"
  shows "phase_ok wk key (stored h' c key) m (afterSave (Writing v x src) r)"
proof (cases r)
  case (Inr u)
  then have "hst_Save H \<lparr>vs_ClusterID = c, vs_Entry = cur, vs_CapturedAt = t\<rparr> h = (Inr (), h')" using assms(2) by simp
  then obtain y where "y \<in> set (stored h' c (e_Key cur))" "e_ModRevision cur \<le> vs_rev y"
    using save_keeps [OF assms(1)] by fastforce
  with assms(3) Inr show ?thesis by (auto simp: afterSave_def seen_def)
qed (simp add: afterSave_def)

lemma looked_phase:
  assumes "kv_store K st" and "mvcc_inv (st w)" and "kv_GetAtRevision K key q w = (r, w')"
    and "phase_ok wk key snaps (st w) (Looking cur q)"
  shows "phase_ok wk key snaps' (st w') (afterLook cur q r)"
proof -
  note law = kv_store.kv_at [OF assms(1-3)]
  then have le: "mvcc_le (st w) (st w')" by blast
  have "seen (st w') key prev" if "r = Inr (Some prev)" for prev
    using law that seen_at [OF mvcc_le_inv [OF le], of key q prev] by simp
  moreover have "seen (st w') key cur" using seen_later [OF _ le] assms(4) by simp
  ultimately show ?thesis using assms(4) by (auto simp: afterLook_def split: sum.split option.split)
qed

lemma advance_phase:
  assumes "shared_ok invar stored st c h w" and "kv_store (jb_kv j) st" and "jb_cluster j = c"
    and "\<forall>m. wanted (jb_work j) = Some m \<longrightarrow> m \<le> mv_rev (st w)"
    and "phase_ok (jb_work j) (jb_key j) (stored h c (jb_key j)) (st w) ph" and "advance H j ph h w = (ph', h', w')"
  shows "phase_ok (jb_work j) (jb_key j) (stored h' c (jb_key j)) (st w') ph'"
proof -
  have inv: "invar h" "mvcc_inv (st w)" using assms(1) by (simp_all add: shared_ok_def)
  show ?thesis
  proof (cases ph)
    case Reading
    with assms(6) show ?thesis
      by (auto split: prod.splits intro: read_phase [OF assms(1,2) _ assms(4)])
  next
    case (Listing cur q)
    with assms(5,6) show ?thesis
      by (auto simp: afterList_def split: prod.splits sum.split)
  next
    case (Looking cur q)
    with assms(5,6) show ?thesis
      by (auto split: prod.splits intro: looked_phase [OF assms(2) inv(2)])
  next
    case (Keeping cur prev)
    with assms(5,6) show ?thesis
      by (auto simp: afterSave_def split: prod.splits sum.split)
  next
    case (Archiving cur v x src)
    with assms(3,5,6) archived_phase [OF inv(1)] show ?thesis
      by (auto simp del: if_split phase_ok.simps split: prod.splits)
  next
    case (Writing v x src)
    then have "x = wanted (jb_work j)" using assms(5) by simp
    from written_phase [OF assms(2) inv(2) this] Writing assms(6) show ?thesis
      by (cases v) (auto simp del: phase_ok.simps(6) split: prod.splits sum.splits if_splits)
  qed (use assms(5,6) in auto)
qed

end

section \<open>What holds in every state\<close>

definition job_ok ::
    "('h \<Rightarrow> string \<Rightarrow> bytes \<Rightarrow> ValueSnapshot list) \<Rightarrow> ('w \<Rightarrow> mvcc) \<Rightarrow> string \<Rightarrow> 'h \<Rightarrow> 'w \<Rightarrow> 'w job \<Rightarrow> phase \<Rightarrow> bool" where
  "job_ok stored st c h w j ph \<longleftrightarrow> client_for c st (jb_kv j) (jb_cluster j) \<and>
     (jb_cluster j = c \<longrightarrow> (\<forall>m. wanted (jb_work j) = Some m \<longrightarrow> m \<le> mv_rev (st w)) \<and>
        phase_ok (jb_work j) (jb_key j) (stored h c (jb_key j)) (st w) ph)"

definition finished :: "string \<Rightarrow> (nat \<Rightarrow> ('w job \<times> phase) option) \<Rightarrow> bytes \<Rightarrow> int \<Rightarrow> nat \<Rightarrow> bool" where
  "finished c jobs k q i \<longleftrightarrow>
    (\<exists>j n src. jobs i = Some (j, Finished n src) \<and> jb_cluster j = c \<and> jb_key j = k \<and> wanted (jb_work j) = Some q)"

definition system_ok ::
    "('h \<Rightarrow> bool) \<Rightarrow> ('h \<Rightarrow> string \<Rightarrow> bytes \<Rightarrow> ValueSnapshot list) \<Rightarrow> ('w \<Rightarrow> mvcc) \<Rightarrow> string \<Rightarrow> ('h, 'w) system \<Rightarrow> bool" where
  "system_ok invar stored st c s \<longleftrightarrow> shared_ok invar stored st c (sy_history s) (sy_etcd s) \<and>
     (\<forall>i j ph. sy_jobs s i = Some (j, ph) \<longrightarrow> job_ok stored st c (sy_history s) (sy_etcd s) j ph) \<and>
     (\<forall>k q i i'. finished c (sy_jobs s) k q i \<and> finished c (sy_jobs s) k q i' \<and> q \<noteq> 0 \<longrightarrow> i = i')"

lemma job_ok_later:
  assumes "job_ok stored st c h w j ph" and "goes_on stored st c h w h' w'"
  shows "job_ok stored st c h' w' j ph"
  using assms phase_ok_later [of "jb_work j" "jb_key j" "stored h c (jb_key j)" "st w" ph "st w'" "stored h' c (jb_key j)"]
    mvcc_le_rev(1) [of "st w" "st w'"]
  by (fastforce simp: job_ok_def goes_on_def)

lemma quiet_ok:
  assumes "system_ok invar stored st c s" and "shared_ok invar stored st c h w \<and> goes_on stored st c (sy_history s) (sy_etcd s) h w"
  shows "system_ok invar stored st c (s\<lparr>sy_history := h, sy_etcd := w\<rparr>)"
  using assms job_ok_later [of stored st c "sy_history s" "sy_etcd s"] by (simp add: system_ok_def)

text \<open>A request that ends as done has found the key at the revision that it named.\<close>

lemma finish_fresh:
  assumes "kv_store (jb_kv j) st" and "mvcc_inv (st w)" and "phase_ok (jb_work j) (jb_key j) snaps (st w) ph"
    and "wanted (jb_work j) = Some q" and "advance H j ph h w = (Finished n src, h', w')" and "\<forall>n src. ph \<noteq> Finished n src"
  shows "\<not> gone (st w) (jb_key j) q"
proof -
  obtain v src' where ph: "ph = Writing v (Some q) src'"
  proof (cases ph)
    case Reading
    with assms(5) show ?thesis by (auto split: prod.splits if_splits elim!: afterGet.elims)
  qed (use assms that in \<open>auto simp: afterList_def afterLook_def afterSave_def split: prod.splits sum.splits option.splits if_splits\<close>)
  have "\<exists>t. mvcc_le (st w) t \<and> mod_rev t (jb_key j) = q"
  proof (cases v)
    case None
    then show ?thesis
      using assms(5) ph kv_store.kv_delete [OF assms(1,2), of "jb_key j" "Some q"]
      by (auto split: prod.splits sum.splits if_splits)
  next
    case (Some val)
    then show ?thesis
      using assms(5) ph kv_store.kv_put [OF assms(1,2), of "jb_key j" val "Some q"]
      by (auto split: prod.splits sum.splits)
  qed
  then show ?thesis by (auto simp: gone_def)
qed

context newest_storage begin

lemma call_ok:
  assumes "system_ok invar stored st c s" and "sy_jobs s i = Some (j, ph)"
    and "advance H j ph (sy_history s) (sy_etcd s) = (ph', h', w')"
  shows "system_ok invar stored st c (s\<lparr>sy_history := h', sy_etcd := w', sy_jobs := (sy_jobs s)(i \<mapsto> (j, ph'))\<rparr>)"
proof -
  let ?h = "sy_history s" and ?w = "sy_etcd s" and ?jobs = "(sy_jobs s)(i \<mapsto> (j, ph'))"
  have shared: "shared_ok invar stored st c ?h ?w" and job: "job_ok stored st c ?h ?w j ph"
    and jobs: "sy_jobs s i' = Some (j', p) \<Longrightarrow> job_ok stored st c ?h ?w j' p" for i' j' p
    using assms(1,2) by (auto simp: system_ok_def)
  have "shared_ok invar stored st c h' w' \<and> goes_on stored st c ?h ?w h' w'"
    by (rule advance_goes_on [OF shared _ _ assms(3)]) (use job in \<open>auto simp: job_ok_def\<close>)
  note on = conjunct1 [OF this] conjunct2 [OF this]
  have inv: "mvcc_inv (st ?w)" using shared by (simp add: shared_ok_def)
  have here: "job_ok stored st c h' w' j ph'"
  proof (cases "jb_cluster j = c")
    case True
    with job advance_phase [OF shared _ True _ _ assms(3)] job_ok_later [OF job on(2)]
    show ?thesis by (simp add: job_ok_def client_for_def)
  qed (use job in \<open>simp add: job_ok_def\<close>)
  have fresh: "i' = i" if now: "finished c ?jobs k q i" and other: "finished c (sy_jobs s) k q i'" and "q \<noteq> 0" for k q i'
  proof (cases "\<exists>n src. ph = Finished n src")
    case True
    then have "finished c (sy_jobs s) k q i" using now assms(2,3) by (auto simp: finished_def)
    with assms(1) other \<open>q \<noteq> 0\<close> show ?thesis by (auto simp: system_ok_def)
  next
    case False
    obtain n src where j: "ph' = Finished n src" "jb_cluster j = c" "jb_key j = k" "wanted (jb_work j) = Some q"
      using now by (auto simp: finished_def)
    have "\<not> gone (st ?w) (jb_key j) q"
      by (rule finish_fresh [where st = st, OF _ inv _ j(4) assms(3) [unfolded j(1)]])
        (use job j(2) False in \<open>auto simp: job_ok_def client_for_def\<close>)
    moreover have "gone (st ?w) k q" using other jobs \<open>q \<noteq> 0\<close> by (fastforce simp: finished_def job_ok_def)
    ultimately show ?thesis using j(3) by simp
  qed
  have "i1 = i2" if "finished c ?jobs k q i1" "finished c ?jobs k q i2" "q \<noteq> 0" for k q i1 i2
  proof -
    have old: "finished c (sy_jobs s) k q i'" if "finished c ?jobs k q i'" "i' \<noteq> i" for i'
      using that by (simp add: finished_def)
    show ?thesis
      using that fresh old assms(1) unfolding system_ok_def by metis
  qed
  moreover have "job_ok stored st c h' w' j' p" if "?jobs i' = Some (j', p)" for i' j' p
    using that here job_ok_later [OF jobs on(2)] by (auto split: if_splits)
  ultimately show ?thesis using on(1) by (auto simp: system_ok_def)
qed

lemma interleave_ok:
  assumes "system_ok invar stored st c s" and "interleave H c st s s'"
  shows "system_ok invar stored st c s'"
  using assms(2)
proof cases
  case (arrive i j)
  let ?jobs = "(sy_jobs s)(i \<mapsto> (j, Reading))"
  have "finished c ?jobs k q i' = finished c (sy_jobs s) k q i'" for k q i'
    using arrive(2) by (auto simp: finished_def)
  moreover have "job_ok stored st c (sy_history s) (sy_etcd s) j Reading"
    using arrive(3,4) by (simp add: job_ok_def)
  ultimately show ?thesis using assms(1) arrive(1) by (simp add: system_ok_def)
next
  case (call i j ph ph' h w)
  with call_ok [OF assms(1)] show ?thesis by simp
next
  case (event ev a h)
  have shared: "shared_ok invar stored st c (sy_history s) (sy_etcd s)" using assms(1) by (simp add: system_ok_def)
  have "invar h" "stored h = stored (sy_history s)"
    using audit_law [OF _ event(2)] shared by (auto simp: shared_ok_def)
  with quiet_ok [OF assms(1), of h "sy_etcd s"] same_goes_on [OF shared] event(1) show ?thesis by simp
next
  case (look c' k q n l h)
  have shared: "shared_ok invar stored st c (sy_history s) (sy_etcd s)" using assms(1) by (simp add: system_ok_def)
  have "invar h" "stored h = stored (sy_history s)"
    using list_law [OF _ look(2)] shared by (auto simp: shared_ok_def)
  with quiet_ok [OF assms(1), of h "sy_etcd s"] same_goes_on [OF shared] look(1) show ?thesis by simp
next
  case (others w)
  have "shared_ok invar stored st c (sy_history s) (sy_etcd s)" using assms(1) by (simp add: system_ok_def)
  from etcd_goes_on [OF this others(2)] quiet_ok [OF assms(1), of "sy_history s" w] others(1) show ?thesis by simp
qed

lemma reachable_ok:
  assumes "(interleave H c st)\<^sup>*\<^sup>* s s'" and "system_ok invar stored st c s"
  shows "system_ok invar stored st c s'"
  using assms by (induction rule: rtranclp_induct) (auto intro: interleave_ok)

text \<open>What a conditional write that is done has replaced is in the history.\<close>

lemma write_replaced:
  assumes "system_ok invar stored st c s" and "sy_jobs s i = Some (j, Writing v (Some m) src)" and "jb_cluster j = c" and "m \<noteq> 0"
    and "advance H j (Writing v (Some m) src) (sy_history s) (sy_etcd s) = (Finished n src', h', w')"
  shows "\<exists>t old y. mvcc_le (st (sy_etcd s)) t \<and> current t (jb_key j) = Some old \<and> e_ModRevision old = m \<and>
    mvcc_le (case v of None \<Rightarrow> mdelete (jb_key j) t | Some val \<Rightarrow> mput (jb_key j) val t) (st w') \<and> n = mv_rev t + 1 \<and>
    y \<in> set (stored h' c (jb_key j)) \<and> vs_Entry y = old"
proof -
  let ?w = "sy_etcd s" and ?k = "jb_key j"
  have "job_ok stored st c (sy_history s) ?w j (Writing v (Some m) src)" using assms(1,2) unfolding system_ok_def by blast
  then have K: "kv_store (jb_kv j) st" and ok: "phase_ok (jb_work j) ?k (stored (sy_history s) c ?k) (st ?w) (Writing v (Some m) src)"
    using assms(3) by (auto simp: job_ok_def client_for_def)
  have shared: "mvcc_inv (st ?w)" "truthful (stored (sy_history s)) c (st ?w)"
    using assms(1) by (simp_all add: system_ok_def shared_ok_def)
  have "\<exists>t. mvcc_le (st ?w) t \<and> mod_rev t ?k = m \<and>
      mvcc_le (case v of None \<Rightarrow> mdelete ?k t | Some val \<Rightarrow> mput ?k val t) (st w') \<and>
      n = mv_rev (case v of None \<Rightarrow> mdelete ?k t | Some val \<Rightarrow> mput ?k val t)"
    using assms(5) kv_store.kv_put [OF K shared(1), of ?k "the v" "Some m"] kv_store.kv_delete [OF K shared(1), of ?k "Some m"]
    by (cases v) (auto split: prod.splits sum.splits if_splits)
  then obtain t where t: "mvcc_le (st ?w) t" "mod_rev t ?k = m"
      "mvcc_le (case v of None \<Rightarrow> mdelete ?k t | Some val \<Rightarrow> mput ?k val t) (st w')"
      "n = mv_rev (case v of None \<Rightarrow> mdelete ?k t | Some val \<Rightarrow> mput ?k val t)"
    by blast
  obtain old where old: "current t ?k = Some old" "e_ModRevision old = m"
    using t(2) assms(4) by (auto simp: mod_rev_def split: option.splits)
  have "\<not> gone (st ?w) ?k m" using t(1,2) by (auto simp: gone_def)
  then obtain y where y: "y \<in> set (stored (sy_history s) c ?k)" "m \<le> vs_rev y"
    using ok assms(4) by auto
  have "vs_Entry y = old" using newest_is_current [OF shared(2) y(1) t(1) old(1)] y(2) old(2) by simp
  moreover have "h' = sy_history s" using assms(5) by (cases v) (auto split: prod.splits sum.splits)
  moreover have "n = mv_rev t + 1" using t(4) old(1) by (cases v) (simp_all add: mdelete_def)
  ultimately show ?thesis using t(1,3) old y(1) by blast
qed

end

section \<open>Runs\<close>

text \<open>A run starts with an honest history and no request, and then any calls come, in any order.\<close>

definition reaches ::
    "('h \<Rightarrow> bool) \<Rightarrow> ('h \<Rightarrow> string \<Rightarrow> bytes \<Rightarrow> ValueSnapshot list) \<Rightarrow> 'h HistoryStorage \<Rightarrow> string \<Rightarrow> ('w \<Rightarrow> mvcc) \<Rightarrow>
      ('h, 'w) system \<Rightarrow> bool" where
  "reaches invar stored H c st s \<longleftrightarrow> (\<exists>s0. shared_ok invar stored st c (sy_history s0) (sy_etcd s0) \<and> sy_jobs s0 = Map.empty \<and>
     (interleave H c st)\<^sup>*\<^sup>* s0 s)"

context newest_storage begin

lemma reaches_ok:
  assumes "reaches invar stored H c st s"
  shows "system_ok invar stored st c s"
proof -
  obtain s0 where s0: "shared_ok invar stored st c (sy_history s0) (sy_etcd s0)" "sy_jobs s0 = Map.empty"
      "(interleave H c st)\<^sup>*\<^sup>* s0 s"
    using assms by (auto simp: reaches_def)
  then have "system_ok invar stored st c s0" by (simp add: system_ok_def finished_def)
  with reachable_ok [OF s0(3)] show ?thesis .
qed

lemmas run_replaced = write_replaced [OF reaches_ok]

lemma run_taken_once:
  assumes "reaches invar stored H c st s" and "m \<noteq> 0"
    and "sy_jobs s i = Some (j, Finished n src)" and "jb_cluster j = c" and "wanted (jb_work j) = Some m"
    and "sy_jobs s i' = Some (j', Finished n' src')" and "jb_cluster j' = c" and "wanted (jb_work j') = Some m"
    and "jb_key j' = jb_key j"
  shows "i' = i"
proof -
  have "finished c (sy_jobs s) (jb_key j) m i" "finished c (sy_jobs s) (jb_key j) m i'"
    using assms(3-9) by (auto simp: finished_def)
  with reaches_ok [OF assms(1)] assms(2) show ?thesis by (auto simp: system_ok_def)
qed

text \<open>The archive stays honest, too.\<close>

lemma run_honest:
  assumes "reaches invar stored H c st s" and "y \<in> set (stored (sy_history s) c k)"
  shows "vs_rev y \<le> mv_rev (st (sy_etcd s)) \<and> at_rev (st (sy_etcd s)) k (vs_rev y) = Some (vs_Entry y)"
  using reaches_ok [OF assms(1)] truthfulD [of "stored (sy_history s)" c _ y k] assms(2) by (simp add: system_ok_def shared_ok_def)

end

section \<open>The storage of the server\<close>

text \<open>
  C5. However the calls of concurrent requests, of audit events and of other clients interleave: a
  write, a deletion or a rollback that names the revision it replaces and is done has taken effect
  on the version with this revision, and this version is in the history at that moment. So no
  concurrent save, pruning or write takes away the value that is lost in etcd.
\<close>

theorem concurrent_writes_archived:
  assumes "H = manager_storage U P (local_ops V C A) e0" and "reaches mgr_inv mgr_stored H c st s"
    and "sy_jobs s i = Some (j, Writing v (Some m) src)" and "jb_cluster j = c" and "m \<noteq> 0"
    and "advance H j (Writing v (Some m) src) (sy_history s) (sy_etcd s) = (Finished n src', h', w')"
  shows "\<exists>t old y. mvcc_le (st (sy_etcd s)) t \<and> current t (jb_key j) = Some old \<and> e_ModRevision old = m \<and>
    mvcc_le (case v of None \<Rightarrow> mdelete (jb_key j) t | Some val \<Rightarrow> mput (jb_key j) val t) (st w') \<and> n = mv_rev t + 1 \<and>
    y \<in> set (mgr_stored h' c (jb_key j)) \<and> vs_Entry y = old"
  by (rule hm_newest.run_replaced [OF assms(2-6) [unfolded assms(1)]])

text \<open>
  C6. Of all requests on a key of a cluster that run at the same time and name the same revision as
  the one they replace, one at most ends as done: no update is lost unnoticed.
\<close>

theorem concurrent_revision_taken_once:
  assumes "H = manager_storage U P (local_ops V C A) e0" and "reaches mgr_inv mgr_stored H c st s" and "m \<noteq> 0"
    and "sy_jobs s i = Some (j, Finished n src)" and "jb_cluster j = c" and "wanted (jb_work j) = Some m"
    and "sy_jobs s i' = Some (j', Finished n' src')" and "jb_cluster j' = c" and "wanted (jb_work j') = Some m"
    and "jb_key j' = jb_key j"
  shows "i' = i"
  by (rule hm_newest.run_taken_once [OF assms(2-10) [unfolded assms(1)]])

end
