(* ===== verification/Database_Concurrent.thy ===== *)
theory Database_Concurrent
  imports Database_Server Server_Concurrent
begin

text \<open>
  Concurrent requests over a database: the database as the history storage keeps the newest
  snapshot of a key, too, so the promises of \<open>Server_Concurrent\<close> hold for it.
\<close>

context database begin

lemma db_save_newest:
  assumes "db_inv sha (tables w)" and "0 \<le> keep"
    and "save_and_prune (DatabaseHistory_Save sha D e x) (DatabaseHistory_PruneKey sha D e (vs_ClusterID x) (vs_key x) keep) (h, w) =
      (r, (h', w'))"
    and "y \<in> set (db_stored sha (tables w) c k)"
  shows "\<exists>z \<in> set (db_stored sha (tables w') c k). vs_rev y \<le> vs_rev z"
proof -
  obtain a h1 w1 where save: "DatabaseHistory_Save sha D e x (h, w) = (a, (h1, w1))"
    by (cases "DatabaseHistory_Save sha D e x (h, w)") auto
  note law = save_law [OF assms(1) save]
  have y: "y \<in> set (db_stored sha (tables w1) c k)"
    using law(3) assms(4) subsetD [OF ins_snapshot_superset, of y] by (auto simp: spec_save_def split: if_splits)
  show ?thesis
  proof (cases a)
    case (Inl err)
    then show ?thesis using assms(3) save y by (auto simp: save_and_prune_def)
  next
    case (Inr u)
    then have prune: "DatabaseHistory_PruneKey sha D e (vs_ClusterID x) (vs_key x) keep (h1, w1) = (r, (h', w'))"
      using assms(3) save by (simp add: save_and_prune_def)
    from prune_key_law(5) [OF law(2) prune, of c k] take_newest [OF db_stored_order(1) [OF law(2)] y, of "nat keep"] y
    show ?thesis by auto
  qed
qed

end

sublocale database < dmn: newest_storage "manager_storage U P (database_ops sha V tmo D) e0" "db_mgr_inv sha tables" "db_mgr_stored sha tables"
  for U P V tmo e0
proof (unfold_locales, goal_cases)
  case (1 g x r g' y c k)
  let ?e = "ml_env (mgr_env e0 g)"
  obtain m d w m' w' where g: "mg_state g = (m, d, w)" "mg_state g' = (m', d, w')"
    and save: "HistoryManager_Save (database_ops sha V tmo D) ?e x (m, w) = (r, (m', w'))"
    using 1(2) by (auto simp: manager_storage_def elim: mgr_update_eq)
  have inv: "0 \<le> hm_retentionVersions m" "db_inv sha (tables w)" using 1(1) g by (simp_all add: db_mgr_inv_def)
  obtain b where b: "hm_backend m = Some b" and y: "y \<in> set (db_stored sha (tables w) c k)"
    using 1(3) g by (auto simp: db_mgr_stored_def split: if_splits)
  obtain h' where run: "save_and_prune (DatabaseHistory_Save sha D ?e x)
      (DatabaseHistory_PruneKey sha D ?e (vs_ClusterID x) (vs_key x) (hm_retentionVersions m)) (b, w) = (r, (h', w'))"
    and m': "m' = m\<lparr>hm_backend := Some h'\<rparr>"
    using save b by (auto simp: HistoryManager_Save_def with_backend_def database_ops_def split: prod.splits)
  from db_save_newest [OF inv(2,1) run y] g m' show ?case by (simp add: db_mgr_stored_def)
qed

context database begin

lemma manager_newest:
  "newest_storage (manager_storage U P (database_ops sha V tmo D) e0) (db_mgr_inv sha tables) (db_mgr_stored sha tables)"
  by unfold_locales

end

text \<open>
  C12. With the database backend too, however the calls interleave, a write, a deletion or a rollback
  that names the revision it replaces and is done has taken effect on the version with this revision,
  and this version is a row of the database at that moment.
\<close>

theorem database_concurrent_writes_archived:
  assumes "database D tables clock T sha" and "H = manager_storage U P (database_ops sha V tmo D) e0"
    and "reaches (db_mgr_inv sha tables) (db_mgr_stored sha tables) H c st s"
    and "sy_jobs s i = Some (j, Writing v (Some m) src)" and "jb_cluster j = c" and "m \<noteq> 0"
    and "advance H j (Writing v (Some m) src) (sy_history s) (sy_etcd s) = (Finished n src', h', w')"
  shows "\<exists>t old y. mvcc_le (st (sy_etcd s)) t \<and> current t (jb_key j) = Some old \<and> e_ModRevision old = m \<and>
    mvcc_le (case v of None \<Rightarrow> mdelete (jb_key j) t | Some val \<Rightarrow> mput (jb_key j) val t) (st w') \<and> n = mv_rev t + 1 \<and>
    y \<in> set (db_mgr_stored sha tables h' c (jb_key j)) \<and> vs_Entry y = old"
  by (rule newest_storage.run_replaced [OF database.manager_newest [OF assms(1)] assms(3-7) [unfolded assms(2)]])

end
