(* ===== verification/Concurrent_Instances.thy ===== *)
theory Concurrent_Instances
  imports Database_Concurrent Database_Instances
begin

text \<open>
  Concurrent requests on the small server: two writes that name the same revision, and a write that
  names none.
\<close>

section \<open>A write up to its last call\<close>

definition sample_job :: "int option \<Rightarrow> mvcc job" where
  "sample_job x = \<lparr>jb_cluster = ''78'', jb_kv = Etcd [] ref_client, jb_key = ''k'', jb_work = WPut ''c'' x, jb_clock = (\<lambda>_. 7)\<rparr>"

lemma sample_job_simps [simp]:
  "jb_cluster (sample_job x) = ''78''" "jb_kv (sample_job x) = Etcd [] ref_client" "jb_key (sample_job x) = ''k''"
  "jb_work (sample_job x) = WPut ''c'' x" "jb_clock (sample_job x) i = 7"
  by (simp_all add: sample_job_def)

abbreviation sample_system :: "'h \<Rightarrow> mvcc \<Rightarrow> (nat \<Rightarrow> (mvcc job \<times> phase) option) \<Rightarrow> ('h, mvcc) system" where
  "sample_system h w jobs \<equiv> \<lparr>sy_history = h, sy_etcd = w, sy_jobs = jobs\<rparr>"

abbreviation runs where
  "runs I S H \<equiv> reaches I S H ''78'' (\<lambda>w. w)"

abbreviation run_of where
  "run_of \<equiv> runs mgr_inv mgr_stored sample_history"

lemma sample_client: "client_for c (\<lambda>w. w) (Etcd [] ref_client) c'"
  using kv_store_moves [OF ref.Etcd_kv_store] ref.Etcd_kv_store by (simp add: client_for_def)

lemma run_starts:
  assumes "I h" and "truthful (S h) ''78'' two_versions"
  shows "runs I S H (sample_system h two_versions Map.empty)"
  using assms two_versions_inv
  by (auto simp: reaches_def shared_ok_def intro!: exI [of _ "sample_system h two_versions Map.empty"])

lemma run_step: "runs I S H s \<Longrightarrow> interleave H ''78'' (\<lambda>w. w) s s' \<Longrightarrow> runs I S H s'"
  unfolding reaches_def by (meson rtranclp.rtrancl_into_rtrancl)

lemma run_arrive:
  assumes "runs I S H (sample_system h w jobs)" and "jobs i = None" and "x = None \<or> x = Some 3" and "3 \<le> mv_rev w"
  shows "runs I S H (sample_system h w (jobs(i \<mapsto> (sample_job x, Reading))))"
  using run_step [OF assms(1) interleave.arrive [where i = i and j = "sample_job x"]] assms(2-4) sample_client by auto

lemma run_call:
  assumes "runs I S H (sample_system h w jobs)" and "jobs i = Some (j, ph)" and "advance H j ph h w = (ph', h', w')"
  shows "runs I S H (sample_system h' w' (jobs(i \<mapsto> (j, ph'))))"
  using run_step [OF assms(1) interleave.call [where i = i and j = j and ph = ph]] assms(2,3) by auto

lemma archived_ready:
  assumes "run_of (sample_system h two_versions jobs)" and "jobs i = Some (sample_job x, Reading)"
    and "x = None \<or> x = Some 3" and "accepting h"
  obtains h' where "run_of (sample_system h' two_versions (jobs(i \<mapsto> (sample_job x, Writing (Some ''c'') x []))))" "accepting h'"
    "hst_Save sample_history \<lparr>vs_ClusterID = ''78'', vs_Entry = entry_b, vs_CapturedAt = 7\<rparr> h = (Inr (), h')"
proof -
  let ?mid = "jobs(i \<mapsto> (sample_job x, Archiving entry_b (Some ''c'') x []))"
  have "e_ModRevision entry_b = 3" by (simp add: entry_b_def)
  then have read: "advance sample_history (sample_job x) Reading h two_versions = (Archiving entry_b (Some ''c'') x [], h, two_versions)"
    using assms(3) by (auto simp: ref_reads)
  have mid: "run_of (sample_system h two_versions ?mid)" by (rule run_call [OF assms(1,2) read])
  obtain h' where save: "hst_Save sample_history \<lparr>vs_ClusterID = ''78'', vs_Entry = entry_b, vs_CapturedAt = 7\<rparr> h = (Inr (), h')" "accepting h'"
    using accepting_saves [OF assms(4)] by blast
  have next_: "advance sample_history (sample_job x) (Archiving entry_b (Some ''c'') x []) h two_versions =
      (Writing (Some ''c'') x [], h', two_versions)"
    using save(1) by (simp add: afterSave_def)
  have "run_of (sample_system h' two_versions (?mid(i \<mapsto> (sample_job x, Writing (Some ''c'') x []))))"
    by (rule run_call [OF mid _ next_]) simp
  from that [OF this [unfolded fun_upd_upd] save(2,1)] show thesis .
qed

lemma first_ready:
  assumes "x = None \<or> x = Some 3"
  obtains h where "run_of (sample_system h two_versions [0 \<mapsto> (sample_job x, Writing (Some ''c'') x [])])" "accepting h"
    "hst_Save sample_history \<lparr>vs_ClusterID = ''78'', vs_Entry = entry_b, vs_CapturedAt = 7\<rparr> (sv_history (sample_server None)) = (Inr (), h)"
proof -
  have "run_of (sample_system (sv_history (sample_server None)) two_versions [0 \<mapsto> (sample_job x, Reading)])"
    by (rule run_arrive [OF run_starts _ assms]) (use sample_honest [of "''78''" None] in \<open>simp_all add: honest_def two_versions_def [THEN arg_cong [where f = mv_rev]]\<close>)
  from archived_ready [OF this _ assms sample_accepting, of 0] that show thesis by auto
qed

lemma sample_storage: "sample_history = manager_storage basic_ucd hm_codec (local_ops basic_ucd sample_codec audit_codec) quiet_call"
  by (simp add: sample_history_def)

lemma sample_write:
  "advance sample_history (sample_job (Some 3)) (Writing (Some ''c'') (Some 3) []) h two_versions =
    (Finished 4 [], h, mput ''k'' ''c'' two_versions)"
  by (simp add: ref_reads)

section \<open>The handler of a write\<close>


section \<open>Writes that name a revision\<close>

theorem concurrent_writes_archived_witness:
  "\<exists>h s t y. run_of s \<and> advance sample_history (sample_job (Some 3)) (Writing (Some ''c'') (Some 3) []) (sy_history s) (sy_etcd s) =
       (Finished 4 [], h, mput ''k'' ''c'' two_versions) \<and>
     mvcc_le two_versions t \<and> y \<in> set (mgr_stored h ''78'' ''k'') \<and> current t ''k'' = Some (vs_Entry y) \<and> vs_rev y = 3"
proof -
  obtain h where run: "run_of (sample_system h two_versions [0 \<mapsto> (sample_job (Some 3), Writing (Some ''c'') (Some 3) [])])"
    by (rule first_ready [of "Some 3"]) auto
  have "\<exists>t old y. mvcc_le two_versions t \<and> current t ''k'' = Some old \<and> e_ModRevision old = 3 \<and>
      y \<in> set (mgr_stored h ''78'' ''k'') \<and> vs_Entry y = old"
    using concurrent_writes_archived [OF sample_storage run, of 0 "sample_job (Some 3)" "Some ''c''" 3 "[]"] sample_write by fastforce
  then obtain t old y where "mvcc_le two_versions t" "current t ''k'' = Some old" "e_ModRevision old = 3"
      "y \<in> set (mgr_stored h ''78'' ''k'')" "vs_Entry y = old"
    by blast
  with run sample_write [of h] show ?thesis
    by (intro exI [of _ h] exI [of _ "sample_system h two_versions [0 \<mapsto> (sample_job (Some 3), Writing (Some ''c'') (Some 3) [])]"]
        exI [of _ t] exI [of _ y]) simp
qed

theorem concurrent_revision_taken_once_witness:
  "\<exists>s j ph. run_of s \<and> sy_jobs s 0 = Some (j, Finished 4 []) \<and> sy_jobs s 1 = Some (j, ph) \<and> wanted (jb_work j) = Some 3 \<and>
     \<not> (\<exists>n src. ph = Finished n src)"
proof -
  let ?j = "sample_job (Some 3)" and ?ready = "Writing (Some ''c'') (Some 3) []"
  obtain h where first: "run_of (sample_system h two_versions [0 \<mapsto> (?j, ?ready)])" "accepting h"
    by (rule first_ready [of "Some 3"]) auto
  have "run_of (sample_system h two_versions [0 \<mapsto> (?j, ?ready), 1 \<mapsto> (?j, Reading)])"
    by (rule run_arrive [OF first(1)]) (simp_all add: two_versions_def)
  then obtain h2 where both: "run_of (sample_system h2 two_versions ([0 \<mapsto> (?j, ?ready), 1 \<mapsto> (?j, Reading)](1 \<mapsto> (?j, ?ready))))"
    by (rule archived_ready [of _ _ 1 "Some 3"]) (simp_all add: first(2))
  have "run_of (sample_system h2 (mput ''k'' ''c'' two_versions) ([0 \<mapsto> (?j, ?ready), 1 \<mapsto> (?j, ?ready)](0 \<mapsto> (?j, Finished 4 []))))"
    by (rule run_call [OF both [unfolded fun_upd_upd] _ sample_write]) simp
  moreover obtain ph h3 w where "advance sample_history ?j ?ready h2 (mput ''k'' ''c'' two_versions) = (ph, h3, w)"
    by (metis surj_pair)
  ultimately have end_: "run_of (sample_system h3 w ([0 \<mapsto> (?j, Finished 4 []), 1 \<mapsto> (?j, ph)]))"
    using run_call [of mgr_inv mgr_stored sample_history h2 "mput ''k'' ''c'' two_versions" "[0 \<mapsto> (?j, Finished 4 []), 1 \<mapsto> (?j, ?ready)]" 1 ?j ?ready ph h3 w]
    by (simp add: fun_upd_twist)
  have "\<not> (\<exists>n src. ph = Finished n src)"
    using concurrent_revision_taken_once [OF sample_storage end_, of 3 0 ?j 4 "[]" 1 ?j] by auto
  with end_ show ?thesis
    by (intro exI [of _ "sample_system h3 w ([0 \<mapsto> (?j, Finished 4 []), 1 \<mapsto> (?j, ph)])"] exI [of _ ?j] exI [of _ ph]) simp
qed

section \<open>A write that names none\<close>

text \<open>
  C40. A write that names no revision can lose a value: another client's write between its archiving
  and its own is replaced without having been archived, and the request is done.
\<close>

theorem unconditional_put_loses_value:
  "\<exists>s j h n w old. run_of s \<and> sy_jobs s 0 = Some (j, Writing (Some ''c'') None []) \<and> jb_cluster j = ''78'' \<and> jb_key j = ''k'' \<and>
     advance sample_history j (Writing (Some ''c'') None []) (sy_history s) (sy_etcd s) = (Finished n [], h, w) \<and>
     current (sy_etcd s) ''k'' = Some old \<and> w = mput ''k'' ''c'' (sy_etcd s) \<and> old \<notin> vs_Entry ` set (mgr_stored h ''78'' ''k'')"
proof -
  let ?j = "sample_job None" and ?w = "mput ''k'' ''d'' two_versions"
  obtain h where ready: "run_of (sample_system h two_versions [0 \<mapsto> (?j, Writing (Some ''c'') None [])])"
    and save: "hst_Save sample_history \<lparr>vs_ClusterID = ''78'', vs_Entry = entry_b, vs_CapturedAt = 7\<rparr> (sv_history (sample_server None)) = (Inr (), h)"
    by (rule first_ready [of None]) auto
  have end_: "run_of (sample_system h ?w [0 \<mapsto> (?j, Writing (Some ''c'') None [])])"
    using run_step [OF ready interleave.others [of "\<lambda>w. w" _ ?w]] mput_le [OF two_versions_inv] by simp
  have "mgr_stored (sv_history (sample_server None)) c k = []" for c k
    by (simp add: sample_server_def mgr_stored_def sample_hm_def sample_backend_def fh_abs_def entries_at_def sort_desc_def)
  moreover have "mgr_inv (sv_history (sample_server None))" using sample_honest [of "[]" None] by (simp add: honest_def)
  ultimately have "vs_Entry y = entry_b" if "y \<in> set (mgr_stored h ''78'' ''k'')" for y
    using hm.save_adds [OF _ save [unfolded sample_storage] that] by simp
  moreover have "e_Value (put_entry ''k'' ''d'' two_versions) \<noteq> e_Value entry_b" by (simp add: entry_b_def)
  ultimately have "put_entry ''k'' ''d'' two_versions \<notin> vs_Entry ` set (mgr_stored h ''78'' ''k'')" by fastforce
  moreover have "advance sample_history ?j (Writing (Some ''c'') None []) h ?w = (Finished 5 [], h, mput ''k'' ''c'' ?w)"
    by (simp add: Etcd_def Etcd_Put_def ref_client_def two_versions_def)
  ultimately show ?thesis
    using end_ two_versions_inv
    by (intro exI [of _ "sample_system h ?w [0 \<mapsto> (?j, Writing (Some ''c'') None [])]"] exI [of _ ?j] exI [of _ h] exI [of _ 5]) simp
qed

section \<open>A write over the database\<close>

theorem database_concurrent_writes_archived_witness:
  "\<exists>h s t y. runs (db_mgr_inv (\<lambda>k. k) (\<lambda>w. w)) (db_mgr_stored (\<lambda>k. k) (\<lambda>w. w)) db_history s \<and>
     advance db_history (sample_job (Some 3)) (Writing (Some ''c'') (Some 3) []) (sy_history s) (sy_etcd s) =
       (Finished 4 [], h, mput ''k'' ''c'' two_versions) \<and>
     mvcc_le two_versions t \<and> y \<in> set (db_mgr_stored (\<lambda>k. k) (\<lambda>w. w) h ''78'' ''k'') \<and> current t ''k'' = Some (vs_Entry y) \<and> vs_rev y = 3"
proof -
  let ?I = "db_mgr_inv (\<lambda>k. k) (\<lambda>w. w)" and ?S = "db_mgr_stored (\<lambda>k. k) (\<lambda>w. w)" and ?h0 = "sv_history db_server"
  let ?j = "sample_job (Some 3)" and ?ready = "Writing (Some ''c'') (Some 3) []"
  have rev: "e_ModRevision entry_b = 3" by (simp add: entry_b_def)
  obtain h where save: "hst_Save db_history \<lparr>vs_ClusterID = ''78'', vs_Entry = entry_b, vs_CapturedAt = 7\<rparr> ?h0 = (Inr (), h)"
    using db_snapshot [of db_server] by (auto simp: saveSnapshot_def call_history_def split: prod.splits sum.splits)
  have "runs ?I ?S db_history (sample_system ?h0 two_versions [0 \<mapsto> (?j, Reading)])"
    by (rule run_arrive [OF run_starts]) (use db_honest [of "''78''"] in \<open>simp_all add: honest_def two_versions_def [THEN arg_cong [where f = mv_rev]]\<close>)
  then have "runs ?I ?S db_history (sample_system ?h0 two_versions ([0 \<mapsto> (?j, Reading)](0 \<mapsto> (?j, Archiving entry_b (Some ''c'') (Some 3) []))))"
    by (rule run_call [where ph = Reading]) (use rev in \<open>auto simp: ref_reads\<close>)
  then have "runs ?I ?S db_history (sample_system h two_versions
      ([0 \<mapsto> (?j, Reading), 0 \<mapsto> (?j, Archiving entry_b (Some ''c'') (Some 3) [])](0 \<mapsto> (?j, ?ready))))"
    by (rule run_call [where ph = "Archiving entry_b (Some ''c'') (Some 3) []"]) (simp_all add: save afterSave_def)
  then have run: "runs ?I ?S db_history (sample_system h two_versions [0 \<mapsto> (?j, ?ready)])"
    by (simp only: fun_upd_upd)
  have last: "advance db_history ?j ?ready h two_versions = (Finished 4 [], h, mput ''k'' ''c'' two_versions)"
    by (simp add: ref_reads)
  have "\<exists>t old y. mvcc_le two_versions t \<and> current t ''k'' = Some old \<and> e_ModRevision old = 3 \<and>
      y \<in> set (?S h ''78'' ''k'') \<and> vs_Entry y = old"
    using database_concurrent_writes_archived [OF sample_database db_history_def run, of 0 ?j "Some ''c''" 3 "[]"] last by fastforce
  then obtain t old y where "mvcc_le two_versions t" "current t ''k'' = Some old" "e_ModRevision old = 3"
      "y \<in> set (?S h ''78'' ''k'')" "vs_Entry y = old"
    by blast
  with run last show ?thesis
    by (intro exI [of _ h] exI [of _ "sample_system h two_versions [0 \<mapsto> (?j, ?ready)]"] exI [of _ t] exI [of _ y]) simp
qed

end
